(* ===== verification/Prelude.thy ===== *)
theory Prelude
  imports Main "HOL-Library.Word" "HOL-Library.Finite_Map" "HOL-Library.List_Lexorder"
    "HOL-Library.Multiset"
begin

text \<open>
  Shared vocabulary of the development: fixed-width integers, results of fallible code,
  Rust's checked and saturating arithmetic, the key-value interface behind the node's
  databases, the interface of reversible operations, and the lemmas that the component
  theories use to reason about them.

  A fallible Rust function is a function into \<open>('e, 'a) result\<close>: \<open>Ok\<close> and \<open>Err\<close> are
  Rust's own constructors, \<open>Panic\<close> stands for an unwinding panic (a failed assertion, an
  \<open>expect\<close> on nothing, plain \<open>+\<close>, \<open>-\<close> that overflows in a build with overflow checks,
  a division by zero).
\<close>

named_theorems result_simps \<open>rewriting of results\<close>
named_theorems arith_dest \<open>what a successful checked operation says of the values\<close>
named_theorems store_simps \<open>rewriting of database states\<close>

type_synonym u8 = "8 word"
type_synonym u32 = "32 word"
type_synonym u64 = "64 word"
type_synonym u128 = "128 word"

section \<open>Results\<close>

datatype ('e, 'a) result = Ok 'a | Err 'e | Panic

fun rbind :: "('e, 'a) result \<Rightarrow> ('a \<Rightarrow> ('e, 'b) result) \<Rightarrow> ('e, 'b) result" where
  "rbind (Ok x) f = f x"
| "rbind (Err e) f = Err e"
| "rbind Panic f = Panic"

fun map_err :: "('e \<Rightarrow> 'f) \<Rightarrow> ('e, 'a) result \<Rightarrow> ('f, 'a) result" where
  "map_err f (Ok x) = Ok x"
| "map_err f (Err e) = Err (f e)"
| "map_err f Panic = Panic"

fun ok_or :: "'e \<Rightarrow> 'a option \<Rightarrow> ('e, 'a) result" where
  "ok_or e (Some x) = Ok x"
| "ok_or e None = Err e"

fun expect :: "'a option \<Rightarrow> ('e, 'a) result" where
  "expect (Some x) = Ok x"
| "expect None = Panic"

definition assert_that :: "bool \<Rightarrow> ('e, unit) result" where
  "assert_that b = (if b then Ok () else Panic)"

definition ensure :: "bool \<Rightarrow> 'e \<Rightarrow> ('e, unit) result" where
  "ensure b e = (if b then Ok () else Err e)"

fun try_fold :: "('x \<Rightarrow> 's \<Rightarrow> ('e, 's) result) \<Rightarrow> 'x list \<Rightarrow> 's \<Rightarrow> ('e, 's) result" where
  "try_fold f [] s = Ok s"
| "try_fold f (x # xs) s = rbind (f x s) (try_fold f xs)"

fun try_map :: "('x \<Rightarrow> ('e, 'y) result) \<Rightarrow> 'x list \<Rightarrow> ('e, 'y list) result" where
  "try_map f [] = Ok []"
| "try_map f (x # xs) = rbind (f x) (\<lambda>y. rbind (try_map f xs) (\<lambda>ys. Ok (y # ys)))"

lemma rbind_Ok_iff [result_simps]:
  "rbind m f = Ok y \<longleftrightarrow> (\<exists>x. m = Ok x \<and> f x = Ok y)"
  by (cases m) auto

lemma rbind_Panic_iff:
  "rbind m f = Panic \<longleftrightarrow> m = Panic \<or> (\<exists>x. m = Ok x \<and> f x = Panic)"
  by (cases m) auto

lemma rbind_Err_iff:
  "rbind m f = Err e \<longleftrightarrow> m = Err e \<or> (\<exists>x. m = Ok x \<and> f x = Err e)"
  by (cases m) auto

lemma ok_or_neq_Panic [simp]: "ok_or e m \<noteq> Panic"
  by (cases m) auto

lemma map_err_Panic_iff [simp]: "map_err f m = Panic \<longleftrightarrow> m = Panic"
  by (cases m) auto

lemma map_err_Ok_iff [result_simps, simp]: "map_err f m = Ok y \<longleftrightarrow> m = Ok y"
  by (cases m) auto

lemma ok_or_Ok_iff [result_simps, simp]: "ok_or e m = Ok y \<longleftrightarrow> m = Some y"
  by (cases m) auto

lemma expect_Ok_iff [result_simps, simp]: "expect m = Ok y \<longleftrightarrow> m = Some y"
  by (cases m) auto

lemma assert_that_Ok_iff [result_simps, simp]: "assert_that b = Ok u \<longleftrightarrow> b"
  by (simp add: assert_that_def)

lemma ensure_Ok_iff [result_simps, simp]: "ensure b e = Ok u \<longleftrightarrow> b"
  by (simp add: ensure_def)

lemma assert_that_simps [simp]: "assert_that True = Ok ()" "assert_that False = Panic"
  by (simp_all add: assert_that_def)

lemma ensure_simps [simp]: "ensure True e = Ok ()" "ensure False e = Err e"
  by (simp_all add: ensure_def)

lemma rbind_assoc: "rbind (rbind m f) g = rbind m (\<lambda>x. rbind (f x) g)"
  by (cases m) auto

lemma rbind_Ok_right [simp]: "rbind m Ok = m"
  by (cases m) auto

lemma try_fold_append:
  "try_fold f (xs @ ys) s = rbind (try_fold f xs s) (try_fold f ys)"
proof (induction xs arbitrary: s)
  case (Cons x xs)
  then have "try_fold f (xs @ ys) = (\<lambda>s. rbind (try_fold f xs s) (try_fold f ys))" by blast
  then show ?case by (simp add: rbind_assoc)
qed simp

lemma try_fold_cong:
  "(\<And>x s. x \<in> set xs \<Longrightarrow> f x s = g x s) \<Longrightarrow> try_fold f xs s = try_fold g xs s"
proof (induction xs arbitrary: s)
  case (Cons x xs)
  then have "try_fold f xs = try_fold g xs" by (intro ext) auto
  with Cons.prems show ?case by simp
qed simp

lemma try_map_length: "try_map f xs = Ok ys \<Longrightarrow> length ys = length xs"
  by (induction xs arbitrary: ys) (auto simp: rbind_Ok_iff)

lemma try_map_Ok_iff:
  "try_map f xs = Ok ys \<longleftrightarrow> list_all2 (\<lambda>x y. f x = Ok y) xs ys"
  by (induction xs arbitrary: ys)
    (auto simp: rbind_Ok_iff list_all2_Cons1)

section \<open>Checked arithmetic on machine words\<close>

definition checked_add :: "'a::len word \<Rightarrow> 'a word \<Rightarrow> 'a word option" where
  "checked_add x y = (if unat x + unat y < 2 ^ LENGTH('a) then Some (x + y) else None)"

definition checked_sub :: "'a::len word \<Rightarrow> 'a word \<Rightarrow> 'a word option" where
  "checked_sub x y = (if y \<le> x then Some (x - y) else None)"

definition saturating_add :: "'a::len word \<Rightarrow> 'a word \<Rightarrow> 'a word" where
  "saturating_add x y = (case checked_add x y of Some z \<Rightarrow> z | None \<Rightarrow> - 1)"

text \<open>Plain \<open>+\<close> and \<open>-\<close>, which panic on overflow when overflow checks are on.\<close>

definition add_word :: "'a::len word \<Rightarrow> 'a word \<Rightarrow> ('e, 'a word) result" where
  "add_word x y = expect (checked_add x y)"

definition sub_word :: "'a::len word \<Rightarrow> 'a word \<Rightarrow> ('e, 'a word) result" where
  "sub_word x y = expect (checked_sub x y)"

text \<open>Unsigned \<open>/\<close> and \<open>div_ceil\<close>; both panic on a zero divisor.\<close>

definition div_word :: "'a::len word \<Rightarrow> 'a word \<Rightarrow> ('e, 'a word) result" where
  "div_word x y = (if y = 0 then Panic else Ok (x div y))"

definition div_ceil :: "'a::len word \<Rightarrow> 'a word \<Rightarrow> ('e, 'a word) result" where
  "div_ceil x y =
     (if y = 0 then Panic else Ok (if x mod y = 0 then x div y else x div y + 1))"

text \<open>\<open>u128\<close> to \<open>u64\<close>: the checked conversion \<open>try_into\<close>; the cast \<open>as u64\<close> is \<open>ucast\<close>.\<close>

definition try_into_u64 :: "u128 \<Rightarrow> u64 option" where
  "try_into_u64 x = (if unat x < 2 ^ 64 then Some (ucast x) else None)"

abbreviation as_u128 :: "u64 \<Rightarrow> u128" where
  "as_u128 x \<equiv> ucast x"

abbreviation as_u64 :: "u128 \<Rightarrow> u64" where
  "as_u64 x \<equiv> ucast x"

lemma unat_eqI: "unat x = unat y \<Longrightarrow> x = y"
  by (rule unsigned_word_eqI)

lemma unat_less_pow: "unat (x :: 'a::len word) < 2 ^ LENGTH('a)"
  by (rule unsigned_less)

lemma unat_u64: "unat (x :: u64) < 18446744073709551616"
  using unat_less_pow [of x] by simp

lemma unat_u32: "unat (x :: u32) < 4294967296"
  using unat_less_pow [of x] by simp

lemma checked_add_Some_iff [arith_dest]:
  "checked_add x y = Some z \<longleftrightarrow> unat z = unat x + unat y"
proof
  assume "checked_add x y = Some z"
  then show "unat z = unat x + unat y"
    by (auto simp: checked_add_def unat_word_ariths split: if_splits)
next
  assume a: "unat z = unat x + unat y"
  then have "unat x + unat y < 2 ^ LENGTH('a)"
    by (metis unat_less_pow)
  moreover from this a have "z = x + y"
    by (intro unat_eqI) (simp add: unat_word_ariths)
  ultimately show "checked_add x y = Some z"
    by (simp add: checked_add_def)
qed

lemma checked_add_None_iff [arith_dest]:
  fixes x y :: "'a::len word"
  shows "checked_add x y = None \<longleftrightarrow> 2 ^ LENGTH('a) \<le> unat x + unat y"
  by (auto simp: checked_add_def)

lemma checked_sub_Some_iff [arith_dest]:
  "checked_sub x y = Some z \<longleftrightarrow> unat x = unat z + unat y"
proof
  assume "checked_sub x y = Some z"
  then show "unat x = unat z + unat y"
    by (auto simp: checked_sub_def unat_sub word_le_nat_alt split: if_splits)
next
  assume a: "unat x = unat z + unat y"
  then have le: "y \<le> x" by (simp add: word_le_nat_alt)
  with a have "z = x - y"
    by (intro unat_eqI) (simp add: unat_sub word_le_nat_alt)
  with le show "checked_sub x y = Some z"
    by (simp add: checked_sub_def)
qed

lemma checked_sub_None_iff [arith_dest]: "checked_sub x y = None \<longleftrightarrow> unat x < unat y"
  by (auto simp: checked_sub_def word_le_nat_alt)

lemma add_word_Ok_iff [arith_dest, simp]: "add_word x y = Ok z \<longleftrightarrow> unat z = unat x + unat y"
  by (simp add: add_word_def checked_add_Some_iff)

lemma sub_word_Ok_iff [arith_dest, simp]: "sub_word x y = Ok z \<longleftrightarrow> unat x = unat z + unat y"
  by (simp add: sub_word_def checked_sub_Some_iff)

lemma sub_word_Ok: "unat y \<le> unat x \<Longrightarrow> sub_word x y = Ok (x - y)"
  by (simp add: unat_sub word_le_nat_alt)

lemma add_word_Ok:
  fixes x y :: "'a::len word"
  shows "unat x + unat y < 2 ^ LENGTH('a) \<Longrightarrow> add_word x y = Ok (x + y)"
  by (simp add: unat_word_ariths)

lemma unat_div_word [simp]: "unat (x div y) = unat x div unat (y :: 'a::len word)"
  by (rule unat_div)

lemma div_ceil_unat:
  fixes x y :: "'a::len word"
  assumes "div_ceil x y = Ok q"
  shows "0 < unat y" and "unat x \<le> unat q * unat y" and "unat q * unat y < unat x + unat y"
proof -
  from assms have y0: "y \<noteq> 0" and q: "q = (if x mod y = 0 then x div y else x div y + 1)"
    by (auto simp: div_ceil_def split: if_splits)
  from y0 show pos: "0 < unat y"
    by (simp add: unat_gt_0)
  define a b where "a = unat x" and "b = unat y"
  have b: "0 < b" using pos by (simp add: b_def)
  have m: "unat (x mod y) = a mod b" by (simp add: a_def b_def unat_mod)
  have d: "a = a div b * b + a mod b" by simp
  have lt: "a mod b < b" using b by simp
  have "unat q = (if a mod b = 0 then a div b else a div b + 1)"
  proof (cases "x mod y = 0")
    case True
    then have "a mod b = 0" using m by (metis unat_0)
    with True q show ?thesis by (simp add: a_def b_def)
  next
    case False
    then have ne: "a mod b \<noteq> 0" using m by (metis unat_eq_zero)
    have "a div b + 1 \<le> a"
    proof -
      have "b \<noteq> 1" using ne by auto
      then have "2 \<le> b" using b by simp
      then have "a div b * 2 \<le> a div b * b" by simp
      moreover have "1 \<le> a mod b" using ne by simp
      ultimately show ?thesis using d by linarith
    qed
    also have "a < 2 ^ LENGTH('a)" by (simp add: a_def unat_less_pow)
    finally have "unat (x div y + 1) = a div b + 1"
      by (simp add: unat_word_ariths a_def b_def)
    with False q ne show ?thesis by simp
  qed
  moreover have "a \<le> (a div b + 1) * b" and "a div b * b \<le> a"
    using d lt unfolding distrib_right by linarith+
  moreover have "a div b * b < a + b" using \<open>a div b * b \<le> a\<close> b by linarith
  moreover have "(a div b + 1) * b < a + b" if "a mod b \<noteq> 0"
    using d that unfolding distrib_right by linarith
  moreover have "a \<le> a div b * b" if "a mod b = 0"
    using d that by linarith
  ultimately have "a \<le> unat q * b \<and> unat q * b < a + b"
    by (cases "a mod b = 0") simp_all
  then show "unat x \<le> unat q * unat y" and "unat q * unat y < unat x + unat y"
    by (simp_all add: a_def b_def)
qed

lemma div_ceil_Ok: "unat y \<noteq> 0 \<Longrightarrow> \<exists>q. div_ceil x y = Ok q"
  by (auto simp: div_ceil_def)

lemma unat_as_u128 [simp]: "unat (as_u128 x) = unat x"
  by (simp add: unsigned_ucast_eq take_bit_nat_eq_self unat_less_pow [THEN order_less_trans])

lemma unat_mul_u128 [simp]: "unat (as_u128 x * as_u128 y) = unat x * unat y"
proof -
  have "unat x * unat y < 2 ^ 64 * 2 ^ 64"
    by (rule mult_strict_mono) (use unat_less_pow [of x] unat_less_pow [of y] in auto)
  then have "unat x * unat y < 2 ^ 128" by simp
  then show ?thesis by (simp add: unat_word_ariths)
qed

lemma unat_add_u128 [simp]: "unat (as_u128 x + as_u128 y) = unat x + unat y"
proof -
  have "unat x + unat y < 2 ^ 128"
    using unat_u64 [of x] unat_u64 [of y] by simp
  then show ?thesis by (simp add: unat_word_ariths)
qed

lemma unat_as_u64: "unat x < 2 ^ 64 \<Longrightarrow> unat (as_u64 x) = unat x"
  by (simp add: unsigned_ucast_eq take_bit_nat_eq_self)

lemma try_into_u64_Some_iff [arith_dest, simp]: "try_into_u64 x = Some z \<longleftrightarrow> unat z = unat x"
proof
  assume "try_into_u64 x = Some z"
  then show "unat z = unat x"
    by (auto simp: try_into_u64_def unat_as_u64 split: if_splits)
next
  assume a: "unat z = unat x"
  then have lt: "unat x < 2 ^ 64" using unat_less_pow [of z] by simp
  with a have "z = as_u64 x" by (intro unat_eqI) (simp add: unat_as_u64)
  with lt show "try_into_u64 x = Some z" by (simp add: try_into_u64_def)
qed

end
