(* ===== verification/Database.thy ===== *)
theory Database
  imports Prelude
begin

text \<open>
  The databases of the node. Each \<open>DatabaseUnique\<close> of \<open>lib/state/mod.rs\<close> is an ordered
  key-value table; its contents are a finite map. \<open>try_get\<close>, \<open>put\<close> and \<open>delete\<close> are
  lookup, update and removal; \<open>delete\<close> also answers whether the key was present; \<open>last\<close>
  answers the entry whose \<^emph>\<open>encoded\<close> key is greatest, since the store orders keys by
  their bytes. Failures of the storage engine itself are not modelled.

  The interface of a table is the locale \<open>kv_store\<close>; its consequences for sequences of
  updates (independence of the order, undoing them) are proved there once and used for
  every table through the interpretation \<open>db\<close> on finite maps. The locales \<open>stepwise\<close>
  and \<open>reversible\<close> do the same for operations that keep an invariant and for operations
  that come with an inverse.
\<close>

section \<open>The key-value interface\<close>

lemma map_of_rev_distinct: "distinct (map fst kvs) \<Longrightarrow> map_of (rev kvs) = map_of kvs"
  by (subst map_of_inject_set) (auto simp: rev_map [symmetric])

locale kv_store =
  fixes get :: "'m \<Rightarrow> 'k \<Rightarrow> 'v option"
    and put :: "'k \<Rightarrow> 'v \<Rightarrow> 'm \<Rightarrow> 'm"
    and del :: "'k \<Rightarrow> 'm \<Rightarrow> 'm"
  assumes get_put: "get (put k v m) k' = (if k = k' then Some v else get m k')"
    and get_del: "get (del k m) k' = (if k = k' then None else get m k')"
    and store_ext: "(\<And>k. get m k = get m' k) \<Longrightarrow> m = m'"
begin

definition put_all :: "('k \<times> 'v) list \<Rightarrow> 'm \<Rightarrow> 'm" where
  "put_all kvs m = fold (\<lambda>(k, v). put k v) kvs m"

definition del_all :: "'k list \<Rightarrow> 'm \<Rightarrow> 'm" where
  "del_all ks m = fold del ks m"

lemma del_put_fresh: "get m k = None \<Longrightarrow> del k (put k v m) = m"
  by (rule store_ext) (auto simp: get_put get_del)

lemma put_get_same: "get m k = Some v \<Longrightarrow> put k v m = m"
  by (rule store_ext) (auto simp: get_put)

lemma put_del_present: "get m k = Some v \<Longrightarrow> put k v (del k m) = m"
  by (rule store_ext) (auto simp: get_put get_del)

lemma put_put_same: "put k v (put k w m) = put k v m"
  by (rule store_ext) (auto simp: get_put)

lemma put_commute: "k \<noteq> k' \<Longrightarrow> put k v (put k' w m) = put k' w (put k v m)"
  by (rule store_ext) (auto simp: get_put)

lemma put_del_commute: "k \<noteq> k' \<Longrightarrow> put k v (del k' m) = del k' (put k v m)"
  by (rule store_ext) (auto simp: get_put get_del)

lemma del_commute: "del k (del k' m) = del k' (del k m)"
  by (rule store_ext) (auto simp: get_del)

lemma del_absent: "get m k = None \<Longrightarrow> del k m = m"
  by (rule store_ext) (auto simp: get_del)

lemma get_put_all:
  "get (put_all kvs m) k = (case map_of (rev kvs) k of Some v \<Rightarrow> Some v | None \<Rightarrow> get m k)"
  unfolding put_all_def
  by (induction kvs arbitrary: m)
    (auto simp: get_put map_add_def split: option.splits if_splits)

lemma get_del_all: "get (del_all ks m) k = (if k \<in> set ks then None else get m k)"
  unfolding del_all_def by (induction ks arbitrary: m) (auto simp: get_del)

lemma get_put_all_distinct:
  "distinct (map fst kvs) \<Longrightarrow>
     get (put_all kvs m) k = (case map_of kvs k of Some v \<Rightarrow> Some v | None \<Rightarrow> get m k)"
  by (simp add: get_put_all map_of_rev_distinct)

text \<open>The order in which distinct keys are written does not matter.\<close>

lemma put_all_perm:
  assumes "distinct (map fst kvs)" and "mset kvs = mset kvs'"
  shows "put_all kvs m = put_all kvs' m"
proof (rule store_ext)
  fix k
  from assms(2) have "mset (map fst kvs) = mset (map fst kvs')"
    by (metis mset_map)
  with assms(1) have d: "distinct (map fst kvs')"
    by (metis mset_eq_imp_distinct_iff)
  from assms(2) have "set kvs = set kvs'" by (rule mset_eq_setD)
  with assms(1) d have "map_of kvs = map_of kvs'"
    using map_of_inject_set by blast
  then show "get (put_all kvs m) k = get (put_all kvs' m) k"
    using assms(1) d by (simp add: get_put_all_distinct)
qed

lemma del_all_set: "set ks = set ks' \<Longrightarrow> del_all ks m = del_all ks' m"
  by (rule store_ext) (simp add: get_del_all)

text \<open>Writing fresh keys and removing them again restores the table.\<close>

lemma del_all_put_all:
  assumes "set ks = fst ` set kvs" and "\<And>k. k \<in> set ks \<Longrightarrow> get m k = None"
  shows "del_all ks (put_all kvs m) = m"
proof (rule store_ext)
  fix k
  show "get (del_all ks (put_all kvs m)) k = get m k"
  proof (cases "k \<in> set ks")
    case False
    then have "map_of (rev kvs) k = None"
      using assms(1) by (simp add: map_of_eq_None_iff)
    with False show ?thesis by (simp add: get_del_all get_put_all)
  qed (simp add: get_del_all assms(2))
qed

text \<open>Removing present keys and writing their values back restores the table.\<close>

lemma put_all_del_all:
  assumes "set ks = fst ` set kvs" and "\<And>k v. (k, v) \<in> set kvs \<Longrightarrow> get m k = Some v"
  shows "put_all kvs (del_all ks m) = m"
proof (rule store_ext)
  fix k
  show "get (put_all kvs (del_all ks m)) k = get m k"
  proof (cases "map_of (rev kvs) k")
    case None
    then have "k \<notin> set ks"
      using assms(1) by (simp add: map_of_eq_None_iff)
    with None show ?thesis by (simp add: get_del_all get_put_all)
  next
    case (Some v)
    then have "(k, v) \<in> set kvs" by (metis map_of_SomeD set_rev)
    with Some show ?thesis by (simp add: get_put_all assms(2))
  qed
qed

end

interpretation db: kv_store "fmlookup" "fmupd" "fmdrop"
  by unfold_locales (auto simp: fmap_ext)

lemmas [store_simps] = db.get_put db.get_del db.get_put_all db.get_del_all

section \<open>Iteration and the last entry\<close>

text \<open>
  \<open>db_keys enc m\<close> lists the keys in the order of their encodings, as a cursor does.
\<close>

definition db_keys :: "('k::linorder \<Rightarrow> 'b::linorder) \<Rightarrow> ('k, 'v) fmap \<Rightarrow> 'k list" where
  "db_keys enc m = sort_key enc (sorted_list_of_fset (fmdom m))"

definition db_iter :: "('k::linorder \<Rightarrow> 'b::linorder) \<Rightarrow> ('k, 'v) fmap \<Rightarrow> ('k \<times> 'v) list" where
  "db_iter enc m = map (\<lambda>k. (k, the (fmlookup m k))) (db_keys enc m)"

definition db_last :: "('k::linorder \<Rightarrow> 'b::linorder) \<Rightarrow> ('k, 'v) fmap \<Rightarrow> ('k \<times> 'v) option" where
  "db_last enc m = (case db_iter enc m of [] \<Rightarrow> None | e # es \<Rightarrow> Some (last (e # es)))"

lemma set_db_keys [simp]: "set (db_keys enc m) = fmdom' m"
  by (simp add: db_keys_def fmdom'_alt_def)

lemma distinct_db_keys [simp]: "distinct (db_keys enc m)"
  by (simp add: db_keys_def sorted_list_of_fset.rep_eq)

lemma sorted_db_keys: "sorted (map enc (db_keys enc m))"
  by (simp add: db_keys_def)

lemma db_iter_lookup: "(k, v) \<in> set (db_iter enc m) \<longleftrightarrow> fmlookup m k = Some v"
  by (auto simp: db_iter_def fmlookup_dom'_iff)

lemma map_fst_db_iter [simp]: "map fst (db_iter enc m) = db_keys enc m"
  by (simp add: db_iter_def comp_def)

lemma db_iter_Nil_iff [simp]: "db_iter enc m = [] \<longleftrightarrow> m = fmempty"
proof
  assume "db_iter enc m = []"
  then have "\<And>k. fmlookup m k = None"
    using db_iter_lookup [of _ _ enc m] by (metis empty_iff list.set(1) option.exhaust)
  then show "m = fmempty" by (intro fmap_ext) simp
next
  assume "m = fmempty"
  then show "db_iter enc m = []"
    using db_iter_lookup [of _ _ enc m] by (metis fmempty_lookup last_in_set option.distinct(1) surj_pair)
qed

lemma db_last_None_iff: "db_last enc m = None \<longleftrightarrow> m = fmempty"
  using db_iter_Nil_iff [of enc m] by (cases "db_iter enc m") (simp_all add: db_last_def del: db_iter_Nil_iff)

lemma db_last_Some:
  assumes "db_last enc m = Some (k, v)"
  shows "fmlookup m k = Some v" and "\<And>k'. k' \<in> fmdom' m \<Longrightarrow> enc k' \<le> enc k"
proof -
  from assms have ne: "db_iter enc m \<noteq> []" and l: "last (db_iter enc m) = (k, v)"
    by (cases "db_iter enc m"; simp add: db_last_def)+
  then show "fmlookup m k = Some v"
    using db_iter_lookup [of k v enc m] by (metis last_in_set)
  have ne': "db_keys enc m \<noteq> []"
    using ne map_fst_db_iter [of enc m] by (metis map_is_Nil_conv)
  have "last (db_keys enc m) = k"
    using l ne by (metis fst_conv last_map map_fst_db_iter)
  fix k' assume "k' \<in> fmdom' m"
  then have "k' \<in> set (db_keys enc m)" by simp
  then obtain i where i: "i < length (db_keys enc m)" "db_keys enc m ! i = k'"
    by (metis in_set_conv_nth)
  have "map enc (db_keys enc m) ! i \<le> map enc (db_keys enc m) ! (length (db_keys enc m) - 1)"
    by (rule sorted_nth_mono [OF sorted_db_keys]) (use i in auto)
  then show "enc k' \<le> enc k"
    using i ne' \<open>last (db_keys enc m) = k\<close> by (simp add: last_conv_nth)
qed

text \<open>The last entry is the one whose key dominates all others, when encodings differ.\<close>

lemma db_last_eqI:
  assumes inj: "inj_on enc (fmdom' m)" and k: "fmlookup m k = Some v"
    and max: "\<And>k'. k' \<in> fmdom' m \<Longrightarrow> enc k' \<le> enc k"
  shows "db_last enc m = Some (k, v)"
proof (cases "db_last enc m")
  case None
  then show ?thesis using k by (simp add: db_last_None_iff)
next
  case (Some kv)
  then obtain k' v' where kv: "db_last enc m = Some (k', v')" by (cases kv) auto
  from db_last_Some(1) [OF kv] have k': "k' \<in> fmdom' m" by (simp add: fmdom'I)
  from k have kd: "k \<in> fmdom' m" by (simp add: fmdom'I)
  from db_last_Some(2) [OF kv kd] max [OF k'] have "enc k' = enc k" by simp
  with inj k' kd have "k' = k" by (meson inj_onD)
  with kv db_last_Some(1) [OF kv] k show ?thesis by simp
qed

section \<open>Totals over a table\<close>

definition db_total :: "('v \<Rightarrow> nat) \<Rightarrow> ('k, 'v) fmap \<Rightarrow> nat" where
  "db_total f m = (\<Sum>k\<in>fmdom' m. f (the (fmlookup m k)))"

lemma db_total_empty [simp]: "db_total f fmempty = 0"
  by (simp add: db_total_def)

lemma db_total_drop: "fmlookup m k = Some v \<Longrightarrow> db_total f m = db_total f (fmdrop k m) + f v"
proof -
  assume a: "fmlookup m k = Some v"
  then have k: "k \<in> fmdom' m" by (simp add: fmdom'I)
  have "db_total f m = f (the (fmlookup m k)) + (\<Sum>k'\<in>fmdom' m - {k}. f (the (fmlookup m k')))"
    unfolding db_total_def by (rule sum.remove) (use k in auto)
  also have "(\<Sum>k'\<in>fmdom' m - {k}. f (the (fmlookup m k'))) = db_total f (fmdrop k m)"
    unfolding db_total_def by (rule sum.cong) auto
  finally show ?thesis using a by simp
qed

lemma db_total_put_fresh:
  "fmlookup m k = None \<Longrightarrow> db_total f (fmupd k v m) = db_total f m + f v"
  using db_total_drop [of "fmupd k v m" k v f] by (simp add: db.del_put_fresh)

lemma db_total_put_le: "db_total f (fmupd k v m) \<le> db_total f m + f v"
proof (cases "fmlookup m k")
  case None
  then show ?thesis by (simp add: db_total_put_fresh)
next
  case (Some w)
  have "fmupd k v m = fmupd k v (fmdrop k m)"
    by (rule fmap_ext) simp
  then have "db_total f (fmupd k v m) = db_total f (fmdrop k m) + f v"
    by (simp add: db_total_put_fresh)
  then show ?thesis using db_total_drop [OF Some, of f] by simp
qed

lemma db_total_put_all_le:
  "db_total f (db.put_all kvs m) \<le> db_total f m + sum_list (map (\<lambda>kv. f (snd kv)) kvs)"
proof (induction kvs arbitrary: m)
  case (Cons kv kvs)
  obtain k v where kv: "kv = (k, v)" by (cases kv)
  have "db_total f (db.put_all (kv # kvs) m)
      \<le> db_total f (fmupd k v m) + sum_list (map (\<lambda>kv. f (snd kv)) kvs)"
    using Cons.IH [of "fmupd k v m"] kv by (simp add: db.put_all_def)
  then show ?case using db_total_put_le [of f k v m] kv by simp
qed (simp add: db.put_all_def)

lemma db_total_put_all_fresh:
  assumes "distinct (map fst kvs)" and "\<And>k. k \<in> fst ` set kvs \<Longrightarrow> fmlookup m k = None"
  shows "db_total f (db.put_all kvs m) = db_total f m + sum_list (map (\<lambda>kv. f (snd kv)) kvs)"
  using assms
proof (induction kvs arbitrary: m)
  case (Cons kv kvs)
  obtain k v where kv: "kv = (k, v)" by (cases kv)
  have "db_total f (db.put_all kvs (fmupd k v m))
      = db_total f (fmupd k v m) + sum_list (map (\<lambda>kv. f (snd kv)) kvs)"
    by (rule Cons.IH) (use Cons.prems kv in auto)
  then show ?case
    using Cons.prems kv db_total_put_fresh [of m k f v] by (simp add: db.put_all_def)
qed (simp add: db.put_all_def)

lemma db_total_del_all:
  assumes "distinct (map fst kvs)" and "\<And>k v. (k, v) \<in> set kvs \<Longrightarrow> fmlookup m k = Some v"
  shows "db_total f m = db_total f (db.del_all (map fst kvs) m) + sum_list (map (\<lambda>kv. f (snd kv)) kvs)"
  using assms
proof (induction kvs arbitrary: m)
  case (Cons kv kvs)
  obtain k v where kv: "kv = (k, v)" by (cases kv)
  have "db_total f (fmdrop k m)
      = db_total f (db.del_all (map fst kvs) (fmdrop k m)) + sum_list (map (\<lambda>kv. f (snd kv)) kvs)"
    by (rule Cons.IH) (use Cons.prems kv in \<open>force simp: image_iff\<close>)+
  then show ?case
    using db_total_drop [of m k v f] Cons.prems(2) [of k v] kv by (simp add: db.del_all_def)
qed (simp add: db.del_all_def)

section \<open>Operations that keep an invariant, operations with an inverse\<close>

locale stepwise =
  fixes step :: "'op \<Rightarrow> 's \<Rightarrow> ('e, 's) result"
    and inv :: "'s \<Rightarrow> bool"
  assumes step_inv: "inv s \<Longrightarrow> step x s = Ok s' \<Longrightarrow> inv s'"
begin

lemma try_fold_inv: "inv s \<Longrightarrow> try_fold step xs s = Ok s' \<Longrightarrow> inv s'"
  by (induction xs arbitrary: s) (auto simp: rbind_Ok_iff intro: step_inv)

end

locale reversible =
  fixes apply_op :: "'op \<Rightarrow> 's \<Rightarrow> ('e, 's) result"
    and revert_op :: "'op \<Rightarrow> 's \<Rightarrow> ('e, 's) result"
    and fits :: "'op \<Rightarrow> 's \<Rightarrow> bool"
  assumes revert_apply: "fits x s \<Longrightarrow> apply_op x s = Ok s' \<Longrightarrow> revert_op x s' = Ok s"
begin

fun fits_all :: "'op list \<Rightarrow> 's \<Rightarrow> bool" where
  "fits_all [] s = True"
| "fits_all (x # xs) s = (fits x s \<and> (\<forall>s'. apply_op x s = Ok s' \<longrightarrow> fits_all xs s'))"

lemma revert_all:
  "fits_all xs s \<Longrightarrow> try_fold apply_op xs s = Ok s' \<Longrightarrow> try_fold revert_op (rev xs) s' = Ok s"
proof (induction xs arbitrary: s)
  case (Cons x xs)
  from Cons.prems(2) obtain t where t: "apply_op x s = Ok t" "try_fold apply_op xs t = Ok s'"
    by (auto simp: rbind_Ok_iff)
  have "try_fold revert_op (rev xs) s' = Ok t"
    by (rule Cons.IH) (use Cons.prems(1) t in auto)
  moreover have "revert_op x t = Ok s"
    by (rule revert_apply) (use Cons.prems(1) t in auto)
  ultimately show ?case by (simp add: try_fold_append)
qed simp

end

end
