(* ===== verification/Types.thy ===== *)
theory Types
  imports Database
begin

text \<open>
  The data of the chain: identifiers (\<open>lib/types/hashes.rs\<close>), outpoints and their
  fixed-width database keys, output contents before and after filling
  (\<open>lib/types/transaction/output.rs\<close>), transactions and their payloads
  (\<open>lib/types/transaction/mod.rs\<close>), headers and bodies (\<open>lib/types/mod.rs\<close>), and the
  record \<open>externs\<close> of what the code takes from other crates.

  The newtypes around 32-byte arrays are 256-bit words: the big-endian reading of the
  bytes, whose numeric order is the byte order that Rust derives for arrays.
  \<open>bitcoin::Amount\<close> is its number of satoshis, a \<open>u64\<close>.
\<close>

section \<open>Identifiers\<close>

type_synonym hash = "256 word"
type_synonym Txid = hash
type_synonym CoinbaseTxid = hash
type_synonym BlockHash = hash
type_synonym MerkleRoot = hash
type_synonym BitAssetId = hash
type_synonym DutchAuctionId = Txid
type_synonym M6id = hash
type_synonym bitcoin_BlockHash = hash
type_synonym Address = "160 word"
type_synonym VerifyingKey = hash
type_synonym EncryptionPubKey = hash
type_synonym Signature = "512 word"
type_synonym main_address = "u8 list"

datatype AssetId =
    A_Bitcoin
  | A_BitAsset BitAssetId
  | A_BitAssetControl BitAssetId

text \<open>The derived order: by variant, then by content.\<close>

fun asset_rank :: "AssetId \<Rightarrow> nat" where
  "asset_rank A_Bitcoin = 0"
| "asset_rank (A_BitAsset _) = 1"
| "asset_rank (A_BitAssetControl _) = 2"

fun asset_hash :: "AssetId \<Rightarrow> hash" where
  "asset_hash A_Bitcoin = 0"
| "asset_hash (A_BitAsset h) = h"
| "asset_hash (A_BitAssetControl h) = h"

lemma asset_rank_hash_inj: "asset_rank a = asset_rank b \<Longrightarrow> asset_hash a = asset_hash b \<Longrightarrow> a = b"
  by (cases a; cases b) auto

instantiation AssetId :: linorder
begin

definition less_eq_AssetId :: "AssetId \<Rightarrow> AssetId \<Rightarrow> bool" where
  "less_eq_AssetId a b \<longleftrightarrow> asset_rank a < asset_rank b \<or>
     asset_rank a = asset_rank b \<and> asset_hash a \<le> asset_hash b"

definition less_AssetId :: "AssetId \<Rightarrow> AssetId \<Rightarrow> bool" where
  "less_AssetId a b \<longleftrightarrow> asset_rank a < asset_rank b \<or>
     asset_rank a = asset_rank b \<and> asset_hash a < asset_hash b"

instance
  by standard (auto simp: less_eq_AssetId_def less_AssetId_def intro: asset_rank_hash_inj)

end

datatype OutPoint =
    OpRegular Txid u32
  | OpCoinbase CoinbaseTxid u32
  | OpDeposit hash u32

datatype InPoint = IpRegular Txid u32 | IpWithdrawal M6id

fun outpoint_rank :: "OutPoint \<Rightarrow> nat" where
  "outpoint_rank (OpRegular _ _) = 0"
| "outpoint_rank (OpCoinbase _ _) = 1"
| "outpoint_rank (OpDeposit _ _) = 2"

fun outpoint_hash :: "OutPoint \<Rightarrow> hash" where
  "outpoint_hash (OpRegular h _) = h"
| "outpoint_hash (OpCoinbase h _) = h"
| "outpoint_hash (OpDeposit h _) = h"

fun outpoint_vout :: "OutPoint \<Rightarrow> u32" where
  "outpoint_vout (OpRegular _ v) = v"
| "outpoint_vout (OpCoinbase _ v) = v"
| "outpoint_vout (OpDeposit _ v) = v"

lemma outpoint_inj:
  "outpoint_rank a = outpoint_rank b \<Longrightarrow> outpoint_hash a = outpoint_hash b \<Longrightarrow>
     outpoint_vout a = outpoint_vout b \<Longrightarrow> a = b"
  by (cases a; cases b) auto

instantiation OutPoint :: linorder
begin

definition less_eq_OutPoint :: "OutPoint \<Rightarrow> OutPoint \<Rightarrow> bool" where
  "less_eq_OutPoint a b \<longleftrightarrow> outpoint_rank a < outpoint_rank b \<or>
     outpoint_rank a = outpoint_rank b \<and> (outpoint_hash a < outpoint_hash b \<or>
       outpoint_hash a = outpoint_hash b \<and> outpoint_vout a \<le> outpoint_vout b)"

definition less_OutPoint :: "OutPoint \<Rightarrow> OutPoint \<Rightarrow> bool" where
  "less_OutPoint a b \<longleftrightarrow> outpoint_rank a < outpoint_rank b \<or>
     outpoint_rank a = outpoint_rank b \<and> (outpoint_hash a < outpoint_hash b \<or>
       outpoint_hash a = outpoint_hash b \<and> outpoint_vout a < outpoint_vout b)"

instance
  by standard (auto simp: less_eq_OutPoint_def less_OutPoint_def intro: outpoint_inj)

end

section \<open>Outputs\<close>

record WithdrawalContent =
  wc_value :: u64
  wc_main_fee :: u64
  wc_main_address :: main_address

datatype Content =
    C_AmmLpToken u64
  | C_Bitcoin u64
  | C_BitAsset u64
  | C_BitAssetControl
  | C_BitAssetReservation
  | C_DutchAuctionReceipt
  | C_Withdrawal WithdrawalContent

datatype FilledContent =
    F_AmmLpToken AssetId AssetId u64
  | F_Bitcoin u64
  | F_BitcoinWithdrawal WithdrawalContent
  | F_BitAsset BitAssetId u64
  | F_BitAssetControl BitAssetId
  | F_BitAssetReservation Txid hash
  | F_DutchAuctionReceipt DutchAuctionId

record 'c Output =
  out_address :: Address
  out_content :: 'c
  out_memo :: "u8 list"

type_synonym TxOutput = "Content Output"
type_synonym FilledOutput = "FilledContent Output"

record SpentOutput =
  so_output :: FilledOutput
  so_inpoint :: InPoint

fun content_is_bitasset :: "Content \<Rightarrow> bool" where
  "content_is_bitasset (C_BitAsset _) = True"
| "content_is_bitasset _ = False"

fun content_is_bitasset_control :: "Content \<Rightarrow> bool" where
  "content_is_bitasset_control C_BitAssetControl = True"
| "content_is_bitasset_control _ = False"

fun content_is_reservation :: "Content \<Rightarrow> bool" where
  "content_is_reservation C_BitAssetReservation = True"
| "content_is_reservation _ = False"

definition withdrawal_get_bitcoin_value :: "WithdrawalContent \<Rightarrow> u64" where
  "withdrawal_get_bitcoin_value w =
     (case checked_add (wc_value w) (wc_main_fee w) of Some v \<Rightarrow> v | None \<Rightarrow> - 1)"

fun content_get_bitcoin_value :: "Content \<Rightarrow> u64" where
  "content_get_bitcoin_value (C_AmmLpToken _) = 0"
| "content_get_bitcoin_value (C_BitAsset _) = 0"
| "content_get_bitcoin_value C_BitAssetControl = 0"
| "content_get_bitcoin_value C_BitAssetReservation = 0"
| "content_get_bitcoin_value C_DutchAuctionReceipt = 0"
| "content_get_bitcoin_value (C_Bitcoin value) = value"
| "content_get_bitcoin_value (C_Withdrawal withdrawal) = withdrawal_get_bitcoin_value withdrawal"

text \<open>Forgetting what filling added.\<close>

fun content_of_filled :: "FilledContent \<Rightarrow> Content" where
  "content_of_filled (F_AmmLpToken _ _ amount) = C_AmmLpToken amount"
| "content_of_filled (F_Bitcoin value) = C_Bitcoin value"
| "content_of_filled (F_BitcoinWithdrawal withdrawal) = C_Withdrawal withdrawal"
| "content_of_filled (F_BitAsset _ value) = C_BitAsset value"
| "content_of_filled (F_BitAssetControl _) = C_BitAssetControl"
| "content_of_filled (F_BitAssetReservation _ _) = C_BitAssetReservation"
| "content_of_filled (F_DutchAuctionReceipt _) = C_DutchAuctionReceipt"

definition filled_get_bitcoin_value :: "FilledContent \<Rightarrow> u64" where
  "filled_get_bitcoin_value c = content_get_bitcoin_value (content_of_filled c)"

fun filled_bitasset :: "FilledContent \<Rightarrow> BitAssetId option" where
  "filled_bitasset (F_BitAsset bitasset_id _) = Some bitasset_id"
| "filled_bitasset _ = None"

fun filled_get_bitasset :: "FilledContent \<Rightarrow> BitAssetId option" where
  "filled_get_bitasset (F_BitAsset bitasset_id _) = Some bitasset_id"
| "filled_get_bitasset (F_BitAssetControl bitasset_id) = Some bitasset_id"
| "filled_get_bitasset _ = None"

fun filled_bitasset_value :: "FilledContent \<Rightarrow> (BitAssetId \<times> u64) option" where
  "filled_bitasset_value (F_BitAsset bitasset_id value) = Some (bitasset_id, value)"
| "filled_bitasset_value _ = None"

fun filled_asset_value :: "FilledContent \<Rightarrow> (AssetId \<times> u64) option" where
  "filled_asset_value (F_BitAsset bitasset_id value) = Some (A_BitAsset bitasset_id, value)"
| "filled_asset_value (F_BitAssetControl bitasset_id) = Some (A_BitAssetControl bitasset_id, 1)"
| "filled_asset_value (F_Bitcoin value) = Some (A_Bitcoin, value)"
| "filled_asset_value _ = None"

fun filled_dutch_auction_receipt :: "FilledContent \<Rightarrow> DutchAuctionId option" where
  "filled_dutch_auction_receipt (F_DutchAuctionReceipt auction_id) = Some auction_id"
| "filled_dutch_auction_receipt _ = None"

fun filled_lp_token_amount :: "FilledContent \<Rightarrow> (AssetId \<times> AssetId \<times> u64) option" where
  "filled_lp_token_amount (F_AmmLpToken asset0 asset1 amount) = Some (asset0, asset1, amount)"
| "filled_lp_token_amount _ = None"

fun filled_is_bitasset :: "FilledContent \<Rightarrow> bool" where
  "filled_is_bitasset (F_BitAsset _ _) = True"
| "filled_is_bitasset _ = False"

fun filled_is_bitasset_control :: "FilledContent \<Rightarrow> bool" where
  "filled_is_bitasset_control (F_BitAssetControl _) = True"
| "filled_is_bitasset_control _ = False"

fun filled_is_bitcoin :: "FilledContent \<Rightarrow> bool" where
  "filled_is_bitcoin (F_Bitcoin _) = True"
| "filled_is_bitcoin _ = False"

fun filled_is_dutch_auction_receipt :: "FilledContent \<Rightarrow> bool" where
  "filled_is_dutch_auction_receipt (F_DutchAuctionReceipt _) = True"
| "filled_is_dutch_auction_receipt _ = False"

fun filled_is_lp_token :: "FilledContent \<Rightarrow> bool" where
  "filled_is_lp_token (F_AmmLpToken _ _ _) = True"
| "filled_is_lp_token _ = False"

fun filled_is_reservation :: "FilledContent \<Rightarrow> bool" where
  "filled_is_reservation (F_BitAssetReservation _ _) = True"
| "filled_is_reservation _ = False"

fun filled_is_withdrawal :: "FilledContent \<Rightarrow> bool" where
  "filled_is_withdrawal (F_BitcoinWithdrawal _) = True"
| "filled_is_withdrawal _ = False"

fun filled_reservation_data :: "FilledContent \<Rightarrow> (Txid \<times> hash) option" where
  "filled_reservation_data (F_BitAssetReservation txid commitment) = Some (txid, commitment)"
| "filled_reservation_data _ = None"

definition filled_reservation_commitment :: "FilledContent \<Rightarrow> hash option" where
  "filled_reservation_commitment c = map_option snd (filled_reservation_data c)"

definition output_of_filled :: "FilledOutput \<Rightarrow> TxOutput" where
  "output_of_filled filled =
     \<lparr>out_address = out_address filled,
      out_content = content_of_filled (out_content filled),
      out_memo = out_memo filled\<rparr>"

abbreviation txout_value :: "TxOutput \<Rightarrow> u64" where
  "txout_value out \<equiv> content_get_bitcoin_value (out_content out)"

abbreviation utxo_value :: "FilledOutput \<Rightarrow> u64" where
  "utxo_value out \<equiv> filled_get_bitcoin_value (out_content out)"

lemma filled_is_bitasset_value: "filled_is_bitasset c \<longleftrightarrow> filled_bitasset_value c \<noteq> None"
  by (cases c) auto

lemma withdrawal_value_covers_fee:
  assumes "checked_add (wc_value w) (wc_main_fee w) \<noteq> None"
  shows "unat (withdrawal_get_bitcoin_value w) = unat (wc_value w) + unat (wc_main_fee w)"
proof -
  from assms obtain v where v: "checked_add (wc_value w) (wc_main_fee w) = Some v" by blast
  then have "withdrawal_get_bitcoin_value w = v" by (simp add: withdrawal_get_bitcoin_value_def)
  with v show ?thesis by (simp add: checked_add_Some_iff)
qed

section \<open>BitAsset data and its updates\<close>

type_synonym SocketAddrV4 = "u32 \<times> 16 word"
type_synonym SocketAddrV6 = "u128 \<times> 16 word \<times> u32 \<times> u32"

record BitAssetData =
  bd_commitment :: "hash option"
  bd_socket_addr_v4 :: "SocketAddrV4 option"
  bd_socket_addr_v6 :: "SocketAddrV6 option"
  bd_encryption_pubkey :: "EncryptionPubKey option"
  bd_signing_pubkey :: "VerifyingKey option"

datatype 'a Update = Delete | Retain | Set 'a

record BitAssetDataUpdates =
  bu_commitment :: "hash Update"
  bu_socket_addr_v4 :: "SocketAddrV4 Update"
  bu_socket_addr_v6 :: "SocketAddrV6 Update"
  bu_encryption_pubkey :: "EncryptionPubKey Update"
  bu_signing_pubkey :: "VerifyingKey Update"

section \<open>Transactions\<close>

record DutchAuctionParams =
  dap_start_block :: u32
  dap_duration :: u32
  dap_base_asset :: AssetId
  dap_base_amount :: u64
  dap_quote_asset :: AssetId
  dap_initial_price :: u64
  dap_final_price :: u64

text \<open>
  Fields in the order of the source: \<open>AmmBurn amount0 amount1 lp_token_burn\<close>,
  \<open>AmmMint amount0 amount1 lp_token_mint\<close>, \<open>AmmSwap amount_spent amount_receive
  pair_asset\<close>, \<open>BitAssetRegistration name_hash revealed_nonce bitasset_data
  initial_supply\<close>, \<open>DutchAuctionBid auction_id receive_asset quantity bid_size\<close>,
  \<open>DutchAuctionCollect asset_offered asset_receive amount_offered_remaining
  amount_received\<close>.
\<close>

datatype TxData =
    AmmBurn u64 u64 u64
  | AmmMint u64 u64 u64
  | AmmSwap u64 u64 AssetId
  | BitAssetReservation hash
  | BitAssetRegistration hash hash BitAssetData u64
  | BitAssetMint u64
  | BitAssetUpdate BitAssetDataUpdates
  | DutchAuctionCreate DutchAuctionParams
  | DutchAuctionBid DutchAuctionId AssetId u64 u64
  | DutchAuctionCollect AssetId AssetId u64 u64

record Transaction =
  tx_inputs :: "OutPoint list"
  tx_outputs :: "TxOutput list"
  tx_memo :: "u8 list"
  tx_data :: "TxData option"

record FilledTransaction =
  ft_transaction :: Transaction
  ft_spent_utxos :: "FilledOutput list"

record Authorization =
  au_verifying_key :: VerifyingKey
  au_signature :: Signature

record AuthorizedTransaction =
  at_transaction :: Transaction
  at_authorizations :: "Authorization list"

section \<open>Blocks\<close>

record Header =
  hd_merkle_root :: MerkleRoot
  hd_prev_side_hash :: "BlockHash option"
  hd_prev_main_hash :: bitcoin_BlockHash

record Coinbase =
  cb_memo :: "u8 list"
  cb_outputs :: "TxOutput list"

record Body =
  bo_coinbase :: Coinbase
  bo_transactions :: "Transaction list"
  bo_authorizations :: "Authorization list"

section \<open>Withdrawal bundles and mainchain events\<close>

text \<open>
  The parts of a mainchain transaction that a bundle fixes: version, lock time and the
  empty input list are constants of the code, so only the outputs vary.
\<close>

record bitcoin_TxOut =
  btxo_value :: u64
  btxo_script_pubkey :: "u8 list"

record bitcoin_Transaction =
  btx_output :: "bitcoin_TxOut list"

record WithdrawalBundle =
  wb_spend_utxos :: "(OutPoint, FilledOutput) fmap"
  wb_tx :: bitcoin_Transaction

datatype WithdrawalBundleStatus =
    WBS_Confirmed
  | WBS_Dropped
  | WBS_Failed
  | WBS_Pending
  | WBS_Submitted
  | WBS_SubmittedUnexpected

datatype WithdrawalBundleEventStatus = WBE_Confirmed | WBE_Failed | WBE_Submitted

record WithdrawalBundleEvent =
  wbe_m6id :: M6id
  wbe_status :: WithdrawalBundleEventStatus

record BlockIndexEvents =
  bie_deposits :: "(OutPoint \<times> FilledOutput) list"
  bie_bundle_spends :: "(OutPoint \<times> M6id) list"

definition block_index_events_is_empty :: "BlockIndexEvents \<Rightarrow> bool" where
  "block_index_events_is_empty ev \<longleftrightarrow> bie_deposits ev = [] \<and> bie_bundle_spends ev = []"

record Deposit =
  dp_tx_index :: u64
  dp_txid :: hash
  dp_vout :: u32
  dp_output :: FilledOutput

datatype BlockEvent = BE_Deposit Deposit | BE_WithdrawalBundle WithdrawalBundleEvent

text \<open>\<open>block_info\<close> keeps the mainchain blocks in chain order.\<close>

record TwoWayPegData =
  block_info :: "(bitcoin_BlockHash \<times> BlockEvent list) list"

section \<open>Nodes of the Merkle trees\<close>

text \<open>
  Nodes carry a result; \<open>Panic\<close> marks a node whose merge violated the assertion on sibling
  indices.
\<close>

datatype MergeCbmtNodes = SizeOverflow | ValueOverflow

datatype ComputeMerkleRootError =
    CMR_Coinbase
  | CMR_FeeOverflow
  | CMR_SizeOverflow
  | CMR_TxFee Txid
  | CMR_TxMerkleRoot Txid

record InputsCbmtNode =
  icn_commitment :: "(unit, hash) result"
  icn_index :: nat

record OutputsCbmtNode =
  ocn_commitment :: hash
  ocn_value :: u64
  ocn_canonical_size :: u64

record OutputsCbmtNodeResult =
  ocr_value :: "(MergeCbmtNodes, OutputsCbmtNode) result"
  ocr_index :: nat

record TxCbmtNode =
  tcn_commitment :: hash
  tcn_fee :: u64
  tcn_canonical_size :: u64

record TxCbmtNodeResult =
  tcr_value :: "(ComputeMerkleRootError, TxCbmtNode) result"
  tcr_index :: nat

section \<open>What the code takes from other crates\<close>

text \<open>
  \<open>hashes::hash\<close> is BLAKE3 over the Borsh encoding of its argument. The model keeps the
  hash function abstract and records what is hashed: one constructor of \<open>preimage\<close> per
  type of value the code hashes.
\<close>

datatype preimage =
    P_OutPoint OutPoint
  | P_InputsNode hash hash
  | P_OutputLeaf u64 u64 TxOutput
  | P_OutputNode hash u64 u64 hash
  | P_TxRoots hash hash
  | P_Transaction Transaction
  | P_TxLeaf u64 u64 hash
  | P_TxNode hash u64 u64 hash
  | P_CoinbaseRoot "u8 list" hash
  | P_BodyRoot hash hash
  | P_CoinbaseTxid MerkleRoot bitcoin_BlockHash "BlockHash option"
  | P_Header Header
  | P_BundleInputs "OutPoint list"

text \<open>
  \<open>ext_hash\<close>: BLAKE3 of a Borsh encoding; \<open>ext_keyed_hash\<close>: \<open>blake3::keyed_hash\<close>;
  \<open>ext_key_address\<close>: the first 20 bytes of the extended hash of a verifying key;
  \<open>ext_isqrt\<close>: \<open>num::integer::sqrt\<close> on \<open>u128\<close>; \<open>ext_bincode_u32\<close>: the bytes under which
  \<open>SerdeBincode<u32>\<close> stores a key; \<open>ext_tx_size\<close>, \<open>ext_output_size\<close>, \<open>ext_body_size\<close>:
  lengths of Borsh encodings; \<open>ext_batch_verify\<close>: verification of a non-empty batch of
  signatures; \<open>ext_cbmt_inputs\<close>, \<open>ext_cbmt_outputs\<close>, \<open>ext_cbmt_txs\<close>:
  \<open>CBMT::build_merkle_root\<close> of the \<open>merkle_cbt\<close> crate at the three node types, given the
  code's merge function; \<open>ext_script_pubkey\<close>: the script of a mainchain address;
  \<open>ext_address_key\<close>: the bytes by which mainchain addresses are ordered;
  \<open>ext_op_return_script\<close>: the script that pushes the given bytes after \<open>OP_RETURN\<close>;
  \<open>ext_varint_size\<close>: the length of a Bitcoin variable-length integer; \<open>ext_tx_weight\<close>,
  \<open>ext_bitcoin_txid\<close>: weight and id of a mainchain transaction.
\<close>

record externs =
  ext_hash :: "preimage \<Rightarrow> hash"
  ext_keyed_hash :: "hash \<Rightarrow> hash \<Rightarrow> hash"
  ext_key_address :: "VerifyingKey \<Rightarrow> Address"
  ext_isqrt :: "u128 \<Rightarrow> u128"
  ext_bincode_u32 :: "u32 \<Rightarrow> u8 list"
  ext_tx_size :: "Transaction \<Rightarrow> u64"
  ext_output_size :: "TxOutput \<Rightarrow> u64"
  ext_body_size :: "Body \<Rightarrow> nat"
  ext_batch_verify :: "(VerifyingKey \<times> Signature \<times> Transaction) list \<Rightarrow> bool"
  ext_cbmt_inputs ::
    "(InputsCbmtNode \<Rightarrow> InputsCbmtNode \<Rightarrow> InputsCbmtNode) \<Rightarrow> InputsCbmtNode list \<Rightarrow> InputsCbmtNode"
  ext_cbmt_outputs ::
    "(OutputsCbmtNodeResult \<Rightarrow> OutputsCbmtNodeResult \<Rightarrow> OutputsCbmtNodeResult)
       \<Rightarrow> OutputsCbmtNodeResult list \<Rightarrow> OutputsCbmtNodeResult"
  ext_cbmt_txs ::
    "(TxCbmtNodeResult \<Rightarrow> TxCbmtNodeResult \<Rightarrow> TxCbmtNodeResult)
       \<Rightarrow> TxCbmtNodeResult list \<Rightarrow> TxCbmtNodeResult"
  ext_script_pubkey :: "main_address \<Rightarrow> u8 list"
  ext_address_key :: "main_address \<Rightarrow> u8 list"
  ext_op_return_script :: "u8 list \<Rightarrow> u8 list"
  ext_varint_size :: "u64 \<Rightarrow> u8"
  ext_tx_weight :: "bitcoin_Transaction \<Rightarrow> u64"
  ext_bitcoin_txid :: "bitcoin_Transaction \<Rightarrow> hash"

definition txid :: "externs \<Rightarrow> Transaction \<Rightarrow> Txid" where
  "txid E tx = ext_hash E (P_Transaction tx)"

definition compute_coinbase_txid :: "externs \<Rightarrow> Header \<Rightarrow> CoinbaseTxid" where
  "compute_coinbase_txid E header =
     ext_hash E (P_CoinbaseTxid (hd_merkle_root header) (hd_prev_main_hash header)
       (hd_prev_side_hash header))"

definition header_hash :: "externs \<Rightarrow> Header \<Rightarrow> BlockHash" where
  "header_hash E header = ext_hash E (P_Header header)"

definition auth_get_address :: "externs \<Rightarrow> Authorization \<Rightarrow> Address" where
  "auth_get_address E auth = ext_key_address E (au_verifying_key auth)"

end
