(* ===== verification/Outpoint_Key.thy ===== *)
theory Outpoint_Key
  imports Types
begin

unbundle bit_operations_syntax

text \<open>
  \<open>OutPointKey\<close> of \<open>lib/types/transaction/mod.rs\<close>: the 37-byte key under which the
  UTXO and STXO tables store an outpoint. It is the Borsh encoding of the outpoint: the
  variant's index, the 32 bytes of the transaction id, the output index as four
  little-endian bytes. The lemmas show that encoding and decoding are inverse, hence
  that distinct outpoints never share a row of a table.
\<close>

section \<open>Bytes of a word\<close>

definition le_bytes :: "nat \<Rightarrow> 'a::len word \<Rightarrow> u8 list" where
  "le_bytes n w = map (\<lambda>i. ucast (drop_bit (8 * i) w)) [0..<n]"

fun of_le_bytes :: "u8 list \<Rightarrow> 'a::len word" where
  "of_le_bytes [] = 0"
| "of_le_bytes (b # bs) = ucast b OR push_bit 8 (of_le_bytes bs)"

lemma length_le_bytes [simp]: "length (le_bytes n w) = n"
  by (simp add: le_bytes_def)

lemma bit_of_le_bytes:
  "bit (of_le_bytes bs :: 'a::len word) j \<longleftrightarrow>
     j < LENGTH('a) \<and> j div 8 < length bs \<and> bit (bs ! (j div 8)) (j mod 8)"
proof (induction bs arbitrary: j)
  case (Cons b bs)
  show ?case
  proof (cases "j < 8")
    case True
    then show ?thesis
      by (auto simp: bit_or_iff bit_ucast_iff bit_push_bit_iff)
  next
    case False
    then have "j div 8 = Suc ((j - 8) div 8)" and "(j - 8) mod 8 = j mod 8"
      by (simp_all add: le_div_geq le_mod_geq)
    moreover have "\<not> bit b j"
      using False by (auto dest: bit_imp_le_length)
    ultimately show ?thesis
      using False Cons.IH [of "j - 8"]
      by (auto simp: bit_or_iff bit_ucast_iff bit_push_bit_iff dest: bit_imp_le_length)
  qed
qed simp

lemma of_le_bytes_le_bytes:
  fixes w :: "'a::len word"
  assumes "LENGTH('a) \<le> 8 * n"
  shows "of_le_bytes (le_bytes n w) = w"
proof (rule bit_word_eqI)
  fix j assume j: "j < LENGTH('a)"
  with assms have d: "j div 8 < n" by auto
  have "j div 8 * 8 + j mod 8 = j" by simp
  then have "bit (le_bytes n w ! (j div 8)) (j mod 8) \<longleftrightarrow> bit w j"
    using d by (simp add: le_bytes_def bit_ucast_iff bit_drop_bit_eq comp_def algebra_simps) arith
  with j d show "bit (of_le_bytes (le_bytes n w) :: 'a word) j \<longleftrightarrow> bit w j"
    by (simp add: bit_of_le_bytes)
qed

section \<open>Keys\<close>

type_synonym OutPointKey = "u8 list"

definition OUTPOINT_KEY_SIZE :: nat where
  "OUTPOINT_KEY_SIZE = 37"

definition from_outpoint :: "OutPoint \<Rightarrow> OutPointKey" where
  "from_outpoint op =
     of_nat (outpoint_rank op) # rev (le_bytes 32 (outpoint_hash op)) @ le_bytes 4 (outpoint_vout op)"

text \<open>\<open>OutPoint::deserialize_reader\<close>: fails on an unknown variant or a short input.\<close>

definition deserialize_outpoint :: "u8 list \<Rightarrow> OutPoint option" where
  "deserialize_outpoint bs =
     (if length bs < OUTPOINT_KEY_SIZE then None
      else let h = of_le_bytes (rev (take 32 (tl bs))); v = of_le_bytes (take 4 (drop 32 (tl bs)))
        in if hd bs = 0 then Some (OpRegular h v)
           else if hd bs = 1 then Some (OpCoinbase h v)
           else if hd bs = 2 then Some (OpDeposit h v)
           else None)"

definition to_outpoint :: "OutPointKey \<Rightarrow> ('e, OutPoint) result" where
  "to_outpoint key = expect (deserialize_outpoint key)"

datatype key_error = WrongKeyLength | BorshDecode

definition bytes_decode :: "u8 list \<Rightarrow> (key_error, OutPointKey) result" where
  "bytes_decode bs =
     (if length bs \<noteq> OUTPOINT_KEY_SIZE then Err WrongKeyLength
      else rbind (ok_or BorshDecode (deserialize_outpoint bs)) (\<lambda>_. Ok bs))"

lemma length_from_outpoint [simp]: "length (from_outpoint op) = OUTPOINT_KEY_SIZE"
  by (simp add: from_outpoint_def OUTPOINT_KEY_SIZE_def)

lemma deserialize_from_outpoint [simp]: "deserialize_outpoint (from_outpoint op) = Some op"
  by (cases op)
    (simp_all add: from_outpoint_def deserialize_outpoint_def OUTPOINT_KEY_SIZE_def
      of_le_bytes_le_bytes)

lemma from_outpoint_inj [simp]: "from_outpoint a = from_outpoint b \<longleftrightarrow> a = b"
  by (metis deserialize_from_outpoint option.inject)

lemma from_outpoint_neq [simp]: "from_outpoint a \<noteq> []"
  by (simp add: from_outpoint_def)

lemma inj_from_outpoint: "inj_on from_outpoint A"
  by (auto intro: inj_onI)

text \<open>
  C32: encoding an outpoint as a table key and decoding it again gives the same outpoint:
  the key has exactly 37 bytes, the table codec accepts it, and \<open>to_outpoint\<close> does not
  panic on it.
\<close>

theorem outpoint_key_roundtrip:
  "length (from_outpoint op) = OUTPOINT_KEY_SIZE \<and>
   bytes_decode (from_outpoint op) = Ok (from_outpoint op) \<and>
   to_outpoint (from_outpoint op) = Ok op"
  by (simp add: bytes_decode_def to_outpoint_def)

end
