(* ===== verification/Filled_Transaction.thy ===== *)
theory Filled_Transaction
  imports Outpoint_Key
begin

text \<open>
  Filled transactions (\<open>lib/types/transaction/mod.rs\<close>): a transaction together with the
  outputs it spends, what its payload says once the spent outputs are known
  (\<open>amm_burn\<close>, \<open>dutch_auction_bid\<close> and the like), the Bitcoin fee, and the assignment of
  asset identifiers to the transaction's outputs (\<open>filled_outputs\<close>).

  \<open>output_asset_total_values\<close> passes copies of its pending amounts into a \<open>move\<close> closure
  and chains the originals behind it; the model keeps the two apart (\<open>total_values_walk\<close>
  threads the closure's copies, \<open>leftover_values\<close> reads the originals).
\<close>

section \<open>Payload predicates\<close>

fun is_amm_burn :: "TxData \<Rightarrow> bool" where
  "is_amm_burn (AmmBurn _ _ _) = True"
| "is_amm_burn _ = False"

fun is_amm_mint :: "TxData \<Rightarrow> bool" where
  "is_amm_mint (AmmMint _ _ _) = True"
| "is_amm_mint _ = False"

fun is_amm_swap :: "TxData \<Rightarrow> bool" where
  "is_amm_swap (AmmSwap _ _ _) = True"
| "is_amm_swap _ = False"

fun is_dutch_auction_bid :: "TxData \<Rightarrow> bool" where
  "is_dutch_auction_bid (DutchAuctionBid _ _ _ _) = True"
| "is_dutch_auction_bid _ = False"

fun is_dutch_auction_create :: "TxData \<Rightarrow> bool" where
  "is_dutch_auction_create (DutchAuctionCreate _) = True"
| "is_dutch_auction_create _ = False"

fun is_dutch_auction_collect :: "TxData \<Rightarrow> bool" where
  "is_dutch_auction_collect (DutchAuctionCollect _ _ _ _) = True"
| "is_dutch_auction_collect _ = False"

fun is_registration :: "TxData \<Rightarrow> bool" where
  "is_registration (BitAssetRegistration _ _ _ _) = True"
| "is_registration _ = False"

fun is_reservation :: "TxData \<Rightarrow> bool" where
  "is_reservation (BitAssetReservation _) = True"
| "is_reservation _ = False"

fun is_update :: "TxData \<Rightarrow> bool" where
  "is_update (BitAssetUpdate _) = True"
| "is_update _ = False"

text \<open>
  The methods of \<open>Transaction\<close> and \<open>FilledTransaction\<close> of the same names ask the payload,
  if there is one.
\<close>

definition tx_is :: "(TxData \<Rightarrow> bool) \<Rightarrow> Transaction \<Rightarrow> bool" where
  "tx_is p tx = (case tx_data tx of Some d \<Rightarrow> p d | None \<Rightarrow> False)"

definition ft_is :: "(TxData \<Rightarrow> bool) \<Rightarrow> FilledTransaction \<Rightarrow> bool" where
  "ft_is p ft = tx_is p (ft_transaction ft)"

definition implied_reservation_commitment :: "externs \<Rightarrow> FilledTransaction \<Rightarrow> hash option" where
  "implied_reservation_commitment E ft =
     (case tx_data (ft_transaction ft) of
        Some (BitAssetRegistration name_hash revealed_nonce _ _) \<Rightarrow>
          Some (ext_keyed_hash E revealed_nonce name_hash)
      | _ \<Rightarrow> None)"

definition reservation_commitment :: "FilledTransaction \<Rightarrow> hash option" where
  "reservation_commitment ft =
     (case tx_data (ft_transaction ft) of
        Some (BitAssetReservation commitment) \<Rightarrow> Some commitment
      | _ \<Rightarrow> None)"

definition bitasset_outputs :: "FilledTransaction \<Rightarrow> TxOutput list" where
  "bitasset_outputs ft =
     filter (\<lambda>out. content_is_bitasset (out_content out)) (tx_outputs (ft_transaction ft))"

definition bitasset_control_outputs :: "FilledTransaction \<Rightarrow> TxOutput list" where
  "bitasset_control_outputs ft =
     filter (\<lambda>out. content_is_bitasset_control (out_content out)) (tx_outputs (ft_transaction ft))"

definition reservation_outputs :: "FilledTransaction \<Rightarrow> TxOutput list" where
  "reservation_outputs ft =
     filter (\<lambda>out. content_is_reservation (out_content out)) (tx_outputs (ft_transaction ft))"

section \<open>Spent outputs\<close>

definition spent_inputs :: "FilledTransaction \<Rightarrow> (OutPoint \<times> FilledOutput) list" where
  "spent_inputs ft = zip (tx_inputs (ft_transaction ft)) (ft_spent_utxos ft)"

definition spent_reservations :: "FilledTransaction \<Rightarrow> (OutPoint \<times> FilledOutput) list" where
  "spent_reservations ft = filter (\<lambda>(_, out). filled_is_reservation (out_content out)) (spent_inputs ft)"

definition spent_bitassets :: "FilledTransaction \<Rightarrow> (OutPoint \<times> FilledOutput) list" where
  "spent_bitassets ft = filter (\<lambda>(_, out). filled_is_bitasset (out_content out)) (spent_inputs ft)"

definition spent_assets :: "FilledTransaction \<Rightarrow> (OutPoint \<times> FilledOutput) list" where
  "spent_assets ft =
     filter (\<lambda>(_, out). filled_is_bitcoin (out_content out) \<or> filled_is_bitasset (out_content out)
       \<or> filled_is_bitasset_control (out_content out)) (spent_inputs ft)"

definition spent_bitasset_controls :: "FilledTransaction \<Rightarrow> (OutPoint \<times> FilledOutput) list" where
  "spent_bitasset_controls ft =
     filter (\<lambda>(_, out). filled_is_bitasset_control (out_content out)) (spent_inputs ft)"

definition spent_dutch_auction_receipts :: "FilledTransaction \<Rightarrow> (OutPoint \<times> FilledOutput) list" where
  "spent_dutch_auction_receipts ft =
     filter (\<lambda>(_, out). filled_is_dutch_auction_receipt (out_content out)) (spent_inputs ft)"

definition spent_lp_tokens :: "FilledTransaction \<Rightarrow> (OutPoint \<times> FilledOutput) list" where
  "spent_lp_tokens ft = filter (\<lambda>(_, out). filled_is_lp_token (out_content out)) (spent_inputs ft)"

definition spent_values :: "(FilledContent \<Rightarrow> 'b option) \<Rightarrow> (OutPoint \<times> FilledOutput) list \<Rightarrow> 'b list" where
  "spent_values f spent = List.map_filter (\<lambda>(_, out). f (out_content out)) spent"

text \<open>
  \<open>unique_by\<close> of the itertools crate keeps the first element of each key, in order.
\<close>

fun unique_by :: "('a \<Rightarrow> 'k) \<Rightarrow> 'k list \<Rightarrow> 'a list \<Rightarrow> 'a list" where
  "unique_by f seen [] = []"
| "unique_by f seen (x # xs) =
     (if f x \<in> set seen then unique_by f seen xs else x # unique_by f (f x # seen) xs)"

text \<open>The accumulation \<open>*combined_value.entry(k).or_default() += value\<close> over all pairs.\<close>

definition combine_step :: "'k \<times> u64 \<Rightarrow> ('k \<Rightarrow> u64 option) \<Rightarrow> ('e, 'k \<Rightarrow> u64 option) result" where
  "combine_step kv m =
     (let (k, v) = kv; old = (case m k of Some w \<Rightarrow> w | None \<Rightarrow> 0)
      in rbind (add_word old v) (\<lambda>w. Ok (m(k := Some w))))"

definition combined_values :: "('k \<times> u64) list \<Rightarrow> ('e, ('k \<times> u64) list) result" where
  "combined_values kvs =
     rbind (try_fold combine_step kvs (\<lambda>_. None)) (\<lambda>m.
       try_map (\<lambda>(k, _). rbind (expect (m k)) (\<lambda>w. Ok (k, w))) (unique_by fst [] kvs))"

definition unique_spent_bitassets :: "FilledTransaction \<Rightarrow> ('e, (BitAssetId \<times> u64) list) result" where
  "unique_spent_bitassets ft = combined_values (spent_values filled_bitasset_value (spent_bitassets ft))"

definition unique_spent_assets :: "FilledTransaction \<Rightarrow> ('e, (AssetId \<times> u64) list) result" where
  "unique_spent_assets ft = combined_values (spent_values filled_asset_value (spent_assets ft))"

definition unique_spent_lp_tokens ::
  "FilledTransaction \<Rightarrow> ('e, (AssetId \<times> AssetId \<times> u64) list) result" where
  "unique_spent_lp_tokens ft =
     rbind (combined_values
         (map (\<lambda>(a0, a1, n). ((a0, a1), n)) (spent_values filled_lp_token_amount (spent_lp_tokens ft))))
       (\<lambda>us. Ok (map (\<lambda>((a0, a1), n). (a0, a1, n)) us))"

section \<open>What the payload says once inputs are known\<close>

record AmmBurnTx =
  ab_asset0 :: AssetId
  ab_asset1 :: AssetId
  ab_amount0 :: u64
  ab_amount1 :: u64
  ab_lp_token_burn :: u64

record AmmMintTx =
  am_asset0 :: AssetId
  am_asset1 :: AssetId
  am_amount0 :: u64
  am_amount1 :: u64
  am_lp_token_mint :: u64

record AmmSwapTx =
  as_asset_spend :: AssetId
  as_asset_receive :: AssetId
  as_amount_spend :: u64
  as_amount_receive :: u64

record DutchAuctionBidTx =
  db_auction_id :: DutchAuctionId
  db_asset_spend :: AssetId
  db_asset_receive :: AssetId
  db_amount_spend :: u64
  db_amount_receive :: u64

record DutchAuctionCollectTx =
  dc_auction_id :: DutchAuctionId
  dc_asset_offered :: AssetId
  dc_asset_receive :: AssetId
  dc_amount_offered_remaining :: u64
  dc_amount_received :: u64

definition amm_burn :: "FilledTransaction \<Rightarrow> ('e, AmmBurnTx option) result" where
  "amm_burn ft =
     (case tx_data (ft_transaction ft) of
        Some (AmmBurn amount0 amount1 lp_token_burn) \<Rightarrow>
          rbind (unique_spent_lp_tokens ft) (\<lambda>us. case us of
              [] \<Rightarrow> Ok None
            | (asset0, asset1, _) # _ \<Rightarrow>
                Ok (Some \<lparr>ab_asset0 = asset0, ab_asset1 = asset1, ab_amount0 = amount0,
                  ab_amount1 = amount1, ab_lp_token_burn = lp_token_burn\<rparr>))
      | _ \<Rightarrow> Ok None)"

definition amm_mint :: "FilledTransaction \<Rightarrow> ('e, AmmMintTx option) result" where
  "amm_mint ft =
     (case tx_data (ft_transaction ft) of
        Some (AmmMint amount0 amount1 lp_token_mint) \<Rightarrow>
          rbind (unique_spent_assets ft) (\<lambda>us. case us of
              (first_asset, _) # (second_asset, _) # _ \<Rightarrow>
                Ok (Some \<lparr>am_asset0 = min first_asset second_asset,
                  am_asset1 = max first_asset second_asset, am_amount0 = amount0,
                  am_amount1 = amount1, am_lp_token_mint = lp_token_mint\<rparr>)
            | _ \<Rightarrow> Ok None)
      | _ \<Rightarrow> Ok None)"

definition amm_swap :: "FilledTransaction \<Rightarrow> ('e, AmmSwapTx option) result" where
  "amm_swap ft =
     (case tx_data (ft_transaction ft) of
        Some (AmmSwap amount_spent amount_receive pair_asset) \<Rightarrow>
          rbind (unique_spent_assets ft) (\<lambda>us. case us of
              [] \<Rightarrow> Ok None
            | (spent_asset, _) # _ \<Rightarrow>
                Ok (Some \<lparr>as_asset_spend = spent_asset, as_asset_receive = pair_asset,
                  as_amount_spend = amount_spent, as_amount_receive = amount_receive\<rparr>))
      | _ \<Rightarrow> Ok None)"

definition bitasset_mint :: "FilledTransaction \<Rightarrow> (BitAssetId \<times> u64) option" where
  "bitasset_mint ft =
     (case tx_data (ft_transaction ft) of
        Some (BitAssetMint amount) \<Rightarrow>
          (case rev (spent_bitasset_controls ft) of
             [] \<Rightarrow> None
           | (_, control_output) # _ \<Rightarrow>
               map_option (\<lambda>bitasset. (bitasset, amount)) (filled_get_bitasset (out_content control_output)))
      | _ \<Rightarrow> None)"

definition dutch_auction_bid :: "FilledTransaction \<Rightarrow> ('e, DutchAuctionBidTx option) result" where
  "dutch_auction_bid ft =
     (case tx_data (ft_transaction ft) of
        Some (DutchAuctionBid auction_id receive_asset quantity bid_size) \<Rightarrow>
          rbind (unique_spent_assets ft) (\<lambda>us. case us of
              [] \<Rightarrow> Ok None
            | (asset_spend, _) # _ \<Rightarrow>
                Ok (Some \<lparr>db_auction_id = auction_id, db_asset_spend = asset_spend,
                  db_asset_receive = receive_asset, db_amount_spend = bid_size,
                  db_amount_receive = quantity\<rparr>))
      | _ \<Rightarrow> Ok None)"

definition dutch_auction_create :: "FilledTransaction \<Rightarrow> DutchAuctionParams option" where
  "dutch_auction_create ft =
     (case tx_data (ft_transaction ft) of
        Some (DutchAuctionCreate dutch_auction_params) \<Rightarrow> Some dutch_auction_params
      | _ \<Rightarrow> None)"

definition dutch_auction_collect :: "FilledTransaction \<Rightarrow> DutchAuctionCollectTx option" where
  "dutch_auction_collect ft =
     (case tx_data (ft_transaction ft) of
        Some (DutchAuctionCollect asset_offered asset_receive amount_offered_remaining amount_received) \<Rightarrow>
          (case spent_dutch_auction_receipts ft of
             [] \<Rightarrow> None
           | (_, receipt) # _ \<Rightarrow>
               map_option (\<lambda>auction_id.
                   \<lparr>dc_auction_id = auction_id, dc_asset_offered = asset_offered,
                    dc_asset_receive = asset_receive,
                    dc_amount_offered_remaining = amount_offered_remaining,
                    dc_amount_received = amount_received\<rparr>)
                 (filled_dutch_auction_receipt (out_content receipt)))
      | _ \<Rightarrow> None)"

end
