(* ===== verification/Fill_Outputs.thy ===== *)
theory Fill_Outputs
  imports Filled_Transaction
begin

text \<open>
  The Bitcoin fee of a filled transaction and the assignment of assets to its outputs
  (\<open>FilledTransaction::bitcoin_fee\<close>, \<open>output_asset_total_values\<close>,
  \<open>output_lp_token_total_amounts\<close>, \<open>filled_outputs\<close> of
  \<open>lib/types/transaction/mod.rs\<close>).
\<close>

section \<open>The Bitcoin fee\<close>

datatype BitcoinFeeError = Underfunded u64 u64 | ValueInOverflow | ValueOutOverflow

text \<open>\<open>checked_sum\<close> of amounts: the running total, or nothing once it overflows.\<close>

fun checked_sum_from :: "u64 \<Rightarrow> u64 list \<Rightarrow> u64 option" where
  "checked_sum_from acc [] = Some acc"
| "checked_sum_from acc (x # xs) =
     (case checked_add acc x of Some acc' \<Rightarrow> checked_sum_from acc' xs | None \<Rightarrow> None)"

abbreviation checked_sum :: "u64 list \<Rightarrow> u64 option" where
  "checked_sum xs \<equiv> checked_sum_from 0 xs"

definition spent_bitcoin_value :: "FilledTransaction \<Rightarrow> u64 option" where
  "spent_bitcoin_value ft = checked_sum (map utxo_value (ft_spent_utxos ft))"

definition bitcoin_value_out :: "FilledTransaction \<Rightarrow> u64 option" where
  "bitcoin_value_out ft = checked_sum (map txout_value (tx_outputs (ft_transaction ft)))"

definition bitcoin_fee :: "FilledTransaction \<Rightarrow> (BitcoinFeeError, u64) result" where
  "bitcoin_fee ft =
     rbind (ok_or ValueInOverflow (spent_bitcoin_value ft)) (\<lambda>value_in.
     rbind (ok_or ValueOutOverflow (bitcoin_value_out ft)) (\<lambda>value_out.
       ok_or (Underfunded value_in value_out) (checked_sub value_in value_out)))"

lemma checked_sum_Some:
  "checked_sum_from acc xs = Some s \<longleftrightarrow> unat s = unat acc + sum_list (map unat xs)"
proof (induction xs arbitrary: acc)
  case Nil
  show ?case by (auto intro: unat_eqI)
next
  case (Cons x xs)
  show ?case
  proof (cases "checked_add acc x")
    case None
    then have "2 ^ LENGTH(64) \<le> unat acc + unat x" by (simp only: checked_add_None_iff)
    then show ?thesis using None unat_less_pow [of s] by auto
  next
    case (Some acc')
    then have "unat acc' = unat acc + unat x" by (simp only: checked_add_Some_iff)
    with Some Cons.IH [of acc'] show ?thesis by (simp add: add.assoc)
  qed
qed

lemma bitcoin_fee_Ok:
  assumes "bitcoin_fee ft = Ok fee"
  shows "(\<Sum>u\<leftarrow>ft_spent_utxos ft. unat (utxo_value u))
       = (\<Sum>out\<leftarrow>tx_outputs (ft_transaction ft). unat (txout_value out)) + unat fee"
  using assms
  by (auto simp: bitcoin_fee_def rbind_Ok_iff spent_bitcoin_value_def bitcoin_value_out_def
      checked_sum_Some checked_sub_Some_iff comp_def)

section \<open>Totals that the outputs may carry\<close>

record pending =
  pn_amm_burn0 :: "(AssetId \<times> u64) option"
  pn_amm_burn1 :: "(AssetId \<times> u64) option"
  pn_amm_mint0 :: "(AssetId \<times> u64) option"
  pn_amm_mint1 :: "(AssetId \<times> u64) option"
  pn_amm_swap_spend :: "(AssetId \<times> u64) option"
  pn_amm_swap_receive :: "(AssetId \<times> u64) option"
  pn_bid_receive :: "(AssetId \<times> u64) option"
  pn_bid_spend :: "(AssetId \<times> u64) option"
  pn_create_spend :: "(AssetId \<times> u64) option"
  pn_collect0 :: "(AssetId \<times> u64) option"
  pn_collect1 :: "(AssetId \<times> u64) option"

text \<open>\<open>if let Some((a, amount)) = pending && a == asset\<close>\<close>

definition due :: "(AssetId \<times> u64) option \<Rightarrow> AssetId \<Rightarrow> u64 option" where
  "due p asset = (case p of Some (a, amount) \<Rightarrow> if a = asset then Some amount else None | None \<Rightarrow> None)"

definition adjust_total ::
  "(BitAssetId \<times> u64) option \<Rightarrow> pending \<Rightarrow> AssetId \<Rightarrow> u64 \<Rightarrow> u64 option \<times> pending" where
  "adjust_total mint pn asset total_value =
    (case due (map_option (\<lambda>(b, n). (A_BitAsset b, n)) mint) asset of Some n \<Rightarrow> (checked_add total_value n, pn)
     | None \<Rightarrow> (case due (pn_amm_burn0 pn) asset of Some n \<Rightarrow> (checked_add total_value n, pn\<lparr>pn_amm_burn0 := None\<rparr>)
     | None \<Rightarrow> (case due (pn_amm_burn1 pn) asset of Some n \<Rightarrow> (checked_add total_value n, pn\<lparr>pn_amm_burn1 := None\<rparr>)
     | None \<Rightarrow> (case due (pn_amm_mint0 pn) asset of Some n \<Rightarrow> (checked_sub total_value n, pn\<lparr>pn_amm_mint0 := None\<rparr>)
     | None \<Rightarrow> (case due (pn_amm_mint1 pn) asset of Some n \<Rightarrow> (checked_sub total_value n, pn\<lparr>pn_amm_mint1 := None\<rparr>)
     | None \<Rightarrow> (case due (pn_amm_swap_spend pn) asset of Some n \<Rightarrow> (checked_sub total_value n, pn\<lparr>pn_amm_swap_spend := None\<rparr>)
     | None \<Rightarrow> (case due (pn_amm_swap_receive pn) asset of Some n \<Rightarrow> (checked_add total_value n, pn\<lparr>pn_amm_swap_receive := None\<rparr>)
     | None \<Rightarrow> (case due (pn_bid_receive pn) asset of Some n \<Rightarrow> (checked_add total_value n, pn\<lparr>pn_bid_receive := None\<rparr>)
     | None \<Rightarrow> (case due (pn_bid_spend pn) asset of Some n \<Rightarrow> (checked_sub total_value n, pn\<lparr>pn_bid_spend := None\<rparr>)
     | None \<Rightarrow> (case due (pn_create_spend pn) asset of Some n \<Rightarrow> (checked_sub total_value n, pn\<lparr>pn_create_spend := None\<rparr>)
     | None \<Rightarrow> (case due (pn_collect0 pn) asset of Some n \<Rightarrow> (checked_add total_value n, pn\<lparr>pn_collect0 := None\<rparr>)
     | None \<Rightarrow> (case due (pn_collect1 pn) asset of Some n \<Rightarrow> (checked_add total_value n, pn\<lparr>pn_collect1 := None\<rparr>)
     | None \<Rightarrow> (Some total_value, pn)))))))))))))"

fun total_values_walk ::
  "(BitAssetId \<times> u64) option \<Rightarrow> pending \<Rightarrow> (AssetId \<times> u64) list \<Rightarrow> (AssetId \<times> u64 option) list" where
  "total_values_walk mint pn [] = []"
| "total_values_walk mint pn ((asset, total_value) # rest) =
     (let (v, pn') = adjust_total mint pn asset total_value in (asset, v) # total_values_walk mint pn' rest)"

definition opt_list :: "'a option \<Rightarrow> 'a list" where
  "opt_list x = (case x of Some y \<Rightarrow> [y] | None \<Rightarrow> [])"

definition receive_entry :: "(AssetId \<times> u64) option \<Rightarrow> (AssetId \<times> u64 option) list" where
  "receive_entry p = opt_list (map_option (\<lambda>(a, n). (a, Some n)) p)"

definition spend_entry :: "(AssetId \<times> u64) option \<Rightarrow> (AssetId \<times> u64 option) list" where
  "spend_entry p = opt_list (map_option (\<lambda>(a, _). (a, None)) p)"

definition leftover_values :: "pending \<Rightarrow> (BitAssetId \<times> u64) option \<Rightarrow> (AssetId \<times> u64 option) list" where
  "leftover_values pn new_bitasset =
     receive_entry (pn_amm_burn0 pn) @ receive_entry (pn_amm_burn1 pn) @
     spend_entry (pn_amm_mint0 pn) @ spend_entry (pn_amm_mint1 pn) @
     spend_entry (pn_amm_swap_spend pn) @ receive_entry (pn_amm_swap_receive pn) @
     receive_entry (pn_bid_receive pn) @ spend_entry (pn_bid_spend pn) @
     spend_entry (pn_create_spend pn) @ receive_entry (pn_collect0 pn) @
     receive_entry (pn_collect1 pn) @
     opt_list (map_option (\<lambda>(b, n). (A_BitAsset b, Some n)) new_bitasset) @
     opt_list (map_option (\<lambda>(b, _). (A_BitAssetControl b, Some 1)) new_bitasset)"

definition new_bitasset_value :: "FilledTransaction \<Rightarrow> (BitAssetId \<times> u64) option" where
  "new_bitasset_value ft =
     (case tx_data (ft_transaction ft) of
        Some (BitAssetRegistration name_hash _ _ initial_supply) \<Rightarrow>
          if initial_supply \<noteq> 0 then Some (name_hash, initial_supply) else None
      | _ \<Rightarrow> None)"

definition pending_values :: "FilledTransaction \<Rightarrow> ('e, pending) result" where
  "pending_values ft =
     rbind (amm_burn ft) (\<lambda>burn. rbind (amm_mint ft) (\<lambda>mint.
     rbind (amm_swap ft) (\<lambda>swap. rbind (dutch_auction_bid ft) (\<lambda>bid.
       let create = dutch_auction_create ft; collect = dutch_auction_collect ft in
       Ok \<lparr>pn_amm_burn0 = map_option (\<lambda>b. (ab_asset0 b, ab_amount0 b)) burn,
           pn_amm_burn1 = map_option (\<lambda>b. (ab_asset1 b, ab_amount1 b)) burn,
           pn_amm_mint0 = map_option (\<lambda>m. (am_asset0 m, am_amount0 m)) mint,
           pn_amm_mint1 = map_option (\<lambda>m. (am_asset1 m, am_amount1 m)) mint,
           pn_amm_swap_spend = map_option (\<lambda>s. (as_asset_spend s, as_amount_spend s)) swap,
           pn_amm_swap_receive = map_option (\<lambda>s. (as_asset_receive s, as_amount_receive s)) swap,
           pn_bid_receive = map_option (\<lambda>b. (db_asset_receive b, db_amount_receive b)) bid,
           pn_bid_spend = map_option (\<lambda>b. (db_asset_spend b, db_amount_spend b)) bid,
           pn_create_spend = map_option (\<lambda>p. (dap_base_asset p, dap_base_amount p)) create,
           pn_collect0 = map_option (\<lambda>c. (dc_asset_offered c, dc_amount_offered_remaining c)) collect,
           pn_collect1 = map_option (\<lambda>c. (dc_asset_receive c, dc_amount_received c)) collect\<rparr>))))"

definition output_asset_total_values ::
  "FilledTransaction \<Rightarrow> ('e, (AssetId \<times> u64 option) list) result" where
  "output_asset_total_values ft =
     rbind (pending_values ft) (\<lambda>pn. rbind (unique_spent_assets ft) (\<lambda>us.
       Ok (filter (\<lambda>(_, amount). amount \<noteq> Some 0) (total_values_walk (bitasset_mint ft) pn us)
           @ leftover_values pn (new_bitasset_value ft))))"

fun bitasset_entry :: "AssetId \<times> u64 option \<Rightarrow> (BitAssetId \<times> u64 option) option" where
  "bitasset_entry (A_BitAsset b, v) = Some (b, v)"
| "bitasset_entry _ = None"

definition output_bitasset_total_values ::
  "(AssetId \<times> u64 option) list \<Rightarrow> (BitAssetId \<times> u64 option) list" where
  "output_bitasset_total_values tvs = List.map_filter bitasset_entry tvs"

definition output_bitcoin_max_value :: "(AssetId \<times> u64 option) list \<Rightarrow> u64 option" where
  "output_bitcoin_max_value tvs =
     (case find (\<lambda>(a, _). a = A_Bitcoin) tvs of Some (_, v) \<Rightarrow> v | None \<Rightarrow> Some 0)"

fun lp_totals_walk ::
  "AmmBurnTx option \<Rightarrow> AmmMintTx option \<Rightarrow> (AssetId \<times> AssetId \<times> u64) list
     \<Rightarrow> (AssetId \<times> AssetId \<times> u64 option) list" where
  "lp_totals_walk burn mint [] = []"
| "lp_totals_walk burn mint ((asset0, asset1, total_amount) # rest) =
     (case burn of
        Some b \<Rightarrow> if (ab_asset0 b, ab_asset1 b) = (asset0, asset1)
          then (asset0, asset1, checked_sub total_amount (ab_lp_token_burn b)) # lp_totals_walk None mint rest
          else (case mint of
              Some m \<Rightarrow> if (am_asset0 m, am_asset1 m) = (asset0, asset1)
                then (asset0, asset1, checked_add total_amount (am_lp_token_mint m)) # lp_totals_walk burn None rest
                else (asset0, asset1, Some total_amount) # lp_totals_walk burn mint rest
            | None \<Rightarrow> (asset0, asset1, Some total_amount) # lp_totals_walk burn mint rest)
      | None \<Rightarrow> (case mint of
              Some m \<Rightarrow> if (am_asset0 m, am_asset1 m) = (asset0, asset1)
                then (asset0, asset1, checked_add total_amount (am_lp_token_mint m)) # lp_totals_walk burn None rest
                else (asset0, asset1, Some total_amount) # lp_totals_walk burn mint rest
            | None \<Rightarrow> (asset0, asset1, Some total_amount) # lp_totals_walk burn mint rest))"

definition output_lp_token_total_amounts ::
  "FilledTransaction \<Rightarrow> ('e, (AssetId \<times> AssetId \<times> u64 option) list) result" where
  "output_lp_token_total_amounts ft =
     rbind (amm_burn ft) (\<lambda>burn. rbind (amm_mint ft) (\<lambda>mint.
     rbind (unique_spent_lp_tokens ft) (\<lambda>us.
       Ok (lp_totals_walk burn mint us
           @ opt_list (map_option (\<lambda>b. (ab_asset0 b, ab_asset1 b, None)) burn)
           @ opt_list (map_option (\<lambda>m. (am_asset0 m, am_asset1 m, Some (am_lp_token_mint m))) mint)))))"

section \<open>Filling the outputs\<close>

fun control_entry :: "AssetId \<times> u64 option \<Rightarrow> FilledContent option" where
  "control_entry (A_BitAssetControl b, _) = Some (F_BitAssetControl b)"
| "control_entry _ = None"

definition filled_bitasset_control_output_content ::
  "(AssetId \<times> u64 option) list \<Rightarrow> FilledContent list" where
  "filled_bitasset_control_output_content tvs = List.map_filter control_entry tvs"

definition filled_dutch_auction_receipts :: "externs \<Rightarrow> FilledTransaction \<Rightarrow> FilledContent list" where
  "filled_dutch_auction_receipts E ft =
     (let spent = map (\<lambda>(_, out). out_content out) (spent_dutch_auction_receipts ft);
          kept = (if ft_is is_dutch_auction_collect ft then tl spent else spent)
      in kept @ (if ft_is is_dutch_auction_create ft
                 then [F_DutchAuctionReceipt (txid E (ft_transaction ft))] else []))"

fun drop_burned_reservation :: "hash option \<Rightarrow> FilledContent list \<Rightarrow> FilledContent list" where
  "drop_burned_reservation burn [] = []"
| "drop_burned_reservation burn (c # cs) =
     (case burn of
        Some commitment \<Rightarrow>
          if filled_reservation_commitment c = Some commitment then drop_burned_reservation None cs
          else c # drop_burned_reservation burn cs
      | None \<Rightarrow> c # drop_burned_reservation None cs)"

definition filled_reservation_output_content :: "externs \<Rightarrow> FilledTransaction \<Rightarrow> FilledContent list" where
  "filled_reservation_output_content E ft =
     drop_burned_reservation (implied_reservation_commitment E ft)
         (map (\<lambda>(_, out). out_content out) (spent_reservations ft))
     @ opt_list (map_option (F_BitAssetReservation (txid E (ft_transaction ft))) (reservation_commitment ft))"

text \<open>The iterators that \<open>filled_outputs\<close> consumes while it walks over the outputs.\<close>

record fill_state =
  fs_bitcoin :: u64
  fs_bitassets :: "(BitAssetId \<times> u64 option) list"
  fs_lp_tokens :: "(AssetId \<times> AssetId \<times> u64 option) list"
  fs_controls :: "FilledContent list"
  fs_receipts :: "FilledContent list"
  fs_reservations :: "FilledContent list"

fun fill_content :: "Content \<Rightarrow> fill_state \<Rightarrow> (FilledContent \<times> fill_state) option" where
  "fill_content (C_AmmLpToken amount) s =
     (case fs_lp_tokens s of
        (asset0, asset1, Some remaining) # rest \<Rightarrow>
          if remaining < amount then None
          else if amount = remaining
          then Some (F_AmmLpToken asset0 asset1 amount, s\<lparr>fs_lp_tokens := rest\<rparr>)
          else Some (F_AmmLpToken asset0 asset1 amount,
                 s\<lparr>fs_lp_tokens := (asset0, asset1, Some (remaining - amount)) # rest\<rparr>)
      | _ \<Rightarrow> None)"
| "fill_content (C_BitAsset value) s =
     (case fs_bitassets s of
        (bitasset, Some remaining) # rest \<Rightarrow>
          if remaining < value then None
          else if value = remaining
          then Some (F_BitAsset bitasset value, s\<lparr>fs_bitassets := rest\<rparr>)
          else Some (F_BitAsset bitasset value,
                 s\<lparr>fs_bitassets := (bitasset, Some (remaining - value)) # rest\<rparr>)
      | _ \<Rightarrow> None)"
| "fill_content C_BitAssetControl s =
     (case fs_controls s of c # cs \<Rightarrow> Some (c, s\<lparr>fs_controls := cs\<rparr>) | [] \<Rightarrow> None)"
| "fill_content C_BitAssetReservation s =
     (case fs_reservations s of c # cs \<Rightarrow> Some (c, s\<lparr>fs_reservations := cs\<rparr>) | [] \<Rightarrow> None)"
| "fill_content C_DutchAuctionReceipt s =
     (case fs_receipts s of c # cs \<Rightarrow> Some (c, s\<lparr>fs_receipts := cs\<rparr>) | [] \<Rightarrow> None)"
| "fill_content (C_Bitcoin value) s =
     (case checked_sub (fs_bitcoin s) value of
        Some left \<Rightarrow> Some (F_Bitcoin value, s\<lparr>fs_bitcoin := left\<rparr>)
      | None \<Rightarrow> None)"
| "fill_content (C_Withdrawal withdrawal) s = Some (F_BitcoinWithdrawal withdrawal, s)"

fun fill_walk :: "TxOutput list \<Rightarrow> fill_state \<Rightarrow> FilledOutput list option" where
  "fill_walk [] s = Some []"
| "fill_walk (out # outs) s =
     (case fill_content (out_content out) s of
        Some (content, s') \<Rightarrow>
          map_option ((#) \<lparr>out_address = out_address out, out_content = content, out_memo = out_memo out\<rparr>)
            (fill_walk outs s')
      | None \<Rightarrow> None)"

definition filled_outputs :: "externs \<Rightarrow> FilledTransaction \<Rightarrow> ('e, FilledOutput list option) result" where
  "filled_outputs E ft =
     rbind (output_asset_total_values ft) (\<lambda>tvs.
       case output_bitcoin_max_value tvs of
         None \<Rightarrow> Ok None
       | Some bitcoin_max \<Rightarrow>
           rbind (output_lp_token_total_amounts ft) (\<lambda>lps.
             Ok (fill_walk (tx_outputs (ft_transaction ft))
               \<lparr>fs_bitcoin = bitcoin_max,
                fs_bitassets = output_bitasset_total_values tvs,
                fs_lp_tokens = lps,
                fs_controls = filled_bitasset_control_output_content tvs,
                fs_receipts = filled_dutch_auction_receipts E ft,
                fs_reservations = filled_reservation_output_content E ft\<rparr>)))"

section \<open>Combined values\<close>

definition key_sum :: "'k \<Rightarrow> ('k \<times> u64) list \<Rightarrow> nat" where
  "key_sum k kvs = (\<Sum>(k', v)\<leftarrow>kvs. if k' = k then unat v else 0)"

lemma key_sum_simps [simp]:
  "key_sum k [] = 0"
  "key_sum k ((k', v) # kvs) = (if k' = k then unat v else 0) + key_sum k kvs"
  by (simp_all add: key_sum_def)

lemma combine_step_Ok_iff:
  "combine_step (k, v) m = Ok m' \<longleftrightarrow>
     (\<exists>w. unat w = unat (case m k of Some w \<Rightarrow> w | None \<Rightarrow> 0) + unat v \<and> m' = m(k := Some w))"
  by (auto simp: combine_step_def rbind_Ok_iff)

lemma combine_fold:
  assumes "try_fold combine_step kvs m = (Ok m' :: ('e, 'k \<Rightarrow> u64 option) result)"
  shows "(case m' k of None \<Rightarrow> 0 | Some w \<Rightarrow> unat w) =
     (case m k of None \<Rightarrow> 0 | Some w \<Rightarrow> unat w) + key_sum k kvs"
  using assms
proof (induction kvs arbitrary: m)
  case (Cons kv kvs)
  obtain k0 v where kv: "kv = (k0, v)" by (cases kv)
  define old where "old = (case m k0 of Some w \<Rightarrow> w | None \<Rightarrow> 0)"
  from Cons.prems kv obtain w where w: "unat w = unat old + unat v"
    and rest: "try_fold combine_step kvs (m(k0 := Some w)) = (Ok m' :: ('e, 'k \<Rightarrow> u64 option) result)"
    by (auto simp: combine_step_Ok_iff rbind_Ok_iff old_def)
  from Cons.IH [OF rest] w kv show ?case
    by (auto simp: old_def split: option.splits)
qed simp

lemma unique_by_keys:
  "distinct (map f (unique_by f seen xs)) \<and> set (map f (unique_by f seen xs)) = set (map f xs) - set seen"
  by (induction f seen xs rule: unique_by.induct) auto

lemma combined_values_Ok:
  assumes "combined_values kvs = (Ok us :: ('e, ('k \<times> u64) list) result)"
  shows "distinct (map fst us)" and "set (map fst us) = set (map fst kvs)"
    and "\<And>k w. (k, w) \<in> set us \<Longrightarrow> unat w = key_sum k kvs"
proof -
  from assms obtain m where m: "try_fold combine_step kvs (\<lambda>_. None) = (Ok m :: ('e, 'k \<Rightarrow> u64 option) result)"
    and us: "list_all2 (\<lambda>kv y. \<exists>w. m (fst kv) = Some w \<and> (fst kv, w) = y) (unique_by fst [] kvs) us"
    by (auto simp: combined_values_def rbind_Ok_iff try_map_Ok_iff case_prod_unfold)
  from us have keys: "map fst us = map fst (unique_by fst [] kvs)"
    and vals: "\<And>k w. (k, w) \<in> set us \<Longrightarrow> m k = Some w"
    by (induction rule: list_all2_induct) (auto simp: rbind_Ok_iff)
  from keys unique_by_keys [of fst "[]" kvs]
  show "distinct (map fst us)" and "set (map fst us) = set (map fst kvs)" by auto
  fix k w assume "(k, w) \<in> set us"
  then have "m k = Some w" by (rule vals)
  with combine_fold [OF m, of k] show "unat w = key_sum k kvs" by simp
qed

lemma key_sum_distinct:
  "distinct (map fst us) \<Longrightarrow> (k, w) \<in> set us \<Longrightarrow> key_sum k us = unat w"
proof (induction us)
  case (Cons u us)
  obtain k' w' where u: "u = (k', w')" by (cases u)
  have "k \<notin> fst ` set us \<Longrightarrow> key_sum k us = 0" for us
    by (induction us) (auto simp: image_iff)
  with Cons u show ?case by (force simp: image_iff)
qed simp

lemma combined_values_key_sum:
  assumes "combined_values kvs = Ok us"
  shows "key_sum k us = key_sum k kvs"
proof (cases "k \<in> fst ` set us")
  case True
  then obtain w where "(k, w) \<in> set us" by auto
  then show ?thesis
    using combined_values_Ok(1,3) [OF assms] by (metis key_sum_distinct)
next
  case False
  have zero: "k \<notin> fst ` set xs \<Longrightarrow> key_sum k xs = 0" for xs
    by (induction xs) (auto simp: image_iff)
  from False combined_values_Ok(2) [OF assms] have "k \<notin> fst ` set kvs" by simp
  with False show ?thesis by (simp add: zero)
qed

end
