(* ===== verification/State_Error.thy ===== *)
theory State_Error
  imports Fill_Outputs
begin

text \<open>
  The errors of the state (\<open>lib/state/error.rs\<close>), of authorization checks
  (\<open>lib/authorization.rs\<close>). Failures of the storage engine and of serialization are not
  modelled, so their variants are left out.
\<close>

datatype AmmError =
    Amm_BurnOverflow
  | Amm_BurnUnderflow
  | Amm_InsufficientLiquidity
  | Amm_InvalidBurn
  | Amm_InvalidMint
  | Amm_InvalidSwap
  | Amm_LpTokenOverflow
  | Amm_LpTokenUnderflow
  | Amm_MissingPoolState AssetId AssetId
  | Amm_PoolInvariant
  | Amm_ReserveOverflow
  | Amm_RevertMint
  | Amm_RevertSwap
  | Amm_TooFewBitAssetsToMint

datatype BitAssetError =
    BA_Missing BitAssetId
  | BA_MissingData hash u32
  | BA_MissingReservation Txid
  | BA_NoBitAssetsToMint
  | BA_NoBitAssetsToUpdate
  | BA_NoReservationForRegistration BitAssetId
  | BA_TotalSupplyOverflow
  | BA_TotalSupplyUnderflow

datatype BidError =
    Bid_AuctionEnded
  | Bid_AuctionNotStarted
  | Bid_IncorrectReceiveAsset
  | Bid_IncorrectSpendAsset
  | Bid_Invalid
  | Bid_InvalidPrice
  | Bid_InvalidTxData
  | Bid_MissingAuction
  | Bid_QuantityTooLarge

datatype CreateError =
    Create_Expired
  | Create_FinalPrice
  | Create_PriceMismatch
  | Create_ZeroDuration

datatype CollectError =
    Collect_AuctionNotFinished
  | Collect_IncorrectOfferedAsset
  | Collect_IncorrectOfferedAssetAmount
  | Collect_IncorrectReceiveAsset
  | Collect_IncorrectReceiveAssetAmount
  | Collect_Invalid
  | Collect_InvalidTxData
  | Collect_MissingAuction
  | Collect_Revert

datatype DutchAuctionError =
    DA_Bid BidError
  | DA_Collect CollectError
  | DA_Create CreateError
  | DA_Missing DutchAuctionId
  | DA_TooFewBitAssetsToCreate

datatype ConnectWithdrawalBundleSubmittedError =
    CWBS_ConfirmedResubmitted bitcoin_BlockHash M6id
  | CWBS_DroppedPending M6id
  | CWBS_NoUtxo OutPoint
  | CWBS_PendingWithdrawalBundleUnknown M6id
  | CWBS_Resubmitted bitcoin_BlockHash M6id u32
  | CWBS_UnknownConfirmedFailed M6id u32
  | CWBS_UnknownDropped M6id u32
  | CWBS_UnknownPending M6id u32

datatype InvalidHeader =
    IH_BlockHash BlockHash BlockHash
  | IH_PrevSideHash "BlockHash option" "BlockHash option"

datatype AuthorizationError =
    Auth_SignatureVerification
  | Auth_NotEnoughAuthorizations
  | Auth_TooManyAuthorizations
  | Auth_WrongKeyForAddress Address Address

datatype WithdrawalBundleError = WB_BundleTooHeavy u64 u64

datatype Error =
    E_Amm AmmError
  | E_AmountOverflow
  | E_AmountUnderflow
  | E_Authorization AuthorizationError
  | E_BadCoinbaseOutputContent
  | E_BitAsset BitAssetError
  | E_BitAssetAlreadyRegistered hash
  | E_BitcoinFee BitcoinFeeError
  | E_BodyTooLarge
  | E_BundleTooHeavy u64 u64
  | E_ComputeMerkleRoot ComputeMerkleRootError
  | E_ConnectWithdrawalBundleSubmitted ConnectWithdrawalBundleSubmittedError
  | E_DutchAuction DutchAuctionError
  | E_FillTxOutputContents FilledTransaction
  | E_InvalidBody MerkleRoot MerkleRoot
  | E_InvalidHeader InvalidHeader
  | E_LastOutputNotControlCoin
  | E_MissingBitAssetInput hash
  | E_NoDepositBlock
  | E_NotEnoughFees
  | E_NoTip
  | E_NoStxo OutPoint
  | E_NoUtxo OutPoint
  | E_SpendWithdrawalOutput OutPoint
  | E_NoWithdrawalBundleEventBlock
  | E_PendingWithdrawalBundleUnknown M6id
  | E_SecondLastOutputNotBitAsset
  | E_TooFewBitAssetControlOutputs
  | E_UnbalancedBitAssetControls nat nat
  | E_UnbalancedBitAssets nat nat
  | E_UnbalancedReservations nat nat
  | E_UnexpectedWithdrawalBundleInsolvency bitcoin_BlockHash M6id OutPoint
  | E_UnknownWithdrawalBundle M6id
  | E_UnknownWithdrawalBundleConfirmed bitcoin_BlockHash M6id
  | E_UnknownWithdrawalBundleReconfirmed bitcoin_BlockHash M6id
  | E_UtxoDoubleSpent
  | E_WithdrawalBundle WithdrawalBundleError
  | E_WrongPubKeyForAddress

end
