(* ===== verification/Extern_Laws.thy ===== *)
theory Extern_Laws
  imports Outpoint_Key
begin

text \<open>
  What the development assumes of the code it takes from other crates, stated as
  predicates on \<open>externs\<close>, and a concrete instance \<open>demo_externs\<close> that satisfies them.
\<close>

text \<open>\<open>num::integer::sqrt\<close> truncates: the largest number whose square is at most the argument.\<close>

definition isqrt_floor :: "externs \<Rightarrow> bool" where
  "isqrt_floor E \<longleftrightarrow>
     (\<forall>x. (unat (ext_isqrt E x))\<^sup>2 \<le> unat x \<and> unat x < (unat (ext_isqrt E x) + 1)\<^sup>2)"

text \<open>\<open>SerdeBincode<u32>\<close> stores a \<open>u32\<close> as its four little-endian bytes.\<close>

definition bincode_little_endian :: "externs \<Rightarrow> bool" where
  "bincode_little_endian E \<longleftrightarrow> (\<forall>n. ext_bincode_u32 E n = le_bytes 4 n)"

lemma isqrt_le: "isqrt_floor E \<Longrightarrow> (unat (ext_isqrt E x))\<^sup>2 \<le> unat x"
  by (simp add: isqrt_floor_def)

lemma isqrt_fits:
  assumes "isqrt_floor E"
  shows "unat (ext_isqrt E x) < 2 ^ 64"
proof (rule ccontr)
  assume "\<not> unat (ext_isqrt E x) < 2 ^ 64"
  then have "(2 ^ 64)\<^sup>2 \<le> (unat (ext_isqrt E x))\<^sup>2" by (intro power_mono) auto
  with isqrt_le [OF assms, of x] have "2 ^ 128 \<le> unat x" by simp
  with unat_less_pow [of x] show False by simp
qed

lemma isqrt_eqI:
  assumes "isqrt_floor E" "s\<^sup>2 \<le> unat x" "unat x < (s + 1)\<^sup>2"
  shows "unat (ext_isqrt E x) = s"
proof -
  let ?r = "unat (ext_isqrt E x)"
  from assms(1) have "?r\<^sup>2 \<le> unat x" "unat x < (?r + 1)\<^sup>2" by (simp_all add: isqrt_floor_def)
  with assms have "?r\<^sup>2 < (s + 1)\<^sup>2" "s\<^sup>2 < (?r + 1)\<^sup>2" by linarith+
  then have "?r < s + 1" "s < ?r + 1" by (meson power_less_imp_less_base zero_le)+
  then show ?thesis by simp
qed

section \<open>An instance\<close>

fun isqrt_nat :: "nat \<Rightarrow> nat" where
  "isqrt_nat 0 = 0"
| "isqrt_nat (Suc n) = (let s = isqrt_nat n in if (s + 1)\<^sup>2 \<le> Suc n then s + 1 else s)"

lemma isqrt_nat_bounds: "(isqrt_nat n)\<^sup>2 \<le> n \<and> n < (isqrt_nat n + 1)\<^sup>2"
proof (induction n)
  case (Suc n)
  let ?s = "isqrt_nat n"
  have "Suc n < (?s + 1 + 1)\<^sup>2" using Suc by (simp add: power2_eq_square)
  with Suc show ?case by (auto simp: Let_def)
qed simp

fun demo_hash :: "preimage \<Rightarrow> hash" where
  "demo_hash (P_Transaction tx) = of_nat (length (tx_inputs tx) + 2 * length (tx_outputs tx) + 1000)"
| "demo_hash (P_CoinbaseTxid root _ _) = root + 1"
| "demo_hash (P_Header header) = hd_merkle_root header + 7"
| "demo_hash (P_BodyRoot a b) = a + b"
| "demo_hash _ = 0"

definition demo_externs :: externs where
  "demo_externs =
     \<lparr>ext_hash = demo_hash, ext_keyed_hash = (\<lambda>k m. k + m), ext_key_address = ucast,
      ext_isqrt = (\<lambda>x. of_nat (isqrt_nat (unat x))), ext_bincode_u32 = le_bytes 4,
      ext_tx_size = (\<lambda>tx. of_nat (length (tx_outputs tx))), ext_output_size = (\<lambda>_. 1),
      ext_body_size = (\<lambda>body. length (bo_transactions body)),
      ext_batch_verify = (\<lambda>batch. list_all (\<lambda>(key, signature, _). signature = ucast key) batch),
      ext_cbmt_inputs = (\<lambda>merge leaves. case leaves of
          [] \<Rightarrow> \<lparr>icn_commitment = Ok 0, icn_index = 0\<rparr> | n # ns \<Rightarrow> n),
      ext_cbmt_outputs = (\<lambda>merge leaves. case leaves of
          [] \<Rightarrow> \<lparr>ocr_value = Ok \<lparr>ocn_commitment = 0, ocn_value = 0, ocn_canonical_size = 0\<rparr>, ocr_index = 0\<rparr>
        | n # ns \<Rightarrow> n),
      ext_cbmt_txs = (\<lambda>merge leaves. case leaves of
          [] \<Rightarrow> \<lparr>tcr_value = Ok \<lparr>tcn_commitment = 0, tcn_fee = 0, tcn_canonical_size = 0\<rparr>, tcr_index = 0\<rparr>
        | n # ns \<Rightarrow> n),
      ext_script_pubkey = id, ext_address_key = id, ext_op_return_script = (\<lambda>bs. [106, of_nat (length bs)] @ bs),
      ext_varint_size = (\<lambda>n. if n < 253 then 1 else if n < 65536 then 3 else if n < 4294967296 then 5 else 9),
      ext_tx_weight = (\<lambda>tx. 4 * of_nat (length (btx_output tx))),
      ext_bitcoin_txid = (\<lambda>tx. of_nat (length (btx_output tx)))\<rparr>"

lemma demo_isqrt_floor [simp]: "isqrt_floor demo_externs"
proof (unfold isqrt_floor_def, rule allI)
  fix x :: u128
  have "isqrt_nat (unat x) \<le> (isqrt_nat (unat x))\<^sup>2" by (simp add: power2_eq_square)
  then have "isqrt_nat (unat x) \<le> unat x" using isqrt_nat_bounds [of "unat x"] by linarith
  then have "isqrt_nat (unat x) < 2 ^ 128" using unat_less_pow [of x] by simp
  then have "unat (ext_isqrt demo_externs x) = isqrt_nat (unat x)"
    by (simp add: demo_externs_def unat_of_nat)
  then show "(unat (ext_isqrt demo_externs x))\<^sup>2 \<le> unat x \<and> unat x < (unat (ext_isqrt demo_externs x) + 1)\<^sup>2"
    using isqrt_nat_bounds [of "unat x"] by simp
qed

lemma demo_bincode_little_endian [simp]: "bincode_little_endian demo_externs"
  by (simp add: bincode_little_endian_def demo_externs_def)

end
