(* ===== verification/Amm.thy ===== *)
theory Amm
  imports State_Error Extern_Laws
begin

text \<open>
  The constant-product market maker of \<open>lib/state/amm.rs\<close>: pools keyed by an ordered pair
  of assets, the pool operations, and their application to and removal from the table of
  pools. Quantities stay at the widths of the source: reserves and LP tokens are \<open>u64\<close>,
  intermediate products \<open>u128\<close>.

  The pool invariant \<open>pool_ok\<close> is that the square of the outstanding LP tokens never
  exceeds the product of the reserves. It holds of a new pool and every operation keeps
  it; with it, the unchecked additions of the code cannot overflow, a minted position is
  never worth more than was deposited, and a swap never shrinks the product.
\<close>

section \<open>Pools\<close>

datatype AmmPair = AmmPair AssetId AssetId

definition AmmPair_new :: "AssetId \<Rightarrow> AssetId \<Rightarrow> AmmPair" where
  "AmmPair_new asset0 asset1 = (if asset0 \<le> asset1 then AmmPair asset0 asset1 else AmmPair asset1 asset0)"

fun pair_asset0 :: "AmmPair \<Rightarrow> AssetId" where
  "pair_asset0 (AmmPair a _) = a"

fun pair_asset1 :: "AmmPair \<Rightarrow> AssetId" where
  "pair_asset1 (AmmPair _ b) = b"

record PoolState =
  reserve0 :: u64
  reserve1 :: u64
  outstanding_lp_tokens :: u64
  creation_txid :: Txid

definition PoolState_new :: "Txid \<Rightarrow> PoolState" where
  "PoolState_new t = \<lparr>reserve0 = 0, reserve1 = 0, outstanding_lp_tokens = 0, creation_txid = t\<rparr>"

definition geometric_mean :: "externs \<Rightarrow> u64 \<Rightarrow> u64 \<Rightarrow> u64" where
  "geometric_mean E x y = as_u64 (ext_isqrt E (as_u128 x * as_u128 y))"

definition mint :: "externs \<Rightarrow> u64 \<Rightarrow> u64 \<Rightarrow> PoolState \<Rightarrow> (AmmError, PoolState) result" where
  "mint E amount0 amount1 p =
     rbind (ok_or Amm_InvalidMint (checked_add (reserve0 p) amount0)) (\<lambda>new_reserve0.
     rbind (ok_or Amm_InvalidMint (checked_add (reserve1 p) amount1)) (\<lambda>new_reserve1.
       if reserve0 p = 0 \<or> reserve1 p = 0 \<or> outstanding_lp_tokens p = 0 then
         rbind (add_word (outstanding_lp_tokens p) (geometric_mean E new_reserve0 new_reserve1)) (\<lambda>lp.
           Ok \<lparr>reserve0 = new_reserve0, reserve1 = new_reserve1, outstanding_lp_tokens = lp,
               creation_txid = creation_txid p\<rparr>)
       else
         rbind (div_word (as_u128 (outstanding_lp_tokens p) * as_u128 amount0) (as_u128 (reserve0 p))) (\<lambda>minted0.
         rbind (div_word (as_u128 (outstanding_lp_tokens p) * as_u128 amount1) (as_u128 (reserve1 p))) (\<lambda>minted1.
         rbind (ok_or Amm_LpTokenOverflow (try_into_u64 (min minted0 minted1))) (\<lambda>minted.
         rbind (ok_or Amm_LpTokenOverflow (checked_add (outstanding_lp_tokens p) minted)) (\<lambda>lp.
           Ok \<lparr>reserve0 = new_reserve0, reserve1 = new_reserve1, outstanding_lp_tokens = lp,
               creation_txid = creation_txid p\<rparr>))))))"

definition pool_revert_mint ::
  "externs \<Rightarrow> u64 \<Rightarrow> u64 \<Rightarrow> u64 \<Rightarrow> PoolState \<Rightarrow> (AmmError, PoolState) result" where
  "pool_revert_mint E amount0 amount1 lp_tokens_minted p =
     rbind (ok_or Amm_InvalidMint (checked_sub (reserve0 p) amount0)) (\<lambda>new_reserve0.
     rbind (ok_or Amm_InvalidMint (checked_sub (reserve1 p) amount1)) (\<lambda>new_reserve1.
     rbind (ok_or Amm_LpTokenUnderflow (checked_sub (outstanding_lp_tokens p) lp_tokens_minted)) (\<lambda>lp.
       let new_state = \<lparr>reserve0 = new_reserve0, reserve1 = new_reserve1, outstanding_lp_tokens = lp,
             creation_txid = creation_txid p\<rparr>
       in rbind (mint E amount0 amount1 new_state) (\<lambda>check.
            if p = check then Ok new_state else Err Amm_RevertMint))))"

definition burn_payout :: "PoolState \<Rightarrow> u64 \<Rightarrow> u64 \<Rightarrow> (AmmError, u64) result" where
  "burn_payout p lp_token_burn reserve =
     rbind (div_word (as_u128 reserve * as_u128 lp_token_burn) (as_u128 (outstanding_lp_tokens p))) (\<lambda>payout.
       ok_or Amm_BurnOverflow (try_into_u64 payout))"

definition burn :: "u64 \<Rightarrow> PoolState \<Rightarrow> (AmmError, PoolState) result" where
  "burn lp_token_burn p =
     (if outstanding_lp_tokens p = 0 then Err Amm_InvalidBurn else
      rbind (burn_payout p lp_token_burn (reserve0 p)) (\<lambda>payout_0.
      rbind (burn_payout p lp_token_burn (reserve1 p)) (\<lambda>payout_1.
      rbind (ok_or Amm_BurnUnderflow (checked_sub (reserve0 p) payout_0)) (\<lambda>new_reserve0.
      rbind (ok_or Amm_BurnUnderflow (checked_sub (reserve1 p) payout_1)) (\<lambda>new_reserve1.
      rbind (ok_or Amm_BurnUnderflow (checked_sub (outstanding_lp_tokens p) lp_token_burn)) (\<lambda>lp.
        Ok \<lparr>reserve0 = new_reserve0, reserve1 = new_reserve1, outstanding_lp_tokens = lp,
            creation_txid = creation_txid p\<rparr>))))))"

definition unburn :: "u64 \<Rightarrow> u64 \<Rightarrow> u64 \<Rightarrow> PoolState \<Rightarrow> (AmmError, PoolState) result" where
  "unburn lp_token_unburn payout_0 payout_1 p =
     rbind (ok_or Amm_BurnOverflow (checked_add (outstanding_lp_tokens p) lp_token_unburn)) (\<lambda>lp.
     rbind (ok_or Amm_BurnOverflow (checked_add (reserve0 p) payout_0)) (\<lambda>new_reserve0.
     rbind (ok_or Amm_BurnOverflow (checked_add (reserve1 p) payout_1)) (\<lambda>new_reserve1.
       Ok \<lparr>reserve0 = new_reserve0, reserve1 = new_reserve1, outstanding_lp_tokens = lp,
           creation_txid = creation_txid p\<rparr>)))"

text \<open>\<open>(x as u128 * 997) / 1000\<close>, truncated to 64 bits.\<close>

definition after_fee :: "u64 \<Rightarrow> u64" where
  "after_fee x = as_u64 (as_u128 x * 997 div 1000)"

definition swap_asset0_for_asset1 :: "u64 \<Rightarrow> PoolState \<Rightarrow> (AmmError, PoolState) result" where
  "swap_asset0_for_asset1 amount_spend p =
     (let reserve_product = as_u128 (reserve0 p) * as_u128 (reserve1 p);
          spend_after_fee = after_fee amount_spend in
      rbind (ok_or Amm_InvalidSwap (checked_sub amount_spend spend_after_fee)) (\<lambda>_.
      let effective_reserve = as_u128 (reserve0 p) + as_u128 spend_after_fee in
      rbind (div_ceil reserve_product effective_reserve) (\<lambda>q.
      rbind (ok_or Amm_InvalidSwap (try_into_u64 q)) (\<lambda>new_receive_before_fee.
      rbind (ok_or Amm_InvalidSwap (checked_sub (reserve1 p) new_receive_before_fee)) (\<lambda>receive_before_fee.
      let receive_after_fee = after_fee receive_before_fee in
      rbind (ok_or Amm_InvalidSwap (checked_sub receive_before_fee receive_before_fee)) (\<lambda>_.
      rbind (ok_or Amm_ReserveOverflow (checked_add (reserve0 p) amount_spend)) (\<lambda>new_reserve0.
      rbind (ok_or Amm_InsufficientLiquidity (checked_sub (reserve1 p) receive_after_fee)) (\<lambda>new_reserve1.
        Ok (p\<lparr>reserve0 := new_reserve0, reserve1 := new_reserve1\<rparr>)))))))))"

definition swap_asset1_for_asset0 :: "u64 \<Rightarrow> PoolState \<Rightarrow> (AmmError, PoolState) result" where
  "swap_asset1_for_asset0 amount_spend p =
     (let reserve_product = as_u128 (reserve0 p) * as_u128 (reserve1 p);
          spend_after_fee = after_fee amount_spend in
      rbind (ok_or Amm_InvalidSwap (checked_sub amount_spend spend_after_fee)) (\<lambda>_.
      let effective_reserve = as_u128 (reserve1 p) + as_u128 spend_after_fee in
      rbind (div_ceil reserve_product effective_reserve) (\<lambda>q.
      rbind (ok_or Amm_InvalidSwap (try_into_u64 q)) (\<lambda>new_receive_before_fee.
      rbind (ok_or Amm_InvalidSwap (checked_sub (reserve0 p) new_receive_before_fee)) (\<lambda>receive_before_fee.
      let receive_after_fee = after_fee receive_before_fee in
      rbind (ok_or Amm_InvalidSwap (checked_sub receive_before_fee receive_before_fee)) (\<lambda>_.
      rbind (ok_or Amm_InsufficientLiquidity (checked_sub (reserve0 p) receive_after_fee)) (\<lambda>new_reserve0.
      rbind (ok_or Amm_ReserveOverflow (checked_add (reserve1 p) amount_spend)) (\<lambda>new_reserve1.
        Ok (p\<lparr>reserve0 := new_reserve0, reserve1 := new_reserve1\<rparr>)))))))))"

definition pool_revert_swap :: "AmmSwapTx \<Rightarrow> PoolState \<Rightarrow> (AmmError, PoolState) result" where
  "pool_revert_swap swap p =
     (let amm_pair = AmmPair_new (as_asset_receive swap) (as_asset_spend swap) in
      rbind
        (if as_asset_spend swap = pair_asset1 amm_pair
         then rbind (add_word (reserve0 p) (as_amount_receive swap)) (\<lambda>r0.
              rbind (sub_word (reserve1 p) (as_amount_spend swap)) (\<lambda>r1. Ok (r0, r1)))
         else rbind (sub_word (reserve0 p) (as_amount_spend swap)) (\<lambda>r0.
              rbind (add_word (reserve1 p) (as_amount_receive swap)) (\<lambda>r1. Ok (r0, r1))))
        (\<lambda>(new_reserve0, new_reserve1).
          let new_state = p\<lparr>reserve0 := new_reserve0, reserve1 := new_reserve1\<rparr> in
          rbind (if as_asset_spend swap = pair_asset0 amm_pair
                 then swap_asset0_for_asset1 (as_amount_spend swap) new_state
                 else swap_asset1_for_asset0 (as_amount_spend swap) new_state)
            (\<lambda>check_state. if check_state = p then Ok new_state else Err Amm_RevertSwap)))"

section \<open>The table of pools\<close>

type_synonym PoolsDb = "(AmmPair, PoolState) fmap"

definition get_pool :: "AmmPair \<Rightarrow> PoolsDb \<Rightarrow> (AmmError, PoolState) result" where
  "get_pool amm_pair pools =
     ok_or (Amm_MissingPoolState (pair_asset0 amm_pair) (pair_asset1 amm_pair)) (fmlookup pools amm_pair)"

definition apply_burn :: "FilledTransaction \<Rightarrow> PoolsDb \<Rightarrow> (AmmError, PoolsDb) result" where
  "apply_burn filled_tx pools =
     rbind (amm_burn filled_tx) (\<lambda>mb.
     rbind (ok_or Amm_InvalidBurn mb) (\<lambda>b.
     let amm_pair = AmmPair_new (ab_asset0 b) (ab_asset1 b) in
     rbind (get_pool amm_pair pools) (\<lambda>pool.
     rbind (burn (ab_lp_token_burn b) pool) (\<lambda>new_pool.
     rbind (sub_word (reserve0 pool) (reserve0 new_pool)) (\<lambda>payout0.
     rbind (ensure (payout0 = ab_amount0 b) Amm_InvalidBurn) (\<lambda>_.
     rbind (sub_word (reserve1 pool) (reserve1 new_pool)) (\<lambda>payout1.
     rbind (ensure (payout1 = ab_amount1 b) Amm_InvalidBurn) (\<lambda>_.
       Ok (fmupd amm_pair new_pool pools)))))))))"

definition revert_burn :: "FilledTransaction \<Rightarrow> PoolsDb \<Rightarrow> (AmmError, PoolsDb) result" where
  "revert_burn filled_tx pools =
     rbind (amm_burn filled_tx) (\<lambda>mb.
     rbind (ok_or Amm_InvalidBurn mb) (\<lambda>b.
     let amm_pair = AmmPair_new (ab_asset0 b) (ab_asset1 b) in
     rbind (get_pool amm_pair pools) (\<lambda>pool.
     rbind (unburn (ab_lp_token_burn b) (ab_amount0 b) (ab_amount1 b) pool) (\<lambda>prev_pool.
       Ok (fmupd amm_pair prev_pool pools)))))"

definition apply_mint :: "externs \<Rightarrow> FilledTransaction \<Rightarrow> PoolsDb \<Rightarrow> (AmmError, PoolsDb) result" where
  "apply_mint E filled_tx pools =
     rbind (amm_mint filled_tx) (\<lambda>mm.
     rbind (ok_or Amm_InvalidMint mm) (\<lambda>m.
     rbind (ensure (am_asset0 m \<noteq> am_asset1 m) Amm_InvalidMint) (\<lambda>_.
     let amm_pair = AmmPair_new (am_asset0 m) (am_asset1 m);
         pool = (case fmlookup pools amm_pair of Some p \<Rightarrow> p
                 | None \<Rightarrow> PoolState_new (txid E (ft_transaction filled_tx))) in
     rbind (mint E (am_amount0 m) (am_amount1 m) pool) (\<lambda>new_pool.
     rbind (ok_or Amm_InvalidMint
         (checked_sub (outstanding_lp_tokens new_pool) (outstanding_lp_tokens pool))) (\<lambda>minted.
     rbind (ensure (minted = am_lp_token_mint m) Amm_InvalidMint) (\<lambda>_.
       Ok (fmupd amm_pair new_pool pools)))))))"

definition revert_mint :: "externs \<Rightarrow> FilledTransaction \<Rightarrow> PoolsDb \<Rightarrow> (AmmError, PoolsDb) result" where
  "revert_mint E filled_tx pools =
     rbind (amm_mint filled_tx) (\<lambda>mm.
     rbind (ok_or Amm_InvalidMint mm) (\<lambda>m.
     rbind (ensure (am_asset0 m \<noteq> am_asset1 m) Amm_InvalidMint) (\<lambda>_.
     let amm_pair = AmmPair_new (am_asset0 m) (am_asset1 m) in
     rbind (get_pool amm_pair pools) (\<lambda>pool.
       if creation_txid pool = txid E (ft_transaction filled_tx) then Ok (fmdrop amm_pair pools)
       else rbind (pool_revert_mint E (am_amount0 m) (am_amount1 m) (am_lp_token_mint m) pool) (\<lambda>new_pool.
         Ok (fmupd amm_pair new_pool pools))))))"

definition apply_swap :: "FilledTransaction \<Rightarrow> PoolsDb \<Rightarrow> (AmmError, PoolsDb) result" where
  "apply_swap filled_tx pools =
     rbind (amm_swap filled_tx) (\<lambda>ms.
     rbind (ok_or Amm_InvalidSwap ms) (\<lambda>s.
     let amm_pair = AmmPair_new (as_asset_spend s) (as_asset_receive s) in
     rbind (get_pool amm_pair pools) (\<lambda>pool.
     rbind (if as_asset_spend s < as_asset_receive s
            then rbind (swap_asset0_for_asset1 (as_amount_spend s) pool) (\<lambda>new_pool.
                 rbind (sub_word (reserve1 pool) (reserve1 new_pool)) (\<lambda>received. Ok (new_pool, received)))
            else rbind (swap_asset1_for_asset0 (as_amount_spend s) pool) (\<lambda>new_pool.
                 rbind (sub_word (reserve0 pool) (reserve0 new_pool)) (\<lambda>received. Ok (new_pool, received))))
       (\<lambda>(new_pool, amount_receive_after_fee).
     rbind (ensure (as_amount_receive s = amount_receive_after_fee) Amm_InvalidSwap) (\<lambda>_.
       Ok (fmupd amm_pair new_pool pools))))))"

definition revert_swap :: "FilledTransaction \<Rightarrow> PoolsDb \<Rightarrow> (AmmError, PoolsDb) result" where
  "revert_swap filled_tx pools =
     rbind (amm_swap filled_tx) (\<lambda>ms.
     rbind (ok_or Amm_InvalidSwap ms) (\<lambda>s.
     let amm_pair = AmmPair_new (as_asset_spend s) (as_asset_receive s) in
     rbind (get_pool amm_pair pools) (\<lambda>pool.
     rbind (pool_revert_swap s pool) (\<lambda>new_pool.
       Ok (fmupd amm_pair new_pool pools)))))"

section \<open>Arithmetic of positions\<close>

lemma position_growth:
  fixes r0 r1 :: nat
  assumes "0 < r0" "0 < r1" "m * r0 \<le> lp * a0" "m * r1 \<le> lp * a1" "lp\<^sup>2 \<le> r0 * r1"
  shows "(lp + m)\<^sup>2 \<le> (r0 + a0) * (r1 + a1)"
proof -
  have "(lp + m) * r0 \<le> lp * (r0 + a0)" "(lp + m) * r1 \<le> lp * (r1 + a1)"
    using assms by (simp_all add: algebra_simps)
  then have "((lp + m) * r0) * ((lp + m) * r1) \<le> (lp * (r0 + a0)) * (lp * (r1 + a1))"
    by (rule mult_le_mono)
  then have "(r0 * r1) * (lp + m)\<^sup>2 \<le> lp\<^sup>2 * ((r0 + a0) * (r1 + a1))"
    by (simp add: power2_eq_square algebra_simps)
  also have "\<dots> \<le> (r0 * r1) * ((r0 + a0) * (r1 + a1))"
    by (rule mult_le_mono1) (rule assms)
  finally show ?thesis using assms(1,2) by simp
qed

lemma position_shrink:
  fixes q0 q1 :: nat
  assumes "p0 * (l + b) \<le> (q0 + p0) * b" "p1 * (l + b) \<le> (q1 + p1) * b" "0 < l + b"
    and "(l + b)\<^sup>2 \<le> (q0 + p0) * (q1 + p1)"
  shows "l\<^sup>2 \<le> q0 * q1"
proof -
  have "(q0 + p0) * l \<le> q0 * (l + b)" "(q1 + p1) * l \<le> q1 * (l + b)"
    using assms(1,2) by (simp_all add: algebra_simps)
  then have "((q0 + p0) * l) * ((q1 + p1) * l) \<le> (q0 * (l + b)) * (q1 * (l + b))"
    by (rule mult_le_mono)
  then have "((q0 + p0) * (q1 + p1)) * l\<^sup>2 \<le> (l + b)\<^sup>2 * (q0 * q1)"
    by (simp only: power2_eq_square mult.assoc mult.commute mult.left_commute)
  moreover have "(l + b)\<^sup>2 * l\<^sup>2 \<le> ((q0 + p0) * (q1 + p1)) * l\<^sup>2"
    by (rule mult_le_mono1) (rule assms)
  ultimately have "(l + b)\<^sup>2 * l\<^sup>2 \<le> (l + b)\<^sup>2 * (q0 * q1)" by linarith
  then show ?thesis using assms(3) by (simp only: nat_mult_le_cancel_disj) auto
qed

lemma square_below_product:
  fixes s :: nat
  assumes "s\<^sup>2 \<le> x * y" "x < 2 ^ 64" "y < 2 ^ 64"
  shows "s < 2 ^ 64"
proof (rule ccontr)
  assume "\<not> s < 2 ^ 64"
  then have "(2 ^ 64)\<^sup>2 \<le> s\<^sup>2" by (intro power_mono) auto
  moreover have "x * y < 2 ^ 64 * 2 ^ 64" by (rule mult_strict_mono) (use assms in auto)
  ultimately show False using assms(1) by (simp add: power2_eq_square)
qed

lemma unat_min: "unat (min x y) = min (unat x) (unat (y :: 'a::len word))"
  by (simp add: min_def word_le_nat_alt)

lemma unat_eq_0_iff: "unat x = 0 \<longleftrightarrow> x = 0"
  by (simp add: unat_eq_zero)

section \<open>The pool invariant\<close>

definition pool_ok :: "PoolState \<Rightarrow> bool" where
  "pool_ok p \<longleftrightarrow> (unat (outstanding_lp_tokens p))\<^sup>2 \<le> unat (reserve0 p) * unat (reserve1 p)"

lemma pool_ok_new [simp]: "pool_ok (PoolState_new t)"
  by (simp add: pool_ok_def PoolState_new_def)

lemma geometric_mean_unat:
  "isqrt_floor E \<Longrightarrow> unat (geometric_mean E x y) = unat (ext_isqrt E (as_u128 x * as_u128 y))"
  unfolding geometric_mean_def by (rule unat_as_u64) (rule isqrt_fits)

text \<open>The LP tokens that \<open>mint\<close> adds to a pool, as a number.\<close>

definition minted_lp :: "externs \<Rightarrow> u64 \<Rightarrow> u64 \<Rightarrow> PoolState \<Rightarrow> nat" where
  "minted_lp E amount0 amount1 p =
     (if reserve0 p = 0 \<or> reserve1 p = 0 \<or> outstanding_lp_tokens p = 0
      then unat (geometric_mean E (reserve0 p + amount0) (reserve1 p + amount1))
      else min (unat (outstanding_lp_tokens p) * unat amount0 div unat (reserve0 p))
               (unat (outstanding_lp_tokens p) * unat amount1 div unat (reserve1 p)))"

lemma minted_lp_share:
  assumes "\<not> (reserve0 p = 0 \<or> reserve1 p = 0 \<or> outstanding_lp_tokens p = 0)"
  shows "minted_lp E a0 a1 p * unat (reserve0 p) \<le> unat (outstanding_lp_tokens p) * unat a0"
    and "minted_lp E a0 a1 p * unat (reserve1 p) \<le> unat (outstanding_lp_tokens p) * unat a1"
proof -
  have "min (x div r) y * r \<le> x" and "min y (x div r) * r \<le> x" for x y r :: nat
  proof -
    have "x div r * r \<le> x" by simp
    moreover have "min (x div r) y * r \<le> x div r * r" "min y (x div r) * r \<le> x div r * r"
      by (rule mult_le_mono1, simp)+
    ultimately show "min (x div r) y * r \<le> x" and "min y (x div r) * r \<le> x" by linarith+
  qed
  with assms show "minted_lp E a0 a1 p * unat (reserve0 p) \<le> unat (outstanding_lp_tokens p) * unat a0"
    and "minted_lp E a0 a1 p * unat (reserve1 p) \<le> unat (outstanding_lp_tokens p) * unat a1"
    by (simp_all add: minted_lp_def)
qed

lemma minted_lp_bound:
  assumes "isqrt_floor E" "pool_ok p"
    and "unat (reserve0 p) + unat a0 < 2 ^ 64" "unat (reserve1 p) + unat a1 < 2 ^ 64"
  shows "(unat (outstanding_lp_tokens p) + minted_lp E a0 a1 p)\<^sup>2
    \<le> (unat (reserve0 p) + unat a0) * (unat (reserve1 p) + unat a1)"
proof (cases "reserve0 p = 0 \<or> reserve1 p = 0 \<or> outstanding_lp_tokens p = 0")
  case True
  with assms(2) have "unat (outstanding_lp_tokens p) = 0" by (auto simp: pool_ok_def)
  moreover have "unat (reserve0 p + a0) = unat (reserve0 p) + unat a0"
    "unat (reserve1 p + a1) = unat (reserve1 p) + unat a1"
    using assms(3,4) by (simp_all add: unat_word_ariths)
  ultimately show ?thesis
    using True isqrt_le [OF assms(1), of "as_u128 (reserve0 p + a0) * as_u128 (reserve1 p + a1)"]
    by (simp add: minted_lp_def geometric_mean_unat [OF assms(1)])
next
  case False
  then show ?thesis
    using assms(2) by (intro position_growth minted_lp_share) (auto simp: pool_ok_def unat_gt_0)
qed

text \<open>On a pool that meets the invariant, \<open>mint\<close> fails only if a reserve would overflow.\<close>

lemma mint_Ok:
  assumes E: "isqrt_floor E" and ok: "pool_ok p"
    and f0: "unat (reserve0 p) + unat a0 < 2 ^ 64" and f1: "unat (reserve1 p) + unat a1 < 2 ^ 64"
  shows "\<exists>p'. mint E a0 a1 p = Ok p' \<and> pool_ok p' \<and>
    unat (reserve0 p') = unat (reserve0 p) + unat a0 \<and> unat (reserve1 p') = unat (reserve1 p) + unat a1 \<and>
    unat (outstanding_lp_tokens p') = unat (outstanding_lp_tokens p) + minted_lp E a0 a1 p \<and>
    creation_txid p' = creation_txid p"
proof -
  let ?m = "minted_lp E a0 a1 p" and ?lp = "unat (outstanding_lp_tokens p)"
  have sq: "(?lp + ?m)\<^sup>2 \<le> (unat (reserve0 p) + unat a0) * (unat (reserve1 p) + unat a1)"
    by (rule minted_lp_bound [OF E ok f0 f1])
  then have lt: "?lp + ?m < 2 ^ 64" using f0 f1 by (rule square_below_product)
  define p' where "p' = \<lparr>reserve0 = reserve0 p + a0, reserve1 = reserve1 p + a1,
    outstanding_lp_tokens = of_nat (?lp + ?m), creation_txid = creation_txid p\<rparr>"
  have lp': "unat (of_nat (?lp + ?m) :: u64) = ?lp + ?m"
    using lt by (simp only: unat_of_nat) simp
  have r: "unat (reserve0 p + a0) = unat (reserve0 p) + unat a0" "unat (reserve1 p + a1) = unat (reserve1 p) + unat a1"
    using f0 f1 by (simp_all add: unat_word_ariths)
  have "mint E a0 a1 p = Ok p'"
  proof (cases "reserve0 p = 0 \<or> reserve1 p = 0 \<or> outstanding_lp_tokens p = 0")
    case True
    then have "add_word (outstanding_lp_tokens p) (geometric_mean E (reserve0 p + a0) (reserve1 p + a1))
      = (Ok (of_nat (?lp + ?m)) :: (AmmError, u64) result)"
      using lp' by (simp add: minted_lp_def)
    with True f0 f1 show ?thesis by (simp add: mint_def checked_add_def p'_def del: add_word_Ok_iff)
  next
    case False
    then have nz: "as_u128 (reserve0 p) \<noteq> 0" "as_u128 (reserve1 p) \<noteq> 0"
      by (metis unat_as_u128 unat_eq_0_iff)+
    let ?q = "min (as_u128 (outstanding_lp_tokens p) * as_u128 a0 div as_u128 (reserve0 p))
      (as_u128 (outstanding_lp_tokens p) * as_u128 a1 div as_u128 (reserve1 p))"
    have q: "unat ?q = ?m" using False by (simp add: unat_min minted_lp_def)
    have "unat (as_u64 ?q) = ?m" using lt q by (simp add: unat_as_u64)
    then have c: "checked_add (outstanding_lp_tokens p) (as_u64 ?q) = Some (of_nat (?lp + ?m))"
      using lp' by (simp add: checked_add_Some_iff)
    have t: "try_into_u64 ?q = Some (as_u64 ?q)" using lt q by (simp add: try_into_u64_def)
    show ?thesis
      using False f0 f1 nz c t by (simp add: mint_def checked_add_def [of "reserve0 p"]
          checked_add_def [of "reserve1 p"] div_word_def p'_def
          del: try_into_u64_Some_iff)
  qed
  then show ?thesis using sq r lp' by (intro exI [of _ p']) (simp add: p'_def pool_ok_def)
qed

lemma mint_Err:
  assumes "\<not> (unat (reserve0 p) + unat a0 < 2 ^ 64 \<and> unat (reserve1 p) + unat a1 < 2 ^ 64)"
  shows "mint E a0 a1 p = Err Amm_InvalidMint"
  using assms by (auto simp: mint_def checked_add_def)

lemma burn_payout_Ok:
  assumes "outstanding_lp_tokens p \<noteq> 0" and "unat b \<le> unat (outstanding_lp_tokens p)"
  obtains v where "burn_payout p b r = Ok v"
    and "unat v = unat r * unat b div unat (outstanding_lp_tokens p)" and "unat v \<le> unat r"
proof -
  let ?lp = "outstanding_lp_tokens p"
  have nz: "as_u128 ?lp \<noteq> 0" using assms(1) by (metis unat_as_u128 unat_eq_0_iff)
  have pos: "0 < unat ?lp" using assms(1) by (simp add: unat_gt_0)
  let ?q = "as_u128 r * as_u128 b div as_u128 ?lp"
  have q: "unat ?q = unat r * unat b div unat ?lp" by simp
  have "unat r * unat b \<le> unat r * unat ?lp" using assms(2) by simp
  then have "unat r * unat b div unat ?lp \<le> unat r * unat ?lp div unat ?lp" by (rule div_le_mono)
  then have le: "unat ?q \<le> unat r" using pos q by simp
  then have lt: "unat ?q < 2 ^ 64" using unat_less_pow [of r] by simp
  show thesis
    by (rule that [of "as_u64 ?q"]) (use nz lt le q in
      \<open>simp_all add: burn_payout_def div_word_def try_into_u64_def unat_as_u64\<close>)
qed

text \<open>A burn succeeds exactly when the pool has LP tokens and at least the burnt amount of them.\<close>

lemma burn_Ok:
  assumes "outstanding_lp_tokens p \<noteq> 0" and "unat b \<le> unat (outstanding_lp_tokens p)"
  obtains p' where "burn b p = Ok p'"
    and "unat (reserve0 p) = unat (reserve0 p') + unat (reserve0 p) * unat b div unat (outstanding_lp_tokens p)"
    and "unat (reserve1 p) = unat (reserve1 p') + unat (reserve1 p) * unat b div unat (outstanding_lp_tokens p)"
    and "unat (outstanding_lp_tokens p) = unat (outstanding_lp_tokens p') + unat b"
    and "creation_txid p' = creation_txid p"
proof -
  from assms obtain v0 where v0: "burn_payout p b (reserve0 p) = Ok v0"
    "unat v0 = unat (reserve0 p) * unat b div unat (outstanding_lp_tokens p)" "unat v0 \<le> unat (reserve0 p)"
    by (rule burn_payout_Ok)
  from assms obtain v1 where v1: "burn_payout p b (reserve1 p) = Ok v1"
    "unat v1 = unat (reserve1 p) * unat b div unat (outstanding_lp_tokens p)" "unat v1 \<le> unat (reserve1 p)"
    by (rule burn_payout_Ok)
  show thesis
    by (rule that [of "\<lparr>reserve0 = reserve0 p - v0, reserve1 = reserve1 p - v1,
        outstanding_lp_tokens = outstanding_lp_tokens p - b, creation_txid = creation_txid p\<rparr>"])
      (use assms v0 v1 in \<open>simp_all add: burn_def checked_sub_def word_le_nat_alt unat_sub\<close>)
qed

lemma burn_OkD:
  assumes "burn b p = Ok p'"
  shows "outstanding_lp_tokens p \<noteq> 0" and "unat b \<le> unat (outstanding_lp_tokens p)"
  using assms by (auto simp: burn_def rbind_Ok_iff checked_sub_Some_iff split: if_splits)

lemma burn_keeps_ok:
  assumes ok: "pool_ok p" and b: "burn b p = Ok p'"
  shows "pool_ok p'"
proof -
  from burn_OkD [OF b] have nz: "outstanding_lp_tokens p \<noteq> 0" and le: "unat b \<le> unat (outstanding_lp_tokens p)" .
  from nz le obtain p'' where p'': "burn b p = Ok p''"
    and r0: "unat (reserve0 p) = unat (reserve0 p'') + unat (reserve0 p) * unat b div unat (outstanding_lp_tokens p)"
    and r1: "unat (reserve1 p) = unat (reserve1 p'') + unat (reserve1 p) * unat b div unat (outstanding_lp_tokens p)"
    and lp: "unat (outstanding_lp_tokens p) = unat (outstanding_lp_tokens p'') + unat b"
    by (rule burn_Ok)
  from p'' b have [simp]: "p'' = p'" by simp
  have "(unat (outstanding_lp_tokens p'))\<^sup>2 \<le> unat (reserve0 p') * unat (reserve1 p')"
  proof (rule position_shrink)
    let ?L = "unat (outstanding_lp_tokens p') + unat b"
    have d: "x div ?L * ?L \<le> x" for x :: nat by simp
    show "unat (reserve0 p) * unat b div ?L * ?L
        \<le> (unat (reserve0 p') + unat (reserve0 p) * unat b div ?L) * unat b"
      using d r0 lp by simp
    show "unat (reserve1 p) * unat b div ?L * ?L
        \<le> (unat (reserve1 p') + unat (reserve1 p) * unat b div ?L) * unat b"
      using d r1 lp by simp
    have "0 < unat (outstanding_lp_tokens p)" using nz by (simp add: unat_gt_0)
    then show "0 < ?L" using lp unfolding \<open>p'' = p'\<close> by linarith
    show "?L\<^sup>2 \<le> (unat (reserve0 p') + unat (reserve0 p) * unat b div ?L)
        * (unat (reserve1 p') + unat (reserve1 p) * unat b div ?L)"
      using ok r0 r1 lp by (simp add: pool_ok_def)
  qed
  then show ?thesis by (simp add: pool_ok_def)
qed

section \<open>Swaps\<close>

lemma after_fee_unat: "unat (after_fee x) = unat x * 997 div 1000"
proof -
  have x: "unat x < 18446744073709551616" by (rule unat_u64)
  then have "unat (as_u128 x * 997) = unat x * 997"
    by (simp add: unat_word_ariths)
  then have q: "unat (as_u128 x * 997 div 1000) = unat x * 997 div 1000" by simp
  moreover have "unat x * 997 div 1000 \<le> unat x" by simp
  ultimately show ?thesis using x by (simp add: after_fee_def unat_as_u64)
qed

lemma after_fee_le: "unat (after_fee x) \<le> unat x"
  by (simp add: after_fee_unat)

text \<open>What a successful swap does to the reserve spent into and the reserve received from.\<close>

definition swapped :: "u64 \<Rightarrow> u64 \<Rightarrow> u64 \<Rightarrow> u64 \<Rightarrow> u64 \<Rightarrow> bool" where
  "swapped s spend receive spend' receive' \<longleftrightarrow>
     (\<exists>q before. div_ceil (as_u128 spend * as_u128 receive) (as_u128 spend + as_u128 (after_fee s))
         = (Ok q :: (AmmError, u128) result) \<and>
       unat receive = unat before + unat q \<and> unat spend' = unat spend + unat s \<and>
       unat receive = unat receive' + unat (after_fee before))"

lemma fee_subtractable: "\<exists>z :: u64. unat s = unat z + unat (after_fee s)"
proof -
  have "unat s = unat (s - after_fee s) + unat (after_fee s)"
    using after_fee_le [of s] by (simp add: unat_sub word_le_nat_alt)
  then show ?thesis by blast
qed

lemma swap0_iff:
  "swap_asset0_for_asset1 s p = Ok p' \<longleftrightarrow>
     (\<exists>x y. swapped s (reserve0 p) (reserve1 p) x y \<and> p' = p\<lparr>reserve0 := x, reserve1 := y\<rparr>)"
  (is "?L = ?R")
proof
  assume ?L
  then obtain q before x y where
    "div_ceil (as_u128 (reserve0 p) * as_u128 (reserve1 p)) (as_u128 (reserve0 p) + as_u128 (after_fee s))
       = (Ok q :: (AmmError, u128) result)"
    "unat (reserve1 p) = unat before + unat q" "unat x = unat (reserve0 p) + unat s"
    "unat (reserve1 p) = unat y + unat (after_fee before)" "p' = p\<lparr>reserve0 := x, reserve1 := y\<rparr>"
    unfolding swap_asset0_for_asset1_def Let_def
    by (auto simp: rbind_Ok_iff checked_sub_Some_iff checked_add_Some_iff mult.commute)
  then show ?R unfolding swapped_def by blast
next
  assume ?R
  then obtain x y q before where c:
    "div_ceil (as_u128 (reserve0 p) * as_u128 (reserve1 p)) (as_u128 (reserve0 p) + as_u128 (after_fee s))
       = (Ok q :: (AmmError, u128) result)"
    "unat (reserve1 p) = unat before + unat q" "unat x = unat (reserve0 p) + unat s"
    "unat (reserve1 p) = unat y + unat (after_fee before)" "p' = p\<lparr>reserve0 := x, reserve1 := y\<rparr>"
    by (auto simp: swapped_def)
  from c(2) have "unat q < 2 ^ 64" using unat_less_pow [of "reserve1 p"] by simp
  then have qq: "unat (as_u64 q) = unat q" by (rule unat_as_u64)
  obtain z where "checked_sub s (after_fee s) = Some z"
    using fee_subtractable [of s] by (auto simp: checked_sub_Some_iff)
  moreover have "try_into_u64 q = Some (as_u64 q)" "checked_sub (reserve1 p) (as_u64 q) = Some before"
    "checked_sub before before = Some 0" "checked_add (reserve0 p) s = Some x"
    "checked_sub (reserve1 p) (after_fee before) = Some y"
    using qq c by (simp_all add: checked_sub_Some_iff checked_add_Some_iff)
  ultimately show ?L using c(1,5)
    by (simp add: swap_asset0_for_asset1_def Let_def del: try_into_u64_Some_iff)
qed

lemma swap1_iff:
  "swap_asset1_for_asset0 s p = Ok p' \<longleftrightarrow>
     (\<exists>x y. swapped s (reserve1 p) (reserve0 p) y x \<and> p' = p\<lparr>reserve0 := x, reserve1 := y\<rparr>)"
  (is "?L = ?R")
proof
  assume ?L
  then obtain q before x y where
    "div_ceil (as_u128 (reserve1 p) * as_u128 (reserve0 p)) (as_u128 (reserve1 p) + as_u128 (after_fee s))
       = (Ok q :: (AmmError, u128) result)"
    "unat (reserve0 p) = unat before + unat q" "unat y = unat (reserve1 p) + unat s"
    "unat (reserve0 p) = unat x + unat (after_fee before)" "p' = p\<lparr>reserve0 := x, reserve1 := y\<rparr>"
    unfolding swap_asset1_for_asset0_def Let_def
    by (auto simp: rbind_Ok_iff checked_sub_Some_iff checked_add_Some_iff mult.commute)
  then show ?R unfolding swapped_def by blast
next
  assume ?R
  then obtain x y q before where c:
    "div_ceil (as_u128 (reserve0 p) * as_u128 (reserve1 p)) (as_u128 (reserve1 p) + as_u128 (after_fee s))
       = (Ok q :: (AmmError, u128) result)"
    "unat (reserve0 p) = unat before + unat q" "unat y = unat (reserve1 p) + unat s"
    "unat (reserve0 p) = unat x + unat (after_fee before)" "p' = p\<lparr>reserve0 := x, reserve1 := y\<rparr>"
    by (auto simp: swapped_def mult.commute [of "as_u128 (reserve1 p)" "as_u128 (reserve0 p)"])
  from c(2) have "unat q < 2 ^ 64" using unat_less_pow [of "reserve0 p"] by simp
  then have qq: "unat (as_u64 q) = unat q" by (rule unat_as_u64)
  obtain z where "checked_sub s (after_fee s) = Some z"
    using fee_subtractable [of s] by (auto simp: checked_sub_Some_iff)
  moreover have "try_into_u64 q = Some (as_u64 q)" "checked_sub (reserve0 p) (as_u64 q) = Some before"
    "checked_sub before before = Some 0" "checked_add (reserve1 p) s = Some y"
    "checked_sub (reserve0 p) (after_fee before) = Some x"
    using qq c by (simp_all add: checked_sub_Some_iff checked_add_Some_iff)
  ultimately show ?L using c(1,5)
    by (simp add: swap_asset1_for_asset0_def Let_def del: try_into_u64_Some_iff)
qed

lemma swapped_product:
  assumes "swapped s spend receive spend' receive'"
  shows "unat spend' = unat spend + unat s" and "unat receive' \<le> unat receive"
    and "unat spend * unat receive \<le> unat spend' * unat receive'"
proof -
  from assms obtain q before where
    q: "div_ceil (as_u128 spend * as_u128 receive) (as_u128 spend + as_u128 (after_fee s))
         = (Ok q :: (AmmError, u128) result)"
    and b: "unat receive = unat before + unat q" and n0: "unat spend' = unat spend + unat s"
    and n1: "unat receive = unat receive' + unat (after_fee before)"
    by (auto simp: swapped_def)
  show "unat spend' = unat spend + unat s" and "unat receive' \<le> unat receive" using n0 n1 by simp_all
  have "unat spend * unat receive \<le> unat q * (unat spend + unat (after_fee s))"
    using div_ceil_unat(2) [OF q] by simp
  also have "\<dots> \<le> unat receive' * unat spend'"
    using b n0 n1 after_fee_le [of before] after_fee_le [of s] by (intro mult_le_mono) auto
  finally show "unat spend * unat receive \<le> unat spend' * unat receive'" by (simp add: mult.commute)
qed

text \<open>A swap into a reserve with room succeeds, unless there is nothing to divide by.\<close>

lemma swapped_exists:
  assumes "unat spend + unat s < 2 ^ 64" and "0 < unat spend + unat (after_fee s)"
  shows "\<exists>x y. swapped s spend receive x y"
proof -
  let ?eff = "as_u128 spend + as_u128 (after_fee s)"
  have "unat ?eff \<noteq> 0" using assms(2) by simp
  then obtain q where q: "div_ceil (as_u128 spend * as_u128 receive) ?eff = (Ok q :: (AmmError, u128) result)"
    using div_ceil_Ok by metis
  have qlt: "unat q * unat ?eff < unat spend * unat receive + unat ?eff"
    using div_ceil_unat(3) [OF q] by simp
  have le: "unat q \<le> unat receive"
  proof (rule ccontr)
    assume "\<not> unat q \<le> unat receive"
    then have "(unat receive + 1) * unat ?eff \<le> unat q * unat ?eff" by (intro mult_le_mono1) simp
    with qlt have "unat receive * unat ?eff < unat spend * unat receive"
      unfolding add_mult_distrib by linarith
    moreover have "unat spend * unat receive \<le> unat receive * unat ?eff" by (simp add: algebra_simps)
    ultimately show False by simp
  qed
  then have qq: "unat (as_u64 q) = unat q" using unat_less_pow [of receive] by (simp add: unat_as_u64)
  define before where "before = receive - as_u64 q"
  have b: "unat receive = unat before + unat q"
    using le qq by (simp add: before_def unat_sub word_le_nat_alt)
  have "unat receive = unat (receive - after_fee before) + unat (after_fee before)"
    using b after_fee_le [of before] by (simp add: unat_sub word_le_nat_alt)
  moreover have "unat (spend + s) = unat spend + unat s" using assms(1) by (simp add: unat_word_ariths)
  ultimately show ?thesis using q b unfolding swapped_def by metis
qed

lemma swap0_Ok:
  assumes "swap_asset0_for_asset1 s p = Ok p'"
  shows "unat (reserve0 p') = unat (reserve0 p) + unat s"
    and "unat (reserve1 p') \<le> unat (reserve1 p)"
    and "unat (reserve0 p) * unat (reserve1 p) \<le> unat (reserve0 p') * unat (reserve1 p')"
    and "outstanding_lp_tokens p' = outstanding_lp_tokens p" and "creation_txid p' = creation_txid p"
  using assms swapped_product by (auto simp: swap0_iff)

lemma swap1_Ok:
  assumes "swap_asset1_for_asset0 s p = Ok p'"
  shows "unat (reserve1 p') = unat (reserve1 p) + unat s"
    and "unat (reserve0 p') \<le> unat (reserve0 p)"
    and "unat (reserve0 p) * unat (reserve1 p) \<le> unat (reserve0 p') * unat (reserve1 p')"
    and "outstanding_lp_tokens p' = outstanding_lp_tokens p" and "creation_txid p' = creation_txid p"
proof -
  from assms obtain x y where sw: "swapped s (reserve1 p) (reserve0 p) y x"
    and p': "p' = p\<lparr>reserve0 := x, reserve1 := y\<rparr>"
    by (auto simp: swap1_iff)
  show "unat (reserve0 p) * unat (reserve1 p) \<le> unat (reserve0 p') * unat (reserve1 p')"
    using swapped_product(3) [OF sw] by (simp add: p' mult.commute)
qed (use assms swapped_product in \<open>auto simp: swap1_iff\<close>)

section \<open>Undoing pool operations\<close>

lemma mint_OkD:
  assumes "mint E a0 a1 p = Ok p'"
  shows "checked_add (reserve0 p) a0 = Some (reserve0 p')" "checked_add (reserve1 p) a1 = Some (reserve1 p')"
    and "creation_txid p' = creation_txid p"
  using assms by (auto simp: mint_def rbind_Ok_iff split: if_splits)

lemma pool_revert_mint:
  assumes m: "mint E a0 a1 p = Ok p'"
    and lp: "checked_sub (outstanding_lp_tokens p') (outstanding_lp_tokens p) = Some minted"
  shows "pool_revert_mint E a0 a1 minted p' = Ok p"
proof -
  have "checked_sub (reserve0 p') a0 = Some (reserve0 p)" "checked_sub (reserve1 p') a1 = Some (reserve1 p)"
    "checked_sub (outstanding_lp_tokens p') minted = Some (outstanding_lp_tokens p)"
    using mint_OkD(1,2) [OF m] lp by (simp_all add: checked_add_Some_iff checked_sub_Some_iff)
  moreover have "\<lparr>reserve0 = reserve0 p, reserve1 = reserve1 p,
    outstanding_lp_tokens = outstanding_lp_tokens p, creation_txid = creation_txid p'\<rparr> = p"
    using mint_OkD(3) [OF m] by (cases p) simp
  ultimately show ?thesis using m by (simp add: pool_revert_mint_def)
qed

lemma burn_unburn:
  assumes b: "burn b p = Ok p'"
    and "unat (reserve0 p) = unat x + unat (reserve0 p')" "unat (reserve1 p) = unat y + unat (reserve1 p')"
  shows "unburn b x y p' = Ok p"
proof -
  from b have "checked_add (outstanding_lp_tokens p') b = Some (outstanding_lp_tokens p)"
    "creation_txid p' = creation_txid p"
    by (auto simp: burn_def rbind_Ok_iff checked_add_Some_iff checked_sub_Some_iff split: if_splits)
  moreover have "checked_add (reserve0 p') x = Some (reserve0 p)" "checked_add (reserve1 p') y = Some (reserve1 p)"
    using assms(2,3) by (simp_all add: checked_add_Some_iff)
  ultimately show ?thesis by (cases p) (simp add: unburn_def)
qed

lemma pool_revert_swap0:
  assumes sw: "swap_asset0_for_asset1 (as_amount_spend s) p = Ok p'"
    and r: "unat (reserve1 p) = unat (as_amount_receive s) + unat (reserve1 p')"
    and lt: "as_asset_spend s < as_asset_receive s"
  shows "pool_revert_swap s p' = Ok p"
proof -
  have pr: "AmmPair_new (as_asset_receive s) (as_asset_spend s) = AmmPair (as_asset_spend s) (as_asset_receive s)"
    using lt by (auto simp: AmmPair_new_def dest: leD)
  have "sub_word (reserve0 p') (as_amount_spend s) = (Ok (reserve0 p) :: (AmmError, u64) result)"
    "add_word (reserve1 p') (as_amount_receive s) = (Ok (reserve1 p) :: (AmmError, u64) result)"
    using swap0_Ok(1) [OF sw] r by simp_all
  moreover have "p'\<lparr>reserve0 := reserve0 p, reserve1 := reserve1 p\<rparr> = p"
    using swap0_Ok(4,5) [OF sw] by (cases p; cases p') simp
  ultimately show ?thesis using sw lt
    by (simp add: pool_revert_swap_def pr less_imp_neq del: add_word_Ok_iff sub_word_Ok_iff)
qed

lemma pool_revert_swap1:
  assumes sw: "swap_asset1_for_asset0 (as_amount_spend s) p = Ok p'"
    and r: "unat (reserve0 p) = unat (as_amount_receive s) + unat (reserve0 p')"
    and lt: "as_asset_receive s < as_asset_spend s"
  shows "pool_revert_swap s p' = Ok p"
proof -
  have pr: "AmmPair_new (as_asset_receive s) (as_asset_spend s) = AmmPair (as_asset_receive s) (as_asset_spend s)"
    using lt by (auto simp: AmmPair_new_def dest: leD)
  have "sub_word (reserve1 p') (as_amount_spend s) = (Ok (reserve1 p) :: (AmmError, u64) result)"
    "add_word (reserve0 p') (as_amount_receive s) = (Ok (reserve0 p) :: (AmmError, u64) result)"
    using swap1_Ok(1) [OF sw] r by simp_all
  moreover have "p'\<lparr>reserve0 := reserve0 p, reserve1 := reserve1 p\<rparr> = p"
    using swap1_Ok(4,5) [OF sw] by (cases p; cases p') simp
  ultimately show ?thesis using sw lt
    by (simp add: pool_revert_swap_def pr less_imp_neq [THEN not_sym] del: add_word_Ok_iff sub_word_Ok_iff)
qed

section \<open>The table: invariant and undoing\<close>

definition pools_ok :: "PoolsDb \<Rightarrow> bool" where
  "pools_ok pools \<longleftrightarrow>
     (\<forall>pr p. fmlookup pools pr = Some p \<longrightarrow> pool_ok p \<and> pair_asset0 pr < pair_asset1 pr)"

lemma pools_ok_upd:
  "pools_ok pools \<Longrightarrow> pool_ok p \<Longrightarrow> pair_asset0 pr < pair_asset1 pr \<Longrightarrow> pools_ok (fmupd pr p pools)"
  by (simp add: pools_ok_def)

lemma pools_okD:
  "pools_ok pools \<Longrightarrow> fmlookup pools pr = Some p \<Longrightarrow> pool_ok p"
  "pools_ok pools \<Longrightarrow> fmlookup pools pr = Some p \<Longrightarrow> pair_asset0 pr < pair_asset1 pr"
  by (simp_all add: pools_ok_def)

lemma AmmPair_new_less: "a \<noteq> b \<Longrightarrow> pair_asset0 (AmmPair_new a b) < pair_asset1 (AmmPair_new a b)"
  by (auto simp: AmmPair_new_def)

lemma AmmPair_new_commute: "AmmPair_new a b = AmmPair_new b a"
  by (auto simp: AmmPair_new_def)

lemma swap0_keeps_ok:
  assumes "pool_ok p" "swap_asset0_for_asset1 s p = Ok p'"
  shows "pool_ok p'"
  using assms(1) swap0_Ok(3,4) [OF assms(2)] by (simp add: pool_ok_def)

lemma swap1_keeps_ok:
  assumes "pool_ok p" "swap_asset1_for_asset0 s p = Ok p'"
  shows "pool_ok p'"
  using assms(1) swap1_Ok(3,4) [OF assms(2)] by (simp add: pool_ok_def)

lemma mint_keeps_ok:
  assumes "isqrt_floor E" "pool_ok p" "mint E a0 a1 p = Ok p'"
  shows "pool_ok p'"
proof -
  have "unat (reserve0 p) + unat a0 < 2 ^ 64 \<and> unat (reserve1 p) + unat a1 < 2 ^ 64"
    by (rule ccontr) (use assms(3) mint_Err [of p a0 a1 E] in simp)
  with mint_Ok [OF assms(1,2)] assms(3) show ?thesis by fastforce
qed

lemma apply_burn_Ok:
  assumes "apply_burn ft pools = Ok pools'"
  obtains b p p' where "amm_burn ft = (Ok (Some b) :: (AmmError, AmmBurnTx option) result)"
    and "fmlookup pools (AmmPair_new (ab_asset0 b) (ab_asset1 b)) = Some p"
    and "burn (ab_lp_token_burn b) p = Ok p'"
    and "unat (reserve0 p) = unat (ab_amount0 b) + unat (reserve0 p')"
    and "unat (reserve1 p) = unat (ab_amount1 b) + unat (reserve1 p')"
    and "pools' = fmupd (AmmPair_new (ab_asset0 b) (ab_asset1 b)) p' pools"
  using assms by (auto simp: apply_burn_def rbind_Ok_iff Let_def get_pool_def)

lemma apply_mint_Ok:
  assumes "apply_mint E ft pools = Ok pools'"
  obtains m p p' where "amm_mint ft = (Ok (Some m) :: (AmmError, AmmMintTx option) result)"
    and "am_asset0 m \<noteq> am_asset1 m"
    and "p = (case fmlookup pools (AmmPair_new (am_asset0 m) (am_asset1 m)) of Some p \<Rightarrow> p
        | None \<Rightarrow> PoolState_new (txid E (ft_transaction ft)))"
    and "mint E (am_amount0 m) (am_amount1 m) p = Ok p'"
    and "checked_sub (outstanding_lp_tokens p') (outstanding_lp_tokens p) = Some (am_lp_token_mint m)"
    and "pools' = fmupd (AmmPair_new (am_asset0 m) (am_asset1 m)) p' pools"
  using assms by (auto simp: apply_mint_def rbind_Ok_iff Let_def)

lemma apply_swap_Ok:
  assumes ap: "apply_swap ft pools = Ok pools'"
  obtains s p p' where "amm_swap ft = (Ok (Some s) :: (AmmError, AmmSwapTx option) result)"
    and "fmlookup pools (AmmPair_new (as_asset_spend s) (as_asset_receive s)) = Some p"
    and "as_asset_spend s < as_asset_receive s \<Longrightarrow> swap_asset0_for_asset1 (as_amount_spend s) p = Ok p' \<and>
        unat (reserve1 p) = unat (as_amount_receive s) + unat (reserve1 p')"
    and "\<not> as_asset_spend s < as_asset_receive s \<Longrightarrow> swap_asset1_for_asset0 (as_amount_spend s) p = Ok p' \<and>
        unat (reserve0 p) = unat (as_amount_receive s) + unat (reserve0 p')"
    and "pools' = fmupd (AmmPair_new (as_asset_spend s) (as_asset_receive s)) p' pools"
proof -
  from ap obtain s p where s: "amm_swap ft = (Ok (Some s) :: (AmmError, AmmSwapTx option) result)"
    and p: "fmlookup pools (AmmPair_new (as_asset_spend s) (as_asset_receive s)) = Some p"
    by (auto simp: apply_swap_def rbind_Ok_iff Let_def get_pool_def)
  show thesis
  proof (cases "as_asset_spend s < as_asset_receive s")
    case True
    with ap s p that show ?thesis
      by (auto simp: apply_swap_def rbind_Ok_iff Let_def get_pool_def)
  next
    case False
    with ap s p that show ?thesis
      by (auto simp: apply_swap_def rbind_Ok_iff Let_def get_pool_def)
  qed
qed

lemma apply_burn_ok:
  assumes ok: "pools_ok pools" and ap: "apply_burn ft pools = Ok pools'"
  shows "pools_ok pools'"
  using ap
proof (rule apply_burn_Ok)
  fix b p p' assume p: "fmlookup pools (AmmPair_new (ab_asset0 b) (ab_asset1 b)) = Some p"
    and bn: "burn (ab_lp_token_burn b) p = Ok p'"
    and u: "pools' = fmupd (AmmPair_new (ab_asset0 b) (ab_asset1 b)) p' pools"
  show ?thesis unfolding u
    by (rule pools_ok_upd [OF ok burn_keeps_ok [OF _ bn]]) (rule pools_okD [OF ok p])+
qed

lemma apply_mint_ok:
  assumes "isqrt_floor E" and ok: "pools_ok pools" and ap: "apply_mint E ft pools = Ok pools'"
  shows "pools_ok pools'"
  using ap
proof (rule apply_mint_Ok)
  fix m p p' assume ne: "am_asset0 m \<noteq> am_asset1 m"
    and p: "p = (case fmlookup pools (AmmPair_new (am_asset0 m) (am_asset1 m)) of Some p \<Rightarrow> p
        | None \<Rightarrow> PoolState_new (txid E (ft_transaction ft)))"
    and mi: "mint E (am_amount0 m) (am_amount1 m) p = Ok p'"
    and u: "pools' = fmupd (AmmPair_new (am_asset0 m) (am_asset1 m)) p' pools"
  have "pool_ok p" using p pools_okD(1) [OF ok] by (simp split: option.splits)
  then have "pool_ok p'" using assms(1) mi by (metis mint_keeps_ok)
  then show ?thesis unfolding u using ok ne by (intro pools_ok_upd AmmPair_new_less)
qed

lemma apply_swap_ok:
  assumes ok: "pools_ok pools" and ap: "apply_swap ft pools = Ok pools'"
  shows "pools_ok pools'"
  using ap
proof (rule apply_swap_Ok)
  fix s p p' assume p: "fmlookup pools (AmmPair_new (as_asset_spend s) (as_asset_receive s)) = Some p"
    and sw: "as_asset_spend s < as_asset_receive s \<Longrightarrow> swap_asset0_for_asset1 (as_amount_spend s) p = Ok p' \<and>
        unat (reserve1 p) = unat (as_amount_receive s) + unat (reserve1 p')"
      "\<not> as_asset_spend s < as_asset_receive s \<Longrightarrow> swap_asset1_for_asset0 (as_amount_spend s) p = Ok p' \<and>
        unat (reserve0 p) = unat (as_amount_receive s) + unat (reserve0 p')"
    and u: "pools' = fmupd (AmmPair_new (as_asset_spend s) (as_asset_receive s)) p' pools"
  have "pool_ok p" by (rule pools_okD(1) [OF ok p])
  with sw have "pool_ok p'" using swap0_keeps_ok swap1_keeps_ok by blast
  then show ?thesis unfolding u
    by (rule pools_ok_upd [OF ok]) (rule pools_okD(2) [OF ok p])
qed

lemma revert_apply_burn:
  assumes "apply_burn ft pools = Ok pools'"
  shows "revert_burn ft pools' = Ok pools"
  using assms
proof (rule apply_burn_Ok)
  fix b p p' assume b: "amm_burn ft = (Ok (Some b) :: (AmmError, AmmBurnTx option) result)"
    and p: "fmlookup pools (AmmPair_new (ab_asset0 b) (ab_asset1 b)) = Some p"
    and bn: "burn (ab_lp_token_burn b) p = Ok p'"
    and r: "unat (reserve0 p) = unat (ab_amount0 b) + unat (reserve0 p')"
      "unat (reserve1 p) = unat (ab_amount1 b) + unat (reserve1 p')"
    and u: "pools' = fmupd (AmmPair_new (ab_asset0 b) (ab_asset1 b)) p' pools"
  show ?thesis using p u burn_unburn [OF bn r]
    by (simp add: revert_burn_def b get_pool_def db.put_put_same db.put_get_same)
qed

lemma revert_apply_mint:
  assumes ap: "apply_mint E ft pools = Ok pools'"
    and fresh: "\<And>pr p. fmlookup pools pr = Some p \<Longrightarrow> creation_txid p \<noteq> txid E (ft_transaction ft)"
  shows "revert_mint E ft pools' = Ok pools"
  using ap
proof (rule apply_mint_Ok)
  fix m p p' assume m: "amm_mint ft = (Ok (Some m) :: (AmmError, AmmMintTx option) result)"
    and ne: "am_asset0 m \<noteq> am_asset1 m"
    and p: "p = (case fmlookup pools (AmmPair_new (am_asset0 m) (am_asset1 m)) of Some p \<Rightarrow> p
        | None \<Rightarrow> PoolState_new (txid E (ft_transaction ft)))"
    and p': "mint E (am_amount0 m) (am_amount1 m) p = Ok p'"
    and lp: "checked_sub (outstanding_lp_tokens p') (outstanding_lp_tokens p) = Some (am_lp_token_mint m)"
    and u: "pools' = fmupd (AmmPair_new (am_asset0 m) (am_asset1 m)) p' pools"
  show ?thesis
  proof (cases "fmlookup pools (AmmPair_new (am_asset0 m) (am_asset1 m))")
    case None
    then have "creation_txid p' = txid E (ft_transaction ft)"
      using mint_OkD(3) [OF p'] by (simp add: p PoolState_new_def)
    then show ?thesis using None ne u
      by (simp add: revert_mint_def m get_pool_def db.del_put_fresh)
  next
    case (Some p0)
    then have [simp]: "p = p0" by (simp add: p)
    have "creation_txid p' \<noteq> txid E (ft_transaction ft)"
      using mint_OkD(3) [OF p'] fresh [OF Some] by simp
    then show ?thesis using Some ne u pool_revert_mint [OF p' lp]
      by (simp add: revert_mint_def m get_pool_def db.put_put_same db.put_get_same)
  qed
qed

lemma revert_apply_swap:
  assumes ok: "pools_ok pools" and ap: "apply_swap ft pools = Ok pools'"
  shows "revert_swap ft pools' = Ok pools"
  using ap
proof (rule apply_swap_Ok)
  fix s p p' assume s: "amm_swap ft = (Ok (Some s) :: (AmmError, AmmSwapTx option) result)"
    and p: "fmlookup pools (AmmPair_new (as_asset_spend s) (as_asset_receive s)) = Some p"
    and sw: "as_asset_spend s < as_asset_receive s \<Longrightarrow> swap_asset0_for_asset1 (as_amount_spend s) p = Ok p' \<and>
        unat (reserve1 p) = unat (as_amount_receive s) + unat (reserve1 p')"
      "\<not> as_asset_spend s < as_asset_receive s \<Longrightarrow> swap_asset1_for_asset0 (as_amount_spend s) p = Ok p' \<and>
        unat (reserve0 p) = unat (as_amount_receive s) + unat (reserve0 p')"
    and u: "pools' = fmupd (AmmPair_new (as_asset_spend s) (as_asset_receive s)) p' pools"
  have ne: "as_asset_spend s \<noteq> as_asset_receive s"
    using pools_okD(2) [OF ok p] by (auto simp: AmmPair_new_def)
  have "pool_revert_swap s p' = Ok p"
  proof (cases "as_asset_spend s < as_asset_receive s")
    case True
    with sw(1) show ?thesis by (intro pool_revert_swap0) auto
  next
    case False
    with ne have "as_asset_receive s < as_asset_spend s" by simp
    with sw(2) False show ?thesis by (intro pool_revert_swap1) auto
  qed
  then show ?thesis using p u
    by (simp add: revert_swap_def s get_pool_def db.put_put_same db.put_get_same)
qed

interpretation burn_op: stepwise apply_burn pools_ok
  by unfold_locales (rule apply_burn_ok)

interpretation mint_op: stepwise "apply_mint E" "\<lambda>pools. isqrt_floor E \<longrightarrow> pools_ok pools" for E
  by unfold_locales (blast intro: apply_mint_ok)

interpretation swap_op: stepwise apply_swap pools_ok
  by unfold_locales (rule apply_swap_ok)

end
