(* ===== verification/Rollback.thy ===== *)
theory Rollback
  imports Prelude
begin

text \<open>
  \<open>RollBack\<close> of \<open>lib/state/rollback.rs\<close>: a non-empty history of values, each stamped with
  the block height (and, for \<open>TxidStamped\<close>, the transaction) that wrote it. The history is
  a list, earliest entry first, as \<open>NonEmpty\<close> stores it; every operation keeps it
  non-empty.
\<close>

record 'a HeightStamped =
  hs_value :: 'a
  hs_height :: u32

record 'a TxidStamped =
  ts_data :: 'a
  ts_txid :: "256 word"
  ts_height :: u32

datatype 'a RollBack = RollBack "'a list"

fun rb_list :: "'a RollBack \<Rightarrow> 'a list" where
  "rb_list (RollBack xs) = xs"

definition rb_wf :: "'a RollBack \<Rightarrow> bool" where
  "rb_wf r \<longleftrightarrow> rb_list r \<noteq> []"

section \<open>Height-stamped histories\<close>

definition hs_new :: "'a \<Rightarrow> u32 \<Rightarrow> 'a HeightStamped RollBack" where
  "hs_new v h = RollBack [\<lparr>hs_value = v, hs_height = h\<rparr>]"

text \<open>\<open>NonEmpty::pop\<close> gives nothing when only the head is left.\<close>

definition hs_pop ::
  "'a HeightStamped RollBack \<Rightarrow> 'a HeightStamped RollBack option \<times> 'a HeightStamped" where
  "hs_pop r =
     (let xs = rb_list r
      in if 1 < length xs then (Some (RollBack (butlast xs)), last xs) else (None, hd xs))"

definition hs_latest :: "'a HeightStamped RollBack \<Rightarrow> 'a HeightStamped" where
  "hs_latest r = last (rb_list r)"

definition hs_earliest :: "'a HeightStamped RollBack \<Rightarrow> 'a HeightStamped" where
  "hs_earliest r = hd (rb_list r)"

definition hs_push ::
  "'a \<Rightarrow> u32 \<Rightarrow> 'a HeightStamped RollBack \<Rightarrow> ('a, 'a HeightStamped RollBack) result" where
  "hs_push v h r =
     (if hs_height (hs_latest r) > h then Err v
      else Ok (RollBack (rb_list r @ [\<lparr>hs_value = v, hs_height = h\<rparr>])))"

section \<open>Histories stamped with transactions\<close>

definition ts_new :: "'a \<Rightarrow> 256 word \<Rightarrow> u32 \<Rightarrow> 'a TxidStamped RollBack" where
  "ts_new v txid h = RollBack [\<lparr>ts_data = v, ts_txid = txid, ts_height = h\<rparr>]"

definition ts_pop ::
  "'a TxidStamped RollBack \<Rightarrow> 'a TxidStamped option \<times> 'a TxidStamped RollBack" where
  "ts_pop r =
     (let xs = rb_list r
      in if 1 < length xs then (Some (last xs), RollBack (butlast xs)) else (None, r))"

definition ts_push :: "'a \<Rightarrow> 256 word \<Rightarrow> u32 \<Rightarrow> 'a TxidStamped RollBack \<Rightarrow> 'a TxidStamped RollBack" where
  "ts_push v txid h r = RollBack (rb_list r @ [\<lparr>ts_data = v, ts_txid = txid, ts_height = h\<rparr>])"

definition at_block_height :: "'a TxidStamped RollBack \<Rightarrow> u32 \<Rightarrow> 'a TxidStamped option" where
  "at_block_height r h = find (\<lambda>s. ts_height s \<le> h) (rev (rb_list r))"

definition ts_latest :: "'a TxidStamped RollBack \<Rightarrow> 'a TxidStamped" where
  "ts_latest r = last (rb_list r)"

section \<open>Laws\<close>

lemma rb_list_inject [simp]: "RollBack (rb_list r) = r"
  by (cases r) simp

lemma rb_wf_new [simp]: "rb_wf (hs_new v h)" "rb_wf (ts_new v t h)"
  by (simp_all add: rb_wf_def hs_new_def ts_new_def)

lemma hs_push_wf: "hs_push v h r = Ok r' \<Longrightarrow> rb_wf r'"
  by (auto simp: hs_push_def rb_wf_def split: if_splits)

lemma ts_push_wf [simp]: "rb_wf (ts_push v t h r)"
  by (simp add: ts_push_def rb_wf_def)

lemma hs_pop_new [simp]: "hs_pop (hs_new v h) = (None, \<lparr>hs_value = v, hs_height = h\<rparr>)"
  by (simp add: hs_pop_def hs_new_def)

lemma hs_latest_new [simp]: "hs_latest (hs_new v h) = \<lparr>hs_value = v, hs_height = h\<rparr>"
  by (simp add: hs_latest_def hs_new_def)

lemma hs_latest_push: "hs_push v h r = Ok r' \<Longrightarrow> hs_latest r' = \<lparr>hs_value = v, hs_height = h\<rparr>"
  by (auto simp: hs_push_def hs_latest_def split: if_splits)

lemma hs_pop_push:
  "rb_wf r \<Longrightarrow> hs_push v h r = Ok r' \<Longrightarrow> hs_pop r' = (Some r, \<lparr>hs_value = v, hs_height = h\<rparr>)"
  by (auto simp: hs_push_def hs_pop_def rb_wf_def split: if_splits)

lemma ts_pop_push [simp]:
  "rb_wf r \<Longrightarrow> ts_pop (ts_push v t h r) = (Some \<lparr>ts_data = v, ts_txid = t, ts_height = h\<rparr>, r)"
  by (auto simp: ts_push_def ts_pop_def rb_wf_def)

lemma ts_latest_push [simp]: "ts_latest (ts_push v t h r) = \<lparr>ts_data = v, ts_txid = t, ts_height = h\<rparr>"
  by (simp add: ts_push_def ts_latest_def)

lemma ts_latest_new [simp]: "ts_latest (ts_new v t h) = \<lparr>ts_data = v, ts_txid = t, ts_height = h\<rparr>"
  by (simp add: ts_new_def ts_latest_def)

text \<open>Histories grow in order of height, and a lookup at a height ignores what came later.\<close>

definition heights_sorted :: "'a TxidStamped RollBack \<Rightarrow> bool" where
  "heights_sorted r \<longleftrightarrow> sorted (map ts_height (rb_list r))"

lemma heights_sorted_push:
  assumes "heights_sorted r" "rb_wf r" "ts_height (ts_latest r) \<le> h"
  shows "heights_sorted (ts_push v t h r)"
proof -
  have "x \<le> h" if "x \<in> set (map ts_height (rb_list r))" for x
  proof -
    obtain ys y where ys: "rb_list r = ys @ [y]"
      using assms(2) by (metis append_butlast_last_id rb_wf_def)
    with that assms(1) have "x \<le> ts_height y"
      by (auto simp: heights_sorted_def sorted_append)
    with assms(3) ys show ?thesis by (simp add: ts_latest_def)
  qed
  with assms(1) show ?thesis
    by (simp add: heights_sorted_def ts_push_def sorted_append)
qed

text \<open>
  reading a history at a block height is stable under later writes: a value pushed at
  a greater height does not change what the history answers, and a value pushed at the
  height or below is the answer.
\<close>

lemma at_block_height_push:
  "at_block_height (ts_push v txid h' r) h =
     (if h' \<le> h then Some \<lparr>ts_data = v, ts_txid = txid, ts_height = h'\<rparr> else at_block_height r h)"
  by (simp add: at_block_height_def ts_push_def)

text \<open>
  pushing a value onto a well-formed height-stamped history succeeds exactly when the
  height does not go back, and popping then gives the value and the old history.
\<close>

lemma rollback_push_pop:
  assumes "rb_wf r"
  shows "(hs_height (hs_latest r) \<le> h \<longleftrightarrow> (\<exists>r'. hs_push v h r = Ok r')) \<and>
    (\<forall>r'. hs_push v h r = Ok r' \<longrightarrow> rb_wf r' \<and> hs_pop r' = (Some r, \<lparr>hs_value = v, hs_height = h\<rparr>))"
proof -
  have "hs_height (hs_latest r) \<le> h \<longleftrightarrow> (\<exists>r'. hs_push v h r = Ok r')"
    by (auto simp: hs_push_def)
  moreover have "rb_wf r' \<and> hs_pop r' = (Some r, \<lparr>hs_value = v, hs_height = h\<rparr>)"
    if "hs_push v h r = Ok r'" for r'
    using hs_push_wf [OF that] hs_pop_push [OF assms that] ..
  ultimately show ?thesis by simp
qed

theorem rollback_push_pop_witness:
  "\<exists>r'. hs_push (4::nat) 9 (hs_new 3 7) = Ok r' \<and>
     hs_pop r' = (Some (hs_new 3 7), \<lparr>hs_value = 4, hs_height = 9\<rparr>)"
proof -
  have le: "hs_height (hs_latest (hs_new (3::nat) 7)) \<le> 9" by simp
  have "rb_wf (hs_new (3::nat) 7)" by simp
  from rollback_push_pop [OF this, of 9 4] le show ?thesis by meson
qed

end
