(* ===== verification/Dutch_Auction.thy ===== *)
theory Dutch_Auction
  imports State_Error Extern_Laws Rollback
begin

text \<open>
  Dutch auctions (\<open>lib/state/dutch_auction.rs\<close>): the state of an auction, bids with their
  price schedule, and the creation, bidding and collection steps on the table of auctions
  with their inverses. Every quantity that a bid changes is a rollback history.
\<close>

section \<open>The state of an auction\<close>

record DutchAuctionState =
  da_start_block :: u32
  da_most_recent_bid_block :: "u32 TxidStamped RollBack"
  da_duration :: u32
  da_base_asset :: AssetId
  da_initial_base_amount :: u64
  da_base_amount_remaining :: "u64 TxidStamped RollBack"
  da_quote_asset :: AssetId
  da_quote_amount :: "u64 TxidStamped RollBack"
  da_initial_price :: u64
  da_price_after_most_recent_bid :: "u64 TxidStamped RollBack"
  da_initial_end_price :: u64
  da_end_price_after_most_recent_bid :: "u64 TxidStamped RollBack"

abbreviation latest_data :: "'a TxidStamped RollBack \<Rightarrow> 'a" where
  "latest_data r \<equiv> ts_data (ts_latest r)"

text \<open>The current price: it falls linearly from the price after the last bid.\<close>

definition bid_price :: "DutchAuctionState \<Rightarrow> u32 \<Rightarrow> u32 \<Rightarrow> (DutchAuctionError, u64) result" where
  "bid_price a elapsed_blocks remaining_duration =
     (let price = latest_data (da_price_after_most_recent_bid a);
          end_price = latest_data (da_end_price_after_most_recent_bid a) in
      if remaining_duration = 0 then Ok price
      else rbind (sub_word price end_price) (\<lambda>max_price_decrease.
           rbind (div_word (as_u128 max_price_decrease * ucast elapsed_blocks) (ucast remaining_duration))
             (\<lambda>price_decrease.
           rbind (div_word elapsed_blocks remaining_duration) (\<lambda>ratio.
           rbind (assert_that (ratio < 1)) (\<lambda>_.
             sub_word price (as_u64 price_decrease))))))"

text \<open>The second half of \<open>bid\<close>, once the price is known: the quantity and the new state.\<close>

definition settle_bid ::
  "Txid \<Rightarrow> u64 \<Rightarrow> u32 \<Rightarrow> u64 \<Rightarrow> DutchAuctionState \<Rightarrow> (DutchAuctionError, DutchAuctionState) result" where
  "settle_bid t bid_amount height price a =
     (let remaining = latest_data (da_base_amount_remaining a) in
      rbind (div_ceil (as_u128 bid_amount * as_u128 remaining) (as_u128 price)) (\<lambda>quantity.
      rbind (if quantity \<le> as_u128 remaining then Ok (as_u64 quantity)
             else Err (DA_Bid Bid_QuantityTooLarge)) (\<lambda>order_quantity.
      rbind (sub_word remaining order_quantity) (\<lambda>new_remaining.
      rbind (div_ceil (as_u128 (latest_data (da_end_price_after_most_recent_bid a)) * as_u128 new_remaining)
               (as_u128 remaining)) (\<lambda>end_price.
      rbind (add_word (latest_data (da_quote_amount a)) bid_amount) (\<lambda>new_quote.
      rbind (sub_word price bid_amount) (\<lambda>new_price.
        Ok (a\<lparr>da_most_recent_bid_block := ts_push height t height (da_most_recent_bid_block a),
              da_base_amount_remaining := ts_push new_remaining t height (da_base_amount_remaining a),
              da_quote_amount := ts_push new_quote t height (da_quote_amount a),
              da_price_after_most_recent_bid := ts_push new_price t height (da_price_after_most_recent_bid a),
              da_end_price_after_most_recent_bid :=
                ts_push (as_u64 end_price) t height (da_end_price_after_most_recent_bid a)\<rparr>))))))))"

definition bid :: "Txid \<Rightarrow> u64 \<Rightarrow> u32 \<Rightarrow> DutchAuctionState \<Rightarrow> (DutchAuctionError, DutchAuctionState) result" where
  "bid t bid_amount height a =
     (let most_recent = latest_data (da_most_recent_bid_block a) in
      rbind (ensure (\<not> height < da_start_block a) (DA_Bid Bid_AuctionNotStarted)) (\<lambda>_.
      rbind (sub_word height most_recent) (\<lambda>elapsed_blocks.
      rbind (sub_word (da_duration a) 1) (\<lambda>d.
      let end_block = saturating_add (da_start_block a) d in
      rbind (ensure (\<not> (height > end_block \<or> latest_data (da_base_amount_remaining a) = 0))
               (DA_Bid Bid_AuctionEnded)) (\<lambda>_.
      rbind (sub_word end_block most_recent) (\<lambda>remaining_duration.
      rbind (bid_price a elapsed_blocks remaining_duration) (\<lambda>price.
      rbind (ensure (price \<noteq> 0) (DA_Bid Bid_InvalidPrice)) (\<lambda>_.
        settle_bid t bid_amount height price a))))))))"

text \<open>\<open>assert!(history.pop().is_some_and(|ts| ts.txid == txid))\<close>, returning the shortened history.\<close>

definition pop_written_by ::
  "('a TxidStamped \<Rightarrow> bool) \<Rightarrow> 'a TxidStamped RollBack \<Rightarrow> ('e, 'a TxidStamped RollBack) result" where
  "pop_written_by check r =
     (case ts_pop r of (Some ts, r') \<Rightarrow> rbind (assert_that (check ts)) (\<lambda>_. Ok r') | (None, _) \<Rightarrow> Panic)"

definition auction_revert_bid :: "Txid \<Rightarrow> DutchAuctionState \<Rightarrow> (DutchAuctionError, DutchAuctionState) result" where
  "auction_revert_bid t a =
     rbind (pop_written_by (\<lambda>ts. ts_txid ts = t) (da_most_recent_bid_block a)) (\<lambda>most_recent.
     rbind (pop_written_by (\<lambda>ts. ts_txid ts = t) (da_base_amount_remaining a)) (\<lambda>remaining.
     rbind (pop_written_by (\<lambda>ts. ts_txid ts = t) (da_quote_amount a)) (\<lambda>quote.
     rbind (pop_written_by (\<lambda>ts. ts_txid ts = t) (da_price_after_most_recent_bid a)) (\<lambda>price.
     rbind (pop_written_by (\<lambda>ts. ts_txid ts = t) (da_end_price_after_most_recent_bid a)) (\<lambda>end_price.
       Ok (a\<lparr>da_most_recent_bid_block := most_recent, da_base_amount_remaining := remaining,
             da_quote_amount := quote, da_price_after_most_recent_bid := price,
             da_end_price_after_most_recent_bid := end_price\<rparr>))))))"

section \<open>The table of auctions\<close>

type_synonym AuctionsDb = "(DutchAuctionId, DutchAuctionState) fmap"

definition apply_bid ::
  "externs \<Rightarrow> u32 \<Rightarrow> FilledTransaction \<Rightarrow> AuctionsDb \<Rightarrow> (DutchAuctionError, AuctionsDb) result" where
  "apply_bid E height filled_tx auctions =
     rbind (dutch_auction_bid filled_tx) (\<lambda>mb.
     rbind (ok_or (DA_Bid Bid_InvalidTxData) mb) (\<lambda>b.
     rbind (ok_or (DA_Bid Bid_MissingAuction) (fmlookup auctions (db_auction_id b))) (\<lambda>a.
     rbind (ensure (db_asset_receive b = da_base_asset a) (DA_Bid Bid_IncorrectReceiveAsset)) (\<lambda>_.
     rbind (ensure (db_asset_spend b = da_quote_asset a) (DA_Bid Bid_IncorrectSpendAsset)) (\<lambda>_.
     rbind (ensure (\<not> db_amount_receive b > latest_data (da_base_amount_remaining a))
              (DA_Bid Bid_QuantityTooLarge)) (\<lambda>_.
     rbind (bid (txid E (ft_transaction filled_tx)) (db_amount_spend b) height a) (\<lambda>a'.
     rbind (sub_word (latest_data (da_base_amount_remaining a)) (latest_data (da_base_amount_remaining a')))
       (\<lambda>order_quantity.
     rbind (ensure (db_amount_receive b = order_quantity) (DA_Bid Bid_InvalidPrice)) (\<lambda>_.
       Ok (fmupd (db_auction_id b) a' auctions))))))))))"

definition revert_bid :: "externs \<Rightarrow> FilledTransaction \<Rightarrow> AuctionsDb \<Rightarrow> (DutchAuctionError, AuctionsDb) result" where
  "revert_bid E filled_tx auctions =
     rbind (dutch_auction_bid filled_tx) (\<lambda>mb.
     rbind (ok_or (DA_Bid Bid_InvalidTxData) mb) (\<lambda>b.
     rbind (ok_or (DA_Bid Bid_MissingAuction) (fmlookup auctions (db_auction_id b))) (\<lambda>a.
     rbind (ensure (db_asset_receive b = da_base_asset a) (DA_Bid Bid_IncorrectReceiveAsset)) (\<lambda>_.
     rbind (ensure (db_asset_spend b = da_quote_asset a) (DA_Bid Bid_IncorrectSpendAsset)) (\<lambda>_.
     rbind (auction_revert_bid (txid E (ft_transaction filled_tx)) a) (\<lambda>a'.
       Ok (fmupd (db_auction_id b) a' auctions)))))))"

definition created_auction :: "Txid \<Rightarrow> u32 \<Rightarrow> DutchAuctionParams \<Rightarrow> DutchAuctionState" where
  "created_auction t height p =
     \<lparr>da_start_block = dap_start_block p,
      da_most_recent_bid_block = ts_new (dap_start_block p) t height,
      da_duration = dap_duration p,
      da_base_asset = dap_base_asset p,
      da_initial_base_amount = dap_base_amount p,
      da_base_amount_remaining = ts_new (dap_base_amount p) t height,
      da_quote_asset = dap_quote_asset p,
      da_quote_amount = ts_new 0 t height,
      da_initial_price = dap_initial_price p,
      da_price_after_most_recent_bid = ts_new (dap_initial_price p) t height,
      da_initial_end_price = dap_final_price p,
      da_end_price_after_most_recent_bid = ts_new (dap_final_price p) t height\<rparr>"

definition apply_create ::
  "externs \<Rightarrow> u32 \<Rightarrow> FilledTransaction \<Rightarrow> DutchAuctionParams \<Rightarrow> AuctionsDb
     \<Rightarrow> (DutchAuctionError, AuctionsDb) result" where
  "apply_create E height filled_tx p auctions =
     rbind (ensure (\<not> height \<ge> dap_start_block p) (DA_Create Create_Expired)) (\<lambda>_.
     rbind (ensure (\<not> dap_final_price p > dap_initial_price p) (DA_Create Create_FinalPrice)) (\<lambda>_.
     rbind (ensure (dap_duration p \<noteq> 0) (DA_Create Create_ZeroDuration)) (\<lambda>_.
     rbind (ensure (\<not> (dap_duration p = 1 \<and> dap_final_price p \<noteq> dap_initial_price p))
              (DA_Create Create_PriceMismatch)) (\<lambda>_.
       let t = txid E (ft_transaction filled_tx) in
       Ok (fmupd t (created_auction t height p) auctions)))))"

definition revert_create :: "externs \<Rightarrow> FilledTransaction \<Rightarrow> AuctionsDb \<Rightarrow> (DutchAuctionError, AuctionsDb) result" where
  "revert_create E filled_tx auctions =
     (let t = txid E (ft_transaction filled_tx) in
      rbind (ensure (fmlookup auctions t \<noteq> None) (DA_Missing t)) (\<lambda>_. Ok (fmdrop t auctions)))"

definition apply_collect ::
  "externs \<Rightarrow> u32 \<Rightarrow> FilledTransaction \<Rightarrow> AuctionsDb \<Rightarrow> (DutchAuctionError, AuctionsDb) result" where
  "apply_collect E height filled_tx auctions =
     rbind (ok_or (DA_Collect Collect_InvalidTxData) (dutch_auction_collect filled_tx)) (\<lambda>c.
     rbind (ok_or (DA_Collect Collect_MissingAuction) (fmlookup auctions (dc_auction_id c))) (\<lambda>a.
     rbind (ensure (da_base_asset a = dc_asset_offered c) (DA_Collect Collect_IncorrectOfferedAsset)) (\<lambda>_.
     rbind (ensure (da_quote_asset a = dc_asset_receive c) (DA_Collect Collect_IncorrectReceiveAsset)) (\<lambda>_.
     rbind (ensure (\<not> height < saturating_add (da_start_block a) (da_duration a))
              (DA_Collect Collect_AuctionNotFinished)) (\<lambda>_.
     rbind (ensure (dc_amount_offered_remaining c = latest_data (da_base_amount_remaining a))
              (DA_Collect Collect_IncorrectOfferedAssetAmount)) (\<lambda>_.
     rbind (ensure (dc_amount_received c = latest_data (da_quote_amount a))
              (DA_Collect Collect_IncorrectReceiveAssetAmount)) (\<lambda>_.
       let t = txid E (ft_transaction filled_tx) in
       Ok (fmupd (dc_auction_id c)
             (a\<lparr>da_base_amount_remaining := ts_push 0 t height (da_base_amount_remaining a),
                da_quote_amount := ts_push 0 t height (da_quote_amount a)\<rparr>) auctions))))))))"

definition revert_collect :: "externs \<Rightarrow> FilledTransaction \<Rightarrow> AuctionsDb \<Rightarrow> (DutchAuctionError, AuctionsDb) result" where
  "revert_collect E filled_tx auctions =
     rbind (ok_or (DA_Collect Collect_InvalidTxData) (dutch_auction_collect filled_tx)) (\<lambda>c.
     let t = txid E (ft_transaction filled_tx) in
     rbind (ok_or (DA_Collect Collect_Revert) (fmlookup auctions (dc_auction_id c))) (\<lambda>a.
     rbind (pop_written_by (\<lambda>ts. ts_txid ts = t \<and> ts_data ts = 0) (da_base_amount_remaining a)) (\<lambda>remaining.
     rbind (assert_that (latest_data remaining = dc_amount_offered_remaining c)) (\<lambda>_.
     rbind (pop_written_by (\<lambda>ts. ts_txid ts = t \<and> ts_data ts = 0) (da_quote_amount a)) (\<lambda>quote.
     rbind (assert_that (latest_data quote = dc_amount_received c)) (\<lambda>_.
       Ok (fmupd (dc_auction_id c)
             (a\<lparr>da_base_amount_remaining := remaining, da_quote_amount := quote\<rparr>) auctions)))))))"

end
