(* ===== verification/BitAssets.thy ===== *)
theory BitAssets
  imports State_Error Extern_Laws Rollback
begin

text \<open>
  The BitAsset databases (\<open>lib/state/bitassets.rs\<close>): the histories of a BitAsset's data and
  supply, the sequence numbers of registered BitAssets, the reservations, and the
  registration, mint and update steps with their inverses.
\<close>

section \<open>Histories of a BitAsset\<close>

record BitAssetHistory =
  bh_commitment :: "hash option TxidStamped RollBack"
  bh_socket_addr_v4 :: "SocketAddrV4 option TxidStamped RollBack"
  bh_socket_addr_v6 :: "SocketAddrV6 option TxidStamped RollBack"
  bh_encryption_pubkey :: "EncryptionPubKey option TxidStamped RollBack"
  bh_signing_pubkey :: "VerifyingKey option TxidStamped RollBack"
  bh_total_supply :: "u64 TxidStamped RollBack"

definition BitAssetData_init :: "BitAssetData \<Rightarrow> u64 \<Rightarrow> Txid \<Rightarrow> u32 \<Rightarrow> BitAssetHistory" where
  "BitAssetData_init d initial_supply t height =
     \<lparr>bh_commitment = ts_new (bd_commitment d) t height,
      bh_socket_addr_v4 = ts_new (bd_socket_addr_v4 d) t height,
      bh_socket_addr_v6 = ts_new (bd_socket_addr_v6 d) t height,
      bh_encryption_pubkey = ts_new (bd_encryption_pubkey d) t height,
      bh_signing_pubkey = ts_new (bd_signing_pubkey d) t height,
      bh_total_supply = ts_new initial_supply t height\<rparr>"

fun apply_field_update ::
  "'a Update \<Rightarrow> Txid \<Rightarrow> u32 \<Rightarrow> 'a option TxidStamped RollBack \<Rightarrow> 'a option TxidStamped RollBack" where
  "apply_field_update Delete t height r = ts_push None t height r"
| "apply_field_update Retain t height r = r"
| "apply_field_update (Set v) t height r = ts_push (Some v) t height r"

definition data_apply_updates :: "BitAssetDataUpdates \<Rightarrow> Txid \<Rightarrow> u32 \<Rightarrow> BitAssetHistory \<Rightarrow> BitAssetHistory" where
  "data_apply_updates u t height d =
     d\<lparr>bh_commitment := apply_field_update (bu_commitment u) t height (bh_commitment d),
       bh_socket_addr_v4 := apply_field_update (bu_socket_addr_v4 u) t height (bh_socket_addr_v4 d),
       bh_socket_addr_v6 := apply_field_update (bu_socket_addr_v6 u) t height (bh_socket_addr_v6 d),
       bh_encryption_pubkey := apply_field_update (bu_encryption_pubkey u) t height (bh_encryption_pubkey d),
       bh_signing_pubkey := apply_field_update (bu_signing_pubkey u) t height (bh_signing_pubkey d)\<rparr>"

text \<open>The popped entry must be the one that the update wrote.\<close>

definition pop_exactly ::
  "'a option \<Rightarrow> Txid \<Rightarrow> u32 \<Rightarrow> 'a option TxidStamped RollBack \<Rightarrow> ('e, 'a option TxidStamped RollBack) result" where
  "pop_exactly v t height r =
     (case ts_pop r of
        (Some popped, r') \<Rightarrow>
          rbind (assert_that (ts_data popped = v)) (\<lambda>_.
          rbind (assert_that (ts_txid popped = t)) (\<lambda>_.
          rbind (assert_that (ts_height popped = height)) (\<lambda>_. Ok r')))
      | (None, _) \<Rightarrow> Panic)"

fun revert_field_update ::
  "'a Update \<Rightarrow> Txid \<Rightarrow> u32 \<Rightarrow> 'a option TxidStamped RollBack \<Rightarrow> ('e, 'a option TxidStamped RollBack) result" where
  "revert_field_update Delete t height r = pop_exactly None t height r"
| "revert_field_update Retain t height r = Ok r"
| "revert_field_update (Set v) t height r = pop_exactly (Some v) t height r"

definition data_revert_updates ::
  "BitAssetDataUpdates \<Rightarrow> Txid \<Rightarrow> u32 \<Rightarrow> BitAssetHistory \<Rightarrow> ('e, BitAssetHistory) result" where
  "data_revert_updates u t height d =
     rbind (revert_field_update (bu_signing_pubkey u) t height (bh_signing_pubkey d)) (\<lambda>signing.
     rbind (revert_field_update (bu_encryption_pubkey u) t height (bh_encryption_pubkey d)) (\<lambda>encryption.
     rbind (revert_field_update (bu_socket_addr_v6 u) t height (bh_socket_addr_v6 d)) (\<lambda>v6.
     rbind (revert_field_update (bu_socket_addr_v4 u) t height (bh_socket_addr_v4 d)) (\<lambda>v4.
     rbind (revert_field_update (bu_commitment u) t height (bh_commitment d)) (\<lambda>commitment.
       Ok (d\<lparr>bh_commitment := commitment, bh_socket_addr_v4 := v4, bh_socket_addr_v6 := v6,
             bh_encryption_pubkey := encryption, bh_signing_pubkey := signing\<rparr>))))))"

definition data_at_block_height :: "BitAssetHistory \<Rightarrow> u32 \<Rightarrow> BitAssetData option" where
  "data_at_block_height d height =
     Option.bind (at_block_height (bh_commitment d) height) (\<lambda>c.
     Option.bind (at_block_height (bh_socket_addr_v4 d) height) (\<lambda>v4.
     Option.bind (at_block_height (bh_socket_addr_v6 d) height) (\<lambda>v6.
     Option.bind (at_block_height (bh_encryption_pubkey d) height) (\<lambda>e.
     Option.bind (at_block_height (bh_signing_pubkey d) height) (\<lambda>s.
       Some \<lparr>bd_commitment = ts_data c, bd_socket_addr_v4 = ts_data v4, bd_socket_addr_v6 = ts_data v6,
             bd_encryption_pubkey = ts_data e, bd_signing_pubkey = ts_data s\<rparr>)))))"

definition current :: "BitAssetHistory \<Rightarrow> BitAssetData" where
  "current d =
     \<lparr>bd_commitment = ts_data (ts_latest (bh_commitment d)),
      bd_socket_addr_v4 = ts_data (ts_latest (bh_socket_addr_v4 d)),
      bd_socket_addr_v6 = ts_data (ts_latest (bh_socket_addr_v6 d)),
      bd_encryption_pubkey = ts_data (ts_latest (bh_encryption_pubkey d)),
      bd_signing_pubkey = ts_data (ts_latest (bh_signing_pubkey d))\<rparr>"

section \<open>The databases\<close>

type_synonym SeqId = u32

record Dbs =
  bitasset_to_seq :: "(BitAssetId, SeqId) fmap"
  bitassets :: "(BitAssetId, BitAssetHistory) fmap"
  reservations :: "(Txid, hash) fmap"
  seq_to_bitasset :: "(SeqId, BitAssetId) fmap"

definition last_seq :: "externs \<Rightarrow> Dbs \<Rightarrow> SeqId option" where
  "last_seq E dbs = map_option fst (db_last (ext_bincode_u32 E) (seq_to_bitasset dbs))"

definition next_seq :: "externs \<Rightarrow> Dbs \<Rightarrow> ('e, SeqId) result" where
  "next_seq E dbs = (case last_seq E dbs of Some seq \<Rightarrow> add_word seq 1 | None \<Rightarrow> Ok 0)"

definition get_bitasset :: "BitAssetId \<Rightarrow> Dbs \<Rightarrow> (BitAssetError, BitAssetHistory) result" where
  "get_bitasset b dbs = ok_or (BA_Missing b) (fmlookup (bitassets dbs) b)"

definition try_get_bitasset_data_at_block_height :: "BitAssetId \<Rightarrow> u32 \<Rightarrow> Dbs \<Rightarrow> BitAssetData option" where
  "try_get_bitasset_data_at_block_height b height dbs =
     Option.bind (fmlookup (bitassets dbs) b) (\<lambda>d. data_at_block_height d height)"

definition get_bitasset_data_at_block_height ::
  "BitAssetId \<Rightarrow> u32 \<Rightarrow> Dbs \<Rightarrow> (BitAssetError, BitAssetData) result" where
  "get_bitasset_data_at_block_height b height dbs =
     rbind (get_bitasset b dbs) (\<lambda>d. ok_or (BA_MissingData b height) (data_at_block_height d height))"

definition try_get_current_bitasset_data :: "BitAssetId \<Rightarrow> Dbs \<Rightarrow> BitAssetData option" where
  "try_get_current_bitasset_data b dbs = map_option current (fmlookup (bitassets dbs) b)"

definition get_current_bitasset_data :: "BitAssetId \<Rightarrow> Dbs \<Rightarrow> (BitAssetError, BitAssetData) result" where
  "get_current_bitasset_data b dbs = ok_or (BA_Missing b) (try_get_current_bitasset_data b dbs)"

text \<open>\<open>delete_reservation\<close> also answers whether there was one.\<close>

definition delete_reservation :: "Txid \<Rightarrow> Dbs \<Rightarrow> bool \<times> Dbs" where
  "delete_reservation t dbs =
     (fmlookup (reservations dbs) t \<noteq> None, dbs\<lparr>reservations := fmdrop t (reservations dbs)\<rparr>)"

definition put_reservation :: "Txid \<Rightarrow> hash \<Rightarrow> Dbs \<Rightarrow> Dbs" where
  "put_reservation t commitment dbs = dbs\<lparr>reservations := fmupd t commitment (reservations dbs)\<rparr>"

section \<open>Updates\<close>

text \<open>The updated BitAsset is the one of the last spent BitAsset output.\<close>

definition updated_bitasset :: "FilledTransaction \<Rightarrow> (BitAssetError, BitAssetId) result" where
  "updated_bitasset ft =
     (case rev (spent_bitassets ft) of
        [] \<Rightarrow> Err BA_NoBitAssetsToUpdate
      | (_, out) # _ \<Rightarrow> expect (filled_bitasset (out_content out)))"

definition apply_updates ::
  "externs \<Rightarrow> FilledTransaction \<Rightarrow> BitAssetDataUpdates \<Rightarrow> u32 \<Rightarrow> Dbs \<Rightarrow> (BitAssetError, Dbs) result" where
  "apply_updates E ft u height dbs =
     rbind (updated_bitasset ft) (\<lambda>b.
     rbind (get_bitasset b dbs) (\<lambda>d.
       Ok (dbs\<lparr>bitassets := fmupd b (data_apply_updates u (txid E (ft_transaction ft)) height d) (bitassets dbs)\<rparr>)))"

definition revert_updates ::
  "externs \<Rightarrow> FilledTransaction \<Rightarrow> BitAssetDataUpdates \<Rightarrow> u32 \<Rightarrow> Dbs \<Rightarrow> (BitAssetError, Dbs) result" where
  "revert_updates E ft u height dbs =
     rbind (updated_bitasset ft) (\<lambda>b.
     rbind (get_bitasset b dbs) (\<lambda>d.
     rbind (data_revert_updates u (txid E (ft_transaction ft)) height d) (\<lambda>d'.
       Ok (dbs\<lparr>bitassets := fmupd b d' (bitassets dbs)\<rparr>))))"

section \<open>Registrations\<close>

fun find_map :: "('a \<Rightarrow> 'b option) \<Rightarrow> 'a list \<Rightarrow> 'b option" where
  "find_map f [] = None"
| "find_map f (x # xs) = (case f x of Some y \<Rightarrow> Some y | None \<Rightarrow> find_map f xs)"

definition burned_reservation :: "hash \<Rightarrow> FilledTransaction \<Rightarrow> Txid option" where
  "burned_reservation implied_commitment ft =
     find_map (\<lambda>(_, out). Option.bind (filled_reservation_data (out_content out))
         (\<lambda>(t, commitment). if commitment = implied_commitment then Some t else None))
       (spent_reservations ft)"

definition apply_registration ::
  "externs \<Rightarrow> FilledTransaction \<Rightarrow> hash \<Rightarrow> BitAssetData \<Rightarrow> u64 \<Rightarrow> u32 \<Rightarrow> Dbs \<Rightarrow> (BitAssetError, Dbs) result" where
  "apply_registration E ft name_hash bitasset_data initial_supply height dbs =
     rbind (ok_or (BA_NoReservationForRegistration name_hash) (implied_reservation_commitment E ft)) (\<lambda>implied.
     rbind (ok_or (BA_NoReservationForRegistration name_hash) (burned_reservation implied ft)) (\<lambda>burned.
     let (deleted, dbs1) = delete_reservation burned dbs in
     rbind (ensure deleted (BA_MissingReservation burned)) (\<lambda>_.
     rbind (next_seq E dbs1) (\<lambda>seq.
       Ok (dbs1\<lparr>seq_to_bitasset := fmupd seq name_hash (seq_to_bitasset dbs1),
                bitasset_to_seq := fmupd name_hash seq (bitasset_to_seq dbs1),
                bitassets := fmupd name_hash
                  (BitAssetData_init bitasset_data initial_supply (txid E (ft_transaction ft)) height)
                  (bitassets dbs1)\<rparr>)))))"

definition revert_registration ::
  "externs \<Rightarrow> FilledTransaction \<Rightarrow> BitAssetId \<Rightarrow> Dbs \<Rightarrow> (BitAssetError, Dbs) result" where
  "revert_registration E ft bitasset dbs =
     rbind (ok_or (BA_Missing bitasset) (fmlookup (bitasset_to_seq dbs) bitasset)) (\<lambda>seq.
     rbind (ensure (fmlookup (seq_to_bitasset dbs) seq \<noteq> None) (BA_Missing bitasset)) (\<lambda>_.
     rbind (ensure (fmlookup (bitassets dbs) bitasset \<noteq> None) (BA_Missing bitasset)) (\<lambda>_.
     rbind (expect (implied_reservation_commitment E ft)) (\<lambda>implied.
     rbind (expect (burned_reservation implied ft)) (\<lambda>burned.
       Ok (put_reservation burned implied
            (dbs\<lparr>bitasset_to_seq := fmdrop bitasset (bitasset_to_seq dbs),
                 seq_to_bitasset := fmdrop seq (seq_to_bitasset dbs),
                 bitassets := fmdrop bitasset (bitassets dbs)\<rparr>)))))))"

section \<open>Mints\<close>

definition minted_bitasset :: "FilledTransaction \<Rightarrow> (BitAssetError, BitAssetId) result" where
  "minted_bitasset ft =
     (case rev (spent_bitasset_controls ft) of
        [] \<Rightarrow> Err BA_NoBitAssetsToMint
      | (_, out) # _ \<Rightarrow> expect (filled_get_bitasset (out_content out)))"

definition bitassets_apply_mint ::
  "externs \<Rightarrow> FilledTransaction \<Rightarrow> u64 \<Rightarrow> u32 \<Rightarrow> Dbs \<Rightarrow> (BitAssetError, Dbs) result" where
  "bitassets_apply_mint E ft mint_amount height dbs =
     rbind (minted_bitasset ft) (\<lambda>b.
     rbind (get_bitasset b dbs) (\<lambda>d.
     rbind (ok_or BA_TotalSupplyOverflow
         (checked_add (ts_data (ts_latest (bh_total_supply d))) mint_amount)) (\<lambda>new_supply.
       Ok (dbs\<lparr>bitassets := fmupd b
           (d\<lparr>bh_total_supply := ts_push new_supply (txid E (ft_transaction ft)) height (bh_total_supply d)\<rparr>)
           (bitassets dbs)\<rparr>))))"

definition bitassets_revert_mint :: "FilledTransaction \<Rightarrow> u64 \<Rightarrow> Dbs \<Rightarrow> (BitAssetError, Dbs) result" where
  "bitassets_revert_mint ft mint_amount dbs =
     rbind (minted_bitasset ft) (\<lambda>b.
     rbind (get_bitasset b dbs) (\<lambda>d.
     let total_supply = ts_data (ts_latest (bh_total_supply d));
         supply' = snd (ts_pop (bh_total_supply d)) in
     rbind (ok_or BA_TotalSupplyUnderflow (checked_sub total_supply mint_amount)) (\<lambda>expected.
     rbind (assert_that (ts_data (ts_latest supply') = expected)) (\<lambda>_.
       Ok (dbs\<lparr>bitassets := fmupd b (d\<lparr>bh_total_supply := supply'\<rparr>) (bitassets dbs)\<rparr>)))))"

end
