(* ===== verification/Merkle.thy ===== *)
theory Merkle
  imports Fill_Outputs
begin

text \<open>
  Merkle roots: of the inputs (\<open>lib/types/transaction/inputs.rs\<close>), of the outputs with value
  and size totals (\<open>outputs.rs\<close>), of a transaction, of the coinbase and of a block body with
  fee and size totals (\<open>lib/types/mod.rs\<close>). The tree itself is built by the \<open>merkle_cbt\<close>
  crate, a parameter of the model; the leaves and the merge functions are the code's.

  Last, \<open>Body::new\<close> and \<open>Body::authorized_transactions\<close>, which flatten authorized
  transactions into a body and split them again.
\<close>

section \<open>Inputs\<close>

definition inputs_merge :: "externs \<Rightarrow> InputsCbmtNode \<Rightarrow> InputsCbmtNode \<Rightarrow> InputsCbmtNode" where
  "inputs_merge E lnode rnode =
     \<lparr>icn_commitment =
        rbind (assert_that (icn_index lnode + 1 = icn_index rnode)) (\<lambda>_.
        rbind (assert_that (0 < icn_index lnode)) (\<lambda>_.
        rbind (icn_commitment lnode) (\<lambda>l. rbind (icn_commitment rnode) (\<lambda>r.
          Ok (ext_hash E (P_InputsNode l r)))))),
      icn_index = (icn_index lnode - 1) div 2\<rparr>"

definition inputs_merkle_leaves :: "externs \<Rightarrow> OutPoint list \<Rightarrow> InputsCbmtNode list" where
  "inputs_merkle_leaves E inputs =
     map (\<lambda>(index, outpoint). \<lparr>icn_commitment = Ok (ext_hash E (P_OutPoint outpoint)),
           icn_index = (index + length inputs) - 1\<rparr>) (enumerate 0 inputs)"

definition inputs_compute_merkle_root :: "externs \<Rightarrow> OutPoint list \<Rightarrow> ('e, hash) result" where
  "inputs_compute_merkle_root E inputs =
     (case icn_commitment (ext_cbmt_inputs E (inputs_merge E) (inputs_merkle_leaves E inputs)) of
        Ok h \<Rightarrow> Ok h | _ \<Rightarrow> Panic)"

section \<open>Outputs\<close>

definition outputs_merge :: "externs \<Rightarrow> OutputsCbmtNodeResult \<Rightarrow> OutputsCbmtNodeResult \<Rightarrow> OutputsCbmtNodeResult" where
  "outputs_merge E lnode rnode =
     \<lparr>ocr_value =
        rbind (assert_that (ocr_index lnode + 1 = ocr_index rnode)) (\<lambda>_.
        rbind (assert_that (0 < ocr_index lnode)) (\<lambda>_.
        rbind (ocr_value lnode) (\<lambda>l. rbind (ocr_value rnode) (\<lambda>r.
        rbind (ok_or ValueOverflow (checked_add (ocn_value l) (ocn_value r))) (\<lambda>value.
        rbind (ok_or SizeOverflow (checked_add (ocn_canonical_size l) (ocn_canonical_size r))) (\<lambda>size.
          Ok \<lparr>ocn_commitment = ext_hash E (P_OutputNode (ocn_commitment l) value size (ocn_commitment r)),
              ocn_value = value, ocn_canonical_size = size\<rparr>)))))),
      ocr_index = (ocr_index lnode - 1) div 2\<rparr>"

definition outputs_merkle_leaves :: "externs \<Rightarrow> TxOutput list \<Rightarrow> OutputsCbmtNodeResult list" where
  "outputs_merkle_leaves E outputs =
     map (\<lambda>(index, out).
         let value = txout_value out; size = ext_output_size E out in
         \<lparr>ocr_value = Ok \<lparr>ocn_commitment = ext_hash E (P_OutputLeaf value size out), ocn_value = value,
             ocn_canonical_size = size\<rparr>,
          ocr_index = (index + length outputs) - 1\<rparr>) (enumerate 0 outputs)"

definition outputs_compute_merkle_root :: "externs \<Rightarrow> TxOutput list \<Rightarrow> (MergeCbmtNodes, hash) result" where
  "outputs_compute_merkle_root E outputs =
     rbind (ocr_value (ext_cbmt_outputs E (outputs_merge E) (outputs_merkle_leaves E outputs)))
       (\<lambda>node. Ok (ocn_commitment node))"

section \<open>Transactions, coinbase, bodies\<close>

definition tx_compute_merkle_root :: "externs \<Rightarrow> Transaction \<Rightarrow> (MergeCbmtNodes, hash) result" where
  "tx_compute_merkle_root E tx =
     rbind (inputs_compute_merkle_root E (tx_inputs tx)) (\<lambda>inputs_commitment.
     rbind (outputs_compute_merkle_root E (tx_outputs tx)) (\<lambda>outputs_commitment.
       Ok (ext_hash E (P_TxRoots inputs_commitment outputs_commitment))))"

definition coinbase_compute_merkle_root :: "externs \<Rightarrow> Coinbase \<Rightarrow> (ComputeMerkleRootError, hash) result" where
  "coinbase_compute_merkle_root E coinbase =
     rbind (map_err (\<lambda>_. CMR_Coinbase) (outputs_compute_merkle_root E (cb_outputs coinbase)))
       (\<lambda>outputs_commitment. Ok (ext_hash E (P_CoinbaseRoot (cb_memo coinbase) outputs_commitment)))"

definition txs_merge :: "externs \<Rightarrow> TxCbmtNodeResult \<Rightarrow> TxCbmtNodeResult \<Rightarrow> TxCbmtNodeResult" where
  "txs_merge E lnode rnode =
     \<lparr>tcr_value =
        rbind (assert_that (tcr_index lnode + 1 = tcr_index rnode)) (\<lambda>_.
        rbind (assert_that (0 < tcr_index lnode)) (\<lambda>_.
        rbind (tcr_value lnode) (\<lambda>l. rbind (tcr_value rnode) (\<lambda>r.
        rbind (ok_or CMR_FeeOverflow (checked_add (tcn_fee l) (tcn_fee r))) (\<lambda>fee.
        rbind (ok_or CMR_SizeOverflow (checked_add (tcn_canonical_size l) (tcn_canonical_size r))) (\<lambda>size.
          Ok \<lparr>tcn_commitment = ext_hash E (P_TxNode (tcn_commitment l) fee size (tcn_commitment r)),
              tcn_fee = fee, tcn_canonical_size = size\<rparr>)))))),
      tcr_index = (tcr_index lnode - 1) div 2\<rparr>"

definition tx_merkle_leaf ::
  "externs \<Rightarrow> nat \<Rightarrow> nat \<times> FilledTransaction \<Rightarrow> (ComputeMerkleRootError, TxCbmtNodeResult) result" where
  "tx_merkle_leaf E n_txs leaf =
     (let (index, ft) = leaf; tx = ft_transaction ft; t = txid E tx in
      rbind (map_err (\<lambda>_. CMR_TxFee t) (bitcoin_fee ft)) (\<lambda>fee.
      let size = ext_tx_size E tx in
      rbind (map_err (\<lambda>_. CMR_TxMerkleRoot t) (tx_compute_merkle_root E tx)) (\<lambda>root.
        Ok \<lparr>tcr_value = Ok \<lparr>tcn_commitment = ext_hash E (P_TxLeaf fee size root), tcn_fee = fee,
              tcn_canonical_size = size\<rparr>,
            tcr_index = (index + n_txs) - 1\<rparr>)))"

definition compute_merkle_root ::
  "externs \<Rightarrow> Coinbase \<Rightarrow> FilledTransaction list \<Rightarrow> (ComputeMerkleRootError, MerkleRoot) result" where
  "compute_merkle_root E coinbase txs =
     rbind (try_map (tx_merkle_leaf E (length txs)) (enumerate 0 txs)) (\<lambda>leaves.
     rbind (tcr_value (ext_cbmt_txs E (txs_merge E) leaves)) (\<lambda>node.
     rbind (coinbase_compute_merkle_root E coinbase) (\<lambda>coinbase_commitment.
       Ok (ext_hash E (P_BodyRoot coinbase_commitment (tcn_commitment node))))))"

text \<open>A body whose root can be computed has transactions whose fees can be computed.\<close>

lemma compute_merkle_root_fees:
  assumes "compute_merkle_root E coinbase txs = Ok root" and "ft \<in> set txs"
  shows "\<exists>fee. bitcoin_fee ft = Ok fee"
proof -
  from assms(1) obtain leaves where
    leaves: "list_all2 (\<lambda>x y. tx_merkle_leaf E (length txs) x = Ok y) (enumerate 0 txs) leaves"
    by (auto simp: compute_merkle_root_def rbind_Ok_iff try_map_Ok_iff)
  from assms(2) obtain i where i: "i < length txs" "txs ! i = ft" by (metis in_set_conv_nth)
  with list_all2_nthD [OF leaves, of i] obtain y where "tx_merkle_leaf E (length txs) (i, ft) = Ok y"
    by (auto simp: nth_enumerate_eq)
  then show ?thesis by (auto simp: tx_merkle_leaf_def Let_def rbind_Ok_iff)
qed

section \<open>Bodies\<close>

definition Body_new :: "AuthorizedTransaction list \<Rightarrow> Coinbase \<Rightarrow> Body" where
  "Body_new ats coinbase =
     \<lparr>bo_coinbase = coinbase, bo_transactions = map at_transaction ats,
      bo_authorizations = concat (map at_authorizations ats)\<rparr>"

fun split_authorizations ::
  "Transaction list \<Rightarrow> Authorization list \<Rightarrow> ('e, AuthorizedTransaction list) result" where
  "split_authorizations [] auths = Ok []"
| "split_authorizations (tx # txs) auths =
     (let n = length (tx_inputs tx) in
      rbind (assert_that (n \<le> length auths)) (\<lambda>_.
      rbind (split_authorizations txs (drop n auths)) (\<lambda>ats.
        Ok (\<lparr>at_transaction = tx, at_authorizations = take n auths\<rparr> # ats))))"

definition authorized_transactions :: "Body \<Rightarrow> ('e, AuthorizedTransaction list) result" where
  "authorized_transactions body = split_authorizations (bo_transactions body) (bo_authorizations body)"

definition get_inputs :: "Body \<Rightarrow> OutPoint list" where
  "get_inputs body = concat (map tx_inputs (bo_transactions body))"

definition get_coinbase_value :: "Body \<Rightarrow> u64 option" where
  "get_coinbase_value body = checked_sum (map txout_value (cb_outputs (bo_coinbase body)))"

text \<open>
  splitting a body built from authorized transactions, each with one authorization
  per input, gives the same authorized transactions back.
\<close>

lemma body_roundtrip:
  assumes "\<forall>at\<in>set ats. length (at_authorizations at) = length (tx_inputs (at_transaction at))"
  shows "authorized_transactions (Body_new ats coinbase) = Ok ats"
proof -
  have "split_authorizations (map at_transaction ats) (concat (map at_authorizations ats) @ rest) = Ok ats" for rest
    using assms by (induction ats arbitrary: rest) simp_all
  from this [of "[]"] show ?thesis by (simp add: authorized_transactions_def Body_new_def)
qed

theorem body_roundtrip_witness:
  "authorized_transactions (Body_new
     [\<lparr>at_transaction = \<lparr>tx_inputs = [OpRegular 1 0], tx_outputs = [], tx_memo = [], tx_data = None\<rparr>,
       at_authorizations = [\<lparr>au_verifying_key = 2, au_signature = 3\<rparr>]\<rparr>]
     \<lparr>cb_memo = [], cb_outputs = []\<rparr>) =
   Ok [\<lparr>at_transaction = \<lparr>tx_inputs = [OpRegular 1 0], tx_outputs = [], tx_memo = [], tx_data = None\<rparr>,
       at_authorizations = [\<lparr>au_verifying_key = 2, au_signature = 3\<rparr>]\<rparr>]"
  by (rule body_roundtrip) simp

end
