(* ===== verification/Authorizing.thy ===== *)
theory Authorizing
  imports State_Error Merkle Extern_Laws
begin

text \<open>
  Authorization checks (\<open>lib/authorization.rs\<close>). Signatures are verified in batches of at
  most \<open>2 ^ 14\<close>; the batch verifier is a parameter of the model. The theorem shows that,
  when the batch verifier accepts exactly the batches whose signatures are all valid, the
  chunked check of a block accepts exactly the blocks in which the \<open>i\<close>-th authorization
  signs the transaction of the \<open>i\<close>-th input.
\<close>

definition verify_authorized_transaction ::
  "externs \<Rightarrow> AuthorizedTransaction \<Rightarrow> (AuthorizationError, unit) result" where
  "verify_authorized_transaction E at =
     (let n = length (tx_inputs (at_transaction at)); auths = at_authorizations at in
      if length auths < n then Err Auth_NotEnoughAuthorizations
      else if n < length auths then Err Auth_TooManyAuthorizations
      else if auths = [] then Ok ()
      else ensure (ext_batch_verify E
          (map (\<lambda>a. (au_verifying_key a, au_signature a, at_transaction at)) auths))
        Auth_SignatureVerification)"

text \<open>The slices of \<open>chunks\<close>: all of size \<open>n\<close> but the last.\<close>

function chunks :: "nat \<Rightarrow> 'a list \<Rightarrow> 'a list list" where
  "chunks n xs = (if n = 0 \<or> xs = [] then [] else take n xs # chunks n (drop n xs))"
  by auto
termination
  by (relation "measure (\<lambda>(n, xs). length xs)") auto

declare chunks.simps [simp del]

definition CHUNK_SIZE :: nat where
  "CHUNK_SIZE = 2 ^ 14"

definition messages :: "Body \<Rightarrow> Transaction list" where
  "messages body = concat (map (\<lambda>tx. replicate (length (tx_inputs tx)) tx) (bo_transactions body))"

definition verify_authorizations :: "externs \<Rightarrow> Body \<Rightarrow> (AuthorizationError, unit) result" where
  "verify_authorizations E body =
     (let n = sum_list (map (\<lambda>tx. length (tx_inputs tx)) (bo_transactions body));
          auths = bo_authorizations body in
      if length auths < n then Err Auth_NotEnoughAuthorizations
      else if n < length auths then Err Auth_TooManyAuthorizations
      else if n = 0 then Ok ()
      else let pairs = zip auths (messages body) in
        rbind (assert_that (length pairs = length auths)) (\<lambda>_.
        try_fold (\<lambda>chunk _. ensure (ext_batch_verify E
            (map (\<lambda>(a, tx). (au_verifying_key a, au_signature a, tx)) chunk)) Auth_SignatureVerification)
          (chunks CHUNK_SIZE pairs) ()))"

lemma concat_chunks: "0 < n \<Longrightarrow> concat (chunks n xs) = xs"
  by (induction n xs rule: chunks.induct) (subst chunks.simps, simp)

lemma chunks_nonempty: "c \<in> set (chunks n xs) \<Longrightarrow> c \<noteq> []"
proof (induction n xs rule: chunks.induct)
  case (1 n xs)
  show ?case
  proof (cases "n = 0 \<or> xs = []")
    case True
    with 1(2) show ?thesis by (simp add: chunks.simps)
  next
    case False
    with 1(2) have "c = take n xs \<or> c \<in> set (chunks n (drop n xs))" by (simp add: chunks.simps)
    with False 1(1) show ?thesis by auto
  qed
qed

lemma try_fold_ensure:
  "try_fold (\<lambda>x _. ensure (P x) e) xs () = (if list_all P xs then Ok () else Err e)"
proof (induction xs)
  case (Cons x xs)
  then show ?case by (cases "P x") simp_all
qed simp

lemma length_messages: "length (messages body) = sum_list (map (\<lambda>tx. length (tx_inputs tx)) (bo_transactions body))"
  by (simp add: messages_def length_concat comp_def)

lemma list_all_chunks:
  assumes "\<And>batch. batch \<noteq> [] \<Longrightarrow> B batch = list_all P batch"
  shows "list_all (\<lambda>c. B (map f c)) (chunks CHUNK_SIZE xs) = list_all (\<lambda>x. P (f x)) xs"
proof -
  have "list_all (\<lambda>c. B (map f c)) (chunks CHUNK_SIZE xs)
      = list_all (\<lambda>c. list_all (\<lambda>x. P (f x)) c) (chunks CHUNK_SIZE xs)"
  proof (rule list.pred_cong [OF refl])
    fix c assume "c \<in> set (chunks CHUNK_SIZE xs)"
    then have "map f c \<noteq> []" using chunks_nonempty by auto
    then show "B (map f c) = list_all (\<lambda>x. P (f x)) c" by (simp add: assms list.pred_map comp_def)
  qed
  also have "\<dots> = list_all (\<lambda>x. P (f x)) (concat (chunks CHUNK_SIZE xs))"
    by (auto simp: list_all_iff)
  finally show ?thesis by (simp add: concat_chunks CHUNK_SIZE_def)
qed

lemma verify_authorizations_valid:
  assumes "\<forall>batch. batch \<noteq> [] \<longrightarrow> ext_batch_verify E batch = list_all valid batch"
  shows "(verify_authorizations E body = Ok () \<longleftrightarrow>
      length (bo_authorizations body) = length (get_inputs body) \<and>
      list_all (\<lambda>(a, tx). valid (au_verifying_key a, au_signature a, tx))
        (zip (bo_authorizations body) (messages body))) \<and>
    verify_authorizations E body \<noteq> Panic"
proof -
  let ?n = "sum_list (map (\<lambda>tx. length (tx_inputs tx)) (bo_transactions body))"
  let ?pairs = "zip (bo_authorizations body) (messages body)"
  have n: "length (get_inputs body) = ?n" by (simp add: get_inputs_def length_concat comp_def)
  consider "length (bo_authorizations body) < ?n" | "?n < length (bo_authorizations body)"
    | "length (bo_authorizations body) = ?n" by linarith
  then show ?thesis
  proof cases
    case 3
    then have l: "length ?pairs = length (bo_authorizations body)" by (simp add: length_messages)
    have "verify_authorizations E body =
        (if ?n = 0 then Ok () else if list_all (\<lambda>(a, tx). valid (au_verifying_key a, au_signature a, tx)) ?pairs
         then Ok () else Err Auth_SignatureVerification)"
      using 3 l assms list_all_chunks [of "ext_batch_verify E" valid "\<lambda>(a, tx). (au_verifying_key a, au_signature a, tx)" ?pairs]
      by (simp add: verify_authorizations_def Let_def try_fold_ensure case_prod_unfold)
    moreover have "?n = 0 \<Longrightarrow> ?pairs = []" using 3 by (metis length_0_conv zip_Nil)
    ultimately show ?thesis using 3 n by (auto split: if_splits)
  qed (simp_all add: verify_authorizations_def Let_def n)
qed

text \<open>
  if the batch verifier accepts a non-empty batch exactly when every signature in it
  is valid, then \<open>verify_authorizations\<close> accepts a body exactly when it has one
  authorization per input and each is a valid signature of the transaction its input
  belongs to; the split into chunks makes no difference, and the check never panics.
\<close>

lemma verify_authorizations_iff:
  assumes "\<forall>batch. batch \<noteq> [] \<longrightarrow> ext_batch_verify E batch = list_all valid batch"
  shows "(verify_authorizations E body = Ok () \<longleftrightarrow>
      length (bo_authorizations body) = length (get_inputs body) \<and>
      list_all (\<lambda>(a, tx). valid (au_verifying_key a, au_signature a, tx))
        (zip (bo_authorizations body) (messages body))) \<and>
    verify_authorizations E body \<noteq> Panic"
  by (rule verify_authorizations_valid [OF assms])

theorem verify_authorizations_iff_witness:
  "verify_authorizations demo_externs
     \<lparr>bo_coinbase = \<lparr>cb_memo = [], cb_outputs = []\<rparr>,
      bo_transactions = [\<lparr>tx_inputs = [OpRegular 1 0, OpRegular 1 1], tx_outputs = [], tx_memo = [], tx_data = None\<rparr>],
      bo_authorizations = [\<lparr>au_verifying_key = 2, au_signature = 2\<rparr>, \<lparr>au_verifying_key = 5, au_signature = 5\<rparr>]\<rparr>
   = Ok ()"
proof -
  have "\<forall>batch. batch \<noteq> [] \<longrightarrow> ext_batch_verify demo_externs batch
      = list_all (\<lambda>(key, signature, _). signature = ucast key) batch"
    by (simp add: demo_externs_def)
  from verify_authorizations_iff [OF this] show ?thesis
    by (simp add: get_inputs_def messages_def)
qed

end
