(* ===== verification/Chain_State.thy ===== *)
theory Chain_State
  imports Amm Dutch_Auction BitAssets Authorizing
begin

text \<open>
  The sidechain state (\<open>State\<close> of \<open>lib/state/mod.rs\<close>): its tables, the queries on them, the
  filling of transactions from the UTXO and STXO tables, and the validation of
  transactions. UTXO and STXO rows are keyed by the 37-byte \<open>OutPointKey\<close>.
\<close>

section \<open>The state\<close>

datatype WithdrawalBundleInfo =
    Known WithdrawalBundle
  | Unknown
  | UnknownConfirmed "(OutPoint, FilledOutput) fmap"

type_synonym BundleStatus = "WithdrawalBundleStatus HeightStamped RollBack"

record State =
  st_tip :: "BlockHash option"
  st_height :: "u32 option"
  st_amm_pools :: PoolsDb
  st_bitassets :: Dbs
  st_dutch_auctions :: AuctionsDb
  st_utxos :: "(OutPointKey, FilledOutput) fmap"
  st_stxos :: "(OutPointKey, SpentOutput) fmap"
  st_pending_withdrawal_bundle :: "M6id option"
  st_latest_failed_withdrawal_bundle :: "M6id HeightStamped RollBack option"
  st_withdrawal_bundles :: "(M6id, WithdrawalBundleInfo \<times> BundleStatus) fmap"
  st_block_index_events :: "(u32, BlockIndexEvents) fmap"
  st_deposit_blocks :: "(u32, bitcoin_BlockHash \<times> u32) fmap"
  st_withdrawal_bundle_event_blocks :: "(u32, bitcoin_BlockHash \<times> u32) fmap"

definition State_new :: State where
  "State_new =
     \<lparr>st_tip = None, st_height = None, st_amm_pools = fmempty,
      st_bitassets = \<lparr>bitasset_to_seq = fmempty, bitassets = fmempty, reservations = fmempty,
        seq_to_bitasset = fmempty\<rparr>,
      st_dutch_auctions = fmempty, st_utxos = fmempty, st_stxos = fmempty,
      st_pending_withdrawal_bundle = None, st_latest_failed_withdrawal_bundle = None,
      st_withdrawal_bundles = fmempty, st_block_index_events = fmempty,
      st_deposit_blocks = fmempty, st_withdrawal_bundle_event_blocks = fmempty\<rparr>"

definition WITHDRAWAL_BUNDLE_FAILURE_GAP :: u32 where
  "WITHDRAWAL_BUNDLE_FAILURE_GAP = 4"

section \<open>Queries\<close>

definition get_block_index_events :: "State \<Rightarrow> u32 \<Rightarrow> BlockIndexEvents" where
  "get_block_index_events st h =
     (case fmlookup (st_block_index_events st) h of Some ev \<Rightarrow> ev
      | None \<Rightarrow> \<lparr>bie_deposits = [], bie_bundle_spends = []\<rparr>)"

definition decode_rows :: "(OutPointKey \<times> 'v) list \<Rightarrow> ('e, (OutPoint, 'v) fmap) result" where
  "decode_rows rows =
     rbind (try_map (\<lambda>(key, v). rbind (to_outpoint key) (\<lambda>op. Ok (op, v))) rows) (\<lambda>kvs.
       Ok (fmap_of_list (rev kvs)))"

definition get_utxos :: "State \<Rightarrow> ('e, (OutPoint, FilledOutput) fmap) result" where
  "get_utxos st = decode_rows (db_iter id (st_utxos st))"

definition get_utxos_by_addresses :: "State \<Rightarrow> Address set \<Rightarrow> ('e, (OutPoint, FilledOutput) fmap) result" where
  "get_utxos_by_addresses st addresses =
     decode_rows (filter (\<lambda>(_, out). out_address out \<in> addresses) (db_iter id (st_utxos st)))"

definition get_stxos_by_addresses :: "State \<Rightarrow> Address set \<Rightarrow> ('e, (OutPoint, SpentOutput) fmap) result" where
  "get_stxos_by_addresses st addresses =
     decode_rows (filter (\<lambda>(_, stxo). out_address (so_output stxo) \<in> addresses) (db_iter id (st_stxos st)))"

definition get_latest_failed_withdrawal_bundle :: "State \<Rightarrow> ('e, (u32 \<times> M6id) option) result" where
  "get_latest_failed_withdrawal_bundle st =
     (case st_latest_failed_withdrawal_bundle st of
        None \<Rightarrow> Ok None
      | Some r \<Rightarrow>
          let m6id = hs_value (hs_latest r) in
          rbind (expect (fmlookup (st_withdrawal_bundles st) m6id)) (\<lambda>(_, bundle_status).
          rbind (expect (find_map
              (\<lambda>s. if hs_value s = WBS_Failed then Some (hs_height s) else None)
              (rev (rb_list bundle_status)))) (\<lambda>failed_height.
            Ok (Some (failed_height, m6id)))))"

definition try_get_pending_withdrawal_bundle :: "State \<Rightarrow> (Error, (WithdrawalBundle \<times> u32) option) result" where
  "try_get_pending_withdrawal_bundle st =
     (case st_pending_withdrawal_bundle st of
        None \<Rightarrow> Ok None
      | Some m6id \<Rightarrow>
          rbind (expect (fmlookup (st_withdrawal_bundles st) m6id)) (\<lambda>(bundle_info, bundle_status).
            case bundle_info of
              Known bundle \<Rightarrow> Ok (Some (bundle, hs_height (hs_latest bundle_status)))
            | _ \<Rightarrow> Err (E_PendingWithdrawalBundleUnknown m6id)))"

definition get_last_deposit_block_hash :: "externs \<Rightarrow> State \<Rightarrow> bitcoin_BlockHash option" where
  "get_last_deposit_block_hash E st =
     map_option (\<lambda>(_, block_hash, _). block_hash) (db_last (ext_bincode_u32 E) (st_deposit_blocks st))"

definition get_last_withdrawal_bundle_event_block_hash :: "externs \<Rightarrow> State \<Rightarrow> bitcoin_BlockHash option" where
  "get_last_withdrawal_bundle_event_block_hash E st =
     map_option (\<lambda>(_, block_hash, _). block_hash)
       (db_last (ext_bincode_u32 E) (st_withdrawal_bundle_event_blocks st))"

fun is_deposit :: "OutPoint \<Rightarrow> bool" where
  "is_deposit (OpDeposit _ _) = True"
| "is_deposit _ = False"

fun is_withdrawal_inpoint :: "InPoint \<Rightarrow> bool" where
  "is_withdrawal_inpoint (IpWithdrawal _) = True"
| "is_withdrawal_inpoint _ = False"

definition add_amount :: "u64 \<Rightarrow> u64 \<Rightarrow> (Error, u64) result" where
  "add_amount x y = ok_or E_AmountOverflow (checked_add x y)"

definition sidechain_wealth :: "State \<Rightarrow> (Error, u64) result" where
  "sidechain_wealth st =
     rbind (try_fold (\<lambda>(key, out) total.
         rbind (to_outpoint key) (\<lambda>op.
           if is_deposit op then add_amount total (utxo_value out) else Ok total))
       (db_iter id (st_utxos st)) 0) (\<lambda>deposit_utxos.
     rbind (try_fold (\<lambda>(key, stxo) (deposits, withdrawals).
         rbind (to_outpoint key) (\<lambda>op.
         rbind (if is_deposit op then add_amount deposits (utxo_value (so_output stxo)) else Ok deposits)
           (\<lambda>deposits'.
         rbind (if is_withdrawal_inpoint (so_inpoint stxo)
                then add_amount withdrawals (utxo_value (so_output stxo)) else Ok withdrawals)
           (\<lambda>withdrawals'. Ok (deposits', withdrawals')))))
       (db_iter id (st_stxos st)) (0, 0)) (\<lambda>(deposit_stxos, withdrawal_stxos).
     rbind (add_amount deposit_utxos deposit_stxos) (\<lambda>total.
       ok_or E_AmountOverflow (checked_sub total withdrawal_stxos))))"

section \<open>Filling transactions\<close>

definition fill_transaction :: "State \<Rightarrow> Transaction \<Rightarrow> (Error, FilledTransaction) result" where
  "fill_transaction st tx =
     rbind (try_map (\<lambda>input. ok_or (E_NoUtxo input) (fmlookup (st_utxos st) (from_outpoint input)))
         (tx_inputs tx)) (\<lambda>spent_utxos.
       Ok \<lparr>ft_transaction = tx, ft_spent_utxos = spent_utxos\<rparr>)"

text \<open>Inputs are filled last to first.\<close>

definition fill_transaction_from_stxos ::
  "externs \<Rightarrow> State \<Rightarrow> Transaction \<Rightarrow> (Error, FilledTransaction) result" where
  "fill_transaction_from_stxos E st tx =
     rbind (try_map (\<lambda>(vin, input).
         rbind (ok_or (E_NoStxo input) (fmlookup (st_stxos st) (from_outpoint input))) (\<lambda>stxo.
         rbind (assert_that (so_inpoint stxo = IpRegular (txid E tx) (of_nat vin))) (\<lambda>_.
           Ok (so_output stxo))))
       (rev (enumerate 0 (tx_inputs tx)))) (\<lambda>spent_utxos.
       Ok \<lparr>ft_transaction = tx, ft_spent_utxos = rev spent_utxos\<rparr>)"

section \<open>Validation\<close>

definition validate_reservations :: "FilledTransaction \<Rightarrow> (Error, unit) result" where
  "validate_reservations ft =
     (let n_inputs = length (spent_reservations ft); n_outputs = length (reservation_outputs ft) in
      ensure
        (if ft_is is_reservation ft then n_outputs = n_inputs + 1
         else if ft_is is_registration ft then n_inputs = n_outputs + 1
         else n_inputs = n_outputs)
        (E_UnbalancedReservations n_inputs n_outputs))"

definition validate_registration ::
  "externs \<Rightarrow> State \<Rightarrow> FilledTransaction \<Rightarrow> hash \<Rightarrow> hash \<Rightarrow> u64 \<Rightarrow> nat \<Rightarrow> (Error, unit) result" where
  "validate_registration E st ft name_hash revealed_nonce initial_supply n_unique_inputs =
     (let n_control_inputs = length (spent_bitasset_controls ft);
          n_control_outputs = length (bitasset_control_outputs ft);
          n_outputs = length (bitasset_outputs ft);
          outputs = tx_outputs (ft_transaction ft) in
      rbind (ensure (n_control_outputs = n_control_inputs + 1)
               (E_UnbalancedBitAssetControls n_control_inputs n_control_outputs)) (\<lambda>_.
      rbind (ensure (outputs \<noteq> [] \<and> content_is_bitasset_control (out_content (last outputs)))
               E_LastOutputNotControlCoin) (\<lambda>_.
      rbind (if initial_supply = 0
             then ensure (\<not> n_outputs < n_unique_inputs) (E_UnbalancedBitAssets n_unique_inputs n_outputs)
             else rbind (ensure (\<not> n_outputs < n_unique_inputs + 1)
                          (E_UnbalancedBitAssets n_unique_inputs n_outputs)) (\<lambda>_.
                  rbind (assert_that (2 \<le> length outputs)) (\<lambda>_.
                    ensure (content_is_bitasset (out_content (outputs ! (length outputs - 2))))
                      E_SecondLastOutputNotBitAsset))) (\<lambda>_.
      rbind (ensure (\<exists>(_, out)\<in>set (spent_reservations ft).
                 filled_reservation_commitment (out_content out) = Some (ext_keyed_hash E revealed_nonce name_hash))
               (E_BitAsset (BA_NoReservationForRegistration name_hash))) (\<lambda>_.
        ensure (fmlookup (bitassets (st_bitassets st)) name_hash = None)
          (E_BitAssetAlreadyRegistered name_hash))))))"

definition validate_bitassets :: "externs \<Rightarrow> State \<Rightarrow> FilledTransaction \<Rightarrow> (Error, unit) result" where
  "validate_bitassets E st ft =
     (let n_unique_inputs = length (remdups (spent_values filled_bitasset (spent_bitassets ft)));
          n_control_inputs = length (spent_bitasset_controls ft);
          n_outputs = length (bitasset_outputs ft) in
      rbind (unique_spent_bitassets ft) (\<lambda>us.
      let n_unique_outputs = length us;
          n_control_outputs = length (bitasset_control_outputs ft) in
      rbind (ensure (\<not> (ft_is is_update ft \<and> (n_control_inputs < 1 \<or> n_control_outputs < 1)))
               (E_BitAsset BA_NoBitAssetsToUpdate)) (\<lambda>_.
      rbind (ensure (\<not> (ft_is is_amm_burn ft \<and> (n_unique_outputs < 2 \<or> n_unique_inputs > n_unique_outputs
                 \<or> n_unique_outputs > n_unique_inputs + 2))) (E_Amm Amm_InvalidBurn)) (\<lambda>_.
      rbind (ensure (\<not> (ft_is is_amm_mint ft \<and> (n_unique_inputs < 2 \<or> n_unique_outputs > n_unique_inputs
                 \<or> n_unique_inputs > n_unique_outputs + 2))) (E_Amm Amm_TooFewBitAssetsToMint)) (\<lambda>_.
      rbind (ensure (\<not> ((ft_is is_amm_swap ft \<or> ft_is is_dutch_auction_bid ft) \<and> (n_unique_inputs < 1
                 \<or> \<not> (n_unique_inputs - 1 \<le> n_unique_outputs \<and> n_unique_outputs \<le> n_unique_inputs + 1))))
               (E_DutchAuction (DA_Bid Bid_Invalid))) (\<lambda>_.
      rbind (ensure (\<not> (ft_is is_dutch_auction_create ft \<and> (n_unique_inputs < 1 \<or> n_unique_outputs > n_unique_inputs
                 \<or> n_unique_inputs > n_unique_outputs + 1))) (E_DutchAuction DA_TooFewBitAssetsToCreate)) (\<lambda>_.
      rbind (ensure (\<not> (ft_is is_dutch_auction_collect ft \<and> (n_unique_outputs < 1 \<or> n_unique_inputs > n_unique_outputs
                 \<or> n_unique_outputs > n_unique_inputs + 2))) (E_DutchAuction (DA_Collect Collect_Invalid))) (\<lambda>_.
        case tx_data (ft_transaction ft) of
          Some (BitAssetRegistration name_hash revealed_nonce _ initial_supply) \<Rightarrow>
            validate_registration E st ft name_hash revealed_nonce initial_supply n_unique_inputs
        | _ \<Rightarrow>
            rbind (ensure (n_control_outputs = n_control_inputs)
                     (E_UnbalancedBitAssetControls n_control_inputs n_control_outputs)) (\<lambda>_.
            rbind (ensure (\<not> n_outputs < n_unique_inputs) (E_UnbalancedBitAssets n_unique_inputs n_outputs)) (\<lambda>_.
              ensure (\<not> (n_unique_inputs = 0 \<and> n_outputs \<noteq> 0))
                (E_UnbalancedBitAssets n_unique_inputs n_outputs)))))))))))"

definition validate_filled_transaction :: "externs \<Rightarrow> State \<Rightarrow> FilledTransaction \<Rightarrow> (Error, u64) result" where
  "validate_filled_transaction E st ft =
     rbind (validate_reservations ft) (\<lambda>_.
     rbind (validate_bitassets E st ft) (\<lambda>_.
     rbind (map_err E_BitcoinFee (bitcoin_fee ft)) (\<lambda>fee.
       case find (\<lambda>(_, out). filled_is_withdrawal (out_content out)) (spent_inputs ft) of
         Some (outpoint, _) \<Rightarrow> Err (E_SpendWithdrawalOutput outpoint)
       | None \<Rightarrow> Ok fee)))"

definition check_addresses :: "externs \<Rightarrow> Authorization list \<Rightarrow> FilledOutput list \<Rightarrow> (Error, unit) result" where
  "check_addresses E auths spent =
     ensure (list_all (\<lambda>(a, out). auth_get_address E a = out_address out) (zip auths spent))
       E_WrongPubKeyForAddress"

definition validate_transaction :: "externs \<Rightarrow> State \<Rightarrow> AuthorizedTransaction \<Rightarrow> (Error, u64) result" where
  "validate_transaction E st at =
     rbind (fill_transaction st (at_transaction at)) (\<lambda>ft.
     rbind (check_addresses E (at_authorizations at) (ft_spent_utxos ft)) (\<lambda>_.
     rbind (map_err E_Authorization (verify_authorized_transaction E at)) (\<lambda>_.
       validate_filled_transaction E st ft)))"

end
