(* ===== verification/Block.thy ===== *)
theory Block
  imports Chain_State
begin

text \<open>
  Connecting and disconnecting blocks (\<open>lib/state/block.rs\<close>): validation of a block against
  the state, the optimised connection of a prevalidated block (which collects all changes
  to the UTXO and STXO tables, sorts them by key and writes them at the end), the plain
  connection (which applies one transaction after the other), and the disconnection of
  the tip.
\<close>

section \<open>Payload effects\<close>

definition lift_amm :: "State \<Rightarrow> (AmmError, PoolsDb) result \<Rightarrow> (Error, State) result" where
  "lift_amm st r = rbind (map_err E_Amm r) (\<lambda>pools. Ok (st\<lparr>st_amm_pools := pools\<rparr>))"

definition lift_bitassets :: "State \<Rightarrow> (BitAssetError, Dbs) result \<Rightarrow> (Error, State) result" where
  "lift_bitassets st r = rbind (map_err E_BitAsset r) (\<lambda>dbs. Ok (st\<lparr>st_bitassets := dbs\<rparr>))"

definition lift_auctions :: "State \<Rightarrow> (DutchAuctionError, AuctionsDb) result \<Rightarrow> (Error, State) result" where
  "lift_auctions st r = rbind (map_err E_DutchAuction r) (\<lambda>auctions. Ok (st\<lparr>st_dutch_auctions := auctions\<rparr>))"

text \<open>The \<open>match &transaction.data\<close> of both connecting functions.\<close>

definition apply_payload :: "externs \<Rightarrow> u32 \<Rightarrow> FilledTransaction \<Rightarrow> State \<Rightarrow> (Error, State) result" where
  "apply_payload E height ft st =
     (case tx_data (ft_transaction ft) of
        None \<Rightarrow> Ok st
      | Some (AmmBurn _ _ _) \<Rightarrow> lift_amm st (apply_burn ft (st_amm_pools st))
      | Some (AmmMint _ _ _) \<Rightarrow> lift_amm st (apply_mint E ft (st_amm_pools st))
      | Some (AmmSwap _ _ _) \<Rightarrow> lift_amm st (apply_swap ft (st_amm_pools st))
      | Some (BitAssetReservation commitment) \<Rightarrow>
          Ok (st\<lparr>st_bitassets := put_reservation (txid E (ft_transaction ft)) commitment (st_bitassets st)\<rparr>)
      | Some (BitAssetRegistration name_hash _ bitasset_data initial_supply) \<Rightarrow>
          lift_bitassets st
            (apply_registration E ft name_hash bitasset_data initial_supply height (st_bitassets st))
      | Some (BitAssetMint mint_amount) \<Rightarrow>
          lift_bitassets st (bitassets_apply_mint E ft mint_amount height (st_bitassets st))
      | Some (BitAssetUpdate bitasset_updates) \<Rightarrow>
          lift_bitassets st (apply_updates E ft bitasset_updates height (st_bitassets st))
      | Some (DutchAuctionBid _ _ _ _) \<Rightarrow> lift_auctions st (apply_bid E height ft (st_dutch_auctions st))
      | Some (DutchAuctionCreate params) \<Rightarrow>
          lift_auctions st (apply_create E height ft params (st_dutch_auctions st))
      | Some (DutchAuctionCollect _ _ _ _) \<Rightarrow>
          lift_auctions st (apply_collect E height ft (st_dutch_auctions st)))"

definition revert_payload :: "externs \<Rightarrow> u32 \<Rightarrow> FilledTransaction \<Rightarrow> State \<Rightarrow> (Error, State) result" where
  "revert_payload E height ft st =
     (case tx_data (ft_transaction ft) of
        None \<Rightarrow> Ok st
      | Some (AmmBurn _ _ _) \<Rightarrow> lift_amm st (revert_burn ft (st_amm_pools st))
      | Some (AmmMint _ _ _) \<Rightarrow> lift_amm st (revert_mint E ft (st_amm_pools st))
      | Some (AmmSwap _ _ _) \<Rightarrow> lift_amm st (revert_swap ft (st_amm_pools st))
      | Some (BitAssetMint mint_amount) \<Rightarrow>
          lift_bitassets st (bitassets_revert_mint ft mint_amount (st_bitassets st))
      | Some (BitAssetRegistration name_hash _ _ _) \<Rightarrow>
          lift_bitassets st (revert_registration E ft name_hash (st_bitassets st))
      | Some (BitAssetReservation _) \<Rightarrow>
          (let (deleted, dbs) = delete_reservation (txid E (ft_transaction ft)) (st_bitassets st) in
           rbind (ensure deleted (E_BitAsset (BA_MissingReservation (txid E (ft_transaction ft))))) (\<lambda>_.
             Ok (st\<lparr>st_bitassets := dbs\<rparr>)))
      | Some (BitAssetUpdate bitasset_updates) \<Rightarrow>
          lift_bitassets st (revert_updates E ft bitasset_updates height (st_bitassets st))
      | Some (DutchAuctionBid _ _ _ _) \<Rightarrow> lift_auctions st (revert_bid E ft (st_dutch_auctions st))
      | Some (DutchAuctionCollect _ _ _ _) \<Rightarrow> lift_auctions st (revert_collect E ft (st_dutch_auctions st))
      | Some (DutchAuctionCreate _) \<Rightarrow> lift_auctions st (revert_create E ft (st_dutch_auctions st)))"

section \<open>Validation\<close>

definition Body_MAX_SIZE :: nat where
  "Body_MAX_SIZE = 8 * 1024 * 1024"

text \<open>\<open>all_input_keys.windows(2).any(|w| w[0] == w[1])\<close>\<close>

fun any_adjacent_equal :: "'a list \<Rightarrow> bool" where
  "any_adjacent_equal (x # y # zs) = (x = y \<or> any_adjacent_equal (y # zs))"
| "any_adjacent_equal _ = False"

record PrevalidatedBlock =
  pv_filled_transactions :: "FilledTransaction list"
  pv_computed_merkle_root :: MerkleRoot
  pv_total_fees :: u64
  pv_coinbase_value :: u64
  pv_next_height :: u32

definition next_height :: "State \<Rightarrow> ('e, u32) result" where
  "next_height st = (case st_height st of None \<Rightarrow> Ok 0 | Some h \<Rightarrow> add_word h 1)"

definition checked_total :: "u64 list \<Rightarrow> (Error, u64) result" where
  "checked_total values = try_fold (\<lambda>v total. add_amount total v) values 0"

definition total_fees :: "externs \<Rightarrow> State \<Rightarrow> FilledTransaction list \<Rightarrow> (Error, u64) result" where
  "total_fees E st fts =
     try_fold (\<lambda>ft total. rbind (validate_filled_transaction E st ft) (\<lambda>fee. add_amount total fee)) fts 0"

definition input_keys :: "FilledTransaction list \<Rightarrow> OutPointKey list" where
  "input_keys fts = concat (map (\<lambda>ft. map from_outpoint (tx_inputs (ft_transaction ft))) fts)"

text \<open>The checks that \<open>validate\<close> and \<open>prevalidate\<close> share, line for line.\<close>

definition check_block ::
  "externs \<Rightarrow> State \<Rightarrow> Header \<Rightarrow> Body \<Rightarrow> (Error, FilledTransaction list \<times> MerkleRoot \<times> u64 \<times> u64) result" where
  "check_block E st header body =
     rbind (ensure (\<not> ext_body_size E body > Body_MAX_SIZE) E_BodyTooLarge) (\<lambda>_.
     rbind (ensure (hd_prev_side_hash header = st_tip st)
              (E_InvalidHeader (IH_PrevSideHash (st_tip st) (hd_prev_side_hash header)))) (\<lambda>_.
     rbind (try_map (fill_transaction st) (bo_transactions body)) (\<lambda>fts.
     rbind (map_err E_ComputeMerkleRoot (compute_merkle_root E (bo_coinbase body) fts)) (\<lambda>merkle_root.
     rbind (ensure (merkle_root = hd_merkle_root header) (E_InvalidBody (hd_merkle_root header) merkle_root)) (\<lambda>_.
     rbind (checked_total (map txout_value (cb_outputs (bo_coinbase body)))) (\<lambda>coinbase_value.
     rbind (ensure (\<not> any_adjacent_equal (sort (input_keys fts))) E_UtxoDoubleSpent) (\<lambda>_.
     rbind (total_fees E st fts) (\<lambda>fees.
     rbind (ensure (\<not> coinbase_value > fees) E_NotEnoughFees) (\<lambda>_.
     rbind (check_addresses E (bo_authorizations body) (concat (map ft_spent_utxos fts))) (\<lambda>_.
     rbind (map_err E_Authorization (verify_authorizations E body)) (\<lambda>_.
       Ok (fts, merkle_root, fees, coinbase_value))))))))))))"

definition validate :: "externs \<Rightarrow> State \<Rightarrow> Header \<Rightarrow> Body \<Rightarrow> (Error, u64) result" where
  "validate E st header body =
     rbind (check_block E st header body) (\<lambda>(_, _, fees, _). Ok fees)"

definition prevalidate :: "externs \<Rightarrow> State \<Rightarrow> Header \<Rightarrow> Body \<Rightarrow> (Error, PrevalidatedBlock) result" where
  "prevalidate E st header body =
     rbind (check_block E st header body) (\<lambda>(fts, merkle_root, fees, coinbase_value).
     rbind (next_height st) (\<lambda>height.
       Ok \<lparr>pv_filled_transactions = fts, pv_computed_merkle_root = merkle_root, pv_total_fees = fees,
           pv_coinbase_value = coinbase_value, pv_next_height = height\<rparr>))"

section \<open>Coinbase and transaction outputs\<close>

fun coinbase_content :: "Content \<Rightarrow> (Error, FilledContent) result" where
  "coinbase_content (C_Bitcoin value) = Ok (F_Bitcoin value)"
| "coinbase_content (C_Withdrawal withdrawal) = Ok (F_BitcoinWithdrawal withdrawal)"
| "coinbase_content _ = Err E_BadCoinbaseOutputContent"

definition coinbase_outpoint :: "externs \<Rightarrow> Header \<Rightarrow> nat \<Rightarrow> OutPoint" where
  "coinbase_outpoint E header vout = OpCoinbase (compute_coinbase_txid E header) (of_nat vout)"

definition coinbase_row ::
  "externs \<Rightarrow> Header \<Rightarrow> nat \<times> TxOutput \<Rightarrow> (Error, OutPointKey \<times> FilledOutput) result" where
  "coinbase_row E header row =
     (let (vout, out) = row in
      rbind (coinbase_content (out_content out)) (\<lambda>content.
        Ok (from_outpoint (coinbase_outpoint E header vout),
            \<lparr>out_address = out_address out, out_content = content, out_memo = out_memo out\<rparr>)))"

definition output_rows :: "Txid \<Rightarrow> FilledOutput list \<Rightarrow> (OutPointKey \<times> FilledOutput) list" where
  "output_rows t outs = map (\<lambda>(vout, out). (from_outpoint (OpRegular t (of_nat vout)), out)) (enumerate 0 outs)"

definition spent_rows :: "externs \<Rightarrow> FilledTransaction \<Rightarrow> (OutPointKey \<times> SpentOutput) list" where
  "spent_rows E ft =
     map (\<lambda>(vin, input, out). (from_outpoint input,
           \<lparr>so_output = out, so_inpoint = IpRegular (txid E (ft_transaction ft)) (of_nat vin)\<rparr>))
       (enumerate 0 (spent_inputs ft))"

definition require_filled_outputs :: "externs \<Rightarrow> FilledTransaction \<Rightarrow> (Error, FilledOutput list) result" where
  "require_filled_outputs E ft =
     rbind (filled_outputs E ft) (\<lambda>mo. ok_or (E_FillTxOutputContents ft) mo)"

section \<open>Connecting a prevalidated block\<close>

record changes =
  ch_utxo_deletes :: "OutPointKey list"
  ch_stxo_puts :: "(OutPointKey \<times> SpentOutput) list"
  ch_utxo_puts :: "(OutPointKey \<times> FilledOutput) list"

definition collect_tx ::
  "externs \<Rightarrow> u32 \<Rightarrow> FilledTransaction \<Rightarrow> changes \<times> State \<Rightarrow> (Error, changes \<times> State) result" where
  "collect_tx E height ft s =
     (let (ch, st) = s in
      rbind (assert_that (length (tx_inputs (ft_transaction ft)) \<le> length (ft_spent_utxos ft))) (\<lambda>_.
      rbind (require_filled_outputs E ft) (\<lambda>outs.
      rbind (apply_payload E height ft st) (\<lambda>st'.
        Ok (\<lparr>ch_utxo_deletes = ch_utxo_deletes ch @ map from_outpoint (tx_inputs (ft_transaction ft)),
             ch_stxo_puts = ch_stxo_puts ch @ spent_rows E ft,
             ch_utxo_puts = ch_utxo_puts ch @ output_rows (txid E (ft_transaction ft)) outs\<rparr>, st')))))"

definition connect_prevalidated ::
  "externs \<Rightarrow> Header \<Rightarrow> Body \<Rightarrow> PrevalidatedBlock \<Rightarrow> State \<Rightarrow> (Error, State) result" where
  "connect_prevalidated E header body pv st =
     rbind (try_map (coinbase_row E header) (enumerate 0 (cb_outputs (bo_coinbase body)))) (\<lambda>coinbase_rows.
     rbind (try_fold (collect_tx E (pv_next_height pv))
         (map snd (zip (bo_transactions body) (pv_filled_transactions pv)))
         (\<lparr>ch_utxo_deletes = [], ch_stxo_puts = [], ch_utxo_puts = coinbase_rows\<rparr>, st)) (\<lambda>(ch, st').
       Ok (st'\<lparr>st_utxos := db.put_all (sort_key fst (ch_utxo_puts ch))
                 (db.del_all (sort (ch_utxo_deletes ch)) (st_utxos st')),
               st_stxos := db.put_all (sort_key fst (ch_stxo_puts ch)) (st_stxos st'),
               st_tip := Some (header_hash E header),
               st_height := Some (pv_next_height pv)\<rparr>)))"

definition apply_block :: "externs \<Rightarrow> Header \<Rightarrow> Body \<Rightarrow> State \<Rightarrow> (Error, State) result" where
  "apply_block E header body st =
     rbind (prevalidate E st header body) (\<lambda>pv. connect_prevalidated E header body pv st)"

section \<open>Connecting one transaction after the other\<close>

definition spend_input :: "externs \<Rightarrow> Txid \<Rightarrow> nat \<times> OutPoint \<Rightarrow> State \<Rightarrow> (Error, State) result" where
  "spend_input E t vi st =
     (let (vin, input) = vi; key = from_outpoint input in
      rbind (ok_or (E_NoUtxo input) (fmlookup (st_utxos st) key)) (\<lambda>out.
        Ok (st\<lparr>st_utxos := fmdrop key (st_utxos st),
               st_stxos := fmupd key \<lparr>so_output = out, so_inpoint = IpRegular t (of_nat vin)\<rparr> (st_stxos st)\<rparr>)))"

definition connect_tx :: "externs \<Rightarrow> u32 \<Rightarrow> Transaction \<Rightarrow> State \<Rightarrow> (Error, State) result" where
  "connect_tx E height tx st =
     rbind (fill_transaction st tx) (\<lambda>ft.
     rbind (try_fold (spend_input E (txid E tx)) (enumerate 0 (tx_inputs tx)) st) (\<lambda>st1.
     rbind (require_filled_outputs E ft) (\<lambda>outs.
       apply_payload E height ft (st1\<lparr>st_utxos := db.put_all (output_rows (txid E tx) outs) (st_utxos st1)\<rparr>))))"

definition connect :: "externs \<Rightarrow> Header \<Rightarrow> Body \<Rightarrow> State \<Rightarrow> (Error, State) result" where
  "connect E header body st =
     rbind (next_height st) (\<lambda>height.
     rbind (ensure (st_tip st = hd_prev_side_hash header)
              (E_InvalidHeader (IH_PrevSideHash (st_tip st) (hd_prev_side_hash header)))) (\<lambda>_.
     rbind (try_map (fill_transaction st) (bo_transactions body)) (\<lambda>fts.
     rbind (map_err E_ComputeMerkleRoot (compute_merkle_root E (bo_coinbase body) fts)) (\<lambda>merkle_root.
     rbind (ensure (merkle_root = hd_merkle_root header) (E_InvalidBody merkle_root (hd_merkle_root header))) (\<lambda>_.
     rbind (try_map (coinbase_row E header) (enumerate 0 (cb_outputs (bo_coinbase body)))) (\<lambda>coinbase_rows.
     rbind (try_fold (connect_tx E height) (bo_transactions body)
         (st\<lparr>st_utxos := db.put_all coinbase_rows (st_utxos st)\<rparr>)) (\<lambda>st'.
       Ok (st'\<lparr>st_tip := Some (header_hash E header), st_height := Some height\<rparr>))))))))"

section \<open>Disconnecting the tip\<close>

definition delete_utxo :: "OutPoint \<Rightarrow> State \<Rightarrow> (Error, State) result" where
  "delete_utxo outpoint st =
     (let key = from_outpoint outpoint in
      rbind (ensure (fmlookup (st_utxos st) key \<noteq> None) (E_NoUtxo outpoint)) (\<lambda>_.
        Ok (st\<lparr>st_utxos := fmdrop key (st_utxos st)\<rparr>)))"

definition unspend :: "OutPoint \<Rightarrow> State \<Rightarrow> (Error, State) result" where
  "unspend outpoint st =
     (let key = from_outpoint outpoint in
      rbind (ok_or (E_NoStxo outpoint) (fmlookup (st_stxos st) key)) (\<lambda>stxo.
        Ok (st\<lparr>st_stxos := fmdrop key (st_stxos st), st_utxos := fmupd key (so_output stxo) (st_utxos st)\<rparr>)))"

definition disconnect_tx :: "externs \<Rightarrow> u32 \<Rightarrow> Transaction \<Rightarrow> State \<Rightarrow> (Error, State) result" where
  "disconnect_tx E height tx st =
     rbind (fill_transaction_from_stxos E st tx) (\<lambda>ft.
     rbind (revert_payload E height ft st) (\<lambda>st1.
     rbind (try_fold delete_utxo
         (rev (map (\<lambda>vout. OpRegular (txid E tx) (of_nat vout)) [0..<length (tx_outputs tx)])) st1) (\<lambda>st2.
       try_fold unspend (rev (tx_inputs tx)) st2)))"

definition disconnect_tip :: "externs \<Rightarrow> Header \<Rightarrow> Body \<Rightarrow> State \<Rightarrow> (Error, State) result" where
  "disconnect_tip E header body st =
     rbind (ok_or E_NoTip (st_tip st)) (\<lambda>tip_hash.
     rbind (ensure (tip_hash = header_hash E header)
              (E_InvalidHeader (IH_BlockHash tip_hash (header_hash E header)))) (\<lambda>_.
     rbind (try_map (fill_transaction_from_stxos E st) (bo_transactions body)) (\<lambda>fts.
     rbind (map_err E_ComputeMerkleRoot (compute_merkle_root E (bo_coinbase body) fts)) (\<lambda>merkle_root.
     rbind (ensure (merkle_root = hd_merkle_root header) (E_InvalidBody (hd_merkle_root header) merkle_root)) (\<lambda>_.
     rbind (expect (st_height st)) (\<lambda>height.
     rbind (try_fold (disconnect_tx E height) (rev (bo_transactions body)) st) (\<lambda>st1.
     rbind (try_fold delete_utxo
         (rev (map (coinbase_outpoint E header) [0..<length (cb_outputs (bo_coinbase body))])) st1) (\<lambda>st2.
       case hd_prev_side_hash header of
         None \<Rightarrow> if height = 0 then Ok (st2\<lparr>st_tip := None, st_height := None\<rparr>) else Err E_NoTip
       | Some prev_side_hash \<Rightarrow>
           if height = 0 then Err E_NoTip
           else Ok (st2\<lparr>st_tip := Some prev_side_hash, st_height := Some (height - 1)\<rparr>)))))))))"

end
