(* ===== verification/Asset_Conservation.thy ===== *)
theory Asset_Conservation
  imports Fill_Outputs
begin

text \<open>
  What \<open>filled_outputs\<close> guarantees about assets. Filling only adds identifiers to the
  outputs; the amount of a BitAsset in the filled outputs is bounded by the amount spent,
  the amount issued by the payload and the amount the payload credits. The bound counts a
  credited amount twice when the credited asset is also among the spent ones, and the last
  section shows transactions that reach it.
\<close>

section \<open>Filling keeps the outputs\<close>

definition fill_state_ok :: "fill_state \<Rightarrow> bool" where
  "fill_state_ok s \<longleftrightarrow>
     list_all filled_is_bitasset_control (fs_controls s) \<and>
     list_all filled_is_dutch_auction_receipt (fs_receipts s) \<and>
     list_all filled_is_reservation (fs_reservations s)"

lemma filled_kind_content [simp]:
  "filled_is_bitasset_control c \<Longrightarrow> content_of_filled c = C_BitAssetControl"
  "filled_is_dutch_auction_receipt c \<Longrightarrow> content_of_filled c = C_DutchAuctionReceipt"
  "filled_is_reservation c \<Longrightarrow> content_of_filled c = C_BitAssetReservation"
  by (cases c; simp)+

lemma fill_content_ok:
  assumes "fill_content c s = Some (f, s')" and "fill_state_ok s"
  shows "content_of_filled f = c" and "fill_state_ok s'"
  using assms
  by (cases c; auto simp: fill_state_ok_def split: list.splits option.splits prod.splits if_splits)+

lemma output_of_filled_make:
  "output_of_filled \<lparr>out_address = a, out_content = c, out_memo = m\<rparr> =
     \<lparr>out_address = a, out_content = content_of_filled c, out_memo = m\<rparr>"
  by (simp add: output_of_filled_def)

lemma fill_walk_erase:
  "fill_walk outs s = Some fos \<Longrightarrow> fill_state_ok s \<Longrightarrow> map output_of_filled fos = outs"
proof (induction outs arbitrary: s fos)
  case (Cons out outs)
  from Cons.prems(1) obtain content s' rest where
    step: "fill_content (out_content out) s = Some (content, s')"
    and rest: "fill_walk outs s' = Some rest"
    and fos: "fos = \<lparr>out_address = out_address out, out_content = content, out_memo = out_memo out\<rparr> # rest"
    by (auto split: option.splits)
  have "map output_of_filled rest = outs"
    by (rule Cons.IH [OF rest]) (rule fill_content_ok(2) [OF step Cons.prems(2)])
  with fill_content_ok(1) [OF step Cons.prems(2)] fos show ?case
    by (simp add: output_of_filled_make)
qed simp

lemma tl_subset: "set (tl xs) \<subseteq> set xs"
  by (cases xs) auto

lemma drop_burned_reservation_subset:
  "set (drop_burned_reservation burn cs) \<subseteq> set cs"
  by (induction burn cs rule: drop_burned_reservation.induct) (auto split: option.splits)

lemma filled_outputs_init_ok:
  "fill_state_ok
     \<lparr>fs_bitcoin = m, fs_bitassets = bs, fs_lp_tokens = lps,
      fs_controls = filled_bitasset_control_output_content tvs,
      fs_receipts = filled_dutch_auction_receipts E ft,
      fs_reservations = filled_reservation_output_content E ft\<rparr>"
proof -
  have "list_all filled_is_bitasset_control (filled_bitasset_control_output_content tvs)"
  proof (unfold list_all_iff, intro ballI)
    fix c assume "c \<in> set (filled_bitasset_control_output_content tvs)"
    then obtain e where "control_entry e = Some c"
      by (auto simp: filled_bitasset_control_output_content_def List.map_filter_def)
    then show "filled_is_bitasset_control c" by (cases e rule: control_entry.cases) auto
  qed
  moreover have "list_all filled_is_dutch_auction_receipt (filled_dutch_auction_receipts E ft)"
    using tl_subset
    by (fastforce simp: filled_dutch_auction_receipts_def spent_dutch_auction_receipts_def list_all_iff
        Let_def split: if_splits)
  moreover have "list_all filled_is_reservation (filled_reservation_output_content E ft)"
    using drop_burned_reservation_subset
    by (fastforce simp: filled_reservation_output_content_def spent_reservations_def list_all_iff
        opt_list_def split: option.splits)
  ultimately show ?thesis by (simp add: fill_state_ok_def)
qed

lemma filled_outputs_Some:
  assumes "filled_outputs E ft = (Ok (Some fos) :: ('e, FilledOutput list option) result)"
  obtains tvs s where
    "output_asset_total_values ft = (Ok tvs :: ('e, (AssetId \<times> u64 option) list) result)"
    "fill_walk (tx_outputs (ft_transaction ft)) s = Some fos" "fill_state_ok s"
    "fs_bitassets s = output_bitasset_total_values tvs"
    "fs_controls s = filled_bitasset_control_output_content tvs"
  using assms filled_outputs_init_ok
  by (fastforce simp: filled_outputs_def rbind_Ok_iff split: option.splits)

text \<open>
  filling the outputs of a transaction keeps them: the filled outputs, with the added
  identifiers forgotten, are exactly the transaction's outputs, in order, with the same
  addresses, amounts and memos.
\<close>

lemma filled_outputs_erase:
  assumes "filled_outputs E ft = Ok (Some fos)"
  shows "map output_of_filled fos = tx_outputs (ft_transaction ft)"
proof -
  from assms obtain s where "fill_walk (tx_outputs (ft_transaction ft)) s = Some fos" "fill_state_ok s"
    by (rule filled_outputs_Some)
  then show ?thesis by (rule fill_walk_erase)
qed

section \<open>Amounts of a BitAsset\<close>

fun bitasset_amount :: "BitAssetId \<Rightarrow> FilledContent \<Rightarrow> nat" where
  "bitasset_amount b (F_BitAsset b' v) = (if b' = b then unat v else 0)"
| "bitasset_amount b _ = 0"

definition bitasset_in :: "FilledTransaction \<Rightarrow> BitAssetId \<Rightarrow> nat" where
  "bitasset_in ft b = (\<Sum>(_, out)\<leftarrow>spent_inputs ft. bitasset_amount b (out_content out))"

definition bitasset_out :: "FilledOutput list \<Rightarrow> BitAssetId \<Rightarrow> nat" where
  "bitasset_out fos b = (\<Sum>out\<leftarrow>fos. bitasset_amount b (out_content out))"

definition entry_amount :: "'k \<Rightarrow> ('k \<times> u64 option) list \<Rightarrow> nat" where
  "entry_amount k es = (\<Sum>(k', v)\<leftarrow>es. if k' = k then (case v of Some n \<Rightarrow> unat n | None \<Rightarrow> 0) else 0)"

lemma entry_amount_simps [simp]:
  "entry_amount k [] = 0"
  "entry_amount k ((k', v) # es) =
     (if k' = k then (case v of Some n \<Rightarrow> unat n | None \<Rightarrow> 0) else 0) + entry_amount k es"
  "entry_amount k (es @ es') = entry_amount k es + entry_amount k es'"
  by (simp_all add: entry_amount_def)

lemma filled_kind_amount [simp]:
  "filled_is_bitasset_control c \<Longrightarrow> bitasset_amount b c = 0"
  "filled_is_dutch_auction_receipt c \<Longrightarrow> bitasset_amount b c = 0"
  "filled_is_reservation c \<Longrightarrow> bitasset_amount b c = 0"
  by (cases c; simp)+

lemma fill_content_amount:
  assumes "fill_content c s = Some (f, s')" and "fill_state_ok s"
  shows "bitasset_amount b f + entry_amount b (fs_bitassets s') = entry_amount b (fs_bitassets s)"
  using assms
  by (cases c)
    (auto simp: fill_state_ok_def unat_sub word_le_nat_alt not_less
      split: list.splits option.splits prod.splits if_splits)

lemma fill_walk_amount:
  "fill_walk outs s = Some fos \<Longrightarrow> fill_state_ok s \<Longrightarrow> bitasset_out fos b \<le> entry_amount b (fs_bitassets s)"
proof (induction outs arbitrary: s fos)
  case Nil
  then show ?case by (simp add: bitasset_out_def)
next
  case (Cons out outs)
  from Cons.prems(1) obtain content s' rest where
    step: "fill_content (out_content out) s = Some (content, s')"
    and rest: "fill_walk outs s' = Some rest"
    and fos: "fos = \<lparr>out_address = out_address out, out_content = content, out_memo = out_memo out\<rparr> # rest"
    by (auto split: option.splits)
  have "bitasset_out rest b \<le> entry_amount b (fs_bitassets s')"
    by (rule Cons.IH [OF rest]) (rule fill_content_ok(2) [OF step Cons.prems(2)])
  then show ?case
    using fill_content_amount [OF step Cons.prems(2), of b] fos by (simp add: bitasset_out_def)
qed

lemma entry_amount_bitassets:
  "entry_amount b (output_bitasset_total_values tvs) = entry_amount (A_BitAsset b) tvs"
proof (induction tvs)
  case (Cons tv tvs)
  then show ?case
    by (cases tv rule: bitasset_entry.cases)
      (auto simp: output_bitasset_total_values_def List.map_filter_def)
qed (simp add: output_bitasset_total_values_def List.map_filter_def)

lemma key_sum_spent_assets:
  "key_sum (A_BitAsset b) (spent_values filled_asset_value (spent_assets ft)) = bitasset_in ft b"
proof -
  have "key_sum (A_BitAsset b) (spent_values filled_asset_value
      (filter (\<lambda>(_, out). filled_is_bitcoin (out_content out) \<or> filled_is_bitasset (out_content out)
         \<or> filled_is_bitasset_control (out_content out)) xs))
    = (\<Sum>(_, out)\<leftarrow>xs. bitasset_amount b (out_content out))" for xs
  proof (induction xs)
    case (Cons x xs)
    then show ?case
      by (cases x; cases "out_content (snd x)") (auto simp: spent_values_def List.map_filter_def)
  qed (simp add: spent_values_def List.map_filter_def)
  then show ?thesis by (simp add: spent_assets_def bitasset_in_def)
qed

section \<open>Credits\<close>

definition due_amount :: "(AssetId \<times> u64) option \<Rightarrow> AssetId \<Rightarrow> nat" where
  "due_amount p a = (case due p a of Some n \<Rightarrow> unat n | None \<Rightarrow> 0)"

text \<open>What the payload credits of an asset: burn payouts, swap, bid and collect receipts.\<close>

definition credited :: "pending \<Rightarrow> AssetId \<Rightarrow> nat" where
  "credited pn a =
     due_amount (pn_amm_burn0 pn) a + due_amount (pn_amm_burn1 pn) a
     + due_amount (pn_amm_swap_receive pn) a + due_amount (pn_bid_receive pn) a
     + due_amount (pn_collect0 pn) a + due_amount (pn_collect1 pn) a"

definition minted :: "(BitAssetId \<times> u64) option \<Rightarrow> AssetId \<Rightarrow> nat" where
  "minted m a = due_amount (map_option (\<lambda>(b, n). (A_BitAsset b, n)) m) a"

text \<open>What the payload issues of a BitAsset: a mint of it, or its registration.\<close>

definition issued :: "FilledTransaction \<Rightarrow> BitAssetId \<Rightarrow> nat" where
  "issued ft b = minted (bitasset_mint ft) (A_BitAsset b) + minted (new_bitasset_value ft) (A_BitAsset b)"

lemma due_None [simp]: "due None a = None"
  by (simp add: due_def)

lemma due_amount_None [simp]: "due_amount None a = 0"
  by (simp add: due_amount_def)

lemma adjust_total_bound:
  assumes "adjust_total mint pn a t = (Some v, pn')"
  shows "unat v \<le> unat t + minted mint a + credited pn a"
  using assms unfolding adjust_total_def
  by (simp split: option.splits
      add: credited_def due_amount_def minted_def checked_add_Some_iff checked_sub_Some_iff)

lemma adjust_total_credited:
  assumes "adjust_total mint pn a t = (v, pn')"
  shows "credited pn' a' \<le> credited pn a'"
  using assms unfolding adjust_total_def
  by (auto split: option.splits simp: credited_def)

lemma total_values_walk_keys: "map fst (total_values_walk mint pn us) = map fst us"
  by (induction mint pn us rule: total_values_walk.induct) (auto split: prod.splits)

lemma total_values_walk_bound:
  "distinct (map fst us) \<Longrightarrow> entry_amount a (total_values_walk mint pn us)
     \<le> key_sum a us + (if a \<in> fst ` set us then minted mint a + credited pn a else 0)"
proof (induction us arbitrary: pn)
  case (Cons u us)
  obtain a' t where u: "u = (a', t)" by (cases u)
  obtain v pn' where adj: "adjust_total mint pn a' t = (v, pn')" by fastforce
  have IH: "entry_amount a (total_values_walk mint pn' us)
      \<le> key_sum a us + (if a \<in> fst ` set us then minted mint a + credited pn' a else 0)"
    by (rule Cons.IH) (use Cons.prems in auto)
  have cr: "credited pn' a \<le> credited pn a" by (rule adjust_total_credited [OF adj])
  show ?case
  proof (cases "a' = a")
    case True
    with Cons.prems u have "a \<notin> fst ` set us" by auto
    with IH True u adj adjust_total_bound [of mint pn a' t _ pn'] show ?thesis
      by (auto split: option.splits)
  next
    case False
    with IH cr u adj show ?thesis by (cases "a \<in> fst ` set us") simp_all
  qed
qed simp

lemma entry_amount_filter_le: "entry_amount a (filter P tvs) \<le> entry_amount a tvs"
  by (induction tvs) auto

lemma entry_amount_receive [simp]: "entry_amount a (receive_entry p) = due_amount p a"
  by (cases p) (auto simp: receive_entry_def opt_list_def due_amount_def due_def)

lemma entry_amount_spend [simp]: "entry_amount a (spend_entry p) = 0"
  by (cases p) (auto simp: spend_entry_def opt_list_def)

lemma leftover_values_amount:
  "entry_amount (A_BitAsset b) (leftover_values pn new) = credited pn (A_BitAsset b) + minted new (A_BitAsset b)"
  by (cases new)
    (auto simp: leftover_values_def credited_def minted_def opt_list_def due_amount_def due_def)

lemma filled_outputs_bound:
  assumes fill: "filled_outputs E ft = (Ok (Some fos) :: ('e, FilledOutput list option) result)"
  obtains pn us where
    "pending_values ft = (Ok pn :: ('e, pending) result)"
    "unique_spent_assets ft = (Ok us :: ('e, (AssetId \<times> u64) list) result)"
    "bitasset_out fos b \<le> bitasset_in ft b + issued ft b
       + (if A_BitAsset b \<in> fst ` set us then 2 else 1) * credited pn (A_BitAsset b)"
proof -
  from fill obtain tvs s where
    tvs: "output_asset_total_values ft = (Ok tvs :: ('e, (AssetId \<times> u64 option) list) result)"
    and walk: "fill_walk (tx_outputs (ft_transaction ft)) s = Some fos" "fill_state_ok s"
    and bs: "fs_bitassets s = output_bitasset_total_values tvs"
    by (rule filled_outputs_Some)
  from tvs obtain pn us where
    pn: "pending_values ft = (Ok pn :: ('e, pending) result)"
    and us: "unique_spent_assets ft = (Ok us :: ('e, (AssetId \<times> u64) list) result)"
    and t: "tvs = filter (\<lambda>(_, amount). amount \<noteq> Some 0) (total_values_walk (bitasset_mint ft) pn us)
             @ leftover_values pn (new_bitasset_value ft)"
    by (auto simp: output_asset_total_values_def rbind_Ok_iff)
  let ?a = "A_BitAsset b"
  have d: "distinct (map fst us)"
    using us combined_values_Ok(1) unfolding unique_spent_assets_def by blast
  have ks: "key_sum ?a us = bitasset_in ft b"
    using us combined_values_key_sum key_sum_spent_assets unfolding unique_spent_assets_def by metis
  have "bitasset_out fos b \<le> entry_amount ?a tvs"
    using fill_walk_amount [OF walk, of b] by (simp add: bs entry_amount_bitassets)
  also have "\<dots> \<le> entry_amount ?a (total_values_walk (bitasset_mint ft) pn us)
      + (credited pn ?a + minted (new_bitasset_value ft) ?a)"
    by (simp add: t leftover_values_amount entry_amount_filter_le)
  also have "\<dots> \<le> bitasset_in ft b + issued ft b
      + (if ?a \<in> fst ` set us then 2 else 1) * credited pn ?a"
    using total_values_walk_bound [OF d, of ?a "bitasset_mint ft" pn]
    by (auto simp: ks issued_def split: if_splits)
  finally show thesis by (rule that [OF pn us])
qed

section \<open>Conservation\<close>

lemma pending_no_credit:
  assumes "pending_values ft = Ok pn"
    and "\<not> ft_is is_amm_burn ft" "\<not> ft_is is_amm_swap ft"
      "\<not> ft_is is_dutch_auction_bid ft" "\<not> ft_is is_dutch_auction_collect ft"
  shows "credited pn a = 0"
proof (cases "tx_data (ft_transaction ft)")
  case None
  with assms show ?thesis
    by (auto simp: pending_values_def rbind_Ok_iff credited_def amm_burn_def amm_swap_def
        dutch_auction_bid_def dutch_auction_collect_def Let_def)
next
  case (Some d)
  with assms show ?thesis
    by (cases d) (auto simp: pending_values_def rbind_Ok_iff credited_def amm_burn_def amm_swap_def
        dutch_auction_bid_def dutch_auction_collect_def Let_def ft_is_def tx_is_def)
qed

text \<open>
  C3: a transaction whose payload pays nothing out of a pool or an auction cannot create
  BitAssets: for every BitAsset, the amount in the filled outputs is at most the amount
  spent plus what a mint or a registration in the payload issues.
\<close>

theorem bitasset_conservation:
  assumes "filled_outputs E ft = (Ok (Some fos) :: ('e, FilledOutput list option) result)"
    and "\<not> ft_is is_amm_burn ft" "\<not> ft_is is_amm_swap ft"
      "\<not> ft_is is_dutch_auction_bid ft" "\<not> ft_is is_dutch_auction_collect ft"
  shows "bitasset_out fos b \<le> bitasset_in ft b + issued ft b"
proof -
  from assms(1) obtain pn us where pn: "pending_values ft = (Ok pn :: ('e, pending) result)"
    and "unique_spent_assets ft = (Ok us :: ('e, (AssetId \<times> u64) list) result)"
    and le: "bitasset_out fos b \<le> bitasset_in ft b + issued ft b
       + (if A_BitAsset b \<in> fst ` set us then 2 else 1) * credited pn (A_BitAsset b)"
    by (rule filled_outputs_bound [where b = b])
  from pending_no_credit [OF pn assms(2-5)] le show ?thesis by simp
qed

lemma unspent_not_unique:
  assumes us: "unique_spent_assets ft = Ok us"
    and none: "\<forall>u\<in>set (ft_spent_utxos ft). filled_bitasset (out_content u) \<noteq> Some b"
  shows "A_BitAsset b \<notin> fst ` set us"
proof
  assume "A_BitAsset b \<in> fst ` set us"
  then have "A_BitAsset b \<in> fst ` set (spent_values filled_asset_value (spent_assets ft))"
    using combined_values_Ok(2) [OF us [unfolded unique_spent_assets_def]] by simp
  then obtain u v where "u \<in> set (ft_spent_utxos ft)"
    "filled_asset_value (out_content u) = Some (A_BitAsset b, v)"
    by (auto simp: spent_values_def spent_assets_def spent_inputs_def List.map_filter_def
        dest: set_zip_rightD)
  with none show False by (cases "out_content u") auto
qed

text \<open>
  in general, a BitAsset can exceed what is spent and issued only by what the payload
  credits of it (burn payouts, swap, bid and collect receipts), counted once, or twice
  when the transaction also spends that BitAsset.
\<close>

lemma bitasset_credit_bound:
  assumes "filled_outputs E ft = (Ok (Some fos) :: ('e, FilledOutput list option) result)"
    and "pending_values ft = (Ok pn :: ('e, pending) result)"
  shows "bitasset_out fos b \<le> bitasset_in ft b + issued ft b + 2 * credited pn (A_BitAsset b) \<and>
    ((\<forall>u\<in>set (ft_spent_utxos ft). filled_bitasset (out_content u) \<noteq> Some b) \<longrightarrow>
        bitasset_out fos b \<le> bitasset_in ft b + issued ft b + credited pn (A_BitAsset b))"
proof -
  from assms(1) obtain pn' us where pn': "pending_values ft = (Ok pn' :: ('e, pending) result)"
    and us: "unique_spent_assets ft = (Ok us :: ('e, (AssetId \<times> u64) list) result)"
    and le: "bitasset_out fos b \<le> bitasset_in ft b + issued ft b
       + (if A_BitAsset b \<in> fst ` set us then 2 else 1) * credited pn' (A_BitAsset b)"
    by (rule filled_outputs_bound [where b = b])
  from pn' assms(2) have [simp]: "pn' = pn" by simp
  from le have "bitasset_out fos b \<le> bitasset_in ft b + issued ft b + 2 * credited pn (A_BitAsset b)"
    by (simp split: if_splits)
  moreover have "bitasset_out fos b \<le> bitasset_in ft b + issued ft b + credited pn (A_BitAsset b)"
    if "\<forall>u\<in>set (ft_spent_utxos ft). filled_bitasset (out_content u) \<noteq> Some b"
    using le unspent_not_unique [OF us that] by simp
  ultimately show ?thesis by blast
qed

section \<open>Concrete transactions\<close>

definition plain :: "'c \<Rightarrow> 'c Output" where
  "plain c = \<lparr>out_address = 0, out_content = c, out_memo = []\<rparr>"

text \<open>A transaction spending the given contents, one outpoint each.\<close>

definition demo_tx :: "FilledContent list \<Rightarrow> Content list \<Rightarrow> TxData option \<Rightarrow> FilledTransaction" where
  "demo_tx ins outs payload =
     \<lparr>ft_transaction =
        \<lparr>tx_inputs = map (\<lambda>i. OpRegular (of_nat i) 0) [0..<length ins],
         tx_outputs = map plain outs, tx_memo = [], tx_data = payload\<rparr>,
      ft_spent_utxos = map plain ins\<rparr>"

definition demo_burn :: FilledTransaction where
  "demo_burn = demo_tx [F_BitAsset 1 1, F_BitAsset 2 1, F_AmmLpToken (A_BitAsset 1) (A_BitAsset 2) 10]
     [C_BitAsset 11, C_BitAsset 11, C_BitAsset 10, C_BitAsset 10] (Some (AmmBurn 10 10 10))"

lemmas demo_simps = demo_tx_def plain_def combined_values_def combine_step_def spent_values_def
  List.map_filter_def spent_inputs_def spent_assets_def spent_lp_tokens_def spent_bitasset_controls_def
  spent_reservations_def spent_dutch_auction_receipts_def add_word_def checked_add_def checked_sub_def
  ft_is_def tx_is_def upt_rec word_le_nat_alt word_less_nat_alt

lemma demo_burn_assets:
  "unique_spent_assets demo_burn = Ok [(A_BitAsset 1, 1), (A_BitAsset 2, 1)]"
  "unique_spent_lp_tokens demo_burn = Ok [(A_BitAsset 1, A_BitAsset 2, 10)]"
  by (simp_all add: demo_burn_def unique_spent_assets_def unique_spent_lp_tokens_def demo_simps)

lemma burn_pending:
  assumes "tx_data (ft_transaction ft) = Some (AmmBurn n0 n1 l)"
    and "unique_spent_lp_tokens ft = (Ok ((a0, a1, t) # lps) :: ('e, _) result)"
  shows "pending_values ft = (Ok
     \<lparr>pn_amm_burn0 = Some (a0, n0), pn_amm_burn1 = Some (a1, n1),
      pn_amm_mint0 = None, pn_amm_mint1 = None, pn_amm_swap_spend = None, pn_amm_swap_receive = None,
      pn_bid_receive = None, pn_bid_spend = None, pn_create_spend = None, pn_collect0 = None,
      pn_collect1 = None\<rparr> :: ('e, pending) result)"
  using assms by (simp add: pending_values_def amm_burn_def amm_mint_def amm_swap_def dutch_auction_bid_def
      dutch_auction_create_def dutch_auction_collect_def)

lemma burn_total_values:
  assumes d: "tx_data (ft_transaction ft) = Some (AmmBurn n0 n1 l)"
    and lp: "unique_spent_lp_tokens ft = (Ok ((A_BitAsset b0, A_BitAsset b1, t) # lps) :: ('e, _) result)"
    and us: "unique_spent_assets ft = (Ok ((A_BitAsset b0, v0) # (A_BitAsset b1, v1) # rest) :: ('e, _) result)"
    and btc: "fst ` set rest \<subseteq> {A_Bitcoin}" and n: "n0 \<noteq> 0" "n1 \<noteq> 0"
    and fits: "unat v0 + unat n0 < 2 ^ 64" "unat v1 + unat n1 < 2 ^ 64"
  shows "output_asset_total_values ft = (Ok ((A_BitAsset b0, Some (v0 + n0)) # (A_BitAsset b1, Some (v1 + n1)) #
    filter (\<lambda>(_, amount). amount \<noteq> Some 0) (map (\<lambda>(a, v). (a, Some v)) rest) @
    [(A_BitAsset b0, Some n0), (A_BitAsset b1, Some n1)]) :: ('e, _) result)"
proof -
  have ne: "b0 \<noteq> b1" using combined_values_Ok(1) [OF us [unfolded unique_spent_assets_def]] by auto
  have ca: "checked_add v0 n0 = Some (v0 + n0)" "checked_add v1 n1 = Some (v1 + n1)"
    using fits by (simp_all add: checked_add_def)
  have "unat (v0 + n0) = unat v0 + unat n0" "unat (v1 + n1) = unat v1 + unat n1"
    using fits by (simp_all add: unat_add_lem [THEN iffD1])
  then have nz: "v0 + n0 \<noteq> 0" "v1 + n1 \<noteq> 0" using n by (metis add_is_0 unat_0 unat_eq_zero)+
  have m: "bitasset_mint ft = None" "new_bitasset_value ft = None"
    by (simp_all add: bitasset_mint_def new_bitasset_value_def d)
  have w: "total_values_walk None pn rest = map (\<lambda>(a, v). (a, Some v)) rest"
    if "\<And>v. adjust_total None pn A_Bitcoin v = (Some v, pn)" for pn
    using btc by (induction rest) (auto simp: that)
  show ?thesis
    using ne nz by (simp add: output_asset_total_values_def burn_pending [OF d lp] us m adjust_total_def due_def ca w
        leftover_values_def receive_entry_def spend_entry_def opt_list_def)
qed

text \<open>
  C34: an AMM burn pays out twice. A transaction that burns LP tokens of two BitAssets for
  the amounts n0 and n1, not zero, and also spends some of each, v0 and v1 (and possibly bitcoin;
  no other asset), where v0 + n0 and v1 + n1 fit 64 bits, may
  fill its outputs with v0 + n0 and v1 + n1 and with n0 and n1 again: the closure of
  \<open>output_asset_total_values\<close> adds the payout to the total of the spent asset, and the
  pending amount chained behind it is still there. So outputs that carry v + 2n of each
  are filled, although only v is spent, n is paid out and nothing is issued.
\<close>

theorem amm_burn_credited_twice:
  assumes d: "tx_data (ft_transaction ft) = Some (AmmBurn n0 n1 l)"
    and lp: "unique_spent_lp_tokens ft = (Ok ((A_BitAsset b0, A_BitAsset b1, t) # lps) :: ('e, _) result)"
    and us: "unique_spent_assets ft = (Ok ((A_BitAsset b0, v0) # (A_BitAsset b1, v1) # rest) :: ('e, _) result)"
    and btc: "fst ` set rest \<subseteq> {A_Bitcoin}" and n: "n0 \<noteq> 0" "n1 \<noteq> 0"
    and fits: "unat v0 + unat n0 < 2 ^ 64" "unat v1 + unat n1 < 2 ^ 64"
    and outs: "map out_content (tx_outputs (ft_transaction ft))
      = [C_BitAsset (v0 + n0), C_BitAsset (v1 + n1), C_BitAsset n0, C_BitAsset n1]"
  shows "\<exists>fos. filled_outputs E ft = (Ok (Some fos) :: ('e, _) result) \<and>
    map out_content fos = [F_BitAsset b0 (v0 + n0), F_BitAsset b1 (v1 + n1), F_BitAsset b0 n0, F_BitAsset b1 n1] \<and>
    bitasset_in ft b0 = unat v0 \<and> issued ft b0 = 0 \<and> bitasset_out fos b0 = unat v0 + 2 * unat n0 \<and>
    bitasset_in ft b1 = unat v1 \<and> issued ft b1 = 0 \<and> bitasset_out fos b1 = unat v1 + 2 * unat n1"
proof -
  have ne: "b0 \<noteq> b1" using combined_values_Ok(1) [OF us [unfolded unique_spent_assets_def]] by auto
  note tv = burn_total_values [OF d lp us btc n fits]
  obtain o0 o1 o2 o3 where o: "tx_outputs (ft_transaction ft) = [o0, o1, o2, o3]"
    "out_content o0 = C_BitAsset (v0 + n0)" "out_content o1 = C_BitAsset (v1 + n1)"
    "out_content o2 = C_BitAsset n0" "out_content o3 = C_BitAsset n1"
    using outs by (auto simp: map_eq_Cons_conv)
  obtain lps' where lps: "output_lp_token_total_amounts ft = (Ok lps' :: ('e, _) result)"
    using d lp by (simp add: output_lp_token_total_amounts_def amm_burn_def amm_mint_def)
  have bm: "\<exists>x. output_bitcoin_max_value ((A_BitAsset b0, Some (v0 + n0)) # (A_BitAsset b1, Some (v1 + n1)) #
    filter (\<lambda>(_, amount). amount \<noteq> Some 0) (map (\<lambda>(a, v). (a, Some v)) rest) @
    [(A_BitAsset b0, Some n0), (A_BitAsset b1, Some n1)]) = Some x"
    by (induction rest) (auto simp: output_bitcoin_max_value_def)
  have bt: "output_bitasset_total_values ((A_BitAsset b0, Some (v0 + n0)) # (A_BitAsset b1, Some (v1 + n1)) #
    filter (\<lambda>(_, amount). amount \<noteq> Some 0) (map (\<lambda>(a, v). (a, Some v)) rest) @
    [(A_BitAsset b0, Some n0), (A_BitAsset b1, Some n1)])
    = [(b0, Some (v0 + n0)), (b1, Some (v1 + n1)), (b0, Some n0), (b1, Some n1)]"
    using btc by (induction rest) (auto simp: output_bitasset_total_values_def List.map_filter_def)
  obtain fos where fos: "filled_outputs E ft = (Ok (Some fos) :: ('e, _) result)"
    "map out_content fos = [F_BitAsset b0 (v0 + n0), F_BitAsset b1 (v1 + n1), F_BitAsset b0 n0, F_BitAsset b1 n1]"
    using bm by (auto simp: filled_outputs_def tv lps bt o)
  have "bitasset_out fos b = (\<Sum>c\<leftarrow>map out_content fos. bitasset_amount b c)" for b
    by (simp add: bitasset_out_def comp_def)
  then have "bitasset_out fos b0 = unat v0 + 2 * unat n0" "bitasset_out fos b1 = unat v1 + 2 * unat n1"
    using fits ne by (simp_all add: fos(2) unat_add_lem [THEN iffD1])
  moreover have "issued ft b = 0" for b
    by (simp add: issued_def minted_def bitasset_mint_def new_bitasset_value_def d)
  moreover have "bitasset_in ft b = key_sum (A_BitAsset b) ((A_BitAsset b0, v0) # (A_BitAsset b1, v1) # rest)" for b
    using combined_values_key_sum [OF us [unfolded unique_spent_assets_def]] key_sum_spent_assets by metis
  moreover have "key_sum (A_BitAsset b) rest = 0" for b using btc by (induction rest) auto
  ultimately show ?thesis using fos ne by auto
qed

theorem amm_burn_credited_twice_witness:
  "\<forall>E. \<exists>fos. filled_outputs E demo_burn = (Ok (Some fos) :: (unit, FilledOutput list option) result) \<and>
     bitasset_in demo_burn 1 = 1 \<and> bitasset_out fos 1 = 21"
proof -
  have d: "tx_data (ft_transaction demo_burn) = Some (AmmBurn 10 10 10)"
    and o: "map out_content (tx_outputs (ft_transaction demo_burn)) = [C_BitAsset (1 + 10), C_BitAsset (1 + 10), C_BitAsset 10, C_BitAsset 10]"
    by (simp_all add: demo_burn_def demo_tx_def plain_def)
  from amm_burn_credited_twice [OF d demo_burn_assets(2,1) _ _ _ _ _ o] show ?thesis by fastforce
qed

definition demo_transfer :: FilledTransaction where
  "demo_transfer = demo_tx [F_BitAsset 7 5, F_Bitcoin 30] [C_BitAsset 3, C_Bitcoin 20, C_BitAsset 2] None"

lemma demo_transfer_filled:
  "filled_outputs E demo_transfer = Ok (Some (map plain [F_BitAsset 7 3, F_Bitcoin 20, F_BitAsset 7 2]))"
proof -
  have d: "tx_data (ft_transaction demo_transfer) = None"
    and o: "tx_outputs (ft_transaction demo_transfer) = map plain [C_BitAsset 3, C_Bitcoin 20, C_BitAsset 2]"
    by (simp_all add: demo_transfer_def demo_tx_def)
  have us: "unique_spent_assets demo_transfer = Ok [(A_BitAsset 7, 5), (A_Bitcoin, 30)]"
    "unique_spent_lp_tokens demo_transfer = Ok []"
    by (simp_all add: demo_transfer_def unique_spent_assets_def unique_spent_lp_tokens_def demo_simps)
  have tv: "output_asset_total_values demo_transfer = Ok [(A_BitAsset 7, Some 5), (A_Bitcoin, Some 30)]"
    by (simp add: output_asset_total_values_def pending_values_def amm_burn_def amm_mint_def amm_swap_def
      dutch_auction_bid_def dutch_auction_create_def dutch_auction_collect_def bitasset_mint_def
      new_bitasset_value_def us d adjust_total_def leftover_values_def receive_entry_def spend_entry_def
      opt_list_def)
  have lp: "output_lp_token_total_amounts demo_transfer = Ok []"
    by (simp add: output_lp_token_total_amounts_def amm_burn_def amm_mint_def d us opt_list_def)
  show ?thesis
    by (simp add: filled_outputs_def tv lp output_bitcoin_max_value_def output_bitasset_total_values_def
       o List.map_filter_def plain_def word_less_nat_alt checked_sub_def word_le_nat_alt)
qed

theorem filled_outputs_erase_witness:
  "map output_of_filled (map plain [F_BitAsset 7 3, F_Bitcoin 20, F_BitAsset 7 2])
     = tx_outputs (ft_transaction demo_transfer)"
  using filled_outputs_erase [OF demo_transfer_filled] .

theorem bitasset_conservation_witness:
  "bitasset_out (map plain [F_BitAsset 7 3, F_Bitcoin 20, F_BitAsset 7 2]) 7
     \<le> bitasset_in demo_transfer 7 + issued demo_transfer 7"
  by (rule bitasset_conservation [OF demo_transfer_filled])
    (simp_all add: ft_is_def tx_is_def demo_transfer_def demo_tx_def)

section \<open>Control coins\<close>

lemma fill_content_controls:
  "fill_content c s = Some (f, s') \<Longrightarrow>
     length (fs_controls s) = length (fs_controls s') + (if c = C_BitAssetControl then 1 else 0)"
  by (cases c) (auto split: list.splits option.splits prod.splits if_splits)

lemma fill_walk_controls:
  "fill_walk outs s = Some fos \<Longrightarrow>
     length (filter (\<lambda>out. content_is_bitasset_control (out_content out)) outs) \<le> length (fs_controls s)"
proof (induction outs arbitrary: s fos)
  case (Cons out outs)
  from Cons.prems obtain content s' rest where
    step: "fill_content (out_content out) s = Some (content, s')" and rest: "fill_walk outs s' = Some rest"
    by (auto split: option.splits)
  from Cons.IH [OF rest] fill_content_controls [OF step] show ?case
    by (cases "out_content out") auto
qed simp

lemma no_control_spent:
  assumes us: "unique_spent_assets ft = Ok us" and none: "spent_bitasset_controls ft = []"
  shows "A_BitAssetControl b \<notin> fst ` set us"
proof
  assume "A_BitAssetControl b \<in> fst ` set us"
  then have "A_BitAssetControl b \<in> fst ` set (spent_values filled_asset_value (spent_assets ft))"
    using combined_values_Ok(2) [OF us [unfolded unique_spent_assets_def]] by simp
  then obtain op u v where u: "(op, u) \<in> set (spent_inputs ft)"
    "filled_asset_value (out_content u) = Some (A_BitAssetControl b, v)"
    by (auto simp: spent_values_def spent_assets_def List.map_filter_def)
  then have "filled_is_bitasset_control (out_content u)" by (cases "out_content u") auto
  with u none show False by (auto simp: spent_bitasset_controls_def filter_empty_conv)
qed

lemma no_control_entries:
  "(\<And>b. A_BitAssetControl b \<notin> fst ` set tvs) \<Longrightarrow> filled_bitasset_control_output_content tvs = []"
proof (induction tvs)
  case (Cons tv tvs)
  then show ?case
    by (cases tv rule: control_entry.cases)
      (auto simp: filled_bitasset_control_output_content_def List.map_filter_def)
qed (simp add: filled_bitasset_control_output_content_def List.map_filter_def)

text \<open>
  a registration with an initial supply of zero that spends no control coin can never
  be filled if it has a control coin output: the control coin of the new BitAsset is only
  added when the initial supply is not zero. Since a registration must end in a control
  coin output, such a registration is always refused.
\<close>

lemma zero_supply_registration_unfillable:
  assumes "tx_data (ft_transaction ft) = Some (BitAssetRegistration name_hash nonce data 0)"
    and "spent_bitasset_controls ft = []" and "bitasset_control_outputs ft \<noteq> []"
  shows "filled_outputs E ft \<noteq> (Ok (Some fos) :: ('e, FilledOutput list option) result)"
proof
  assume "filled_outputs E ft = (Ok (Some fos) :: ('e, FilledOutput list option) result)"
  then obtain tvs s where
    tvs: "output_asset_total_values ft = (Ok tvs :: ('e, (AssetId \<times> u64 option) list) result)"
    and walk: "fill_walk (tx_outputs (ft_transaction ft)) s = Some fos"
    and cs: "fs_controls s = filled_bitasset_control_output_content tvs"
    by (rule filled_outputs_Some)
  from tvs obtain pn us where us: "unique_spent_assets ft = (Ok us :: ('e, (AssetId \<times> u64) list) result)"
    and pn: "pending_values ft = (Ok pn :: ('e, pending) result)"
    and t: "tvs = filter (\<lambda>(_, amount). amount \<noteq> Some 0) (total_values_walk (bitasset_mint ft) pn us)
             @ leftover_values pn (new_bitasset_value ft)"
    by (auto simp: output_asset_total_values_def rbind_Ok_iff)
  have "leftover_values pn (new_bitasset_value ft) = []"
    using pn assms(1)
    by (auto simp: pending_values_def rbind_Ok_iff amm_burn_def amm_mint_def amm_swap_def
        dutch_auction_bid_def dutch_auction_create_def dutch_auction_collect_def new_bitasset_value_def
        leftover_values_def receive_entry_def spend_entry_def opt_list_def Let_def)
  moreover have "fst ` set (total_values_walk (bitasset_mint ft) pn us) = fst ` set us"
    by (metis list.set_map total_values_walk_keys)
  ultimately have "fst ` set tvs \<subseteq> fst ` set us" by (auto simp: t)
  then have "A_BitAssetControl b \<notin> fst ` set tvs" for b
    using no_control_spent [OF us assms(2), of b] by blast
  then have "fs_controls s = []" by (simp add: cs no_control_entries)
  with fill_walk_controls [OF walk] assms(3) show False
    by (simp add: bitasset_control_outputs_def)
qed

theorem zero_supply_registration_unfillable_witness:
  "let data = \<lparr>bd_commitment = None, bd_socket_addr_v4 = None, bd_socket_addr_v6 = None,
       bd_encryption_pubkey = None, bd_signing_pubkey = None\<rparr>;
     ft = demo_tx [F_BitAssetReservation 4 5, F_Bitcoin 9] [C_Bitcoin 8, C_BitAssetControl]
       (Some (BitAssetRegistration 1 2 data 0))
   in \<forall>E fos. filled_outputs E ft \<noteq> (Ok (Some fos) :: (unit, _) result)"
  unfolding Let_def
  by (intro allI, rule zero_supply_registration_unfillable)
    (simp_all add: demo_simps bitasset_control_outputs_def)

end
