(* ===== verification/Block_Value.thy ===== *)
theory Block_Value
  imports Block Asset_Conservation
begin

text \<open>
  What block validation guarantees about coins: the sort-and-scan check finds exactly the
  double spends, every spent coin is authorized by the key of its address, coins reserved
  for withdrawals are not spent by transactions, and a connected block never increases
  the Bitcoin value of the UTXO table.
\<close>

section \<open>Double spends\<close>

lemma any_adjacent_equal_sorted: "sorted xs \<Longrightarrow> any_adjacent_equal xs \<longleftrightarrow> \<not> distinct xs"
  by (induction xs rule: any_adjacent_equal.induct) (auto simp: less_le)

definition block_inputs :: "FilledTransaction list \<Rightarrow> OutPoint list" where
  "block_inputs fts = concat (map (\<lambda>ft. tx_inputs (ft_transaction ft)) fts)"

lemma input_keys_eq: "input_keys fts = map from_outpoint (block_inputs fts)"
  by (simp add: input_keys_def block_inputs_def map_concat comp_def)

lemma distinct_input_keys: "distinct (input_keys fts) \<longleftrightarrow> distinct (block_inputs fts)"
  by (simp add: input_keys_eq distinct_map inj_from_outpoint)

text \<open>
  sorting the 37-byte keys of all inputs of a block and scanning for equal neighbours
  reports a double spend exactly when two inputs of the block are the same outpoint.
\<close>

lemma double_spend_scan:
  "any_adjacent_equal (sort (input_keys fts)) \<longleftrightarrow> \<not> distinct (block_inputs fts)"
  by (simp add: any_adjacent_equal_sorted distinct_input_keys)

section \<open>What a checked block satisfies\<close>

lemma fill_transaction_Ok:
  assumes "fill_transaction st tx = Ok ft"
  shows "ft_transaction ft = tx" and "length (ft_spent_utxos ft) = length (tx_inputs tx)"
    and "list_all2 (\<lambda>input out. fmlookup (st_utxos st) (from_outpoint input) = Some out) (tx_inputs tx) (ft_spent_utxos ft)"
  using assms by (auto simp: fill_transaction_def rbind_Ok_iff try_map_Ok_iff dest: list_all2_lengthD)

lemma check_block_Ok:
  assumes "check_block E st header body = Ok (fts, root, fees, coinbase_value)"
  shows "list_all2 (\<lambda>tx ft. fill_transaction st tx = Ok ft) (bo_transactions body) fts"
    and "hd_prev_side_hash header = st_tip st"
    and "compute_merkle_root E (bo_coinbase body) fts = Ok (hd_merkle_root header)"
    and "checked_total (map txout_value (cb_outputs (bo_coinbase body))) = Ok coinbase_value"
    and "distinct (block_inputs fts)"
    and "total_fees E st fts = Ok fees" and "coinbase_value \<le> fees"
    and "check_addresses E (bo_authorizations body) (concat (map ft_spent_utxos fts)) = Ok ()"
    and "verify_authorizations E body = Ok ()"
  using assms unfolding check_block_def rbind_Ok_iff ensure_Ok_iff map_err_Ok_iff try_map_Ok_iff
  by (simp_all add: any_adjacent_equal_sorted distinct_input_keys not_less)

lemma filled_transactions_eq:
  "list_all2 (\<lambda>tx ft. fill_transaction st tx = Ok ft) txs fts \<Longrightarrow> map ft_transaction fts = txs"
  by (induction rule: list_all2_induct) (auto dest: fill_transaction_Ok(1))

lemma map_snd_zip_filled:
  "list_all2 (\<lambda>tx ft. fill_transaction st tx = Ok ft) txs fts \<Longrightarrow> map snd (zip txs fts) = fts"
  by (auto dest: list_all2_lengthD)

text \<open>The coins that the block spends, with their keys, as they are in the table.\<close>

definition spent_coins :: "FilledTransaction list \<Rightarrow> (OutPointKey \<times> FilledOutput) list" where
  "spent_coins fts = concat (map (\<lambda>ft. map (\<lambda>(input, out). (from_outpoint input, out)) (spent_inputs ft)) fts)"

lemma spent_coins_keys:
  "list_all2 (\<lambda>tx ft. fill_transaction st tx = Ok ft) txs fts \<Longrightarrow> map fst (spent_coins fts) = input_keys fts"
proof (induction rule: list_all2_induct)
  case (Cons tx txs ft fts)
  have "map fst (map (\<lambda>(input, out). (from_outpoint input, out)) (spent_inputs ft))
      = map from_outpoint (tx_inputs (ft_transaction ft))"
    using fill_transaction_Ok(1,2) [OF Cons(1)]
    by (simp add: spent_inputs_def comp_def case_prod_unfold map_fst_zip flip: map_map [of from_outpoint fst, unfolded comp_def])
  with Cons show ?case by (simp add: spent_coins_def input_keys_def)
qed (simp add: spent_coins_def input_keys_def)

lemma spent_coins_present:
  "list_all2 (\<lambda>tx ft. fill_transaction st tx = Ok ft) txs fts \<Longrightarrow> (k, out) \<in> set (spent_coins fts) \<Longrightarrow>
     fmlookup (st_utxos st) k = Some out"
proof (induction rule: list_all2_induct)
  case (Cons tx txs ft fts)
  have "list_all2 (\<lambda>input out. fmlookup (st_utxos st) (from_outpoint input) = Some out)
      (tx_inputs (ft_transaction ft)) (ft_spent_utxos ft)"
    using fill_transaction_Ok(1,3) [OF Cons(1)] by simp
  then have "(input, out) \<in> set (spent_inputs ft) \<Longrightarrow> fmlookup (st_utxos st) (from_outpoint input) = Some out" for input out
    by (auto simp: spent_inputs_def list_all2_iff)
  then have "(k, out) \<in> set (map (\<lambda>(input, out). (from_outpoint input, out)) (spent_inputs ft)) \<Longrightarrow> ?case"
    by auto
  then show ?case using Cons by (simp add: spent_coins_def del: set_map) blast
qed (simp add: spent_coins_def)

section \<open>Payloads touch neither coins nor the tip\<close>

lemma apply_payload_frame:
  assumes "apply_payload E height ft st = Ok st'"
  shows "st_utxos st' = st_utxos st" and "st_stxos st' = st_stxos st"
    and "st_tip st' = st_tip st" and "st_height st' = st_height st"
  using assms
  by (auto simp: apply_payload_def lift_amm_def lift_bitassets_def lift_auctions_def rbind_Ok_iff
      split: option.splits TxData.splits)

lemma apply_payloads_frame:
  assumes "try_fold (apply_payload E height) fts st = Ok st'"
  shows "st_utxos st' = st_utxos st \<and> st_stxos st' = st_stxos st \<and> st_tip st' = st_tip st \<and> st_height st' = st_height st"
  using assms
proof (induction fts arbitrary: st)
  case (Cons ft fts)
  then obtain st1 where "apply_payload E height ft st = Ok st1" "try_fold (apply_payload E height) fts st1 = Ok st'"
    by (auto simp: rbind_Ok_iff)
  with Cons.IH [of st1] show ?case using apply_payload_frame [of E height ft st st1] by simp
qed simp

section \<open>The collected changes\<close>

text \<open>The rows that the transactions of a block add to the UTXO table.\<close>

definition new_rows :: "externs \<Rightarrow> FilledTransaction list \<Rightarrow> FilledOutput list list \<Rightarrow> (OutPointKey \<times> FilledOutput) list" where
  "new_rows E fts outss =
     concat (map2 (\<lambda>ft outs. output_rows (txid E (ft_transaction ft)) outs) fts outss)"

lemma collect_txs:
  assumes "try_fold (collect_tx E height) fts (ch, st) = Ok (ch', st')"
  obtains outss where "list_all2 (\<lambda>ft outs. require_filled_outputs E ft = Ok outs) fts outss"
    and "try_fold (apply_payload E height) fts st = Ok st'"
    and "ch_utxo_deletes ch' = ch_utxo_deletes ch @ input_keys fts"
    and "ch_stxo_puts ch' = ch_stxo_puts ch @ concat (map (spent_rows E) fts)"
    and "ch_utxo_puts ch' = ch_utxo_puts ch @ new_rows E fts outss"
proof -
  have "\<exists>outss. list_all2 (\<lambda>ft outs. require_filled_outputs E ft = Ok outs) fts outss
      \<and> try_fold (apply_payload E height) fts st = Ok st'
      \<and> ch_utxo_deletes ch' = ch_utxo_deletes ch @ input_keys fts
      \<and> ch_stxo_puts ch' = ch_stxo_puts ch @ concat (map (spent_rows E) fts)
      \<and> ch_utxo_puts ch' = ch_utxo_puts ch @ new_rows E fts outss"
    using assms
  proof (induction fts arbitrary: ch st)
    case Nil
    then show ?case by (simp add: input_keys_def new_rows_def)
  next
    case (Cons ft fts)
    then obtain ch1 st1 where c: "collect_tx E height ft (ch, st) = Ok (ch1, st1)"
        and r: "try_fold (collect_tx E height) fts (ch1, st1) = Ok (ch', st')"
      by (auto simp: rbind_Ok_iff)
    from c obtain outs where o: "require_filled_outputs E ft = Ok outs" "apply_payload E height ft st = Ok st1"
      "ch1 = \<lparr>ch_utxo_deletes = ch_utxo_deletes ch @ map from_outpoint (tx_inputs (ft_transaction ft)),
             ch_stxo_puts = ch_stxo_puts ch @ spent_rows E ft,
             ch_utxo_puts = ch_utxo_puts ch @ output_rows (txid E (ft_transaction ft)) outs\<rparr>"
      by (auto simp: collect_tx_def rbind_Ok_iff)
    from Cons.IH [OF r] obtain outss where
      "list_all2 (\<lambda>ft outs. require_filled_outputs E ft = Ok outs) fts outss"
      "try_fold (apply_payload E height) fts st1 = Ok st'"
      "ch_utxo_deletes ch' = ch_utxo_deletes ch1 @ input_keys fts"
      "ch_stxo_puts ch' = ch_stxo_puts ch1 @ concat (map (spent_rows E) fts)"
      "ch_utxo_puts ch' = ch_utxo_puts ch1 @ new_rows E fts outss" by blast
    with o show ?case
      by (intro exI [of _ "outs # outss"]) (simp add: input_keys_def new_rows_def)
  qed
  with that show ?thesis by blast
qed

text \<open>The state after a prevalidated block, written out.\<close>

lemma connect_prevalidated_Ok:
  assumes "connect_prevalidated E header body pv st = Ok st'"
    and fts: "list_all2 (\<lambda>tx ft. fill_transaction st0 tx = Ok ft) (bo_transactions body) (pv_filled_transactions pv)"
  obtains rows outss st1 where
    "try_map (coinbase_row E header) (enumerate 0 (cb_outputs (bo_coinbase body))) = Ok rows"
    and "list_all2 (\<lambda>ft outs. require_filled_outputs E ft = Ok outs) (pv_filled_transactions pv) outss"
    and "try_fold (apply_payload E (pv_next_height pv)) (pv_filled_transactions pv) st = Ok st1"
    and "st' = st1\<lparr>st_utxos := db.put_all (sort_key fst (rows @ new_rows E (pv_filled_transactions pv) outss))
                 (db.del_all (sort (input_keys (pv_filled_transactions pv))) (st_utxos st)),
               st_stxos := db.put_all (sort_key fst (concat (map (spent_rows E) (pv_filled_transactions pv)))) (st_stxos st),
               st_tip := Some (header_hash E header),
               st_height := Some (pv_next_height pv)\<rparr>"
proof -
  from assms(1) obtain rows ch st1 where
    rows: "try_map (coinbase_row E header) (enumerate 0 (cb_outputs (bo_coinbase body))) = Ok rows"
    and f: "try_fold (collect_tx E (pv_next_height pv)) (pv_filled_transactions pv)
         (\<lparr>ch_utxo_deletes = [], ch_stxo_puts = [], ch_utxo_puts = rows\<rparr>, st) = Ok (ch, st1)"
    and st': "st' = st1\<lparr>st_utxos := db.put_all (sort_key fst (ch_utxo_puts ch))
                 (db.del_all (sort (ch_utxo_deletes ch)) (st_utxos st1)),
               st_stxos := db.put_all (sort_key fst (ch_stxo_puts ch)) (st_stxos st1),
               st_tip := Some (header_hash E header),
               st_height := Some (pv_next_height pv)\<rparr>"
    unfolding connect_prevalidated_def map_snd_zip_filled [OF fts] rbind_Ok_iff by auto
  from f obtain outss where o: "list_all2 (\<lambda>ft outs. require_filled_outputs E ft = Ok outs) (pv_filled_transactions pv) outss"
    and a: "try_fold (apply_payload E (pv_next_height pv)) (pv_filled_transactions pv) st = Ok st1"
    and ch: "ch_utxo_deletes ch = input_keys (pv_filled_transactions pv)"
      "ch_stxo_puts ch = concat (map (spent_rows E) (pv_filled_transactions pv))"
      "ch_utxo_puts ch = rows @ new_rows E (pv_filled_transactions pv) outss"
    by (rule collect_txs) simp
  show ?thesis
    by (rule that [OF rows o a]) (use st' ch apply_payloads_frame [OF a] in simp)
qed

section \<open>Bitcoin value\<close>

definition coin_value :: "OutPointKey \<times> FilledOutput \<Rightarrow> nat" where
  "coin_value row = unat (utxo_value (snd row))"

definition utxo_total :: "State \<Rightarrow> nat" where
  "utxo_total st = db_total (\<lambda>out. unat (utxo_value out)) (st_utxos st)"

lemma utxo_value_erase: "utxo_value out = txout_value (output_of_filled out)"
  by (simp add: output_of_filled_def filled_get_bitcoin_value_def)

lemma map_snd_enumerate_rows [simp]: "map snd (output_rows t outs) = outs"
  by (simp add: output_rows_def comp_def case_prod_unfold)

lemma output_rows_value: "sum_list (map coin_value (output_rows t outs)) = (\<Sum>out\<leftarrow>outs. unat (utxo_value out))"
proof -
  have "map coin_value (output_rows t outs) = map (\<lambda>out. unat (utxo_value out)) (map snd (output_rows t outs))"
    by (simp add: coin_value_def comp_def del: map_snd_enumerate_rows)
  then show ?thesis by simp
qed

lemma require_filled_outputs_value:
  assumes "require_filled_outputs E ft = Ok outs"
  shows "(\<Sum>out\<leftarrow>outs. unat (utxo_value out)) = (\<Sum>out\<leftarrow>tx_outputs (ft_transaction ft). unat (txout_value out))"
proof -
  from assms have "filled_outputs E ft = (Ok (Some outs) :: (Error, _) result)"
    by (auto simp: require_filled_outputs_def rbind_Ok_iff)
  then obtain s where "fill_walk (tx_outputs (ft_transaction ft)) s = Some outs" "fill_state_ok s"
    by (rule filled_outputs_Some)
  then have "tx_outputs (ft_transaction ft) = map output_of_filled outs"
    by (simp add: fill_walk_erase)
  then show ?thesis by (simp add: utxo_value_erase comp_def)
qed

lemma coinbase_rows_value:
  "list_all2 (\<lambda>x y. coinbase_row E header x = Ok y) ps rows \<Longrightarrow>
     sum_list (map coin_value rows) = (\<Sum>p\<leftarrow>ps. unat (txout_value (snd p)))"
proof (induction rule: list_all2_induct)
  case (Cons p ps row rows)
  obtain vout out where p: "p = (vout, out)" by (cases p)
  from Cons(1) have "coin_value row = unat (txout_value (snd p))"
    by (cases "out_content out") (auto simp: p coinbase_row_def rbind_Ok_iff coin_value_def filled_get_bitcoin_value_def)
  with Cons show ?case by simp
qed simp

lemma add_amount_Ok [simp]: "add_amount x y = Ok z \<longleftrightarrow> unat z = unat x + unat y"
  by (simp add: add_amount_def checked_add_Some_iff)

lemma checked_total_unat:
  "try_fold (\<lambda>v total. add_amount total v) values acc = Ok v \<Longrightarrow>
     unat v = unat acc + sum_list (map unat values)"
  by (induction "values" arbitrary: acc) (auto simp: rbind_Ok_iff simp del: add_amount_Ok simp: add_amount_def checked_add_Some_iff)

lemma validate_filled_transaction_Ok:
  assumes "validate_filled_transaction E st ft = Ok fee"
  shows "bitcoin_fee ft = Ok fee" and "\<forall>(_, out)\<in>set (spent_inputs ft). \<not> filled_is_withdrawal (out_content out)"
proof -
  let ?w = "\<lambda>(_, out). filled_is_withdrawal (out_content out)"
  have n: "find ?w (spent_inputs ft) = None \<and> bitcoin_fee ft = Ok fee"
    using assms by (cases "find ?w (spent_inputs ft)") (auto simp: validate_filled_transaction_def rbind_Ok_iff)
  then show "bitcoin_fee ft = Ok fee" by simp
  from n have "\<not> (\<exists>x. x \<in> set (spent_inputs ft) \<and> ?w x)" by (auto simp: find_None_iff)
  then show "\<forall>(_, out)\<in>set (spent_inputs ft). \<not> filled_is_withdrawal (out_content out)" by auto
qed

lemma total_fees_value:
  assumes "try_fold (\<lambda>ft total. rbind (validate_filled_transaction E st ft) (\<lambda>fee. add_amount total fee)) fts acc = Ok fees"
  shows "(\<Sum>ft\<leftarrow>fts. \<Sum>u\<leftarrow>ft_spent_utxos ft. unat (utxo_value u)) + unat acc
       = (\<Sum>ft\<leftarrow>fts. \<Sum>out\<leftarrow>tx_outputs (ft_transaction ft). unat (txout_value out)) + unat fees"
  using assms
proof (induction fts arbitrary: acc)
  case (Cons ft fts)
  from Cons.prems obtain fee acc' where f: "validate_filled_transaction E st ft = Ok fee"
    and t: "unat acc' = unat acc + unat fee"
    and r: "try_fold (\<lambda>ft total. rbind (validate_filled_transaction E st ft) (\<lambda>fee. add_amount total fee)) fts acc' = Ok fees"
    by (auto simp: rbind_Ok_iff)
  from Cons.IH [OF r] bitcoin_fee_Ok [OF validate_filled_transaction_Ok(1) [OF f]] t show ?case by simp
qed simp

lemma new_rows_value:
  "list_all2 (\<lambda>ft outs. require_filled_outputs E ft = Ok outs) fts outss \<Longrightarrow>
     sum_list (map coin_value (new_rows E fts outss))
       = (\<Sum>ft\<leftarrow>fts. \<Sum>out\<leftarrow>tx_outputs (ft_transaction ft). unat (txout_value out))"
proof (induction rule: list_all2_induct)
  case (Cons ft fts outs outss)
  then show ?case
    using require_filled_outputs_value [OF Cons(1)]
    by (simp add: new_rows_def output_rows_value)
qed (simp add: new_rows_def)

lemma spent_coins_value:
  "list_all2 (\<lambda>tx ft. fill_transaction st tx = Ok ft) txs fts \<Longrightarrow>
     sum_list (map coin_value (spent_coins fts)) = (\<Sum>ft\<leftarrow>fts. \<Sum>u\<leftarrow>ft_spent_utxos ft. unat (utxo_value u))"
proof (induction rule: list_all2_induct)
  case (Cons tx txs ft fts)
  from fill_transaction_Ok(1,2) [OF Cons(1)] have "map snd (spent_inputs ft) = ft_spent_utxos ft"
    by (simp add: spent_inputs_def)
  then have "(\<Sum>u\<leftarrow>ft_spent_utxos ft. unat (utxo_value u)) = (\<Sum>u\<leftarrow>spent_inputs ft. unat (utxo_value (snd u)))"
    by (metis (no_types, lifting) comp_def list.map_comp map_eq_conv)
  moreover have "map coin_value (map (\<lambda>(input, out). (from_outpoint input, out)) (spent_inputs ft))
      = map (\<lambda>u. unat (utxo_value (snd u))) (spent_inputs ft)"
    by (simp add: coin_value_def comp_def case_prod_unfold)
  ultimately show ?case using Cons by (simp add: spent_coins_def del: map_map)
qed (simp add: spent_coins_def)

text \<open>The outpoints that a block creates, and when they are new.\<close>

definition tx_outpoints :: "externs \<Rightarrow> Transaction \<Rightarrow> OutPoint list" where
  "tx_outpoints E tx = map (\<lambda>vout. OpRegular (txid E tx) (of_nat vout)) [0..<length (tx_outputs tx)]"

definition block_outpoints :: "externs \<Rightarrow> Header \<Rightarrow> Body \<Rightarrow> OutPoint list" where
  "block_outpoints E header body =
     map (coinbase_outpoint E header) [0..<length (cb_outputs (bo_coinbase body))]
     @ concat (map (tx_outpoints E) (bo_transactions body))"

definition outpoints_fresh :: "externs \<Rightarrow> Header \<Rightarrow> Body \<Rightarrow> State \<Rightarrow> bool" where
  "outpoints_fresh E header body st \<longleftrightarrow> distinct (block_outpoints E header body)
     \<and> (\<forall>op\<in>set (block_outpoints E header body). fmlookup (st_utxos st) (from_outpoint op) = None)"

lemma coinbase_rows_keys_from:
  "list_all2 (\<lambda>x y. coinbase_row E header x = Ok y) (enumerate n outs) rows \<Longrightarrow>
     map fst rows = map (\<lambda>i. from_outpoint (coinbase_outpoint E header i)) [n..<n + length outs]"
proof (induction outs arbitrary: n rows)
  case (Cons out outs)
  from Cons.prems obtain row rows' where r: "rows = row # rows'" "coinbase_row E header (n, out) = Ok row"
    "list_all2 (\<lambda>x y. coinbase_row E header x = Ok y) (enumerate (Suc n) outs) rows'"
    by (auto simp: list_all2_Cons1)
  from r(2) have "fst row = from_outpoint (coinbase_outpoint E header n)"
    by (auto simp: coinbase_row_def rbind_Ok_iff)
  moreover have "[n..<n + length (out # outs)] = n # [Suc n..<Suc n + length outs]"
    by (metis add_Suc add_Suc_right length_Cons less_add_Suc1 upt_conv_Cons)
  ultimately show ?case using Cons.IH [OF r(3)] r(1) by (simp only: list.map)
qed simp

lemma coinbase_rows_keys:
  "try_map (coinbase_row E header) (enumerate 0 outs) = Ok rows \<Longrightarrow>
     map fst rows = map from_outpoint (map (coinbase_outpoint E header) [0..<length outs])"
  using coinbase_rows_keys_from [of E header 0 outs rows] by (simp add: try_map_Ok_iff comp_def)

lemma output_rows_keys: "map fst (output_rows t outs) = map from_outpoint (map (\<lambda>i. OpRegular t (of_nat i)) [0..<length outs])"
  by (simp add: output_rows_def comp_def case_prod_unfold enumerate_eq_zip flip: map_map [of "\<lambda>i. from_outpoint (OpRegular t (of_nat i))" fst, unfolded comp_def])

lemma require_filled_outputs_erase:
  assumes "require_filled_outputs E ft = Ok outs"
  shows "map output_of_filled outs = tx_outputs (ft_transaction ft)"
proof -
  from assms have "filled_outputs E ft = (Ok (Some outs) :: (Error, _) result)"
    by (auto simp: require_filled_outputs_def rbind_Ok_iff)
  then obtain s where "fill_walk (tx_outputs (ft_transaction ft)) s = Some outs" "fill_state_ok s"
    by (rule filled_outputs_Some)
  then show ?thesis by (rule fill_walk_erase)
qed

lemma new_rows_keys:
  "list_all2 (\<lambda>ft outs. require_filled_outputs E ft = Ok outs) fts outss \<Longrightarrow>
     map fst (new_rows E fts outss) = map from_outpoint (concat (map (tx_outpoints E) (map ft_transaction fts)))"
proof (induction rule: list_all2_induct)
  case (Cons ft fts outs outss)
  have "length outs = length (tx_outputs (ft_transaction ft))"
    using require_filled_outputs_erase [OF Cons(1)] by (metis length_map)
  with Cons show ?case by (simp add: new_rows_def output_rows_keys tx_outpoints_def)
qed (simp add: new_rows_def)

lemma block_rows_keys:
  assumes "try_map (coinbase_row E header) (enumerate 0 (cb_outputs (bo_coinbase body))) = Ok rows"
    and "list_all2 (\<lambda>ft outs. require_filled_outputs E ft = Ok outs) fts outss"
    and "map ft_transaction fts = bo_transactions body"
  shows "map fst (rows @ new_rows E fts outss) = map from_outpoint (block_outpoints E header body)"
  using coinbase_rows_keys [OF assms(1)] new_rows_keys [OF assms(2)] assms(3)
  by (simp add: block_outpoints_def)

lemma sum_list_sort_key: "sum_list (map f (sort_key g xs)) = (sum_list (map f xs) :: nat)"
  by (metis mset_map mset_sort sum_mset_sum_list)

lemma distinct_sort_rows: "distinct (map fst (sort_key fst rows)) = distinct (map fst rows)"
  by (metis mset_eq_imp_distinct_iff mset_map mset_sort)

lemma set_fst_sort_rows: "fst ` set (sort_key fst rows) = set (map fst rows)"
  by simp

text \<open>The coins of the state after a block, when its outpoints are new.\<close>

definition block_conserves :: "externs \<Rightarrow> Header \<Rightarrow> Body \<Rightarrow> PrevalidatedBlock \<Rightarrow> State \<Rightarrow> State \<Rightarrow> bool" where
  "block_conserves E header body pv st st' \<longleftrightarrow>
     (if outpoints_fresh E header body st
      then utxo_total st' + unat (pv_total_fees pv) = utxo_total st + unat (pv_coinbase_value pv)
      else utxo_total st' + unat (pv_total_fees pv) \<le> utxo_total st + unat (pv_coinbase_value pv))"

text \<open>
  C1: no inflation. Connecting a block that passed validation changes the Bitcoin value
  of the UTXO table by the coinbase value less the fees, exactly so when the outpoints of
  the block are new, and never by more; since the coinbase may not exceed the fees, the
  value of the table never grows.
\<close>

theorem block_no_inflation:
  assumes "prevalidate E st header body = Ok pv" and "connect_prevalidated E header body pv st = Ok st'"
  shows "block_conserves E header body pv st st' \<and> utxo_total st' \<le> utxo_total st"
proof -
  let ?f = "\<lambda>out. unat (utxo_value out)"
  let ?fts = "pv_filled_transactions pv"
  from assms(1) obtain root where cb: "check_block E st header body
      = Ok (?fts, root, pv_total_fees pv, pv_coinbase_value pv)"
    by (auto simp: prevalidate_def rbind_Ok_iff)
  note chk = check_block_Ok [OF cb]
  from assms(2) chk(1) obtain rows outss st1 where
    rows: "try_map (coinbase_row E header) (enumerate 0 (cb_outputs (bo_coinbase body))) = Ok rows"
    and outss: "list_all2 (\<lambda>ft outs. require_filled_outputs E ft = Ok outs) ?fts outss"
    and st': "st' = st1\<lparr>st_utxos := db.put_all (sort_key fst (rows @ new_rows E ?fts outss))
                 (db.del_all (sort (input_keys ?fts)) (st_utxos st)),
               st_stxos := db.put_all (sort_key fst (concat (map (spent_rows E) ?fts))) (st_stxos st),
               st_tip := Some (header_hash E header), st_height := Some (pv_next_height pv)\<rparr>"
    by (rule connect_prevalidated_Ok)
  define left where "left = db.del_all (sort (input_keys ?fts)) (st_utxos st)"
  have keys: "map fst (rows @ new_rows E ?fts outss) = map from_outpoint (block_outpoints E header body)"
    by (rule block_rows_keys [OF rows outss filled_transactions_eq [OF chk(1)]])
  have "left = db.del_all (map fst (spent_coins ?fts)) (st_utxos st)"
    unfolding left_def by (rule db.del_all_set) (simp add: spent_coins_keys [OF chk(1)] flip: set_map)
  then have spent: "utxo_total st = db_total ?f left + sum_list (map coin_value (spent_coins ?fts))"
    unfolding utxo_total_def coin_value_def
    using db_total_del_all [of "spent_coins ?fts" "st_utxos st" ?f]
      spent_coins_present [OF chk(1)] spent_coins_keys [OF chk(1)] chk(5)
    by (simp add: distinct_input_keys)
  have new: "sum_list (map coin_value (sort_key fst (rows @ new_rows E ?fts outss)))
      = unat (pv_coinbase_value pv) + (\<Sum>ft\<leftarrow>?fts. \<Sum>out\<leftarrow>tx_outputs (ft_transaction ft). unat (txout_value out))"
    using coinbase_rows_value [OF rows [unfolded try_map_Ok_iff]] new_rows_value [OF outss]
      checked_total_unat [OF chk(4) [unfolded checked_total_def]]
    by (simp add: sum_list_sort_key comp_def flip: map_map [of "\<lambda>x. unat (txout_value x)" snd, unfolded comp_def])
  have fees: "sum_list (map coin_value (spent_coins ?fts))
      = (\<Sum>ft\<leftarrow>?fts. \<Sum>out\<leftarrow>tx_outputs (ft_transaction ft). unat (txout_value out)) + unat (pv_total_fees pv)"
    using total_fees_value [OF chk(6) [unfolded total_fees_def]] by (simp add: spent_coins_value [OF chk(1)])
  have after: "utxo_total st' = db_total ?f (db.put_all (sort_key fst (rows @ new_rows E ?fts outss)) left)"
    by (simp add: utxo_total_def st' left_def)
  have le: "utxo_total st' \<le> db_total ?f left + sum_list (map coin_value (sort_key fst (rows @ new_rows E ?fts outss)))"
    unfolding after coin_value_def by (rule db_total_put_all_le)
  have eq: "utxo_total st' = db_total ?f left + sum_list (map coin_value (sort_key fst (rows @ new_rows E ?fts outss)))"
    if fresh: "outpoints_fresh E header body st"
    unfolding after coin_value_def
  proof (rule db_total_put_all_fresh)
    show "distinct (map fst (sort_key fst (rows @ new_rows E ?fts outss)))"
      using fresh by (simp only: distinct_sort_rows keys) (simp add: outpoints_fresh_def distinct_map inj_from_outpoint)
    fix k assume "k \<in> fst ` set (sort_key fst (rows @ new_rows E ?fts outss))"
    then have "k \<in> from_outpoint ` set (block_outpoints E header body)"
      by (simp only: set_fst_sort_rows keys set_map)
    then show "fmlookup left k = None"
      using fresh by (auto simp: left_def db.get_del_all outpoints_fresh_def)
  qed
  have "unat (pv_coinbase_value pv) \<le> unat (pv_total_fees pv)"
    using chk(7) by (simp add: word_le_nat_alt)
  with spent new fees le eq show ?thesis unfolding block_conserves_def by (auto split: if_splits)
qed

section \<open>Authorized spends\<close>

lemma get_inputs_block:
  "list_all2 (\<lambda>tx ft. fill_transaction st tx = Ok ft) (bo_transactions body) fts \<Longrightarrow> get_inputs body = block_inputs fts"
  by (drule filled_transactions_eq [symmetric]) (simp add: get_inputs_def block_inputs_def comp_def)

lemma spent_outputs_present:
  "list_all2 (\<lambda>tx ft. fill_transaction st tx = Ok ft) txs fts \<Longrightarrow>
     list_all2 (\<lambda>input out. fmlookup (st_utxos st) (from_outpoint input) = Some out)
       (block_inputs fts) (concat (map ft_spent_utxos fts))"
proof (induction rule: list_all2_induct)
  case (Cons tx txs ft fts)
  from fill_transaction_Ok(1,3) [OF Cons(1)] Cons show ?case
    by (simp add: block_inputs_def list_all2_appendI)
qed (simp add: block_inputs_def)

lemma total_fees_valid:
  "try_fold (\<lambda>ft total. rbind (validate_filled_transaction E st ft) (\<lambda>fee. add_amount total fee)) fts acc = Ok fees
     \<Longrightarrow> ft \<in> set fts \<Longrightarrow> \<exists>fee. validate_filled_transaction E st ft = Ok fee"
  by (induction fts arbitrary: acc) (auto simp: rbind_Ok_iff simp del: add_amount_Ok)

lemma spent_outputs_not_withdrawals:
  assumes "total_fees E st fts = Ok fees"
    and "list_all2 (\<lambda>tx ft. fill_transaction st tx = Ok ft) txs fts"
    and "out \<in> set (concat (map ft_spent_utxos fts))"
  shows "\<not> filled_is_withdrawal (out_content out)"
proof -
  from assms(3) obtain ft where ft: "ft \<in> set fts" "out \<in> set (ft_spent_utxos ft)" by auto
  from assms(2) ft(1) obtain tx where "fill_transaction st tx = Ok ft"
    by (auto simp: list_all2_conv_all_nth in_set_conv_nth)
  then have "length (tx_inputs (ft_transaction ft)) = length (ft_spent_utxos ft)"
    by (simp add: fill_transaction_Ok)
  with ft(2) obtain input where "(input, out) \<in> set (spent_inputs ft)"
    by (metis in_set_impl_in_set_zip2 spent_inputs_def)
  moreover from assms(1) ft(1) obtain fee where "validate_filled_transaction E st ft = Ok fee"
    using total_fees_valid by (metis total_fees_def)
  ultimately show ?thesis using validate_filled_transaction_Ok(2) by fastforce
qed

text \<open>
  C2: no theft. If the batch verifier accepts exactly the batches of valid signatures,
  then in a block that passes \<open>validate\<close> the \<open>i\<close>-th input spends a coin that is in the UTXO
  table, is not a withdrawal output, pays to the address of the key of the \<open>i\<close>-th
  authorization, and that authorization is a valid signature of the transaction spending
  the coin.
\<close>

theorem block_spends_authorized:
  assumes "\<forall>batch. batch \<noteq> [] \<longrightarrow> ext_batch_verify E batch = list_all valid batch"
    and "validate E st header body = Ok fees" and "i < length (get_inputs body)"
  shows "length (bo_authorizations body) = length (get_inputs body) \<and>
    (\<exists>out. fmlookup (st_utxos st) (from_outpoint (get_inputs body ! i)) = Some out
      \<and> \<not> filled_is_withdrawal (out_content out)
      \<and> auth_get_address E (bo_authorizations body ! i) = out_address out
      \<and> valid (au_verifying_key (bo_authorizations body ! i), au_signature (bo_authorizations body ! i),
               messages body ! i))"
proof -
  from assms(2) obtain fts root cv where "check_block E st header body = Ok (fts, root, fees, cv)"
    by (auto simp: validate_def rbind_Ok_iff)
  note chk = check_block_Ok [OF this]
  let ?outs = "concat (map ft_spent_utxos fts)"
  have present: "list_all2 (\<lambda>input out. fmlookup (st_utxos st) (from_outpoint input) = Some out) (get_inputs body) ?outs"
    using spent_outputs_present [OF chk(1)] by (simp add: get_inputs_block [OF chk(1)])
  then have len: "length ?outs = length (get_inputs body)" by (simp add: list_all2_lengthD)
  from verify_authorizations_valid [OF assms(1), of body] chk(9)
  have auths: "length (bo_authorizations body) = length (get_inputs body)"
    and sigs: "list_all (\<lambda>(a, tx). valid (au_verifying_key a, au_signature a, tx))
        (zip (bo_authorizations body) (messages body))" by auto
  have msgs: "length (messages body) = length (get_inputs body)"
    by (simp add: length_messages get_inputs_def length_concat comp_def)
  have "?outs ! i \<in> set ?outs" using assms(3) len by (metis nth_mem)
  then have "\<not> filled_is_withdrawal (out_content (?outs ! i))"
    by (rule spent_outputs_not_withdrawals [OF chk(6,1)])
  moreover have "auth_get_address E (bo_authorizations body ! i) = out_address (?outs ! i)"
    using chk(8) assms(3) auths len by (simp add: check_addresses_def list_all_length)
  moreover have "valid (au_verifying_key (bo_authorizations body ! i), au_signature (bo_authorizations body ! i),
      messages body ! i)"
    using sigs assms(3) auths msgs by (simp add: list_all_length)
  ultimately show ?thesis
    using auths list_all2_nthD [OF present assms(3)] by blast
qed

section \<open>A concrete block\<close>

definition demo_state :: State where
  "demo_state = State_new\<lparr>st_utxos := fmupd (from_outpoint (OpDeposit 1 0))
     \<lparr>out_address = 2, out_content = F_Bitcoin 10, out_memo = []\<rparr> fmempty\<rparr>"

definition demo_body :: Body where
  "demo_body = \<lparr>bo_coinbase = \<lparr>cb_memo = [], cb_outputs = [plain (C_Bitcoin 3)]\<rparr>,
     bo_transactions = [\<lparr>tx_inputs = [OpDeposit 1 0], tx_outputs = [plain (C_Bitcoin 7)], tx_memo = [], tx_data = None\<rparr>],
     bo_authorizations = [\<lparr>au_verifying_key = 2, au_signature = 2\<rparr>]\<rparr>"

definition demo_header :: Header where
  "demo_header = \<lparr>hd_merkle_root = 0, hd_prev_side_hash = None, hd_prev_main_hash = 0\<rparr>"

definition demo_filled :: FilledTransaction where
  "demo_filled = \<lparr>ft_transaction = hd (bo_transactions demo_body),
     ft_spent_utxos = [\<lparr>out_address = 2, out_content = F_Bitcoin 10, out_memo = []\<rparr>]\<rparr>"

lemma demo_fill: "fill_transaction demo_state (hd (bo_transactions demo_body)) = Ok demo_filled"
  by (simp add: fill_transaction_def demo_state_def demo_filled_def demo_body_def)

lemma demo_root: "compute_merkle_root demo_externs (bo_coinbase demo_body) [demo_filled] = Ok 0"
  by (simp add: compute_merkle_root_def tx_merkle_leaf_def coinbase_compute_merkle_root_def
      tx_compute_merkle_root_def outputs_compute_merkle_root_def outputs_merkle_leaves_def
      inputs_compute_merkle_root_def inputs_merkle_leaves_def demo_externs_def demo_filled_def demo_body_def
      plain_def Let_def bitcoin_fee_def spent_bitcoin_value_def bitcoin_value_out_def checked_add_def
      checked_sub_def filled_get_bitcoin_value_def txid_def)

lemma demo_valid: "validate_filled_transaction demo_externs demo_state demo_filled = Ok 3"
  by (simp add: validate_filled_transaction_def validate_reservations_def validate_bitassets_def
      unique_spent_bitassets_def bitasset_outputs_def bitasset_control_outputs_def reservation_outputs_def
      spent_bitassets_def demo_filled_def demo_body_def demo_simps bitcoin_fee_def spent_bitcoin_value_def
      bitcoin_value_out_def filled_get_bitcoin_value_def Let_def)

lemma demo_authorized: "verify_authorizations demo_externs demo_body = Ok ()"
  by (simp add: verify_authorizations_def demo_body_def messages_def demo_externs_def CHUNK_SIZE_def
      chunks.simps)

lemma demo_check_block:
  "check_block demo_externs demo_state demo_header demo_body = Ok ([demo_filled], 0, 3, 3)"
proof -
  have t: "bo_transactions demo_body = [hd (bo_transactions demo_body)]" by (simp add: demo_body_def)
  have "try_map (fill_transaction demo_state) (bo_transactions demo_body) = Ok [demo_filled]"
    by (subst t) (simp add: demo_fill)
  moreover have "ext_body_size demo_externs demo_body \<le> Body_MAX_SIZE"
    by (simp add: demo_externs_def demo_body_def Body_MAX_SIZE_def)
  moreover have "checked_total (map txout_value (cb_outputs (bo_coinbase demo_body))) = Ok 3"
    by (simp add: checked_total_def demo_body_def plain_def add_amount_def checked_add_def)
  moreover have "total_fees demo_externs demo_state [demo_filled] = Ok 3"
    by (simp add: total_fees_def demo_valid add_amount_def checked_add_def)
  moreover have "check_addresses demo_externs (bo_authorizations demo_body) (ft_spent_utxos demo_filled) = Ok ()"
    by (simp add: check_addresses_def demo_body_def demo_filled_def demo_externs_def auth_get_address_def)
  moreover have "hd_prev_side_hash demo_header = st_tip demo_state" "hd_merkle_root demo_header = 0"
    by (simp_all add: demo_header_def demo_state_def State_new_def)
  moreover have "input_keys [demo_filled] = [from_outpoint (OpDeposit 1 0)]"
    by (simp add: input_keys_def demo_filled_def demo_body_def)
  ultimately show ?thesis by (simp add: check_block_def demo_root demo_authorized)
qed

definition demo_pv :: PrevalidatedBlock where
  "demo_pv = \<lparr>pv_filled_transactions = [demo_filled], pv_computed_merkle_root = 0, pv_total_fees = 3,
     pv_coinbase_value = 3, pv_next_height = 0\<rparr>"

lemma demo_prevalidate: "prevalidate demo_externs demo_state demo_header demo_body = Ok demo_pv"
proof -
  have "next_height demo_state = (Ok 0 :: (Error, u32) result)"
    by (simp add: next_height_def demo_state_def State_new_def)
  then show ?thesis by (simp add: prevalidate_def demo_check_block demo_pv_def)
qed

lemma demo_filled_outputs: "filled_outputs E demo_filled = Ok (Some [plain (F_Bitcoin 7)])"
proof -
  have d: "tx_data (ft_transaction demo_filled) = None"
    and o: "tx_outputs (ft_transaction demo_filled) = [plain (C_Bitcoin 7)]"
    by (simp_all add: demo_filled_def demo_body_def)
  have us: "unique_spent_assets demo_filled = Ok [(A_Bitcoin, 10)]" "unique_spent_lp_tokens demo_filled = Ok []"
    by (simp_all add: demo_filled_def demo_body_def unique_spent_assets_def unique_spent_lp_tokens_def demo_simps
        filled_get_bitcoin_value_def)
  have tv: "output_asset_total_values demo_filled = Ok [(A_Bitcoin, Some 10)]"
    by (simp add: output_asset_total_values_def pending_values_def amm_burn_def amm_mint_def amm_swap_def
      dutch_auction_bid_def dutch_auction_create_def dutch_auction_collect_def bitasset_mint_def
      new_bitasset_value_def us d adjust_total_def leftover_values_def receive_entry_def spend_entry_def opt_list_def)
  have lp: "output_lp_token_total_amounts demo_filled = Ok []"
    by (simp add: output_lp_token_total_amounts_def amm_burn_def amm_mint_def d us opt_list_def)
  show ?thesis
    by (simp add: filled_outputs_def tv lp output_bitcoin_max_value_def output_bitasset_total_values_def
       o List.map_filter_def plain_def word_less_nat_alt checked_sub_def word_le_nat_alt)
qed

definition demo_state_after :: State where
  "demo_state_after = demo_state\<lparr>
     st_utxos := fmupd (from_outpoint (OpRegular 1003 0)) (plain (F_Bitcoin 7))
       (fmupd (from_outpoint (OpCoinbase 1 0)) (plain (F_Bitcoin 3)) fmempty),
     st_stxos := fmupd (from_outpoint (OpDeposit 1 0)) \<lparr>so_output = \<lparr>out_address = 2, out_content = F_Bitcoin 10, out_memo = []\<rparr>,
       so_inpoint = IpRegular 1003 0\<rparr> fmempty,
     st_tip := Some 7, st_height := Some 0\<rparr>"

lemma put_all_sort: "distinct (map fst kvs) \<Longrightarrow> db.put_all (sort_key fst kvs) m = db.put_all kvs m"
  by (rule db.put_all_perm [symmetric]) simp_all

lemma demo_connect: "connect_prevalidated demo_externs demo_header demo_body demo_pv demo_state = Ok demo_state_after"
proof -
  have r: "try_map (coinbase_row demo_externs demo_header) (enumerate 0 (cb_outputs (bo_coinbase demo_body)))
      = Ok [(from_outpoint (OpCoinbase 1 0), plain (F_Bitcoin 3))]"
    by (simp add: demo_body_def plain_def coinbase_row_def coinbase_outpoint_def compute_coinbase_txid_def
        demo_externs_def demo_header_def)
  have z: "map snd (zip (bo_transactions demo_body) [demo_filled]) = [demo_filled]"
    by (simp add: demo_body_def)
  have p: "apply_payload E h demo_filled st = Ok st" for E h st
    by (simp add: apply_payload_def demo_filled_def demo_body_def)
  have t: "txid demo_externs (ft_transaction demo_filled) = 1003"
    by (simp add: txid_def demo_externs_def demo_filled_def demo_body_def)
  have i: "tx_inputs (ft_transaction demo_filled) = [OpDeposit 1 0]"
    "length (ft_spent_utxos demo_filled) = 1"
    by (simp_all add: demo_filled_def demo_body_def)
  have s: "spent_rows demo_externs demo_filled = [(from_outpoint (OpDeposit 1 0),
      \<lparr>so_output = \<lparr>out_address = 2, out_content = F_Bitcoin 10, out_memo = []\<rparr>, so_inpoint = IpRegular 1003 0\<rparr>)]"
    by (simp add: spent_rows_def t spent_inputs_def) (simp add: demo_filled_def demo_body_def)
  have h: "header_hash demo_externs demo_header = 7"
    by (simp add: header_hash_def demo_externs_def demo_header_def)
  show ?thesis
    by (simp add: connect_prevalidated_def demo_pv_def r z collect_tx_def require_filled_outputs_def
        demo_filled_outputs p t i s h output_rows_def put_all_sort)
      (auto simp: db.put_all_def db.del_all_def demo_state_after_def demo_state_def State_new_def intro!: fmap_ext)
qed

theorem block_no_inflation_witness:
  "block_conserves demo_externs demo_header demo_body demo_pv demo_state demo_state_after
     \<and> utxo_total demo_state_after \<le> utxo_total demo_state"
  using block_no_inflation [OF demo_prevalidate demo_connect] .

theorem block_spends_authorized_witness:
  "\<exists>out. fmlookup (st_utxos demo_state) (from_outpoint (get_inputs demo_body ! 0)) = Some out
     \<and> auth_get_address demo_externs (bo_authorizations demo_body ! 0) = out_address out"
proof -
  have v: "\<forall>batch. batch \<noteq> [] \<longrightarrow> ext_batch_verify demo_externs batch
      = list_all (\<lambda>(key, signature, _). signature = ucast key) batch"
    by (simp add: demo_externs_def)
  have ok: "validate demo_externs demo_state demo_header demo_body = Ok 3"
    by (simp add: validate_def demo_check_block)
  have "0 < length (get_inputs demo_body)" by (simp add: get_inputs_def demo_body_def)
  from block_spends_authorized [OF v ok this] show ?thesis by blast
qed

end
