(* ===== verification/Block_Refinement.thy ===== *)
theory Block_Refinement
  imports Block_Value
begin

text \<open>
  The two ways of connecting a block agree. \<open>connect\<close> applies one transaction after the
  other to the tables; \<open>connect_prevalidated\<close> collects all deletions and insertions, sorts
  them by key and writes them at the end. The simulation relates the state of the plain
  loop to the pair of collected changes and state of the optimised one: writing the
  collected changes to the tables gives the plain loop's state after every transaction.
\<close>

section \<open>Coins and payloads are independent\<close>

definition set_coins :: "(OutPointKey, FilledOutput) fmap \<Rightarrow> (OutPointKey, SpentOutput) fmap \<Rightarrow> State \<Rightarrow> State" where
  "set_coins utxos stxos st = st\<lparr>st_utxos := utxos, st_stxos := stxos\<rparr>"

lemma set_coins_sel [simp]:
  "st_utxos (set_coins u x st) = u" "st_stxos (set_coins u x st) = x"
  "st_amm_pools (set_coins u x st) = st_amm_pools st" "st_bitassets (set_coins u x st) = st_bitassets st"
  "st_dutch_auctions (set_coins u x st) = st_dutch_auctions st"
  "st_tip (set_coins u x st) = st_tip st" "st_height (set_coins u x st) = st_height st"
  by (simp_all add: set_coins_def)

lemma set_coins_upd [simp]:
  "set_coins u x (set_coins u' x' st) = set_coins u x st"
  "set_coins (st_utxos st) (st_stxos st) st = st"
  "(set_coins u x st)\<lparr>st_utxos := u'\<rparr> = set_coins u' x st"
  "(set_coins u x st)\<lparr>st_stxos := x'\<rparr> = set_coins u x' st"
  "(set_coins u x st)\<lparr>st_amm_pools := p\<rparr> = set_coins u x (st\<lparr>st_amm_pools := p\<rparr>)"
  "(set_coins u x st)\<lparr>st_bitassets := b\<rparr> = set_coins u x (st\<lparr>st_bitassets := b\<rparr>)"
  "(set_coins u x st)\<lparr>st_dutch_auctions := a\<rparr> = set_coins u x (st\<lparr>st_dutch_auctions := a\<rparr>)"
  by (simp_all add: set_coins_def)

lemma apply_payload_coins:
  "apply_payload E height ft (set_coins u x st) = rbind (apply_payload E height ft st) (\<lambda>s. Ok (set_coins u x s))"
  by (simp add: apply_payload_def lift_amm_def lift_bitassets_def lift_auctions_def rbind_assoc
      split: option.splits TxData.splits)

lemma revert_payload_coins:
  "revert_payload E height ft (set_coins u x st) = rbind (revert_payload E height ft st) (\<lambda>s. Ok (set_coins u x s))"
  by (simp add: revert_payload_def lift_amm_def lift_bitassets_def lift_auctions_def rbind_assoc Let_def delete_reservation_def
      split: option.splits TxData.splits)

section \<open>Writing the collected changes\<close>

definition written :: "changes \<Rightarrow> State \<Rightarrow> State" where
  "written ch st = set_coins (db.put_all (ch_utxo_puts ch) (db.del_all (ch_utxo_deletes ch) (st_utxos st)))
     (db.put_all (ch_stxo_puts ch) (st_stxos st)) st"

lemma put_all_append: "db.put_all (xs @ ys) m = db.put_all ys (db.put_all xs m)"
  by (simp add: db.put_all_def)

lemma del_all_append: "db.del_all (xs @ ys) m = db.del_all ys (db.del_all xs m)"
  by (simp add: db.del_all_def)

lemma del_all_put_all_disjoint:
  assumes "set ks \<inter> fst ` set kvs = {}"
  shows "db.del_all ks (db.put_all kvs m) = db.put_all kvs (db.del_all ks m)"
proof (rule fmap_ext)
  fix k
  have "k \<in> set ks \<Longrightarrow> map_of (rev kvs) k = None"
    using assms by (force simp: map_of_eq_None_iff)
  then show "fmlookup (db.del_all ks (db.put_all kvs m)) k = fmlookup (db.put_all kvs (db.del_all ks m)) k"
    by (auto simp: db.get_del_all db.get_put_all split: option.splits)
qed

lemma lookup_written:
  assumes "k \<notin> set (ch_utxo_deletes ch)" and "k \<notin> fst ` set (ch_utxo_puts ch)"
  shows "fmlookup (st_utxos (written ch st)) k = fmlookup (st_utxos st) k"
proof -
  have "map_of (rev (ch_utxo_puts ch)) k = None" using assms(2) by (simp add: map_of_eq_None_iff)
  then show ?thesis using assms(1) by (simp add: written_def db.get_put_all db.get_del_all)
qed

text \<open>The spending loop of \<open>connect\<close> deletes the inputs and records the spent coins.\<close>

lemma spend_inputs_from:
  assumes "list_all2 (\<lambda>input out. fmlookup (st_utxos st) (from_outpoint input) = Some out) inputs outs"
    and "distinct inputs"
  shows "try_fold (spend_input E t) (enumerate n inputs) st =
     Ok (set_coins (db.del_all (map from_outpoint inputs) (st_utxos st))
       (db.put_all (map (\<lambda>(vin, input, out). (from_outpoint input,
           \<lparr>so_output = out, so_inpoint = IpRegular t (of_nat vin)\<rparr>)) (enumerate n (zip inputs outs))) (st_stxos st)) st)"
  using assms
proof (induction inputs arbitrary: n outs st)
  case Nil
  then show ?case by (simp add: db.del_all_def db.put_all_def)
next
  case (Cons input inputs)
  then obtain out outs' where o: "outs = out # outs'" "fmlookup (st_utxos st) (from_outpoint input) = Some out"
    "list_all2 (\<lambda>input out. fmlookup (st_utxos st) (from_outpoint input) = Some out) inputs outs'"
    by (auto simp: list_all2_Cons1)
  let ?st = "set_coins (fmdrop (from_outpoint input) (st_utxos st))
     (fmupd (from_outpoint input) \<lparr>so_output = out, so_inpoint = IpRegular t (of_nat n)\<rparr> (st_stxos st)) st"
  have s: "spend_input E t (n, input) st = Ok ?st"
    using o(2) by (simp add: spend_input_def Let_def set_coins_def)
  have "list_all2 (\<lambda>input out. fmlookup (st_utxos ?st) (from_outpoint input) = Some out) inputs outs'"
    using o(3) Cons.prems(2) by (auto simp: list_all2_conv_all_nth in_set_conv_nth)
  from Cons.IH [OF this, of "Suc n"] Cons.prems(2) show ?case
    by (simp add: s o(1) db.del_all_def db.put_all_def)
qed

lemma spend_inputs:
  assumes "fill_transaction st tx = Ok ft" and "distinct (tx_inputs tx)"
  shows "try_fold (spend_input E (txid E tx)) (enumerate 0 (tx_inputs tx)) st =
     Ok (set_coins (db.del_all (map from_outpoint (tx_inputs tx)) (st_utxos st))
       (db.put_all (spent_rows E ft) (st_stxos st)) st)"
  using spend_inputs_from [OF fill_transaction_Ok(3) [OF assms(1)] assms(2), where E = E and t = "txid E tx" and n = 0]
    fill_transaction_Ok(1) [OF assms(1)]
  by (simp add: spent_rows_def spent_inputs_def)

lemma fill_transaction_cong:
  assumes "\<And>input. input \<in> set (tx_inputs tx) \<Longrightarrow>
      fmlookup (st_utxos st) (from_outpoint input) = fmlookup (st_utxos st') (from_outpoint input)"
  shows "fill_transaction st tx = fill_transaction st' tx"
proof -
  have "try_map (\<lambda>input. ok_or (E_NoUtxo input) (fmlookup (st_utxos st) (from_outpoint input))) inputs
      = try_map (\<lambda>input. ok_or (E_NoUtxo input) (fmlookup (st_utxos st') (from_outpoint input))) inputs"
    if "set inputs \<subseteq> set (tx_inputs tx)" for inputs
    using that assms by (induction inputs) simp_all
  then show ?thesis by (simp add: fill_transaction_def)
qed

section \<open>The simulation\<close>

lemma connect_tx_simulates:
  assumes fill: "fill_transaction st tx = Ok ft" and coins: "st_utxos st1 = st_utxos st"
    and d: "distinct (tx_inputs tx)"
    and dels: "from_outpoint ` set (tx_inputs tx) \<inter> set (ch_utxo_deletes ch) = {}"
    and puts: "from_outpoint ` set (tx_inputs tx) \<inter> fst ` set (ch_utxo_puts ch) = {}"
  shows "connect_tx E height tx (written ch st1) =
    rbind (collect_tx E height ft (ch, st1)) (\<lambda>(ch', st'). Ok (written ch' st'))"
proof -
  let ?w = "written ch st1"
  have tx: "ft_transaction ft = tx" and len: "length (ft_spent_utxos ft) = length (tx_inputs tx)"
    using fill_transaction_Ok [OF fill] by simp_all
  have "fill_transaction ?w tx = fill_transaction st tx"
    by (rule fill_transaction_cong, subst lookup_written) (use dels puts coins in auto)
  with fill have f: "fill_transaction ?w tx = Ok ft" by simp
  have sp: "db.del_all (map from_outpoint (tx_inputs tx)) (st_utxos ?w)
      = db.put_all (ch_utxo_puts ch) (db.del_all (ch_utxo_deletes ch @ map from_outpoint (tx_inputs tx)) (st_utxos st1))"
    using puts by (simp add: written_def del_all_append del_all_put_all_disjoint)
  have stx: "db.put_all (spent_rows E ft) (st_stxos ?w) = db.put_all (ch_stxo_puts ch @ spent_rows E ft) (st_stxos st1)"
    by (simp add: written_def put_all_append)
  show ?thesis
  proof (cases "require_filled_outputs E ft")
    case (Ok outs)
    let ?ch = "\<lparr>ch_utxo_deletes = ch_utxo_deletes ch @ map from_outpoint (tx_inputs tx),
             ch_stxo_puts = ch_stxo_puts ch @ spent_rows E ft,
             ch_utxo_puts = ch_utxo_puts ch @ output_rows (txid E tx) outs\<rparr>"
    let ?u = "db.put_all (ch_utxo_puts ?ch) (db.del_all (ch_utxo_deletes ?ch) (st_utxos st1))"
    let ?x = "db.put_all (ch_stxo_puts ?ch) (st_stxos st1)"
    have "connect_tx E height tx ?w = apply_payload E height ft (set_coins ?u ?x ?w)"
      by (simp add: connect_tx_def f spend_inputs [OF f d] Ok sp stx put_all_append)
    also have "\<dots> = rbind (apply_payload E height ft st1) (\<lambda>s. Ok (set_coins ?u ?x s))"
      by (simp add: written_def apply_payload_coins)
    also have "\<dots> = rbind (apply_payload E height ft st1) (\<lambda>s. Ok (written ?ch s))"
    proof (cases "apply_payload E height ft st1")
      case (Ok s)
      then show ?thesis using apply_payload_frame [OF Ok] by (simp add: written_def)
    qed simp_all
    finally show ?thesis by (simp add: collect_tx_def tx len Ok rbind_assoc)
  qed (simp_all add: connect_tx_def f spend_inputs [OF f d] collect_tx_def tx len)
qed

lemma collect_tx_frame:
  assumes "collect_tx E height ft (ch, st) = Ok (ch', st')"
  shows "st_utxos st' = st_utxos st"
    and "ch_utxo_deletes ch' = ch_utxo_deletes ch @ map from_outpoint (tx_inputs (ft_transaction ft))"
    and "\<exists>outs. ch_utxo_puts ch' = ch_utxo_puts ch @ output_rows (txid E (ft_transaction ft)) outs
      \<and> length outs = length (tx_outputs (ft_transaction ft))"
proof -
  from assms obtain outs where o: "require_filled_outputs E ft = Ok outs" "apply_payload E height ft st = Ok st'"
    "ch' = \<lparr>ch_utxo_deletes = ch_utxo_deletes ch @ map from_outpoint (tx_inputs (ft_transaction ft)),
             ch_stxo_puts = ch_stxo_puts ch @ spent_rows E ft,
             ch_utxo_puts = ch_utxo_puts ch @ output_rows (txid E (ft_transaction ft)) outs\<rparr>"
    by (auto simp: collect_tx_def rbind_Ok_iff)
  have "length outs = length (tx_outputs (ft_transaction ft))"
    using require_filled_outputs_erase [OF o(1)] by (metis length_map)
  with o show "st_utxos st' = st_utxos st"
    "ch_utxo_deletes ch' = ch_utxo_deletes ch @ map from_outpoint (tx_inputs (ft_transaction ft))"
    "\<exists>outs. ch_utxo_puts ch' = ch_utxo_puts ch @ output_rows (txid E (ft_transaction ft)) outs
      \<and> length outs = length (tx_outputs (ft_transaction ft))"
    by (auto dest: apply_payload_frame(1))
qed

lemma connect_txs_simulate:
  assumes "list_all2 (\<lambda>tx ft. fill_transaction st tx = Ok ft) txs fts" and "st_utxos st1 = st_utxos st"
    and "distinct (input_keys fts)" and "set (input_keys fts) \<inter> set (ch_utxo_deletes ch) = {}"
    and "set (input_keys fts) \<inter> N = {}" and "fst ` set (ch_utxo_puts ch) \<subseteq> N"
    and "from_outpoint ` set (concat (map (tx_outpoints E) txs)) \<subseteq> N"
  shows "try_fold (connect_tx E height) txs (written ch st1) =
    rbind (try_fold (collect_tx E height) fts (ch, st1)) (\<lambda>(ch', st'). Ok (written ch' st'))"
  using assms
proof (induction txs arbitrary: fts ch st1)
  case (Cons tx txs)
  from Cons.prems(1) obtain ft fts' where fts: "fts = ft # fts'" and fill: "fill_transaction st tx = Ok ft"
    and rest: "list_all2 (\<lambda>tx ft. fill_transaction st tx = Ok ft) txs fts'" by (auto simp: list_all2_Cons1)
  have tx: "ft_transaction ft = tx" by (rule fill_transaction_Ok(1) [OF fill])
  have keys: "input_keys fts = map from_outpoint (tx_inputs tx) @ input_keys fts'"
    by (simp add: input_keys_def fts tx)
  have sim: "connect_tx E height tx (written ch st1) =
      rbind (collect_tx E height ft (ch, st1)) (\<lambda>(ch', st'). Ok (written ch' st'))"
    by (rule connect_tx_simulates [OF fill Cons.prems(2)])
      (use Cons.prems(3-6) keys in \<open>auto simp: distinct_map\<close>)
  show ?case
  proof (cases "collect_tx E height ft (ch, st1)")
    case (Ok c)
    obtain ch1 st2 where c: "c = (ch1, st2)" by (cases c)
    note fr = collect_tx_frame [OF Ok [unfolded c], unfolded tx]
    from fr(3) obtain outs where outs: "ch_utxo_puts ch1 = ch_utxo_puts ch @ output_rows (txid E tx) outs"
      "length outs = length (tx_outputs tx)" by blast
    have "fst ` set (output_rows (txid E tx) outs) \<subseteq> N"
      using Cons.prems(7) arg_cong [OF output_rows_keys [of "txid E tx" outs], of set] outs(2)
      by (auto simp: tx_outpoints_def image_image)
    then have "try_fold (connect_tx E height) txs (written ch1 st2) =
        rbind (try_fold (collect_tx E height) fts' (ch1, st2)) (\<lambda>(ch', st'). Ok (written ch' st'))"
      by (intro Cons.IH [OF rest]) (use Cons.prems(2-7) fr(1,2) outs keys in \<open>auto simp: image_Un\<close>)
    then show ?thesis by (simp add: sim fts Ok c)
  qed (simp_all add: sim fts)
qed simp

lemma written_init: "st\<lparr>st_utxos := db.put_all rows (st_utxos st)\<rparr>
    = written \<lparr>ch_utxo_deletes = [], ch_stxo_puts = [], ch_utxo_puts = rows\<rparr> st"
  by (simp add: written_def set_coins_def db.del_all_def db.put_all_def)

lemma spent_rows_keys:
  assumes "fill_transaction st tx = Ok ft"
  shows "map fst (spent_rows E ft) = map from_outpoint (tx_inputs tx)"
proof -
  have "map fst (spent_rows E ft) = map from_outpoint (map fst (map snd (enumerate 0 (spent_inputs ft))))"
    by (simp add: spent_rows_def comp_def case_prod_unfold del: map_snd_enumerate)
  also have "map snd (enumerate 0 (spent_inputs ft)) = spent_inputs ft" by simp
  finally show ?thesis using fill_transaction_Ok [OF assms] by (simp add: spent_inputs_def)
qed

lemma spent_rows_all_keys:
  "list_all2 (\<lambda>tx ft. fill_transaction st tx = Ok ft) txs fts \<Longrightarrow>
     map fst (concat (map (spent_rows E) fts)) = input_keys fts"
proof (induction rule: list_all2_induct)
  case (Cons tx txs ft fts)
  then show ?case by (simp add: input_keys_def spent_rows_keys [OF Cons(1)] fill_transaction_Ok(1) [OF Cons(1)])
qed (simp add: input_keys_def)

text \<open>Sorting distinct keys before writing makes no difference.\<close>

lemma written_sorted:
  assumes "distinct (map fst (ch_utxo_puts ch))" and "distinct (map fst (ch_stxo_puts ch))"
  shows "written ch st = st\<lparr>st_utxos := db.put_all (sort_key fst (ch_utxo_puts ch))
           (db.del_all (sort (ch_utxo_deletes ch)) (st_utxos st)),
         st_stxos := db.put_all (sort_key fst (ch_stxo_puts ch)) (st_stxos st)\<rparr>"
proof -
  have "db.del_all (sort (ch_utxo_deletes ch)) (st_utxos st) = db.del_all (ch_utxo_deletes ch) (st_utxos st)"
    by (rule db.del_all_set) simp
  then show ?thesis using assms by (simp only: written_def set_coins_def put_all_sort)
qed

lemma collected_keys_distinct:
  assumes f: "try_fold (collect_tx E height) fts (\<lparr>ch_utxo_deletes = [], ch_stxo_puts = [], ch_utxo_puts = rows\<rparr>, st) = Ok (ch, st1)"
    and rows: "try_map (coinbase_row E header) (enumerate 0 (cb_outputs (bo_coinbase body))) = Ok rows"
    and fts: "list_all2 (\<lambda>tx ft. fill_transaction st0 tx = Ok ft) (bo_transactions body) fts"
    and d: "distinct (input_keys fts)" and fresh: "distinct (block_outpoints E header body)"
  shows "distinct (map fst (ch_utxo_puts ch))" and "distinct (map fst (ch_stxo_puts ch))"
proof -
  from f obtain outss where "list_all2 (\<lambda>ft outs. require_filled_outputs E ft = Ok outs) fts outss"
    and p: "ch_stxo_puts ch = concat (map (spent_rows E) fts)" "ch_utxo_puts ch = rows @ new_rows E fts outss"
    by (rule collect_txs) simp
  from block_rows_keys [OF rows this(1) filled_transactions_eq [OF fts]] fresh p(2)
  show "distinct (map fst (ch_utxo_puts ch))" by (simp only: p distinct_map inj_from_outpoint simp_thms)
  show "distinct (map fst (ch_stxo_puts ch))" by (simp only: p spent_rows_all_keys [OF fts] d)
qed

lemma connect_prevalidated_eq_connect:
  assumes "prevalidate E st header body = Ok pv" and "outpoints_fresh E header body st"
  shows "connect_prevalidated E header body pv st = connect E header body st"
proof -
  let ?fts = "pv_filled_transactions pv" and ?h = "pv_next_height pv"
  from assms(1) obtain root where cb: "check_block E st header body
      = Ok (?fts, root, pv_total_fees pv, pv_coinbase_value pv)"
    and h: "next_height st = (Ok ?h :: (Error, u32) result)"
    by (auto simp: prevalidate_def rbind_Ok_iff)
  note chk = check_block_Ok [OF cb]
  have fill: "try_map (fill_transaction st) (bo_transactions body) = Ok ?fts"
    using chk(1) by (simp add: try_map_Ok_iff)
  have d: "distinct (input_keys ?fts)" using chk(5) by (simp add: distinct_input_keys)
  show ?thesis
  proof (cases "try_map (coinbase_row E header) (enumerate 0 (cb_outputs (bo_coinbase body)))")
    case (Ok rows)
    let ?ch = "\<lparr>ch_utxo_deletes = [], ch_stxo_puts = [], ch_utxo_puts = rows\<rparr>"
    let ?N = "from_outpoint ` set (block_outpoints E header body)"
    have "fmlookup (st_utxos st) k \<noteq> None" if "k \<in> set (input_keys ?fts)" for k
      using that spent_coins_present [OF chk(1)] by (auto simp flip: spent_coins_keys [OF chk(1)])
    then have "set (input_keys ?fts) \<inter> ?N = {}"
      using assms(2) by (force simp: outpoints_fresh_def)
    moreover have "fst ` set rows \<subseteq> ?N"
      using arg_cong [OF coinbase_rows_keys [OF Ok], of set] by (simp add: block_outpoints_def image_Un image_image)
    ultimately have sim: "try_fold (connect_tx E ?h) (bo_transactions body) (written ?ch st) =
        rbind (try_fold (collect_tx E ?h) ?fts (?ch, st)) (\<lambda>(ch', st'). Ok (written ch' st'))"
      by (intro connect_txs_simulate [OF chk(1) refl d, where N = ?N]) (simp_all add: block_outpoints_def image_Un)
    have "connect E header body st = rbind (try_fold (collect_tx E ?h) ?fts (?ch, st)) (\<lambda>(ch', st').
        Ok ((written ch' st')\<lparr>st_tip := Some (header_hash E header), st_height := Some ?h\<rparr>))"
      by (simp add: connect_def h chk(2,3) fill Ok written_init sim rbind_assoc case_prod_unfold)
    also have "\<dots> = connect_prevalidated E header body pv st"
    proof (cases "try_fold (collect_tx E ?h) ?fts (?ch, st)")
      fix c assume c: "try_fold (collect_tx E ?h) ?fts (?ch, st) = Ok c"
      obtain ch' st' where "c = (ch', st')" by (cases c)
      with c collected_keys_distinct [OF _ Ok chk(1) d] assms(2) show ?thesis
        by (simp add: connect_prevalidated_def Ok map_snd_zip_filled [OF chk(1)] written_sorted outpoints_fresh_def)
    qed (simp_all add: connect_prevalidated_def Ok map_snd_zip_filled [OF chk(1)])
    finally show ?thesis by simp
  qed (simp_all add: connect_def connect_prevalidated_def h chk(2,3) fill)
qed

text \<open>
  C5: the optimised connection implements the plain one. For a block that passed
  validation and whose outpoints are new, \<open>connect_prevalidated\<close> and \<open>connect\<close> give the
  same result: the same state when they succeed, the same error or panic when not.
\<close>

theorem connect_prevalidated_refines_connect:
  assumes "prevalidate E st header body = Ok pv" and "outpoints_fresh E header body st"
  shows "connect_prevalidated E header body pv st = connect E header body st"
  by (rule connect_prevalidated_eq_connect [OF assms])

lemma demo_outpoints_fresh: "outpoints_fresh demo_externs demo_header demo_body demo_state"
  by (simp add: outpoints_fresh_def block_outpoints_def tx_outpoints_def coinbase_outpoint_def demo_body_def
      demo_state_def State_new_def)

theorem connect_prevalidated_refines_connect_witness:
  "connect demo_externs demo_header demo_body demo_state = Ok demo_state_after"
  using connect_prevalidated_refines_connect [OF demo_prevalidate demo_outpoints_fresh]
  by (simp add: demo_connect)

end
