(* ===== verification/Amm_Properties.thy ===== *)
theory Amm_Properties
  imports Amm Asset_Conservation
begin

text \<open>
  What the market maker guarantees: exact outcomes of mint and burn, the product
  invariant of swaps, the absence of free profit, the invariant of the table of pools
  under every applied transaction, and that reverting undoes applying.
\<close>

section \<open>Properties\<close>

text \<open>
  minting into a pool that meets the pool invariant fails only if a reserve would
  exceed 64 bits. Otherwise it succeeds, adds the deposits to the reserves, adds exactly
  the pro-rata number of LP tokens (the geometric mean of the deposits for an empty
  pool), and keeps the invariant: in particular the plain addition of the first branch
  cannot overflow and \<open>LpTokenOverflow\<close> is never returned.
\<close>

lemma amm_mint_outcome:
  assumes "isqrt_floor E" and "pool_ok p"
  shows "if unat (reserve0 p) + unat a0 < 2 ^ 64 \<and> unat (reserve1 p) + unat a1 < 2 ^ 64
    then \<exists>p'. mint E a0 a1 p = Ok p' \<and> pool_ok p' \<and>
      unat (reserve0 p') = unat (reserve0 p) + unat a0 \<and>
      unat (reserve1 p') = unat (reserve1 p) + unat a1 \<and>
      unat (outstanding_lp_tokens p') = unat (outstanding_lp_tokens p) + minted_lp E a0 a1 p
    else mint E a0 a1 p = Err Amm_InvalidMint"
  using mint_Ok [OF assms, of a0 a1] mint_Err [of p a0 a1 E] by auto

definition demo_pool :: PoolState where
  "demo_pool = \<lparr>reserve0 = 100, reserve1 = 400, outstanding_lp_tokens = 200, creation_txid = 3\<rparr>"

lemma demo_pool_ok [simp]: "pool_ok demo_pool"
  by (simp add: pool_ok_def demo_pool_def)

theorem amm_mint_outcome_witness:
  "\<exists>p'. mint demo_externs 10 50 demo_pool = Ok p' \<and> pool_ok p' \<and> unat (outstanding_lp_tokens p') = 220"
  using amm_mint_outcome [OF demo_isqrt_floor demo_pool_ok, of 10 50]
  by (auto simp: demo_pool_def minted_lp_def)

text \<open>
  burning succeeds exactly when the pool has LP tokens and the burn does not exceed
  them; it then pays out the rounded-down pro-rata share of each reserve and keeps the
  pool invariant.
\<close>

lemma amm_burn_outcome:
  assumes "pool_ok p"
  shows "((\<exists>p'. burn b p = Ok p') \<longleftrightarrow>
      outstanding_lp_tokens p \<noteq> 0 \<and> unat b \<le> unat (outstanding_lp_tokens p)) \<and>
    (\<forall>p'. burn b p = Ok p' \<longrightarrow> pool_ok p' \<and>
      unat (reserve0 p) = unat (reserve0 p') + unat (reserve0 p) * unat b div unat (outstanding_lp_tokens p) \<and>
      unat (reserve1 p) = unat (reserve1 p') + unat (reserve1 p) * unat b div unat (outstanding_lp_tokens p) \<and>
      unat (outstanding_lp_tokens p) = unat (outstanding_lp_tokens p') + unat b)"
proof (intro conjI [OF _ allI] impI)
  show "(\<exists>p'. burn b p = Ok p') \<longleftrightarrow>
      outstanding_lp_tokens p \<noteq> 0 \<and> unat b \<le> unat (outstanding_lp_tokens p)"
    using burn_OkD burn_Ok by metis
  fix p' assume b: "burn b p = Ok p'"
  show "pool_ok p' \<and>
      unat (reserve0 p) = unat (reserve0 p') + unat (reserve0 p) * unat b div unat (outstanding_lp_tokens p) \<and>
      unat (reserve1 p) = unat (reserve1 p') + unat (reserve1 p) * unat b div unat (outstanding_lp_tokens p) \<and>
      unat (outstanding_lp_tokens p) = unat (outstanding_lp_tokens p') + unat b"
    using burn_keeps_ok [OF assms b] burn_Ok [OF burn_OkD [OF b]] b by (metis result.inject(1))
qed

theorem amm_burn_outcome_witness:
  "\<exists>p'. burn 50 demo_pool = Ok p' \<and> pool_ok p' \<and> unat (reserve0 p') = 75 \<and> unat (reserve1 p') = 300"
proof -
  note w = amm_burn_outcome [OF demo_pool_ok, of 50]
  then obtain p' where p': "burn 50 demo_pool = Ok p'" by (auto simp: demo_pool_def)
  with w show ?thesis by (auto simp: demo_pool_def)
qed

lemma swapped_iff:
  "(\<exists>x y. swapped s a b x y) \<longleftrightarrow> unat a + unat s < 2 ^ 64 \<and> 0 < unat a + unat (after_fee s)"
proof
  assume "\<exists>x y. swapped s a b x y"
  then obtain x :: u64 and q where "unat x = unat a + unat s"
    and q: "div_ceil (as_u128 a * as_u128 b) (as_u128 a + as_u128 (after_fee s)) = (Ok q :: (AmmError, u128) result)"
    by (auto simp: swapped_def)
  then show "unat a + unat s < 2 ^ 64 \<and> 0 < unat a + unat (after_fee s)"
    using unat_less_pow [of x] div_ceil_unat(1) [OF q] by simp
qed (blast intro: swapped_exists)

lemma div_ceil_Panic: "div_ceil x y = Panic \<longleftrightarrow> unat y = 0"
  by (simp add: div_ceil_def unat_eq_0_iff)

lemma fee_checked_sub: "checked_sub s (after_fee s) = Some (s - after_fee s)"
  using after_fee_le [of s] by (simp add: checked_sub_def word_le_nat_alt)

lemma swap_Panic_iff:
  "swap_asset0_for_asset1 s p = Panic \<longleftrightarrow> unat (reserve0 p) + unat (after_fee s) = 0"
  "swap_asset1_for_asset0 s p = Panic \<longleftrightarrow> unat (reserve1 p) + unat (after_fee s) = 0"
  unfolding swap_asset0_for_asset1_def swap_asset1_for_asset0_def Let_def fee_checked_sub
  by (auto simp: rbind_Panic_iff div_ceil_Panic)

text \<open>
  a swap in either direction succeeds exactly when the reserve spent into has room
  for the amount and there is something to divide by: the reserve is not empty, or the
  spent amount is not lost to the fee entirely (otherwise the swap panics on a division
  by zero).
\<close>

lemma amm_swap_outcome:
  "((\<exists>p'. swap_asset0_for_asset1 s p = Ok p') \<longleftrightarrow>
      unat (reserve0 p) + unat s < 2 ^ 64 \<and> 0 < unat (reserve0 p) + unat s * 997 div 1000) \<and>
   ((\<exists>p'. swap_asset1_for_asset0 s p = Ok p') \<longleftrightarrow>
      unat (reserve1 p) + unat s < 2 ^ 64 \<and> 0 < unat (reserve1 p) + unat s * 997 div 1000) \<and>
   (swap_asset0_for_asset1 s p = Panic \<longleftrightarrow> unat (reserve0 p) + unat s * 997 div 1000 = 0) \<and>
   (swap_asset1_for_asset0 s p = Panic \<longleftrightarrow> unat (reserve1 p) + unat s * 997 div 1000 = 0)"
proof -
  have "(\<exists>p'. swap_asset0_for_asset1 s p = Ok p') \<longleftrightarrow> (\<exists>x y. swapped s (reserve0 p) (reserve1 p) x y)"
    "(\<exists>p'. swap_asset1_for_asset0 s p = Ok p') \<longleftrightarrow> (\<exists>x y. swapped s (reserve1 p) (reserve0 p) x y)"
    unfolding swap0_iff swap1_iff by blast+
  then show ?thesis unfolding swapped_iff swap_Panic_iff after_fee_unat by simp
qed

lemma product_kept:
  fixes a b c d :: u64
  assumes "unat a * unat b \<le> unat c * unat b" and "b \<noteq> 0"
  shows "unat a \<le> unat c"
  using assms by (simp add: unat_gt_0)

lemma swap_back0:
  assumes "swap_asset0_for_asset1 s p = Ok p'" and "swap_asset1_for_asset0 (reserve1 p - reserve1 p') p' = Ok p''"
  shows "reserve1 p'' = reserve1 p" and "reserve1 p \<noteq> 0 \<Longrightarrow> unat (reserve0 p) \<le> unat (reserve0 p'')"
proof -
  note sw = swap0_Ok [OF assms(1)]
  show r1: "reserve1 p'' = reserve1 p"
    using swap1_Ok(1) [OF assms(2)] sw(2) by (intro unat_eqI) (simp add: unat_sub word_le_nat_alt)
  show "unat (reserve0 p) \<le> unat (reserve0 p'')" if "reserve1 p \<noteq> 0"
    using product_kept [OF _ that] order_trans [OF sw(3) swap1_Ok(3) [OF assms(2)]] by (simp only: r1)
qed

lemma swap_back1:
  assumes "swap_asset1_for_asset0 s p = Ok p'" and "swap_asset0_for_asset1 (reserve0 p - reserve0 p') p' = Ok p''"
  shows "reserve0 p'' = reserve0 p" and "reserve0 p \<noteq> 0 \<Longrightarrow> unat (reserve1 p) \<le> unat (reserve1 p'')"
proof -
  note sw = swap1_Ok [OF assms(1)]
  show r0: "reserve0 p'' = reserve0 p"
    using swap0_Ok(1) [OF assms(2)] sw(2) by (intro unat_eqI) (simp add: unat_sub word_le_nat_alt)
  show "unat (reserve1 p) \<le> unat (reserve1 p'')" if "reserve0 p \<noteq> 0"
    using product_kept [OF _ that] order_trans [OF sw(3) swap0_Ok(3) [OF assms(2)]] by (simp only: r0 mult.commute)
qed

text \<open>
  C9: a swap that succeeds, in either of the two directions, never decreases the product
  of the reserves, takes the whole spent amount into the reserve of the spent asset, does
  not increase the other reserve, and leaves the LP tokens alone. Swapping the proceeds
  straight back restores the reserve they came from and, if that was not empty, never
  returns more than was spent.
\<close>

theorem amm_swap_no_profit:
  "(swap_asset0_for_asset1 s p = Ok p' \<longrightarrow>
      unat (reserve0 p) * unat (reserve1 p) \<le> unat (reserve0 p') * unat (reserve1 p') \<and>
      unat (reserve0 p') = unat (reserve0 p) + unat s \<and> unat (reserve1 p') \<le> unat (reserve1 p) \<and>
      outstanding_lp_tokens p' = outstanding_lp_tokens p \<and>
      (\<forall>p''. swap_asset1_for_asset0 (reserve1 p - reserve1 p') p' = Ok p'' \<longrightarrow>
         reserve1 p'' = reserve1 p \<and> (reserve1 p \<noteq> 0 \<longrightarrow> unat (reserve0 p) \<le> unat (reserve0 p'')))) \<and>
   (swap_asset1_for_asset0 s p = Ok p' \<longrightarrow>
      unat (reserve0 p) * unat (reserve1 p) \<le> unat (reserve0 p') * unat (reserve1 p') \<and>
      unat (reserve1 p') = unat (reserve1 p) + unat s \<and> unat (reserve0 p') \<le> unat (reserve0 p) \<and>
      outstanding_lp_tokens p' = outstanding_lp_tokens p \<and>
      (\<forall>p''. swap_asset0_for_asset1 (reserve0 p - reserve0 p') p' = Ok p'' \<longrightarrow>
         reserve0 p'' = reserve0 p \<and> (reserve0 p \<noteq> 0 \<longrightarrow> unat (reserve1 p) \<le> unat (reserve1 p''))))"
proof (rule conjI; intro impI)
  assume sw: "swap_asset0_for_asset1 s p = Ok p'"
  show "unat (reserve0 p) * unat (reserve1 p) \<le> unat (reserve0 p') * unat (reserve1 p') \<and>
      unat (reserve0 p') = unat (reserve0 p) + unat s \<and> unat (reserve1 p') \<le> unat (reserve1 p) \<and>
      outstanding_lp_tokens p' = outstanding_lp_tokens p \<and>
      (\<forall>p''. swap_asset1_for_asset0 (reserve1 p - reserve1 p') p' = Ok p'' \<longrightarrow>
         reserve1 p'' = reserve1 p \<and> (reserve1 p \<noteq> 0 \<longrightarrow> unat (reserve0 p) \<le> unat (reserve0 p'')))"
    by (intro conjI allI impI) (rule swap0_Ok [OF sw] | erule (1) swap_back0 [OF sw] | erule swap_back0(1) [OF sw])+
next
  assume sw: "swap_asset1_for_asset0 s p = Ok p'"
  show "unat (reserve0 p) * unat (reserve1 p) \<le> unat (reserve0 p') * unat (reserve1 p') \<and>
      unat (reserve1 p') = unat (reserve1 p) + unat s \<and> unat (reserve0 p') \<le> unat (reserve0 p) \<and>
      outstanding_lp_tokens p' = outstanding_lp_tokens p \<and>
      (\<forall>p''. swap_asset0_for_asset1 (reserve0 p - reserve0 p') p' = Ok p'' \<longrightarrow>
         reserve0 p'' = reserve0 p \<and> (reserve0 p \<noteq> 0 \<longrightarrow> unat (reserve1 p) \<le> unat (reserve1 p'')))"
    by (intro conjI allI impI) (rule swap1_Ok [OF sw] | erule (1) swap_back1 [OF sw] | erule swap_back1(1) [OF sw])+
qed

theorem amm_swap_no_profit_witness:
  "\<exists>p' q'. swap_asset0_for_asset1 100 demo_pool = Ok p' \<and> 40000 \<le> unat (reserve0 p') * unat (reserve1 p') \<and>
     swap_asset1_for_asset0 100 demo_pool = Ok q' \<and> 40000 \<le> unat (reserve0 q') * unat (reserve1 q')"
proof -
  obtain p' where p': "swap_asset0_for_asset1 100 demo_pool = Ok p'"
    using swapped_exists [of "reserve0 demo_pool" 100 "reserve1 demo_pool"]
    by (auto simp: swap0_iff demo_pool_def after_fee_unat)
  obtain q' where q': "swap_asset1_for_asset0 100 demo_pool = Ok q'"
    using swapped_exists [of "reserve1 demo_pool" 100 "reserve0 demo_pool"]
    by (auto simp: swap1_iff demo_pool_def after_fee_unat)
  have a: "unat (reserve0 demo_pool) * unat (reserve1 demo_pool) = 40000" by (simp add: demo_pool_def)
  have "40000 \<le> unat (reserve0 p') * unat (reserve1 p')"
    using amm_swap_no_profit [of 100 demo_pool p', THEN conjunct1, THEN mp, OF p'] unfolding a by blast
  moreover have "40000 \<le> unat (reserve0 q') * unat (reserve1 q')"
    using amm_swap_no_profit [of 100 demo_pool q', THEN conjunct2, THEN mp, OF q'] unfolding a by blast
  ultimately show ?thesis using p' q' by blast
qed

text \<open>
  C10: minting a position in a pool with liquidity and burning exactly the LP tokens it
  gave never returns more of either asset than was deposited.
\<close>

theorem amm_mint_burn_no_profit:
  assumes "isqrt_floor E" and "pool_ok p" and "outstanding_lp_tokens p \<noteq> 0"
    and m: "mint E a0 a1 p = Ok p'"
    and b: "burn (outstanding_lp_tokens p' - outstanding_lp_tokens p) p' = Ok p''"
  shows "unat (reserve0 p) \<le> unat (reserve0 p'') \<and> unat (reserve1 p) \<le> unat (reserve1 p'') \<and>
    outstanding_lp_tokens p'' = outstanding_lp_tokens p"
proof -
  let ?lp = "unat (outstanding_lp_tokens p)" and ?m = "minted_lp E a0 a1 p"
  let ?b = "outstanding_lp_tokens p' - outstanding_lp_tokens p"
  have fits: "unat (reserve0 p) + unat a0 < 2 ^ 64" "unat (reserve1 p) + unat a1 < 2 ^ 64"
    using mint_OkD(1,2) [OF m] by (auto simp: checked_add_def split: if_splits)
  from mint_Ok [OF assms(1,2) fits] m
  have p': "unat (reserve0 p') = unat (reserve0 p) + unat a0" "unat (reserve1 p') = unat (reserve1 p) + unat a1"
    and lp': "unat (outstanding_lp_tokens p') = ?lp + ?m" by auto
  then have ub: "unat ?b = ?m" by (simp add: unat_sub word_le_nat_alt)
  from burn_Ok [OF burn_OkD [OF b]] b ub lp' obtain
    r0: "unat (reserve0 p') = unat (reserve0 p'') + unat (reserve0 p') * ?m div (?lp + ?m)"
    and r1: "unat (reserve1 p') = unat (reserve1 p'') + unat (reserve1 p') * ?m div (?lp + ?m)"
    and lp'': "?lp + ?m = unat (outstanding_lp_tokens p'') + ?m"
    by (metis result.inject(1))
  have "0 < ?lp" using assms(3) by (simp add: unat_gt_0)
  then have "0 < unat (reserve0 p) * unat (reserve1 p)" using assms(2) unfolding pool_ok_def
    by (meson less_le_trans zero_less_power)
  then have nz: "\<not> (reserve0 p = 0 \<or> reserve1 p = 0 \<or> outstanding_lp_tokens p = 0)" using assms(3) by auto
  have share: "(r + a) * ?m div (?lp + ?m) \<le> a" if "?m * r \<le> ?lp * a" for r a :: nat
  proof -
    have "(r + a) * ?m \<le> a * (?lp + ?m)" using that by (simp add: algebra_simps)
    then have "(r + a) * ?m div (?lp + ?m) \<le> a * (?lp + ?m) div (?lp + ?m)" by (rule div_le_mono)
    then show ?thesis using \<open>0 < ?lp\<close> by simp
  qed
  have "unat (reserve0 p) \<le> unat (reserve0 p'')" "unat (reserve1 p) \<le> unat (reserve1 p'')"
    using r0 r1 p' share [OF minted_lp_share(1) [OF nz, of E a0 a1]]
      share [OF minted_lp_share(2) [OF nz, of E a0 a1]] by simp_all
  moreover have "outstanding_lp_tokens p'' = outstanding_lp_tokens p"
    using lp'' by (intro unat_eqI) simp
  ultimately show ?thesis by simp
qed

theorem amm_mint_burn_no_profit_witness:
  "\<exists>p' p''. mint demo_externs 10 50 demo_pool = Ok p' \<and>
     burn (outstanding_lp_tokens p' - outstanding_lp_tokens demo_pool) p' = Ok p'' \<and> 100 \<le> unat (reserve0 p'')"
proof -
  obtain p' where p': "mint demo_externs 10 50 demo_pool = Ok p'"
    and lp: "unat (outstanding_lp_tokens p') = 220"
    using mint_Ok [OF demo_isqrt_floor demo_pool_ok, of 10 50] by (auto simp: demo_pool_def minted_lp_def)
  let ?b = "outstanding_lp_tokens p' - outstanding_lp_tokens demo_pool"
  have "outstanding_lp_tokens p' \<noteq> 0" using lp by auto
  moreover have "unat ?b \<le> unat (outstanding_lp_tokens p')"
    using lp by (simp add: demo_pool_def unat_sub word_le_nat_alt)
  ultimately obtain p'' where p'': "burn ?b p' = Ok p''" by (rule burn_Ok)
  have "outstanding_lp_tokens demo_pool \<noteq> 0" by (simp add: demo_pool_def)
  from amm_mint_burn_no_profit [OF demo_isqrt_floor demo_pool_ok this p' p''] p' p''
  show ?thesis by (auto simp: demo_pool_def)
qed

section \<open>The table of pools\<close>

text \<open>
  C25: every applied AMM transaction keeps the table invariant: all pools satisfy the
  pool invariant and are stored under a strictly ordered pair of assets.
\<close>

theorem amm_pools_invariant:
  assumes "isqrt_floor E" and "pools_ok pools"
    and "apply_burn ft pools = Ok pools' \<or> apply_mint E ft pools = Ok pools' \<or> apply_swap ft pools = Ok pools'"
  shows "pools_ok pools'"
  using assms burn_op.step_inv mint_op.step_inv swap_op.step_inv by metis

definition demo_mint :: FilledTransaction where
  "demo_mint = demo_tx [F_BitAsset 1 9, F_BitAsset 2 9] [C_BitAsset 5, C_BitAsset 5, C_AmmLpToken 4]
     (Some (AmmMint 4 4 4))"

lemma demo_mint_parsed:
  "amm_mint demo_mint = Ok (Some \<lparr>am_asset0 = A_BitAsset 1, am_asset1 = A_BitAsset 2, am_amount0 = 4,
     am_amount1 = 4, am_lp_token_mint = 4\<rparr>)"
  by (simp add: amm_mint_def demo_mint_def unique_spent_assets_def demo_simps min_def max_def
      less_eq_AssetId_def)

lemma demo_mint_applied:
  "\<exists>pools'. apply_mint demo_externs demo_mint fmempty = Ok pools'"
proof -
  let ?new = "PoolState_new (txid demo_externs (ft_transaction demo_mint))"
  have "geometric_mean demo_externs 4 4 = 4"
  proof (rule unat_eqI)
    have "unat (ext_isqrt demo_externs (as_u128 4 * as_u128 4)) = 4"
      by (rule isqrt_eqI) (simp_all add: power2_eq_square)
    then show "unat (geometric_mean demo_externs 4 4) = unat (4 :: u64)"
      by (simp add: geometric_mean_unat)
  qed
  then have "mint demo_externs 4 4 ?new = Ok (?new\<lparr>reserve0 := 4, reserve1 := 4, outstanding_lp_tokens := 4\<rparr>)"
    by (simp add: mint_def PoolState_new_def checked_add_def add_word_def)
  then show ?thesis
    by (simp add: apply_mint_def demo_mint_parsed checked_sub_def PoolState_new_def)
qed

theorem amm_pools_invariant_witness:
  "\<exists>pools'. apply_mint demo_externs demo_mint fmempty = Ok pools' \<and> pools_ok pools'"
proof -
  obtain pools' where p: "apply_mint demo_externs demo_mint fmempty = Ok pools'"
    using demo_mint_applied by blast
  have "pools_ok fmempty" by (simp add: pools_ok_def)
  from amm_pools_invariant [OF demo_isqrt_floor this] p show ?thesis by blast
qed

text \<open>
  reverting an AMM transaction right after applying it restores the table of pools
  exactly. For a mint, the transaction must not be the creator of a pool that already
  exists; for a swap, the table must satisfy its invariant.
\<close>

lemma amm_revert_apply:
  "(apply_burn ft pools = Ok pools' \<longrightarrow> revert_burn ft pools' = Ok pools) \<and>
   ((\<forall>pr p. fmlookup pools pr = Some p \<longrightarrow> creation_txid p \<noteq> txid E (ft_transaction ft)) \<longrightarrow>
      apply_mint E ft pools = Ok pools' \<longrightarrow> revert_mint E ft pools' = Ok pools) \<and>
   (pools_ok pools \<longrightarrow> apply_swap ft pools = Ok pools' \<longrightarrow> revert_swap ft pools' = Ok pools)"
  by (auto simp: revert_apply_burn revert_apply_swap intro: revert_apply_mint)

theorem amm_revert_apply_witness:
  "\<exists>pools'. apply_mint demo_externs demo_mint fmempty = Ok pools' \<and>
     revert_mint demo_externs demo_mint pools' = Ok fmempty"
proof -
  obtain pools' where p: "apply_mint demo_externs demo_mint fmempty = Ok pools'"
    using demo_mint_applied by blast
  with amm_revert_apply [of demo_mint fmempty pools' demo_externs] show ?thesis by auto
qed

end
