(* ===== verification/Auction_Properties.thy ===== *)
theory Auction_Properties
  imports Dutch_Auction Asset_Conservation
begin

text \<open>
  What Dutch auctions guarantee. The invariant \<open>auction_ok\<close> says that the price range is
  ordered, that the amount received plus the current price never exceeds the initial
  price, and that the last bid lies between the start and the end block. Under it the
  plain subtractions and additions of \<open>bid\<close> neither underflow nor overflow; the only panic
  left is the assertion on the elapsed blocks, which a bid in the last block violates.
\<close>

section \<open>Arithmetic of bids\<close>

lemma unat_u32_as_u128 [simp]: "unat (ucast (x :: u32) :: u128) = unat x"
  by (simp add: unsigned_ucast_eq take_bit_nat_eq_self unat_less_pow [THEN order_less_trans])

lemma unat_mul_u64_u32 [simp]: "unat (as_u128 x * ucast (y :: u32)) = unat x * unat y"
proof -
  have "unat x * unat y < 2 ^ 64 * 2 ^ 32"
    by (rule mult_strict_mono) (use unat_less_pow [of x] unat_less_pow [of y] in auto)
  then have "unat x * unat y < 2 ^ 128" by simp
  then show ?thesis by (simp add: unat_word_ariths)
qed

lemma quantity_fits_iff:
  fixes b :: nat
  assumes "b * B \<le> q * p" "q * p < b * B + p" "0 < B" "0 < p"
  shows "q \<le> B \<longleftrightarrow> b \<le> p"
proof
  assume q: "q \<le> B"
  show "b \<le> p"
  proof (rule ccontr)
    assume "\<not> b \<le> p"
    then have "(p + 1) * B \<le> b * B" by (intro mult_le_mono1) simp
    then have "p * B + B \<le> b * B" by simp
    moreover have "q * p \<le> p * B" using mult_le_mono1 [OF q, of p] by (simp only: mult.commute)
    ultimately show False using assms(1,3) by linarith
  qed
next
  assume "b \<le> p"
  then have "b * B \<le> B * p" using mult_le_mono1 [of b p B] by (simp only: mult.commute)
  with assms(2) have "q * p < B * p + p" by linarith
  then have "q * p < (B + 1) * p" by (simp only: add_mult_distrib mult_1)
  then have "q < B + 1" by (simp only: mult_less_cancel2)
  then show "q \<le> B" by simp
qed

lemma end_price_le:
  fixes ep :: nat
  assumes "b * B \<le> q * p" "q \<le> B" "b \<le> p" "ep \<le> p" "e * B < ep * (B - q) + B" "0 < B"
  shows "e \<le> p - b" and "e \<le> ep"
proof -
  have "p * (B - q) \<le> (p - b) * B"
  proof -
    have "p * (B - q) = p * B - p * q" "(p - b) * B = p * B - b * B"
      by (simp_all add: diff_mult_distrib diff_mult_distrib2)
    with assms(1) show ?thesis by (simp add: mult.commute diff_le_mono2)
  qed
  moreover have "ep * (B - q) \<le> p * (B - q)" by (rule mult_le_mono1) (rule assms)
  ultimately have "e * B < (p - b) * B + B" using assms(5) by linarith
  then have "e * B < (p - b + 1) * B" by (simp only: add_mult_distrib mult_1)
  then have "e < p - b + 1" by (simp only: mult_less_cancel2)
  then show "e \<le> p - b" by simp
  have "ep * (B - q) \<le> ep * B" by simp
  then have "e * B < ep * B + B" using assms(5) by linarith
  then have "e * B < (ep + 1) * B" by (simp only: add_mult_distrib mult_1)
  then have "e < ep + 1" by (simp only: mult_less_cancel2)
  then show "e \<le> ep" by simp
qed

section \<open>The auction invariant\<close>

definition auction_end :: "DutchAuctionState \<Rightarrow> u32" where
  "auction_end a = saturating_add (da_start_block a) (da_duration a - 1)"

definition auction_ok :: "DutchAuctionState \<Rightarrow> bool" where
  "auction_ok a \<longleftrightarrow>
     rb_wf (da_most_recent_bid_block a) \<and> rb_wf (da_base_amount_remaining a) \<and> rb_wf (da_quote_amount a) \<and>
     rb_wf (da_price_after_most_recent_bid a) \<and> rb_wf (da_end_price_after_most_recent_bid a) \<and>
     da_duration a \<noteq> 0 \<and>
     unat (da_start_block a) \<le> unat (latest_data (da_most_recent_bid_block a)) \<and>
     unat (latest_data (da_most_recent_bid_block a)) \<le> unat (auction_end a) \<and>
     unat (latest_data (da_end_price_after_most_recent_bid a)) \<le> unat (latest_data (da_price_after_most_recent_bid a)) \<and>
     unat (latest_data (da_quote_amount a)) + unat (latest_data (da_price_after_most_recent_bid a))
       \<le> unat (da_initial_price a) \<and>
     unat (latest_data (da_base_amount_remaining a)) \<le> unat (da_initial_base_amount a)"

text \<open>The price at a height, as a number: linear from the last bid's price to the end price.\<close>

definition schedule_price :: "DutchAuctionState \<Rightarrow> u32 \<Rightarrow> nat" where
  "schedule_price a height =
     (let price = unat (latest_data (da_price_after_most_recent_bid a));
          end_price = unat (latest_data (da_end_price_after_most_recent_bid a));
          last_bid = unat (latest_data (da_most_recent_bid_block a));
          last_block = unat (auction_end a)
      in price - (price - end_price) * (unat height - last_bid) div (last_block - last_bid))"

lemma saturating_add_ge: "unat x \<le> unat (saturating_add x y)"
proof (cases "checked_add x y")
  case None
  then have "saturating_add x y = - 1" by (simp add: saturating_add_def)
  then show ?thesis by (simp only: word_le_nat_alt [symmetric]) simp
next
  case (Some z)
  then have "saturating_add x y = z" by (simp add: saturating_add_def)
  with Some show ?thesis by (simp add: checked_add_Some_iff)
qed

lemma bid_price_Ok:
  fixes a el rem
  defines "P \<equiv> unat (latest_data (da_price_after_most_recent_bid a))"
    and "EP \<equiv> unat (latest_data (da_end_price_after_most_recent_bid a))"
  assumes le: "EP \<le> P" and el: "rem = 0 \<or> unat el < unat rem"
  obtains price where "bid_price a el rem = Ok price"
    and "unat price = P - (P - EP) * unat el div unat rem" and "EP \<le> unat price" and "unat price \<le> P"
proof (cases "rem = 0")
  case True
  then show thesis by (intro that) (auto simp: bid_price_def P_def le [unfolded P_def])
next
  case False
  let ?p = "latest_data (da_price_after_most_recent_bid a)"
  let ?e = "latest_data (da_end_price_after_most_recent_bid a)"
  let ?d = "(P - EP) * unat el div unat rem"
  have lt: "unat el < unat rem" using el False by simp
  have nz: "(ucast rem :: u128) \<noteq> 0" using False by (metis unat_u32_as_u128 unat_eq_zero)
  have m: "sub_word ?p ?e = (Ok (?p - ?e) :: (DutchAuctionError, u64) result)"
    using le by (simp add: P_def EP_def unat_sub word_le_nat_alt)
  have um: "unat (?p - ?e) = P - EP" using le by (simp add: P_def EP_def unat_sub word_le_nat_alt)
  let ?q = "as_u128 (?p - ?e) * ucast el div ucast rem"
  have q: "unat ?q = ?d" using um by simp
  have "(P - EP) * unat el \<le> (P - EP) * unat rem" using lt by simp
  then have "?d \<le> (P - EP) * unat rem div unat rem" by (rule div_le_mono)
  then have d: "?d \<le> P - EP" using lt by simp
  then have uq: "unat (as_u64 ?q) = ?d"
    using unat_less_pow [of ?p] q by (simp add: unat_as_u64 P_def)
  have "unat (el div rem) = 0" using lt by simp
  then have "el div rem < 1" by (simp add: word_less_nat_alt)
  then have "bid_price a el rem = sub_word ?p (as_u64 ?q)"
    using False nz m by (simp add: bid_price_def Let_def div_word_def del: sub_word_Ok_iff)
  also have "\<dots> = Ok (?p - as_u64 ?q)"
    using uq d by (intro sub_word_Ok) (simp add: P_def)
  finally show thesis
    by (rule that) (use uq d le in \<open>simp_all add: P_def unat_sub word_le_nat_alt\<close>)
qed

lemma bid_price_Panic:
  assumes "rem \<noteq> 0" "unat rem \<le> unat el"
    and "unat (latest_data (da_end_price_after_most_recent_bid a)) \<le> unat (latest_data (da_price_after_most_recent_bid a))"
  shows "bid_price a el rem = Panic"
proof -
  have nz: "(ucast rem :: u128) \<noteq> 0" using assms(1) by (metis unat_u32_as_u128 unat_eq_zero)
  have "1 \<le> unat el div unat rem"
    using assms(1,2) div_le_mono [OF assms(2), of "unat rem"] by (simp add: unat_gt_0)
  then have "\<not> el div rem < 1" by (simp add: word_less_nat_alt)
  with nz assms(1,3) show ?thesis
    by (simp add: bid_price_def Let_def sub_word_Ok div_word_def del: sub_word_Ok_iff)
qed

section \<open>Settling a bid\<close>

text \<open>A bid of at most the price settles; the bidder gets the rounded-up pro-rata quantity.\<close>

lemma settle_bid_Ok:
  fixes a b price
  defines "B \<equiv> unat (latest_data (da_base_amount_remaining a))"
  assumes ok: "auction_ok a" and B: "0 < B" and price: "0 < unat price"
    and ep: "unat (latest_data (da_end_price_after_most_recent_bid a)) \<le> unat price"
    and pp: "unat price \<le> unat (latest_data (da_price_after_most_recent_bid a))"
    and b: "unat b \<le> unat price"
  obtains q nb e where "unat b * B \<le> q * unat price" "q * unat price < unat b * B + unat price"
    and "B = unat nb + q" and "unat e \<le> unat price - unat b"
    and "unat (latest_data (da_quote_amount a) + b) = unat (latest_data (da_quote_amount a)) + unat b"
    and "settle_bid t b height price a =
      Ok (a\<lparr>da_most_recent_bid_block := ts_push height t height (da_most_recent_bid_block a),
            da_base_amount_remaining := ts_push nb t height (da_base_amount_remaining a),
            da_quote_amount := ts_push (latest_data (da_quote_amount a) + b) t height (da_quote_amount a),
            da_price_after_most_recent_bid := ts_push (price - b) t height (da_price_after_most_recent_bid a),
            da_end_price_after_most_recent_bid := ts_push e t height (da_end_price_after_most_recent_bid a)\<rparr>)"
proof -
  let ?B = "latest_data (da_base_amount_remaining a)" and ?EP = "latest_data (da_end_price_after_most_recent_bid a)"
  let ?Q = "latest_data (da_quote_amount a)"
  have nz: "unat (as_u128 price) \<noteq> 0" "unat (as_u128 ?B) \<noteq> 0" using price B by (simp_all add: B_def)
  then obtain q where q: "div_ceil (as_u128 b * as_u128 ?B) (as_u128 price) = (Ok q :: (DutchAuctionError, u128) result)"
    using div_ceil_Ok by metis
  have q1: "unat b * B \<le> unat q * unat price" and q2: "unat q * unat price < unat b * B + unat price"
    using div_ceil_unat(2,3) [OF q] by (simp_all add: B_def)
  have qB: "unat q \<le> B" using quantity_fits_iff [OF q1 q2 B price] b by simp
  then have uq: "unat (as_u64 q) = unat q" using unat_less_pow [of ?B] by (simp add: unat_as_u64 B_def)
  define nb where "nb = ?B - as_u64 q"
  have nb: "unat nb = B - unat q" using qB uq by (simp add: nb_def B_def unat_sub word_le_nat_alt)
  obtain e where e: "div_ceil (as_u128 ?EP * as_u128 nb) (as_u128 ?B) = (Ok e :: (DutchAuctionError, u128) result)"
    using div_ceil_Ok nz(2) by metis
  have "unat e * B < unat ?EP * (B - unat q) + B" using div_ceil_unat(3) [OF e] nb by (simp add: B_def)
  note e2 = end_price_le [OF q1 qB b ep this B]
  then have ue: "unat (as_u64 e) = unat e" using unat_less_pow [of ?EP] by (simp add: unat_as_u64)
  have "unat ?Q + unat b < 2 ^ 64"
    using ok b pp unat_less_pow [of "da_initial_price a"] by (simp add: auction_ok_def)
  then have add: "add_word ?Q b = (Ok (?Q + b) :: (DutchAuctionError, u64) result)"
    and uQ: "unat (?Q + b) = unat ?Q + unat b"
    by (auto intro: add_word_Ok simp: unat_word_ariths)
  have sub: "sub_word ?B (as_u64 q) = (Ok nb :: (DutchAuctionError, u64) result)"
    "sub_word price b = (Ok (price - b) :: (DutchAuctionError, u64) result)"
    unfolding nb_def by (rule sub_word_Ok, use qB uq b B_def in simp)+
  have "q \<le> as_u128 ?B" using qB by (simp add: word_le_nat_alt B_def)
  then show thesis
    by (intro that [OF q1 q2, of nb "as_u64 e"])
      (use qB nb ue e2 uQ q e add sub in \<open>simp_all add: settle_bid_def Let_def del: sub_word_Ok_iff add_word_Ok_iff\<close>)
qed

text \<open>A bid above the price asks for more than remains.\<close>

lemma settle_bid_too_large:
  assumes "0 < unat (latest_data (da_base_amount_remaining a))" "0 < unat price" "unat price < unat b"
  shows "settle_bid t b height price a = Err (DA_Bid Bid_QuantityTooLarge)"
proof -
  let ?B = "latest_data (da_base_amount_remaining a)"
  obtain q where q: "div_ceil (as_u128 b * as_u128 ?B) (as_u128 price) = (Ok q :: (DutchAuctionError, u128) result)"
    using div_ceil_Ok [of "as_u128 price"] assms(2) by (metis not_less_zero unat_as_u128)
  have "unat b * unat ?B \<le> unat q * unat price" "unat q * unat price < unat b * unat ?B + unat price"
    using div_ceil_unat(2,3) [OF q] by simp_all
  then have "\<not> q \<le> as_u128 ?B"
    using quantity_fits_iff assms by (metis linorder_not_less unat_as_u128 word_le_nat_alt)
  with q show ?thesis by (simp add: settle_bid_def Let_def)
qed

section \<open>Bids\<close>

definition auction_live :: "DutchAuctionState \<Rightarrow> u32 \<Rightarrow> bool" where
  "auction_live a height \<longleftrightarrow>
     unat (latest_data (da_most_recent_bid_block a)) \<le> unat height \<and> unat height \<le> unat (auction_end a) \<and>
     latest_data (da_base_amount_remaining a) \<noteq> 0"

text \<open>On a live auction a bid computes the price and settles.\<close>

lemma bid_prefix:
  assumes ok: "auction_ok a" and live: "auction_live a height"
  defines "el \<equiv> height - latest_data (da_most_recent_bid_block a)"
    and "rem \<equiv> auction_end a - latest_data (da_most_recent_bid_block a)"
  shows "bid t b height a = rbind (bid_price a el rem) (\<lambda>price.
      rbind (ensure (price \<noteq> 0) (DA_Bid Bid_InvalidPrice)) (\<lambda>_. settle_bid t b height price a))"
    and "unat el = unat height - unat (latest_data (da_most_recent_bid_block a))"
    and "unat rem = unat (auction_end a) - unat (latest_data (da_most_recent_bid_block a))"
proof -
  let ?lb = "latest_data (da_most_recent_bid_block a)"
  show u: "unat el = unat height - unat ?lb" "unat rem = unat (auction_end a) - unat ?lb"
    using live ok by (simp_all add: el_def rem_def unat_sub word_le_nat_alt auction_ok_def auction_live_def)
  have d: "sub_word (da_duration a) 1 = (Ok (da_duration a - 1) :: (DutchAuctionError, u32) result)"
    using ok by (intro sub_word_Ok) (simp add: auction_ok_def Suc_le_eq unat_gt_0)
  have pre: "\<not> height < da_start_block a" "\<not> height > auction_end a" "latest_data (da_base_amount_remaining a) \<noteq> 0"
    using live ok by (auto simp: auction_ok_def auction_live_def word_less_nat_alt)
  have "sub_word height ?lb = (Ok el :: (DutchAuctionError, u32) result)"
    "sub_word (auction_end a) ?lb = (Ok rem :: (DutchAuctionError, u32) result)"
    using u live ok by (simp_all add: auction_ok_def auction_live_def)
  with pre d show "bid t b height a = rbind (bid_price a el rem) (\<lambda>price.
      rbind (ensure (price \<noteq> 0) (DA_Bid Bid_InvalidPrice)) (\<lambda>_. settle_bid t b height price a))"
    by (simp add: bid_def Let_def auction_end_def [symmetric] del: sub_word_Ok_iff)
qed

definition last_block_gap :: "DutchAuctionState \<Rightarrow> u32 \<Rightarrow> bool" where
  "last_block_gap a height \<longleftrightarrow>
     height = auction_end a \<and> latest_data (da_most_recent_bid_block a) \<noteq> auction_end a"

lemma bid_at_price:
  assumes ok: "auction_ok a" and live: "auction_live a height" and early: "\<not> last_block_gap a height"
  obtains price where "unat price = schedule_price a height"
    and "unat (latest_data (da_end_price_after_most_recent_bid a)) \<le> unat price"
    and "unat price \<le> unat (latest_data (da_price_after_most_recent_bid a))"
    and "\<And>t b. bid t b height a = rbind (ensure (price \<noteq> 0) (DA_Bid Bid_InvalidPrice))
       (\<lambda>_. settle_bid t b height price a)"
proof -
  let ?el = "height - latest_data (da_most_recent_bid_block a)"
  let ?rem = "auction_end a - latest_data (da_most_recent_bid_block a)"
  note pre = bid_prefix [OF ok live]
  have "height \<noteq> auction_end a \<Longrightarrow> unat height < unat (auction_end a)"
    using live unat_eqI unfolding auction_live_def by (metis nat_less_le)
  then have "?rem = 0 \<or> unat ?el < unat ?rem"
    using early live pre(2,3) by (auto simp: last_block_gap_def auction_live_def)
  moreover have "unat (latest_data (da_end_price_after_most_recent_bid a))
      \<le> unat (latest_data (da_price_after_most_recent_bid a))" using ok by (simp add: auction_ok_def)
  ultimately obtain price where "bid_price a ?el ?rem = Ok price"
    "unat price = schedule_price a height"
    "unat (latest_data (da_end_price_after_most_recent_bid a)) \<le> unat price"
    "unat price \<le> unat (latest_data (da_price_after_most_recent_bid a))"
    using bid_price_Ok [of a ?rem ?el] pre(2,3) by (metis schedule_price_def)
  then show thesis using that pre(1) by simp
qed

lemma bid_last_block:
  assumes ok: "auction_ok a" and live: "auction_live a height" and gap: "last_block_gap a height"
  shows "bid t b height a = Panic"
proof -
  note pre = bid_prefix [OF ok live]
  let ?lb = "latest_data (da_most_recent_bid_block a)"
  have "unat ?lb \<noteq> unat (auction_end a)" using gap unat_eqI by (auto simp: last_block_gap_def)
  then have "unat (auction_end a - ?lb) \<noteq> 0"
    using pre(3) live gap by (auto simp: auction_live_def last_block_gap_def)
  then have "auction_end a - ?lb \<noteq> 0" by force
  then have "bid_price a (height - ?lb) (auction_end a - ?lb) = Panic"
    using ok gap by (intro bid_price_Panic) (auto simp: last_block_gap_def auction_ok_def)
  then show ?thesis using pre(1) by simp
qed

lemma bid_not_live:
  assumes "auction_ok a" and "unat (latest_data (da_most_recent_bid_block a)) \<le> unat height" and "\<not> auction_live a height"
  shows "bid t b height a = Err (DA_Bid Bid_AuctionEnded)"
proof -
  have "\<not> height < da_start_block a" using assms(1,2) by (auto simp: auction_ok_def word_less_nat_alt)
  moreover have "sub_word (da_duration a) 1 = (Ok (da_duration a - 1) :: (DutchAuctionError, u32) result)"
    using assms(1) by (intro sub_word_Ok) (simp add: auction_ok_def Suc_le_eq unat_gt_0)
  moreover have "auction_end a < height \<or> latest_data (da_base_amount_remaining a) = 0"
    using assms(2,3) by (auto simp: auction_live_def word_less_nat_alt)
  moreover have "sub_word height (latest_data (da_most_recent_bid_block a))
      = (Ok (height - latest_data (da_most_recent_bid_block a)) :: (DutchAuctionError, u32) result)"
    by (rule sub_word_Ok) (rule assms)
  ultimately show ?thesis by (auto simp: bid_def Let_def auction_end_def [symmetric] simp del: sub_word_Ok_iff)
qed

text \<open>The state after a settled bid: the invariant holds, and the bid can be reverted.\<close>

lemma settle_bid_ok:
  assumes ok: "auction_ok a" and live: "auction_live a height" and price: "price \<noteq> 0"
    and ep: "unat (latest_data (da_end_price_after_most_recent_bid a)) \<le> unat price"
    and pp: "unat price \<le> unat (latest_data (da_price_after_most_recent_bid a))"
    and b: "unat b \<le> unat price"
  shows "\<exists>a' q. settle_bid t b height price a = Ok a' \<and> auction_ok a' \<and>
      unat (latest_data (da_base_amount_remaining a)) = unat (latest_data (da_base_amount_remaining a')) + q \<and>
      unat b * unat (latest_data (da_base_amount_remaining a)) \<le> q * unat price \<and>
      q * unat price < unat b * unat (latest_data (da_base_amount_remaining a)) + unat price \<and>
      unat (latest_data (da_quote_amount a')) = unat (latest_data (da_quote_amount a)) + unat b \<and>
      unat (latest_data (da_price_after_most_recent_bid a')) = unat price - unat b \<and>
      auction_revert_bid t a' = Ok a"
proof -
  have B: "0 < unat (latest_data (da_base_amount_remaining a))" and p: "0 < unat price"
    using live price by (simp_all add: auction_live_def unat_gt_0)
  from settle_bid_Ok [OF ok B p ep pp b, of t height] obtain q nb e where
    q: "unat b * unat (latest_data (da_base_amount_remaining a)) \<le> q * unat price"
      "q * unat price < unat b * unat (latest_data (da_base_amount_remaining a)) + unat price"
    and nb: "unat (latest_data (da_base_amount_remaining a)) = unat nb + q" and e: "unat e \<le> unat price - unat b"
    and Q: "unat (latest_data (da_quote_amount a) + b) = unat (latest_data (da_quote_amount a)) + unat b"
    and s: "settle_bid t b height price a =
      Ok (a\<lparr>da_most_recent_bid_block := ts_push height t height (da_most_recent_bid_block a),
            da_base_amount_remaining := ts_push nb t height (da_base_amount_remaining a),
            da_quote_amount := ts_push (latest_data (da_quote_amount a) + b) t height (da_quote_amount a),
            da_price_after_most_recent_bid := ts_push (price - b) t height (da_price_after_most_recent_bid a),
            da_end_price_after_most_recent_bid := ts_push e t height (da_end_price_after_most_recent_bid a)\<rparr>)"
      (is "_ = Ok ?a'")
    by blast
  have upb: "unat (price - b) = unat price - unat b" using b by (simp add: unat_sub word_le_nat_alt)
  have "auction_end ?a' = auction_end a" by (simp add: auction_end_def)
  then have "auction_ok ?a'" using ok live nb e Q upb pp b by (simp add: auction_ok_def auction_live_def)
  moreover have "auction_revert_bid t ?a' = Ok a"
    using ok by (simp add: auction_revert_bid_def pop_written_by_def auction_ok_def)
  ultimately show ?thesis using s q nb Q upb by (intro exI [of _ ?a'] exI [of _ q]) simp
qed

lemma bid_OkD:
  assumes ok: "auction_ok a" and b: "bid t b height a = Ok a'"
  shows "auction_live a height" and "\<not> last_block_gap a height"
    and "auction_ok a'" and "auction_revert_bid t a' = Ok a"
    and "da_base_asset a' = da_base_asset a" and "da_quote_asset a' = da_quote_asset a"
proof -
  have le: "unat (latest_data (da_most_recent_bid_block a)) \<le> unat height"
    using b by (auto simp: bid_def Let_def rbind_Ok_iff)
  show live: "auction_live a height" using bid_not_live [OF ok le] b by force
  show gap: "\<not> last_block_gap a height" using bid_last_block [OF ok live] b by force
  obtain price where p: "unat (latest_data (da_end_price_after_most_recent_bid a)) \<le> unat price"
      "unat price \<le> unat (latest_data (da_price_after_most_recent_bid a))"
    and eq: "bid t b height a = rbind (ensure (price \<noteq> 0) (DA_Bid Bid_InvalidPrice)) (\<lambda>_. settle_bid t b height price a)"
    using bid_at_price [OF ok live gap] by metis
  have nz: "price \<noteq> 0" and s: "settle_bid t b height price a = Ok a'"
    using b eq by (cases "price = 0"; simp)+
  have "unat b \<le> unat price"
  proof (rule ccontr)
    assume "\<not> unat b \<le> unat price"
    then have "settle_bid t b height price a = Err (DA_Bid Bid_QuantityTooLarge)"
      using live nz by (intro settle_bid_too_large) (simp_all add: auction_live_def unat_gt_0)
    with s show False by simp
  qed
  from settle_bid_ok [OF ok live nz p this, of t] s
  show "auction_ok a'" and "auction_revert_bid t a' = Ok a" by auto
  from s show "da_base_asset a' = da_base_asset a" and "da_quote_asset a' = da_quote_asset a"
    by (auto simp: settle_bid_def Let_def rbind_Ok_iff)
qed

section \<open>Properties\<close>

text \<open>
  the exact outcome of a bid on an auction that meets its invariant, at a height not
  before the last bid. Outside the auction's blocks, or with nothing left, the bid is
  refused as ended. Within them, if the price is zero it is refused; if the bid exceeds
  the price it is refused as too large; otherwise it succeeds: the bidder receives the
  rounded-up share \<open>bid * remaining / price\<close>, the bid is added to the proceeds, the price
  drops by the bid, and the invariant holds again. No addition, subtraction or truncation
  in \<open>bid\<close> overflows.
\<close>

lemma auction_bid_outcome:
  assumes "auction_ok a" and "unat (latest_data (da_most_recent_bid_block a)) \<le> unat height"
    and "\<not> last_block_gap a height"
  shows "if \<not> auction_live a height then bid t b height a = Err (DA_Bid Bid_AuctionEnded)
    else if schedule_price a height = 0 then bid t b height a = Err (DA_Bid Bid_InvalidPrice)
    else if schedule_price a height < unat b then bid t b height a = Err (DA_Bid Bid_QuantityTooLarge)
    else \<exists>a' q. bid t b height a = Ok a' \<and> auction_ok a' \<and>
      unat (latest_data (da_base_amount_remaining a)) = unat (latest_data (da_base_amount_remaining a')) + q \<and>
      unat b * unat (latest_data (da_base_amount_remaining a)) \<le> q * schedule_price a height \<and>
      q * schedule_price a height < unat b * unat (latest_data (da_base_amount_remaining a)) + schedule_price a height \<and>
      unat (latest_data (da_quote_amount a')) = unat (latest_data (da_quote_amount a)) + unat b \<and>
      unat (latest_data (da_price_after_most_recent_bid a')) = schedule_price a height - unat b"
proof (cases "auction_live a height")
  case False
  with bid_not_live [OF assms(1,2)] show ?thesis by simp
next
  case True
  obtain price where sp: "unat price = schedule_price a height"
    and p: "unat (latest_data (da_end_price_after_most_recent_bid a)) \<le> unat price"
      "unat price \<le> unat (latest_data (da_price_after_most_recent_bid a))"
    and eq: "\<And>t b. bid t b height a = rbind (ensure (price \<noteq> 0) (DA_Bid Bid_InvalidPrice))
       (\<lambda>_. settle_bid t b height price a)"
    using bid_at_price [OF assms(1) True assms(3)] by metis
  have z: "schedule_price a height = 0 \<longleftrightarrow> price = 0" using sp by (metis unat_0 unat_eq_zero)
  have B: "0 < unat (latest_data (da_base_amount_remaining a))" using True by (simp add: auction_live_def unat_gt_0)
  consider "price = 0" | "price \<noteq> 0" "unat price < unat b" | "price \<noteq> 0" "unat b \<le> unat price" by linarith
  then show ?thesis
  proof cases
    case 2
    then have "0 < unat price" by (simp add: unat_gt_0)
    with 2 settle_bid_too_large [OF B] True sp z eq show ?thesis by simp
  next
    case 3
    with settle_bid_ok [OF assms(1) True 3(1) p 3(2), of t] True sp z eq show ?thesis by auto
  qed (use True z eq in simp)
qed

definition demo_params :: DutchAuctionParams where
  "demo_params = \<lparr>dap_start_block = 10, dap_duration = 11, dap_base_asset = A_BitAsset 1,
     dap_base_amount = 1000, dap_quote_asset = A_Bitcoin, dap_initial_price = 500, dap_final_price = 100\<rparr>"

abbreviation demo_auction :: DutchAuctionState where
  "demo_auction \<equiv> created_auction 77 5 demo_params"

lemma demo_auction_end [simp]: "auction_end demo_auction = 20"
  by (simp add: auction_end_def created_auction_def demo_params_def saturating_add_def checked_add_def)

lemma demo_auction_ok [simp]: "auction_ok demo_auction"
  unfolding auction_ok_def demo_auction_end by (simp add: created_auction_def demo_params_def)

lemma demo_schedule_price: "schedule_price demo_auction 15 = 300"
  unfolding schedule_price_def demo_auction_end by (simp add: created_auction_def demo_params_def)

lemma demo_auction_live: "auction_live demo_auction 15" "\<not> last_block_gap demo_auction 15"
  unfolding auction_live_def last_block_gap_def demo_auction_end
  by (simp_all add: created_auction_def demo_params_def)

theorem auction_bid_outcome_witness:
  "\<exists>a'. bid 78 150 15 demo_auction = Ok a' \<and> auction_ok a' \<and>
     unat (latest_data (da_price_after_most_recent_bid a')) = 150"
  using auction_bid_outcome [OF demo_auction_ok _ demo_auction_live(2), of 78 150] demo_auction_live(1)
  by (auto simp: demo_schedule_price auction_live_def)

text \<open>
  C35: a bid in the last block of a live auction whose last bid (or start) was in an
  earlier block always panics: the assertion that the elapsed blocks are fewer than the
  remaining ones does not hold there.
\<close>

theorem auction_bid_last_block_panics:
  assumes "auction_ok a" and "auction_live a (auction_end a)"
    and "latest_data (da_most_recent_bid_block a) \<noteq> auction_end a"
  shows "bid t b (auction_end a) a = Panic"
  by (rule bid_last_block) (use assms in \<open>simp_all add: last_block_gap_def\<close>)

theorem auction_bid_last_block_panics_witness: "bid 78 100 20 demo_auction = Panic"
proof -
  have "auction_live demo_auction (auction_end demo_auction)"
    "latest_data (da_most_recent_bid_block demo_auction) \<noteq> auction_end demo_auction"
    unfolding auction_live_def demo_auction_end by (simp_all add: created_auction_def demo_params_def)
  from auction_bid_last_block_panics [OF demo_auction_ok this] show ?thesis by simp
qed

section \<open>The table of auctions\<close>

definition auctions_ok :: "AuctionsDb \<Rightarrow> bool" where
  "auctions_ok auctions \<longleftrightarrow> (\<forall>i a. fmlookup auctions i = Some a \<longrightarrow> auction_ok a)"

lemma auctions_ok_upd: "auctions_ok auctions \<Longrightarrow> auction_ok a \<Longrightarrow> auctions_ok (fmupd i a auctions)"
  by (simp add: auctions_ok_def)

lemma auctions_okD: "auctions_ok auctions \<Longrightarrow> fmlookup auctions i = Some a \<Longrightarrow> auction_ok a"
  by (simp add: auctions_ok_def)

lemma created_auction_ok:
  assumes "dap_final_price p \<le> dap_initial_price p" and "dap_duration p \<noteq> 0"
  shows "auction_ok (created_auction t height p)"
  using assms saturating_add_ge [of "dap_start_block p" "dap_duration p - 1"]
  by (simp add: auction_ok_def auction_end_def created_auction_def word_le_nat_alt)

lemma apply_bid_Ok:
  assumes "apply_bid E height ft auctions = Ok auctions'"
  obtains b a a' where "dutch_auction_bid ft = (Ok (Some b) :: (DutchAuctionError, _) result)"
    and "fmlookup auctions (db_auction_id b) = Some a"
    and "db_asset_receive b = da_base_asset a" "db_asset_spend b = da_quote_asset a"
    and "bid (txid E (ft_transaction ft)) (db_amount_spend b) height a = Ok a'"
    and "auctions' = fmupd (db_auction_id b) a' auctions"
  using assms by (auto simp: apply_bid_def rbind_Ok_iff)

lemma apply_collect_Ok:
  assumes "apply_collect E height ft auctions = Ok auctions'"
  obtains c a where "dutch_auction_collect ft = Some c" and "fmlookup auctions (dc_auction_id c) = Some a"
    and "dc_amount_offered_remaining c = latest_data (da_base_amount_remaining a)"
    and "dc_amount_received c = latest_data (da_quote_amount a)"
    and "auctions' = fmupd (dc_auction_id c)
       (a\<lparr>da_base_amount_remaining := ts_push 0 (txid E (ft_transaction ft)) height (da_base_amount_remaining a),
          da_quote_amount := ts_push 0 (txid E (ft_transaction ft)) height (da_quote_amount a)\<rparr>) auctions"
  using assms by (auto simp: apply_collect_def rbind_Ok_iff Let_def)

lemma apply_bid_ok: "auctions_ok auctions \<Longrightarrow> apply_bid E height ft auctions = Ok auctions' \<Longrightarrow> auctions_ok auctions'"
  by (erule apply_bid_Ok) (metis auctions_okD auctions_ok_upd bid_OkD(3))

lemma apply_create_ok:
  "auctions_ok auctions \<Longrightarrow> apply_create E height ft p auctions = Ok auctions' \<Longrightarrow> auctions_ok auctions'"
  by (auto simp: apply_create_def rbind_Ok_iff Let_def intro!: auctions_ok_upd created_auction_ok)

lemma collected_ok:
  "auction_ok a \<Longrightarrow> auction_ok (a\<lparr>da_base_amount_remaining := ts_push 0 t height (da_base_amount_remaining a),
     da_quote_amount := ts_push 0 t height (da_quote_amount a)\<rparr>)"
  by (simp add: auction_ok_def auction_end_def)

lemma apply_collect_ok:
  "auctions_ok auctions \<Longrightarrow> apply_collect E height ft auctions = Ok auctions' \<Longrightarrow> auctions_ok auctions'"
  by (erule apply_collect_Ok) (metis auctions_okD auctions_ok_upd collected_ok)

interpretation bid_op: stepwise "apply_bid E height" auctions_ok for E height
  by unfold_locales (rule apply_bid_ok)

interpretation create_op: stepwise "\<lambda>(ft, p). apply_create E height ft p" auctions_ok for E height
  by unfold_locales (auto intro: apply_create_ok)

interpretation collect_op: stepwise "apply_collect E height" auctions_ok for E height
  by unfold_locales (rule apply_collect_ok)

lemma revert_apply_bid:
  assumes "auctions_ok auctions" "apply_bid E height ft auctions = Ok auctions'"
  shows "revert_bid E ft auctions' = Ok auctions"
  using assms(2)
proof (rule apply_bid_Ok)
  fix b a a' assume b: "dutch_auction_bid ft = (Ok (Some b) :: (DutchAuctionError, _) result)"
    and a: "fmlookup auctions (db_auction_id b) = Some a"
    and assets: "db_asset_receive b = da_base_asset a" "db_asset_spend b = da_quote_asset a"
    and bid: "bid (txid E (ft_transaction ft)) (db_amount_spend b) height a = Ok a'"
    and u: "auctions' = fmupd (db_auction_id b) a' auctions"
  have ok: "auction_ok a" using assms(1) a by (rule auctions_okD)
  show ?thesis
    using a u assets bid_OkD(4,5,6) [OF ok bid]
    by (simp add: revert_bid_def b db.put_put_same db.put_get_same)
qed

lemma revert_apply_create:
  assumes "apply_create E height ft p auctions = Ok auctions'"
    and "fmlookup auctions (txid E (ft_transaction ft)) = None"
  shows "revert_create E ft auctions' = Ok auctions"
  using assms by (auto simp: apply_create_def revert_create_def rbind_Ok_iff Let_def db.del_put_fresh)

lemma revert_apply_collect:
  assumes "auctions_ok auctions" "apply_collect E height ft auctions = Ok auctions'"
  shows "revert_collect E ft auctions' = Ok auctions"
  using assms(2)
proof (rule apply_collect_Ok)
  fix c a assume c: "dutch_auction_collect ft = Some c" and a: "fmlookup auctions (dc_auction_id c) = Some a"
    and am: "dc_amount_offered_remaining c = latest_data (da_base_amount_remaining a)"
      "dc_amount_received c = latest_data (da_quote_amount a)"
    and u: "auctions' = fmupd (dc_auction_id c)
       (a\<lparr>da_base_amount_remaining := ts_push 0 (txid E (ft_transaction ft)) height (da_base_amount_remaining a),
          da_quote_amount := ts_push 0 (txid E (ft_transaction ft)) height (da_quote_amount a)\<rparr>) auctions"
  have "rb_wf (da_base_amount_remaining a)" "rb_wf (da_quote_amount a)"
    using auctions_okD [OF assms(1) a] by (simp_all add: auction_ok_def)
  then show ?thesis
    using a u am by (simp add: revert_collect_def c pop_written_by_def Let_def db.put_put_same db.put_get_same)
qed

text \<open>
  C26: creating, bidding on and collecting an auction keep the invariant of every auction
  in the table.
\<close>

theorem auctions_invariant:
  assumes "auctions_ok auctions"
    and "apply_create E height ft p auctions = Ok auctions' \<or> apply_bid E height ft auctions = Ok auctions' \<or>
      apply_collect E height ft auctions = Ok auctions'"
  shows "auctions_ok auctions'"
  using assms apply_create_ok bid_op.step_inv collect_op.step_inv by metis

text \<open>
  reverting an auction transaction right after applying it restores the table of
  auctions exactly, every history included; a creation needs its auction id, the
  transaction's id, to be unused.
\<close>

lemma auction_revert_apply:
  assumes "auctions_ok auctions"
  shows "(fmlookup auctions (txid E (ft_transaction ft)) = None \<longrightarrow>
      apply_create E height ft p auctions = Ok auctions' \<longrightarrow> revert_create E ft auctions' = Ok auctions) \<and>
    (apply_bid E height ft auctions = Ok auctions' \<longrightarrow> revert_bid E ft auctions' = Ok auctions) \<and>
    (apply_collect E height ft auctions = Ok auctions' \<longrightarrow> revert_collect E ft auctions' = Ok auctions)"
  using assms by (auto intro: revert_apply_create revert_apply_bid revert_apply_collect)

definition demo_create :: FilledTransaction where
  "demo_create = demo_tx [F_BitAsset 1 1000] [C_DutchAuctionReceipt] (Some (DutchAuctionCreate demo_params))"

lemma demo_create_applied:
  "\<exists>auctions'. apply_create demo_externs 5 demo_create demo_params fmempty = Ok auctions'"
  by (simp add: apply_create_def demo_params_def Let_def)

lemma auctions_ok_empty: "auctions_ok fmempty"
  by (simp add: auctions_ok_def)

theorem auctions_invariant_witness:
  "\<exists>auctions'. apply_create demo_externs 5 demo_create demo_params fmempty = Ok auctions' \<and> auctions_ok auctions'"
  using auctions_invariant [OF auctions_ok_empty] demo_create_applied by blast

theorem auction_revert_apply_witness:
  "\<exists>auctions'. apply_create demo_externs 5 demo_create demo_params fmempty = Ok auctions' \<and>
     revert_create demo_externs demo_create auctions' = Ok fmempty"
proof -
  obtain auctions' where "apply_create demo_externs 5 demo_create demo_params fmempty = Ok auctions'"
    using demo_create_applied by blast
  with auction_revert_apply [OF auctions_ok_empty, of demo_externs demo_create 5 demo_params auctions']
  show ?thesis by auto
qed

end
