(* ===== verification/BitAsset_Properties.thy ===== *)
theory BitAsset_Properties
  imports BitAssets Asset_Conservation
begin

text \<open>
  What the BitAsset databases guarantee: the invariant that ties the two sequence tables
  to each other and to the histories, the exact effect of registrations, mints and updates, exact undoing of registrations, mints and updates,
  historical queries that later writes do not disturb, and the range in which sequence
  numbers are assigned correctly.
\<close>

section \<open>The invariant\<close>

definition history_ok :: "BitAssetHistory \<Rightarrow> bool" where
  "history_ok d \<longleftrightarrow>
     rb_wf (bh_commitment d) \<and> rb_wf (bh_socket_addr_v4 d) \<and> rb_wf (bh_socket_addr_v6 d) \<and>
     rb_wf (bh_encryption_pubkey d) \<and> rb_wf (bh_signing_pubkey d) \<and> rb_wf (bh_total_supply d)"

definition dbs_ok :: "Dbs \<Rightarrow> bool" where
  "dbs_ok dbs \<longleftrightarrow>
     (\<forall>b d. fmlookup (bitassets dbs) b = Some d \<longrightarrow> history_ok d) \<and>
     fmdom' (bitassets dbs) = fmdom' (bitasset_to_seq dbs) \<and>
     (\<forall>b s. fmlookup (bitasset_to_seq dbs) b = Some s \<longleftrightarrow> fmlookup (seq_to_bitasset dbs) s = Some b)"

lemma dbs_ok_history: "dbs_ok dbs \<Longrightarrow> fmlookup (bitassets dbs) b = Some d \<Longrightarrow> history_ok d"
  by (simp add: dbs_ok_def)

lemma dbs_ok_upd:
  assumes "dbs_ok dbs" "fmlookup (bitassets dbs) b = Some d" "history_ok d'"
  shows "dbs_ok (dbs\<lparr>bitassets := fmupd b d' (bitassets dbs)\<rparr>)"
  using assms fmdom'I [OF assms(2)] by (auto simp: dbs_ok_def)

lemma apply_field_update_wf: "rb_wf r \<Longrightarrow> rb_wf (apply_field_update u t height r)"
  by (cases u) simp_all

lemma revert_apply_field_update:
  "rb_wf r \<Longrightarrow> revert_field_update u t height (apply_field_update u t height r) = Ok r"
  by (cases u) (simp_all add: pop_exactly_def)

lemma data_apply_updates_ok: "history_ok d \<Longrightarrow> history_ok (data_apply_updates u t height d)"
  by (simp add: history_ok_def data_apply_updates_def apply_field_update_wf)

lemma data_revert_apply_updates:
  "history_ok d \<Longrightarrow> data_revert_updates u t height (data_apply_updates u t height d) = Ok d"
  by (simp add: history_ok_def data_revert_updates_def data_apply_updates_def revert_apply_field_update)

lemma BitAssetData_init_ok [simp]: "history_ok (BitAssetData_init d n t height)"
  by (simp add: history_ok_def BitAssetData_init_def)

section \<open>Updates and mints\<close>

lemma apply_updates_Ok:
  assumes "apply_updates E ft u height dbs = Ok dbs'"
  obtains b d where "updated_bitasset ft = Ok b" "fmlookup (bitassets dbs) b = Some d"
    and "dbs' = dbs\<lparr>bitassets := fmupd b (data_apply_updates u (txid E (ft_transaction ft)) height d) (bitassets dbs)\<rparr>"
  using assms by (auto simp: apply_updates_def get_bitasset_def rbind_Ok_iff)

lemma apply_mint_OkE:
  assumes "bitassets_apply_mint E ft n height dbs = Ok dbs'"
  obtains b d s where "minted_bitasset ft = Ok b" "fmlookup (bitassets dbs) b = Some d"
    and "unat s = unat (ts_data (ts_latest (bh_total_supply d))) + unat n"
    and "dbs' = dbs\<lparr>bitassets := fmupd b
           (d\<lparr>bh_total_supply := ts_push s (txid E (ft_transaction ft)) height (bh_total_supply d)\<rparr>) (bitassets dbs)\<rparr>"
  using assms by (auto simp: bitassets_apply_mint_def get_bitasset_def rbind_Ok_iff checked_add_Some_iff)

lemma apply_updates_ok: "dbs_ok dbs \<Longrightarrow> apply_updates E ft u height dbs = Ok dbs' \<Longrightarrow> dbs_ok dbs'"
  by (erule apply_updates_Ok) (simp add: dbs_ok_upd dbs_ok_history data_apply_updates_ok)

lemma bitassets_apply_mint_ok: "dbs_ok dbs \<Longrightarrow> bitassets_apply_mint E ft n height dbs = Ok dbs' \<Longrightarrow> dbs_ok dbs'"
  by (erule apply_mint_OkE) (auto intro!: dbs_ok_upd dest: dbs_ok_history simp: history_ok_def)

lemma revert_apply_updates:
  assumes ok: "dbs_ok dbs" and ap: "apply_updates E ft u height dbs = Ok dbs'"
  shows "revert_updates E ft u height dbs' = Ok dbs"
  using ap
proof (rule apply_updates_Ok)
  fix b d assume b: "updated_bitasset ft = Ok b" and d: "fmlookup (bitassets dbs) b = Some d"
    and u: "dbs' = dbs\<lparr>bitassets := fmupd b (data_apply_updates u (txid E (ft_transaction ft)) height d) (bitassets dbs)\<rparr>"
  show ?thesis using d
    by (simp add: revert_updates_def get_bitasset_def b u db.put_put_same db.put_get_same
        data_revert_apply_updates dbs_ok_history [OF ok d])
qed

lemma bitassets_revert_apply_mint:
  assumes ok: "dbs_ok dbs" and ap: "bitassets_apply_mint E ft n height dbs = Ok dbs'"
  shows "bitassets_revert_mint ft n dbs' = Ok dbs"
  using ap
proof (rule apply_mint_OkE)
  fix b d s assume b: "minted_bitasset ft = Ok b" and d: "fmlookup (bitassets dbs) b = Some d"
    and s: "unat s = unat (ts_data (ts_latest (bh_total_supply d))) + unat n"
    and u: "dbs' = dbs\<lparr>bitassets := fmupd b
           (d\<lparr>bh_total_supply := ts_push s (txid E (ft_transaction ft)) height (bh_total_supply d)\<rparr>) (bitassets dbs)\<rparr>"
  have "rb_wf (bh_total_supply d)" using dbs_ok_history [OF ok d] by (simp add: history_ok_def)
  moreover have "checked_sub s n = Some (ts_data (ts_latest (bh_total_supply d)))"
    using s by (simp add: checked_sub_Some_iff)
  ultimately show ?thesis using d
    by (simp add: bitassets_revert_mint_def get_bitasset_def b u Let_def db.put_put_same db.put_get_same)
qed

section \<open>Registrations\<close>

text \<open>
  The state is ready for a registration when the name is free, the next sequence number
  is free, and the reservation table agrees with the reservation being burned.
\<close>

definition registration_fits :: "externs \<Rightarrow> FilledTransaction \<Rightarrow> hash \<Rightarrow> Dbs \<Rightarrow> bool" where
  "registration_fits E ft name_hash dbs \<longleftrightarrow>
     fmlookup (bitassets dbs) name_hash = None \<and> fmlookup (bitasset_to_seq dbs) name_hash = None \<and>
     (case next_seq E dbs :: (unit, SeqId) result of Ok s \<Rightarrow> fmlookup (seq_to_bitasset dbs) s = None | _ \<Rightarrow> True) \<and>
     (case implied_reservation_commitment E ft of
        Some c \<Rightarrow> (case burned_reservation c ft of
           Some t \<Rightarrow> fmlookup (reservations dbs) t = None \<or> fmlookup (reservations dbs) t = Some c
         | None \<Rightarrow> True)
      | None \<Rightarrow> True)"

lemma next_seq_cong [simp]: "next_seq E (dbs\<lparr>reservations := r\<rparr>) = next_seq E dbs"
  by (simp add: next_seq_def last_seq_def)

lemma next_seq_cast:
  "next_seq E dbs = (Ok s :: ('e, SeqId) result) \<Longrightarrow> next_seq E dbs = (Ok s :: ('f, SeqId) result)"
  by (auto simp: next_seq_def split: option.splits)

lemma apply_registration_Ok:
  assumes "apply_registration E ft name_hash data n height dbs = Ok dbs'"
  obtains c t s where "implied_reservation_commitment E ft = Some c" "burned_reservation c ft = Some t"
    and "fmlookup (reservations dbs) t \<noteq> None" and "next_seq E dbs = (Ok s :: (BitAssetError, SeqId) result)"
    and "dbs' = \<lparr>bitasset_to_seq = fmupd name_hash s (bitasset_to_seq dbs),
        bitassets = fmupd name_hash (BitAssetData_init data n (txid E (ft_transaction ft)) height) (bitassets dbs),
        reservations = fmdrop t (reservations dbs),
        seq_to_bitasset = fmupd s name_hash (seq_to_bitasset dbs)\<rparr>"
  using assms by (auto simp: apply_registration_def delete_reservation_def rbind_Ok_iff Let_def)

lemma registered_ok:
  assumes ok: "dbs_ok dbs"
    and fresh: "fmlookup (bitasset_to_seq dbs) name_hash = None" "fmlookup (seq_to_bitasset dbs) s = None"
    and u: "dbs' = \<lparr>bitasset_to_seq = fmupd name_hash s (bitasset_to_seq dbs),
        bitassets = fmupd name_hash (BitAssetData_init data n (txid E (ft_transaction ft)) height) (bitassets dbs),
        reservations = fmdrop t (reservations dbs),
        seq_to_bitasset = fmupd s name_hash (seq_to_bitasset dbs)\<rparr>"
  shows "dbs_ok dbs'"
proof -
  from ok have hist: "fmlookup (bitassets dbs) b = Some d \<Longrightarrow> history_ok d" for b d by (rule dbs_ok_history)
  from ok have inv: "fmlookup (bitasset_to_seq dbs) b = Some s' \<longleftrightarrow> fmlookup (seq_to_bitasset dbs) s' = Some b" for b s'
    by (simp add: dbs_ok_def)
  have "fmlookup (bitasset_to_seq dbs) b \<noteq> Some s" "fmlookup (seq_to_bitasset dbs) s' \<noteq> Some name_hash" for b s'
    using inv fresh by (metis option.distinct(1))+
  then show ?thesis using ok hist inv unfolding u dbs_ok_def by (auto split: if_splits)
qed

lemma revert_apply_registration:
  assumes fits: "registration_fits E ft name_hash dbs"
    and ap: "apply_registration E ft name_hash data n height dbs = Ok dbs'"
  shows "revert_registration E ft name_hash dbs' = Ok dbs"
  using ap
proof (rule apply_registration_Ok)
  fix c t s assume c: "implied_reservation_commitment E ft = Some c" and t: "burned_reservation c ft = Some t"
    and r: "fmlookup (reservations dbs) t \<noteq> None" and s: "next_seq E dbs = (Ok s :: (BitAssetError, SeqId) result)"
    and u: "dbs' = \<lparr>bitasset_to_seq = fmupd name_hash s (bitasset_to_seq dbs),
        bitassets = fmupd name_hash (BitAssetData_init data n (txid E (ft_transaction ft)) height) (bitassets dbs),
        reservations = fmdrop t (reservations dbs),
        seq_to_bitasset = fmupd s name_hash (seq_to_bitasset dbs)\<rparr>"
  have "next_seq E dbs = (Ok s :: (unit, SeqId) result)" by (rule next_seq_cast [OF s])
  then have "fmlookup (bitasset_to_seq dbs) name_hash = None" "fmlookup (bitassets dbs) name_hash = None"
    "fmlookup (seq_to_bitasset dbs) s = None" "fmlookup (reservations dbs) t = Some c"
    using fits c t r by (auto simp: registration_fits_def)
  then show ?thesis
    by (simp add: revert_registration_def put_reservation_def c t u db.del_put_fresh db.put_del_present)
qed

interpretation update_op: stepwise "\<lambda>(ft, u). apply_updates E ft u height" dbs_ok for E height
  by unfold_locales (auto intro: apply_updates_ok)

interpretation mint_supply_op: stepwise "\<lambda>(ft, n). bitassets_apply_mint E ft n height" dbs_ok for E height
  by unfold_locales (auto intro: bitassets_apply_mint_ok)

section \<open>Properties\<close>

definition empty_dbs :: Dbs where
  "empty_dbs = \<lparr>bitasset_to_seq = fmempty, bitassets = fmempty, reservations = fmempty, seq_to_bitasset = fmempty\<rparr>"

text \<open>
  reverting a registration that fitted, a mint or an update right after applying it
  restores the BitAsset databases exactly, sequence tables, reservations and histories
  included.
\<close>

lemma bitassets_revert_apply:
  assumes "dbs_ok dbs"
  shows "(registration_fits E ft name_hash dbs \<longrightarrow> apply_registration E ft name_hash data n height dbs = Ok dbs' \<longrightarrow>
      revert_registration E ft name_hash dbs' = Ok dbs) \<and>
    (bitassets_apply_mint E ft n height dbs = Ok dbs' \<longrightarrow> bitassets_revert_mint ft n dbs' = Ok dbs) \<and>
    (apply_updates E ft u height dbs = Ok dbs' \<longrightarrow> revert_updates E ft u height dbs' = Ok dbs)"
  using assms by (auto intro: revert_apply_registration bitassets_revert_apply_mint revert_apply_updates)

definition demo_data :: BitAssetData where
  "demo_data = \<lparr>bd_commitment = Some 5, bd_socket_addr_v4 = None, bd_socket_addr_v6 = None,
     bd_encryption_pubkey = None, bd_signing_pubkey = None\<rparr>"

text \<open>A registration of the name 9 with nonce 2, burning the reservation made by transaction 4.\<close>

definition demo_registration :: FilledTransaction where
  "demo_registration = demo_tx [F_BitAssetReservation 4 11, F_Bitcoin 9]
     [C_Bitcoin 8, C_BitAsset 100, C_BitAssetControl] (Some (BitAssetRegistration 9 2 demo_data 100))"

definition demo_dbs :: Dbs where
  "demo_dbs = empty_dbs\<lparr>reservations := fmupd 4 11 fmempty\<rparr>"

lemma demo_dbs_ok [simp]: "dbs_ok demo_dbs"
  by (simp add: dbs_ok_def demo_dbs_def empty_dbs_def)

lemma demo_registration_burns:
  "implied_reservation_commitment demo_externs demo_registration = Some 11"
  "burned_reservation 11 demo_registration = Some 4"
  by (simp_all add: implied_reservation_commitment_def burned_reservation_def demo_registration_def
      demo_externs_def demo_simps)

lemma demo_next_seq [simp]: "next_seq demo_externs demo_dbs = Ok 0"
proof -
  have "db_last (ext_bincode_u32 demo_externs) (seq_to_bitasset demo_dbs) = None"
    by (simp add: db_last_None_iff demo_dbs_def empty_dbs_def)
  then show ?thesis by (simp add: next_seq_def last_seq_def)
qed

lemma demo_registration_fits: "registration_fits demo_externs demo_registration 9 demo_dbs"
  using demo_next_seq
  by (simp add: registration_fits_def demo_registration_burns) (simp add: demo_dbs_def empty_dbs_def)

lemma demo_registration_applied:
  "\<exists>dbs'. apply_registration demo_externs demo_registration 9 demo_data 100 3 demo_dbs = Ok dbs'"
proof -
  have "fmlookup (reservations demo_dbs) 4 = Some 11" by (simp add: demo_dbs_def)
  then show ?thesis
    by (simp add: apply_registration_def demo_registration_burns delete_reservation_def)
qed

theorem bitassets_revert_apply_witness:
  "\<exists>dbs'. apply_registration demo_externs demo_registration 9 demo_data 100 3 demo_dbs = Ok dbs' \<and>
     revert_registration demo_externs demo_registration 9 dbs' = Ok demo_dbs"
  using bitassets_revert_apply [OF demo_dbs_ok] demo_registration_fits demo_registration_applied by blast

text \<open>
  registering a name that is already registered overwrites its data and sequence
  number, and reverting that second registration deletes the name altogether: afterwards
  the first registration can no longer be reverted (\<open>Missing\<close>).
\<close>

lemma double_registration_not_revertible:
  assumes "apply_registration E ft name_hash data n height dbs = Ok dbs1"
    and "revert_registration E ft name_hash dbs1 = Ok dbs2"
  shows "fmlookup (bitassets dbs2) name_hash = None \<and>
    revert_registration E ft' name_hash dbs2 = Err (BA_Missing name_hash)"
  using assms by (auto simp: revert_registration_def put_reservation_def rbind_Ok_iff)

theorem double_registration_not_revertible_witness:
  "\<exists>dbs1 dbs2. apply_registration demo_externs demo_registration 9 demo_data 100 3 demo_dbs = Ok dbs1 \<and>
     revert_registration demo_externs demo_registration 9 dbs1 = Ok dbs2 \<and>
     revert_registration demo_externs demo_registration 9 dbs2 = Err (BA_Missing 9)"
proof -
  obtain dbs1 where a: "apply_registration demo_externs demo_registration 9 demo_data 100 3 demo_dbs = Ok dbs1"
    using demo_registration_applied by blast
  from revert_apply_registration [OF demo_registration_fits a]
  have r: "revert_registration demo_externs demo_registration 9 dbs1 = Ok demo_dbs" .
  from double_registration_not_revertible [OF a r] a r show ?thesis by blast
qed

section \<open>Historical queries\<close>

lemma at_block_height_field_update:
  "h < height \<Longrightarrow> at_block_height (apply_field_update u t height r) h = at_block_height r h"
  by (cases u) (auto simp: at_block_height_def ts_push_def)

fun update_value :: "'a Update \<Rightarrow> 'a option \<Rightarrow> 'a option" where
  "update_value Delete old = None"
| "update_value Retain old = old"
| "update_value (Set v) old = Some v"

lemma latest_field_update:
  "ts_data (ts_latest (apply_field_update u t height r)) = update_value u (ts_data (ts_latest r))"
  by (cases u) simp_all

text \<open>
  an update applied at a height changes the current data of exactly the updated
  BitAsset, field by field as the update says, and leaves every answer about an earlier
  height as it was.
\<close>

lemma update_preserves_past:
  assumes "apply_updates E ft u height dbs = Ok dbs'"
  shows "(\<forall>b h. h < height \<longrightarrow>
      try_get_bitasset_data_at_block_height b h dbs' = try_get_bitasset_data_at_block_height b h dbs) \<and>
    (\<exists>b old. updated_bitasset ft = Ok b \<and> try_get_current_bitasset_data b dbs = Some old \<and>
      try_get_current_bitasset_data b dbs' = Some
        \<lparr>bd_commitment = update_value (bu_commitment u) (bd_commitment old),
         bd_socket_addr_v4 = update_value (bu_socket_addr_v4 u) (bd_socket_addr_v4 old),
         bd_socket_addr_v6 = update_value (bu_socket_addr_v6 u) (bd_socket_addr_v6 old),
         bd_encryption_pubkey = update_value (bu_encryption_pubkey u) (bd_encryption_pubkey old),
         bd_signing_pubkey = update_value (bu_signing_pubkey u) (bd_signing_pubkey old)\<rparr> \<and>
      (\<forall>b'. b' \<noteq> b \<longrightarrow> try_get_current_bitasset_data b' dbs' = try_get_current_bitasset_data b' dbs))"
  using assms
proof (rule apply_updates_Ok)
  fix b d assume b: "updated_bitasset ft = Ok b" and d: "fmlookup (bitassets dbs) b = Some d"
    and dbs': "dbs' = dbs\<lparr>bitassets := fmupd b (data_apply_updates u (txid E (ft_transaction ft)) height d) (bitassets dbs)\<rparr>"
  have "h < height \<Longrightarrow> try_get_bitasset_data_at_block_height b' h dbs' = try_get_bitasset_data_at_block_height b' h dbs"
    for b' h
    using d by (cases "b' = b") (simp_all add: dbs' try_get_bitasset_data_at_block_height_def data_at_block_height_def
        data_apply_updates_def at_block_height_field_update)
  moreover have "try_get_current_bitasset_data b dbs' = Some
      \<lparr>bd_commitment = update_value (bu_commitment u) (bd_commitment (current d)),
       bd_socket_addr_v4 = update_value (bu_socket_addr_v4 u) (bd_socket_addr_v4 (current d)),
       bd_socket_addr_v6 = update_value (bu_socket_addr_v6 u) (bd_socket_addr_v6 (current d)),
       bd_encryption_pubkey = update_value (bu_encryption_pubkey u) (bd_encryption_pubkey (current d)),
       bd_signing_pubkey = update_value (bu_signing_pubkey u) (bd_signing_pubkey (current d))\<rparr>"
    by (simp add: dbs' try_get_current_bitasset_data_def current_def data_apply_updates_def latest_field_update)
  moreover have "b' \<noteq> b \<Longrightarrow> try_get_current_bitasset_data b' dbs' = try_get_current_bitasset_data b' dbs" for b'
    by (simp add: dbs' try_get_current_bitasset_data_def)
  ultimately show ?thesis using b d by (auto simp: try_get_current_bitasset_data_def)
qed

definition demo_updates :: BitAssetDataUpdates where
  "demo_updates = \<lparr>bu_commitment = Delete, bu_socket_addr_v4 = Retain, bu_socket_addr_v6 = Retain,
     bu_encryption_pubkey = Set 1, bu_signing_pubkey = Retain\<rparr>"

definition demo_update :: FilledTransaction where
  "demo_update = demo_tx [F_BitAssetControl 1, F_BitAsset 9 5] [C_BitAsset 5, C_BitAssetControl]
     (Some (BitAssetUpdate demo_updates))"

theorem update_preserves_past_witness:
  "\<exists>dbs dbs'. apply_updates demo_externs demo_update demo_updates 8 dbs = Ok dbs' \<and>
     try_get_bitasset_data_at_block_height 9 7 dbs' = Some demo_data"
proof -
  define dbs where "dbs = demo_dbs\<lparr>bitassets := fmupd 9 (BitAssetData_init demo_data 100 3 4) fmempty\<rparr>"
  have "updated_bitasset demo_update = Ok 9"
    by (simp add: updated_bitasset_def spent_bitassets_def demo_update_def demo_simps)
  then obtain dbs' where a: "apply_updates demo_externs demo_update demo_updates 8 dbs = Ok dbs'"
    by (simp add: apply_updates_def get_bitasset_def dbs_def)
  have "try_get_bitasset_data_at_block_height 9 7 dbs = Some demo_data"
    by (simp add: try_get_bitasset_data_at_block_height_def dbs_def data_at_block_height_def
        BitAssetData_init_def at_block_height_def ts_new_def demo_data_def)
  moreover have "(7 :: u32) < 8" by simp
  ultimately show ?thesis using update_preserves_past [OF a] a by force
qed

section \<open>Sequence numbers\<close>

lemma le_bytes_4: "le_bytes 4 w = [ucast w, ucast (drop_bit 8 w), ucast (drop_bit 16 w), ucast (drop_bit 24 w)]"
  by (simp add: le_bytes_def numeral_eq_Suc)

lemma unat_ucast_u8: "unat (ucast (w :: u32) :: u8) = unat w mod 256"
  by (simp add: unsigned_ucast_eq take_bit_eq_mod)

lemma le_bytes_4_inj: "inj_on (le_bytes 4 :: u32 \<Rightarrow> u8 list) A"
proof (rule inj_onI)
  fix x y :: u32 assume "le_bytes 4 x = le_bytes 4 y"
  then have "(of_le_bytes (le_bytes 4 x) :: u32) = of_le_bytes (le_bytes 4 y)" by simp
  then show "x = y" by (simp add: of_le_bytes_le_bytes)
qed

lemma le_bytes_4_small: "unat k < 256 \<Longrightarrow> le_bytes 4 (k :: u32) = [ucast k, 0, 0, 0]"
proof -
  assume k: "unat k < 256"
  have "drop_bit n k = 0" if "8 \<le> n" for n
  proof (rule unat_eqI)
    have "(256 :: nat) \<le> 2 ^ n" using power_increasing [OF that, of "2 :: nat"] by simp
    then have "unat k div 2 ^ n = 0" using k by simp
    then have "drop_bit n (unat k) = 0" by (simp only: drop_bit_eq_div)
    then show "unat (drop_bit n k) = unat (0 :: u32)" by (simp add: unat_drop_bit_eq)
  qed
  then show ?thesis by (simp add: le_bytes_4)
qed

lemma le_bytes_4_mono:
  assumes "unat k \<le> 256" "unat m \<le> 255" "unat k \<le> unat m \<or> unat m = 255"
  shows "le_bytes 4 (k :: u32) \<le> le_bytes 4 (m :: u32)"
proof (cases "unat k = 256")
  case True
  have m: "unat m = 255" using assms True by auto
  have "unat (ucast k :: u8) = 256 mod 256" "unat (ucast m :: u8) = 255 mod 256"
    by (simp_all only: unat_ucast_u8 True m)
  then have "(ucast k :: u8) < ucast m" by (simp only: word_less_nat_alt) simp
  then show ?thesis by (simp add: le_bytes_4)
next
  case False
  then have "unat k \<le> unat m" using assms by linarith
  then have "(ucast k :: u8) \<le> ucast m" using assms by (simp add: word_le_nat_alt unat_ucast_u8)
  moreover have "le_bytes 4 k = [ucast k, 0, 0, 0]" "le_bytes 4 m = [ucast m, 0, 0, 0]"
    using False assms by (simp_all add: le_bytes_4_small)
  ultimately show ?thesis by (auto simp: order.order_iff_strict)
qed

text \<open>The numbers below \<open>n\<close> are exactly the assigned sequence numbers.\<close>

definition seqs_below :: "Dbs \<Rightarrow> nat \<Rightarrow> bool" where
  "seqs_below dbs n \<longleftrightarrow> fmdom' (seq_to_bitasset dbs) = {k. unat k < n}"

text \<open>
  The last row, in key order, of a table whose rows are numbered from 0 on: the newest one
  as long as there are at most 256 rows, and row 255 when there are 257 of them.
\<close>

lemma db_last_numbered:
  fixes m :: "(u32, 'v) fmap"
  assumes E: "bincode_little_endian E" and s: "fmdom' m = {k. unat k < n}" and n: "0 < n" "n \<le> 257"
  shows "\<exists>v. fmlookup m (of_nat (min (n - 1) 255)) = Some v \<and>
    db_last (ext_bincode_u32 E) m = Some (of_nat (min (n - 1) 255), v)"
proof -
  let ?m = "of_nat (min (n - 1) 255) :: u32"
  have m: "unat ?m = min (n - 1) 255" using n by (simp add: unat_of_nat)
  then have "?m \<in> fmdom' m" using s n by simp
  then obtain v where v: "fmlookup m ?m = Some v" by (meson fmlookup_dom'_iff)
  have enc: "ext_bincode_u32 E = le_bytes 4" using E by (auto simp: bincode_little_endian_def)
  have "db_last (ext_bincode_u32 E) m = Some (?m, v)"
  proof (rule db_last_eqI [OF _ v])
    show "inj_on (ext_bincode_u32 E) (fmdom' m)" by (simp add: enc le_bytes_4_inj)
    fix k assume "k \<in> fmdom' m"
    then have "unat k < n" using s by simp
    then show "ext_bincode_u32 E k \<le> ext_bincode_u32 E ?m"
      unfolding enc using m n by (intro le_bytes_4_mono) auto
  qed
  with v show ?thesis by blast
qed

lemma numbered_empty: "fmdom' m = {k :: u32. unat k < 0} \<Longrightarrow> m = fmempty"
  by (rule fmap_ext) (simp add: fmdom'_notD)

lemma last_seq_eq:
  assumes "bincode_little_endian E" and "seqs_below dbs n" and "0 < n" "n \<le> 257"
  shows "last_seq E dbs = Some (of_nat (min (n - 1) 255))"
  using db_last_numbered [OF assms(1) _ assms(3,4), of "seq_to_bitasset dbs"] assms(2)
  by (auto simp: last_seq_def seqs_below_def)

text \<open>
  while at most 256 BitAssets are registered under the sequence numbers from 0 on,
  the next registration gets the next number. With 257 of them it gets the number 256
  again, which is taken: the table is ordered by the little-endian bytes of the number,
  so its last entry is number 255.
\<close>

lemma next_seq_assignment:
  assumes "bincode_little_endian E" and "seqs_below dbs n"
  shows "(n \<le> 256 \<longrightarrow> next_seq E dbs = Ok (of_nat n)) \<and>
    (n = 257 \<longrightarrow> next_seq E dbs = Ok 256 \<and> 256 \<in> fmdom' (seq_to_bitasset dbs))"
proof (intro conjI impI)
  assume n: "n \<le> 256"
  show "next_seq E dbs = Ok (of_nat n)"
  proof (cases "n = 0")
    case True
    then have "seq_to_bitasset dbs = fmempty" using assms(2) by (simp add: seqs_below_def numbered_empty)
    then have "last_seq E dbs = None" by (simp add: last_seq_def db_last_None_iff)
    with True show ?thesis by (simp add: next_seq_def)
  next
    case False
    then have "last_seq E dbs = Some (of_nat (n - 1))"
      using last_seq_eq [OF assms] n by (simp add: min_absorb1)
    moreover have "unat (of_nat (n - 1) :: u32) = n - 1" "unat (of_nat n :: u32) = n"
      using n by (simp_all only: unat_of_nat) simp_all
    ultimately show ?thesis using False by (simp only: next_seq_def option.case add_word_Ok_iff) simp
  qed
next
  assume n: "n = 257"
  have "last_seq E dbs = Some (of_nat 255)" using last_seq_eq [OF assms] n by simp
  then show "next_seq E dbs = Ok 256" by (simp add: next_seq_def)
  show "256 \<in> fmdom' (seq_to_bitasset dbs)" using assms(2) n by (simp add: seqs_below_def)
qed

theorem next_seq_assignment_witness:
  "next_seq demo_externs (empty_dbs\<lparr>seq_to_bitasset := fmupd 0 5 fmempty\<rparr>) = Ok 1"
proof -
  have "unat k < 1 \<longleftrightarrow> k = 0" for k :: u32 by (simp add: unat_eq_zero)
  then have "seqs_below (empty_dbs\<lparr>seq_to_bitasset := fmupd 0 5 fmempty\<rparr>) 1"
    by (auto simp: seqs_below_def)
  from next_seq_assignment [OF demo_bincode_little_endian this] show ?thesis by simp
qed

section \<open>What each operation does\<close>

text \<open>What a reader of the databases sees of a BitAsset's supply, and of the coin that is spent last.\<close>

definition current_supply :: "BitAssetId \<Rightarrow> Dbs \<Rightarrow> nat option" where
  "current_supply b dbs = map_option (\<lambda>d. unat (ts_data (ts_latest (bh_total_supply d)))) (fmlookup (bitassets dbs) b)"

definition last_coin :: "(OutPoint \<times> FilledOutput) list \<Rightarrow> FilledContent option" where
  "last_coin coins = (case rev coins of [] \<Rightarrow> None | (_, out) # _ \<Rightarrow> Some (out_content out))"

definition updated_data :: "BitAssetDataUpdates \<Rightarrow> BitAssetData \<Rightarrow> BitAssetData" where
  "updated_data u old =
     \<lparr>bd_commitment = update_value (bu_commitment u) (bd_commitment old),
      bd_socket_addr_v4 = update_value (bu_socket_addr_v4 u) (bd_socket_addr_v4 old),
      bd_socket_addr_v6 = update_value (bu_socket_addr_v6 u) (bd_socket_addr_v6 old),
      bd_encryption_pubkey = update_value (bu_encryption_pubkey u) (bd_encryption_pubkey old),
      bd_signing_pubkey = update_value (bu_signing_pubkey u) (bd_signing_pubkey old)\<rparr>"

text \<open>Nothing but the entries of \<open>b\<close> changes.\<close>

definition others_untouched :: "BitAssetId \<Rightarrow> Dbs \<Rightarrow> Dbs \<Rightarrow> bool" where
  "others_untouched b dbs dbs' \<longleftrightarrow> (\<forall>b'. b' \<noteq> b \<longrightarrow>
     fmlookup (bitassets dbs') b' = fmlookup (bitassets dbs) b' \<and>
     fmlookup (bitasset_to_seq dbs') b' = fmlookup (bitasset_to_seq dbs) b')"

definition numbering_untouched :: "Dbs \<Rightarrow> Dbs \<Rightarrow> bool" where
  "numbering_untouched dbs dbs' \<longleftrightarrow> bitasset_to_seq dbs' = bitasset_to_seq dbs \<and>
     seq_to_bitasset dbs' = seq_to_bitasset dbs \<and> reservations dbs' = reservations dbs"

text \<open>
  A mint adds to the supply of the BitAsset of the last control coin. An update changes the
  data of the BitAsset of the last BitAsset coin, and no answer about an earlier height. A
  registration burns a reservation and gives the name the number \<open>k\<close>, its data and supply.
\<close>

definition mint_effect :: "FilledTransaction \<Rightarrow> u64 \<Rightarrow> Dbs \<Rightarrow> Dbs \<Rightarrow> bool" where
  "mint_effect ft n dbs dbs' \<longleftrightarrow> (\<exists>b supply. last_coin (spent_bitasset_controls ft) = Some (F_BitAssetControl b) \<and>
    current_supply b dbs = Some supply \<and> supply + unat n < 2 ^ 64 \<and> current_supply b dbs' = Some (supply + unat n) \<and>
    try_get_current_bitasset_data b dbs' = try_get_current_bitasset_data b dbs \<and>
    (\<forall>h. try_get_bitasset_data_at_block_height b h dbs' = try_get_bitasset_data_at_block_height b h dbs) \<and>
    others_untouched b dbs dbs' \<and> numbering_untouched dbs dbs')"

definition update_effect :: "FilledTransaction \<Rightarrow> BitAssetDataUpdates \<Rightarrow> u32 \<Rightarrow> Dbs \<Rightarrow> Dbs \<Rightarrow> bool" where
  "update_effect ft u height dbs dbs' \<longleftrightarrow> (\<exists>b v old. last_coin (spent_bitassets ft) = Some (F_BitAsset b v) \<and>
    try_get_current_bitasset_data b dbs = Some old \<and>
    try_get_current_bitasset_data b dbs' = Some (updated_data u old) \<and>
    (\<forall>h<height. try_get_bitasset_data_at_block_height b h dbs' = try_get_bitasset_data_at_block_height b h dbs) \<and>
    current_supply b dbs' = current_supply b dbs \<and> others_untouched b dbs dbs' \<and> numbering_untouched dbs dbs')"

definition registration_effect ::
  "externs \<Rightarrow> FilledTransaction \<Rightarrow> hash \<Rightarrow> BitAssetData \<Rightarrow> u64 \<Rightarrow> nat \<Rightarrow> Dbs \<Rightarrow> Dbs \<Rightarrow> bool" where
  "registration_effect E ft name_hash data n k dbs dbs' \<longleftrightarrow>
    (\<exists>c t. implied_reservation_commitment E ft = Some c \<and> burned_reservation c ft = Some t \<and>
      t \<in> fmdom' (reservations dbs) \<and> reservations dbs' = fmdrop t (reservations dbs)) \<and>
    fmlookup (bitasset_to_seq dbs') name_hash = Some (of_nat k) \<and>
    fmlookup (seq_to_bitasset dbs') (of_nat k) = Some name_hash \<and>
    try_get_current_bitasset_data name_hash dbs' = Some data \<and> current_supply name_hash dbs' = Some (unat n) \<and>
    others_untouched name_hash dbs dbs'"

lemma last_control_coin:
  "minted_bitasset ft = Ok b \<longleftrightarrow> last_coin (spent_bitasset_controls ft) = Some (F_BitAssetControl b)"
proof (cases "rev (spent_bitasset_controls ft)")
  case (Cons coin coins)
  then have "coin \<in> set (spent_bitasset_controls ft)" by (metis list.set_intros(1) set_rev)
  then have "filled_is_bitasset_control (out_content (snd coin))" by (auto simp: spent_bitasset_controls_def)
  then show ?thesis using Cons
    by (cases coin; cases "out_content (snd coin)") (auto simp: minted_bitasset_def last_coin_def)
qed (simp add: minted_bitasset_def last_coin_def)

lemma last_bitasset_coin:
  "updated_bitasset ft = Ok b \<longleftrightarrow> (\<exists>v. last_coin (spent_bitassets ft) = Some (F_BitAsset b v))"
proof (cases "rev (spent_bitassets ft)")
  case (Cons coin coins)
  then have "coin \<in> set (spent_bitassets ft)" by (metis list.set_intros(1) set_rev)
  then have "filled_is_bitasset (out_content (snd coin))" by (auto simp: spent_bitassets_def)
  then show ?thesis using Cons
    by (cases coin; cases "out_content (snd coin)") (auto simp: updated_bitasset_def last_coin_def)
qed (simp add: updated_bitasset_def last_coin_def)

lemma mint_exact:
  assumes "bitassets_apply_mint E ft n height dbs = Ok dbs'"
  shows "mint_effect ft n dbs dbs'"
  using assms
proof (rule apply_mint_OkE)
  fix b d s assume b: "minted_bitasset ft = Ok b" and d: "fmlookup (bitassets dbs) b = Some d"
    and s: "unat s = unat (ts_data (ts_latest (bh_total_supply d))) + unat n"
    and dbs': "dbs' = dbs\<lparr>bitassets := fmupd b
           (d\<lparr>bh_total_supply := ts_push s (txid E (ft_transaction ft)) height (bh_total_supply d)\<rparr>) (bitassets dbs)\<rparr>"
  show ?thesis unfolding mint_effect_def
    using b d s unat_less_pow [of s]
    by (intro exI [of _ b] exI [of _ "unat (ts_data (ts_latest (bh_total_supply d)))"])
      (simp add: last_control_coin current_supply_def dbs' try_get_current_bitasset_data_def current_def
        try_get_bitasset_data_at_block_height_def data_at_block_height_def others_untouched_def numbering_untouched_def)
qed

lemma mint_succeeds_iff_fits:
  assumes "last_coin (spent_bitasset_controls ft) = Some (F_BitAssetControl b)"
    and "current_supply b dbs = Some supply"
  shows "if supply + unat n < 2 ^ 64 then \<exists>dbs2. bitassets_apply_mint E ft n height dbs = Ok dbs2
    else bitassets_apply_mint E ft n height dbs = Err BA_TotalSupplyOverflow"
proof -
  from assms(2) obtain d where d: "fmlookup (bitassets dbs) b = Some d"
    and s: "supply = unat (ts_data (ts_latest (bh_total_supply d)))" by (auto simp: current_supply_def)
  show ?thesis using assms(1) d
    by (simp add: bitassets_apply_mint_def last_control_coin [symmetric] get_bitasset_def s checked_add_def)
qed

lemma update_exact:
  assumes "apply_updates E ft u height dbs = Ok dbs'"
  shows "update_effect ft u height dbs dbs'"
  using assms
proof (rule apply_updates_Ok)
  fix b d assume b: "updated_bitasset ft = Ok b" and d: "fmlookup (bitassets dbs) b = Some d"
    and dbs': "dbs' = dbs\<lparr>bitassets := fmupd b (data_apply_updates u (txid E (ft_transaction ft)) height d) (bitassets dbs)\<rparr>"
  from b obtain v where v: "last_coin (spent_bitassets ft) = Some (F_BitAsset b v)" by (auto simp: last_bitasset_coin)
  have "try_get_current_bitasset_data b dbs' = Some (updated_data u (current d))"
    by (simp add: dbs' try_get_current_bitasset_data_def current_def data_apply_updates_def latest_field_update updated_data_def)
  moreover have "current_supply b dbs' = current_supply b dbs"
    using d by (simp add: dbs' current_supply_def data_apply_updates_def)
  moreover have "try_get_current_bitasset_data b dbs = Some (current d)"
    using d by (simp add: try_get_current_bitasset_data_def)
  moreover have "others_untouched b dbs dbs'" "numbering_untouched dbs dbs'"
    by (simp_all add: dbs' others_untouched_def numbering_untouched_def)
  ultimately show ?thesis unfolding update_effect_def using v update_preserves_past [OF assms] by blast
qed

lemma registration_fits_unused:
  assumes ok: "dbs_ok dbs" and E: "bincode_little_endian E" and k: "seqs_below dbs k" "k \<le> 256"
    and new: "fmlookup (bitassets dbs) name_hash = None"
  shows "next_seq E dbs = (Ok (of_nat k) :: ('e, SeqId) result)" and "fmlookup (bitasset_to_seq dbs) name_hash = None"
    and "fmlookup (seq_to_bitasset dbs) (of_nat k) = None"
proof -
  show "next_seq E dbs = (Ok (of_nat k) :: ('e, SeqId) result)" using next_seq_assignment [OF E k(1)] k(2) by blast
  have "name_hash \<notin> fmdom' (bitasset_to_seq dbs)" using ok new by (metis dbs_ok_def fmdom'_notI)
  then show "fmlookup (bitasset_to_seq dbs) name_hash = None" by (rule fmdom'_notD)
  have "unat (of_nat k :: u32) = k" using k(2) by (simp add: unat_of_nat)
  then have "of_nat k \<notin> fmdom' (seq_to_bitasset dbs)" using k(1) by (simp add: seqs_below_def)
  then show "fmlookup (seq_to_bitasset dbs) (of_nat k) = None" by (rule fmdom'_notD)
qed

lemma registration_exact:
  assumes ok: "dbs_ok dbs" and E: "bincode_little_endian E" and k: "seqs_below dbs k" "k \<le> 256"
    and new: "fmlookup (bitassets dbs) name_hash = None"
    and ap: "apply_registration E ft name_hash data n height dbs = Ok dbs'"
  shows "registration_effect E ft name_hash data n k dbs dbs' \<and> dbs_ok dbs' \<and> seqs_below dbs' (k + 1)"
  using ap
proof (rule apply_registration_Ok)
  fix c t s
  assume c: "implied_reservation_commitment E ft = Some c" and t: "burned_reservation c ft = Some t"
    and r: "fmlookup (reservations dbs) t \<noteq> None" and s: "next_seq E dbs = (Ok s :: (BitAssetError, SeqId) result)"
    and u: "dbs' = \<lparr>bitasset_to_seq = fmupd name_hash s (bitasset_to_seq dbs),
        bitassets = fmupd name_hash (BitAssetData_init data n (txid E (ft_transaction ft)) height) (bitassets dbs),
        reservations = fmdrop t (reservations dbs),
        seq_to_bitasset = fmupd s name_hash (seq_to_bitasset dbs)\<rparr>"
  note fresh = registration_fits_unused [OF ok E k new]
  have sk: "s = of_nat k" using fresh(1) [where 'e = BitAssetError] s by simp
  have uk: "unat (of_nat k :: u32) = k" using k(2) by (simp add: unat_of_nat)
  have "{j :: u32. unat j < k + 1} = insert (of_nat k) {j. unat j < k}"
    using uk by (auto simp: less_Suc_eq word_unat_eq_iff)
  then have "seqs_below dbs' (k + 1)" using k(1) by (simp add: seqs_below_def u sk)
  moreover have "dbs_ok dbs'" by (rule registered_ok [OF ok fresh(2) _ u]) (simp add: sk fresh(3))
  moreover have "try_get_current_bitasset_data name_hash dbs' = Some data" "current_supply name_hash dbs' = Some (unat n)"
    by (simp_all add: u try_get_current_bitasset_data_def current_supply_def BitAssetData_init_def current_def)
  moreover have "t \<in> fmdom' (reservations dbs)" using r by (auto simp: fmlookup_dom'_iff)
  ultimately show ?thesis using c t by (auto simp: registration_effect_def u sk others_untouched_def)
qed

text \<open>
  C27: what the three operations on the BitAsset databases do, in a state whose sequence
  numbers are 0 to k - 1 with k at most 256, the keys being stored little-endian. A mint adds exactly the minted amount to the
  supply of the BitAsset of the last control coin spent, and is refused exactly when the sum
  does not fit 64 bits; an update changes the current data of the BitAsset of the last BitAsset
  coin spent (not that of the control coin), field by field, and no answer about an earlier
  height; a registration of a name that is not registered burns a reservation made for it
  and gives it the number k, its data and its supply. Nothing else in the databases
  changes, and the invariant holds afterwards: every history is non-empty, exactly the
  registered names have one, the two sequence tables are inverse and the numbers in use are
  the first ones. Excluded are the second registration of a name and numbers beyond 256,
  where the code goes wrong.
\<close>

theorem bitasset_operations_exact:
  assumes "dbs_ok dbs" and "bincode_little_endian E" and "seqs_below dbs k" and "k \<le> 256"
  shows "(bitassets_apply_mint E ft n height dbs = Ok dbs' \<longrightarrow>
      mint_effect ft n dbs dbs' \<and> dbs_ok dbs' \<and> seqs_below dbs' k) \<and>
    (last_coin (spent_bitasset_controls ft) = Some (F_BitAssetControl b) \<longrightarrow> current_supply b dbs = Some supply \<longrightarrow>
      (if supply + unat n < 2 ^ 64 then \<exists>dbs2. bitassets_apply_mint E ft n height dbs = Ok dbs2
       else bitassets_apply_mint E ft n height dbs = Err BA_TotalSupplyOverflow)) \<and>
    (apply_updates E ft u height dbs = Ok dbs' \<longrightarrow>
      update_effect ft u height dbs dbs' \<and> dbs_ok dbs' \<and> seqs_below dbs' k) \<and>
    (apply_registration E ft name_hash data n height dbs = Ok dbs' \<longrightarrow> fmlookup (bitassets dbs) name_hash = None \<longrightarrow>
      registration_effect E ft name_hash data n k dbs dbs' \<and> dbs_ok dbs' \<and> seqs_below dbs' (k + 1))"
proof (intro conjI impI)
  assume m: "bitassets_apply_mint E ft n height dbs = Ok dbs'"
  show "mint_effect ft n dbs dbs'" by (rule mint_exact [OF m])
  then show "seqs_below dbs' k" using assms(3) by (auto simp: mint_effect_def seqs_below_def numbering_untouched_def)
  show "dbs_ok dbs'" using assms(1) m mint_supply_op.step_inv [of dbs E height "(ft, n)"] by simp
next
  assume a: "apply_updates E ft u height dbs = Ok dbs'"
  show "update_effect ft u height dbs dbs'" by (rule update_exact [OF a])
  then show "seqs_below dbs' k" using assms(3) by (auto simp: update_effect_def seqs_below_def numbering_untouched_def)
  show "dbs_ok dbs'" using assms(1) a update_op.step_inv [of dbs E height "(ft, u)"] by simp
next
  assume a: "apply_registration E ft name_hash data n height dbs = Ok dbs'" and new: "fmlookup (bitassets dbs) name_hash = None"
  from registration_exact [OF assms new a]
  show "registration_effect E ft name_hash data n k dbs dbs'" "dbs_ok dbs'" "seqs_below dbs' (k + 1)" by blast+
qed (rule mint_succeeds_iff_fits)

definition demo_mint :: FilledTransaction where
  "demo_mint = demo_tx [F_BitAssetControl 9, F_Bitcoin 4] [C_BitAsset 50, C_BitAssetControl] (Some (BitAssetMint 50))"

theorem bitasset_operations_exact_witness:
  "\<exists>dbs1 dbs2. apply_registration demo_externs demo_registration 9 demo_data 100 3 demo_dbs = Ok dbs1 \<and>
     bitassets_apply_mint demo_externs demo_mint 50 4 dbs1 = Ok dbs2 \<and> seqs_below dbs2 1 \<and>
     current_supply 9 dbs2 = Some 150"
proof -
  have s0: "seqs_below demo_dbs 0" by (simp add: seqs_below_def demo_dbs_def empty_dbs_def)
  obtain dbs1 where a: "apply_registration demo_externs demo_registration 9 demo_data 100 3 demo_dbs = Ok dbs1"
    using demo_registration_applied by blast
  have new: "fmlookup (bitassets demo_dbs) 9 = None" by (simp add: demo_dbs_def empty_dbs_def)
  have r: "registration_effect demo_externs demo_registration 9 demo_data 100 0 demo_dbs dbs1" "dbs_ok dbs1" "seqs_below dbs1 1"
    using bitasset_operations_exact [OF demo_dbs_ok demo_bincode_little_endian s0] a new by simp_all
  then have s: "current_supply 9 dbs1 = Some 100" by (simp add: registration_effect_def)
  then obtain d where d: "fmlookup (bitassets dbs1) 9 = Some d" "unat (ts_data (ts_latest (bh_total_supply d))) = 100"
    by (auto simp: current_supply_def)
  have "minted_bitasset demo_mint = Ok 9"
    by (simp add: minted_bitasset_def demo_mint_def demo_simps)
  then obtain dbs2 where m: "bitassets_apply_mint demo_externs demo_mint 50 4 dbs1 = Ok dbs2"
    using d by (simp add: bitassets_apply_mint_def get_bitasset_def checked_add_def)
  have e: "mint_effect demo_mint 50 dbs1 dbs2" "seqs_below dbs2 1"
    using bitasset_operations_exact [OF r(2) demo_bincode_little_endian r(3)] m by simp_all
  moreover have "last_coin (spent_bitasset_controls demo_mint) = Some (F_BitAssetControl 9)"
    by (simp add: last_coin_def demo_mint_def demo_simps)
  ultimately show ?thesis using a m s by (auto simp: mint_effect_def)
qed

end
