(* ===== verification/Block_Undo.thy ===== *)
theory Block_Undo
  imports Block_Refinement Amm_Properties Auction_Properties BitAsset_Properties
begin

text \<open>
  Disconnecting the tip undoes connecting it. A transaction fits a state when its inputs
  and outputs are new to the STXO and UTXO tables and its payload creates only new
  entries; connecting it there and disconnecting it again restores the state exactly.
  The step is an instance of the interface \<open>reversible\<close>, whose lemma lifts it to the
  transactions of a block.
\<close>

section \<open>Payloads\<close>

definition payload_fits :: "externs \<Rightarrow> FilledTransaction \<Rightarrow> State \<Rightarrow> bool" where
  "payload_fits E ft st \<longleftrightarrow>
     pools_ok (st_amm_pools st) \<and> auctions_ok (st_dutch_auctions st) \<and> dbs_ok (st_bitassets st) \<and>
     (\<forall>p\<in>fmran' (st_amm_pools st). creation_txid p \<noteq> txid E (ft_transaction ft)) \<and>
     fmlookup (st_dutch_auctions st) (txid E (ft_transaction ft)) = None \<and>
     fmlookup (reservations (st_bitassets st)) (txid E (ft_transaction ft)) = None \<and>
     (case tx_data (ft_transaction ft) of
        Some (BitAssetRegistration name_hash _ _ _) \<Rightarrow> registration_fits E ft name_hash (st_bitassets st)
      | _ \<Rightarrow> True)"

lemma revert_apply_payload:
  assumes fits: "payload_fits E ft st" and ap: "apply_payload E height ft st = Ok st'"
  shows "revert_payload E height ft st' = Ok st"
proof -
  have pools: "pools_ok (st_amm_pools st)" and aucs: "auctions_ok (st_dutch_auctions st)"
    and dbs: "dbs_ok (st_bitassets st)"
    and pfresh: "\<And>pr p. fmlookup (st_amm_pools st) pr = Some p \<Longrightarrow> creation_txid p \<noteq> txid E (ft_transaction ft)"
    and afresh: "fmlookup (st_dutch_auctions st) (txid E (ft_transaction ft)) = None"
    and rfresh: "fmlookup (reservations (st_bitassets st)) (txid E (ft_transaction ft)) = None"
    using fits by (auto simp: payload_fits_def fmran'I)
  have mint: "apply_mint E ft (st_amm_pools st) = Ok x \<Longrightarrow> revert_mint E ft x = Ok (st_amm_pools st)" for x
    by (rule revert_apply_mint [OF _ pfresh])
  show ?thesis
  proof (cases "tx_data (ft_transaction ft)")
    case None
    with ap show ?thesis by (simp add: apply_payload_def revert_payload_def)
  next
    case (Some data)
    show ?thesis
    proof (cases data)
      case (BitAssetRegistration name_hash nonce bd initial_supply)
      then have "registration_fits E ft name_hash (st_bitassets st)"
        using fits Some by (simp add: payload_fits_def)
      with ap Some BitAssetRegistration show ?thesis
        by (auto simp: apply_payload_def revert_payload_def lift_bitassets_def rbind_Ok_iff
            dest!: revert_apply_registration)
    next
      case (BitAssetReservation commitment)
      have "st_bitassets st = (st_bitassets st)\<lparr>reservations := reservations (st_bitassets st)\<rparr>" by simp
      with ap Some BitAssetReservation rfresh show ?thesis
        by (auto simp: apply_payload_def revert_payload_def put_reservation_def delete_reservation_def db.del_put_fresh)
    qed (use ap Some pools aucs dbs afresh mint in
        \<open>auto simp: apply_payload_def revert_payload_def lift_amm_def lift_bitassets_def lift_auctions_def rbind_Ok_iff
          revert_apply_burn revert_apply_swap revert_apply_bid revert_apply_collect revert_apply_create
          revert_apply_updates bitassets_revert_apply_mint\<close>)
  qed
qed

section \<open>Coins\<close>

lemma delete_utxos:
  assumes "distinct ops" and "\<And>op. op \<in> set ops \<Longrightarrow> fmlookup (st_utxos st) (from_outpoint op) \<noteq> None"
  shows "try_fold delete_utxo ops st
    = Ok (set_coins (db.del_all (map from_outpoint ops) (st_utxos st)) (st_stxos st) st)"
  using assms
proof (induction ops arbitrary: st)
  case Nil
  then show ?case by (simp add: db.del_all_def)
next
  case (Cons op ops)
  let ?st = "set_coins (fmdrop (from_outpoint op) (st_utxos st)) (st_stxos st) st"
  have "delete_utxo op st = Ok ?st" using Cons.prems(2) [of op] by (simp add: delete_utxo_def set_coins_def)
  moreover have "try_fold delete_utxo ops ?st
      = Ok (set_coins (db.del_all (map from_outpoint ops) (st_utxos ?st)) (st_stxos ?st) ?st)"
    by (rule Cons.IH) (use Cons.prems in auto)
  ultimately show ?case by (simp add: db.del_all_def)
qed

lemma unspend_all:
  assumes "list_all2 (\<lambda>input so. fmlookup (st_stxos st) (from_outpoint input) = Some so) inputs sos"
    and "distinct inputs"
  shows "try_fold unspend inputs st
    = Ok (set_coins (db.put_all (map2 (\<lambda>input so. (from_outpoint input, so_output so)) inputs sos) (st_utxos st))
        (db.del_all (map from_outpoint inputs) (st_stxos st)) st)"
  using assms
proof (induction inputs arbitrary: sos st)
  case Nil
  then show ?case by (simp add: db.del_all_def db.put_all_def)
next
  case (Cons input inputs)
  then obtain so sos' where o: "sos = so # sos'" "fmlookup (st_stxos st) (from_outpoint input) = Some so"
    "list_all2 (\<lambda>input so. fmlookup (st_stxos st) (from_outpoint input) = Some so) inputs sos'"
    by (auto simp: list_all2_Cons1)
  let ?st = "set_coins (fmupd (from_outpoint input) (so_output so) (st_utxos st))
     (fmdrop (from_outpoint input) (st_stxos st)) st"
  have s: "unspend input st = Ok ?st"
    using o(2) by (simp add: unspend_def Let_def set_coins_def)
  have "list_all2 (\<lambda>input so. fmlookup (st_stxos ?st) (from_outpoint input) = Some so) inputs sos'"
    using o(3) Cons.prems(2) by (auto simp: list_all2_conv_all_nth in_set_conv_nth)
  from Cons.IH [OF this] Cons.prems(2) show ?case
    by (simp add: s o(1) db.del_all_def db.put_all_def)
qed

text \<open>What the STXO table must hold of a connected transaction.\<close>

definition stxos_record :: "externs \<Rightarrow> FilledTransaction \<Rightarrow> State \<Rightarrow> bool" where
  "stxos_record E ft st \<longleftrightarrow> (\<forall>(k, so)\<in>set (spent_rows E ft). fmlookup (st_stxos st) k = Some so)"

lemma spent_rows_nth:
  assumes "length (ft_spent_utxos ft) = length (tx_inputs (ft_transaction ft))" "i < length (tx_inputs (ft_transaction ft))"
  shows "spent_rows E ft ! i = (from_outpoint (tx_inputs (ft_transaction ft) ! i),
     \<lparr>so_output = ft_spent_utxos ft ! i, so_inpoint = IpRegular (txid E (ft_transaction ft)) (of_nat i)\<rparr>)"
    and "length (spent_rows E ft) = length (tx_inputs (ft_transaction ft))"
  using assms by (simp_all add: spent_rows_def spent_inputs_def nth_enumerate_eq)

lemma fill_from_stxos:
  assumes len: "length (ft_spent_utxos ft) = length (tx_inputs (ft_transaction ft))" and r: "stxos_record E ft st"
  shows "fill_transaction_from_stxos E st (ft_transaction ft) = Ok ft"
proof -
  let ?tx = "ft_transaction ft"
  let ?f = "\<lambda>(vin, input).
         rbind (ok_or (E_NoStxo input) (fmlookup (st_stxos st) (from_outpoint input))) (\<lambda>stxo.
         rbind (assert_that (so_inpoint stxo = IpRegular (txid E ?tx) (of_nat vin))) (\<lambda>_.
           Ok (so_output stxo)))"
  have "list_all2 (\<lambda>x y. ?f x = Ok y) (enumerate 0 (tx_inputs ?tx)) (ft_spent_utxos ft)"
  proof (rule list_all2_all_nthI)
    fix i assume "i < length (enumerate 0 (tx_inputs ?tx))"
    then have i: "i < length (tx_inputs ?tx)" by simp
    then have "spent_rows E ft ! i \<in> set (spent_rows E ft)"
      using spent_rows_nth(2) [OF len i] by simp
    then have "fmlookup (st_stxos st) (from_outpoint (tx_inputs ?tx ! i))
        = Some \<lparr>so_output = ft_spent_utxos ft ! i, so_inpoint = IpRegular (txid E ?tx) (of_nat i)\<rparr>"
      using r by (auto simp: stxos_record_def spent_rows_nth(1) [OF len i])
    with i show "?f (enumerate 0 (tx_inputs ?tx) ! i) = Ok (ft_spent_utxos ft ! i)"
      by (simp add: nth_enumerate_eq)
  qed (simp add: len)
  then have "list_all2 (\<lambda>x y. ?f x = Ok y) (rev (enumerate 0 (tx_inputs ?tx))) (rev (ft_spent_utxos ft))"
    by (simp add: list_all2_rev)
  then have m: "try_map ?f (rev (enumerate 0 (tx_inputs ?tx))) = Ok (rev (ft_spent_utxos ft))"
    by (simp only: try_map_Ok_iff)
  show ?thesis unfolding fill_transaction_from_stxos_def m by simp
qed

section \<open>One transaction\<close>

definition tx_fits :: "externs \<Rightarrow> Transaction \<Rightarrow> State \<Rightarrow> bool" where
  "tx_fits E tx st \<longleftrightarrow>
     distinct (tx_inputs tx) \<and> (\<forall>input\<in>set (tx_inputs tx). fmlookup (st_stxos st) (from_outpoint input) = None) \<and>
     distinct (tx_outpoints E tx) \<and> (\<forall>op\<in>set (tx_outpoints E tx). fmlookup (st_utxos st) (from_outpoint op) = None) \<and>
     (case fill_transaction st tx of Ok ft \<Rightarrow> payload_fits E ft st | _ \<Rightarrow> True)"

lemma connect_tx_Ok:
  assumes "connect_tx E height tx st = Ok st'" and "distinct (tx_inputs tx)"
  obtains ft outs s where "fill_transaction st tx = Ok ft" and "require_filled_outputs E ft = Ok outs"
    and "apply_payload E height ft st = Ok s"
    and "st' = set_coins (db.put_all (output_rows (txid E tx) outs)
           (db.del_all (map from_outpoint (tx_inputs tx)) (st_utxos st)))
         (db.put_all (spent_rows E ft) (st_stxos st)) s"
proof -
  from assms(1) obtain ft where f: "fill_transaction st tx = Ok ft"
    by (auto simp: connect_tx_def rbind_Ok_iff)
  from assms(1) obtain outs where o: "require_filled_outputs E ft = Ok outs"
    by (auto simp: connect_tx_def f spend_inputs [OF f assms(2)] rbind_Ok_iff)
  from assms(1) show ?thesis
    by (auto simp: connect_tx_def f spend_inputs [OF f assms(2)] o apply_payload_coins rbind_Ok_iff intro: that [OF f o])
qed

lemma spent_rows_lookup:
  assumes "fill_transaction st tx = Ok ft" and "distinct (tx_inputs tx)" and "(k, so) \<in> set (spent_rows E ft)"
  shows "fmlookup (db.put_all (spent_rows E ft) m) k = Some so"
proof -
  have "distinct (map fst (spent_rows E ft))"
    using assms(2) by (simp add: spent_rows_keys [OF assms(1)] distinct_map inj_from_outpoint)
  with assms(3) show ?thesis by (simp add: db.get_put_all_distinct map_of_eq_Some_iff)
qed

lemma fill_length:
  "fill_transaction st tx = Ok ft \<Longrightarrow> length (ft_spent_utxos ft) = length (tx_inputs (ft_transaction ft))"
  by (simp add: fill_transaction_Ok)

lemma stxos_recorded:
  assumes "fill_transaction st tx = Ok ft" and "distinct (tx_inputs tx)"
  shows "stxos_record E ft (set_coins u (db.put_all (spent_rows E ft) m) s)"
  using spent_rows_lookup [OF assms] by (auto simp: stxos_record_def)

text \<open>Taking the inputs of a transaction back from the STXO table.\<close>

lemma unspend_inputs:
  assumes fill: "fill_transaction st tx = Ok ft" and d: "distinct (tx_inputs tx)"
    and fresh: "\<forall>input\<in>set (tx_inputs tx). fmlookup (st_stxos st) (from_outpoint input) = None"
  shows "try_fold unspend (rev (tx_inputs tx))
      (set_coins (db.del_all (map from_outpoint (tx_inputs tx)) (st_utxos st)) (db.put_all (spent_rows E ft) (st_stxos st)) st)
    = Ok st"
proof -
  let ?ks = "map from_outpoint (tx_inputs tx)"
  let ?X = "db.put_all (spent_rows E ft) (st_stxos st)"
  let ?s = "set_coins (db.del_all ?ks (st_utxos st)) ?X st"
  let ?sos = "map snd (spent_rows E ft)"
  let ?rows = "map2 (\<lambda>input so. (from_outpoint input, so_output so)) (rev (tx_inputs tx)) (rev ?sos)"
  have tx: "ft_transaction ft = tx" by (rule fill_transaction_Ok(1) [OF fill])
  note nth = spent_rows_nth [OF fill_length [OF fill], unfolded tx]
  have len: "length (spent_rows E ft) = length (tx_inputs tx)"
    using arg_cong [OF spent_rows_keys [OF fill], of length] by simp
  have "list_all2 (\<lambda>input so. fmlookup ?X (from_outpoint input) = Some so) (tx_inputs tx) ?sos"
  proof (rule list_all2_all_nthI)
    fix i assume i: "i < length (tx_inputs tx)"
    then have "(from_outpoint (tx_inputs tx ! i), snd (spent_rows E ft ! i)) \<in> set (spent_rows E ft)"
      using nth_mem [of i "spent_rows E ft"] len by (simp add: nth)
    then show "fmlookup ?X (from_outpoint (tx_inputs tx ! i)) = Some (?sos ! i)"
      using spent_rows_lookup [OF fill d] i len by simp
  qed (simp add: len)
  then have "list_all2 (\<lambda>input so. fmlookup (st_stxos ?s) (from_outpoint input) = Some so) (rev (tx_inputs tx)) (rev ?sos)"
    by (simp only: list_all2_rev set_coins_sel)
  then have "try_fold unspend (rev (tx_inputs tx)) ?s
      = Ok (set_coins (db.put_all ?rows (db.del_all ?ks (st_utxos st))) (db.del_all (rev ?ks) ?X) st)"
    using unspend_all [of ?s "rev (tx_inputs tx)" "rev ?sos"] d
    by (simp only: set_coins_sel set_coins_upd rev_map distinct_rev)
  moreover have "db.put_all ?rows (db.del_all ?ks (st_utxos st)) = st_utxos st"
  proof (rule db.put_all_del_all)
    have "map fst ?rows = map from_outpoint (map fst (zip (rev (tx_inputs tx)) (rev ?sos)))"
      by (simp add: comp_def case_prod_unfold)
    also have "\<dots> = rev ?ks" using len by (simp only: map_fst_zip length_rev length_map rev_map)
    finally have "map fst ?rows = rev ?ks" .
    then show "set ?ks = fst ` set ?rows" by (metis image_set set_rev)
    fix k v assume "(k, v) \<in> set ?rows"
    then obtain i where "i < length (tx_inputs tx)" "k = from_outpoint (tx_inputs tx ! i)" "v = so_output (?sos ! i)"
      by (auto simp: zip_rev len in_set_zip)
    then show "fmlookup (st_utxos st) k = Some v"
      using list_all2_nthD [OF fill_transaction_Ok(3) [OF fill]] len by (simp add: nth)
  qed
  moreover have "db.del_all (rev ?ks) ?X = st_stxos st"
    using fresh arg_cong [OF spent_rows_keys [OF fill, of E], of set]
    by (intro db.del_all_put_all) auto
  ultimately show ?thesis by simp
qed

lemma revert_connect_tx:
  assumes fits: "tx_fits E tx st" and c: "connect_tx E height tx st = Ok st'"
  shows "disconnect_tx E height tx st' = Ok st"
proof -
  have di: "distinct (tx_inputs tx)" and si: "\<forall>input\<in>set (tx_inputs tx). fmlookup (st_stxos st) (from_outpoint input) = None"
    and do: "distinct (tx_outpoints E tx)" and uo: "\<forall>op\<in>set (tx_outpoints E tx). fmlookup (st_utxos st) (from_outpoint op) = None"
    using fits by (simp_all add: tx_fits_def)
  from c di obtain ft outs s where fill: "fill_transaction st tx = Ok ft" and outs: "require_filled_outputs E ft = Ok outs"
    and ap: "apply_payload E height ft st = Ok s"
    and st': "st' = set_coins (db.put_all (output_rows (txid E tx) outs)
           (db.del_all (map from_outpoint (tx_inputs tx)) (st_utxos st)))
         (db.put_all (spent_rows E ft) (st_stxos st)) s"
    by (rule connect_tx_Ok)
  let ?D = "db.del_all (map from_outpoint (tx_inputs tx)) (st_utxos st)"
  let ?U = "db.put_all (output_rows (txid E tx) outs) ?D" and ?X = "db.put_all (spent_rows E ft) (st_stxos st)"
  have tx: "ft_transaction ft = tx" by (rule fill_transaction_Ok(1) [OF fill])
  have "length outs = length (tx_outputs tx)"
    using require_filled_outputs_erase [OF outs] tx by (metis length_map)
  then have keys: "fst ` set (output_rows (txid E tx) outs) = set (map from_outpoint (tx_outpoints E tx))"
    using arg_cong [OF output_rows_keys [of "txid E tx" outs], of set] by (simp add: tx_outpoints_def)
  have f: "fill_transaction_from_stxos E st' tx = Ok ft"
    using fill_from_stxos [OF fill_length [OF fill] stxos_recorded [OF fill di]] by (simp add: st' tx)
  have "payload_fits E ft st" using fits fill by (simp add: tx_fits_def)
  then have r: "revert_payload E height ft st' = Ok (set_coins ?U ?X st)"
    by (simp add: st' revert_payload_coins revert_apply_payload [OF _ ap])
  have "try_fold delete_utxo (rev (tx_outpoints E tx)) (set_coins ?U ?X st)
      = Ok (set_coins (db.del_all (map from_outpoint (rev (tx_outpoints E tx))) ?U) ?X st)"
    using delete_utxos [of "rev (tx_outpoints E tx)" "set_coins ?U ?X st"] do keys
    by (fastforce simp: db.get_put_all map_of_eq_None_iff split: option.splits)
  also have "db.del_all (map from_outpoint (rev (tx_outpoints E tx))) ?U = ?D"
    by (rule db.del_all_put_all) (use keys uo in \<open>auto simp: db.get_del_all\<close>)
  finally show ?thesis
    by (simp add: disconnect_tx_def f r tx_outpoints_def unspend_inputs [OF fill di si])
qed

interpretation tx_op: reversible "connect_tx E height" "disconnect_tx E height" "tx_fits E"
  for E height
  by unfold_locales (rule revert_connect_tx)

section \<open>A block\<close>

definition coinbase_outpoints :: "externs \<Rightarrow> Header \<Rightarrow> Body \<Rightarrow> OutPoint list" where
  "coinbase_outpoints E header body =
     map (coinbase_outpoint E header) [0..<length (cb_outputs (bo_coinbase body))]"

fun txs_fit :: "externs \<Rightarrow> u32 \<Rightarrow> Transaction list \<Rightarrow> State \<Rightarrow> bool" where
  "txs_fit E height [] st = True"
| "txs_fit E height (tx # txs) st =
     (tx_fits E tx st \<and> (case connect_tx E height tx st of Ok st' \<Rightarrow> txs_fit E height txs st' | _ \<Rightarrow> True))"

lemma txs_fit_fits_all: "txs_fit E height txs st \<longleftrightarrow> tx_op.fits_all E height txs st"
  by (induction txs arbitrary: st) (auto split: result.splits)

text \<open>
  A block fits a state when its coinbase outpoints are new and each of its transactions
  fits the state it is applied to.
\<close>

definition block_fits :: "externs \<Rightarrow> Header \<Rightarrow> Body \<Rightarrow> State \<Rightarrow> bool" where
  "block_fits E header body st \<longleftrightarrow>
     distinct (coinbase_outpoints E header body) \<and>
     (\<forall>op\<in>set (coinbase_outpoints E header body). fmlookup (st_utxos st) (from_outpoint op) = None) \<and>
     (case (next_height st :: (Error, u32) result, try_map (coinbase_row E header) (enumerate 0 (cb_outputs (bo_coinbase body)))) of
        (Ok height, Ok rows) \<Rightarrow>
          txs_fit E height (bo_transactions body) (st\<lparr>st_utxos := db.put_all rows (st_utxos st)\<rparr>)
      | _ \<Rightarrow> True)"

lemma connect_tx_keeps_stxos:
  assumes "tx_fits E tx st" and "connect_tx E height tx st = Ok st'" and "fmlookup (st_stxos st) k = Some so"
  shows "fmlookup (st_stxos st') k = Some so"
proof -
  have d: "distinct (tx_inputs tx)" and fresh: "\<forall>input\<in>set (tx_inputs tx). fmlookup (st_stxos st) (from_outpoint input) = None"
    using assms(1) by (simp_all add: tx_fits_def)
  from assms(2) d obtain ft u s where fill: "fill_transaction st tx = Ok ft"
    and st': "st' = set_coins u (db.put_all (spent_rows E ft) (st_stxos st)) s" by (rule connect_tx_Ok)
  have "k \<notin> set (map fst (spent_rows E ft))"
    unfolding spent_rows_keys [OF fill] using fresh assms(3) by auto
  then have "map_of (rev (spent_rows E ft)) k = None" by (simp add: map_of_eq_None_iff)
  with assms(3) show ?thesis by (simp add: st' db.get_put_all)
qed

lemma connect_txs_keep_stxos:
  assumes "txs_fit E height txs st" and "try_fold (connect_tx E height) txs st = Ok st'" and "fmlookup (st_stxos st) k = Some so"
  shows "fmlookup (st_stxos st') k = Some so"
  using assms
proof (induction txs arbitrary: st)
  case (Cons tx txs)
  then obtain st1 where "connect_tx E height tx st = Ok st1" "try_fold (connect_tx E height) txs st1 = Ok st'"
    by (auto simp: rbind_Ok_iff)
  with Cons.prems connect_tx_keeps_stxos [of E tx st height st1] show ?case by (auto intro: Cons.IH)
qed simp

text \<open>A coin of the state before the block is where it was, or it has been spent.\<close>

definition coins_tracked :: "State \<Rightarrow> State \<Rightarrow> bool" where
  "coins_tracked st0 st \<longleftrightarrow> (\<forall>k out. fmlookup (st_utxos st0) k = Some out \<longrightarrow>
     fmlookup (st_utxos st) k = Some out \<or> fmlookup (st_stxos st) k \<noteq> None)"

lemma coins_trackedD:
  assumes "coins_tracked st0 st" and "fmlookup (st_utxos st0) k = Some out" and "fmlookup (st_stxos st) k = None"
  shows "fmlookup (st_utxos st) k = Some out"
  using assms by (simp add: coins_tracked_def) (metis option.distinct(1))

lemma connect_tx_tracks:
  assumes "coins_tracked st0 st" and fits: "tx_fits E tx st" and c: "connect_tx E height tx st = Ok st'"
  shows "coins_tracked st0 st'"
  unfolding coins_tracked_def
proof (intro allI impI)
  fix k out assume k: "fmlookup (st_utxos st0) k = Some out"
  have d: "distinct (tx_inputs tx)" using fits by (simp add: tx_fits_def)
  from c d obtain ft outs s where fill: "fill_transaction st tx = Ok ft" and outs: "require_filled_outputs E ft = Ok outs"
    and st': "st' = set_coins (db.put_all (output_rows (txid E tx) outs)
           (db.del_all (map from_outpoint (tx_inputs tx)) (st_utxos st))) (db.put_all (spent_rows E ft) (st_stxos st)) s"
    by (rule connect_tx_Ok)
  show "fmlookup (st_utxos st') k = Some out \<or> fmlookup (st_stxos st') k \<noteq> None"
  proof (cases "fmlookup (st_stxos st) k \<noteq> None \<or> k \<in> set (map fst (spent_rows E ft))")
    case True
    then have "map_of (rev (spent_rows E ft)) k \<noteq> None \<or> fmlookup (st_stxos st) k \<noteq> None"
      by (auto simp: map_of_eq_None_iff)
    then show ?thesis by (auto simp: st' db.get_put_all split: option.splits)
  next
    case False
    then have u: "fmlookup (st_utxos st) k = Some out" using coins_trackedD [OF assms(1) k] by simp
    have "length outs = length (tx_outputs tx)"
      using require_filled_outputs_erase [OF outs] fill_transaction_Ok(1) [OF fill] by (metis length_map)
    then have "set (map fst (output_rows (txid E tx) outs)) = set (map from_outpoint (tx_outpoints E tx))"
      by (simp only: output_rows_keys tx_outpoints_def)
    then have "k \<notin> set (map fst (output_rows (txid E tx) outs))" using fits u by (auto simp: tx_fits_def)
    then have "map_of (rev (output_rows (txid E tx) outs)) k = None" by (simp add: map_of_eq_None_iff)
    moreover have "k \<notin> set (map from_outpoint (tx_inputs tx))" using False spent_rows_keys [OF fill, of E] by simp
    ultimately show ?thesis using u by (simp add: st' db.get_put_all db.get_del_all)
  qed
qed

text \<open>The connected transactions can be filled again from the STXO table.\<close>

lemma refill_from_stxos:
  assumes "list_all2 (\<lambda>tx ft. fill_transaction st0 tx = Ok ft) txs fts"
    and "txs_fit E height txs st" and "try_fold (connect_tx E height) txs st = Ok st'" and "coins_tracked st0 st"
  shows "try_map (fill_transaction_from_stxos E st') txs = Ok fts"
  using assms
proof (induction txs arbitrary: fts st)
  case (Cons tx txs)
  from Cons.prems(1) obtain ft fts' where fts: "fts = ft # fts'" and fill0: "fill_transaction st0 tx = Ok ft"
    and rest: "list_all2 (\<lambda>tx ft. fill_transaction st0 tx = Ok ft) txs fts'" by (auto simp: list_all2_Cons1)
  from Cons.prems(3) obtain st1 where c: "connect_tx E height tx st = Ok st1"
    and r: "try_fold (connect_tx E height) txs st1 = Ok st'" by (auto simp: rbind_Ok_iff)
  have fits: "tx_fits E tx st" and fits': "txs_fit E height txs st1" using Cons.prems(2) c by auto
  have d: "distinct (tx_inputs tx)" using fits by (simp add: tx_fits_def)
  from c d obtain ft' u s where fill: "fill_transaction st tx = Ok ft'"
    and st1: "st1 = set_coins u (db.put_all (spent_rows E ft') (st_stxos st)) s" by (rule connect_tx_Ok)
  have "fill_transaction st0 tx = fill_transaction st tx"
  proof (rule fill_transaction_cong)
    fix input assume i: "input \<in> set (tx_inputs tx)"
    then obtain out where "fmlookup (st_utxos st0) (from_outpoint input) = Some out"
      using fill_transaction_Ok(3) [OF fill0] by (auto simp: list_all2_conv_all_nth in_set_conv_nth)
    with i fits coins_trackedD [OF Cons.prems(4)]
    show "fmlookup (st_utxos st0) (from_outpoint input) = fmlookup (st_utxos st) (from_outpoint input)"
      by (simp add: tx_fits_def)
  qed
  with fill0 fill have "ft' = ft" by simp
  with stxos_recorded [OF fill d] have "stxos_record E ft st1" by (simp add: st1)
  then have "stxos_record E ft st'"
    using connect_txs_keep_stxos [OF fits' r] by (auto simp: stxos_record_def)
  from fill_from_stxos [OF fill_length [OF fill0] this] have "fill_transaction_from_stxos E st' tx = Ok ft"
    by (simp add: fill_transaction_Ok(1) [OF fill0])
  moreover have "try_map (fill_transaction_from_stxos E st') txs = Ok fts'"
    by (rule Cons.IH [OF rest fits' r connect_tx_tracks [OF Cons.prems(4) fits c]])
  ultimately show ?case by (simp add: fts)
qed simp

text \<open>Nothing in the loop that disconnects transactions looks at the tip.\<close>

definition set_tip :: "BlockHash option \<Rightarrow> u32 option \<Rightarrow> State \<Rightarrow> State" where
  "set_tip t h st = st\<lparr>st_tip := t, st_height := h\<rparr>"

lemma set_tip_sel [simp]:
  "st_utxos (set_tip t h st) = st_utxos st" "st_stxos (set_tip t h st) = st_stxos st"
  "st_amm_pools (set_tip t h st) = st_amm_pools st" "st_bitassets (set_tip t h st) = st_bitassets st"
  "st_dutch_auctions (set_tip t h st) = st_dutch_auctions st"
  "st_tip (set_tip t h st) = t" "st_height (set_tip t h st) = h"
  by (simp_all add: set_tip_def)

lemma set_tip_upd [simp]:
  "(set_tip t h st)\<lparr>st_utxos := u\<rparr> = set_tip t h (st\<lparr>st_utxos := u\<rparr>)"
  "(set_tip t h st)\<lparr>st_stxos := x\<rparr> = set_tip t h (st\<lparr>st_stxos := x\<rparr>)"
  "(set_tip t h st)\<lparr>st_amm_pools := p\<rparr> = set_tip t h (st\<lparr>st_amm_pools := p\<rparr>)"
  "(set_tip t h st)\<lparr>st_bitassets := b\<rparr> = set_tip t h (st\<lparr>st_bitassets := b\<rparr>)"
  "(set_tip t h st)\<lparr>st_dutch_auctions := a\<rparr> = set_tip t h (st\<lparr>st_dutch_auctions := a\<rparr>)"
  "(set_tip t h st)\<lparr>st_tip := t', st_height := h'\<rparr> = set_tip t' h' st"
  "set_tip (st_tip st) (st_height st) st = st"
  by (simp_all add: set_tip_def)

lemma try_fold_commute:
  assumes "\<And>x s. f x (g s) = rbind (f x s) (\<lambda>s'. Ok (g s'))"
  shows "try_fold f xs (g s) = rbind (try_fold f xs s) (\<lambda>s'. Ok (g s'))"
proof (induction xs arbitrary: s)
  case (Cons x xs)
  show ?case by (cases "f x s") (simp_all add: assms Cons.IH)
qed simp

lemma fill_from_stxos_set_tip: "fill_transaction_from_stxos E (set_tip t h st) = fill_transaction_from_stxos E st"
  by (rule ext) (simp add: fill_transaction_from_stxos_def)

lemma delete_utxo_set_tip: "delete_utxo op (set_tip t h st) = rbind (delete_utxo op st) (\<lambda>s. Ok (set_tip t h s))"
  by (simp add: delete_utxo_def Let_def rbind_assoc)

lemma unspend_set_tip: "unspend op (set_tip t h st) = rbind (unspend op st) (\<lambda>s. Ok (set_tip t h s))"
  by (simp add: unspend_def Let_def rbind_assoc)

lemma revert_payload_set_tip:
  "revert_payload E height ft (set_tip t h st) = rbind (revert_payload E height ft st) (\<lambda>s. Ok (set_tip t h s))"
  by (simp add: revert_payload_def lift_amm_def lift_bitassets_def lift_auctions_def rbind_assoc Let_def
      delete_reservation_def split: option.splits TxData.splits)

lemmas set_tip_simps = fill_from_stxos_set_tip revert_payload_set_tip try_fold_commute [of delete_utxo "set_tip t h" for t h, OF delete_utxo_set_tip]
  try_fold_commute [of unspend "set_tip t h" for t h, OF unspend_set_tip]

lemma disconnect_tx_set_tip:
  "disconnect_tx E height tx (set_tip t h st) = rbind (disconnect_tx E height tx st) (\<lambda>s. Ok (set_tip t h s))"
  by (simp add: disconnect_tx_def set_tip_simps rbind_assoc)

lemma next_height_undo:
  assumes "next_height st = (Ok height :: (Error, u32) result)"
  shows "st_height st = (if height = 0 then None else Some (height - 1))"
proof (cases "st_height st")
  case None
  with assms show ?thesis by (simp add: next_height_def)
next
  case (Some h)
  with assms have h: "unat height = unat h + 1" by (simp add: next_height_def)
  then have "height \<noteq> 0" by auto
  moreover have "h = height - 1" using h by (intro unat_eqI) (simp add: unat_sub word_le_nat_alt)
  ultimately show ?thesis by (simp add: Some)
qed

lemma connect_Ok:
  assumes "connect E header body st = Ok st'"
  obtains height fts rows st1 where "next_height st = (Ok height :: (Error, u32) result)"
    and "hd_prev_side_hash header = st_tip st"
    and "list_all2 (\<lambda>tx ft. fill_transaction st tx = Ok ft) (bo_transactions body) fts"
    and "compute_merkle_root E (bo_coinbase body) fts = Ok (hd_merkle_root header)"
    and "try_map (coinbase_row E header) (enumerate 0 (cb_outputs (bo_coinbase body))) = Ok rows"
    and "try_fold (connect_tx E height) (bo_transactions body) (st\<lparr>st_utxos := db.put_all rows (st_utxos st)\<rparr>) = Ok st1"
    and "st' = set_tip (Some (header_hash E header)) (Some height) st1"
  using assms by (auto simp: connect_def rbind_Ok_iff try_map_Ok_iff set_tip_def)

lemma fresh_rows_tracked:
  assumes "\<And>k. k \<in> fst ` set rows \<Longrightarrow> fmlookup (st_utxos st) k = None"
  shows "coins_tracked st (st\<lparr>st_utxos := db.put_all rows (st_utxos st)\<rparr>)"
proof -
  have "map_of (rev rows) k = None" if "fmlookup (st_utxos st) k = Some out" for k out
  proof -
    have "k \<notin> fst ` set rows" using that assms [of k] by auto
    then show ?thesis by (simp add: map_of_eq_None_iff)
  qed
  then show ?thesis by (auto simp: coins_tracked_def db.get_put_all)
qed

lemma delete_coinbase:
  assumes "try_map (coinbase_row E header) (enumerate 0 (cb_outputs (bo_coinbase body))) = Ok rows"
    and "distinct (coinbase_outpoints E header body)"
    and "\<forall>op\<in>set (coinbase_outpoints E header body). fmlookup (st_utxos st) (from_outpoint op) = None"
  shows "try_fold delete_utxo (rev (coinbase_outpoints E header body)) (st\<lparr>st_utxos := db.put_all rows (st_utxos st)\<rparr>) = Ok st"
    and "fst ` set rows = from_outpoint ` set (coinbase_outpoints E header body)"
proof -
  let ?ops = "coinbase_outpoints E header body" and ?s = "st\<lparr>st_utxos := db.put_all rows (st_utxos st)\<rparr>"
  show keys: "fst ` set rows = from_outpoint ` set ?ops"
    using arg_cong [OF coinbase_rows_keys [OF assms(1)], of set] by (simp add: coinbase_outpoints_def image_image)
  have "try_fold delete_utxo (rev ?ops) ?s = Ok (set_coins (db.del_all (map from_outpoint (rev ?ops)) (db.put_all rows (st_utxos st))) (st_stxos st) ?s)"
    using delete_utxos [of "rev ?ops" ?s] assms(2) keys
    by (fastforce simp: db.get_put_all map_of_eq_None_iff split: option.splits)
  also have "db.del_all (map from_outpoint (rev ?ops)) (db.put_all rows (st_utxos st)) = st_utxos st"
    by (rule db.del_all_put_all) (use keys assms(3) in auto)
  finally show "try_fold delete_utxo (rev ?ops) ?s = Ok st" by (simp add: set_coins_def)
qed

lemma disconnect_after_connect:
  assumes "st_tip st = None \<longleftrightarrow> st_height st = None" and "block_fits E header body st"
    and "connect E header body st = Ok st'"
  shows "disconnect_tip E header body st' = Ok st"
proof -
  let ?txs = "bo_transactions body" and ?ops = "coinbase_outpoints E header body"
  from assms(3) obtain height fts rows st1 where h: "next_height st = (Ok height :: (Error, u32) result)"
    and tip: "hd_prev_side_hash header = st_tip st"
    and fts: "list_all2 (\<lambda>tx ft. fill_transaction st tx = Ok ft) ?txs fts"
    and root: "compute_merkle_root E (bo_coinbase body) fts = Ok (hd_merkle_root header)"
    and rows: "try_map (coinbase_row E header) (enumerate 0 (cb_outputs (bo_coinbase body))) = Ok rows"
    and c: "try_fold (connect_tx E height) ?txs (st\<lparr>st_utxos := db.put_all rows (st_utxos st)\<rparr>) = Ok st1"
    and st': "st' = set_tip (Some (header_hash E header)) (Some height) st1"
    by (rule connect_Ok)
  let ?s = "st\<lparr>st_utxos := db.put_all rows (st_utxos st)\<rparr>"
  have fit: "txs_fit E height ?txs ?s" and dops: "distinct ?ops"
    and fresh: "\<forall>op\<in>set ?ops. fmlookup (st_utxos st) (from_outpoint op) = None"
    using assms(2) h rows by (simp_all add: block_fits_def)
  note cb = delete_coinbase [OF rows dops fresh]
  have "coins_tracked st ?s" by (rule fresh_rows_tracked) (use cb(2) fresh in auto)
  from refill_from_stxos [OF fts fit c this]
  have refill: "try_map (fill_transaction_from_stxos E st') ?txs = Ok fts"
    by (simp add: st' fill_from_stxos_set_tip)
  have "try_fold (disconnect_tx E height) (rev ?txs) st1 = Ok ?s"
    by (rule tx_op.revert_all [OF _ c]) (use fit in \<open>simp add: txs_fit_fits_all\<close>)
  then have undo: "try_fold (disconnect_tx E height) (rev ?txs) st' = Ok (set_tip (Some (header_hash E header)) (Some height) ?s)"
    by (simp add: st' try_fold_commute [of "disconnect_tx E height" "set_tip t h" for t h, OF disconnect_tx_set_tip])
  have th: "st_tip st' = Some (header_hash E header)" "st_height st' = Some height" by (simp_all add: st')
  have "disconnect_tip E header body st' = (case st_tip st of
         None \<Rightarrow> if height = 0 then Ok (set_tip None None st) else Err E_NoTip
       | Some prev \<Rightarrow> if height = 0 then Err E_NoTip else Ok (set_tip (Some prev) (Some (height - 1)) st))"
    by (simp add: disconnect_tip_def th refill root undo cb(1) coinbase_outpoints_def [symmetric] tip
        try_fold_commute [of delete_utxo "set_tip t h" for t h, OF delete_utxo_set_tip])
      (simp add: set_tip_def split: option.splits)
  with next_height_undo [OF h] assms(1) set_tip_upd(7) [of st] show ?thesis
    by (cases "st_tip st") (auto split: if_splits)
qed

text \<open>
  C6: disconnecting the tip undoes connecting it. If the tip and the height are both set
  or both absent, and the block fits the state, then \<open>disconnect_tip\<close> on the state that
  \<open>connect\<close> produced succeeds and restores the whole state: coins, spent coins, pools,
  auctions, BitAssets, tip and height.
\<close>

theorem disconnect_undoes_connect:
  assumes "st_tip st = None \<longleftrightarrow> st_height st = None" and "block_fits E header body st"
    and "connect E header body st = Ok st'"
  shows "disconnect_tip E header body st' = Ok st"
  using assms by (rule disconnect_after_connect)

lemma demo_block_fits: "block_fits demo_externs demo_header demo_body demo_state"
proof -
  have h: "next_height demo_state = (Ok 0 :: (Error, u32) result)"
    by (simp add: next_height_def demo_state_def State_new_def)
  have r: "try_map (coinbase_row demo_externs demo_header) (enumerate 0 (cb_outputs (bo_coinbase demo_body)))
      = Ok [(from_outpoint (OpCoinbase 1 0), plain (F_Bitcoin 3))]"
    by (simp add: demo_body_def plain_def coinbase_row_def coinbase_outpoint_def compute_coinbase_txid_def
        demo_externs_def demo_header_def)
  have dbs: "dbs_ok (st_bitassets demo_state)" "auctions_ok (st_dutch_auctions demo_state)" "pools_ok (st_amm_pools demo_state)"
    by (simp_all add: demo_state_def State_new_def dbs_ok_def auctions_ok_def pools_ok_def)
  let ?st = "demo_state\<lparr>st_utxos := db.put_all [(from_outpoint (OpCoinbase 1 0), plain (F_Bitcoin 3))] (st_utxos demo_state)\<rparr>"
  have "tx_fits demo_externs (hd (bo_transactions demo_body)) ?st"
    by (auto simp: tx_fits_def tx_outpoints_def payload_fits_def dbs db.put_all_def split: result.splits)
     (auto simp: demo_body_def demo_state_def State_new_def fill_transaction_def elim: fmran'E split: result.splits)
  then show ?thesis
    by (simp add: block_fits_def h r coinbase_outpoints_def coinbase_outpoint_def split: result.splits)
      (simp add: demo_body_def demo_state_def State_new_def split: result.splits)
qed

lemma demo_plain_connect: "connect demo_externs demo_header demo_body demo_state = Ok demo_state_after"
  using connect_prevalidated_eq_connect [OF demo_prevalidate demo_outpoints_fresh] by (simp add: demo_connect)

lemma demo_disconnect: "disconnect_tip demo_externs demo_header demo_body demo_state_after = Ok demo_state"
  by (rule disconnect_after_connect [OF _ demo_block_fits demo_plain_connect]) (simp add: demo_state_def State_new_def)

theorem disconnect_undoes_connect_witness:
  "disconnect_tip demo_externs demo_header demo_body demo_state_after = Ok demo_state"
  by (rule disconnect_undoes_connect [OF _ demo_block_fits demo_plain_connect]) (simp add: demo_state_def State_new_def)

end
