(* ===== verification/Withdrawal_Bundle.thy ===== *)
theory Withdrawal_Bundle
  imports Chain_State "HOL-Library.Product_Lexorder"
begin

text \<open>
  Withdrawal bundles: \<open>WithdrawalBundle\<close> and \<open>AggregatedWithdrawal\<close> of \<open>lib/types/mod.rs\<close>, and
  \<open>collect_withdrawal_bundle\<close> of \<open>lib/state/two_way_peg_data.rs\<close>, which gathers the
  withdrawal outputs of the UTXO table into one mainchain transaction, aggregated by
  destination, as long as the predicted weight stays below the standard limit.

  The code aggregates in a \<open>HashMap\<close>, whose iteration order differs from run to run. The
  model takes that order as the parameter \<open>order\<close>, a rearrangement of the map's values.
\<close>

section \<open>Sizes and weights\<close>

definition checked_mul :: "'a::len word \<Rightarrow> 'a word \<Rightarrow> 'a word option" where
  "checked_mul x y = (if unat x * unat y < 2 ^ LENGTH('a) then Some (x * y) else None)"

text \<open>\<open>VarInt(n).size()\<close> cast to a word.\<close>

definition varint_size :: "externs \<Rightarrow> u32 \<Rightarrow> 'a::len word" where
  "varint_size E n = ucast (ext_varint_size E (ucast n))"

definition txout_size :: "externs \<Rightarrow> u32 \<Rightarrow> u32 option" where
  "txout_size E spk_size =
     Option.bind (checked_add 8 (varint_size E spk_size)) (\<lambda>size. checked_add size spk_size)"

definition txin_base_size :: "externs \<Rightarrow> u32 \<Rightarrow> u32 option" where
  "txin_base_size E script_sig_size =
     (let script_sig_len_size = (varint_size E script_sig_size :: u8) in
      Option.bind (checked_add (ucast (36 + script_sig_len_size)) script_sig_size) (\<lambda>res. checked_add res 4))"

definition vin_base_size :: "externs \<Rightarrow> u32 \<Rightarrow> u32 \<Rightarrow> u32 option" where
  "vin_base_size E n_inputs sum_txin_base_sizes = checked_add (varint_size E n_inputs) sum_txin_base_sizes"

definition vout_size :: "externs \<Rightarrow> u32 \<Rightarrow> u32 \<Rightarrow> u32 option" where
  "vout_size E n_outputs sum_txout_sizes = checked_add (varint_size E n_outputs) sum_txout_sizes"

definition tx_base_size :: "externs \<Rightarrow> u32 \<Rightarrow> u32 \<Rightarrow> u32 \<Rightarrow> u32 \<Rightarrow> u32 option" where
  "tx_base_size E n_inputs sum_txin_base_sizes n_outputs sum_txout_sizes =
     Option.bind (vin_base_size E n_inputs sum_txin_base_sizes) (\<lambda>vin.
     Option.bind (checked_add 4 vin) (\<lambda>res.
     Option.bind (vout_size E n_outputs sum_txout_sizes) (\<lambda>vout.
     Option.bind (checked_add res vout) (\<lambda>res. checked_add res 4))))"

definition MAX_STANDARD_TX_WEIGHT :: u64 where
  "MAX_STANDARD_TX_WEIGHT = 400000"

text \<open>
  The constants are \<open>unwrap\<close>ped at compile time; \<open>None\<close> there stands for a program that
  does not compile.
\<close>

definition predict_weight :: "externs \<Rightarrow> u32 \<Rightarrow> u32 \<Rightarrow> u64 option" where
  "predict_weight E n_outputs sum_txout_sizes =
     Option.bind (txin_base_size E 0) (\<lambda>sum_txin_base_sizes.
     Option.bind (checked_add n_outputs 2) (\<lambda>n_outputs.
     Option.bind (txout_size E 34) (\<lambda>inputs_commitment_txout_size.
     Option.bind (txout_size E 10) (\<lambda>mainchain_fee_commitment_txout_size.
     Option.bind (checked_add inputs_commitment_txout_size mainchain_fee_commitment_txout_size) (\<lambda>commitments_size.
     Option.bind (checked_add commitments_size sum_txout_sizes) (\<lambda>sum_txout_sizes.
     Option.bind (tx_base_size E 1 sum_txin_base_sizes n_outputs sum_txout_sizes) (\<lambda>base_size.
     Option.bind (checked_mul (ucast base_size) 4) (\<lambda>weight.
       if weight \<le> MAX_STANDARD_TX_WEIGHT then Some weight else None))))))))"

section \<open>Bundles\<close>

definition hash_bytes :: "hash \<Rightarrow> u8 list" where
  "hash_bytes h = rev (le_bytes 32 h)"

definition inputs_commitment_txout :: "externs \<Rightarrow> u32 \<Rightarrow> (OutPoint, FilledOutput) fmap \<Rightarrow> bitcoin_TxOut" where
  "inputs_commitment_txout E block_height spend_utxos =
     (let inputs = db_keys id spend_utxos @ [OpRegular 0 block_height] in
      \<lparr>btxo_value = 0, btxo_script_pubkey = ext_op_return_script E (hash_bytes (ext_hash E (P_BundleInputs inputs)))\<rparr>)"

definition mainchain_fee_txout :: "externs \<Rightarrow> u64 \<Rightarrow> bitcoin_TxOut" where
  "mainchain_fee_txout E fee =
     \<lparr>btxo_value = 0, btxo_script_pubkey = ext_op_return_script E (rev (le_bytes 8 fee))\<rparr>"

definition WithdrawalBundle_new ::
  "externs \<Rightarrow> u32 \<Rightarrow> u64 \<Rightarrow> (OutPoint, FilledOutput) fmap \<Rightarrow> bitcoin_TxOut list
    \<Rightarrow> (WithdrawalBundleError, WithdrawalBundle) result" where
  "WithdrawalBundle_new E block_height fee spend_utxos bundle_outputs =
     (let tx = \<lparr>btx_output = [mainchain_fee_txout E fee, inputs_commitment_txout E block_height spend_utxos]
                  @ bundle_outputs\<rparr> in
      rbind (ensure (\<not> ext_tx_weight E tx > MAX_STANDARD_TX_WEIGHT)
               (WB_BundleTooHeavy (ext_tx_weight E tx) MAX_STANDARD_TX_WEIGHT)) (\<lambda>_.
        Ok \<lparr>wb_spend_utxos = spend_utxos, wb_tx = tx\<rparr>))"

definition compute_m6id :: "externs \<Rightarrow> WithdrawalBundle \<Rightarrow> M6id" where
  "compute_m6id E bundle = ext_bitcoin_txid E (wb_tx bundle)"

section \<open>Aggregation\<close>

record AggregatedWithdrawal =
  ag_spend_utxos :: "(OutPoint, FilledOutput) fmap"
  ag_main_address :: main_address
  ag_value :: u64
  ag_main_fee :: u64

text \<open>\<open>Ord for AggregatedWithdrawal\<close>: fee, value, address, lexicographically.\<close>

definition aggregated_key :: "externs \<Rightarrow> AggregatedWithdrawal \<Rightarrow> u64 \<times> u64 \<times> u8 list" where
  "aggregated_key E a = (ag_main_fee a, ag_value a, ext_address_key E (ag_main_address a))"

type_synonym aggregation = "(main_address, AggregatedWithdrawal) fmap"

definition aggregate_output :: "OutPointKey \<times> FilledOutput \<Rightarrow> aggregation \<Rightarrow> (Error, aggregation) result" where
  "aggregate_output row m =
     (let (key, out) = row in
      case out_content out of
        F_BitcoinWithdrawal w \<Rightarrow>
          (let a = (case fmlookup m (wc_main_address w) of Some a \<Rightarrow> a
                    | None \<Rightarrow> \<lparr>ag_spend_utxos = fmempty, ag_main_address = wc_main_address w,
                                ag_value = 0, ag_main_fee = 0\<rparr>) in
           rbind (add_amount (ag_value a) (wc_value w)) (\<lambda>value.
           rbind (add_amount (ag_main_fee a) (wc_main_fee w)) (\<lambda>main_fee.
           rbind (to_outpoint key) (\<lambda>op.
             Ok (fmupd (wc_main_address w)
                   (a\<lparr>ag_value := value, ag_main_fee := main_fee, ag_spend_utxos := fmupd op out (ag_spend_utxos a)\<rparr>) m)))))
      | _ \<Rightarrow> Ok m)"

definition aggregate_withdrawals :: "State \<Rightarrow> (Error, aggregation) result" where
  "aggregate_withdrawals st = try_fold aggregate_output (db_iter id (st_utxos st)) fmempty"

text \<open>A stable sort by descending key.\<close>

definition sort_aggregated :: "externs \<Rightarrow> AggregatedWithdrawal list \<Rightarrow> AggregatedWithdrawal list" where
  "sort_aggregated E as = rev (sort_key (aggregated_key E) (rev as))"

section \<open>Collecting a bundle\<close>

record bundle_acc =
  ba_fee :: u64
  ba_spend_utxos :: "(OutPoint, FilledOutput) fmap"
  ba_outputs :: "bitcoin_TxOut list"
  ba_txouts_size :: u32

definition u32_try_from :: "nat \<Rightarrow> u32 option" where
  "u32_try_from n = (if n < 2 ^ 32 then Some (of_nat n) else None)"

text \<open>One recursive call per round of the loop; no call where the code breaks.\<close>

fun collect_outputs :: "externs \<Rightarrow> AggregatedWithdrawal list \<Rightarrow> bundle_acc \<Rightarrow> (Error, bundle_acc) result" where
  "collect_outputs E [] acc = Ok acc"
| "collect_outputs E (a # as) acc =
     (let script_pubkey = ext_script_pubkey E (ag_main_address a) in
      case u32_try_from (length (ba_outputs acc) + 1) of
        None \<Rightarrow> Ok acc
      | Some n_outputs \<Rightarrow>
      (case u32_try_from (length script_pubkey) of
        None \<Rightarrow> collect_outputs E as acc
      | Some spk_size \<Rightarrow>
      (case txout_size E spk_size of
        None \<Rightarrow> collect_outputs E as acc
      | Some txout \<Rightarrow>
      (case checked_add (ba_txouts_size acc) txout of
        None \<Rightarrow> Ok acc
      | Some sum_txout_sizes \<Rightarrow>
         if predict_weight E n_outputs sum_txout_sizes = None then Ok (acc\<lparr>ba_txouts_size := sum_txout_sizes\<rparr>)
         else rbind (add_word (ba_fee acc) (ag_main_fee a)) (\<lambda>fee.
           collect_outputs E as
             \<lparr>ba_fee = fee, ba_spend_utxos = ba_spend_utxos acc ++\<^sub>f ag_spend_utxos a,
              ba_outputs = ba_outputs acc @ [\<lparr>btxo_value = ag_value a, btxo_script_pubkey = script_pubkey\<rparr>],
              ba_txouts_size = sum_txout_sizes\<rparr>)))))"

definition bundle_acc_empty :: bundle_acc where
  "bundle_acc_empty = \<lparr>ba_fee = 0, ba_spend_utxos = fmempty, ba_outputs = [], ba_txouts_size = 0\<rparr>"

definition collect_withdrawal_bundle ::
  "externs \<Rightarrow> (AggregatedWithdrawal list \<Rightarrow> AggregatedWithdrawal list) \<Rightarrow> State \<Rightarrow> u32
    \<Rightarrow> (Error, WithdrawalBundle option) result" where
  "collect_withdrawal_bundle E order st block_height =
     rbind (aggregate_withdrawals st) (\<lambda>m.
     if m = fmempty then Ok None
     else rbind (collect_outputs E (sort_aggregated E (order (map snd (db_iter id m)))) bundle_acc_empty) (\<lambda>acc.
       rbind (map_err E_WithdrawalBundle
           (WithdrawalBundle_new E block_height (ba_fee acc) (ba_spend_utxos acc) (ba_outputs acc))) (\<lambda>bundle.
       rbind (ensure (\<not> ext_tx_weight E (wb_tx bundle) > MAX_STANDARD_TX_WEIGHT)
                (E_BundleTooHeavy (ext_tx_weight E (wb_tx bundle)) MAX_STANDARD_TX_WEIGHT)) (\<lambda>_.
         Ok (Some bundle)))))"

end
