(* ===== verification/Bundle_Properties.thy ===== *)
theory Bundle_Properties
  imports Withdrawal_Bundle Block_Value
begin

text \<open>
  What \<open>collect_withdrawal_bundle\<close> guarantees: the bundle does not depend on the iteration
  order of the hash map in which withdrawals are aggregated; it pays out exactly the
  coins it spends; and the weight prediction of the loop keeps it below the limit, so
  that collecting never fails for a bundle that is too heavy.
\<close>

section \<open>The order of the aggregated withdrawals\<close>

lemma sort_key_unique:
  assumes "inj_on f (set xs)" and "distinct xs" and "mset xs = mset ys"
  shows "sort_key f xs = sort_key f ys"
proof (rule map_sorted_distinct_set_unique [where f = f])
  have s: "set ys = set xs" using assms(3) by (metis mset_eq_setD)
  have d: "distinct ys" using assms(2,3) by (metis mset_eq_imp_distinct_iff)
  show "inj_on f (set (sort_key f xs) \<union> set (sort_key f ys))" using assms(1) s by simp
  show "distinct (map f (sort_key f xs))" "distinct (map f (sort_key f ys))"
    using assms(1,2) s d by (simp_all add: distinct_map)
  show "set (sort_key f xs) = set (sort_key f ys)" using s by simp
qed simp_all

lemma sort_aggregated_perm:
  assumes "inj (ext_address_key E)" and "distinct (map ag_main_address as)" and "mset bs = mset as"
  shows "sort_aggregated E bs = sort_aggregated E as"
proof -
  have "inj_on (aggregated_key E) (set (rev bs))"
  proof (rule inj_onI)
    fix x y assume "x \<in> set (rev bs)" "y \<in> set (rev bs)" and k: "aggregated_key E x = aggregated_key E y"
    then have "x \<in> set as" "y \<in> set as" using assms(3) by (metis mset_eq_setD set_rev)+
    moreover from k assms(1) have "ag_main_address x = ag_main_address y"
      by (auto simp: aggregated_key_def dest: injD)
    ultimately show "x = y" using assms(2) by (auto simp: distinct_map dest: inj_onD)
  qed
  moreover have "distinct (rev bs)"
    using assms(2,3) by (metis distinct_map distinct_rev mset_eq_imp_distinct_iff)
  ultimately have "sort_key (aggregated_key E) (rev bs) = sort_key (aggregated_key E) (rev as)"
    using assms(3) by (intro sort_key_unique) simp_all
  then show ?thesis by (simp add: sort_aggregated_def)
qed

section \<open>What aggregation collects\<close>

fun withdrawal_of :: "FilledContent \<Rightarrow> WithdrawalContent option" where
  "withdrawal_of (F_BitcoinWithdrawal w) = Some w"
| "withdrawal_of _ = None"

definition payout :: "FilledOutput \<Rightarrow> nat" where
  "payout out = (case withdrawal_of (out_content out) of Some w \<Rightarrow> unat (wc_value w) | None \<Rightarrow> 0)"

definition payout_fee :: "FilledOutput \<Rightarrow> nat" where
  "payout_fee out = (case withdrawal_of (out_content out) of Some w \<Rightarrow> unat (wc_main_fee w) | None \<Rightarrow> 0)"

text \<open>An aggregated withdrawal is about the coins it spends.\<close>

definition aggregated_ok :: "main_address \<Rightarrow> AggregatedWithdrawal \<Rightarrow> (OutPointKey \<times> FilledOutput) list \<Rightarrow> bool" where
  "aggregated_ok adr a rows \<longleftrightarrow> ag_main_address a = adr
     \<and> unat (ag_value a) = db_total payout (ag_spend_utxos a)
     \<and> unat (ag_main_fee a) = db_total payout_fee (ag_spend_utxos a)
     \<and> (\<forall>op out. fmlookup (ag_spend_utxos a) op = Some out \<longrightarrow>
          (from_outpoint op, out) \<in> set rows
          \<and> map_option wc_main_address (withdrawal_of (out_content out)) = Some adr)"

definition aggregation_ok :: "aggregation \<Rightarrow> (OutPointKey \<times> FilledOutput) list \<Rightarrow> bool" where
  "aggregation_ok m rows \<longleftrightarrow> (\<forall>adr a. fmlookup m adr = Some a \<longrightarrow> aggregated_ok adr a rows)"

lemma aggregated_coin:
  assumes "aggregated_ok adr a rows" and "fmlookup (ag_spend_utxos a) op = Some out"
  shows "(from_outpoint op, out) \<in> set rows \<and> withdrawal_of (out_content out) \<noteq> None"
  using assms unfolding aggregated_ok_def by fastforce

lemma aggregated_ok_Cons: "aggregated_ok adr a rows \<Longrightarrow> aggregated_ok adr a (row # rows)"
  by (auto simp: aggregated_ok_def)

lemma aggregate_output_ok:
  assumes ok: "aggregation_ok m rows" and k: "from_outpoint op \<notin> fst ` set rows"
    and st: "aggregate_output (from_outpoint op, out) m = Ok m'"
  shows "aggregation_ok m' ((from_outpoint op, out) # rows)"
proof (cases "withdrawal_of (out_content out)")
  case None
  then have "m' = m" using st by (cases "out_content out") (simp_all add: aggregate_output_def)
  then show ?thesis using ok by (auto simp: aggregation_ok_def intro: aggregated_ok_Cons)
next
  case (Some w)
  then have c: "out_content out = F_BitcoinWithdrawal w" by (cases "out_content out") simp_all
  let ?adr = "wc_main_address w"
  let ?a = "case fmlookup m ?adr of Some a \<Rightarrow> a
     | None \<Rightarrow> \<lparr>ag_spend_utxos = fmempty, ag_main_address = ?adr, ag_value = 0, ag_main_fee = 0\<rparr>"
  have a: "aggregated_ok ?adr ?a rows"
    using ok by (auto simp: aggregation_ok_def aggregated_ok_def split: option.splits)
  from st c obtain v f where v: "unat v = unat (ag_value ?a) + unat (wc_value w)"
    and f: "unat f = unat (ag_main_fee ?a) + unat (wc_main_fee w)"
    and m': "m' = fmupd ?adr (?a\<lparr>ag_value := v, ag_main_fee := f, ag_spend_utxos := fmupd op out (ag_spend_utxos ?a)\<rparr>) m"
    by (auto simp: aggregate_output_def Let_def rbind_Ok_iff to_outpoint_def)
  have "fmlookup (ag_spend_utxos ?a) op = None"
    using a k by (cases "fmlookup (ag_spend_utxos ?a) op") (force simp: aggregated_ok_def)+
  then have "db_total payout (fmupd op out (ag_spend_utxos ?a)) = db_total payout (ag_spend_utxos ?a) + unat (wc_value w)"
    "db_total payout_fee (fmupd op out (ag_spend_utxos ?a)) = db_total payout_fee (ag_spend_utxos ?a) + unat (wc_main_fee w)"
    by (simp_all add: db_total_put_fresh payout_def payout_fee_def Some)
  with a v f have "aggregated_ok ?adr (?a\<lparr>ag_value := v, ag_main_fee := f, ag_spend_utxos := fmupd op out (ag_spend_utxos ?a)\<rparr>)
      ((from_outpoint op, out) # rows)"
    by (auto simp: aggregated_ok_def Some)
  then show ?thesis using ok by (auto simp: aggregation_ok_def m' intro: aggregated_ok_Cons)
qed

definition keys_valid :: "State \<Rightarrow> bool" where
  "keys_valid st \<longleftrightarrow> (\<forall>k\<in>fmdom' (st_utxos st). \<exists>op. k = from_outpoint op)"

lemma aggregate_outputs_ok:
  assumes "try_fold aggregate_output rows m = Ok m'" and "aggregation_ok m done"
    and "distinct (map fst rows)" and "fst ` set rows \<inter> fst ` set done = {}"
    and "\<And>k. k \<in> fst ` set rows \<Longrightarrow> \<exists>op. k = from_outpoint op"
  shows "aggregation_ok m' (rev rows @ done)"
  using assms
proof (induction rows arbitrary: m "done")
  case (Cons row rows)
  obtain k out where row: "row = (k, out)" by (cases row)
  obtain op where k: "k = from_outpoint op" using Cons.prems(5) row by auto
  from Cons.prems(1) obtain m1 where m1: "aggregate_output (from_outpoint op, out) m = Ok m1"
    and r: "try_fold aggregate_output rows m1 = Ok m'" by (auto simp: rbind_Ok_iff row k)
  have "aggregation_ok m1 ((k, out) # done)"
    unfolding k by (rule aggregate_output_ok [OF Cons.prems(2) _ m1]) (use Cons.prems(4) row k in auto)
  then have "aggregation_ok m' (rev rows @ ((k, out) # done))"
    by (intro Cons.IH [OF r]) (use Cons.prems row in auto)
  then show ?case by (simp add: row)
qed simp

lemma aggregate_withdrawals_ok:
  assumes "aggregate_withdrawals st = Ok m" and "keys_valid st"
  shows "aggregation_ok m (rev (db_iter id (st_utxos st)))"
proof -
  have "fst ` set (db_iter id (st_utxos st)) = fmdom' (st_utxos st)"
    by (metis image_set map_fst_db_iter set_db_keys)
  then show ?thesis
    using aggregate_outputs_ok [of "db_iter id (st_utxos st)" fmempty m "[]"] assms
    by (simp add: aggregate_withdrawals_def keys_valid_def aggregation_ok_def)
qed

lemma aggregation_addresses:
  assumes "aggregation_ok m rows"
  shows "distinct (map ag_main_address (map snd (db_iter id m)))"
    and "\<And>a. a \<in> set (map snd (db_iter id m)) \<Longrightarrow> aggregated_ok (ag_main_address a) a rows"
proof -
  have "ag_main_address (snd x) = fst x" if "x \<in> set (db_iter id m)" for x
    using that assms db_iter_lookup [of "fst x" "snd x" id m] by (auto simp: aggregation_ok_def aggregated_ok_def)
  then have "map ag_main_address (map snd (db_iter id m)) = map fst (db_iter id m)"
    by (simp del: map_fst_db_iter)
  then show "distinct (map ag_main_address (map snd (db_iter id m)))" by simp
  show "aggregated_ok (ag_main_address a) a rows" if "a \<in> set (map snd (db_iter id m))" for a
    using that assms db_iter_lookup [of _ a id m] by (auto simp: aggregation_ok_def aggregated_ok_def)
qed

text \<open>
  C30: the collected bundle, and with it its id, does not depend on the order in which the
  hash map of aggregated withdrawals is iterated: any two orders give the same result,
  provided that distinct mainchain addresses compare as different.
\<close>

theorem bundle_independent_of_map_order:
  assumes "inj (ext_address_key E)" and "keys_valid st"
    and "\<And>as. mset (order1 as) = mset as" and "\<And>as. mset (order2 as) = mset as"
  shows "collect_withdrawal_bundle E order1 st h = collect_withdrawal_bundle E order2 st h"
proof (cases "aggregate_withdrawals st")
  case (Ok m)
  let ?as = "map snd (db_iter id m)"
  have "distinct (map ag_main_address ?as)"
    by (rule aggregation_addresses(1) [OF aggregate_withdrawals_ok [OF Ok assms(2)]])
  then have "sort_aggregated E (order1 ?as) = sort_aggregated E (order2 ?as)"
    using sort_aggregated_perm [OF assms(1), of ?as] assms(3,4) by metis
  then show ?thesis by (simp add: collect_withdrawal_bundle_def Ok)
qed (simp_all add: collect_withdrawal_bundle_def)

section \<open>What the bundle pays out\<close>

lemma db_total_fmadd:
  assumes "fmdom' a \<inter> fmdom' b = {}"
  shows "db_total f (a ++\<^sub>f b) = db_total f a + db_total f b"
proof -
  have "db_total f (a ++\<^sub>f b) = (\<Sum>k\<in>fmdom' a \<union> fmdom' b. f (the (fmlookup (a ++\<^sub>f b) k)))"
    by (simp add: db_total_def)
  also have "\<dots> = (\<Sum>k\<in>fmdom' a. f (the (fmlookup (a ++\<^sub>f b) k))) + (\<Sum>k\<in>fmdom' b. f (the (fmlookup (a ++\<^sub>f b) k)))"
    by (rule sum.union_disjoint) (use assms in auto)
  also have "(\<Sum>k\<in>fmdom' a. f (the (fmlookup (a ++\<^sub>f b) k))) = db_total f a"
    unfolding db_total_def by (rule sum.cong) (use assms in \<open>auto simp: fmdom'_alt_def\<close>)
  also have "(\<Sum>k\<in>fmdom' b. f (the (fmlookup (a ++\<^sub>f b) k))) = db_total f b"
    unfolding db_total_def by (rule sum.cong) (auto simp: fmdom'_alt_def)
  finally show ?thesis .
qed

definition bundle_pays :: "bundle_acc \<Rightarrow> bool" where
  "bundle_pays acc \<longleftrightarrow>
     (\<Sum>o'\<leftarrow>ba_outputs acc. unat (btxo_value o')) = db_total payout (ba_spend_utxos acc)
     \<and> unat (ba_fee acc) = db_total payout_fee (ba_spend_utxos acc)"

definition coins_of :: "(OutPoint, FilledOutput) fmap \<Rightarrow> (OutPointKey \<times> FilledOutput) list \<Rightarrow> bool" where
  "coins_of spend rows \<longleftrightarrow> (\<forall>op out. fmlookup spend op = Some out \<longrightarrow>
     (from_outpoint op, out) \<in> set rows \<and> withdrawal_of (out_content out) \<noteq> None)"

text \<open>The addresses of the coins in the accumulator are not those of the withdrawals to come.\<close>

definition addresses_apart :: "bundle_acc \<Rightarrow> AggregatedWithdrawal list \<Rightarrow> bool" where
  "addresses_apart acc as \<longleftrightarrow> (\<forall>op out a. fmlookup (ba_spend_utxos acc) op = Some out \<longrightarrow> a \<in> set as \<longrightarrow>
     map_option wc_main_address (withdrawal_of (out_content out)) \<noteq> Some (ag_main_address a))"

text \<open>One round of the loop: stop, skip an address, or take its withdrawal.\<close>

definition push_output :: "externs \<Rightarrow> AggregatedWithdrawal \<Rightarrow> u64 \<Rightarrow> u32 \<Rightarrow> bundle_acc \<Rightarrow> bundle_acc" where
  "push_output E a fee size' acc =
     \<lparr>ba_fee = fee, ba_spend_utxos = ba_spend_utxos acc ++\<^sub>f ag_spend_utxos a,
      ba_outputs = ba_outputs acc @
        [\<lparr>btxo_value = ag_value a, btxo_script_pubkey = ext_script_pubkey E (ag_main_address a)\<rparr>],
      ba_txouts_size = size'\<rparr>"

lemma collect_outputs_round:
  assumes "collect_outputs E (a # as) acc = Ok acc'"
  obtains (stop) n where "acc' = acc\<lparr>ba_txouts_size := n\<rparr>"
  | (skip) "collect_outputs E as acc = Ok acc'"
  | (take) n spk t s w fee where "u32_try_from (length (ba_outputs acc) + 1) = Some n"
      and "u32_try_from (length (ext_script_pubkey E (ag_main_address a))) = Some spk" and "txout_size E spk = Some t"
      and "unat s = unat (ba_txouts_size acc) + unat t" and "predict_weight E n s = Some w"
      and "unat fee = unat (ba_fee acc) + unat (ag_main_fee a)"
      and "collect_outputs E as (push_output E a fee s acc) = Ok acc'"
proof -
  let ?spk = "ext_script_pubkey E (ag_main_address a)"
  show ?thesis
  proof (cases "u32_try_from (length (ba_outputs acc) + 1)")
    case None
    with assms have "acc' = acc\<lparr>ba_txouts_size := ba_txouts_size acc\<rparr>" by simp
    then show ?thesis by (rule stop)
  next
    case n: (Some n)
    show ?thesis
    proof (cases "Option.bind (u32_try_from (length ?spk)) (txout_size E)")
      case None
      with assms n have "collect_outputs E as acc = Ok acc'" by (auto simp: Let_def split: option.splits)
      then show ?thesis by (rule skip)
    next
      case (Some t)
      then obtain spk where spk: "u32_try_from (length ?spk) = Some spk" and t: "txout_size E spk = Some t"
        by (auto simp: Option.bind_eq_Some_conv)
      show ?thesis
      proof (cases "checked_add (ba_txouts_size acc) t")
        case None
        with assms n spk t have "acc' = acc\<lparr>ba_txouts_size := ba_txouts_size acc\<rparr>" by (simp add: Let_def)
        then show ?thesis by (rule stop)
      next
        case (Some s)
        show ?thesis
        proof (cases "predict_weight E n s")
          case None
          with assms n spk t Some have "acc' = acc\<lparr>ba_txouts_size := s\<rparr>" by (simp add: Let_def)
          then show ?thesis by (rule stop)
        next
          fix w assume w: "predict_weight E n s = Some w"
          with assms n spk t Some obtain fee where
            "unat fee = unat (ba_fee acc) + unat (ag_main_fee a)" "collect_outputs E as (push_output E a fee s acc) = Ok acc'"
            by (auto simp: Let_def rbind_Ok_iff push_output_def)
          with n spk t Some w show ?thesis by (intro take) (auto simp: checked_add_Some_iff)
        qed
      qed
    qed
  qed
qed

lemma push_output_spends:
  assumes a: "aggregated_ok (ag_main_address a) a rows" and "distinct (map fst rows)"
    and "coins_of (ba_spend_utxos acc) rows" and ap: "addresses_apart acc (a # as)"
    and "distinct (map ag_main_address (a # as))"
  shows "fmdom' (ba_spend_utxos acc) \<inter> fmdom' (ag_spend_utxos a) = {}"
    and "coins_of (ba_spend_utxos (push_output E a fee s acc)) rows"
    and "addresses_apart (push_output E a fee s acc) as"
proof -
  have adr: "map_option wc_main_address (withdrawal_of (out_content out)) = Some (ag_main_address a)"
    if "fmlookup (ag_spend_utxos a) op = Some out" for op out
    using a that unfolding aggregated_ok_def by blast
  show "fmdom' (ba_spend_utxos acc) \<inter> fmdom' (ag_spend_utxos a) = {}"
  proof (rule ccontr)
    assume "fmdom' (ba_spend_utxos acc) \<inter> fmdom' (ag_spend_utxos a) \<noteq> {}"
    then obtain op out out' where o: "fmlookup (ba_spend_utxos acc) op = Some out" "fmlookup (ag_spend_utxos a) op = Some out'"
      by (auto simp: fmlookup_dom'_iff)
    then have "(from_outpoint op, out) \<in> set rows" "(from_outpoint op, out') \<in> set rows"
      using assms(3) a by (auto simp: coins_of_def aggregated_ok_def)
    then have "out = out'" using assms(2) by (rule eq_key_imp_eq_value [rotated])
    moreover have "map_option wc_main_address (withdrawal_of (out_content out)) \<noteq> Some (ag_main_address a)"
      using ap o(1) unfolding addresses_apart_def by (meson list.set_intros(1))
    ultimately show False using adr [OF o(2)] by simp
  qed
  show "coins_of (ba_spend_utxos (push_output E a fee s acc)) rows"
    using assms(3) aggregated_coin [OF a] unfolding coins_of_def push_output_def by (auto split: if_splits)
  show "addresses_apart (push_output E a fee s acc) as"
    unfolding addresses_apart_def
  proof (intro allI impI)
    fix op out b assume l: "fmlookup (ba_spend_utxos (push_output E a fee s acc)) op = Some out" and b: "b \<in> set as"
    from l consider "fmlookup (ag_spend_utxos a) op = Some out" | "fmlookup (ba_spend_utxos acc) op = Some out"
      by (auto simp: push_output_def split: if_splits)
    then show "map_option wc_main_address (withdrawal_of (out_content out)) \<noteq> Some (ag_main_address b)"
    proof cases
      case 1
      from adr [OF 1] show ?thesis using assms(5) b by (simp only:) auto
    next
      case 2
      then show ?thesis using ap b unfolding addresses_apart_def by (meson list.set_intros(2))
    qed
  qed
qed

lemma collect_outputs_pays:
  assumes "collect_outputs E as acc = Ok acc'" and "distinct (map ag_main_address as)"
    and "\<And>a. a \<in> set as \<Longrightarrow> aggregated_ok (ag_main_address a) a rows"
    and "bundle_pays acc" and "coins_of (ba_spend_utxos acc) rows" and "addresses_apart acc as"
    and "distinct (map fst rows)"
  shows "bundle_pays acc' \<and> coins_of (ba_spend_utxos acc') rows"
  using assms
proof (induction as arbitrary: acc)
  case (Cons a as)
  have a: "aggregated_ok (ag_main_address a) a rows" using Cons.prems(3) by simp
  from Cons.prems(1) show ?case
  proof (cases rule: collect_outputs_round)
    case (stop n)
    then show ?thesis using Cons.prems(4,5) by (simp add: bundle_pays_def)
  next
    case skip
    show ?thesis by (rule Cons.IH [OF skip]) (use Cons.prems in \<open>auto simp: addresses_apart_def\<close>)
  next
    case (take n spk t s w fee)
    note sp = push_output_spends [OF a Cons.prems(7,5,6,2)]
    have "bundle_pays (push_output E a fee s acc)"
      using Cons.prems(4) a take(6) sp(1) by (simp add: bundle_pays_def db_total_fmadd aggregated_ok_def push_output_def)
    then show ?thesis using Cons.IH [OF take(7)] sp(2,3) Cons.prems(2,3,7) by simp
  qed
qed simp

lemma collect_withdrawal_bundle_Ok:
  assumes "collect_withdrawal_bundle E order st h = Ok (Some bundle)"
  obtains m acc where "aggregate_withdrawals st = Ok m"
    and "collect_outputs E (sort_aggregated E (order (map snd (db_iter id m)))) bundle_acc_empty = Ok acc"
    and "bundle = \<lparr>wb_spend_utxos = ba_spend_utxos acc, wb_tx = \<lparr>btx_output =
           [mainchain_fee_txout E (ba_fee acc), inputs_commitment_txout E h (ba_spend_utxos acc)] @ ba_outputs acc\<rparr>\<rparr>"
proof -
  from assms obtain m where m: "aggregate_withdrawals st = Ok m" and ne: "m \<noteq> fmempty"
    by (auto simp: collect_withdrawal_bundle_def rbind_Ok_iff split: if_splits)
  from assms obtain acc where "collect_outputs E (sort_aggregated E (order (map snd (db_iter id m)))) bundle_acc_empty = Ok acc"
    and "WithdrawalBundle_new E h (ba_fee acc) (ba_spend_utxos acc) (ba_outputs acc) = Ok bundle"
    by (auto simp: collect_withdrawal_bundle_def m ne rbind_Ok_iff)
  then show ?thesis by (intro that [OF m]) (auto simp: WithdrawalBundle_new_def Let_def rbind_Ok_iff)
qed

text \<open>
  C8: a collected bundle pays out exactly what it spends. Its coins are withdrawal outputs
  of the UTXO table; the values of its payout outputs and the fee it commits to add up to
  the values and the mainchain fees of these coins.
\<close>

theorem bundle_pays_what_it_spends:
  assumes "collect_withdrawal_bundle E order st h = Ok (Some bundle)" and "keys_valid st"
    and "\<And>as. mset (order as) = mset as"
  shows "(\<forall>op out. fmlookup (wb_spend_utxos bundle) op = Some out \<longrightarrow>
      fmlookup (st_utxos st) (from_outpoint op) = Some out \<and> withdrawal_of (out_content out) \<noteq> None) \<and>
    (\<exists>fee outs. btx_output (wb_tx bundle)
        = [mainchain_fee_txout E fee, inputs_commitment_txout E h (wb_spend_utxos bundle)] @ outs \<and>
      unat fee = db_total payout_fee (wb_spend_utxos bundle) \<and>
      (\<Sum>o'\<leftarrow>outs. unat (btxo_value o')) = db_total payout (wb_spend_utxos bundle))"
proof -
  from assms(1) obtain m acc where m: "aggregate_withdrawals st = Ok m"
    and c: "collect_outputs E (sort_aggregated E (order (map snd (db_iter id m)))) bundle_acc_empty = Ok acc"
    and b: "bundle = \<lparr>wb_spend_utxos = ba_spend_utxos acc, wb_tx = \<lparr>btx_output =
           [mainchain_fee_txout E (ba_fee acc), inputs_commitment_txout E h (ba_spend_utxos acc)] @ ba_outputs acc\<rparr>\<rparr>"
    by (rule collect_withdrawal_bundle_Ok)
  let ?rows = "rev (db_iter id (st_utxos st))"
  let ?as = "sort_aggregated E (order (map snd (db_iter id m)))"
  note agg = aggregation_addresses [OF aggregate_withdrawals_ok [OF m assms(2)]]
  have ms: "mset ?as = mset (map snd (db_iter id m))" by (simp add: sort_aggregated_def assms(3))
  have "bundle_pays acc \<and> coins_of (ba_spend_utxos acc) ?rows"
  proof (rule collect_outputs_pays [OF c])
    show "distinct (map ag_main_address ?as)"
      using agg(1) ms by (metis mset_eq_imp_distinct_iff mset_map)
    show "aggregated_ok (ag_main_address a) a ?rows" if "a \<in> set ?as" for a
      using agg(2) that ms by (metis mset_eq_setD)
    show "distinct (map fst ?rows)" by (simp add: rev_map [symmetric])
  qed (simp_all add: bundle_pays_def bundle_acc_empty_def coins_of_def addresses_apart_def)
  then show ?thesis by (auto simp: b bundle_pays_def coins_of_def db_iter_lookup)
qed

section \<open>The weight of a bundle\<close>

definition txout_nat_size :: "externs \<Rightarrow> nat \<Rightarrow> nat" where
  "txout_nat_size E spk_size = 8 + unat (ext_varint_size E (of_nat spk_size)) + spk_size"

text \<open>
  What the code relies on in the \<open>bitcoin\<close> crate: a variable-length integer takes at most
  nine bytes; the script of a commitment is two bytes longer than what it pushes; and the
  weight of a transaction without inputs is at most four times its size, where ten bytes
  cover version, lock time, the empty input list and the segwit marker.
\<close>

definition bitcoin_sizes :: "externs \<Rightarrow> bool" where
  "bitcoin_sizes E \<longleftrightarrow> (\<forall>n. unat (ext_varint_size E n) \<le> 9)
     \<and> (\<forall>bytes. length bytes \<le> 75 \<longrightarrow> length (ext_op_return_script E bytes) = length bytes + 2)
     \<and> (\<forall>tx. unat (ext_tx_weight E tx) \<le> 4 * (10 + unat (ext_varint_size E (of_nat (length (btx_output tx))))
          + (\<Sum>o'\<leftarrow>btx_output tx. txout_nat_size E (length (btxo_script_pubkey o')))))"

definition outputs_size :: "externs \<Rightarrow> bundle_acc \<Rightarrow> nat" where
  "outputs_size E acc = (\<Sum>o'\<leftarrow>ba_outputs acc. txout_nat_size E (length (btxo_script_pubkey o')))"

definition bundle_light :: "externs \<Rightarrow> bundle_acc \<Rightarrow> bool" where
  "bundle_light E acc \<longleftrightarrow> 4 * (10 + unat (ext_varint_size E (of_nat (length (ba_outputs acc) + 2)))
     + txout_nat_size E 34 + txout_nat_size E 10 + outputs_size E acc) \<le> 400000"

lemma u32_try_from_Some: "u32_try_from n = Some x \<Longrightarrow> unat x = n"
  by (auto simp: u32_try_from_def unat_of_nat split: if_splits)

lemma unat_u32_to_u64: "unat (ucast (x :: u32) :: u64) = unat x"
  by (simp add: unsigned_ucast_eq take_bit_nat_eq_self unat_less_pow [THEN order_less_trans])

lemma unat_varint_size [simp]:
  "unat (varint_size E n :: u32) = unat (ext_varint_size E (ucast n))"
  by (simp add: varint_size_def unsigned_ucast_eq take_bit_nat_eq_self unat_less_pow [THEN order_less_trans])

lemma ucast_u32_of_nat: "n < 2 ^ 32 \<Longrightarrow> ucast (of_nat n :: u32) = (of_nat n :: u64)"
  by (rule unat_eqI) (simp add: unsigned_ucast_eq unat_of_nat take_bit_nat_eq_self)

lemma txout_size_nat:
  assumes "txout_size E spk = Some t"
  shows "unat t = txout_nat_size E (unat spk)"
proof -
  have "(of_nat (unat spk) :: u64) = ucast spk"
    using ucast_u32_of_nat [of "unat spk"] unat_u32 [of spk] by simp
  with assms show ?thesis
    by (auto simp: txout_size_def txout_nat_size_def Option.bind_eq_Some_conv checked_add_Some_iff)
qed

lemma predict_weight_light:
  assumes "predict_weight E n total_size = Some w" and "bitcoin_sizes E"
  shows "4 * (10 + unat (ext_varint_size E (of_nat (unat n + 2)))
     + txout_nat_size E 34 + txout_nat_size E 10 + unat total_size) \<le> 400000"
proof -
  from assms(1) obtain vin n' c1 c2 t b where vin: "txin_base_size E 0 = Some vin"
    and n': "unat n' = unat n + 2"
    and c1: "txout_size E 34 = Some c1" and c2: "txout_size E 10 = Some c2"
    and t: "unat t = unat c1 + unat c2 + unat total_size" and b: "tx_base_size E 1 vin n' t = Some b"
    and w: "checked_mul (ucast b) 4 = Some w" and le: "w \<le> MAX_STANDARD_TX_WEIGHT"
    by (auto simp: predict_weight_def Option.bind_eq_Some_conv checked_add_Some_iff split: if_splits intro: that)
  have "unat (ext_varint_size E 0) \<le> 9" using assms(2) by (simp add: bitcoin_sizes_def)
  then have "40 \<le> unat vin"
    using vin by (auto simp: txin_base_size_def Let_def Option.bind_eq_Some_conv checked_add_Some_iff varint_size_def
        unat_word_ariths unsigned_ucast_eq take_bit_nat_eq_self)
  moreover have "(of_nat (unat n + 2) :: u64) = ucast n'"
    by (simp only: n' [symmetric]) simp
  moreover have "4 + unat vin + unat (ext_varint_size E (ucast n')) + unat t \<le> unat b"
    using b by (auto simp: tx_base_size_def vin_base_size_def vout_size_def Option.bind_eq_Some_conv checked_add_Some_iff)
  moreover have "unat w = unat b * 4"
    using w by (auto simp: checked_mul_def unat_word_ariths unat_u32_to_u64 split: if_splits)
  moreover have "unat w \<le> 400000" using le by (simp add: MAX_STANDARD_TX_WEIGHT_def word_le_nat_alt)
  ultimately show ?thesis using txout_size_nat [OF c1] txout_size_nat [OF c2] t by simp
qed

lemma collect_outputs_light:
  assumes "collect_outputs E as acc = Ok acc'" and "bitcoin_sizes E"
    and "bundle_light E acc" and "unat (ba_txouts_size acc) = outputs_size E acc"
  shows "bundle_light E acc'"
  using assms
proof (induction as arbitrary: acc)
  case (Cons a as)
  from Cons.prems(1) show ?case
  proof (cases rule: collect_outputs_round)
    case (stop n)
    then show ?thesis using Cons.prems(3) by (simp add: bundle_light_def outputs_size_def)
  next
    case skip
    then show ?thesis using Cons by blast
  next
    case (take n spk t s w fee)
    have n: "unat n = length (ba_outputs acc) + 1" and spk: "unat spk = length (ext_script_pubkey E (ag_main_address a))"
      by (rule u32_try_from_Some [OF take(1)]) (rule u32_try_from_Some [OF take(2)])
    have size': "unat s = outputs_size E (push_output E a fee s acc)"
      using take(4) Cons.prems(4) txout_size_nat [OF take(3)] spk by (simp add: push_output_def outputs_size_def)
    then have "bundle_light E (push_output E a fee s acc)"
      using predict_weight_light [OF take(5) Cons.prems(2)] n by (simp add: bundle_light_def push_output_def)
    then show ?thesis using Cons.IH [OF take(7) Cons.prems(2)] size' by (simp add: push_output_def)
  qed
qed simp

lemma bundle_light_empty:
  assumes "bitcoin_sizes E"
  shows "bundle_light E bundle_acc_empty"
proof -
  have "unat (ext_varint_size E x) \<le> 9" for x using assms by (simp add: bitcoin_sizes_def)
  from this [of 2] this [of 34] this [of 10] show ?thesis
    by (simp add: bundle_light_def outputs_size_def bundle_acc_empty_def txout_nat_size_def)
qed

lemma bundle_light_weight:
  assumes "bundle_light E acc" and "bitcoin_sizes E"
    and tx: "tx = \<lparr>btx_output = [mainchain_fee_txout E fee, inputs_commitment_txout E h spend] @ ba_outputs acc\<rparr>"
  shows "ext_tx_weight E tx \<le> MAX_STANDARD_TX_WEIGHT"
proof -
  have "length (btxo_script_pubkey (mainchain_fee_txout E fee)) = 10"
    "length (btxo_script_pubkey (inputs_commitment_txout E h spend)) = 34"
    using assms(2) by (simp_all add: bitcoin_sizes_def mainchain_fee_txout_def inputs_commitment_txout_def hash_bytes_def)
  moreover have "unat (ext_tx_weight E tx) \<le> 4 * (10 + unat (ext_varint_size E (of_nat (length (btx_output tx))))
          + (\<Sum>o'\<leftarrow>btx_output tx. txout_nat_size E (length (btxo_script_pubkey o'))))"
    using assms(2) by (simp add: bitcoin_sizes_def)
  ultimately have "unat (ext_tx_weight E tx) \<le> 400000"
    using assms(1) by (simp add: tx bundle_light_def outputs_size_def add.commute add.left_commute)
  then show ?thesis by (simp add: MAX_STANDARD_TX_WEIGHT_def word_le_nat_alt)
qed

lemma collect_outputs_no_Err: "collect_outputs E as acc \<noteq> Err e"
proof (induction as arbitrary: acc)
  case (Cons a as)
  then show ?case
    by (auto simp: Let_def rbind_Err_iff add_word_def split: option.splits if_splits)
      (metis expect.elims result.distinct(1) result.distinct(5))
qed simp

lemma aggregate_withdrawals_Err:
  assumes "aggregate_withdrawals st = Err e"
  shows "e = E_AmountOverflow"
proof -
  have step: "aggregate_output row m = Err e \<Longrightarrow> e = E_AmountOverflow" for row m
    by (auto simp: aggregate_output_def Let_def rbind_Err_iff add_amount_def to_outpoint_def
        split: FilledContent.splits prod.splits) (auto elim: ok_or.elims expect.elims)
  have "try_fold aggregate_output rows m = Err e \<Longrightarrow> e = E_AmountOverflow" for rows m
    by (induction rows arbitrary: m) (auto simp: rbind_Err_iff dest: step)
  with assms show ?thesis by (simp add: aggregate_withdrawals_def)
qed

text \<open>
  C31: collecting a bundle never fails because the bundle is too heavy: the prediction that
  ends the loop covers the weight of the transaction, for every set of withdrawals and
  every iteration order.
\<close>

theorem collected_bundle_never_too_heavy:
  assumes "bitcoin_sizes E"
  shows "collect_withdrawal_bundle E order st h \<noteq> Err (E_BundleTooHeavy w max_w)
    \<and> collect_withdrawal_bundle E order st h \<noteq> Err (E_WithdrawalBundle e)
    \<and> (\<forall>bundle. collect_withdrawal_bundle E order st h = Ok (Some bundle) \<longrightarrow>
         ext_tx_weight E (wb_tx bundle) \<le> MAX_STANDARD_TX_WEIGHT)"
proof (cases "aggregate_withdrawals st")
  case (Ok m)
  let ?c = "collect_outputs E (sort_aggregated E (order (map snd (db_iter id m)))) bundle_acc_empty"
  show ?thesis
  proof (cases "m = fmempty")
    case False
    show ?thesis
    proof (cases ?c)
      case c: (Ok acc)
      let ?tx = "\<lparr>btx_output = [mainchain_fee_txout E (ba_fee acc),
        inputs_commitment_txout E h (ba_spend_utxos acc)] @ ba_outputs acc\<rparr>"
      have "bundle_light E acc"
        by (rule collect_outputs_light [OF c assms bundle_light_empty [OF assms]])
          (simp add: bundle_acc_empty_def outputs_size_def)
      from bundle_light_weight [OF this assms refl]
      have "ext_tx_weight E ?tx \<le> MAX_STANDARD_TX_WEIGHT" .
      then show ?thesis
        by (simp add: collect_withdrawal_bundle_def Ok False c WithdrawalBundle_new_def not_less)
    next
      case (Err e')
      with collect_outputs_no_Err show ?thesis by blast
    qed (simp add: collect_withdrawal_bundle_def Ok False)
  qed (simp add: collect_withdrawal_bundle_def Ok)
next
  case (Err e')
  then have "e' = E_AmountOverflow" using aggregate_withdrawals_Err by blast
  then show ?thesis by (simp add: collect_withdrawal_bundle_def Err)
qed (simp add: collect_withdrawal_bundle_def)

section \<open>A concrete bundle\<close>

definition withdrawal_coin :: FilledOutput where
  "withdrawal_coin = \<lparr>out_address = 2, out_content =
     F_BitcoinWithdrawal \<lparr>wc_value = 5, wc_main_fee = 1, wc_main_address = [7]\<rparr>, out_memo = []\<rparr>"

definition withdrawal_state :: State where
  "withdrawal_state = State_new\<lparr>st_utxos := fmupd (from_outpoint (OpDeposit 1 0)) withdrawal_coin fmempty\<rparr>"

definition demo_bundle :: "u32 \<Rightarrow> WithdrawalBundle" where
  "demo_bundle h = (let spend = fmupd (OpDeposit 1 0) withdrawal_coin fmempty in
     \<lparr>wb_spend_utxos = spend, wb_tx = \<lparr>btx_output =
        [mainchain_fee_txout demo_externs 1, inputs_commitment_txout demo_externs h spend,
         \<lparr>btxo_value = 5, btxo_script_pubkey = [7]\<rparr>]\<rparr>\<rparr>)"

lemma db_iter_single [simp]: "db_iter enc (fmupd k v fmempty) = [(k, v)]"
proof -
  have "sorted_list_of_fset {|k|} = [k]" by (simp add: sorted_list_of_fset.rep_eq)
  then show ?thesis by (simp add: db_iter_def db_keys_def)
qed

lemma withdrawal_keys_valid [simp]: "keys_valid withdrawal_state"
  by (auto simp: keys_valid_def withdrawal_state_def)

lemma demo_aggregation:
  "aggregate_withdrawals withdrawal_state = Ok (fmupd [7] \<lparr>ag_spend_utxos = fmupd (OpDeposit 1 0) withdrawal_coin fmempty,
     ag_main_address = [7], ag_value = 5, ag_main_fee = 1\<rparr> fmempty)"
  by (simp add: aggregate_withdrawals_def withdrawal_state_def aggregate_output_def withdrawal_coin_def
      add_amount_def checked_add_def to_outpoint_def)

lemma demo_predict: "predict_weight demo_externs 1 10 \<noteq> None"
  by (simp add: predict_weight_def txin_base_size_def varint_size_def txout_size_def tx_base_size_def
      vin_base_size_def vout_size_def checked_add_def checked_mul_def MAX_STANDARD_TX_WEIGHT_def demo_externs_def)

lemma demo_weight: "ext_tx_weight demo_externs tx = 4 * of_nat (length (btx_output tx))"
  by (simp add: demo_externs_def)

lemma demo_collect: "collect_withdrawal_bundle demo_externs id withdrawal_state h = Ok (Some (demo_bundle h))"
proof -
  have t: "txout_size demo_externs 1 = Some 10"
    by (simp add: txout_size_def varint_size_def checked_add_def demo_externs_def)
  have "ext_script_pubkey demo_externs [7] = [7]" by (simp add: demo_externs_def)
  then have "collect_outputs demo_externs [\<lparr>ag_spend_utxos = fmupd (OpDeposit 1 0) withdrawal_coin fmempty,
     ag_main_address = [7], ag_value = 5, ag_main_fee = 1\<rparr>] bundle_acc_empty
     = Ok \<lparr>ba_fee = 1, ba_spend_utxos = fmupd (OpDeposit 1 0) withdrawal_coin fmempty,
         ba_outputs = [\<lparr>btxo_value = 5, btxo_script_pubkey = [7]\<rparr>], ba_txouts_size = 10\<rparr>"
    using demo_predict by (simp add: bundle_acc_empty_def u32_try_from_def t checked_add_def add_word_def Let_def)
  then show ?thesis
    by (simp add: collect_withdrawal_bundle_def demo_aggregation sort_aggregated_def WithdrawalBundle_new_def
        demo_weight MAX_STANDARD_TX_WEIGHT_def demo_bundle_def Let_def)
qed

lemma demo_bitcoin_sizes [simp]: "bitcoin_sizes demo_externs"
proof -
  have "unat (4 * of_nat (length outs) :: u64) \<le> 4 * (10 + k +
      (\<Sum>o'\<leftarrow>outs. txout_nat_size demo_externs (length (btxo_script_pubkey o'))))" for outs k
  proof -
    have "(4 * of_nat (length outs) :: u64) = of_nat (4 * length outs)" by simp
    then have four: "unat (4 * of_nat (length outs) :: u64) \<le> 4 * length outs"
      by (simp only: unsigned_of_nat take_bit_eq_mod mod_less_eq_dividend of_nat_id)
    have "length outs \<le> (\<Sum>o'\<leftarrow>outs. txout_nat_size demo_externs (length (btxo_script_pubkey o')))"
      by (induction outs) (simp_all add: txout_nat_size_def)
    then show ?thesis by (intro order_trans [OF four] mult_le_mono2 trans_le_add2)
  qed
  moreover have "unat (ext_varint_size demo_externs n) \<le> 9"
    "length (ext_op_return_script demo_externs bytes) = length bytes + 2" for n bytes
    by (simp_all add: demo_externs_def)
  ultimately show ?thesis by (simp only: bitcoin_sizes_def demo_weight) blast
qed

lemma demo_address_key [simp]: "inj (ext_address_key demo_externs)"
  by (simp add: demo_externs_def)

theorem bundle_independent_of_map_order_witness:
  "collect_withdrawal_bundle demo_externs rev withdrawal_state 5 = Ok (Some (demo_bundle 5))"
  using bundle_independent_of_map_order [of demo_externs withdrawal_state rev id 5] by (simp add: demo_collect)

theorem bundle_pays_what_it_spends_witness:
  "\<exists>bundle. collect_withdrawal_bundle demo_externs id withdrawal_state 5 = Ok (Some bundle) \<and>
    (\<exists>fee outs. btx_output (wb_tx bundle)
        = [mainchain_fee_txout demo_externs fee, inputs_commitment_txout demo_externs 5 (wb_spend_utxos bundle)] @ outs \<and>
      unat fee = db_total payout_fee (wb_spend_utxos bundle) \<and>
      (\<Sum>o'\<leftarrow>outs. unat (btxo_value o')) = db_total payout (wb_spend_utxos bundle))"
  using bundle_pays_what_it_spends [OF demo_collect, of 5] demo_collect [of 5] by auto

theorem collected_bundle_never_too_heavy_witness:
  "collect_withdrawal_bundle demo_externs id withdrawal_state 5 = Ok (Some (demo_bundle 5)) \<and>
   ext_tx_weight demo_externs (wb_tx (demo_bundle 5)) \<le> MAX_STANDARD_TX_WEIGHT"
  using collected_bundle_never_too_heavy [OF demo_bitcoin_sizes, of id withdrawal_state 5] demo_collect [of 5] by blast

end
