(* ===== verification/Two_Way_Peg.thy ===== *)
theory Two_Way_Peg
  imports Withdrawal_Bundle
begin

text \<open>
  Connecting and disconnecting two-way peg data (\<open>lib/state/two_way_peg_data.rs\<close>): deposits,
  the life of withdrawal bundles (pending, submitted, confirmed or failed), and the
  collection of a new bundle after every block.
\<close>

section \<open>Moving the coins of a bundle\<close>

definition bundle_rows :: "(OutPoint, FilledOutput) fmap \<Rightarrow> (OutPoint \<times> FilledOutput) list" where
  "bundle_rows spend_utxos = db_iter id spend_utxos"

text \<open>Delete the coin, which must be there, and record it as spent by the bundle.\<close>

definition spend_for_bundle :: "M6id \<Rightarrow> (OutPoint \<Rightarrow> 'e) \<Rightarrow> OutPoint \<times> FilledOutput \<Rightarrow> State \<Rightarrow> ('e, State) result" where
  "spend_for_bundle m6id err row st =
     (let (outpoint, out) = row; key = from_outpoint outpoint in
      rbind (ensure (fmlookup (st_utxos st) key \<noteq> None) (err outpoint)) (\<lambda>_.
        Ok (st\<lparr>st_utxos := fmdrop key (st_utxos st),
               st_stxos := fmupd key \<lparr>so_output = out, so_inpoint = IpWithdrawal m6id\<rparr> (st_stxos st)\<rparr>)))"

text \<open>Delete the spent coin, which must be there, and put the coin back.\<close>

definition unspend_for_bundle :: "OutPoint \<times> FilledOutput \<Rightarrow> State \<Rightarrow> (Error, State) result" where
  "unspend_for_bundle row st =
     (let (outpoint, out) = row; key = from_outpoint outpoint in
      rbind (ensure (fmlookup (st_stxos st) key \<noteq> None) (E_NoStxo outpoint)) (\<lambda>_.
        Ok (st\<lparr>st_stxos := fmdrop key (st_stxos st), st_utxos := fmupd key out (st_utxos st)\<rparr>)))"

definition push_status ::
  "'a \<Rightarrow> u32 \<Rightarrow> 'a HeightStamped RollBack \<Rightarrow> ('e, 'a HeightStamped RollBack) result" where
  "push_status v h r = (case hs_push v h r of Ok r' \<Rightarrow> Ok r' | _ \<Rightarrow> Panic)"

definition put_bundle :: "M6id \<Rightarrow> WithdrawalBundleInfo \<Rightarrow> BundleStatus \<Rightarrow> State \<Rightarrow> State" where
  "put_bundle m6id info status st = st\<lparr>st_withdrawal_bundles := fmupd m6id (info, status) (st_withdrawal_bundles st)\<rparr>"

section \<open>Bundle events\<close>

text \<open>The branch for the pending bundle.\<close>

definition submit_pending ::
  "u32 \<Rightarrow> M6id \<Rightarrow> BlockIndexEvents \<times> State \<Rightarrow> (ConnectWithdrawalBundleSubmittedError, BlockIndexEvents \<times> State) result" where
  "submit_pending block_height m6id s =
     (let (index_events, st) = s in
      rbind (ok_or (CWBS_PendingWithdrawalBundleUnknown m6id) (fmlookup (st_withdrawal_bundles st) m6id))
        (\<lambda>(info, bundle_status).
      case info of
        Known bundle \<Rightarrow>
          rbind (try_fold (spend_for_bundle m6id CWBS_NoUtxo) (bundle_rows (wb_spend_utxos bundle)) st) (\<lambda>st1.
          rbind (assert_that (hs_value (hs_latest bundle_status) = WBS_Pending)) (\<lambda>_.
          rbind (push_status WBS_Submitted block_height bundle_status) (\<lambda>bundle_status'.
            Ok (index_events\<lparr>bie_bundle_spends := bie_bundle_spends index_events
                  @ map (\<lambda>(outpoint, _). (outpoint, m6id)) (bundle_rows (wb_spend_utxos bundle))\<rparr>,
                (put_bundle m6id (Known bundle) bundle_status' st1)\<lparr>st_pending_withdrawal_bundle := None\<rparr>))))
      | _ \<Rightarrow> Err (CWBS_PendingWithdrawalBundleUnknown m6id)))"

text \<open>Whether a bundle that is not pending may be submitted.\<close>

fun check_resubmission ::
  "bitcoin_BlockHash \<Rightarrow> M6id \<Rightarrow> WithdrawalBundleInfo \<Rightarrow> WithdrawalBundleStatus HeightStamped
    \<Rightarrow> (ConnectWithdrawalBundleSubmittedError, unit) result" where
  "check_resubmission event_block_hash m6id info s =
     (case (info, hs_value s) of
        (_, WBS_Confirmed) \<Rightarrow> Err (CWBS_ConfirmedResubmitted event_block_hash m6id)
      | (_, WBS_Submitted) \<Rightarrow> Err (CWBS_Resubmitted event_block_hash m6id (hs_height s))
      | (_, WBS_SubmittedUnexpected) \<Rightarrow> Err (CWBS_Resubmitted event_block_hash m6id (hs_height s))
      | (Known _, WBS_Dropped) \<Rightarrow> Ok ()
      | (_, WBS_Dropped) \<Rightarrow> Err (CWBS_UnknownDropped m6id (hs_height s))
      | (Known _, WBS_Pending) \<Rightarrow> Err (CWBS_DroppedPending m6id)
      | (_, WBS_Pending) \<Rightarrow> Err (CWBS_UnknownPending m6id (hs_height s))
      | (UnknownConfirmed _, WBS_Failed) \<Rightarrow> Err (CWBS_UnknownConfirmedFailed m6id (hs_height s))
      | (_, WBS_Failed) \<Rightarrow> Ok ())"

declare check_resubmission.simps [simp del]

definition connect_withdrawal_bundle_submitted ::
  "u32 \<Rightarrow> bitcoin_BlockHash \<Rightarrow> M6id \<Rightarrow> BlockIndexEvents \<times> State
    \<Rightarrow> (ConnectWithdrawalBundleSubmittedError, BlockIndexEvents \<times> State) result" where
  "connect_withdrawal_bundle_submitted block_height event_block_hash m6id s =
     (let (index_events, st) = s in
      if st_pending_withdrawal_bundle st = Some m6id then submit_pending block_height m6id s
      else case fmlookup (st_withdrawal_bundles st) m6id of
        Some (info, bundle_status) \<Rightarrow>
          rbind (check_resubmission event_block_hash m6id info (hs_latest bundle_status)) (\<lambda>_.
          rbind (push_status WBS_SubmittedUnexpected block_height bundle_status) (\<lambda>bundle_status'.
            Ok (index_events, put_bundle m6id info bundle_status' st)))
      | None \<Rightarrow> Ok (index_events, put_bundle m6id Unknown (hs_new WBS_Submitted block_height) st))"

definition is_submitted :: "WithdrawalBundleStatus \<Rightarrow> bool" where
  "is_submitted s \<longleftrightarrow> s = WBS_Submitted \<or> s = WBS_SubmittedUnexpected"

text \<open>
  What a confirmation does to the coins: an unknown bundle, accepted at height 0 only,
  spends all of them; an unexpected one spends its own.
\<close>

definition confirm_coins ::
  "u32 \<Rightarrow> bitcoin_BlockHash \<Rightarrow> M6id \<Rightarrow> WithdrawalBundleInfo \<Rightarrow> WithdrawalBundleStatus \<Rightarrow> State
    \<Rightarrow> (Error, WithdrawalBundleInfo \<times> State) result" where
  "confirm_coins block_height event_block_hash m6id info status st =
     (case info of
        UnknownConfirmed _ \<Rightarrow> Err (E_UnknownWithdrawalBundleReconfirmed event_block_hash m6id)
      | Unknown \<Rightarrow>
          if block_height = 0
          then rbind (get_utxos st) (\<lambda>utxos.
            Ok (UnknownConfirmed utxos,
                st\<lparr>st_stxos := db.put_all (map (\<lambda>(outpoint, out). (from_outpoint outpoint,
                       \<lparr>so_output = out, so_inpoint = IpWithdrawal m6id\<rparr>)) (bundle_rows utxos)) (st_stxos st),
                   st_utxos := fmempty\<rparr>))
          else Err (E_UnknownWithdrawalBundleConfirmed event_block_hash m6id)
      | Known bundle \<Rightarrow>
          if status = WBS_SubmittedUnexpected
          then rbind (try_fold (spend_for_bundle m6id (E_UnexpectedWithdrawalBundleInsolvency event_block_hash m6id))
                 (bundle_rows (wb_spend_utxos bundle)) st) (\<lambda>st1. Ok (info, st1))
          else Ok (info, st))"

definition connect_withdrawal_bundle_confirmed ::
  "u32 \<Rightarrow> bitcoin_BlockHash \<Rightarrow> M6id \<Rightarrow> State \<Rightarrow> (Error, State) result" where
  "connect_withdrawal_bundle_confirmed block_height event_block_hash m6id st =
     rbind (ok_or (E_UnknownWithdrawalBundle m6id) (fmlookup (st_withdrawal_bundles st) m6id))
       (\<lambda>(info, bundle_status).
     let status = hs_value (hs_latest bundle_status) in
     if status = WBS_Confirmed then Ok st
     else rbind (assert_that (is_submitted status)) (\<lambda>_.
       rbind (confirm_coins block_height event_block_hash m6id info status st) (\<lambda>(info', st1).
       rbind (push_status WBS_Confirmed block_height bundle_status) (\<lambda>bundle_status'.
         Ok (put_bundle m6id info' bundle_status' st1)))))"

text \<open>Put the coins of a failed bundle back; a coin missing from the STXO table is no error here.\<close>

definition refund_coin :: "OutPoint \<times> FilledOutput \<Rightarrow> State \<Rightarrow> State" where
  "refund_coin row st =
     (let (outpoint, out) = row; key = from_outpoint outpoint in
      st\<lparr>st_stxos := fmdrop key (st_stxos st), st_utxos := fmupd key out (st_utxos st)\<rparr>)"

definition push_latest_failed :: "u32 \<Rightarrow> M6id \<Rightarrow> State \<Rightarrow> (Error, State) result" where
  "push_latest_failed block_height m6id st =
     rbind (case st_latest_failed_withdrawal_bundle st of
              Some r \<Rightarrow> push_status m6id block_height r
            | None \<Rightarrow> Ok (hs_new m6id block_height)) (\<lambda>r.
       Ok (st\<lparr>st_latest_failed_withdrawal_bundle := Some r\<rparr>))"

definition connect_withdrawal_bundle_failed :: "u32 \<Rightarrow> M6id \<Rightarrow> State \<Rightarrow> (Error, State) result" where
  "connect_withdrawal_bundle_failed block_height m6id st =
     rbind (ok_or (E_UnknownWithdrawalBundle m6id) (fmlookup (st_withdrawal_bundles st) m6id))
       (\<lambda>(info, bundle_status).
     let status = hs_value (hs_latest bundle_status) in
     if status = WBS_Failed then Ok st
     else rbind (assert_that (is_submitted status)) (\<lambda>_.
       rbind (case info of
                Known bundle \<Rightarrow>
                  if status = WBS_SubmittedUnexpected then Ok st
                  else push_latest_failed block_height m6id (fold refund_coin (bundle_rows (wb_spend_utxos bundle)) st)
              | _ \<Rightarrow> Ok st) (\<lambda>st1.
       rbind (push_status WBS_Failed block_height bundle_status) (\<lambda>bundle_status'.
         Ok (put_bundle m6id info bundle_status' st1)))))"

definition connect_withdrawal_bundle_event ::
  "u32 \<Rightarrow> bitcoin_BlockHash \<Rightarrow> WithdrawalBundleEvent \<Rightarrow> BlockIndexEvents \<times> State
    \<Rightarrow> (Error, BlockIndexEvents \<times> State) result" where
  "connect_withdrawal_bundle_event block_height event_block_hash event s =
     (let (index_events, st) = s; m6id = wbe_m6id event in
      case wbe_status event of
        WBE_Submitted \<Rightarrow> map_err E_ConnectWithdrawalBundleSubmitted
          (connect_withdrawal_bundle_submitted block_height event_block_hash m6id s)
      | WBE_Confirmed \<Rightarrow> rbind (connect_withdrawal_bundle_confirmed block_height event_block_hash m6id st)
          (\<lambda>st'. Ok (index_events, st'))
      | WBE_Failed \<Rightarrow> rbind (connect_withdrawal_bundle_failed block_height m6id st) (\<lambda>st'. Ok (index_events, st')))"

section \<open>Connecting\<close>

record peg_progress =
  pp_index_events :: BlockIndexEvents
  pp_latest_deposit_block_hash :: "bitcoin_BlockHash option"
  pp_latest_withdrawal_bundle_event_block_hash :: "bitcoin_BlockHash option"

definition deposit_outpoint :: "Deposit \<Rightarrow> OutPoint" where
  "deposit_outpoint deposit = OpDeposit (dp_txid deposit) (dp_vout deposit)"

definition connect_2wpd_event ::
  "u32 \<Rightarrow> bitcoin_BlockHash \<times> BlockEvent \<Rightarrow> peg_progress \<times> State \<Rightarrow> (Error, peg_progress \<times> State) result" where
  "connect_2wpd_event block_height ev s =
     (let (event_block_hash, event) = ev; (pp, st) = s in
      case event of
        BE_Deposit deposit \<Rightarrow>
          Ok (pp\<lparr>pp_index_events := (pp_index_events pp)\<lparr>bie_deposits :=
                   bie_deposits (pp_index_events pp) @ [(deposit_outpoint deposit, dp_output deposit)]\<rparr>,
                 pp_latest_deposit_block_hash := Some event_block_hash\<rparr>,
              st\<lparr>st_utxos := fmupd (from_outpoint (deposit_outpoint deposit)) (dp_output deposit) (st_utxos st)\<rparr>)
      | BE_WithdrawalBundle bundle_event \<Rightarrow>
          rbind (connect_withdrawal_bundle_event block_height event_block_hash bundle_event (pp_index_events pp, st))
            (\<lambda>(index_events, st').
            Ok (pp\<lparr>pp_index_events := index_events,
                   pp_latest_withdrawal_bundle_event_block_hash := Some event_block_hash\<rparr>, st')))"

text \<open>The events in the order in which both loops visit them.\<close>

definition peg_events :: "TwoWayPegData \<Rightarrow> (bitcoin_BlockHash \<times> BlockEvent) list" where
  "peg_events data = concat (map (\<lambda>(block_hash, events). map (\<lambda>event. (block_hash, event)) events) (block_info data))"

text \<open>Append an entry to \<open>deposit_blocks\<close> or \<open>withdrawal_bundle_event_blocks\<close>.\<close>

definition next_index :: "externs \<Rightarrow> (u32, 'v) fmap \<Rightarrow> ('e, u32) result" where
  "next_index E m = (case db_last (ext_bincode_u32 E) m of None \<Rightarrow> Ok 0 | Some (seq_idx, _) \<Rightarrow> add_word seq_idx 1)"

definition append_block ::
  "externs \<Rightarrow> bitcoin_BlockHash option \<Rightarrow> u32 \<Rightarrow> (u32, bitcoin_BlockHash \<times> u32) fmap
    \<Rightarrow> ('e, (u32, bitcoin_BlockHash \<times> u32) fmap) result" where
  "append_block E latest block_height m =
     (case latest of
        None \<Rightarrow> Ok m
      | Some block_hash \<Rightarrow> rbind (next_index E m) (\<lambda>idx. Ok (fmupd idx (block_hash, block_height) m)))"

definition latest_failure_height :: "State \<Rightarrow> ('e, u32) result" where
  "latest_failure_height st =
     rbind (get_latest_failed_withdrawal_bundle st) (\<lambda>r. Ok (case r of Some (height, _) \<Rightarrow> height | None \<Rightarrow> 0))"

text \<open>The last step of \<open>connect\<close>: collect a new pending bundle.\<close>

definition store_pending_bundle :: "externs \<Rightarrow> u32 \<Rightarrow> WithdrawalBundle \<Rightarrow> State \<Rightarrow> (Error, State) result" where
  "store_pending_bundle E block_height bundle st =
     (let m6id = compute_m6id E bundle in
      rbind (case fmlookup (st_withdrawal_bundles st) m6id of
               Some (_, bundle_status) \<Rightarrow> push_status WBS_Pending block_height bundle_status
             | None \<Rightarrow> Ok (hs_new WBS_Pending block_height)) (\<lambda>bundle_status.
        Ok (put_bundle m6id (Known bundle) bundle_status (st\<lparr>st_pending_withdrawal_bundle := Some m6id\<rparr>))))"

definition collect_pending ::
  "externs \<Rightarrow> (AggregatedWithdrawal list \<Rightarrow> AggregatedWithdrawal list) \<Rightarrow> u32 \<Rightarrow> State \<Rightarrow> (Error, State) result" where
  "collect_pending E order block_height st =
     rbind (latest_failure_height st) (\<lambda>failure_height.
     rbind (sub_word block_height failure_height) (\<lambda>gap.
     if gap \<ge> WITHDRAWAL_BUNDLE_FAILURE_GAP \<and> st_pending_withdrawal_bundle st = None
     then rbind (collect_withdrawal_bundle E order st block_height) (\<lambda>collected.
       case collected of None \<Rightarrow> Ok st | Some bundle \<Rightarrow> store_pending_bundle E block_height bundle st)
     else Ok st))"

definition peg_progress_init :: peg_progress where
  "peg_progress_init = \<lparr>pp_index_events = \<lparr>bie_deposits = [], bie_bundle_spends = []\<rparr>,
     pp_latest_deposit_block_hash = None, pp_latest_withdrawal_bundle_event_block_hash = None\<rparr>"

definition record_progress :: "externs \<Rightarrow> u32 \<Rightarrow> peg_progress \<Rightarrow> State \<Rightarrow> ('e, State) result" where
  "record_progress E block_height pp st =
     (let st1 = (if block_index_events_is_empty (pp_index_events pp) then st
                 else st\<lparr>st_block_index_events := fmupd block_height (pp_index_events pp) (st_block_index_events st)\<rparr>) in
      rbind (append_block E (pp_latest_deposit_block_hash pp) block_height (st_deposit_blocks st1)) (\<lambda>deposits.
      rbind (append_block E (pp_latest_withdrawal_bundle_event_block_hash pp) block_height
               (st_withdrawal_bundle_event_blocks st1)) (\<lambda>withdrawals.
        Ok (st1\<lparr>st_deposit_blocks := deposits, st_withdrawal_bundle_event_blocks := withdrawals\<rparr>))))"

definition connect_two_way_peg_data ::
  "externs \<Rightarrow> (AggregatedWithdrawal list \<Rightarrow> AggregatedWithdrawal list) \<Rightarrow> TwoWayPegData \<Rightarrow> State
    \<Rightarrow> (Error, State) result" where
  "connect_two_way_peg_data E order data st =
     rbind (ok_or E_NoTip (st_height st)) (\<lambda>block_height.
     rbind (try_fold (connect_2wpd_event block_height) (peg_events data) (peg_progress_init, st)) (\<lambda>(pp, st1).
     rbind (record_progress E block_height pp st1) (\<lambda>st2.
       collect_pending E order block_height st2)))"

section \<open>Disconnecting\<close>

definition disconnect_withdrawal_bundle_submitted :: "u32 \<Rightarrow> M6id \<Rightarrow> State \<Rightarrow> (Error, State) result" where
  "disconnect_withdrawal_bundle_submitted block_height m6id st =
     (case fmlookup (st_withdrawal_bundles st) m6id of
        None \<Rightarrow> if st_pending_withdrawal_bundle st = Some m6id then Ok st else Err (E_UnknownWithdrawalBundle m6id)
      | Some (info, bundle_status) \<Rightarrow>
         let (prev, latest) = hs_pop bundle_status in
         rbind (assert_that (is_submitted (hs_value latest))) (\<lambda>_.
         rbind (assert_that (hs_height latest = block_height)) (\<lambda>_.
         rbind (case (info, prev) of
                  (Known bundle, Some p) \<Rightarrow>
                    if hs_value (hs_latest p) = WBS_Pending
                    then rbind (try_fold unspend_for_bundle (rev (bundle_rows (wb_spend_utxos bundle))) st) (\<lambda>st1.
                      Ok (st1\<lparr>st_pending_withdrawal_bundle := Some m6id\<rparr>))
                    else Ok st
                | _ \<Rightarrow> Ok st) (\<lambda>st1.
           Ok (case prev of
                 Some p \<Rightarrow> put_bundle m6id info p st1
               | None \<Rightarrow> st1\<lparr>st_withdrawal_bundles := fmdrop m6id (st_withdrawal_bundles st1)\<rparr>)))))"

definition disconnect_withdrawal_bundle_confirmed :: "u32 \<Rightarrow> M6id \<Rightarrow> State \<Rightarrow> (Error, State) result" where
  "disconnect_withdrawal_bundle_confirmed block_height m6id st =
     rbind (ok_or (E_UnknownWithdrawalBundle m6id) (fmlookup (st_withdrawal_bundles st) m6id))
       (\<lambda>(info, bundle_status).
     let (prev, latest) = hs_pop bundle_status in
     if is_submitted (hs_value latest) then Ok st
     else rbind (assert_that (hs_value latest = WBS_Confirmed)) (\<lambda>_.
       rbind (assert_that (hs_height latest = block_height)) (\<lambda>_.
       rbind (expect prev) (\<lambda>p.
       rbind (assert_that (is_submitted (hs_value (hs_latest p)))) (\<lambda>_.
       rbind (case info of
                Known bundle \<Rightarrow>
                  if hs_value (hs_latest p) = WBS_SubmittedUnexpected
                  then rbind (try_fold unspend_for_bundle (bundle_rows (wb_spend_utxos bundle)) st) (\<lambda>st1. Ok (info, st1))
                  else Ok (info, st)
              | UnknownConfirmed spend_utxos \<Rightarrow>
                  rbind (try_fold unspend_for_bundle (bundle_rows spend_utxos) st) (\<lambda>st1. Ok (Unknown, st1))
              | Unknown \<Rightarrow> Ok (info, st)) (\<lambda>(info', st1).
         Ok (put_bundle m6id info' p st1)))))))"

definition pop_latest_failed :: "u32 \<Rightarrow> M6id \<Rightarrow> State \<Rightarrow> (Error, State) result" where
  "pop_latest_failed block_height m6id st =
     rbind (expect (st_latest_failed_withdrawal_bundle st)) (\<lambda>r.
     let (prev, latest) = hs_pop r in
     rbind (assert_that (hs_value latest = m6id)) (\<lambda>_.
     rbind (assert_that (hs_height latest = block_height)) (\<lambda>_.
       Ok (st\<lparr>st_latest_failed_withdrawal_bundle := prev\<rparr>))))"

definition disconnect_withdrawal_bundle_failed :: "u32 \<Rightarrow> M6id \<Rightarrow> State \<Rightarrow> (Error, State) result" where
  "disconnect_withdrawal_bundle_failed block_height m6id st =
     rbind (ok_or (E_UnknownWithdrawalBundle m6id) (fmlookup (st_withdrawal_bundles st) m6id))
       (\<lambda>(info, bundle_status).
     let (prev, latest) = hs_pop bundle_status in
     if hs_value latest = WBS_Submitted then Ok st
     else rbind (assert_that (hs_value latest = WBS_Failed)) (\<lambda>_.
       rbind (assert_that (hs_height latest = block_height)) (\<lambda>_.
       rbind (expect prev) (\<lambda>p.
       rbind (assert_that (is_submitted (hs_value (hs_latest p)))) (\<lambda>_.
       rbind (case info of
                Known bundle \<Rightarrow>
                  if hs_value (hs_latest p) = WBS_SubmittedUnexpected then Ok st
                  else rbind (try_fold (spend_for_bundle m6id E_NoUtxo) (rev (bundle_rows (wb_spend_utxos bundle))) st)
                    (pop_latest_failed block_height m6id)
              | _ \<Rightarrow> Ok st) (\<lambda>st1.
         Ok (put_bundle m6id info p st1)))))))"

definition disconnect_withdrawal_bundle_event :: "u32 \<Rightarrow> WithdrawalBundleEvent \<Rightarrow> State \<Rightarrow> (Error, State) result" where
  "disconnect_withdrawal_bundle_event block_height event st =
     (case wbe_status event of
        WBE_Submitted \<Rightarrow> disconnect_withdrawal_bundle_submitted block_height (wbe_m6id event) st
      | WBE_Confirmed \<Rightarrow> disconnect_withdrawal_bundle_confirmed block_height (wbe_m6id event) st
      | WBE_Failed \<Rightarrow> disconnect_withdrawal_bundle_failed block_height (wbe_m6id event) st)"

text \<open>The two hashes of \<open>disconnect_event\<close>: the first one seen is kept.\<close>

type_synonym latest_hashes = "bitcoin_BlockHash option \<times> bitcoin_BlockHash option"

definition keep_first :: "'a \<Rightarrow> 'a option \<Rightarrow> 'a option" where
  "keep_first x seen = (case seen of None \<Rightarrow> Some x | Some y \<Rightarrow> Some y)"

definition disconnect_event ::
  "u32 \<Rightarrow> bitcoin_BlockHash \<times> BlockEvent \<Rightarrow> latest_hashes \<times> State \<Rightarrow> (Error, latest_hashes \<times> State) result" where
  "disconnect_event block_height ev s =
     (let (event_block_hash, event) = ev; ((deposit_hash, bundle_hash), st) = s in
      case event of
        BE_Deposit deposit \<Rightarrow>
          (let key = from_outpoint (deposit_outpoint deposit) in
           rbind (ensure (fmlookup (st_utxos st) key \<noteq> None) (E_NoUtxo (deposit_outpoint deposit))) (\<lambda>_.
             Ok ((keep_first event_block_hash deposit_hash, bundle_hash), st\<lparr>st_utxos := fmdrop key (st_utxos st)\<rparr>)))
      | BE_WithdrawalBundle bundle_event \<Rightarrow>
          rbind (disconnect_withdrawal_bundle_event block_height bundle_event st) (\<lambda>st'.
            Ok ((deposit_hash, keep_first event_block_hash bundle_hash), st')))"

text \<open>Remove the last entry of \<open>deposit_blocks\<close> or \<open>withdrawal_bundle_event_blocks\<close>.\<close>

definition remove_block ::
  "externs \<Rightarrow> Error \<Rightarrow> bitcoin_BlockHash option \<Rightarrow> u32 \<Rightarrow> (u32, bitcoin_BlockHash \<times> u32) fmap
    \<Rightarrow> (Error, (u32, bitcoin_BlockHash \<times> u32) fmap) result" where
  "remove_block E err latest block_height m =
     (case latest of
        None \<Rightarrow> Ok m
      | Some block_hash \<Rightarrow>
          rbind (ok_or err (db_last (ext_bincode_u32 E) m)) (\<lambda>(idx, last_hash, last_height).
          rbind (assert_that (block_hash = last_hash)) (\<lambda>_.
          rbind (assert_that (block_height = last_height)) (\<lambda>_.
            Ok (fmdrop idx m)))))"

definition drop_pending :: "u32 \<Rightarrow> State \<Rightarrow> (Error, State) result" where
  "drop_pending block_height st =
     rbind (latest_failure_height st) (\<lambda>failure_height.
     rbind (sub_word block_height failure_height) (\<lambda>gap.
     if gap \<ge> WITHDRAWAL_BUNDLE_FAILURE_GAP
     then (case st_pending_withdrawal_bundle st of
        None \<Rightarrow> Ok st
      | Some m6id \<Rightarrow>
          rbind (ok_or (E_PendingWithdrawalBundleUnknown m6id) (fmlookup (st_withdrawal_bundles st) m6id))
            (\<lambda>(info, bundle_status).
            if hs_height (hs_latest bundle_status) = block_height
            then (let st1 = st\<lparr>st_pending_withdrawal_bundle := None\<rparr> in
              Ok (case fst (hs_pop bundle_status) of
                    Some prev \<Rightarrow> put_bundle m6id info prev st1
                  | None \<Rightarrow> st1\<lparr>st_withdrawal_bundles := fmdrop m6id (st_withdrawal_bundles st1)\<rparr>))
            else Ok st))
     else Ok st))"

definition disconnect_two_way_peg_data :: "externs \<Rightarrow> TwoWayPegData \<Rightarrow> State \<Rightarrow> (Error, State) result" where
  "disconnect_two_way_peg_data E data st =
     rbind (expect (st_height st)) (\<lambda>block_height.
     let st0 = st\<lparr>st_block_index_events := fmdrop block_height (st_block_index_events st)\<rparr> in
     rbind (try_fold (disconnect_event block_height) (rev (peg_events data)) ((None, None), st0))
       (\<lambda>((deposit_hash, bundle_hash), st1).
     rbind (remove_block E E_NoWithdrawalBundleEventBlock bundle_hash block_height
              (st_withdrawal_bundle_event_blocks st1)) (\<lambda>bundle_blocks.
     rbind (drop_pending block_height (st1\<lparr>st_withdrawal_bundle_event_blocks := bundle_blocks\<rparr>)) (\<lambda>st2.
     rbind (remove_block E E_NoDepositBlock deposit_hash block_height (st_deposit_blocks st2)) (\<lambda>deposit_blocks.
       Ok (st2\<lparr>st_deposit_blocks := deposit_blocks\<rparr>))))))"

end
