(* ===== verification/Peg_Invariant.thy ===== *)
theory Peg_Invariant
  imports Two_Way_Peg Block_Refinement Bundle_Properties
begin

text \<open>
  The life of a withdrawal bundle as a state machine: which statuses follow each other in
  its history, how the pending bundle and the histories agree, and that every two-way peg
  event keeps this invariant. It follows that the errors which the code returns for
  impossible combinations of status and bundle are never returned, and that after a block
  without failures a waiting withdrawal is picked up.
\<close>

section \<open>The status machine\<close>

inductive status_step :: "WithdrawalBundleStatus \<Rightarrow> WithdrawalBundleStatus \<Rightarrow> bool" where
  submit: "status_step WBS_Pending WBS_Submitted"
| confirm: "is_submitted s \<Longrightarrow> status_step s WBS_Confirmed"
| failed: "is_submitted s \<Longrightarrow> status_step s WBS_Failed"
| resubmit: "status_step WBS_Failed WBS_SubmittedUnexpected"
| recollect: "s \<noteq> WBS_Pending \<Longrightarrow> status_step s WBS_Pending"

inductive_simps status_step_simps [simp]:
  "status_step s WBS_Submitted" "status_step s WBS_Confirmed" "status_step s WBS_Failed"
  "status_step s WBS_SubmittedUnexpected" "status_step s WBS_Pending" "status_step s WBS_Dropped"

definition latest_status :: "BundleStatus \<Rightarrow> WithdrawalBundleStatus" where
  "latest_status r = hs_value (hs_latest r)"

text \<open>A history up to the height \<open>h\<close>.\<close>

definition status_history_ok :: "u32 \<Rightarrow> BundleStatus \<Rightarrow> bool" where
  "status_history_ok h r \<longleftrightarrow> rb_wf r
     \<and> hs_value (hs_earliest r) \<in> {WBS_Pending, WBS_Submitted}
     \<and> successively status_step (map hs_value (rb_list r))
     \<and> sorted (map hs_height (rb_list r)) \<and> hs_height (hs_latest r) \<le> h"

lemma status_history_ok_mono: "status_history_ok h r \<Longrightarrow> h \<le> h' \<Longrightarrow> status_history_ok h' r"
  by (auto simp: status_history_ok_def)

lemma status_history_ok_new:
  "s \<in> {WBS_Pending, WBS_Submitted} \<Longrightarrow> status_history_ok h (hs_new s h)"
  by (simp add: status_history_ok_def hs_new_def hs_earliest_def hs_latest_def rb_wf_def)

lemma push_status_Ok:
  assumes "rb_wf r" and "hs_height (hs_latest r) \<le> h"
  shows "push_status v h r = Ok (RollBack (rb_list r @ [\<lparr>hs_value = v, hs_height = h\<rparr>]))"
  using assms by (simp add: push_status_def hs_push_def)

lemma latest_status_push [simp]:
  "latest_status (RollBack (rb_list r @ [\<lparr>hs_value = v, hs_height = h\<rparr>])) = v"
  by (simp add: latest_status_def hs_latest_def)

lemma sorted_snoc:
  assumes "sorted xs" and "xs \<noteq> []" and "last xs \<le> x"
  shows "sorted (xs @ [x])"
proof -
  obtain ys y where ys: "xs = ys @ [y]" using assms(2) by (metis rev_exhaust)
  with assms(1,3) have "\<forall>z\<in>set xs. z \<le> x" by (auto simp: sorted_append intro: order_trans)
  with assms(1) show ?thesis by (simp add: sorted_append)
qed

lemma status_history_ok_push:
  assumes "status_history_ok h r" and "status_step (latest_status r) s"
  shows "status_history_ok h (RollBack (rb_list r @ [\<lparr>hs_value = s, hs_height = h\<rparr>]))"
proof -
  have ne: "rb_list r \<noteq> []" using assms(1) by (simp add: status_history_ok_def rb_wf_def)
  have "sorted (map hs_height (rb_list r) @ [h])"
    by (rule sorted_snoc) (use assms(1) ne in \<open>simp_all add: status_history_ok_def hs_latest_def last_map\<close>)
  moreover have "successively status_step (map hs_value (rb_list r) @ [s])"
    using assms ne by (simp add: successively_append_iff status_history_ok_def latest_status_def hs_latest_def last_map)
  ultimately show ?thesis using assms(1) ne
    by (simp add: status_history_ok_def rb_wf_def hs_earliest_def hs_latest_def)
qed

lemma push_status_history:
  assumes "status_history_ok h r"
  shows "push_status s h r = Ok (RollBack (rb_list r @ [\<lparr>hs_value = s, hs_height = h\<rparr>]))"
  using assms by (simp add: push_status_Ok status_history_ok_def)

section \<open>The invariant of the peg\<close>

text \<open>
  A bundle that no block of this chain collected has nothing to refund; one that was
  confirmed while unknown stays confirmed; a pending one is known, and it is the bundle
  that \<open>pending_withdrawal_bundle\<close> names.
\<close>

fun info_fits :: "WithdrawalBundleInfo \<Rightarrow> WithdrawalBundleStatus \<Rightarrow> bool" where
  "info_fits (Known _) s = True"
| "info_fits Unknown s = (s \<noteq> WBS_Pending)"
| "info_fits (UnknownConfirmed _) s = (s = WBS_Confirmed)"

definition bundle_ok :: "u32 \<Rightarrow> M6id option \<Rightarrow> M6id \<Rightarrow> WithdrawalBundleInfo \<times> BundleStatus \<Rightarrow> bool" where
  "bundle_ok h pending m6id b \<longleftrightarrow> status_history_ok h (snd b) \<and> info_fits (fst b) (latest_status (snd b))
     \<and> (latest_status (snd b) = WBS_Pending \<longleftrightarrow> pending = Some m6id)"

definition peg_ok :: "u32 \<Rightarrow> State \<Rightarrow> bool" where
  "peg_ok h st \<longleftrightarrow>
     (\<forall>m6id b. fmlookup (st_withdrawal_bundles st) m6id = Some b \<longrightarrow>
        bundle_ok h (st_pending_withdrawal_bundle st) m6id b)
     \<and> (\<forall>m6id. st_pending_withdrawal_bundle st = Some m6id \<longrightarrow> m6id |\<in>| fmdom (st_withdrawal_bundles st))
     \<and> (\<forall>r. st_latest_failed_withdrawal_bundle st = Some r \<longrightarrow> rb_wf r \<and> hs_height (hs_latest r) \<le> h)"

lemma peg_ok_mono: "peg_ok h st \<Longrightarrow> h \<le> h' \<Longrightarrow> peg_ok h' st"
  unfolding peg_ok_def bundle_ok_def by (meson status_history_ok_mono order_trans)

lemma peg_ok_coins [simp]: "peg_ok h (set_coins u x st) = peg_ok h st"
  by (simp add: peg_ok_def set_coins_def)

lemma peg_ok_lookup:
  assumes "peg_ok h st" and "fmlookup (st_withdrawal_bundles st) m6id = Some (info, r)"
  shows "status_history_ok h r" and "info_fits info (latest_status r)"
    and "latest_status r = WBS_Pending \<longleftrightarrow> st_pending_withdrawal_bundle st = Some m6id"
  using assms unfolding peg_ok_def bundle_ok_def by auto

text \<open>Writing one bundle, together with the pending bundle.\<close>

lemma peg_ok_put:
  assumes "peg_ok h st" and "status_history_ok h r" and "info_fits info (latest_status r)"
    and "latest_status r = WBS_Pending \<longleftrightarrow> pending = Some m6id"
    and "pending = st_pending_withdrawal_bundle st
       \<or> pending = None \<and> st_pending_withdrawal_bundle st = Some m6id
       \<or> pending = Some m6id \<and> st_pending_withdrawal_bundle st = None"
  shows "peg_ok h (put_bundle m6id info r (st\<lparr>st_pending_withdrawal_bundle := pending\<rparr>))"
  using assms unfolding peg_ok_def bundle_ok_def put_bundle_def by auto

lemma peg_ok_put_same:
  assumes "peg_ok h st" and "status_history_ok h r" and "info_fits info (latest_status r)"
    and "latest_status r \<noteq> WBS_Pending" and "st_pending_withdrawal_bundle st \<noteq> Some m6id"
  shows "peg_ok h (put_bundle m6id info r st)"
  using peg_ok_put [OF assms(1,2,3), of "st_pending_withdrawal_bundle st" m6id] assms(4,5) by simp

section \<open>Moving coins leaves the bundles alone\<close>

definition only_coins :: "State \<Rightarrow> State \<Rightarrow> bool" where
  "only_coins st st' \<longleftrightarrow> (\<exists>u x. st' = set_coins u x st)"

lemma only_coins_refl [simp, intro]: "only_coins st st"
  by (auto simp: only_coins_def intro!: exI [of _ "st_utxos st"] exI [of _ "st_stxos st"])

lemma only_coins_upd [intro]:
  assumes "only_coins st s"
  shows "only_coins st (s\<lparr>st_utxos := u\<rparr>)" and "only_coins st (s\<lparr>st_stxos := x\<rparr>)"
proof -
  obtain u' x' where "s = set_coins u' x' st" using assms by (auto simp: only_coins_def)
  then have "s\<lparr>st_utxos := u\<rparr> = set_coins u x' st" "s\<lparr>st_stxos := x\<rparr> = set_coins u' x st" by simp_all
  then show "only_coins st (s\<lparr>st_utxos := u\<rparr>)" "only_coins st (s\<lparr>st_stxos := x\<rparr>)"
    unfolding only_coins_def by blast+
qed

interpretation bundle_spend: stepwise "spend_for_bundle m6id err" "only_coins st" for m6id err st
proof unfold_locales
  fix s s' and row :: "OutPoint \<times> FilledOutput"
  assume "only_coins st s" and "spend_for_bundle m6id err row s = Ok s'"
  then show "only_coins st s'" by (cases row) (auto simp: spend_for_bundle_def Let_def rbind_Ok_iff)
qed

interpretation bundle_unspend: stepwise unspend_for_bundle "only_coins st" for st
proof unfold_locales
  fix s s' and row :: "OutPoint \<times> FilledOutput"
  assume "only_coins st s" and "unspend_for_bundle row s = Ok s'"
  then show "only_coins st s'" by (cases row) (auto simp: unspend_for_bundle_def Let_def rbind_Ok_iff)
qed

lemma refund_only_coins: "only_coins st s \<Longrightarrow> only_coins st (fold refund_coin rows s)"
  by (induction rows arbitrary: s) (auto simp: refund_coin_def Let_def)

lemma peg_ok_only_coins: "only_coins st st' \<Longrightarrow> peg_ok h st' = peg_ok h st"
  by (auto simp: only_coins_def)

lemma only_coins_sel:
  assumes "only_coins st st'"
  shows "st_withdrawal_bundles st' = st_withdrawal_bundles st"
    and "st_pending_withdrawal_bundle st' = st_pending_withdrawal_bundle st"
    and "st_latest_failed_withdrawal_bundle st' = st_latest_failed_withdrawal_bundle st"
    and "st_height st' = st_height st"
  using assms by (auto simp: only_coins_def set_coins_def)

section \<open>Every event keeps the invariant\<close>

lemma submit_pending_ok:
  assumes "peg_ok h st" and "st_pending_withdrawal_bundle st = Some m6id"
    and "submit_pending h m6id (ie, st) = Ok (ie', st')"
  shows "peg_ok h st'"
proof -
  from assms(3) obtain info r where lk: "fmlookup (st_withdrawal_bundles st) m6id = Some (info, r)"
    by (auto simp: submit_pending_def rbind_Ok_iff)
  with assms(3) obtain bnd where "info = Known bnd" by (cases info) (auto simp: submit_pending_def)
  with lk have b: "fmlookup (st_withdrawal_bundles st) m6id = Some (Known bnd, r)" by simp
  with assms(3) obtain st1 where
    f: "try_fold (spend_for_bundle m6id CWBS_NoUtxo) (bundle_rows (wb_spend_utxos bnd)) st = Ok st1"
    and p: "latest_status r = WBS_Pending"
    and st': "\<exists>r'. push_status WBS_Submitted h r = (Ok r' :: (ConnectWithdrawalBundleSubmittedError, _) result)
      \<and> st' = (put_bundle m6id (Known bnd) r' st1)\<lparr>st_pending_withdrawal_bundle := None\<rparr>"
    by (auto simp: submit_pending_def rbind_Ok_iff latest_status_def)
  note r = peg_ok_lookup [OF assms(1) b]
  have c: "only_coins st st1" by (rule bundle_spend.try_fold_inv [OF only_coins_refl f])
  let ?r = "RollBack (rb_list r @ [\<lparr>hs_value = WBS_Submitted, hs_height = h\<rparr>])"
  have "st' = put_bundle m6id (Known bnd) ?r (st1\<lparr>st_pending_withdrawal_bundle := None\<rparr>)"
    using st' by (auto simp: push_status_history [OF r(1)] put_bundle_def)
  moreover have "peg_ok h (put_bundle m6id (Known bnd) ?r (st1\<lparr>st_pending_withdrawal_bundle := None\<rparr>))"
    by (rule peg_ok_put)
      (use assms r p only_coins_sel [OF c] peg_ok_only_coins [OF c] in \<open>simp_all add: status_history_ok_push\<close>)
  ultimately show ?thesis by simp
qed

lemma check_resubmission_Ok:
  "check_resubmission hash m6id info s = Ok () \<Longrightarrow> hs_value s = WBS_Dropped \<or> hs_value s = WBS_Failed"
  by (auto simp: check_resubmission.simps split: WithdrawalBundleStatus.splits WithdrawalBundleInfo.splits)

lemma history_not_dropped: "status_history_ok h r \<Longrightarrow> latest_status r \<noteq> WBS_Dropped"
proof -
  assume a: "status_history_ok h r"
  then have ne: "rb_list r \<noteq> []" by (simp add: status_history_ok_def rb_wf_def)
  then obtain xs x where xs: "rb_list r = xs @ [x]" by (metis rev_exhaust)
  with a have "successively status_step (map hs_value xs @ [hs_value x])" by (simp add: status_history_ok_def)
  then have "xs = [] \<or> hs_value x \<noteq> WBS_Dropped" by (auto simp: successively_append_iff)
  with a xs show ?thesis by (auto simp: status_history_ok_def hs_earliest_def latest_status_def hs_latest_def)
qed

lemma connect_submitted_ok:
  assumes "peg_ok h st" and "connect_withdrawal_bundle_submitted h hash m6id (ie, st) = Ok (ie', st')"
  shows "peg_ok h st'"
proof (cases "st_pending_withdrawal_bundle st = Some m6id")
  case True
  with assms show ?thesis by (auto simp: connect_withdrawal_bundle_submitted_def intro: submit_pending_ok)
next
  case np: False
  show ?thesis
  proof (cases "fmlookup (st_withdrawal_bundles st) m6id")
    case None
    then have "st' = put_bundle m6id Unknown (hs_new WBS_Submitted h) st"
      using assms(2) np by (auto simp: connect_withdrawal_bundle_submitted_def)
    then show ?thesis
      using peg_ok_put_same [OF assms(1) status_history_ok_new] np by (simp add: latest_status_def)
  next
    case (Some b)
    obtain info r where b: "b = (info, r)" by (cases b)
    note r = peg_ok_lookup [OF assms(1) Some [unfolded b]]
    let ?r = "RollBack (rb_list r @ [\<lparr>hs_value = WBS_SubmittedUnexpected, hs_height = h\<rparr>])"
    from assms(2) np Some b have c: "check_resubmission hash m6id info (hs_latest r) = Ok ()"
      and st': "st' = put_bundle m6id info ?r st"
      by (auto simp: connect_withdrawal_bundle_submitted_def rbind_Ok_iff push_status_history [OF r(1)])
    have f: "latest_status r = WBS_Failed"
      using check_resubmission_Ok [OF c] history_not_dropped [OF r(1)] by (simp add: latest_status_def)
    have "info_fits info WBS_SubmittedUnexpected" using r(2) f by (cases info) simp_all
    then show ?thesis unfolding st'
      using np f by (intro peg_ok_put_same [OF assms(1) status_history_ok_push [OF r(1)]]) simp_all
  qed
qed

lemma confirm_coins_ok:
  assumes "confirm_coins h hash m6id info s st = Ok (info', st')"
  shows "only_coins st st' \<and> info_fits info' WBS_Confirmed"
proof (cases info)
  case (Known bnd)
  show ?thesis
  proof (cases "s = WBS_SubmittedUnexpected")
    case True
    with Known assms have "info' = info"
      and "try_fold (spend_for_bundle m6id (E_UnexpectedWithdrawalBundleInsolvency hash m6id))
        (bundle_rows (wb_spend_utxos bnd)) st = Ok st'"
      by (auto simp: confirm_coins_def rbind_Ok_iff)
    with Known show ?thesis using bundle_spend.try_fold_inv [OF only_coins_refl] by auto
  qed (use Known assms in \<open>auto simp: confirm_coins_def\<close>)
next
  case Unknown
  then show ?thesis using assms
    by (auto simp: confirm_coins_def rbind_Ok_iff split: if_splits)
qed (use assms in \<open>simp add: confirm_coins_def\<close>)

lemma connect_confirmed_ok:
  assumes "peg_ok h st" and "connect_withdrawal_bundle_confirmed h hash m6id st = Ok st'"
  shows "peg_ok h st'"
proof -
  from assms(2) obtain info r where b: "fmlookup (st_withdrawal_bundles st) m6id = Some (info, r)"
    by (auto simp: connect_withdrawal_bundle_confirmed_def rbind_Ok_iff)
  note r = peg_ok_lookup [OF assms(1) b]
  let ?r = "RollBack (rb_list r @ [\<lparr>hs_value = WBS_Confirmed, hs_height = h\<rparr>])"
  show ?thesis
  proof (cases "latest_status r = WBS_Confirmed")
    case True
    with assms b show ?thesis by (simp add: connect_withdrawal_bundle_confirmed_def latest_status_def)
  next
    case False
    with assms(2) b obtain info' st1 where s: "is_submitted (latest_status r)"
      and c: "confirm_coins h hash m6id info (latest_status r) st = Ok (info', st1)"
      and st': "st' = put_bundle m6id info' ?r st1"
      by (auto simp: connect_withdrawal_bundle_confirmed_def latest_status_def rbind_Ok_iff Let_def
          push_status_history [OF r(1)])
    note o = confirm_coins_ok [OF c]
    have "latest_status r \<noteq> WBS_Pending" using s by (auto simp: is_submitted_def)
    then show ?thesis unfolding st'
      by (intro peg_ok_put_same status_history_ok_push [OF r(1)])
        (use assms(1) r(3) s o only_coins_sel peg_ok_only_coins in auto)
  qed
qed

lemma push_latest_failed_ok:
  assumes "peg_ok h st" and "push_latest_failed h m6id st = Ok st'"
  shows "peg_ok h st'" and "st_pending_withdrawal_bundle st' = st_pending_withdrawal_bundle st"
  using assms by (auto simp: push_latest_failed_def rbind_Ok_iff peg_ok_def push_status_Ok rb_wf_def hs_latest_def hs_new_def
      split: option.splits)

lemma connect_failed_ok:
  assumes "peg_ok h st" and "connect_withdrawal_bundle_failed h m6id st = Ok st'"
  shows "peg_ok h st'"
proof -
  from assms(2) obtain info r where b: "fmlookup (st_withdrawal_bundles st) m6id = Some (info, r)"
    by (auto simp: connect_withdrawal_bundle_failed_def rbind_Ok_iff)
  note r = peg_ok_lookup [OF assms(1) b]
  let ?r = "RollBack (rb_list r @ [\<lparr>hs_value = WBS_Failed, hs_height = h\<rparr>])"
  show ?thesis
  proof (cases "latest_status r = WBS_Failed")
    case True
    with assms b show ?thesis by (simp add: connect_withdrawal_bundle_failed_def latest_status_def)
  next
    case False
    with assms(2) b obtain st1 where s: "is_submitted (latest_status r)"
      and st1: "st1 = st \<or> (\<exists>rows. push_latest_failed h m6id (fold refund_coin rows st) = Ok st1)"
      and st': "st' = put_bundle m6id info ?r st1"
      by (auto simp: connect_withdrawal_bundle_failed_def latest_status_def rbind_Ok_iff Let_def
          push_status_history [OF r(1)] split: WithdrawalBundleInfo.splits if_splits)
    have k: "peg_ok h st1 \<and> st_pending_withdrawal_bundle st1 = st_pending_withdrawal_bundle st"
      using st1 push_latest_failed_ok peg_ok_only_coins [OF refund_only_coins [OF only_coins_refl]]
        only_coins_sel(2) [OF refund_only_coins [OF only_coins_refl]] assms(1) by metis
    have np: "latest_status r \<noteq> WBS_Pending" using s by (auto simp: is_submitted_def)
    have "info_fits info WBS_Failed" using r(2) False s by (cases info) (auto simp: is_submitted_def)
    then show ?thesis unfolding st'
      by (intro peg_ok_put_same status_history_ok_push [OF r(1)]) (use k np r(3) s in auto)
  qed
qed

lemma connect_bundle_event_ok:
  assumes "peg_ok h st" and "connect_withdrawal_bundle_event h hash event (ie, st) = Ok (ie', st')"
  shows "peg_ok h st'"
  using assms
  by (cases "wbe_status event")
    (auto simp: connect_withdrawal_bundle_event_def rbind_Ok_iff
      intro: connect_submitted_ok connect_confirmed_ok connect_failed_ok)

lemma peg_ok_utxos [simp]: "peg_ok h (st\<lparr>st_utxos := u\<rparr>) = peg_ok h st"
  by (simp add: peg_ok_def)

interpretation peg_event: stepwise "connect_2wpd_event h" "\<lambda>s. peg_ok h (snd s)" for h
proof unfold_locales
  fix s s' ev assume ok: "peg_ok h (snd s)" and st: "connect_2wpd_event h ev s = Ok s'"
  show "peg_ok h (snd s')"
  proof (cases "snd ev")
    case (BE_WithdrawalBundle bundle_event)
    with st obtain ie where
      "connect_withdrawal_bundle_event h (fst ev) bundle_event (pp_index_events (fst s), snd s) = Ok (ie, snd s')"
      by (auto simp: connect_2wpd_event_def rbind_Ok_iff split: prod.splits)
    then show ?thesis using connect_bundle_event_ok [OF ok] by blast
  qed (use ok st in \<open>auto simp: connect_2wpd_event_def split: prod.splits\<close>)
qed

section \<open>Collecting a bundle keeps the invariant\<close>

lemma store_pending_bundle_ok:
  assumes "peg_ok h st" and "st_pending_withdrawal_bundle st = None"
    and "store_pending_bundle E h bnd st = Ok st'"
  shows "peg_ok h st'" and "st_pending_withdrawal_bundle st' = Some (compute_m6id E bnd)"
proof -
  let ?m = "compute_m6id E bnd"
  have "\<exists>r. status_history_ok h r \<and> latest_status r = WBS_Pending \<and>
     st' = put_bundle ?m (Known bnd) r (st\<lparr>st_pending_withdrawal_bundle := Some ?m\<rparr>)"
  proof (cases "fmlookup (st_withdrawal_bundles st) ?m")
    case None
    then have "st' = put_bundle ?m (Known bnd) (hs_new WBS_Pending h) (st\<lparr>st_pending_withdrawal_bundle := Some ?m\<rparr>)"
      using assms(3) by (simp add: store_pending_bundle_def Let_def)
    then show ?thesis using status_history_ok_new [of WBS_Pending h] by (auto simp: latest_status_def)
  next
    case (Some b)
    obtain info r where b: "b = (info, r)" by (cases b)
    note r = peg_ok_lookup [OF assms(1) Some [unfolded b]]
    have "status_history_ok h (RollBack (rb_list r @ [\<lparr>hs_value = WBS_Pending, hs_height = h\<rparr>]))"
      by (rule status_history_ok_push [OF r(1)]) (use r(3) assms(2) in simp)
    then show ?thesis
      using assms(3) Some b
      by (intro exI [of _ "RollBack (rb_list r @ [\<lparr>hs_value = WBS_Pending, hs_height = h\<rparr>])"])
        (simp add: store_pending_bundle_def Let_def push_status_history [OF r(1)])
  qed
  then obtain r where r: "status_history_ok h r" "latest_status r = WBS_Pending"
    and st': "st' = put_bundle ?m (Known bnd) r (st\<lparr>st_pending_withdrawal_bundle := Some ?m\<rparr>)" by blast
  show "peg_ok h st'" unfolding st' by (rule peg_ok_put [OF assms(1) r(1)]) (use r(2) assms(2) in simp_all)
  show "st_pending_withdrawal_bundle st' = Some ?m" by (simp add: st' put_bundle_def)
qed

lemma collect_pending_ok:
  assumes "peg_ok h st" and "collect_pending E order h st = Ok st'"
  shows "peg_ok h st'"
  using assms
  by (auto simp: collect_pending_def rbind_Ok_iff split: if_splits option.splits intro: store_pending_bundle_ok(1))

lemma record_progress_bundles:
  assumes "record_progress E h pp st = Ok st'"
  shows "peg_ok h' st' = peg_ok h' st" and "st_utxos st' = st_utxos st"
    and "st_latest_failed_withdrawal_bundle st' = st_latest_failed_withdrawal_bundle st"
    and "st_pending_withdrawal_bundle st' = st_pending_withdrawal_bundle st"
proof -
  from assms obtain ev ds ws where
    "st' = st\<lparr>st_block_index_events := ev, st_deposit_blocks := ds, st_withdrawal_bundle_event_blocks := ws\<rparr>"
  proof (cases "block_index_events_is_empty (pp_index_events pp)")
    case True
    with assms obtain ds ws where
      "st' = st\<lparr>st_block_index_events := st_block_index_events st, st_deposit_blocks := ds, st_withdrawal_bundle_event_blocks := ws\<rparr>"
      by (auto simp: record_progress_def rbind_Ok_iff Let_def)
    then show ?thesis by (rule that)
  qed (auto simp: record_progress_def rbind_Ok_iff Let_def)
  then show "peg_ok h' st' = peg_ok h' st" "st_utxos st' = st_utxos st"
    "st_latest_failed_withdrawal_bundle st' = st_latest_failed_withdrawal_bundle st"
    "st_pending_withdrawal_bundle st' = st_pending_withdrawal_bundle st"
    by (simp_all add: peg_ok_def)
qed

lemma connect_two_way_peg_data_Ok:
  assumes "connect_two_way_peg_data E order data st = Ok st'" and "st_height st = Some h"
  obtains pp st1 st2 where "try_fold (connect_2wpd_event h) (peg_events data) (peg_progress_init, st) = Ok (pp, st1)"
    and "record_progress E h pp st1 = (Ok st2 :: (Error, State) result)" and "collect_pending E order h st2 = Ok st'"
proof -
  from assms obtain s where "try_fold (connect_2wpd_event h) (peg_events data) (peg_progress_init, st) = Ok s"
    and "rbind (record_progress E h (fst s) (snd s)) (collect_pending E order h) = Ok st'"
    by (auto simp: connect_two_way_peg_data_def rbind_Ok_iff)
  then show ?thesis using that by (cases s) (auto simp: rbind_Ok_iff)
qed

lemma connect_two_way_peg_data_peg_ok:
  assumes "connect_two_way_peg_data E order data st = Ok st'" and "st_height st = Some h" and "peg_ok h st"
  shows "peg_ok h st'"
proof -
  from assms(1,2) obtain pp st1 st2
    where f: "try_fold (connect_2wpd_event h) (peg_events data) (peg_progress_init, st) = Ok (pp, st1)"
      and r: "record_progress E h pp st1 = (Ok st2 :: (Error, State) result)" and c: "collect_pending E order h st2 = Ok st'"
    by (rule connect_two_way_peg_data_Ok)
  have "peg_ok h st1" using peg_event.try_fold_inv [OF _ f] assms(3) by simp
  then show ?thesis using collect_pending_ok [OF _ c] record_progress_bundles(1) [OF r] by simp
qed

text \<open>
  C4: the life of withdrawal bundles. Connecting two-way peg data keeps the invariant of the
  bundle table: in every history the heights are sorted and every status follows from the
  one before (submission after collection, confirmation and failure only after a
  submission, unexpected submission only after a failure), no bundle is ever \<open>Dropped\<close>,
  and \<open>pending_withdrawal_bundle\<close> names exactly the one bundle whose latest status is
  \<open>Pending\<close>.
\<close>

theorem peg_invariant:
  assumes "connect_two_way_peg_data E order data st = Ok st'" and "st_height st = Some h"
    and "peg_ok h0 st" and "h0 \<le> h"
  shows "peg_ok h st'"
  using connect_two_way_peg_data_peg_ok [OF assms(1,2)] peg_ok_mono [OF assms(3,4)] by blast

section \<open>Which errors an event can give\<close>

fun possible_peg_error :: "Error \<Rightarrow> bool" where
  "possible_peg_error (E_ConnectWithdrawalBundleSubmitted (CWBS_NoUtxo _)) = True"
| "possible_peg_error (E_ConnectWithdrawalBundleSubmitted (CWBS_ConfirmedResubmitted _ _)) = True"
| "possible_peg_error (E_ConnectWithdrawalBundleSubmitted (CWBS_Resubmitted _ _ _)) = True"
| "possible_peg_error (E_UnknownWithdrawalBundle _) = True"
| "possible_peg_error (E_UnknownWithdrawalBundleConfirmed _ _) = True"
| "possible_peg_error (E_UnexpectedWithdrawalBundleInsolvency _ _ _) = True"
| "possible_peg_error _ = False"

text \<open>A confirmation or a failure of a bundle that is neither submitted nor already so.\<close>

fun out_of_order :: "State \<Rightarrow> BlockEvent \<Rightarrow> bool" where
  "out_of_order st (BE_Deposit _) = False"
| "out_of_order st (BE_WithdrawalBundle event) =
     (case (wbe_status event, map_option (\<lambda>b. latest_status (snd b)) (fmlookup (st_withdrawal_bundles st) (wbe_m6id event))) of
        (WBE_Confirmed, Some s) \<Rightarrow> s = WBS_Pending \<or> s = WBS_Failed
      | (WBE_Failed, Some s) \<Rightarrow> s = WBS_Pending \<or> s = WBS_Confirmed
      | _ \<Rightarrow> False)"

lemma spend_for_bundle_Err:
  "try_fold (spend_for_bundle m6id err) rows st = Err e \<Longrightarrow> \<exists>op. e = err op"
  by (induction rows arbitrary: st) (auto simp: rbind_Err_iff spend_for_bundle_def Let_def ensure_def split: prod.splits if_splits)

lemma spend_for_bundle_no_Panic: "try_fold (spend_for_bundle m6id err) rows st \<noteq> Panic"
  by (induction rows arbitrary: st) (auto simp: rbind_Panic_iff spend_for_bundle_def Let_def ensure_def split: prod.splits if_splits)

lemma submitted_failures:
  assumes "peg_ok h st"
  shows "connect_withdrawal_bundle_submitted h hash m6id (ie, st) = Err e \<Longrightarrow>
      possible_peg_error (E_ConnectWithdrawalBundleSubmitted e)"
    and "connect_withdrawal_bundle_submitted h hash m6id (ie, st) \<noteq> Panic"
proof -
  have "(\<forall>e. connect_withdrawal_bundle_submitted h hash m6id (ie, st) = Err e \<longrightarrow>
      possible_peg_error (E_ConnectWithdrawalBundleSubmitted e)) \<and>
      connect_withdrawal_bundle_submitted h hash m6id (ie, st) \<noteq> Panic"
  proof (cases "fmlookup (st_withdrawal_bundles st) m6id")
    case None
    then have "st_pending_withdrawal_bundle st \<noteq> Some m6id"
      using assms by (auto simp: peg_ok_def fmlookup_dom_iff)
    with None show ?thesis by (simp add: connect_withdrawal_bundle_submitted_def)
  next
    case (Some b)
    obtain info r where b: "b = (info, r)" by (cases b)
    note r = peg_ok_lookup [OF assms Some [unfolded b]]
    show ?thesis
    proof (cases "st_pending_withdrawal_bundle st = Some m6id")
      case True
      then obtain bnd where k: "info = Known bnd" using r(2,3) by (cases info) simp_all
      let ?f = "try_fold (spend_for_bundle m6id CWBS_NoUtxo) (bundle_rows (wb_spend_utxos bnd)) st"
      from True r(3) have "hs_value (hs_latest r) = WBS_Pending" by (simp add: latest_status_def)
      then show ?thesis
        using True Some b k spend_for_bundle_no_Panic [of m6id CWBS_NoUtxo]
        by (cases ?f) (auto simp: connect_withdrawal_bundle_submitted_def submit_pending_def push_status_history [OF r(1)]
            dest: spend_for_bundle_Err)
    next
      case False
      then show ?thesis
        using Some b r(2,3) history_not_dropped [OF r(1)]
        by (cases info; cases "hs_value (hs_latest r)")
          (simp_all add: connect_withdrawal_bundle_submitted_def push_status_history [OF r(1)] check_resubmission.simps
            latest_status_def)
    qed
  qed
  then show "connect_withdrawal_bundle_submitted h hash m6id (ie, st) = Err e \<Longrightarrow>
      possible_peg_error (E_ConnectWithdrawalBundleSubmitted e)"
    and "connect_withdrawal_bundle_submitted h hash m6id (ie, st) \<noteq> Panic" by blast+
qed

lemma decode_rows_valid:
  assumes "\<And>k. k \<in> fst ` set rows \<Longrightarrow> \<exists>op. k = from_outpoint op"
  shows "\<exists>m. decode_rows rows = (Ok m :: ('e, _) result)"
proof -
  have "\<exists>kvs. try_map (\<lambda>(key, v). rbind (to_outpoint key) (\<lambda>op. Ok (op, v))) rows = (Ok kvs :: ('e, _) result)"
    using assms by (induction rows) (force simp: to_outpoint_def)+
  then show ?thesis by (auto simp: decode_rows_def)
qed

lemma get_utxos_valid: "keys_valid st \<Longrightarrow> \<exists>m. get_utxos st = Ok m"
  unfolding get_utxos_def
  by (rule decode_rows_valid) (auto simp: keys_valid_def db_iter_lookup fmlookup_dom'_iff)

lemma confirm_coins_failures:
  assumes "info_fits info s" and "is_submitted s" and "keys_valid st"
  shows "confirm_coins h hash m6id info s st = Err e \<Longrightarrow> possible_peg_error e"
    and "confirm_coins h hash m6id info s st \<noteq> Panic"
proof -
  have "(\<forall>e. confirm_coins h hash m6id info s st = Err e \<longrightarrow> possible_peg_error e) \<and>
    confirm_coins h hash m6id info s st \<noteq> Panic"
  proof (cases info)
    case (Known bnd)
    let ?err = "E_UnexpectedWithdrawalBundleInsolvency hash m6id"
    show ?thesis
      using Known spend_for_bundle_no_Panic [of m6id ?err]
      by (cases "try_fold (spend_for_bundle m6id ?err) (bundle_rows (wb_spend_utxos bnd)) st")
        (auto simp: confirm_coins_def dest: spend_for_bundle_Err)
  next
    case Unknown
    obtain m where "get_utxos st = (Ok m :: (Error, _) result)" using get_utxos_valid [OF assms(3)] by blast
    then show ?thesis using Unknown by (simp add: confirm_coins_def)
  qed (use assms in \<open>simp add: is_submitted_def\<close>)
  then show "confirm_coins h hash m6id info s st = Err e \<Longrightarrow> possible_peg_error e"
    and "confirm_coins h hash m6id info s st \<noteq> Panic" by blast+
qed

lemma confirmed_failures:
  assumes "peg_ok h st" and "keys_valid st"
  shows "connect_withdrawal_bundle_confirmed h hash m6id st = Err e \<Longrightarrow> possible_peg_error e"
    and "connect_withdrawal_bundle_confirmed h hash m6id st = Panic \<longleftrightarrow>
      out_of_order st (BE_WithdrawalBundle \<lparr>wbe_m6id = m6id, wbe_status = WBE_Confirmed\<rparr>)"
proof -
  let ?c = "connect_withdrawal_bundle_confirmed h hash m6id st"
  have "(\<forall>e. ?c = Err e \<longrightarrow> possible_peg_error e) \<and>
    (?c = Panic \<longleftrightarrow> out_of_order st (BE_WithdrawalBundle \<lparr>wbe_m6id = m6id, wbe_status = WBE_Confirmed\<rparr>))"
  proof (cases "fmlookup (st_withdrawal_bundles st) m6id")
    case None
    then show ?thesis by (simp add: connect_withdrawal_bundle_confirmed_def)
  next
    case (Some b)
    obtain info r where b: "b = (info, r)" by (cases b)
    note r = peg_ok_lookup [OF assms(1) Some [unfolded b]]
    show ?thesis
    proof (cases "is_submitted (latest_status r)")
      case True
      note c = confirm_coins_failures [OF r(2) True assms(2), of h hash m6id]
      have "\<not> out_of_order st (BE_WithdrawalBundle \<lparr>wbe_m6id = m6id, wbe_status = WBE_Confirmed\<rparr>)"
        "latest_status r \<noteq> WBS_Confirmed" using True by (auto simp: is_submitted_def Some b)
      then show ?thesis using Some b True c
        by (cases "confirm_coins h hash m6id info (latest_status r) st")
          (auto simp: connect_withdrawal_bundle_confirmed_def latest_status_def [symmetric] push_status_history [OF r(1)] Let_def)
    next
      case False
      with history_not_dropped [OF r(1)] show ?thesis using Some b
        by (cases "latest_status r")
          (auto simp: connect_withdrawal_bundle_confirmed_def latest_status_def [symmetric] is_submitted_def Let_def)
    qed
  qed
  then show "?c = Err e \<Longrightarrow> possible_peg_error e"
    and "?c = Panic \<longleftrightarrow> out_of_order st (BE_WithdrawalBundle \<lparr>wbe_m6id = m6id, wbe_status = WBE_Confirmed\<rparr>)" by blast+
qed

lemma push_latest_failed_total:
  assumes "peg_ok h st"
  shows "\<exists>st'. push_latest_failed h m6id st = Ok st'"
  using assms by (auto simp: push_latest_failed_def peg_ok_def push_status_Ok split: option.splits)

lemma failed_failures:
  assumes "peg_ok h st"
  shows "connect_withdrawal_bundle_failed h m6id st = Err e \<Longrightarrow> possible_peg_error e"
    and "connect_withdrawal_bundle_failed h m6id st = Panic \<longleftrightarrow>
      out_of_order st (BE_WithdrawalBundle \<lparr>wbe_m6id = m6id, wbe_status = WBE_Failed\<rparr>)"
proof -
  let ?c = "connect_withdrawal_bundle_failed h m6id st"
  have "(\<forall>e. ?c = Err e \<longrightarrow> possible_peg_error e) \<and>
    (?c = Panic \<longleftrightarrow> out_of_order st (BE_WithdrawalBundle \<lparr>wbe_m6id = m6id, wbe_status = WBE_Failed\<rparr>))"
  proof (cases "fmlookup (st_withdrawal_bundles st) m6id")
    case None
    then show ?thesis by (simp add: connect_withdrawal_bundle_failed_def)
  next
    case (Some b)
    obtain info r where b: "b = (info, r)" by (cases b)
    note r = peg_ok_lookup [OF assms Some [unfolded b]]
    have p: "\<exists>st'. push_latest_failed h m6id (fold refund_coin rows st) = Ok st'" for rows
      by (rule push_latest_failed_total) (simp add: assms peg_ok_only_coins [OF refund_only_coins [OF only_coins_refl]])
    show ?thesis
    proof (cases "is_submitted (latest_status r)")
      case True
      obtain st' where "push_latest_failed h m6id (fold refund_coin (bundle_rows rows) st) = Ok st'"
        if "rows = (case info of Known bnd \<Rightarrow> wb_spend_utxos bnd | _ \<Rightarrow> fmempty)" for rows
        using p by blast
      with True show ?thesis using Some b
        by (cases info) (auto simp: connect_withdrawal_bundle_failed_def latest_status_def [symmetric] is_submitted_def
            push_status_history [OF r(1)] Let_def)
    next
      case False
      with history_not_dropped [OF r(1)] show ?thesis using Some b
        by (cases "latest_status r")
          (auto simp: connect_withdrawal_bundle_failed_def latest_status_def [symmetric] is_submitted_def Let_def)
    qed
  qed
  then show "?c = Err e \<Longrightarrow> possible_peg_error e"
    and "?c = Panic \<longleftrightarrow> out_of_order st (BE_WithdrawalBundle \<lparr>wbe_m6id = m6id, wbe_status = WBE_Failed\<rparr>)" by blast+
qed

text \<open>
  in a state that satisfies the invariant, an event fails only for a reason that lies in
  the event or the coins: a missing coin, a repeated submission, an unknown bundle. The
  errors for impossible combinations (a dropped, pending or confirmed unknown bundle, a
  pending bundle that the table does not have) are never returned, and an event panics
  exactly when it confirms or fails a bundle that was not submitted.
\<close>

lemma peg_event_failures:
  assumes "peg_ok h st" and "keys_valid st"
  shows "(\<forall>e. connect_2wpd_event h (hash, event) (pp, st) = Err e \<longrightarrow> possible_peg_error e) \<and>
    (connect_2wpd_event h (hash, event) (pp, st) = Panic \<longleftrightarrow> out_of_order st event)"
proof (cases event)
  case (BE_WithdrawalBundle ev)
  obtain m6id s where ev: "ev = \<lparr>wbe_m6id = m6id, wbe_status = s\<rparr>" by (cases ev)
  note f = submitted_failures [OF assms(1), of hash m6id "pp_index_events pp"]
    confirmed_failures [OF assms, of hash m6id] failed_failures [OF assms(1), of m6id]
  show ?thesis
  proof (cases s)
    case WBE_Submitted
    then show ?thesis using f(1,2) BE_WithdrawalBundle ev
      by (cases "connect_withdrawal_bundle_submitted h hash m6id (pp_index_events pp, st)")
        (auto simp: connect_2wpd_event_def connect_withdrawal_bundle_event_def)
  next
    case WBE_Confirmed
    then show ?thesis using f(3,4) BE_WithdrawalBundle ev
      by (cases "connect_withdrawal_bundle_confirmed h hash m6id st")
        (simp_all add: connect_2wpd_event_def connect_withdrawal_bundle_event_def)
  next
    case WBE_Failed
    then show ?thesis using f(5,6) BE_WithdrawalBundle ev
      by (cases "connect_withdrawal_bundle_failed h m6id st")
        (simp_all add: connect_2wpd_event_def connect_withdrawal_bundle_event_def)
  qed
qed (simp add: connect_2wpd_event_def)

section \<open>Withdrawals are picked up\<close>

lemma aggregate_output_nonempty:
  assumes "aggregate_output row m = Ok m'" and "m \<noteq> fmempty \<or> withdrawal_of (out_content (snd row)) \<noteq> None"
  shows "m' \<noteq> fmempty"
proof -
  have upd: "fmupd k v n \<noteq> fmempty" for k v and n :: aggregation
    by (metis fmempty_lookup fmupd_lookup option.distinct(1))
  show ?thesis
  proof (cases "withdrawal_of (out_content (snd row))")
    case None
    with assms show ?thesis
      by (cases "out_content (snd row)") (auto simp: aggregate_output_def split: prod.splits)
  next
    case (Some w)
    then have "out_content (snd row) = F_BitcoinWithdrawal w" by (cases "out_content (snd row)") simp_all
    with assms(1) upd show ?thesis by (auto simp: aggregate_output_def Let_def rbind_Ok_iff split: prod.splits)
  qed
qed

lemma aggregate_nonempty:
  assumes "try_fold aggregate_output rows m = Ok m'"
    and "m \<noteq> fmempty \<or> (\<exists>row\<in>set rows. withdrawal_of (out_content (snd row)) \<noteq> None)"
  shows "m' \<noteq> fmempty"
  using assms
proof (induction rows arbitrary: m)
  case (Cons row rows)
  from Cons.prems(1) obtain m1 where m1: "aggregate_output row m = Ok m1"
    and r: "try_fold aggregate_output rows m1 = Ok m'" by (auto simp: rbind_Ok_iff)
  show ?case
    by (rule Cons.IH [OF r]) (use Cons.prems(2) aggregate_output_nonempty [OF m1] in auto)
qed simp

lemma collect_withdrawal_bundle_Some:
  assumes "collect_withdrawal_bundle E order st h = Ok collected"
    and "fmlookup (st_utxos st) k = Some out" and "withdrawal_of (out_content out) \<noteq> None"
  shows "\<exists>bnd. collected = Some bnd"
proof -
  have "(k, out) \<in> set (db_iter id (st_utxos st))" using assms(2) by (simp add: db_iter_lookup)
  then have "m \<noteq> fmempty" if "aggregate_withdrawals st = Ok m" for m
    using aggregate_nonempty [OF that [unfolded aggregate_withdrawals_def]] assms(3) by force
  then show ?thesis using assms(1) by (auto simp: collect_withdrawal_bundle_def rbind_Ok_iff split: if_splits)
qed

lemma store_pending_bundle_fields:
  assumes "store_pending_bundle E h bnd st = Ok st'"
  shows "st_utxos st' = st_utxos st"
    and "st_latest_failed_withdrawal_bundle st' = st_latest_failed_withdrawal_bundle st"
  using assms by (auto simp: store_pending_bundle_def Let_def rbind_Ok_iff put_bundle_def)

lemma collect_pending_fields:
  assumes "collect_pending E order h st = Ok st'"
  shows "st_utxos st' = st_utxos st"
    and "st_latest_failed_withdrawal_bundle st' = st_latest_failed_withdrawal_bundle st"
  using assms by (auto simp: collect_pending_def rbind_Ok_iff store_pending_bundle_fields split: if_splits option.splits)

lemma latest_failure_height_store:
  assumes "latest_failure_height st = (Ok fh :: (Error, u32) result)" and "store_pending_bundle E h bnd st = Ok st'"
  shows "latest_failure_height st' = (Ok fh :: (Error, u32) result)"
proof (cases "st_latest_failed_withdrawal_bundle st")
  case None
  then show ?thesis using assms store_pending_bundle_fields(2) [OF assms(2)]
    by (simp add: latest_failure_height_def get_latest_failed_withdrawal_bundle_def)
next
  case (Some r)
  let ?m = "hs_value (hs_latest r)" and ?f = "\<lambda>s. if hs_value s = WBS_Failed then Some (hs_height s) else None"
  from assms(1) Some obtain info bs where b: "fmlookup (st_withdrawal_bundles st) ?m = Some (info, bs)"
    and fh: "find_map ?f (rev (rb_list bs)) = Some fh"
    by (auto simp: latest_failure_height_def get_latest_failed_withdrawal_bundle_def rbind_Ok_iff Let_def)
  have "\<exists>info' bs'. fmlookup (st_withdrawal_bundles st') ?m = Some (info', bs') \<and>
      find_map ?f (rev (rb_list bs')) = Some fh"
    using assms(2) b fh
    by (cases "?m = compute_m6id E bnd")
      (auto simp: store_pending_bundle_def Let_def rbind_Ok_iff put_bundle_def push_status_def hs_push_def
        split: option.splits if_splits)
  then show ?thesis using store_pending_bundle_fields(2) [OF assms(2)] Some
    by (auto simp: latest_failure_height_def get_latest_failed_withdrawal_bundle_def Let_def)
qed

lemma collect_pending_failure_height:
  assumes "collect_pending E order h st = Ok st'"
  shows "latest_failure_height st' = (latest_failure_height st :: (Error, u32) result)"
proof -
  from assms obtain fh where fh: "latest_failure_height st = (Ok fh :: (Error, u32) result)"
    by (auto simp: collect_pending_def rbind_Ok_iff)
  have "st' = st \<or> (\<exists>bnd. store_pending_bundle E h bnd st = Ok st')"
    using assms by (auto simp: collect_pending_def rbind_Ok_iff split: if_splits option.splits)
  then show ?thesis using latest_failure_height_store [OF fh] fh by auto
qed

lemma collect_pending_picks_up:
  assumes "peg_ok h st" and "collect_pending E order h st = Ok st'"
    and "latest_failure_height st = (Ok fh :: (Error, u32) result)" and "unat fh + 4 \<le> unat h"
    and "fmlookup (st_utxos st) k = Some out" and "withdrawal_of (out_content out) \<noteq> None"
  shows "st_pending_withdrawal_bundle st' \<noteq> None"
proof -
  have gap: "sub_word h fh = (Ok (h - fh) :: (Error, u32) result)" "WITHDRAWAL_BUNDLE_FAILURE_GAP \<le> h - fh"
    using assms(4) by (simp_all add: sub_word_Ok WITHDRAWAL_BUNDLE_FAILURE_GAP_def word_le_nat_alt unat_sub)
  show ?thesis
  proof (cases "st_pending_withdrawal_bundle st")
    case None
    with assms(2,3) gap obtain collected where c: "collect_withdrawal_bundle E order st h = Ok collected"
      and s: "(case collected of None \<Rightarrow> Ok st | Some bnd \<Rightarrow> store_pending_bundle E h bnd st) = Ok st'"
      by (auto simp: collect_pending_def rbind_Ok_iff)
    obtain bnd where "collected = Some bnd" using collect_withdrawal_bundle_Some [OF c assms(5,6)] ..
    then show ?thesis using store_pending_bundle_ok(2) [OF assms(1) None] s by auto
  next
    case (Some m)
    with assms(2,3) gap have "st' = st" by (auto simp: collect_pending_def rbind_Ok_iff)
    with Some show ?thesis by simp
  qed
qed

text \<open>
  C28: no withdrawal waits without a bundle. When two-way peg data is connected at least four
  blocks after the latest failed bundle and the UTXO table then holds a withdrawal, a
  bundle is pending: a known bundle whose latest status is \<open>Pending\<close>.
\<close>

theorem waiting_withdrawal_has_pending_bundle:
  assumes "connect_two_way_peg_data E order data st = Ok st'" and "st_height st = Some h" and "peg_ok h st"
    and "latest_failure_height st' = (Ok fh :: (Error, u32) result)" and "unat fh + 4 \<le> unat h"
    and "fmlookup (st_utxos st') k = Some out" and "withdrawal_of (out_content out) \<noteq> None"
  shows "\<exists>m6id bnd r. st_pending_withdrawal_bundle st' = Some m6id \<and>
    fmlookup (st_withdrawal_bundles st') m6id = Some (Known bnd, r) \<and> latest_status r = WBS_Pending"
proof -
  have ok': "peg_ok h st'" by (rule connect_two_way_peg_data_peg_ok [OF assms(1-3)])
  from assms(1,2) obtain pp st1 st2
    where f: "try_fold (connect_2wpd_event h) (peg_events data) (peg_progress_init, st) = Ok (pp, st1)"
      and r: "record_progress E h pp st1 = (Ok st2 :: (Error, State) result)" and c: "collect_pending E order h st2 = Ok st'"
    by (rule connect_two_way_peg_data_Ok)
  have ok: "peg_ok h st2"
    using peg_event.try_fold_inv [OF _ f] assms(3) record_progress_bundles(1) [OF r] by simp
  have "latest_failure_height st2 = (Ok fh :: (Error, u32) result)"
    using assms(4) collect_pending_failure_height [OF c] by simp
  then have "st_pending_withdrawal_bundle st' \<noteq> None"
    using collect_pending_picks_up [OF ok c _ assms(5)] assms(6,7) collect_pending_fields(1) [OF c] by metis
  then obtain m6id where m: "st_pending_withdrawal_bundle st' = Some m6id" by blast
  with ok' obtain info r where b: "fmlookup (st_withdrawal_bundles st') m6id = Some (info, r)"
    by (auto simp: peg_ok_def fmlookup_dom_iff)
  note k = peg_ok_lookup [OF ok' b]
  with m have "latest_status r = WBS_Pending" "\<exists>bnd. info = Known bnd" by (cases info; simp)+
  with m b show ?thesis by blast
qed

section \<open>A concrete block\<close>

definition peg_state :: State where
  "peg_state = withdrawal_state\<lparr>st_height := Some 5\<rparr>"

definition no_events :: TwoWayPegData where
  "no_events = \<lparr>block_info = []\<rparr>"

definition peg_state_after :: State where
  "peg_state_after = put_bundle 3 (Known (demo_bundle 5)) (hs_new WBS_Pending 5)
     (peg_state\<lparr>st_pending_withdrawal_bundle := Some 3\<rparr>)"

lemma peg_ok_empty [simp]: "peg_ok h State_new"
  by (simp add: peg_ok_def State_new_def)

lemma peg_ok_demo [simp]: "peg_ok h peg_state"
  by (simp add: peg_ok_def peg_state_def withdrawal_state_def State_new_def)

lemma peg_state_height [simp]: "st_height peg_state = Some 5"
  by (simp add: peg_state_def)

lemma demo_m6id: "compute_m6id demo_externs (demo_bundle 5) = 3"
proof -
  have "ext_bitcoin_txid demo_externs tx = of_nat (length (btx_output tx))" for tx by (simp add: demo_externs_def)
  then show ?thesis by (simp add: compute_m6id_def demo_bundle_def Let_def)
qed

lemma demo_peg_connect: "connect_two_way_peg_data demo_externs id no_events peg_state = Ok peg_state_after"
proof -
  have c: "collect_withdrawal_bundle demo_externs id peg_state 5 = Ok (Some (demo_bundle 5))"
    using demo_collect [of 5]
    by (simp add: collect_withdrawal_bundle_def aggregate_withdrawals_def peg_state_def)
  have f: "latest_failure_height peg_state = (Ok 0 :: (Error, u32) result)"
    and p: "st_pending_withdrawal_bundle peg_state = None" and b: "st_withdrawal_bundles peg_state = fmempty"
    by (simp_all add: latest_failure_height_def get_latest_failed_withdrawal_bundle_def peg_state_def
        withdrawal_state_def State_new_def)
  have "record_progress demo_externs 5 peg_progress_init peg_state = (Ok peg_state :: (Error, State) result)"
    by (simp add: record_progress_def peg_progress_init_def append_block_def block_index_events_is_empty_def)
  moreover have g: "sub_word 5 0 = (Ok 5 :: (Error, u32) result)" by simp
  ultimately show ?thesis
    using c by (simp add: g connect_two_way_peg_data_def no_events_def peg_events_def collect_pending_def f p
        WITHDRAWAL_BUNDLE_FAILURE_GAP_def store_pending_bundle_def demo_m6id b Let_def peg_state_after_def)
qed

theorem peg_invariant_witness:
  "connect_two_way_peg_data demo_externs id no_events peg_state = Ok peg_state_after \<and> peg_ok 5 peg_state_after"
  using peg_invariant [OF demo_peg_connect, of 5 2] demo_peg_connect by simp

theorem peg_event_failures_witness:
  "connect_2wpd_event 9 (1, BE_WithdrawalBundle \<lparr>wbe_m6id = 3, wbe_status = WBE_Confirmed\<rparr>) (peg_progress_init, peg_state_after) = Panic"
proof -
  have "peg_ok 9 peg_state_after"
    unfolding peg_state_after_def
    by (rule peg_ok_put)
      (simp_all add: status_history_ok_mono [OF status_history_ok_new, of _ 5] latest_status_def, simp add: peg_state_def withdrawal_state_def State_new_def)
  moreover have "keys_valid peg_state_after"
    using withdrawal_keys_valid by (simp add: keys_valid_def peg_state_after_def put_bundle_def peg_state_def)
  moreover have "out_of_order peg_state_after (BE_WithdrawalBundle \<lparr>wbe_m6id = 3, wbe_status = WBE_Confirmed\<rparr>)"
    by (simp add: peg_state_after_def put_bundle_def latest_status_def)
  ultimately show ?thesis using peg_event_failures by blast
qed

theorem waiting_withdrawal_has_pending_bundle_witness:
  "\<exists>m6id bnd r. st_pending_withdrawal_bundle peg_state_after = Some m6id \<and>
    fmlookup (st_withdrawal_bundles peg_state_after) m6id = Some (Known bnd, r) \<and> latest_status r = WBS_Pending"
proof (rule waiting_withdrawal_has_pending_bundle [OF demo_peg_connect])
  show "st_height peg_state = Some 5" by simp
  show "latest_failure_height peg_state_after = (Ok 0 :: (Error, u32) result)"
    by (simp add: latest_failure_height_def get_latest_failed_withdrawal_bundle_def peg_state_after_def put_bundle_def
        peg_state_def withdrawal_state_def State_new_def)
  show "fmlookup (st_utxos peg_state_after) (from_outpoint (OpDeposit 1 0)) = Some withdrawal_coin"
    by (simp add: peg_state_after_def put_bundle_def peg_state_def withdrawal_state_def)
  show "withdrawal_of (out_content withdrawal_coin) \<noteq> None" by (simp add: withdrawal_coin_def)
qed simp_all

end
