(* ===== verification/Peg_Undo.thy ===== *)
theory Peg_Undo
  imports Peg_Invariant Block_Undo
begin

text \<open>
  Disconnecting two-way peg data undoes connecting it. Each event, connected to a state
  whose coin tables it fits, is undone exactly by \<open>disconnect_event\<close>; the interface
  \<open>reversible\<close> lifts this to the events of a block, and the block's bookkeeping
  (\<open>block_index_events\<close>, \<open>deposit_blocks\<close>, \<open>withdrawal_bundle_event_blocks\<close>) is restored
  with them, or the code panics on a table that has outgrown 256 rows. The last section shows
  when the code does not restore the state.
\<close>

section \<open>Moving coins there and back\<close>

definition live_row :: "OutPoint \<times> FilledOutput \<Rightarrow> OutPointKey \<times> FilledOutput" where
  "live_row row = (from_outpoint (fst row), snd row)"

definition spent_row :: "M6id \<Rightarrow> OutPoint \<times> FilledOutput \<Rightarrow> OutPointKey \<times> SpentOutput" where
  "spent_row m6id row = (from_outpoint (fst row), \<lparr>so_output = snd row, so_inpoint = IpWithdrawal m6id\<rparr>)"

definition row_key :: "OutPoint \<times> FilledOutput \<Rightarrow> OutPointKey" where
  "row_key row = from_outpoint (fst row)"

lemmas row_defs = live_row_def spent_row_def row_key_def

lemma row_fst [simp]: "fst (live_row row) = row_key row" "fst (spent_row m6id row) = row_key row" "snd (live_row row) = snd row"
  by (simp_all add: row_defs)

lemma put_all_Cons: "db.put_all (row # rows) m = db.put_all rows (fmupd (fst row) (snd row) m)"
  by (simp add: db.put_all_def split: prod.splits)

lemma del_all_Cons: "db.del_all (k # ks) m = db.del_all ks (fmdrop k m)"
  by (simp add: db.del_all_def)

lemma spend_rows:
  assumes "\<And>row. row \<in> set rows \<Longrightarrow> fmlookup (st_utxos st) (row_key row) \<noteq> None" and "distinct (map fst rows)"
  shows "try_fold (spend_for_bundle m6id err) rows st
    = Ok (set_coins (db.del_all (map row_key rows) (st_utxos st)) (db.put_all (map (spent_row m6id) rows) (st_stxos st)) st)"
  using assms
proof (induction rows arbitrary: st)
  case Nil
  then show ?case by (simp add: db.del_all_def db.put_all_def)
next
  case (Cons row rows)
  let ?st = "set_coins (fmdrop (row_key row) (st_utxos st)) (fmupd (row_key row) (snd (spent_row m6id row)) (st_stxos st)) st"
  have "spend_for_bundle m6id err row st = Ok ?st"
    using Cons.prems(1) [of row] by (cases row) (simp add: spend_for_bundle_def row_defs set_coins_def Let_def)
  moreover have "try_fold (spend_for_bundle m6id err) rows ?st = Ok (set_coins
      (db.del_all (map row_key rows) (st_utxos ?st)) (db.put_all (map (spent_row m6id) rows) (st_stxos ?st)) ?st)"
    by (rule Cons.IH) (use Cons.prems in \<open>auto simp: row_key_def image_iff\<close>)
  ultimately show ?case by (simp add: put_all_Cons del_all_Cons)
qed

lemma unspend_rows:
  assumes "\<And>row. row \<in> set rows \<Longrightarrow> fmlookup (st_stxos st) (row_key row) \<noteq> None" and "distinct (map fst rows)"
  shows "try_fold unspend_for_bundle rows st
    = Ok (set_coins (db.put_all (map live_row rows) (st_utxos st)) (db.del_all (map row_key rows) (st_stxos st)) st)"
  using assms
proof (induction rows arbitrary: st)
  case Nil
  then show ?case by (simp add: db.del_all_def db.put_all_def)
next
  case (Cons row rows)
  let ?st = "set_coins (fmupd (row_key row) (snd row) (st_utxos st)) (fmdrop (row_key row) (st_stxos st)) st"
  have "unspend_for_bundle row st = Ok ?st"
    using Cons.prems(1) [of row] by (cases row) (simp add: unspend_for_bundle_def row_defs set_coins_def Let_def)
  moreover have "try_fold unspend_for_bundle rows ?st = Ok (set_coins
      (db.put_all (map live_row rows) (st_utxos ?st)) (db.del_all (map row_key rows) (st_stxos ?st)) ?st)"
    by (rule Cons.IH) (use Cons.prems in \<open>auto simp: row_key_def image_iff\<close>)
  ultimately show ?case by (simp add: put_all_Cons del_all_Cons)
qed

lemma refund_rows:
  "fold refund_coin rows st
    = set_coins (db.put_all (map live_row rows) (st_utxos st)) (db.del_all (map row_key rows) (st_stxos st)) st"
proof (induction rows arbitrary: st)
  case (Cons row rows)
  have "refund_coin row st = set_coins (fmupd (row_key row) (snd row) (st_utxos st)) (fmdrop (row_key row) (st_stxos st)) st"
    by (cases row) (simp add: refund_coin_def row_defs set_coins_def Let_def)
  then show ?case using Cons.IH by (simp add: put_all_Cons del_all_Cons)
qed (simp add: db.del_all_def db.put_all_def)

text \<open>Coins that a bundle may spend, and coins that it has spent.\<close>

definition coins_live :: "(OutPoint, FilledOutput) fmap \<Rightarrow> State \<Rightarrow> bool" where
  "coins_live spend st \<longleftrightarrow> (\<forall>row\<in>set (bundle_rows spend).
     fmlookup (st_utxos st) (row_key row) = Some (snd row) \<and> fmlookup (st_stxos st) (row_key row) = None)"

definition coins_spent :: "M6id \<Rightarrow> (OutPoint, FilledOutput) fmap \<Rightarrow> State \<Rightarrow> bool" where
  "coins_spent m6id spend st \<longleftrightarrow> (\<forall>row\<in>set (bundle_rows spend).
     fmlookup (st_utxos st) (row_key row) = None \<and> fmlookup (st_stxos st) (row_key row) = Some (snd (spent_row m6id row)))"

lemma distinct_bundle_rows [simp]: "distinct (map fst (bundle_rows spend))"
  by (simp add: bundle_rows_def)

abbreviation bundle_spent :: "M6id \<Rightarrow> (OutPoint, FilledOutput) fmap \<Rightarrow> State \<Rightarrow> State" where
  "bundle_spent m6id spend st \<equiv> set_coins (db.del_all (map row_key (bundle_rows spend)) (st_utxos st))
     (db.put_all (map (spent_row m6id) (bundle_rows spend)) (st_stxos st)) st"

abbreviation bundle_refunded :: "(OutPoint, FilledOutput) fmap \<Rightarrow> State \<Rightarrow> State" where
  "bundle_refunded spend st \<equiv> set_coins (db.put_all (map live_row (bundle_rows spend)) (st_utxos st))
     (db.del_all (map row_key (bundle_rows spend)) (st_stxos st)) st"

lemma spend_bundle:
  assumes "coins_live spend st"
  shows "try_fold (spend_for_bundle m6id err) (bundle_rows spend) st = Ok (bundle_spent m6id spend st)"
  by (rule spend_rows) (use assms in \<open>auto simp: coins_live_def\<close>)

lemma unspend_bundle:
  assumes "coins_live spend st" and "rows = bundle_rows spend \<or> rows = rev (bundle_rows spend)"
    and st': "st_utxos st' = db.del_all (map row_key (bundle_rows spend)) (st_utxos st)"
      "st_stxos st' = db.put_all (map (spent_row m6id) (bundle_rows spend)) (st_stxos st)"
  shows "try_fold unspend_for_bundle rows st' = Ok (set_coins (st_utxos st) (st_stxos st) st')"
proof -
  have s: "set rows = set (bundle_rows spend)" and d: "distinct (map fst rows)"
    using assms(2) by (auto simp: rev_map [symmetric] simp del: map_map)
  have "fmlookup (st_stxos st') (row_key row) \<noteq> None" if "row \<in> set rows" for row
    using that s by (force simp: st' db.get_put_all map_of_eq_None_iff row_defs split: option.splits)
  then have "try_fold unspend_for_bundle rows st'
    = Ok (set_coins (db.put_all (map live_row rows) (st_utxos st')) (db.del_all (map row_key rows) (st_stxos st')) st')"
    using d by (intro unspend_rows)
  moreover have "db.put_all (map live_row rows) (st_utxos st') = st_utxos st"
    unfolding st' by (rule db.put_all_del_all)
      (use s assms(1) in \<open>force simp: coins_live_def live_row_def row_key_def\<close>)+
  moreover have "db.del_all (map row_key rows) (st_stxos st') = st_stxos st"
    unfolding st' by (rule db.del_all_put_all)
      (use s assms(1) in \<open>force simp: coins_live_def spent_row_def row_key_def\<close>)+
  ultimately show ?thesis by simp
qed

lemma respend_bundle:
  assumes "coins_spent m6id spend st"
    and st': "st_utxos st' = db.put_all (map live_row (bundle_rows spend)) (st_utxos st)"
      "st_stxos st' = db.del_all (map row_key (bundle_rows spend)) (st_stxos st)"
  shows "try_fold (spend_for_bundle m6id err) (rev (bundle_rows spend)) st' = Ok (set_coins (st_utxos st) (st_stxos st) st')"
proof -
  let ?rows = "rev (bundle_rows spend)"
  have d: "distinct (map fst ?rows)" by (simp add: rev_map [symmetric] del: map_map)
  have "fmlookup (st_utxos st') (row_key row) \<noteq> None" if "row \<in> set ?rows" for row
    using that by (force simp: st' db.get_put_all map_of_eq_None_iff row_defs split: option.splits)
  then have "try_fold (spend_for_bundle m6id err) ?rows st'
    = Ok (set_coins (db.del_all (map row_key ?rows) (st_utxos st')) (db.put_all (map (spent_row m6id) ?rows) (st_stxos st')) st')"
    using d by (intro spend_rows)
  moreover have "db.put_all (map (spent_row m6id) ?rows) (st_stxos st') = st_stxos st"
    unfolding st' by (rule db.put_all_del_all)
      (use assms(1) in \<open>force simp: coins_spent_def spent_row_def row_key_def\<close>)+
  moreover have "db.del_all (map row_key ?rows) (st_utxos st') = st_utxos st"
    unfolding st' by (rule db.del_all_put_all)
      (use assms(1) in \<open>force simp: coins_spent_def live_row_def row_key_def\<close>)+
  ultimately show ?thesis by simp
qed

section \<open>Histories and tables\<close>

lemma hs_pop_pushed:
  "rb_wf r \<Longrightarrow> hs_pop (RollBack (rb_list r @ [\<lparr>hs_value = v, hs_height = h\<rparr>])) = (Some r, \<lparr>hs_value = v, hs_height = h\<rparr>)"
  by (simp add: hs_pop_def rb_wf_def)

lemma history_pop:
  "status_history_ok h r \<Longrightarrow> hs_pop (RollBack (rb_list r @ [\<lparr>hs_value = v, hs_height = h'\<rparr>])) = (Some r, \<lparr>hs_value = v, hs_height = h'\<rparr>)"
  by (simp add: status_history_ok_def hs_pop_pushed)

lemma fmupd_upd [simp]: "fmupd k v (fmupd k w m) = fmupd k v m"
  by (rule fmap_ext) simp

lemma fmupd_same: "fmlookup m k = Some v \<Longrightarrow> fmupd k v m = m"
  by (rule fmap_ext) auto

lemma put_bundle_simps [simp]:
  "put_bundle m6id info r (put_bundle m6id info' r' st) = put_bundle m6id info r st"
  "set_coins u x (put_bundle m6id info r st) = put_bundle m6id info r (set_coins u x st)"
  "st_utxos (put_bundle m6id info r st) = st_utxos st" "st_stxos (put_bundle m6id info r st) = st_stxos st"
  "st_pending_withdrawal_bundle (put_bundle m6id info r st) = st_pending_withdrawal_bundle st"
  "st_latest_failed_withdrawal_bundle (put_bundle m6id info r st) = st_latest_failed_withdrawal_bundle st"
  "fmlookup (st_withdrawal_bundles (put_bundle m6id info r st)) m6id = Some (info, r)"
  "(put_bundle m6id info r st)\<lparr>st_pending_withdrawal_bundle := p\<rparr> = put_bundle m6id info r (st\<lparr>st_pending_withdrawal_bundle := p\<rparr>)"
  "(put_bundle m6id info r st)\<lparr>st_latest_failed_withdrawal_bundle := f\<rparr> = put_bundle m6id info r (st\<lparr>st_latest_failed_withdrawal_bundle := f\<rparr>)"
  by (simp_all add: put_bundle_def set_coins_def)

lemma set_coins_bundles [simp]:
  "st_withdrawal_bundles (set_coins u x st) = st_withdrawal_bundles st"
  "st_pending_withdrawal_bundle (set_coins u x st) = st_pending_withdrawal_bundle st"
  "st_latest_failed_withdrawal_bundle (set_coins u x st) = st_latest_failed_withdrawal_bundle st"
  "(set_coins u x st)\<lparr>st_pending_withdrawal_bundle := p\<rparr> = set_coins u x (st\<lparr>st_pending_withdrawal_bundle := p\<rparr>)"
  "(set_coins u x st)\<lparr>st_latest_failed_withdrawal_bundle := f\<rparr> = set_coins u x (st\<lparr>st_latest_failed_withdrawal_bundle := f\<rparr>)"
  by (simp_all add: set_coins_def)

lemma put_bundle_same: "fmlookup (st_withdrawal_bundles st) m6id = Some (info, r) \<Longrightarrow> put_bundle m6id info r st = st"
  by (simp add: put_bundle_def fmupd_same)

lemma pending_same: "st_pending_withdrawal_bundle st = p \<Longrightarrow> st\<lparr>st_pending_withdrawal_bundle := p\<rparr> = st"
  by simp

section \<open>Undoing an event\<close>

fun bundle_event_fits ::
  "WithdrawalBundleEventStatus \<Rightarrow> M6id \<Rightarrow> WithdrawalBundleInfo \<Rightarrow> WithdrawalBundleStatus \<Rightarrow> State \<Rightarrow> bool" where
  "bundle_event_fits WBE_Submitted m6id info s st =
     (case info of Known bnd \<Rightarrow> s = WBS_Pending \<longrightarrow> coins_live (wb_spend_utxos bnd) st | _ \<Rightarrow> True)"
| "bundle_event_fits WBE_Confirmed m6id info s st =
     (s \<noteq> WBS_Confirmed \<and>
      (case info of
         Known bnd \<Rightarrow> s = WBS_SubmittedUnexpected \<longrightarrow> coins_live (wb_spend_utxos bnd) st
       | _ \<Rightarrow> keys_valid st \<and> (\<forall>k\<in>fmdom' (st_utxos st). fmlookup (st_stxos st) k = None)))"
| "bundle_event_fits WBE_Failed m6id info s st =
     (s \<noteq> WBS_Failed \<and>
      (case info of
         Known bnd \<Rightarrow> s = WBS_Submitted \<longrightarrow> coins_spent m6id (wb_spend_utxos bnd) st
       | _ \<Rightarrow> True))"

definition event_fits :: "u32 \<Rightarrow> bitcoin_BlockHash \<times> BlockEvent \<Rightarrow> State \<Rightarrow> bool" where
  "event_fits h ev st \<longleftrightarrow> peg_ok h st \<and>
     (case snd ev of
        BE_Deposit deposit \<Rightarrow> fmlookup (st_utxos st) (from_outpoint (deposit_outpoint deposit)) = None
      | BE_WithdrawalBundle e \<Rightarrow>
          (case fmlookup (st_withdrawal_bundles st) (wbe_m6id e) of
             None \<Rightarrow> True
           | Some (info, r) \<Rightarrow> bundle_event_fits (wbe_status e) (wbe_m6id e) info (latest_status r) st))"

lemma undo_submitted_pending:
  assumes ok: "peg_ok h st" and p: "st_pending_withdrawal_bundle st = Some m6id"
    and b: "fmlookup (st_withdrawal_bundles st) m6id = Some (Known bnd, r)"
    and live: "coins_live (wb_spend_utxos bnd) st"
    and c: "submit_pending h m6id (ie, st) = Ok (ie', st')"
  shows "disconnect_withdrawal_bundle_submitted h m6id st' = Ok st"
proof -
  note r = peg_ok_lookup [OF ok b]
  let ?r = "RollBack (rb_list r @ [\<lparr>hs_value = WBS_Submitted, hs_height = h\<rparr>])"
  let ?s = "wb_spend_utxos bnd"
  have l: "hs_value (hs_latest r) = WBS_Pending" using r(3) p by (simp add: latest_status_def)
  with c b have st': "st' = put_bundle m6id (Known bnd) ?r ((bundle_spent m6id ?s st)\<lparr>st_pending_withdrawal_bundle := None\<rparr>)"
    by (simp add: submit_pending_def spend_bundle [OF live] push_status_history [OF r(1)])
  have "try_fold unspend_for_bundle (rev (bundle_rows ?s)) st' = Ok (set_coins (st_utxos st) (st_stxos st) st')"
    by (rule unspend_bundle [OF live]) (simp_all add: st')
  then have "disconnect_withdrawal_bundle_submitted h m6id st'
     = Ok (put_bundle m6id (Known bnd) r ((set_coins (st_utxos st) (st_stxos st) st')\<lparr>st_pending_withdrawal_bundle := Some m6id\<rparr>))"
    using l by (simp add: disconnect_withdrawal_bundle_submitted_def st' history_pop [OF r(1)] is_submitted_def)
  also have "\<dots> = Ok st"
    using put_bundle_same [OF b] pending_same [OF p] by (simp add: st')
  finally show ?thesis .
qed

lemma undo_submitted:
  assumes fits: "event_fits h (hash, BE_WithdrawalBundle \<lparr>wbe_m6id = m6id, wbe_status = WBE_Submitted\<rparr>) st"
    and c: "connect_withdrawal_bundle_submitted h hash m6id (ie, st) = Ok (ie', st')"
  shows "disconnect_withdrawal_bundle_submitted h m6id st' = Ok st"
proof -
  have ok: "peg_ok h st" using fits by (simp add: event_fits_def)
  show ?thesis
  proof (cases "fmlookup (st_withdrawal_bundles st) m6id")
    case None
    then have "st_pending_withdrawal_bundle st \<noteq> Some m6id" using ok by (auto simp: peg_ok_def fmlookup_dom_iff)
    with c None have "st' = put_bundle m6id Unknown (hs_new WBS_Submitted h) st"
      by (simp add: connect_withdrawal_bundle_submitted_def)
    then have "disconnect_withdrawal_bundle_submitted h m6id st'
        = Ok (st\<lparr>st_withdrawal_bundles := fmdrop m6id (fmupd m6id (Unknown, hs_new WBS_Submitted h) (st_withdrawal_bundles st))\<rparr>)"
      by (simp add: disconnect_withdrawal_bundle_submitted_def is_submitted_def put_bundle_def)
    then show ?thesis using None by (simp add: db.del_put_fresh)
  next
    case (Some b)
    obtain info r where b: "b = (info, r)" by (cases b)
    note r = peg_ok_lookup [OF ok Some [unfolded b]]
    show ?thesis
    proof (cases "st_pending_withdrawal_bundle st = Some m6id")
      case True
      then obtain bnd where k: "info = Known bnd" using r(2,3) by (cases info) simp_all
      have live: "coins_live (wb_spend_utxos bnd) st" using fits Some b k True r(3) by (simp add: event_fits_def)
      show ?thesis
        using undo_submitted_pending [OF ok True Some [unfolded b k] live] c True
        by (simp add: connect_withdrawal_bundle_submitted_def)
    next
      case False
      let ?r = "RollBack (rb_list r @ [\<lparr>hs_value = WBS_SubmittedUnexpected, hs_height = h\<rparr>])"
      from c False Some b have st': "st' = put_bundle m6id info ?r st"
        by (auto simp: connect_withdrawal_bundle_submitted_def rbind_Ok_iff push_status_history [OF r(1)])
      have l: "hs_value (hs_latest r) \<noteq> WBS_Pending" using r(3) False by (simp add: latest_status_def)
      then have "disconnect_withdrawal_bundle_submitted h m6id st' = Ok (put_bundle m6id info r st)"
        by (cases info) (simp_all add: disconnect_withdrawal_bundle_submitted_def st' history_pop [OF r(1)] is_submitted_def)
      then show ?thesis using Some b by (simp add: put_bundle_same)
    qed
  qed
qed

lemma decode_rows_lookup:
  assumes "decode_rows rows = (Ok m :: ('e, _) result)" and "distinct (map fst rows)"
    and "\<And>k. k \<in> fst ` set rows \<Longrightarrow> \<exists>op. k = from_outpoint op"
  shows "fmlookup m op = map_of rows (from_outpoint op)"
proof -
  from assms(1) obtain kvs where k: "try_map (\<lambda>(key, v). rbind (to_outpoint key) (\<lambda>op. Ok (op, v))) rows = (Ok kvs :: ('e, _) result)"
    and m: "m = fmap_of_list (rev kvs)" by (auto simp: decode_rows_def rbind_Ok_iff)
  from k assms(3) have "rows = map (\<lambda>(op, v). (from_outpoint op, v)) kvs"
  proof (induction rows arbitrary: kvs)
    case (Cons row rows)
    obtain op' where "fst row = from_outpoint op'" using Cons.prems(2) [of "fst row"] by auto
    then show ?case using Cons by (cases row) (auto simp: rbind_Ok_iff to_outpoint_def)
  qed simp
  moreover from this assms(2) have "distinct (map fst kvs)"
    by (auto simp: distinct_map comp_def split_def inj_on_def)
  moreover have "map_of (map (\<lambda>(op, v). (from_outpoint op, v)) kvs) (from_outpoint op) = map_of kvs op"
    by (induction kvs) auto
  ultimately show ?thesis by (simp add: m fmap_of_list.rep_eq map_of_rev_distinct)
qed

lemma get_utxos_lookup:
  assumes "get_utxos st = (Ok m :: ('e, _) result)" and "keys_valid st"
  shows "fmlookup m op = fmlookup (st_utxos st) (from_outpoint op)"
proof -
  have "fmlookup m op = map_of (db_iter id (st_utxos st)) (from_outpoint op)"
    by (rule decode_rows_lookup [OF assms(1) [unfolded get_utxos_def]])
      (use assms(2) in \<open>auto simp: keys_valid_def db_iter_lookup fmlookup_dom'_iff\<close>)
  moreover have "map_of (db_iter id (st_utxos st)) k = fmlookup (st_utxos st) k" for k
    by (metis db_iter_lookup distinct_db_keys map_fst_db_iter map_of_SomeD map_of_eq_None_iff map_of_is_SomeI
        not_Some_eq set_db_keys fmdom'_notD)
  ultimately show ?thesis by simp
qed

text \<open>Confirming an unknown bundle is spending every coin.\<close>

lemma confirm_unknown:
  assumes "get_utxos st = (Ok m :: ('e, _) result)" and "keys_valid st"
    and "\<forall>k\<in>fmdom' (st_utxos st). fmlookup (st_stxos st) k = None"
  shows "coins_live m st" and "db.del_all (map row_key (bundle_rows m)) (st_utxos st) = fmempty"
proof -
  note l = get_utxos_lookup [OF assms(1,2)]
  show "coins_live m st"
    using assms(3) l by (auto simp: coins_live_def bundle_rows_def db_iter_lookup row_key_def fmlookup_dom'_iff)
  show "db.del_all (map row_key (bundle_rows m)) (st_utxos st) = fmempty"
  proof (rule fmap_ext)
    fix k
    show "fmlookup (db.del_all (map row_key (bundle_rows m)) (st_utxos st)) k = fmlookup fmempty k"
    proof (cases "fmlookup (st_utxos st) k")
      case (Some out)
      then obtain op where k: "k = from_outpoint op" using assms(2) fmdom'I [OF Some] by (auto simp: keys_valid_def)
      with Some l have "(op, out) \<in> set (bundle_rows m)" by (simp add: bundle_rows_def db_iter_lookup)
      then have "k \<in> set (map row_key (bundle_rows m))" by (force simp: k row_key_def)
      then show ?thesis by (simp add: db.get_del_all)
    qed (simp add: db.get_del_all)
  qed
qed

lemma undo_confirmed:
  assumes fits: "event_fits h (hash, BE_WithdrawalBundle \<lparr>wbe_m6id = m6id, wbe_status = WBE_Confirmed\<rparr>) st"
    and c: "connect_withdrawal_bundle_confirmed h hash m6id st = Ok st'"
  shows "disconnect_withdrawal_bundle_confirmed h m6id st' = Ok st"
proof -
  have ok: "peg_ok h st" using fits by (simp add: event_fits_def)
  from c obtain info r where b: "fmlookup (st_withdrawal_bundles st) m6id = Some (info, r)"
    by (auto simp: connect_withdrawal_bundle_confirmed_def rbind_Ok_iff)
  note r = peg_ok_lookup [OF ok b]
  let ?r = "RollBack (rb_list r @ [\<lparr>hs_value = WBS_Confirmed, hs_height = h\<rparr>])"
  have f: "bundle_event_fits WBE_Confirmed m6id info (latest_status r) st"
    using fits b by (simp add: event_fits_def)
  with c b obtain info' st1 where s: "is_submitted (latest_status r)"
    and cc: "confirm_coins h hash m6id info (latest_status r) st = Ok (info', st1)"
    and st': "st' = put_bundle m6id info' ?r st1"
    by (auto simp: connect_withdrawal_bundle_confirmed_def latest_status_def rbind_Ok_iff Let_def
        push_status_history [OF r(1)])
  have pop: "hs_pop ?r = (Some r, \<lparr>hs_value = WBS_Confirmed, hs_height = h\<rparr>)" by (rule history_pop [OF r(1)])
  have un: "try_fold unspend_for_bundle (bundle_rows spend) st' = Ok (put_bundle m6id info' ?r st)"
    if "coins_live spend st" and "st1 = bundle_spent m6id spend st" for spend
    using unspend_bundle [OF that(1), of "bundle_rows spend" st' m6id] by (simp add: st' that(2))
  have d: "disconnect_withdrawal_bundle_confirmed h m6id st' = Ok (put_bundle m6id info r st)"
  proof (cases info)
    case (Known bnd)
    show ?thesis
    proof (cases "latest_status r = WBS_SubmittedUnexpected")
      case True
      have live: "coins_live (wb_spend_utxos bnd) st" using f Known True by simp
      have i: "info' = info" and st1: "st1 = bundle_spent m6id (wb_spend_utxos bnd) st"
        using cc Known True by (simp_all add: confirm_coins_def spend_bundle [OF live])
      from un [OF live st1] show ?thesis
        using True Known by (simp add: disconnect_withdrawal_bundle_confirmed_def st' i pop is_submitted_def latest_status_def Let_def)
    next
      case False
      then have "info' = info" "st1 = st" using cc Known by (simp_all add: confirm_coins_def)
      then show ?thesis using False Known s
        by (simp add: disconnect_withdrawal_bundle_confirmed_def st' pop is_submitted_def latest_status_def Let_def)
    qed
  next
    case Unknown
    with cc obtain m where m: "get_utxos st = (Ok m :: (Error, _) result)" and i: "info' = UnknownConfirmed m"
      and st1: "st1 = st\<lparr>st_stxos := db.put_all (map (\<lambda>(outpoint, out). (from_outpoint outpoint,
                       \<lparr>so_output = out, so_inpoint = IpWithdrawal m6id\<rparr>)) (bundle_rows m)) (st_stxos st),
                   st_utxos := fmempty\<rparr>"
      by (auto simp: confirm_coins_def rbind_Ok_iff split: if_splits)
    have l: "coins_live m st" "db.del_all (map row_key (bundle_rows m)) (st_utxos st) = fmempty"
      using confirm_unknown [OF m] f Unknown by auto
    have "(\<lambda>(outpoint, out). (from_outpoint outpoint, \<lparr>so_output = out, so_inpoint = IpWithdrawal m6id\<rparr>)) = spent_row m6id"
      by (simp add: fun_eq_iff spent_row_def)
    then have "st1 = bundle_spent m6id m st" using l(2) by (simp add: st1 set_coins_def)
    from un [OF l(1) this] s show ?thesis
      by (simp add: disconnect_withdrawal_bundle_confirmed_def st' i Unknown pop is_submitted_def latest_status_def Let_def)
  next
    case (UnknownConfirmed m)
    then show ?thesis using cc by (simp add: confirm_coins_def)
  qed
  then show ?thesis by (simp add: put_bundle_same [OF b])
qed

lemma undo_failed:
  assumes fits: "event_fits h (hash, BE_WithdrawalBundle \<lparr>wbe_m6id = m6id, wbe_status = WBE_Failed\<rparr>) st"
    and c: "connect_withdrawal_bundle_failed h m6id st = Ok st'"
  shows "disconnect_withdrawal_bundle_failed h m6id st' = Ok st"
proof -
  have ok: "peg_ok h st" using fits by (simp add: event_fits_def)
  from c obtain info r where b: "fmlookup (st_withdrawal_bundles st) m6id = Some (info, r)"
    by (auto simp: connect_withdrawal_bundle_failed_def rbind_Ok_iff)
  note r = peg_ok_lookup [OF ok b]
  let ?r = "RollBack (rb_list r @ [\<lparr>hs_value = WBS_Failed, hs_height = h\<rparr>])"
  have f: "bundle_event_fits WBE_Failed m6id info (latest_status r) st"
    using fits b by (simp add: event_fits_def)
  with c b have s: "is_submitted (latest_status r)"
    by (auto simp: connect_withdrawal_bundle_failed_def latest_status_def rbind_Ok_iff Let_def)
  have pop: "hs_pop ?r = (Some r, \<lparr>hs_value = WBS_Failed, hs_height = h\<rparr>)" by (rule history_pop [OF r(1)])
  have "disconnect_withdrawal_bundle_failed h m6id st' = Ok (put_bundle m6id info r st)"
  proof (cases "\<exists>bnd. info = Known bnd \<and> latest_status r = WBS_Submitted")
    case True
    then obtain bnd where k: "info = Known bnd" and l: "latest_status r = WBS_Submitted" by blast
    let ?s = "wb_spend_utxos bnd" and ?f = "st_latest_failed_withdrawal_bundle st"
    obtain st1 where st1: "push_latest_failed h m6id (bundle_refunded ?s st) = Ok st1" and st': "st' = put_bundle m6id info ?r st1"
      using c b k l by (auto simp: connect_withdrawal_bundle_failed_def latest_status_def rbind_Ok_iff Let_def
          is_submitted_def push_status_history [OF r(1)] refund_rows)
    from st1 ok obtain fr where fr: "st1 = (bundle_refunded ?s st)\<lparr>st_latest_failed_withdrawal_bundle := Some fr\<rparr>"
      and pf: "hs_pop fr = (?f, \<lparr>hs_value = m6id, hs_height = h\<rparr>)"
      by (cases ?f) (auto simp: push_latest_failed_def rbind_Ok_iff peg_ok_def push_status_Ok hs_pop_pushed)
    have "try_fold (spend_for_bundle m6id E_NoUtxo) (rev (bundle_rows ?s)) st' = Ok (set_coins (st_utxos st) (st_stxos st) st')"
      by (rule respend_bundle) (use f k l in \<open>simp_all add: st' fr\<close>)
    then show ?thesis using k l pf
      by (simp add: disconnect_withdrawal_bundle_failed_def st' fr pop is_submitted_def latest_status_def Let_def
          pop_latest_failed_def)
  next
    case False
    with c b s have "st' = put_bundle m6id info ?r st"
      by (cases info) (auto simp: connect_withdrawal_bundle_failed_def latest_status_def rbind_Ok_iff Let_def
          is_submitted_def push_status_history [OF r(1)])
    then show ?thesis using False s
      by (cases info) (auto simp: disconnect_withdrawal_bundle_failed_def pop is_submitted_def latest_status_def Let_def)
  qed
  then show ?thesis by (simp add: put_bundle_same [OF b])
qed

section \<open>The events of a block\<close>

text \<open>What an event does to the state, without the bookkeeping of the block.\<close>

definition peg_step :: "u32 \<Rightarrow> bitcoin_BlockHash \<times> BlockEvent \<Rightarrow> State \<Rightarrow> (Error, State) result" where
  "peg_step h ev st = rbind (connect_2wpd_event h ev (peg_progress_init, st)) (\<lambda>s. Ok (snd s))"

definition peg_undo :: "u32 \<Rightarrow> bitcoin_BlockHash \<times> BlockEvent \<Rightarrow> State \<Rightarrow> (Error, State) result" where
  "peg_undo h ev st = rbind (disconnect_event h ev ((None, None), st)) (\<lambda>s. Ok (snd s))"

fun is_deposit :: "BlockEvent \<Rightarrow> bool" where
  "is_deposit (BE_Deposit _) = True"
| "is_deposit (BE_WithdrawalBundle _) = False"

lemma disconnect_event_undo:
  "disconnect_event h (hash, e) ((d, b), st) = rbind (peg_undo h (hash, e) st)
     (\<lambda>st'. Ok ((if is_deposit e then keep_first hash d else d, if is_deposit e then b else keep_first hash b), st'))"
  by (cases e) (simp_all add: peg_undo_def disconnect_event_def Let_def rbind_assoc)

lemma submit_pending_any_progress:
  assumes "submit_pending h m6id (ie, st) = Ok (ie', st')"
  shows "\<exists>ie2'. submit_pending h m6id (ie2, st) = Ok (ie2', st')"
proof -
  from assms obtain info r where b: "fmlookup (st_withdrawal_bundles st) m6id = Some (info, r)"
    by (auto simp: submit_pending_def rbind_Ok_iff)
  with assms show ?thesis by (cases info) (auto simp: submit_pending_def rbind_Ok_iff)
qed

lemma submitted_any_progress:
  assumes "connect_withdrawal_bundle_submitted h hash m6id (ie, st) = Ok (ie', st')"
  shows "\<exists>ie2'. connect_withdrawal_bundle_submitted h hash m6id (ie2, st) = Ok (ie2', st')"
  using assms submit_pending_any_progress [of h m6id ie st ie' st' ie2]
  by (auto simp: connect_withdrawal_bundle_submitted_def rbind_Ok_iff split: if_splits option.splits)

lemma connect_event_step:
  assumes "connect_2wpd_event h (hash, e) (pp, st) = Ok (pp', st')"
  shows "peg_step h (hash, e) st = Ok st'"
    and "pp_latest_deposit_block_hash pp' = (if is_deposit e then Some hash else pp_latest_deposit_block_hash pp)"
    and "pp_latest_withdrawal_bundle_event_block_hash pp'
      = (if is_deposit e then pp_latest_withdrawal_bundle_event_block_hash pp else Some hash)"
proof -
  show "peg_step h (hash, e) st = Ok st'"
  proof (cases e)
    case (BE_WithdrawalBundle ev)
    with assms obtain ie' where "connect_withdrawal_bundle_event h hash ev (pp_index_events pp, st) = Ok (ie', st')"
      by (auto simp: connect_2wpd_event_def rbind_Ok_iff)
    then have "\<exists>ie2'. connect_withdrawal_bundle_event h hash ev (pp_index_events peg_progress_init, st) = Ok (ie2', st')"
      by (cases "wbe_status ev")
        (auto simp: connect_withdrawal_bundle_event_def rbind_Ok_iff intro: submitted_any_progress)
    then show ?thesis using BE_WithdrawalBundle by (auto simp: peg_step_def connect_2wpd_event_def rbind_Ok_iff)
  qed (use assms in \<open>simp add: peg_step_def connect_2wpd_event_def\<close>)
qed (use assms in \<open>cases e; auto simp: connect_2wpd_event_def rbind_Ok_iff\<close>)+

definition last_hash :: "(BlockEvent \<Rightarrow> bool) \<Rightarrow> (bitcoin_BlockHash \<times> BlockEvent) list \<Rightarrow> bitcoin_BlockHash option \<Rightarrow> bitcoin_BlockHash option" where
  "last_hash P evs seen = fold (\<lambda>(hash, e) seen. if P e then Some hash else seen) evs seen"

lemma connect_events_steps:
  assumes "try_fold (connect_2wpd_event h) evs (pp, st) = Ok (pp', st')"
  shows "try_fold (peg_step h) evs st = Ok st' \<and>
    pp_latest_deposit_block_hash pp' = last_hash is_deposit evs (pp_latest_deposit_block_hash pp) \<and>
    pp_latest_withdrawal_bundle_event_block_hash pp'
      = last_hash (\<lambda>e. \<not> is_deposit e) evs (pp_latest_withdrawal_bundle_event_block_hash pp)"
  using assms
proof (induction evs arbitrary: pp st)
  case (Cons ev evs)
  obtain hash e where ev: "ev = (hash, e)" by (cases ev)
  from Cons.prems obtain pp1 st1 where 1: "connect_2wpd_event h (hash, e) (pp, st) = Ok (pp1, st1)"
    and 2: "try_fold (connect_2wpd_event h) evs (pp1, st1) = Ok (pp', st')" by (auto simp: rbind_Ok_iff ev)
  from Cons.IH [OF 2] connect_event_step [OF 1] show ?case by (simp add: ev last_hash_def)
qed (simp add: last_hash_def)

lemma keep_first_rev:
  "fold (\<lambda>(hash, e) seen. if P e then keep_first hash seen else seen) (rev evs) seen
    = (case seen of Some x \<Rightarrow> Some x | None \<Rightarrow> last_hash P evs None)"
proof (induction evs arbitrary: seen rule: rev_induct)
  case (snoc ev evs)
  obtain hash e where "ev = (hash, e)" by (cases ev)
  then show ?case using snoc by (auto simp: last_hash_def keep_first_def split: option.splits)
qed (auto simp: last_hash_def split: option.splits)

lemma undo_events:
  assumes "try_fold (peg_undo h) evs st = Ok st'"
  shows "try_fold (disconnect_event h) evs ((d, b), st)
    = Ok ((fold (\<lambda>(hash, e) seen. if is_deposit e then keep_first hash seen else seen) evs d,
           fold (\<lambda>(hash, e) seen. if \<not> is_deposit e then keep_first hash seen else seen) evs b), st')"
  using assms
proof (induction evs arbitrary: d b st)
  case (Cons ev evs)
  obtain hash e where ev: "ev = (hash, e)" by (cases ev)
  from Cons.prems obtain st1 where 1: "peg_undo h (hash, e) st = Ok st1" and 2: "try_fold (peg_undo h) evs st1 = Ok st'"
    by (auto simp: rbind_Ok_iff ev)
  show ?case by (simp add: ev disconnect_event_undo 1 Cons.IH [OF 2])
qed simp

lemma peg_undo_step:
  assumes "event_fits h ev st" and "peg_step h ev st = Ok st'"
  shows "peg_undo h ev st' = Ok st"
proof -
  obtain hash e where ev: "ev = (hash, e)" by (cases ev)
  show ?thesis
  proof (cases e)
    case (BE_Deposit deposit)
    with assms ev show ?thesis
      by (auto simp: peg_step_def peg_undo_def connect_2wpd_event_def disconnect_event_def Let_def event_fits_def
          db.del_put_fresh)
  next
    case (BE_WithdrawalBundle event)
    obtain m6id s where event: "event = \<lparr>wbe_m6id = m6id, wbe_status = s\<rparr>" by (cases event)
    note f = assms(1) [unfolded ev BE_WithdrawalBundle event]
    note c = assms(2) [unfolded ev BE_WithdrawalBundle event]
    have "disconnect_withdrawal_bundle_event h event st' = Ok st"
    proof (cases s)
      case WBE_Submitted
      with c obtain ie' where "connect_withdrawal_bundle_submitted h hash m6id (pp_index_events peg_progress_init, st) = Ok (ie', st')"
        by (auto simp: peg_step_def connect_2wpd_event_def connect_withdrawal_bundle_event_def rbind_Ok_iff)
      with undo_submitted f WBE_Submitted show ?thesis by (simp add: disconnect_withdrawal_bundle_event_def event)
    next
      case WBE_Confirmed
      with c have "connect_withdrawal_bundle_confirmed h hash m6id st = Ok st'"
        by (auto simp: peg_step_def connect_2wpd_event_def connect_withdrawal_bundle_event_def rbind_Ok_iff)
      with undo_confirmed f WBE_Confirmed show ?thesis by (simp add: disconnect_withdrawal_bundle_event_def event)
    next
      case WBE_Failed
      with c have "connect_withdrawal_bundle_failed h m6id st = Ok st'"
        by (auto simp: peg_step_def connect_2wpd_event_def connect_withdrawal_bundle_event_def rbind_Ok_iff)
      with undo_failed f WBE_Failed show ?thesis by (simp add: disconnect_withdrawal_bundle_event_def event)
    qed
    then show ?thesis by (simp add: ev BE_WithdrawalBundle peg_undo_def disconnect_event_def)
  qed
qed

interpretation peg_op: reversible "peg_step h" "peg_undo h" "event_fits h" for h
  by unfold_locales (rule peg_undo_step)

fun events_fit :: "u32 \<Rightarrow> (bitcoin_BlockHash \<times> BlockEvent) list \<Rightarrow> State \<Rightarrow> bool" where
  "events_fit h [] st = True"
| "events_fit h (ev # evs) st =
     (event_fits h ev st \<and> (case peg_step h ev st of Ok st' \<Rightarrow> events_fit h evs st' | _ \<Rightarrow> True))"

lemma events_fit_fits_all: "events_fit h evs st \<longleftrightarrow> peg_op.fits_all h evs st"
  by (induction evs arbitrary: st) (auto split: result.splits)

section \<open>The bookkeeping of a block\<close>

definition set_logs ::
  "(u32, BlockIndexEvents) fmap \<Rightarrow> (u32, bitcoin_BlockHash \<times> u32) fmap \<Rightarrow> (u32, bitcoin_BlockHash \<times> u32) fmap
    \<Rightarrow> u32 option \<Rightarrow> State \<Rightarrow> State" where
  "set_logs ie ds ws ht st = st\<lparr>st_block_index_events := ie, st_deposit_blocks := ds, st_withdrawal_bundle_event_blocks := ws,
     st_height := ht\<rparr>"

lemma set_logs_simps [simp]:
  "st_utxos (set_logs ie ds ws ht st) = st_utxos st" "st_stxos (set_logs ie ds ws ht st) = st_stxos st"
  "st_withdrawal_bundles (set_logs ie ds ws ht st) = st_withdrawal_bundles st"
  "st_pending_withdrawal_bundle (set_logs ie ds ws ht st) = st_pending_withdrawal_bundle st"
  "st_latest_failed_withdrawal_bundle (set_logs ie ds ws ht st) = st_latest_failed_withdrawal_bundle st"
  "st_height (set_logs ie ds ws ht st) = ht"
  "st_deposit_blocks (set_logs ie ds ws ht st) = ds" "st_withdrawal_bundle_event_blocks (set_logs ie ds ws ht st) = ws"
  "st_block_index_events (set_logs ie ds ws ht st) = ie"
  "(set_logs ie ds ws ht st)\<lparr>st_utxos := u\<rparr> = set_logs ie ds ws ht (st\<lparr>st_utxos := u\<rparr>)"
  "(set_logs ie ds ws ht st)\<lparr>st_stxos := x\<rparr> = set_logs ie ds ws ht (st\<lparr>st_stxos := x\<rparr>)"
  "(set_logs ie ds ws ht st)\<lparr>st_withdrawal_bundles := b\<rparr> = set_logs ie ds ws ht (st\<lparr>st_withdrawal_bundles := b\<rparr>)"
  "(set_logs ie ds ws ht st)\<lparr>st_pending_withdrawal_bundle := p\<rparr> = set_logs ie ds ws ht (st\<lparr>st_pending_withdrawal_bundle := p\<rparr>)"
  "(set_logs ie ds ws ht st)\<lparr>st_latest_failed_withdrawal_bundle := f\<rparr> = set_logs ie ds ws ht (st\<lparr>st_latest_failed_withdrawal_bundle := f\<rparr>)"
  "(set_logs ie ds ws ht st)\<lparr>st_block_index_events := ie'\<rparr> = set_logs ie' ds ws ht st"
  "(set_logs ie ds ws ht st)\<lparr>st_deposit_blocks := ds'\<rparr> = set_logs ie ds' ws ht st"
  "(set_logs ie ds ws ht st)\<lparr>st_withdrawal_bundle_event_blocks := ws'\<rparr> = set_logs ie ds ws' ht st"
  "set_logs ie ds ws ht (set_logs ie' ds' ws' ht' st) = set_logs ie ds ws ht st"
  "put_bundle m6id info r (set_logs ie ds ws ht st) = set_logs ie ds ws ht (put_bundle m6id info r st)"
  "set_logs (st_block_index_events st) (st_deposit_blocks st) (st_withdrawal_bundle_event_blocks st) (st_height st) st = st"
  by (simp_all add: set_logs_def put_bundle_def)

text \<open>Undoing an event neither reads nor writes the bookkeeping.\<close>

definition logs_commute :: "(State \<Rightarrow> (Error, State) result) \<Rightarrow> bool" where
  "logs_commute f \<longleftrightarrow> (\<forall>ie ds ws ht st. f (set_logs ie ds ws ht st) = rbind (f st) (\<lambda>s. Ok (set_logs ie ds ws ht s)))"

lemma logs_commuteD: "logs_commute f \<Longrightarrow> f (set_logs ie ds ws ht st) = rbind (f st) (\<lambda>s. Ok (set_logs ie ds ws ht s))"
  by (simp add: logs_commute_def)

lemma logs_commute_try_fold:
  assumes "\<And>x. x \<in> set xs \<Longrightarrow> logs_commute (f x)"
  shows "logs_commute (try_fold f xs)"
  using assms
proof (induction xs)
  case (Cons x xs)
  then have "logs_commute (f x)" and "logs_commute (try_fold f xs)" by simp_all
  then show ?case by (simp add: logs_commute_def rbind_assoc)
qed (simp add: logs_commute_def)

lemma spend_logs: "logs_commute (spend_for_bundle m6id err row)"
  by (auto simp: logs_commute_def spend_for_bundle_def Let_def rbind_assoc split: prod.splits)

lemma unspend_logs: "logs_commute (unspend_for_bundle row)"
  by (auto simp: logs_commute_def unspend_for_bundle_def Let_def rbind_assoc split: prod.splits)

lemma pop_latest_failed_logs: "logs_commute (pop_latest_failed h m6id)"
  by (simp add: logs_commute_def pop_latest_failed_def case_prod_beta rbind_assoc)

lemma logs_commute_keeps:
  assumes "logs_commute f" and "f st = Ok s"
  shows "st_block_index_events s = st_block_index_events st" and "st_deposit_blocks s = st_deposit_blocks st"
    and "st_withdrawal_bundle_event_blocks s = st_withdrawal_bundle_event_blocks st" and "st_height s = st_height st"
proof -
  have "f (set_logs (st_block_index_events st) (st_deposit_blocks st) (st_withdrawal_bundle_event_blocks st) (st_height st) st)
     = rbind (f st) (\<lambda>s. Ok (set_logs (st_block_index_events st) (st_deposit_blocks st)
         (st_withdrawal_bundle_event_blocks st) (st_height st) s))"
    by (rule logs_commuteD [OF assms(1)])
  then have "s = set_logs (st_block_index_events st) (st_deposit_blocks st) (st_withdrawal_bundle_event_blocks st) (st_height st) s"
    using assms(2) by simp
  then show "st_block_index_events s = st_block_index_events st" "st_deposit_blocks s = st_deposit_blocks st"
    "st_withdrawal_bundle_event_blocks s = st_withdrawal_bundle_event_blocks st" "st_height s = st_height st"
    by (metis set_logs_simps(9), metis set_logs_simps(7), metis set_logs_simps(8), metis set_logs_simps(6))
qed

lemmas logs_fold =
  logs_commuteD [OF logs_commute_try_fold [OF spend_logs]] logs_commuteD [OF logs_commute_try_fold [OF unspend_logs]]
  logs_commuteD [OF pop_latest_failed_logs]

lemma submitted_logs: "logs_commute (disconnect_withdrawal_bundle_submitted h m6id)"
proof -
  have "disconnect_withdrawal_bundle_submitted h m6id (set_logs ie ds ws ht st)
    = rbind (disconnect_withdrawal_bundle_submitted h m6id st) (\<lambda>s. Ok (set_logs ie ds ws ht s))" for ie ds ws ht st
  proof (cases "fmlookup (st_withdrawal_bundles st) m6id")
    case (Some b)
    obtain info r where b: "b = (info, r)" by (cases b)
    obtain p l where "hs_pop r = (p, l)" by (cases "hs_pop r")
    then show ?thesis using Some b
      by (cases info; cases p) (simp_all add: disconnect_withdrawal_bundle_submitted_def rbind_assoc logs_fold)
  qed (simp add: disconnect_withdrawal_bundle_submitted_def)
  then show ?thesis by (simp add: logs_commute_def)
qed

lemma confirmed_logs: "logs_commute (disconnect_withdrawal_bundle_confirmed h m6id)"
proof -
  have "disconnect_withdrawal_bundle_confirmed h m6id (set_logs ie ds ws ht st)
    = rbind (disconnect_withdrawal_bundle_confirmed h m6id st) (\<lambda>s. Ok (set_logs ie ds ws ht s))" for ie ds ws ht st
  proof (cases "fmlookup (st_withdrawal_bundles st) m6id")
    case (Some b)
    obtain info r where b: "b = (info, r)" by (cases b)
    obtain p l where "hs_pop r = (p, l)" by (cases "hs_pop r")
    then show ?thesis using Some b
      by (cases info; cases p) (simp_all add: disconnect_withdrawal_bundle_confirmed_def rbind_assoc logs_fold)
  qed (simp add: disconnect_withdrawal_bundle_confirmed_def)
  then show ?thesis by (simp add: logs_commute_def)
qed

lemma failed_logs: "logs_commute (disconnect_withdrawal_bundle_failed h m6id)"
proof -
  have "disconnect_withdrawal_bundle_failed h m6id (set_logs ie ds ws ht st)
    = rbind (disconnect_withdrawal_bundle_failed h m6id st) (\<lambda>s. Ok (set_logs ie ds ws ht s))" for ie ds ws ht st
  proof (cases "fmlookup (st_withdrawal_bundles st) m6id")
    case (Some b)
    obtain info r where b: "b = (info, r)" by (cases b)
    obtain p l where "hs_pop r = (p, l)" by (cases "hs_pop r")
    then show ?thesis using Some b
      by (cases info; cases p) (simp_all add: disconnect_withdrawal_bundle_failed_def rbind_assoc logs_fold)
  qed (simp add: disconnect_withdrawal_bundle_failed_def)
  then show ?thesis by (simp add: logs_commute_def)
qed

lemma peg_undo_logs: "logs_commute (peg_undo h ev)"
proof -
  obtain hash e where ev: "ev = (hash, e)" by (cases ev)
  show ?thesis
  proof (cases e)
    case (BE_WithdrawalBundle event)
    have "logs_commute (disconnect_withdrawal_bundle_event h event)"
      using submitted_logs confirmed_logs failed_logs
      by (cases "wbe_status event") (simp_all add: logs_commute_def disconnect_withdrawal_bundle_event_def)
    then show ?thesis
      by (simp add: logs_commute_def peg_undo_def disconnect_event_def ev BE_WithdrawalBundle rbind_assoc)
  qed (simp add: logs_commute_def peg_undo_def disconnect_event_def ev Let_def rbind_assoc)
qed

text \<open>
  Appending to \<open>deposit_blocks\<close> or \<open>withdrawal_bundle_event_blocks\<close> finds its entry again as
  the last one, when the keys in the table are encoded below the new one. (Bincode writes
  the keys little-endian, so that this holds for the first 256 entries.)
\<close>

definition appendable :: "externs \<Rightarrow> (u32, 'v) fmap \<Rightarrow> bool" where
  "appendable E m \<longleftrightarrow> inj_on (ext_bincode_u32 E) (fmdom' m) \<and>
     (case next_index E m :: (unit, u32) result of
        Ok idx \<Rightarrow> \<forall>k\<in>fmdom' m. ext_bincode_u32 E k < ext_bincode_u32 E idx
      | _ \<Rightarrow> True)"

lemma next_index_cast:
  "next_index E m = (Ok i :: ('e, u32) result) \<Longrightarrow> next_index E m = (Ok i :: ('f, u32) result)"
  by (auto simp: next_index_def split: option.splits)

lemma remove_append_block:
  assumes "append_block E latest h m = (Ok m' :: ('e, _) result)" and "appendable E m"
  shows "remove_block E err latest h m' = Ok m"
proof (cases latest)
  case None
  with assms show ?thesis by (simp add: append_block_def remove_block_def)
next
  case (Some hash)
  let ?enc = "ext_bincode_u32 E"
  from assms(1) Some obtain idx where i: "next_index E m = (Ok idx :: ('e, u32) result)" and m': "m' = fmupd idx (hash, h) m"
    by (auto simp: append_block_def rbind_Ok_iff)
  have lt: "?enc k < ?enc idx" if "k \<in> fmdom' m" for k
    using assms(2) that next_index_cast [OF i, where 'f = unit] by (simp add: appendable_def)
  then have "idx \<notin> fmdom' m" by blast
  then have new: "fmlookup m idx = None" by (rule fmdom'_notD)
  have "db_last ?enc m' = Some (idx, hash, h)"
  proof (rule db_last_eqI)
    have "?enc idx \<notin> ?enc ` fmdom' m" using lt by force
    then show "inj_on ?enc (fmdom' m')" using assms(2) by (auto simp: appendable_def m')
    show "?enc k' \<le> ?enc idx" if "k' \<in> fmdom' m'" for k' using that lt by (auto simp: m' intro: less_imp_le)
  qed (simp add: m')
  then show ?thesis using new by (simp add: remove_block_def Some m' db.del_put_fresh)
qed

text \<open>
  The two tables hold a row per block, numbered from 0 on by \<open>next_index\<close> and stamped with
  the block's height. With 256 rows or more, the row with the last key is number 255: the
  next block's row gets the number 256, which is not the last key, and from then on every
  new row overwrites that one.
\<close>

definition log_ok :: "u32 \<Rightarrow> nat \<Rightarrow> (u32, bitcoin_BlockHash \<times> u32) fmap \<Rightarrow> bool" where
  "log_ok h n m \<longleftrightarrow> fmdom' m = {k. unat k < n} \<and> n \<le> 257 \<and> (\<forall>k hash h1. fmlookup m k = Some (hash, h1) \<longrightarrow> h1 < h)"

lemma next_index_numbered:
  assumes E: "bincode_little_endian E" and m: "log_ok h n m"
  shows "next_index E m = (Ok (of_nat (min n 256)) :: ('e, u32) result)"
proof (cases "n = 0")
  case True
  then show ?thesis using m by (simp add: log_ok_def numbered_empty next_index_def db_last_None_iff [THEN iffD2])
next
  case False
  have "fmdom' m = {k. unat k < n}" "0 < n" "n \<le> 257" using m False by (simp_all add: log_ok_def)
  from db_last_numbered [OF E this] obtain v where v: "db_last (ext_bincode_u32 E) m = Some (of_nat (min (n - 1) 255), v)"
    by blast
  have "unat (of_nat (min (n - 1) 255) :: u32) = min (n - 1) 255" "unat (of_nat (min n 256) :: u32) = min n 256"
    by (simp_all add: unat_of_nat min_def)
  then have "add_word (of_nat (min (n - 1) 255)) 1 = (Ok (of_nat (min n 256)) :: ('e, u32) result)"
    using False by (simp only: add_word_Ok_iff) auto
  with v show ?thesis by (simp add: next_index_def)
qed

lemma append_numbered:
  assumes E: "bincode_little_endian E" and m: "log_ok h n m"
    and ap: "append_block E (Some hash) h m = (Ok m' :: ('e, _) result)"
  shows "m' = fmupd (of_nat (min n 256)) (hash, h) m" and "fmdom' m' = {k. unat k < min (n + 1) 257}"
proof -
  show m': "m' = fmupd (of_nat (min n 256)) (hash, h) m"
    using ap next_index_numbered [OF E m, where 'e = 'e] by (simp add: append_block_def)
  have "unat (of_nat (min n 256) :: u32) = min n 256" by (simp add: unat_of_nat min_def)
  then have "{k :: u32. unat k < min (n + 1) 257} = insert (of_nat (min n 256)) {k. unat k < n}"
    using m by (auto simp: log_ok_def word_unat_eq_iff)
  then show "fmdom' m' = {k. unat k < min (n + 1) 257}" using m by (simp add: m' log_ok_def)
qed

lemma append_log_ok:
  assumes "bincode_little_endian E" and "log_ok h n m" and "h < h'"
    and "append_block E (Some hash) h m = (Ok m' :: ('e, _) result)"
  shows "log_ok h' (min (n + 1) 257) m'"
proof -
  have "h1 < h \<Longrightarrow> h1 < h'" for h1 using assms(3) by (rule order.strict_trans [rotated])
  then show ?thesis using append_numbered [OF assms(1,2,4)] assms(2,3)
    by (auto simp: log_ok_def split: if_splits)
qed

lemma appendable_numbered:
  assumes E: "bincode_little_endian E" and m: "log_ok h n m" and n: "n \<le> 255"
  shows "appendable E m"
proof -
  have enc: "ext_bincode_u32 E = le_bytes 4" using E by (auto simp: bincode_little_endian_def)
  have un: "unat (of_nat n :: u32) = n" using n by (simp add: unat_of_nat)
  have "le_bytes 4 k < le_bytes 4 (of_nat n :: u32)" if "k \<in> fmdom' m" for k
  proof -
    have k: "unat k < n" using that m by (simp add: log_ok_def)
    then have "le_bytes 4 k \<le> le_bytes 4 (of_nat n :: u32)" using n un by (intro le_bytes_4_mono) auto
    moreover have "le_bytes 4 k \<noteq> le_bytes 4 (of_nat n :: u32)"
      using k un inj_onD [OF le_bytes_4_inj, of k "of_nat n" UNIV] by auto
    ultimately show ?thesis by simp
  qed
  then show ?thesis using next_index_numbered [OF E m, where 'e = unit] n
    by (simp add: appendable_def enc le_bytes_4_inj)
qed

lemma remove_overrun:
  assumes E: "bincode_little_endian E" and m: "log_ok h n m" and n: "256 \<le> n"
    and ap: "append_block E (Some hash) h m = (Ok m' :: ('e, _) result)"
  shows "remove_block E err (Some hash) h m' = Panic"
proof -
  note a = append_numbered [OF E m ap]
  have n257: "min (n + 1) 257 = 257" "min n 256 = 256" using n by simp_all
  obtain v where v: "fmlookup m' 255 = Some v" and l: "db_last (ext_bincode_u32 E) m' = Some (255, v)"
    using db_last_numbered [OF E a(2)] n257 by auto
  have "fmlookup m 255 = Some v" using v a(1) n257 by (simp split: if_splits)
  then have "h \<noteq> snd v" using m by (cases v) (auto simp: log_ok_def)
  then show ?thesis by (cases v; cases "hash = fst v") (simp_all add: remove_block_def l)
qed

lemma remove_numbered:
  assumes E: "bincode_little_endian E" and m: "log_ok h n m"
    and ap: "append_block E latest h m = (Ok m' :: ('e, _) result)"
  shows "remove_block E err latest h m' = (if latest \<noteq> None \<and> 256 \<le> n then Panic else Ok m)"
proof (cases latest)
  case None
  with ap show ?thesis by (simp add: append_block_def remove_block_def)
next
  case (Some hash)
  show ?thesis
  proof (cases "256 \<le> n")
    case True
    then show ?thesis using remove_overrun [OF E m True] ap Some by simp
  next
    case False
    then have "appendable E m" using appendable_numbered [OF E m] by simp
    from remove_append_block [OF ap this] False show ?thesis by simp
  qed
qed

section \<open>A block\<close>

definition no_new_bundle :: "u32 \<Rightarrow> State \<Rightarrow> bool" where
  "no_new_bundle h st \<longleftrightarrow>
     (case st_pending_withdrawal_bundle st of
        None \<Rightarrow> True
      | Some m6id \<Rightarrow> (case fmlookup (st_withdrawal_bundles st) m6id of
            None \<Rightarrow> True | Some (_, r) \<Rightarrow> hs_height (hs_latest r) \<noteq> h))"

lemma store_pending_at_height:
  assumes "store_pending_bundle E h bnd st = Ok st'"
  shows "\<not> no_new_bundle h st'"
proof -
  let ?m = "compute_m6id E bnd"
  have "\<exists>r. st' = put_bundle ?m (Known bnd) r (st\<lparr>st_pending_withdrawal_bundle := Some ?m\<rparr>) \<and> hs_height (hs_latest r) = h"
  proof (cases "fmlookup (st_withdrawal_bundles st) ?m")
    case None
    with assms show ?thesis
      by (intro exI [of _ "hs_new WBS_Pending h"]) (simp add: store_pending_bundle_def Let_def)
  next
    case (Some b)
    with assms obtain r where "push_status WBS_Pending h (snd b) = (Ok r :: (Error, _) result)"
      and st': "st' = put_bundle ?m (Known bnd) r (st\<lparr>st_pending_withdrawal_bundle := Some ?m\<rparr>)"
      by (cases b) (auto simp: store_pending_bundle_def Let_def rbind_Ok_iff)
    then have "hs_push WBS_Pending h (snd b) = Ok r" by (auto simp: push_status_def split: result.splits)
    with st' show ?thesis by (intro exI [of _ r]) (simp add: hs_latest_push)
  qed
  then show ?thesis by (auto simp: no_new_bundle_def)
qed

lemma collect_pending_nothing:
  assumes "collect_pending E order h st = Ok st'" and "no_new_bundle h st'"
  shows "st' = st"
  using assms store_pending_at_height
  by (auto simp: collect_pending_def rbind_Ok_iff split: if_splits option.splits)

lemma drop_pending_older:
  assumes "latest_failure_height st = (Ok fh :: (Error, u32) result)" and "fh \<le> h"
    and "\<And>m6id. st_pending_withdrawal_bundle st = Some m6id \<Longrightarrow>
      \<exists>info r. fmlookup (st_withdrawal_bundles st) m6id = Some (info, r) \<and> hs_height (hs_latest r) \<noteq> h"
  shows "drop_pending h st = Ok st"
proof -
  have g: "sub_word h fh = (Ok (h - fh) :: (Error, u32) result)" using assms(2) by (simp add: sub_word_Ok word_le_nat_alt)
  show ?thesis
    using assms(3) by (cases "st_pending_withdrawal_bundle st") (auto simp: drop_pending_def assms(1) g)
qed

lemma pending_older:
  assumes "peg_ok h0 st" and "h0 < h" and "st_pending_withdrawal_bundle st = Some m6id"
  shows "\<exists>info r. fmlookup (st_withdrawal_bundles st) m6id = Some (info, r) \<and> hs_height (hs_latest r) \<noteq> h"
proof -
  from assms obtain info r where b: "fmlookup (st_withdrawal_bundles st) m6id = Some (info, r)"
    by (auto simp: peg_ok_def fmlookup_dom_iff)
  have "hs_height (hs_latest r) \<le> h0" using peg_ok_lookup(1) [OF assms(1) b] by (simp add: status_history_ok_def)
  then show ?thesis using assms(2) b by auto
qed

lemma drop_pending_nothing:
  assumes "peg_ok h0 st" and "h0 < h" and "latest_failure_height st = (Ok fh :: (Error, u32) result)" and "fh \<le> h"
  shows "drop_pending h st = Ok st"
  using drop_pending_older [OF assms(3,4) pending_older [OF assms(1,2)]] by blast

lemma record_progress_logs:
  assumes "record_progress E h pp st = (Ok st' :: ('e, State) result)"
  obtains ie ds ws where "st' = set_logs ie ds ws (st_height st) st"
    and "ie = st_block_index_events st \<or> ie = fmupd h (pp_index_events pp) (st_block_index_events st)"
    and "append_block E (pp_latest_deposit_block_hash pp) h (st_deposit_blocks st) = (Ok ds :: ('e, _) result)"
    and "append_block E (pp_latest_withdrawal_bundle_event_block_hash pp) h (st_withdrawal_bundle_event_blocks st) = (Ok ws :: ('e, _) result)"
proof (cases "block_index_events_is_empty (pp_index_events pp)")
  case True
  with assms obtain ds ws where "append_block E (pp_latest_deposit_block_hash pp) h (st_deposit_blocks st) = (Ok ds :: ('e, _) result)"
    "append_block E (pp_latest_withdrawal_bundle_event_block_hash pp) h (st_withdrawal_bundle_event_blocks st) = (Ok ws :: ('e, _) result)"
    "st' = set_logs (st_block_index_events st) ds ws (st_height st) st"
    by (auto simp: record_progress_def rbind_Ok_iff set_logs_def)
  from that [OF this(3) _ this(1,2)] show ?thesis by simp
next
  case False
  with assms obtain ds ws where "append_block E (pp_latest_deposit_block_hash pp) h (st_deposit_blocks st) = (Ok ds :: ('e, _) result)"
    "append_block E (pp_latest_withdrawal_bundle_event_block_hash pp) h (st_withdrawal_bundle_event_blocks st) = (Ok ws :: ('e, _) result)"
    "st' = set_logs (fmupd h (pp_index_events pp) (st_block_index_events st)) ds ws (st_height st) st"
    by (auto simp: record_progress_def rbind_Ok_iff set_logs_def Let_def)
  from that [OF this(3) _ this(1,2)] show ?thesis by simp
qed

lemma last_hash_None: "last_hash P evs None = None \<longleftrightarrow> (\<forall>ev\<in>set evs. \<not> P (snd ev))"
  by (induction evs rule: rev_induct) (auto simp: last_hash_def split: if_splits)

text \<open>Everything but the two tables is restored; the tables are left to \<open>remove_block\<close>.\<close>

lemma disconnect_peg_reduces:
  assumes c: "connect_two_way_peg_data E order data st = Ok st'" and ht: "st_height st = Some h"
    and ok: "peg_ok h0 st" and lt: "h0 < h" and fits: "events_fit h (peg_events data) st" and none: "no_new_bundle h st'"
    and idx: "fmlookup (st_block_index_events st) h = None"
    and fh: "latest_failure_height st = (Ok fh :: (Error, u32) result)" "fh \<le> h"
  obtains ds ws where
    "append_block E (last_hash is_deposit (peg_events data) None) h (st_deposit_blocks st) = (Ok ds :: (Error, _) result)"
    and "append_block E (last_hash (\<lambda>e. \<not> is_deposit e) (peg_events data) None) h (st_withdrawal_bundle_event_blocks st)
      = (Ok ws :: (Error, _) result)"
    and "disconnect_two_way_peg_data E data st' =
      rbind (remove_block E E_NoWithdrawalBundleEventBlock (last_hash (\<lambda>e. \<not> is_deposit e) (peg_events data) None) h ws) (\<lambda>wb.
      rbind (remove_block E E_NoDepositBlock (last_hash is_deposit (peg_events data) None) h ds) (\<lambda>db.
        Ok (set_logs (st_block_index_events st) db wb (Some h) st)))"
proof -
  let ?evs = "peg_events data"
  let ?d = "last_hash is_deposit ?evs None" and ?b = "last_hash (\<lambda>e. \<not> is_deposit e) ?evs None"
  from c ht obtain pp st1 st2
    where f: "try_fold (connect_2wpd_event h) ?evs (peg_progress_init, st) = Ok (pp, st1)"
      and r: "record_progress E h pp st1 = (Ok st2 :: (Error, State) result)" and cp: "collect_pending E order h st2 = Ok st'"
    by (rule connect_two_way_peg_data_Ok)
  from connect_events_steps [OF f]
  have s: "try_fold (peg_step h) ?evs st = Ok st1"
    and pp: "pp_latest_deposit_block_hash pp = ?d" "pp_latest_withdrawal_bundle_event_block_hash pp = ?b"
    by (simp_all add: peg_progress_init_def)
  have u: "try_fold (peg_undo h) (rev ?evs) st1 = Ok st"
    by (rule peg_op.revert_all [OF fits [unfolded events_fit_fits_all] s])
  have cm: "logs_commute (try_fold (peg_undo h) (rev ?evs))" by (rule logs_commute_try_fold [OF peg_undo_logs])
  note k = logs_commute_keeps [OF cm u]
  from r obtain ie ds ws where st2: "st2 = set_logs ie ds ws (st_height st1) st1"
    and ie: "ie = st_block_index_events st1 \<or> ie = fmupd h (pp_index_events pp) (st_block_index_events st1)"
    and ds: "append_block E (pp_latest_deposit_block_hash pp) h (st_deposit_blocks st1) = (Ok ds :: (Error, _) result)"
    and ws: "append_block E (pp_latest_withdrawal_bundle_event_block_hash pp) h (st_withdrawal_bundle_event_blocks st1)
      = (Ok ws :: (Error, _) result)"
    by (rule record_progress_logs)
  have st': "st' = set_logs ie ds ws (Some h) st1"
    using collect_pending_nothing [OF cp none] st2 k(4) ht by simp
  have ie': "fmdrop h ie = st_block_index_events st"
    using ie idx k(1) by (auto simp: db.del_put_fresh db.del_absent)
  have ev: "try_fold (disconnect_event h) (rev ?evs) ((None, None), set_logs (fmdrop h ie) ds ws (Some h) st1)
      = Ok ((?d, ?b), set_logs (st_block_index_events st) ds ws (Some h) st)"
    by (subst undo_events) (simp_all add: logs_commuteD [OF cm] u ie' keep_first_rev)
  let ?st = "\<lambda>wb. set_logs (st_block_index_events st) ds wb (Some h) st"
  have "peg_ok h0 (?st wb)" "latest_failure_height (?st wb) = (Ok fh :: (Error, u32) result)" for wb
    using ok fh(1) by (simp_all add: peg_ok_def latest_failure_height_def get_latest_failed_withdrawal_bundle_def
        cong: option.case_cong)
  then have "drop_pending h (?st wb) = Ok (?st wb)" for wb using drop_pending_nothing lt fh(2) by blast
  then have d: "disconnect_two_way_peg_data E data st' =
      rbind (remove_block E E_NoWithdrawalBundleEventBlock ?b h ws) (\<lambda>wb.
      rbind (remove_block E E_NoDepositBlock ?d h ds) (\<lambda>db. Ok (set_logs (st_block_index_events st) db wb (Some h) st)))"
    by (simp add: disconnect_two_way_peg_data_def st' ev)
  show ?thesis by (rule that [OF _ _ d]) (use ds ws k(2,3) pp in simp_all)
qed

text \<open>
  C7: disconnecting two-way peg data restores the state it was connected to exactly (every
  table, every bundle history and the pending bundle), or panics when one of the two
  tables of event blocks has outgrown 256 rows. The state before the block satisfies the
  peg invariant for a height h0 below the block's height h; its table of index events has no
  row for h and its last failed bundle is not above h; the events fit the coin tables; no
  new bundle was collected in this block (disconnecting goes wrong when one was). The
  tables of deposit blocks and of withdrawal event blocks have rows numbered from 0,
  stamped with heights below h. Their keys are stored little-endian, so once a table has
  256 rows the row that the block appended is not the last in key order, and the assertion
  in the code panics for every block that has an event of that kind.
\<close>

theorem disconnect_undoes_connect_peg:
  assumes "connect_two_way_peg_data E order data st = Ok st'" and "st_height st = Some h"
    and "peg_ok h0 st" and "h0 < h" and "events_fit h (peg_events data) st" and "no_new_bundle h st'"
    and "fmlookup (st_block_index_events st) h = None"
    and "latest_failure_height st = (Ok fh :: (Error, u32) result)" and "fh \<le> h"
    and "bincode_little_endian E" and "log_ok h nd (st_deposit_blocks st)"
    and "log_ok h nw (st_withdrawal_bundle_event_blocks st)"
  shows "disconnect_two_way_peg_data E data st' =
    (if (\<exists>ev\<in>set (peg_events data). is_deposit (snd ev)) \<and> 256 \<le> nd \<or>
        (\<exists>ev\<in>set (peg_events data). \<not> is_deposit (snd ev)) \<and> 256 \<le> nw
     then Panic else Ok st)"
  using assms(1-9)
proof (rule disconnect_peg_reduces)
  fix ds ws
  assume ds: "append_block E (last_hash is_deposit (peg_events data) None) h (st_deposit_blocks st) = (Ok ds :: (Error, _) result)"
    and ws: "append_block E (last_hash (\<lambda>e. \<not> is_deposit e) (peg_events data) None) h (st_withdrawal_bundle_event_blocks st)
      = (Ok ws :: (Error, _) result)"
    and d: "disconnect_two_way_peg_data E data st' =
      rbind (remove_block E E_NoWithdrawalBundleEventBlock (last_hash (\<lambda>e. \<not> is_deposit e) (peg_events data) None) h ws) (\<lambda>wb.
      rbind (remove_block E E_NoDepositBlock (last_hash is_deposit (peg_events data) None) h ds) (\<lambda>db.
        Ok (set_logs (st_block_index_events st) db wb (Some h) st)))"
  have "set_logs (st_block_index_events st) (st_deposit_blocks st) (st_withdrawal_bundle_event_blocks st) (Some h) st = st"
    using assms(2) by (metis set_logs_simps(20))
  then show ?thesis unfolding d
    using remove_numbered [OF assms(10,11) ds] remove_numbered [OF assms(10,12) ws]
    by (auto simp: last_hash_None)
qed

section \<open>Concrete blocks\<close>

definition empty_at_5 :: State where
  "empty_at_5 = State_new\<lparr>st_height := Some 5\<rparr>"

definition demo_deposit :: Deposit where
  "demo_deposit = \<lparr>dp_tx_index = 0, dp_txid = 4, dp_vout = 0, dp_output = plain (F_Bitcoin 9)\<rparr>"

definition demo_peg_data :: TwoWayPegData where
  "demo_peg_data = \<lparr>block_info = [(1, [BE_Deposit demo_deposit]),
     (2, [BE_WithdrawalBundle \<lparr>wbe_m6id = 8, wbe_status = WBE_Submitted\<rparr>])]\<rparr>"

definition demo_peg_after :: State where
  "demo_peg_after = set_logs
     (fmupd 5 \<lparr>bie_deposits = [(OpDeposit 4 0, plain (F_Bitcoin 9))], bie_bundle_spends = []\<rparr> fmempty)
     (fmupd 0 (1, 5) fmempty) (fmupd 0 (2, 5) fmempty) (Some 5)
     (put_bundle 8 Unknown (hs_new WBS_Submitted 5)
       (empty_at_5\<lparr>st_utxos := fmupd (from_outpoint (OpDeposit 4 0)) (plain (F_Bitcoin 9)) fmempty\<rparr>))"

lemma empty_at_5_sel [simp]:
  "st_height empty_at_5 = Some 5" "st_utxos empty_at_5 = fmempty" "st_withdrawal_bundles empty_at_5 = fmempty"
  "st_pending_withdrawal_bundle empty_at_5 = None" "st_latest_failed_withdrawal_bundle empty_at_5 = None"
  "st_deposit_blocks empty_at_5 = fmempty" "st_withdrawal_bundle_event_blocks empty_at_5 = fmempty"
  "st_block_index_events empty_at_5 = fmempty" "peg_ok h empty_at_5"
  by (simp_all add: empty_at_5_def State_new_def peg_ok_def)

lemma demo_peg_events: "peg_events demo_peg_data
    = [(1, BE_Deposit demo_deposit), (2, BE_WithdrawalBundle \<lparr>wbe_m6id = 8, wbe_status = WBE_Submitted\<rparr>)]"
  by (simp add: peg_events_def demo_peg_data_def)

lemma demo_peg_step1: "connect_2wpd_event 5 (1, BE_Deposit demo_deposit) (pp, empty_at_5)
    = Ok (pp\<lparr>pp_index_events := (pp_index_events pp)\<lparr>bie_deposits := bie_deposits (pp_index_events pp) @ [(OpDeposit 4 0, plain (F_Bitcoin 9))]\<rparr>,
           pp_latest_deposit_block_hash := Some 1\<rparr>,
         empty_at_5\<lparr>st_utxos := fmupd (from_outpoint (OpDeposit 4 0)) (plain (F_Bitcoin 9)) fmempty\<rparr>)"
  by (simp add: connect_2wpd_event_def demo_deposit_def deposit_outpoint_def)

lemma demo_peg_after_connect: "connect_two_way_peg_data demo_externs id demo_peg_data empty_at_5 = Ok demo_peg_after"
proof -
  let ?st = "empty_at_5\<lparr>st_utxos := fmupd (from_outpoint (OpDeposit 4 0)) (plain (F_Bitcoin 9)) fmempty\<rparr>"
  let ?ie = "\<lparr>bie_deposits = [(OpDeposit 4 0, plain (F_Bitcoin 9))], bie_bundle_spends = []\<rparr>"
  let ?pp = "\<lparr>pp_index_events = ?ie, pp_latest_deposit_block_hash = Some 1,
     pp_latest_withdrawal_bundle_event_block_hash = Some 2\<rparr>"
  let ?st1 = "put_bundle 8 Unknown (hs_new WBS_Submitted 5) ?st"
  have ev: "try_fold (connect_2wpd_event 5) (peg_events demo_peg_data) (peg_progress_init, empty_at_5) = Ok (?pp, ?st1)"
    by (simp add: demo_peg_events demo_peg_step1)
      (simp add: connect_2wpd_event_def connect_withdrawal_bundle_event_def connect_withdrawal_bundle_submitted_def
        peg_progress_init_def)
  have nx: "next_index demo_externs (fmempty :: (u32, bitcoin_BlockHash \<times> u32) fmap) = (Ok 0 :: (Error, u32) result)"
    by (simp add: next_index_def db_last_None_iff [THEN iffD2])
  have rp: "record_progress demo_externs 5 ?pp ?st1 = (Ok demo_peg_after :: (Error, State) result)"
    by (simp add: record_progress_def block_index_events_is_empty_def append_block_def nx demo_peg_after_def Let_def
        put_bundle_def set_logs_def empty_at_5_def State_new_def)
  have a: "aggregate_withdrawals demo_peg_after = Ok fmempty"
    by (simp add: aggregate_withdrawals_def demo_peg_after_def aggregate_output_def plain_def)
  have "latest_failure_height demo_peg_after = (Ok 0 :: (Error, u32) result)"
    by (simp add: latest_failure_height_def get_latest_failed_withdrawal_bundle_def demo_peg_after_def)
  moreover have g: "sub_word 5 0 = (Ok 5 :: (Error, u32) result)" by simp
  ultimately have cp: "collect_pending demo_externs id 5 demo_peg_after = Ok demo_peg_after"
    by (simp add: collect_pending_def g collect_withdrawal_bundle_def a)
  show ?thesis by (simp add: connect_two_way_peg_data_def ev rp cp)
qed

lemma log_ok_empty [simp]: "log_ok h 0 fmempty"
  by (simp add: log_ok_def)

theorem disconnect_undoes_connect_peg_witness:
  "connect_two_way_peg_data demo_externs id demo_peg_data empty_at_5 = Ok demo_peg_after \<and>
   disconnect_two_way_peg_data demo_externs demo_peg_data demo_peg_after = Ok empty_at_5"
proof -
  let ?st = "empty_at_5\<lparr>st_utxos := fmupd (from_outpoint (OpDeposit 4 0)) (plain (F_Bitcoin 9)) fmempty\<rparr>"
  have "peg_step 5 (1, BE_Deposit demo_deposit) empty_at_5 = Ok ?st" by (simp add: peg_step_def demo_peg_step1)
  then have fits: "events_fit 5 (peg_events demo_peg_data) empty_at_5"
    by (simp add: demo_peg_events event_fits_def split: result.splits)
  have none: "no_new_bundle 5 demo_peg_after" by (simp add: no_new_bundle_def demo_peg_after_def)
  have "latest_failure_height empty_at_5 = (Ok 0 :: (Error, u32) result)"
    by (simp add: latest_failure_height_def get_latest_failed_withdrawal_bundle_def)
  then show ?thesis
    using disconnect_undoes_connect_peg [OF demo_peg_after_connect, of 5 3 0 0 0] fits none demo_peg_after_connect by simp
qed

section \<open>A bundle that stays behind\<close>

text \<open>
  A block submits the pending bundle and collects the next one. Disconnecting it first makes
  the submitted bundle pending again, and only then looks for a pending bundle of this
  height to remove; it finds the old one.
\<close>

lemma submit_pending_known:
  assumes "submit_pending h m6id (ie, st) = Ok (ie', st1)"
  obtains bnd r where "fmlookup (st_withdrawal_bundles st) m6id = Some (Known bnd, r)"
proof -
  from assms obtain info r where b: "fmlookup (st_withdrawal_bundles st) m6id = Some (info, r)"
    by (auto simp: submit_pending_def rbind_Ok_iff)
  with assms that show ?thesis by (cases info) (simp_all add: submit_pending_def)
qed

lemma submit_pending_state:
  assumes ok: "peg_ok h st" and b: "fmlookup (st_withdrawal_bundles st) m6id = Some (Known bnd, r)"
    and live: "coins_live (wb_spend_utxos bnd) st" and c: "submit_pending h m6id (ie, st) = Ok (ie', st1)"
  shows "st1 = put_bundle m6id (Known bnd) (RollBack (rb_list r @ [\<lparr>hs_value = WBS_Submitted, hs_height = h\<rparr>]))
      ((bundle_spent m6id (wb_spend_utxos bnd) st)\<lparr>st_pending_withdrawal_bundle := None\<rparr>)"
    and "hs_value (hs_latest r) = WBS_Pending"
  using c b by (auto simp: submit_pending_def spend_bundle [OF live] push_status_history [OF peg_ok_lookup(1) [OF ok b]] rbind_Ok_iff)

lemma undo_submitted_extra:
  assumes ok: "peg_ok h st" and p: "st_pending_withdrawal_bundle st = Some m6id"
    and b: "fmlookup (st_withdrawal_bundles st) m6id = Some (Known bnd, r)"
    and live: "coins_live (wb_spend_utxos bnd) st" and m: "m \<noteq> m6id"
    and c: "submit_pending h m6id (ie, st) = Ok (ie', st1)"
  shows "disconnect_withdrawal_bundle_submitted h m6id (put_bundle m info q (st1\<lparr>st_pending_withdrawal_bundle := Some m\<rparr>))
    = Ok (put_bundle m info q st)"
proof -
  note r = peg_ok_lookup [OF ok b]
  let ?r = "RollBack (rb_list r @ [\<lparr>hs_value = WBS_Submitted, hs_height = h\<rparr>])"
  let ?s = "wb_spend_utxos bnd" and ?x = "put_bundle m info q (st1\<lparr>st_pending_withdrawal_bundle := Some m\<rparr>)"
  note st1 = submit_pending_state [OF ok b live c]
  have look: "fmlookup (st_withdrawal_bundles ?x) m6id = Some (Known bnd, ?r)"
    using m by (simp add: st1(1) put_bundle_def)
  have "try_fold unspend_for_bundle (rev (bundle_rows ?s)) ?x = Ok (set_coins (st_utxos st) (st_stxos st) ?x)"
    by (rule unspend_bundle [OF live]) (simp_all add: st1(1))
  then have "disconnect_withdrawal_bundle_submitted h m6id ?x
     = Ok (put_bundle m6id (Known bnd) r ((set_coins (st_utxos st) (st_stxos st) ?x)\<lparr>st_pending_withdrawal_bundle := Some m6id\<rparr>))"
    using st1(2) look by (simp add: disconnect_withdrawal_bundle_submitted_def history_pop [OF r(1)] is_submitted_def)
  also have "\<dots> = Ok (put_bundle m info q (put_bundle m6id (Known bnd) r st))"
  proof -
    have "fmupd m6id a (fmupd m c (fmupd m6id d t)) = fmupd m c (fmupd m6id a (t :: (M6id, WithdrawalBundleInfo \<times> BundleStatus) fmap))" for a c d t
      using m by (intro fmap_ext) auto
    then show ?thesis using pending_same [OF p] by (simp add: st1(1) put_bundle_def set_coins_def)
  qed
  finally show ?thesis by (simp add: put_bundle_same [OF b])
qed

text \<open>The history of a bundle that is collected: a new one, or that of an earlier attempt with \<open>Pending\<close> added.\<close>

definition pending_history :: "u32 \<Rightarrow> (WithdrawalBundleInfo \<times> BundleStatus) option \<Rightarrow> BundleStatus" where
  "pending_history h b = (case b of
     None \<Rightarrow> hs_new WBS_Pending h
   | Some (_, r) \<Rightarrow> RollBack (rb_list r @ [\<lparr>hs_value = WBS_Pending, hs_height = h\<rparr>]))"

lemma pending_history_latest [simp]: "hs_latest (pending_history h b) = \<lparr>hs_value = WBS_Pending, hs_height = h\<rparr>"
  by (auto simp: pending_history_def hs_latest_def hs_new_def split: option.splits)

lemma collect_pending_new:
  assumes "collect_pending E order h st = Ok st'" and "st_pending_withdrawal_bundle st = None"
    and "st_pending_withdrawal_bundle st' = Some m"
  obtains bnd where "st' = put_bundle m (Known bnd) (pending_history h (fmlookup (st_withdrawal_bundles st) m))
    (st\<lparr>st_pending_withdrawal_bundle := Some m\<rparr>)"
proof -
  from assms obtain bnd where s: "store_pending_bundle E h bnd st = Ok st'"
    by (auto simp: collect_pending_def rbind_Ok_iff split: if_splits option.splits)
  let ?m = "compute_m6id E bnd"
  have r: "st' = put_bundle ?m (Known bnd) (pending_history h (fmlookup (st_withdrawal_bundles st) ?m))
    (st\<lparr>st_pending_withdrawal_bundle := Some ?m\<rparr>)"
    using s by (auto simp: store_pending_bundle_def Let_def rbind_Ok_iff pending_history_def push_status_def hs_push_def
        split: option.splits if_splits result.splits)
  with assms(3) have "m = ?m" by simp
  with r that show ?thesis by blast
qed

lemma pending_history_failure:
  assumes "latest_failure_height st = (Ok fh :: (Error, u32) result)"
  shows "latest_failure_height (put_bundle m info (pending_history h (fmlookup (st_withdrawal_bundles st) m)) st)
    = (Ok fh :: (Error, u32) result)"
proof (cases "st_latest_failed_withdrawal_bundle st")
  case None
  with assms show ?thesis by (simp add: latest_failure_height_def get_latest_failed_withdrawal_bundle_def)
next
  case (Some x)
  let ?k = "hs_value (hs_latest x)"
  let ?failed = "find_map (\<lambda>s. if hs_value s = WBS_Failed then Some (hs_height s) else None)"
  from assms Some obtain info' r where k: "fmlookup (st_withdrawal_bundles st) ?k = Some (info', r)"
    and f: "?failed (rev (rb_list r)) = Some fh"
    by (auto simp: latest_failure_height_def get_latest_failed_withdrawal_bundle_def Let_def rbind_Ok_iff split: option.splits)
  show ?thesis using k f Some
    by (cases "?k = m") (simp_all add: latest_failure_height_def get_latest_failed_withdrawal_bundle_def pending_history_def put_bundle_def)
qed

abbreviation submission :: "bitcoin_BlockHash \<Rightarrow> M6id \<Rightarrow> bitcoin_BlockHash \<times> BlockEvent" where
  "submission hash m6id \<equiv> (hash, BE_WithdrawalBundle \<lparr>wbe_m6id = m6id, wbe_status = WBE_Submitted\<rparr>)"

lemma submit_and_collect:
  assumes c: "connect_two_way_peg_data E order data st = Ok st'" and ht: "st_height st = Some h"
    and data: "peg_events data = [submission hash m6id]" and p: "st_pending_withdrawal_bundle st = Some m6id"
    and fits: "events_fit h (peg_events data) st" and new: "st_pending_withdrawal_bundle st' = Some m" "m \<noteq> m6id"
  obtains ie ws st1 bnd r where "r = pending_history h (fmlookup (st_withdrawal_bundles st) m)"
    and "st' = set_logs ie (st_deposit_blocks st) ws (Some h) (put_bundle m (Known bnd) r (st1\<lparr>st_pending_withdrawal_bundle := Some m\<rparr>))"
    and "ie = st_block_index_events st \<or> (\<exists>x. ie = fmupd h x (st_block_index_events st))"
    and "append_block E (Some hash) h (st_withdrawal_bundle_event_blocks st) = (Ok ws :: (Error, _) result)"
    and "disconnect_withdrawal_bundle_submitted h m6id (put_bundle m (Known bnd) r (st1\<lparr>st_pending_withdrawal_bundle := Some m\<rparr>))
      = Ok (put_bundle m (Known bnd) r st)"
proof -
  from c ht obtain pp st1 st2
    where f: "try_fold (connect_2wpd_event h) (peg_events data) (peg_progress_init, st) = Ok (pp, st1)"
      and rp: "record_progress E h pp st1 = (Ok st2 :: (Error, State) result)" and cp: "collect_pending E order h st2 = Ok st'"
    by (rule connect_two_way_peg_data_Ok)
  have ok: "peg_ok h st" using fits by (simp add: data event_fits_def)
  from f p obtain ie' where sp: "submit_pending h m6id (pp_index_events peg_progress_init, st) = Ok (ie', st1)"
    by (auto simp: data connect_2wpd_event_def connect_withdrawal_bundle_event_def connect_withdrawal_bundle_submitted_def rbind_Ok_iff)
  then obtain bnd0 r0 where b: "fmlookup (st_withdrawal_bundles st) m6id = Some (Known bnd0, r0)" by (rule submit_pending_known)
  have "latest_status r0 = WBS_Pending" using peg_ok_lookup(3) [OF ok b] p by simp
  then have live: "coins_live (wb_spend_utxos bnd0) st" using fits b by (simp add: data event_fits_def)
  note st1 = submit_pending_state(1) [OF ok b live sp]
  from connect_events_steps [OF f] have s: "try_fold (peg_step h) (peg_events data) st = Ok st1"
    and pp: "pp_latest_deposit_block_hash pp = None" "pp_latest_withdrawal_bundle_event_block_hash pp = Some hash"
    by (simp_all add: peg_progress_init_def data last_hash_def)
  have "try_fold (peg_undo h) (rev (peg_events data)) st1 = Ok st"
    by (rule peg_op.revert_all [OF fits [unfolded events_fit_fits_all] s])
  note k = logs_commute_keeps [OF logs_commute_try_fold [OF peg_undo_logs] this]
  from rp obtain ie ds ws where st2: "st2 = set_logs ie ds ws (st_height st1) st1"
    and ie: "ie = st_block_index_events st1 \<or> ie = fmupd h (pp_index_events pp) (st_block_index_events st1)"
    and ds: "append_block E (pp_latest_deposit_block_hash pp) h (st_deposit_blocks st1) = (Ok ds :: (Error, _) result)"
    and ws: "append_block E (pp_latest_withdrawal_bundle_event_block_hash pp) h (st_withdrawal_bundle_event_blocks st1)
      = (Ok ws :: (Error, _) result)"
    by (rule record_progress_logs)
  obtain bnd where st': "st' = put_bundle m (Known bnd) (pending_history h (fmlookup (st_withdrawal_bundles st2) m))
      (st2\<lparr>st_pending_withdrawal_bundle := Some m\<rparr>)"
    using collect_pending_new [OF cp _ new(1)] st1 st2 by auto
  have "fmlookup (st_withdrawal_bundles st2) m = fmlookup (st_withdrawal_bundles st) m"
    using new(2) by (simp add: st2 st1 put_bundle_def)
  moreover have "ds = st_deposit_blocks st" using ds pp k(2) by (simp add: append_block_def)
  ultimately show ?thesis
    by (intro that [OF refl _ _ _ undo_submitted_extra [OF ok p b live new(2) sp]])
      (use st' st2 ie ws pp k ht in \<open>auto simp: put_bundle_def\<close>)
qed

text \<open>
  C33: disconnecting a block whose only event submits the pending bundle, and which collects
  the next bundle, does not restore the state. Whenever such a block connects (to a state that
  satisfies the peg invariant for a height below the block's, with coin tables that the event
  fits, less than 256 rows of withdrawal events stored under little-endian keys, no index events
  yet at its height and no failed bundle above it), disconnecting it succeeds and gives the state before the block with
  one more entry: the newly collected bundle stays in the bundle table with latest status
  \<open>Pending\<close>, beside the submitted one that \<open>pending_withdrawal_bundle\<close> names again. The
  invariant of the peg does not hold of that state at any height.
\<close>

theorem disconnect_leaves_new_bundle:
  assumes c: "connect_two_way_peg_data E order data st = Ok st'" and ht: "st_height st = Some h"
    and data: "peg_events data = [submission hash m6id]" and p: "st_pending_withdrawal_bundle st = Some m6id"
    and ok: "peg_ok h0 st" "h0 < h" and fits: "events_fit h (peg_events data) st"
    and idx: "fmlookup (st_block_index_events st) h = None"
    and fh: "latest_failure_height st = (Ok fh :: (Error, u32) result)" "fh \<le> h"
    and E: "bincode_little_endian E" and ws: "log_ok h nw (st_withdrawal_bundle_event_blocks st)" "nw < 256"
    and new: "st_pending_withdrawal_bundle st' = Some m" "m \<noteq> m6id"
  shows "\<exists>st'' bnd r. disconnect_two_way_peg_data E data st' = Ok st'' \<and> st'' = put_bundle m (Known bnd) r st \<and>
    hs_latest r = \<lparr>hs_value = WBS_Pending, hs_height = h\<rparr> \<and>
    st_pending_withdrawal_bundle st'' = Some m6id \<and> st'' \<noteq> st \<and> \<not> peg_ok h1 st''"
  using c ht data p fits new
proof (rule submit_and_collect)
  fix ie ws' st1 bnd r
  let ?st = "put_bundle m (Known bnd) r st" and ?st1 = "put_bundle m (Known bnd) r (st1\<lparr>st_pending_withdrawal_bundle := Some m\<rparr>)"
  assume st': "st' = set_logs ie (st_deposit_blocks st) ws' (Some h) ?st1"
    and r: "r = pending_history h (fmlookup (st_withdrawal_bundles st) m)"
    and ie: "ie = st_block_index_events st \<or> (\<exists>x. ie = fmupd h x (st_block_index_events st))"
    and w: "append_block E (Some hash) h (st_withdrawal_bundle_event_blocks st) = (Ok ws' :: (Error, _) result)"
    and u: "disconnect_withdrawal_bundle_submitted h m6id ?st1 = Ok ?st"
  have ie': "fmdrop h ie = st_block_index_events st" using ie idx by (auto simp: db.del_put_fresh db.del_absent)
  let ?x = "set_logs (st_block_index_events st) (st_deposit_blocks st) (st_withdrawal_bundle_event_blocks st) (Some h) ?st"
  have x: "?x = ?st" using ht by (metis put_bundle_def set_logs_simps(19,20))
  have older: "\<exists>info q. fmlookup (st_withdrawal_bundles ?st) k = Some (info, q) \<and> hs_height (hs_latest q) \<noteq> h"
    if "st_pending_withdrawal_bundle ?st = Some k" for k
    using that pending_older [OF ok p] p new(2) by (auto simp: put_bundle_def)
  have f: "latest_failure_height ?st = (Ok fh :: (Error, u32) result)"
    unfolding r by (rule pending_history_failure [OF fh(1)])
  have "disconnect_two_way_peg_data E data st' = Ok ?st"
    using remove_numbered [OF E ws(1) w, of E_NoWithdrawalBundleEventBlock] ws(2) x drop_pending_older [OF f fh(2) older]
    by (simp add: disconnect_two_way_peg_data_def st' data disconnect_event_def disconnect_withdrawal_bundle_event_def
        logs_commuteD [OF submitted_logs] u ie' keep_first_def remove_block_def [of _ E_NoDepositBlock] del: put_bundle_simps set_logs_simps(19))
  moreover have "\<not> peg_ok h1 ?st" for h1
    using peg_ok_lookup(3) [of h1 ?st m "Known bnd" r] r p new(2) by (auto simp: latest_status_def put_bundle_def)
  moreover have "hs_latest r = \<lparr>hs_value = WBS_Pending, hs_height = h\<rparr>" by (simp add: r)
  ultimately show ?thesis using ok(1) p by (metis put_bundle_simps(5))
qed

text \<open>
  An example: bundle 8, collected at height 2, is submitted in the block at height 5, and the
  same block collects bundle 3.
\<close>

definition old_bundle :: WithdrawalBundle where
  "old_bundle = \<lparr>wb_spend_utxos = fmempty, wb_tx = \<lparr>btx_output = []\<rparr>\<rparr>"

definition two_bundles_state :: State where
  "two_bundles_state = put_bundle 8 (Known old_bundle) (hs_new WBS_Pending 2)
     (peg_state\<lparr>st_pending_withdrawal_bundle := Some 8\<rparr>)"

definition submit_old :: TwoWayPegData where
  "submit_old = \<lparr>block_info = [(1, [BE_WithdrawalBundle \<lparr>wbe_m6id = 8, wbe_status = WBE_Submitted\<rparr>])]\<rparr>"

abbreviation submitted_history :: BundleStatus where
  "submitted_history \<equiv> RollBack [\<lparr>hs_value = WBS_Pending, hs_height = 2\<rparr>, \<lparr>hs_value = WBS_Submitted, hs_height = 5\<rparr>]"

abbreviation submitted_state :: State where
  "submitted_state \<equiv> put_bundle 8 (Known old_bundle) submitted_history peg_state"

lemma peg_state_sel [simp]:
  "st_withdrawal_bundles peg_state = fmempty" "st_pending_withdrawal_bundle peg_state = None"
  "st_latest_failed_withdrawal_bundle peg_state = None" "st_deposit_blocks peg_state = fmempty"
  "st_withdrawal_bundle_event_blocks peg_state = fmempty" "st_block_index_events peg_state = fmempty"
  by (simp_all add: peg_state_def withdrawal_state_def State_new_def)

lemma bundle_rows_empty [simp]: "bundle_rows fmempty = []"
  by (simp add: bundle_rows_def)

lemma submit_old_event: "connect_2wpd_event 5 (1, BE_WithdrawalBundle \<lparr>wbe_m6id = 8, wbe_status = WBE_Submitted\<rparr>)
    (peg_progress_init, two_bundles_state) = Ok (peg_progress_init\<lparr>pp_latest_withdrawal_bundle_event_block_hash := Some 1\<rparr>, submitted_state)"
proof -
  have "push_status WBS_Submitted 5 (hs_new WBS_Pending 2) = (Ok submitted_history :: (ConnectWithdrawalBundleSubmittedError, _) result)"
    by (subst push_status_Ok) (simp_all add: hs_new_def hs_latest_def rb_wf_def)
  then show ?thesis
    by (simp add: connect_2wpd_event_def connect_withdrawal_bundle_event_def connect_withdrawal_bundle_submitted_def
        submit_pending_def two_bundles_state_def old_bundle_def peg_progress_init_def pending_same [of peg_state None])
qed

lemma collect_second: "collect_pending demo_externs id 5 (set_logs ie ds ws (Some 5) submitted_state)
    = Ok (set_logs ie ds ws (Some 5) (put_bundle 3 (Known (demo_bundle 5)) (hs_new WBS_Pending 5)
        (submitted_state\<lparr>st_pending_withdrawal_bundle := Some 3\<rparr>)))"
proof -
  let ?st = "set_logs ie ds ws (Some 5) submitted_state"
  have c: "collect_withdrawal_bundle demo_externs id ?st 5 = Ok (Some (demo_bundle 5))"
    using demo_collect [of 5] by (simp add: collect_withdrawal_bundle_def aggregate_withdrawals_def peg_state_def)
  have f: "latest_failure_height ?st = (Ok 0 :: (Error, u32) result)"
    by (simp add: latest_failure_height_def get_latest_failed_withdrawal_bundle_def)
  have g: "sub_word 5 0 = (Ok 5 :: (Error, u32) result)" by simp
  have b: "fmlookup (st_withdrawal_bundles submitted_state) 3 = None" by (simp add: put_bundle_def)
  show ?thesis
    by (simp add: collect_pending_def f g c WITHDRAWAL_BUNDLE_FAILURE_GAP_def store_pending_bundle_def demo_m6id b Let_def)
qed

lemma connect_submit_old:
  "connect_two_way_peg_data demo_externs id submit_old two_bundles_state
    = Ok (set_logs fmempty fmempty (fmupd 0 (1, 5) fmempty) (Some 5)
        (put_bundle 3 (Known (demo_bundle 5)) (hs_new WBS_Pending 5) (submitted_state\<lparr>st_pending_withdrawal_bundle := Some 3\<rparr>)))"
proof -
  have ht: "st_height two_bundles_state = Some 5" by (simp add: two_bundles_state_def put_bundle_def)
  have nx: "next_index demo_externs (fmempty :: (u32, bitcoin_BlockHash \<times> u32) fmap) = (Ok 0 :: (Error, u32) result)"
    by (simp add: next_index_def db_last_None_iff [THEN iffD2])
  have "record_progress demo_externs 5 (peg_progress_init\<lparr>pp_latest_withdrawal_bundle_event_block_hash := Some 1\<rparr>) submitted_state
    = (Ok (set_logs fmempty fmempty (fmupd 0 (1, 5) fmempty) (Some 5) submitted_state) :: (Error, State) result)"
    by (simp add: record_progress_def peg_progress_init_def block_index_events_is_empty_def append_block_def put_bundle_def nx)
      (simp add: set_logs_def peg_state_def withdrawal_state_def State_new_def)
  then show ?thesis
    by (simp add: connect_two_way_peg_data_def ht submit_old_def peg_events_def submit_old_event collect_second)
qed

theorem disconnect_leaves_new_bundle_witness:
  "\<exists>st' bnd r. connect_two_way_peg_data demo_externs id submit_old two_bundles_state = Ok st' \<and>
     disconnect_two_way_peg_data demo_externs submit_old st' = Ok (put_bundle 3 (Known bnd) r two_bundles_state) \<and>
     \<not> peg_ok 5 (put_bundle 3 (Known bnd) r two_bundles_state)"
proof -
  have sel: "st_height two_bundles_state = Some 5" "st_pending_withdrawal_bundle two_bundles_state = Some 8"
    "st_block_index_events two_bundles_state = fmempty" "st_withdrawal_bundle_event_blocks two_bundles_state = fmempty"
    by (simp_all add: two_bundles_state_def put_bundle_def)
  have ok: "peg_ok h two_bundles_state" if "2 \<le> h" for h unfolding two_bundles_state_def
    by (rule peg_ok_put) (simp_all add: status_history_ok_mono [OF status_history_ok_new, of _ 2] that latest_status_def)
  have ev: "peg_events submit_old = [submission 1 8]" by (simp add: submit_old_def peg_events_def)
  have "fmlookup (st_withdrawal_bundles two_bundles_state) 8 = Some (Known old_bundle, hs_new WBS_Pending 2)"
    by (simp add: two_bundles_state_def)
  then have fits: "events_fit 5 (peg_events submit_old) two_bundles_state"
    by (simp add: ev event_fits_def ok coins_live_def old_bundle_def split: result.splits)
  have f: "latest_failure_height two_bundles_state = (Ok 0 :: (Error, u32) result)"
    by (simp add: latest_failure_height_def get_latest_failed_withdrawal_bundle_def two_bundles_state_def)
  show ?thesis
    using disconnect_leaves_new_bundle [OF connect_submit_old sel(1) ev sel(2) ok [of 4] _ fits _ f _ demo_bincode_little_endian,
        of 0 3 5] sel connect_submit_old by fastforce
qed

end
