(* ===== verification/Mempool.thy ===== *)
theory Mempool
  imports Chain_State
begin

text \<open>
  The pool of unconfirmed transactions (\<open>lib/mempool.rs\<close>): a table of transactions, the
  table of the outputs they spend, and an index from addresses to the transactions that
  concern them. Deleting a transaction deletes everything that descends from it.

  Sets of addresses and transaction ids are iterated in an unspecified order; the
  operations on distinct members are independent, and the model takes one order.
\<close>

section \<open>The model\<close>

datatype MempoolError =
    MP_MissingTransaction Txid
  | MP_UtxoDoubleSpent

record MemPool =
  mp_transactions :: "(Txid, AuthorizedTransaction) fmap"
  mp_spent_utxos :: "(OutPoint, InPoint) fmap"
  mp_address_to_txs :: "(Address, Txid fset) fmap"

definition MemPool_new :: MemPool where
  "MemPool_new = \<lparr>mp_transactions = fmempty, mp_spent_utxos = fmempty, mp_address_to_txs = fmempty\<rparr>"

definition at_txid :: "externs \<Rightarrow> AuthorizedTransaction \<Rightarrow> Txid" where
  "at_txid E tx = txid E (at_transaction tx)"

definition relevant_addresses :: "externs \<Rightarrow> AuthorizedTransaction \<Rightarrow> Address list" where
  "relevant_addresses E tx =
     remdups (map (auth_get_address E) (at_authorizations tx) @ map out_address (tx_outputs (at_transaction tx)))"

definition put_stxo :: "OutPoint \<times> InPoint \<Rightarrow> MemPool \<Rightarrow> (MempoolError, MemPool) result" where
  "put_stxo row mp =
     (let (outpoint, inpoint) = row in
      if fmlookup (mp_spent_utxos mp) outpoint \<noteq> None then Err MP_UtxoDoubleSpent
      else Ok (mp\<lparr>mp_spent_utxos := fmupd outpoint inpoint (mp_spent_utxos mp)\<rparr>))"

definition put_stxos :: "(OutPoint \<times> InPoint) list \<Rightarrow> MemPool \<Rightarrow> (MempoolError, MemPool) result" where
  "put_stxos stxos mp = try_fold put_stxo stxos mp"

definition delete_stxos :: "OutPoint list \<Rightarrow> MemPool \<Rightarrow> MemPool" where
  "delete_stxos stxos mp = mp\<lparr>mp_spent_utxos := db.del_all stxos (mp_spent_utxos mp)\<rparr>"

definition associated_txs :: "MemPool \<Rightarrow> Address \<Rightarrow> Txid fset" where
  "associated_txs mp addr = (case fmlookup (mp_address_to_txs mp) addr of Some txs \<Rightarrow> txs | None \<Rightarrow> {||})"

definition assoc_txid_with_address :: "Txid \<Rightarrow> Address \<Rightarrow> MemPool \<Rightarrow> MemPool" where
  "assoc_txid_with_address t addr mp =
     mp\<lparr>mp_address_to_txs := fmupd addr (finsert t (associated_txs mp addr)) (mp_address_to_txs mp)\<rparr>"

definition assoc_tx_with_relevant_addresses :: "externs \<Rightarrow> AuthorizedTransaction \<Rightarrow> MemPool \<Rightarrow> MemPool" where
  "assoc_tx_with_relevant_addresses E tx mp =
     fold (assoc_txid_with_address (at_txid E tx)) (relevant_addresses E tx) mp"

definition unassoc_txid_with_address :: "Txid \<Rightarrow> Address \<Rightarrow> MemPool \<Rightarrow> MemPool" where
  "unassoc_txid_with_address t addr mp =
     (case fmlookup (mp_address_to_txs mp) addr of
        None \<Rightarrow> mp
      | Some txs \<Rightarrow>
          let txs' = fminus txs {|t|} in
          if txs' \<noteq> {||} then mp\<lparr>mp_address_to_txs := fmupd addr txs' (mp_address_to_txs mp)\<rparr>
          else mp\<lparr>mp_address_to_txs := fmdrop addr (mp_address_to_txs mp)\<rparr>)"

definition unassoc_tx_with_relevant_addresses :: "externs \<Rightarrow> AuthorizedTransaction \<Rightarrow> MemPool \<Rightarrow> MemPool" where
  "unassoc_tx_with_relevant_addresses E tx mp =
     fold (unassoc_txid_with_address (at_txid E tx)) (relevant_addresses E tx) mp"

definition input_stxos :: "externs \<Rightarrow> AuthorizedTransaction \<Rightarrow> (OutPoint \<times> InPoint) list" where
  "input_stxos E tx =
     map (\<lambda>(vin, outpoint). (outpoint, IpRegular (at_txid E tx) (of_nat vin)))
       (enumerate 0 (tx_inputs (at_transaction tx)))"

definition mempool_put :: "externs \<Rightarrow> AuthorizedTransaction \<Rightarrow> MemPool \<Rightarrow> (MempoolError, MemPool) result" where
  "mempool_put E tx mp =
     rbind (put_stxos (input_stxos E tx) mp) (\<lambda>mp1.
       Ok (assoc_tx_with_relevant_addresses E tx
             (mp1\<lparr>mp_transactions := fmupd (at_txid E tx) tx (mp_transactions mp1)\<rparr>)))"

text \<open>One round of the loop of \<open>delete\<close>: remove the transaction, then look for its children.\<close>

definition remove_tx :: "externs \<Rightarrow> Txid \<Rightarrow> AuthorizedTransaction \<Rightarrow> MemPool \<Rightarrow> MemPool" where
  "remove_tx E t tx mp =
     (let mp1 = unassoc_tx_with_relevant_addresses E tx (delete_stxos (tx_inputs (at_transaction tx)) mp) in
      mp1\<lparr>mp_transactions := fmdrop t (mp_transactions mp1)\<rparr>)"

definition child_of :: "Txid \<Rightarrow> MemPool \<Rightarrow> nat \<Rightarrow> Txid option" where
  "child_of t mp vout =
     (case fmlookup (mp_spent_utxos mp) (OpRegular t (of_nat vout)) of
        Some (IpRegular child_txid _) \<Rightarrow> Some child_txid
      | _ \<Rightarrow> None)"

definition tx_children :: "Txid \<Rightarrow> AuthorizedTransaction \<Rightarrow> MemPool \<Rightarrow> Txid list" where
  "tx_children t tx mp = List.map_filter (child_of t mp) [0..<length (tx_outputs (at_transaction tx))]"

lemma remove_tx_transactions [simp]:
  "mp_transactions (remove_tx E t tx mp) = fmdrop t (mp_transactions mp)"
proof -
  have "mp_transactions (fold (unassoc_txid_with_address a) as m) = mp_transactions m" for a as m
    by (induction as arbitrary: m) (simp_all add: unassoc_txid_with_address_def Let_def split: option.splits)
  then show ?thesis by (simp add: remove_tx_def unassoc_tx_with_relevant_addresses_def delete_stxos_def)
qed

function delete_pending :: "externs \<Rightarrow> Txid list \<Rightarrow> MemPool \<Rightarrow> MemPool" where
  "delete_pending E [] mp = mp"
| "delete_pending E (t # pending) mp =
     (case fmlookup (mp_transactions mp) t of
        None \<Rightarrow> delete_pending E pending mp
      | Some tx \<Rightarrow>
          delete_pending E (pending @ tx_children t tx (remove_tx E t tx mp)) (remove_tx E t tx mp))"
  by pat_completeness auto

termination
proof (relation "measures [\<lambda>(_, _, mp). fcard (fmdom (mp_transactions mp)), \<lambda>(_, pending, _). length pending]")
  fix E t pending and mp :: MemPool and tx
  assume "fmlookup (mp_transactions mp) t = Some tx"
  then have "t |\<in>| fmdom (mp_transactions mp)" by (rule fmdomI)
  then have "fcard (fmdom (mp_transactions mp) |-| {|t|}) < fcard (fmdom (mp_transactions mp))"
    by (rule fcard_fminus1_less)
  then show "((E, pending @ tx_children t tx (remove_tx E t tx mp), remove_tx E t tx mp), E, t # pending, mp)
      \<in> measures [\<lambda>(_, _, mp). fcard (fmdom (mp_transactions mp)), \<lambda>(_, pending, _). length pending]"
    by simp
qed simp_all

definition mempool_delete :: "externs \<Rightarrow> Txid \<Rightarrow> MemPool \<Rightarrow> MemPool" where
  "mempool_delete E t mp = delete_pending E [t] mp"

definition mempool_take :: "nat \<Rightarrow> MemPool \<Rightarrow> AuthorizedTransaction list" where
  "mempool_take number mp = map snd (take number (db_iter id (mp_transactions mp)))"

definition take_all :: "MemPool \<Rightarrow> AuthorizedTransaction list" where
  "take_all mp = map snd (db_iter id (mp_transactions mp))"

definition get_txs_relevant_to_address ::
  "MemPool \<Rightarrow> Address \<Rightarrow> (MempoolError, AuthorizedTransaction list) result" where
  "get_txs_relevant_to_address mp addr =
     try_map (\<lambda>t. ok_or (MP_MissingTransaction t) (fmlookup (mp_transactions mp) t))
       (sorted_list_of_fset (associated_txs mp addr))"

definition outputs_to :: "externs \<Rightarrow> Address \<Rightarrow> AuthorizedTransaction \<Rightarrow> (OutPoint \<times> TxOutput) list" where
  "outputs_to E addr tx =
     List.map_filter
       (\<lambda>(vout, out). if out_address out = addr then Some (OpRegular (at_txid E tx) (of_nat vout), out) else None)
       (enumerate 0 (tx_outputs (at_transaction tx)))"

definition get_unconfirmed_utxos ::
  "externs \<Rightarrow> MemPool \<Rightarrow> Address \<Rightarrow> (MempoolError, (OutPoint, TxOutput) fmap) result" where
  "get_unconfirmed_utxos E mp addr =
     rbind (get_txs_relevant_to_address mp addr) (\<lambda>txs.
       Ok (db.put_all (concat (map (outputs_to E addr) txs)) fmempty))"

end
