(* ===== verification/Mempool_Properties.thy ===== *)
theory Mempool_Properties
  imports Mempool Block_Value
begin

text \<open>
  Correctness of the mempool: the table of spent outputs and the address index say exactly
  what the transactions in the pool say; a transaction is accepted exactly when it spends
  no output twice and none that the pool spends; and deleting a transaction, which
  always terminates, removes it and exactly its descendants.
\<close>

section \<open>The invariant\<close>

definition spends :: "MemPool \<Rightarrow> Txid \<Rightarrow> nat \<Rightarrow> OutPoint \<Rightarrow> bool" where
  "spends mp t vin op \<longleftrightarrow> (\<exists>tx. fmlookup (mp_transactions mp) t = Some tx \<and>
     vin < length (tx_inputs (at_transaction tx)) \<and> tx_inputs (at_transaction tx) ! vin = op)"

definition stxos_exact :: "MemPool \<Rightarrow> bool" where
  "stxos_exact mp \<longleftrightarrow> (\<forall>op ip. fmlookup (mp_spent_utxos mp) op = Some ip \<longleftrightarrow>
     (\<exists>t vin. spends mp t vin op \<and> ip = IpRegular t (of_nat vin)))"

definition index_exact :: "externs \<Rightarrow> MemPool \<Rightarrow> bool" where
  "index_exact E mp \<longleftrightarrow>
     (\<forall>addr txs. fmlookup (mp_address_to_txs mp) addr = Some txs \<longrightarrow> txs \<noteq> {||}) \<and>
     (\<forall>addr t. t |\<in>| associated_txs mp addr \<longleftrightarrow>
        (\<exists>tx. fmlookup (mp_transactions mp) t = Some tx \<and> addr \<in> set (relevant_addresses E tx)))"

definition mempool_ok :: "externs \<Rightarrow> MemPool \<Rightarrow> bool" where
  "mempool_ok E mp \<longleftrightarrow> (\<forall>t tx. fmlookup (mp_transactions mp) t = Some tx \<longrightarrow> at_txid E tx = t) \<and>
     stxos_exact mp \<and> index_exact E mp"

lemma mempool_ok_new [simp]: "mempool_ok E MemPool_new"
  by (simp add: mempool_ok_def stxos_exact_def spends_def index_exact_def associated_txs_def MemPool_new_def)

lemma mempool_ok_txid: "mempool_ok E mp \<Longrightarrow> fmlookup (mp_transactions mp) t = Some tx \<Longrightarrow> at_txid E tx = t"
  by (simp add: mempool_ok_def)

lemma mempool_ok_spends:
  assumes "mempool_ok E mp"
  shows "fmlookup (mp_spent_utxos mp) op = Some ip \<longleftrightarrow> (\<exists>t vin. spends mp t vin op \<and> ip = IpRegular t (of_nat vin))"
  using assms by (simp add: mempool_ok_def stxos_exact_def)

text \<open>No two transactions of the pool spend the same output.\<close>

lemma spends_unique:
  assumes "mempool_ok E mp" and "spends mp t vin op" and "spends mp t' vin' op"
  shows "t' = t"
proof -
  have "fmlookup (mp_spent_utxos mp) op = Some (IpRegular t (of_nat vin))"
    "fmlookup (mp_spent_utxos mp) op = Some (IpRegular t' (of_nat vin'))"
    using mempool_ok_spends [OF assms(1)] assms(2,3) by blast+
  then show ?thesis by simp
qed

section \<open>The address index\<close>

definition index_nonempty :: "MemPool \<Rightarrow> bool" where
  "index_nonempty mp \<longleftrightarrow> (\<forall>addr txs. fmlookup (mp_address_to_txs mp) addr = Some txs \<longrightarrow> txs \<noteq> {||})"

lemma associated_txs_upd [simp]:
  "associated_txs (mp\<lparr>mp_transactions := x\<rparr>) addr = associated_txs mp addr"
  "associated_txs (mp\<lparr>mp_spent_utxos := y\<rparr>) addr = associated_txs mp addr"
  "index_nonempty (mp\<lparr>mp_transactions := x\<rparr>) = index_nonempty mp"
  "index_nonempty (mp\<lparr>mp_spent_utxos := y\<rparr>) = index_nonempty mp"
  by (simp_all add: associated_txs_def index_nonempty_def)

lemma assoc_one:
  "associated_txs (assoc_txid_with_address t a mp) addr
    = (if addr = a then finsert t (associated_txs mp addr) else associated_txs mp addr)"
  "index_nonempty mp \<Longrightarrow> index_nonempty (assoc_txid_with_address t a mp)"
  "mp_transactions (assoc_txid_with_address t a mp) = mp_transactions mp"
  "mp_spent_utxos (assoc_txid_with_address t a mp) = mp_spent_utxos mp"
  by (auto simp: assoc_txid_with_address_def associated_txs_def index_nonempty_def split: option.splits)

lemma unassoc_one:
  "associated_txs (unassoc_txid_with_address t a mp) addr
    = (if addr = a then associated_txs mp addr |-| {|t|} else associated_txs mp addr)"
  "index_nonempty mp \<Longrightarrow> index_nonempty (unassoc_txid_with_address t a mp)"
  "mp_transactions (unassoc_txid_with_address t a mp) = mp_transactions mp"
  "mp_spent_utxos (unassoc_txid_with_address t a mp) = mp_spent_utxos mp"
  by (auto simp: unassoc_txid_with_address_def associated_txs_def index_nonempty_def Let_def split: option.splits if_splits)

lemma fold_assoc:
  "associated_txs (fold (assoc_txid_with_address t) as mp) addr
    = (if addr \<in> set as then finsert t (associated_txs mp addr) else associated_txs mp addr)"
  "index_nonempty mp \<Longrightarrow> index_nonempty (fold (assoc_txid_with_address t) as mp)"
  "mp_transactions (fold (assoc_txid_with_address t) as mp) = mp_transactions mp"
  "mp_spent_utxos (fold (assoc_txid_with_address t) as mp) = mp_spent_utxos mp"
  by (induction as arbitrary: mp) (simp_all add: assoc_one)

lemma fold_unassoc:
  "associated_txs (fold (unassoc_txid_with_address t) as mp) addr
    = (if addr \<in> set as then associated_txs mp addr |-| {|t|} else associated_txs mp addr)"
  "index_nonempty mp \<Longrightarrow> index_nonempty (fold (unassoc_txid_with_address t) as mp)"
  "mp_transactions (fold (unassoc_txid_with_address t) as mp) = mp_transactions mp"
  "mp_spent_utxos (fold (unassoc_txid_with_address t) as mp) = mp_spent_utxos mp"
  by (induction as arbitrary: mp) (simp_all add: unassoc_one)

lemma index_exact_alt:
  "index_exact E mp \<longleftrightarrow> index_nonempty mp \<and>
     (\<forall>addr t. t |\<in>| associated_txs mp addr \<longleftrightarrow>
        (\<exists>tx. fmlookup (mp_transactions mp) t = Some tx \<and> addr \<in> set (relevant_addresses E tx)))"
  by (simp add: index_exact_def index_nonempty_def)

lemma index_exact_add:
  assumes "index_exact E mp" and "fmlookup (mp_transactions mp) (at_txid E tx) \<in> {None, Some tx}"
  shows "index_exact E (assoc_tx_with_relevant_addresses E tx
    (mp\<lparr>mp_transactions := fmupd (at_txid E tx) tx (mp_transactions mp)\<rparr>))"
  using assms by (auto simp: index_exact_alt assoc_tx_with_relevant_addresses_def fold_assoc)

lemma index_exact_remove:
  assumes "index_exact E mp" and "fmlookup (mp_transactions mp) t = Some tx" and "at_txid E tx = t"
  shows "index_exact E (remove_tx E t tx mp)"
  using assms
  by (auto simp: index_exact_alt remove_tx_def Let_def unassoc_tx_with_relevant_addresses_def delete_stxos_def fold_unassoc)

section \<open>Spent outputs\<close>

lemma put_stxos_outcome:
  "put_stxos rows mp =
     (if distinct (map fst rows) \<and> (\<forall>op\<in>fst ` set rows. fmlookup (mp_spent_utxos mp) op = None)
      then Ok (mp\<lparr>mp_spent_utxos := db.put_all rows (mp_spent_utxos mp)\<rparr>)
      else Err MP_UtxoDoubleSpent)"
proof (induction rows arbitrary: mp)
  case (Cons row rows)
  obtain op ip where row: "row = (op, ip)" by (cases row)
  show ?case
  proof (cases "fmlookup (mp_spent_utxos mp) op")
    case None
    let ?mp = "mp\<lparr>mp_spent_utxos := fmupd op ip (mp_spent_utxos mp)\<rparr>"
    have "put_stxos (row # rows) mp = put_stxos rows ?mp"
      by (simp add: put_stxos_def put_stxo_def row None)
    moreover have "(\<forall>op'\<in>fst ` set rows. fmlookup (mp_spent_utxos ?mp) op' = None) \<longleftrightarrow>
        op \<notin> fst ` set rows \<and> (\<forall>op'\<in>fst ` set rows. fmlookup (mp_spent_utxos mp) op' = None)"
      by auto
    ultimately show ?thesis using Cons.IH [of ?mp] None by (simp add: row db.put_all_def)
  qed (simp add: put_stxos_def put_stxo_def row)
qed (simp add: put_stxos_def db.put_all_def)

lemma input_stxos_keys: "map fst (input_stxos E tx) = tx_inputs (at_transaction tx)"
proof -
  have "map fst (map (\<lambda>(vin, op). (op, IpRegular (at_txid E tx) (of_nat vin))) (enumerate n xs)) = xs" for n xs
    by (induction xs arbitrary: n) simp_all
  then show ?thesis unfolding input_stxos_def .
qed

lemma input_stxos_in:
  "(op, ip) \<in> set (input_stxos E tx) \<longleftrightarrow>
     (\<exists>vin < length (tx_inputs (at_transaction tx)). tx_inputs (at_transaction tx) ! vin = op \<and> ip = IpRegular (at_txid E tx) (of_nat vin))"
proof -
  have l: "length (input_stxos E tx) = length (tx_inputs (at_transaction tx))" by (simp add: input_stxos_def)
  have n: "input_stxos E tx ! vin = (tx_inputs (at_transaction tx) ! vin, IpRegular (at_txid E tx) (of_nat vin))"
    if "vin < length (tx_inputs (at_transaction tx))" for vin
    using that by (simp add: input_stxos_def nth_enumerate_eq)
  show ?thesis unfolding in_set_conv_nth l using n by (metis prod.inject)
qed

lemma stxos_exact_add:
  assumes ok: "mempool_ok E mp" and d: "distinct (tx_inputs (at_transaction tx))"
    and fresh: "\<And>op. op \<in> set (tx_inputs (at_transaction tx)) \<Longrightarrow> fmlookup (mp_spent_utxos mp) op = None"
    and new: "fmlookup (mp_transactions mp) (at_txid E tx) \<in> {None, Some tx}"
  shows "stxos_exact \<lparr>mp_transactions = fmupd (at_txid E tx) tx (mp_transactions mp),
     mp_spent_utxos = db.put_all (input_stxos E tx) (mp_spent_utxos mp), mp_address_to_txs = idx\<rparr>"
proof -
  let ?t = "at_txid E tx" and ?ins = "tx_inputs (at_transaction tx)"
  let ?mp = "\<lparr>mp_transactions = fmupd ?t tx (mp_transactions mp),
     mp_spent_utxos = db.put_all (input_stxos E tx) (mp_spent_utxos mp), mp_address_to_txs = idx\<rparr>"
  have "fmlookup (mp_spent_utxos ?mp) op = Some ip \<longleftrightarrow> (\<exists>t vin. spends ?mp t vin op \<and> ip = IpRegular t (of_nat vin))" for op ip
  proof (cases "op \<in> set ?ins")
    case True
    then obtain vin where vin: "vin < length ?ins" "?ins ! vin = op" by (metis in_set_conv_nth)
    have "(op, IpRegular ?t (of_nat vin)) \<in> set (input_stxos E tx)" using vin by (auto simp: input_stxos_in)
    then have look: "fmlookup (mp_spent_utxos ?mp) op = Some (IpRegular ?t (of_nat vin))"
      using d by (simp add: db.get_put_all_distinct input_stxos_keys)
    have un: "t = ?t \<and> vin' = vin" if "spends ?mp t vin' op" for t vin'
    proof (cases "t = ?t")
      case True
      with that vin d show ?thesis by (auto simp: spends_def nth_eq_iff_index_eq)
    next
      case False
      with that have "spends mp t vin' op" by (auto simp: spends_def)
      then have "fmlookup (mp_spent_utxos mp) op = Some (IpRegular t (of_nat vin'))"
        using mempool_ok_spends [OF ok] by blast
      then show ?thesis using fresh [OF True] by simp
    qed
    have "spends ?mp ?t vin op" using vin by (simp add: spends_def)
    then show ?thesis unfolding look option.inject using un by blast
  next
    case False
    then have "map_of (input_stxos E tx) op = None" using input_stxos_keys [of E tx] by (metis map_of_eq_None_iff set_map)
    then have "fmlookup (mp_spent_utxos ?mp) op = fmlookup (mp_spent_utxos mp) op"
      using d by (simp add: db.get_put_all_distinct input_stxos_keys)
    moreover have "spends ?mp t vin op = spends mp t vin op" for t vin
      using False new by (auto simp: spends_def)
    ultimately show ?thesis using mempool_ok_spends [OF ok, of op ip] by simp
  qed
  then show ?thesis by (simp add: stxos_exact_def)
qed

lemma mempool_put_outcome:
  assumes ok: "mempool_ok E mp" and new: "fmlookup (mp_transactions mp) (at_txid E tx) \<in> {None, Some tx}"
  shows "mempool_put E tx mp = Err MP_UtxoDoubleSpent \<and>
      (\<not> distinct (tx_inputs (at_transaction tx)) \<or> (\<exists>t vin. \<exists>op\<in>set (tx_inputs (at_transaction tx)). spends mp t vin op)) \<or>
    (\<exists>mp'. mempool_put E tx mp = Ok mp' \<and> mempool_ok E mp' \<and>
       mp_transactions mp' = fmupd (at_txid E tx) tx (mp_transactions mp) \<and>
       distinct (tx_inputs (at_transaction tx)) \<and> (\<forall>t vin. \<forall>op\<in>set (tx_inputs (at_transaction tx)). \<not> spends mp t vin op))"
proof -
  let ?ins = "tx_inputs (at_transaction tx)"
  have keys: "fst ` set (input_stxos E tx) = set ?ins" using input_stxos_keys [of E tx] by (metis set_map)
  have sp: "fmlookup (mp_spent_utxos mp) op = None \<longleftrightarrow> (\<forall>t vin. \<not> spends mp t vin op)" for op
    using mempool_ok_spends [OF ok, of op] by (metis not_Some_eq)
  show ?thesis
  proof (cases "distinct ?ins \<and> (\<forall>op\<in>set ?ins. fmlookup (mp_spent_utxos mp) op = None)")
    case True
    let ?mp1 = "mp\<lparr>mp_spent_utxos := db.put_all (input_stxos E tx) (mp_spent_utxos mp)\<rparr>"
    let ?mp2 = "?mp1\<lparr>mp_transactions := fmupd (at_txid E tx) tx (mp_transactions ?mp1)\<rparr>"
    let ?mp' = "assoc_tx_with_relevant_addresses E tx ?mp2"
    have p: "mempool_put E tx mp = Ok ?mp'"
      using True by (simp add: mempool_put_def put_stxos_outcome input_stxos_keys keys)
    have f: "mp_transactions ?mp' = fmupd (at_txid E tx) tx (mp_transactions mp)"
      "mp_spent_utxos ?mp' = db.put_all (input_stxos E tx) (mp_spent_utxos mp)"
      by (simp_all add: assoc_tx_with_relevant_addresses_def fold_assoc)
    have eq: "?mp' = \<lparr>mp_transactions = fmupd (at_txid E tx) tx (mp_transactions mp),
      mp_spent_utxos = db.put_all (input_stxos E tx) (mp_spent_utxos mp), mp_address_to_txs = mp_address_to_txs ?mp'\<rparr>"
      using f by (metis MemPool.surjective unit.exhaust)
    have "stxos_exact ?mp'"
      by (subst eq, rule stxos_exact_add [OF ok _ _ new]) (use True in auto)
    moreover have "index_exact E ?mp1" using ok by (simp add: mempool_ok_def index_exact_alt)
    then have "index_exact E ?mp'" using index_exact_add [of E ?mp1 tx] new by simp
    moreover have "\<forall>t tx'. fmlookup (mp_transactions ?mp') t = Some tx' \<longrightarrow> at_txid E tx' = t"
      unfolding f(1) using ok by (simp add: mempool_ok_def)
    ultimately have "mempool_ok E ?mp'" by (simp add: mempool_ok_def)
    then show ?thesis using p f(1) True sp by blast
  next
    case False
    then have "mempool_put E tx mp = Err MP_UtxoDoubleSpent"
      by (auto simp: mempool_put_def put_stxos_outcome input_stxos_keys keys)
    with False sp show ?thesis by blast
  qed
qed

section \<open>Descendants\<close>

definition child_rel :: "MemPool \<Rightarrow> (Txid \<times> Txid) set" where
  "child_rel mp = {(a, b). \<exists>tx vout vin. fmlookup (mp_transactions mp) a = Some tx \<and>
     vout < length (tx_outputs (at_transaction tx)) \<and> spends mp b vin (OpRegular a (of_nat vout))}"

lemma spends_remove: "spends (remove_tx E t tx mp) t' vin op \<longleftrightarrow> t' \<noteq> t \<and> spends mp t' vin op"
  by (auto simp: spends_def)

lemma child_rel_iff:
  "(a, b) \<in> child_rel mp \<longleftrightarrow> (\<exists>tx. fmlookup (mp_transactions mp) a = Some tx \<and>
     (\<exists>vout vin. vout < length (tx_outputs (at_transaction tx)) \<and> spends mp b vin (OpRegular a (of_nat vout))))"
  by (simp add: child_rel_def)

lemma child_rel_remove: "child_rel (remove_tx E t tx mp) = {(a, b) \<in> child_rel mp. a \<noteq> t \<and> b \<noteq> t}"
proof -
  have "(a, b) \<in> child_rel (remove_tx E t tx mp) \<longleftrightarrow> (a, b) \<in> child_rel mp \<and> a \<noteq> t \<and> b \<noteq> t" for a b
    by (cases "a = t") (simp_all add: child_rel_iff spends_remove, metis)
  then show ?thesis by auto
qed

lemma remove_tx_spent: "mp_spent_utxos (remove_tx E t tx mp) = db.del_all (tx_inputs (at_transaction tx)) (mp_spent_utxos mp)"
  by (simp add: remove_tx_def unassoc_tx_with_relevant_addresses_def delete_stxos_def fold_unassoc Let_def)

lemma remove_tx_ok:
  assumes ok: "mempool_ok E mp" and t: "fmlookup (mp_transactions mp) t = Some tx"
  shows "mempool_ok E (remove_tx E t tx mp)"
proof -
  let ?mp = "remove_tx E t tx mp" and ?ins = "tx_inputs (at_transaction tx)"
  have "fmlookup (mp_spent_utxos ?mp) op = Some ip \<longleftrightarrow> (\<exists>t' vin. spends ?mp t' vin op \<and> ip = IpRegular t' (of_nat vin))" for op ip
  proof (cases "op \<in> set ?ins")
    case True
    then obtain vin where "spends mp t vin op" using t by (auto simp: spends_def in_set_conv_nth)
    then have "\<not> spends ?mp t' vin' op" for t' vin' using spends_unique [OF ok] by (auto simp: spends_remove)
    then show ?thesis using True by (simp add: remove_tx_spent db.get_del_all)
  next
    case False
    have "\<not> spends mp t vin op" for vin using False t by (auto simp: spends_def)
    then have "spends ?mp t' vin op = spends mp t' vin op" for t' vin by (auto simp: spends_remove)
    then show ?thesis using False mempool_ok_spends [OF ok, of op ip] by (simp add: remove_tx_spent db.get_del_all)
  qed
  then have "stxos_exact ?mp" by (simp add: stxos_exact_def)
  moreover have "index_exact E ?mp"
    using index_exact_remove [OF _ t mempool_ok_txid [OF ok t]] ok by (simp add: mempool_ok_def)
  ultimately show ?thesis using ok by (simp add: mempool_ok_def)
qed

lemma tx_children_rel:
  assumes ok: "mempool_ok E mp" and t: "fmlookup (mp_transactions mp) t = Some tx"
  shows "set (tx_children t tx (remove_tx E t tx mp)) = {b. (t, b) \<in> child_rel mp \<and> b \<noteq> t}"
proof -
  let ?mp = "remove_tx E t tx mp"
  have c: "child_of t ?mp vout = Some b \<longleftrightarrow> (\<exists>vin. spends mp b vin (OpRegular t (of_nat vout)) \<and> b \<noteq> t)" for vout b
  proof -
    have "child_of t ?mp vout = Some b \<longleftrightarrow> (\<exists>v. fmlookup (mp_spent_utxos ?mp) (OpRegular t (of_nat vout)) = Some (IpRegular b v))"
      by (auto simp: child_of_def split: option.splits InPoint.splits)
    also have "\<dots> \<longleftrightarrow> (\<exists>vin. spends ?mp b vin (OpRegular t (of_nat vout)))"
      using mempool_ok_spends [OF remove_tx_ok [OF ok t]] by auto
    finally show ?thesis unfolding spends_remove by blast
  qed
  have "b \<in> set (tx_children t tx ?mp) \<longleftrightarrow> (\<exists>vout < length (tx_outputs (at_transaction tx)). child_of t ?mp vout = Some b)" for b
    by (force simp: tx_children_def List.map_filter_def)
  then have "b \<in> set (tx_children t tx ?mp) \<longleftrightarrow> (t, b) \<in> child_rel mp \<and> b \<noteq> t" for b
    unfolding c child_rel_iff t by blast
  then show ?thesis by blast
qed

section \<open>Deletion\<close>

text \<open>A path that ends off \<open>t\<close> either avoids \<open>t\<close>, or avoids it after a child of \<open>t\<close>.\<close>

lemma path_avoiding:
  assumes "(s, x) \<in> r\<^sup>*" and "x \<noteq> t"
  shows "s \<noteq> t \<and> (s, x) \<in> {(a, b) \<in> r. a \<noteq> t \<and> b \<noteq> t}\<^sup>* \<or>
    (\<exists>c. (t, c) \<in> r \<and> c \<noteq> t \<and> (c, x) \<in> {(a, b) \<in> r. a \<noteq> t \<and> b \<noteq> t}\<^sup>*)"
  using assms
proof (induction rule: rtrancl_induct)
  case (step y z)
  show ?case
  proof (cases "y = t")
    case False
    then have "(y, z) \<in> {(a, b) \<in> r. a \<noteq> t \<and> b \<noteq> t}" using step by simp
    then show ?thesis using step.IH [OF False] by (meson rtrancl.rtrancl_into_rtrancl)
  qed (use step in blast)
qed simp

lemma reach_after_removal:
  assumes ok: "mempool_ok E mp" and t: "fmlookup (mp_transactions mp) t = Some tx" and "x \<noteq> t"
  shows "(\<exists>s\<in>set (ts @ tx_children t tx (remove_tx E t tx mp)). (s, x) \<in> (child_rel (remove_tx E t tx mp))\<^sup>*)
    \<longleftrightarrow> (\<exists>s\<in>set (t # ts). (s, x) \<in> (child_rel mp)\<^sup>*)"
    (is "?new \<longleftrightarrow> ?old")
proof
  have sub: "(child_rel (remove_tx E t tx mp))\<^sup>* \<subseteq> (child_rel mp)\<^sup>*"
    by (rule rtrancl_mono) (auto simp: child_rel_remove)
  assume ?new
  then obtain s where s: "s \<in> set ts \<or> (t, s) \<in> child_rel mp" and p: "(s, x) \<in> (child_rel mp)\<^sup>*"
    using sub by (auto simp: tx_children_rel [OF ok t])
  then show ?old by (auto intro: converse_rtrancl_into_rtrancl)
next
  assume ?old
  then obtain s where s: "s \<in> set (t # ts)" and p: "(s, x) \<in> (child_rel mp)\<^sup>*" by blast
  from path_avoiding [OF p assms(3)] show ?new
  proof
    assume "s \<noteq> t \<and> (s, x) \<in> {(a, b) \<in> child_rel mp. a \<noteq> t \<and> b \<noteq> t}\<^sup>*"
    with s show ?new by (auto simp: child_rel_remove)
  next
    assume "\<exists>c. (t, c) \<in> child_rel mp \<and> c \<noteq> t \<and> (c, x) \<in> {(a, b) \<in> child_rel mp. a \<noteq> t \<and> b \<noteq> t}\<^sup>*"
    then show ?new using tx_children_rel [OF ok t] by (auto simp: child_rel_remove)
  qed
qed

lemma no_children_unknown:
  assumes "fmlookup (mp_transactions mp) t = None" and "(t, x) \<in> (child_rel mp)\<^sup>*"
  shows "x = t"
  using assms(2) by (cases rule: converse_rtranclE) (auto simp: child_rel_iff assms(1))

lemma delete_pending_exact:
  assumes "mempool_ok E mp"
  shows "mempool_ok E (delete_pending E ts mp) \<and>
    fmlookup (mp_transactions (delete_pending E ts mp)) x
      = (if \<exists>s\<in>set ts. (s, x) \<in> (child_rel mp)\<^sup>* then None else fmlookup (mp_transactions mp) x)"
  using assms
proof (induction E ts mp rule: delete_pending.induct)
  case (2 E t ts mp)
  show ?case
  proof (cases "fmlookup (mp_transactions mp) t")
    case None
    have "(if \<exists>s\<in>set (t # ts). (s, x) \<in> (child_rel mp)\<^sup>* then None else fmlookup (mp_transactions mp) x)
        = (if \<exists>s\<in>set ts. (s, x) \<in> (child_rel mp)\<^sup>* then None else fmlookup (mp_transactions mp) x)"
      using no_children_unknown [OF None, of x] None by (cases "(t, x) \<in> (child_rel mp)\<^sup>*") auto
    then show ?thesis using "2.IH"(1) [OF None "2.prems"] None by simp
  next
    case (Some tx)
    note ih = "2.IH"(2) [OF Some remove_tx_ok [OF "2.prems" Some]]
    show ?thesis
    proof (cases "x = t")
      case True
      then have "\<exists>s\<in>set (t # ts). (s, x) \<in> (child_rel mp)\<^sup>*" by simp
      then show ?thesis using ih Some True by simp
    next
      case False
      then show ?thesis using ih Some reach_after_removal [OF "2.prems" Some False, of ts] by simp
    qed
  qed
qed simp

text \<open>
  C29: the mempool accepts a transaction exactly when its inputs are distinct and no
  transaction of the pool spends one of them; otherwise it reports a double spend. An
  accepted transaction is added, and the table of spent outputs and the address index
  again describe exactly the transactions in the pool.
\<close>

theorem mempool_put_exact:
  assumes "mempool_ok E mp" and "fmlookup (mp_transactions mp) (at_txid E tx) = None"
  shows "mempool_put E tx mp = Err MP_UtxoDoubleSpent \<and>
      (\<not> distinct (tx_inputs (at_transaction tx)) \<or> (\<exists>t vin. \<exists>op\<in>set (tx_inputs (at_transaction tx)). spends mp t vin op)) \<or>
    (\<exists>mp'. mempool_put E tx mp = Ok mp' \<and> mempool_ok E mp' \<and>
       mp_transactions mp' = fmupd (at_txid E tx) tx (mp_transactions mp) \<and>
       distinct (tx_inputs (at_transaction tx)) \<and> (\<forall>t vin. \<forall>op\<in>set (tx_inputs (at_transaction tx)). \<not> spends mp t vin op))"
  by (rule mempool_put_outcome) (use assms in simp_all)

text \<open>
  C11: deleting a transaction from the mempool terminates, and removes exactly the
  transactions that descend from it by spending outputs, itself included. The invariant
  of the pool is kept.
\<close>

theorem mempool_delete_descendants:
  assumes "mempool_ok E mp"
  shows "mempool_ok E (mempool_delete E t mp) \<and>
    (\<forall>t'. fmlookup (mp_transactions (mempool_delete E t mp)) t'
       = (if (t, t') \<in> (child_rel mp)\<^sup>* then None else fmlookup (mp_transactions mp) t'))"
  using delete_pending_exact [OF assms, of "[t]"] by (simp add: mempool_delete_def)

section \<open>A parent and its child\<close>

definition parent_tx :: AuthorizedTransaction where
  "parent_tx = \<lparr>at_transaction = \<lparr>tx_inputs = [OpDeposit 1 0], tx_outputs = [plain (C_Bitcoin 7)], tx_memo = [], tx_data = None\<rparr>,
     at_authorizations = []\<rparr>"

definition child_tx :: AuthorizedTransaction where
  "child_tx = \<lparr>at_transaction = \<lparr>tx_inputs = [OpRegular 1003 0],
       tx_outputs = [plain (C_Bitcoin 3), plain (C_Bitcoin 4)], tx_memo = [], tx_data = None\<rparr>,
     at_authorizations = []\<rparr>"

lemma demo_txids [simp]: "at_txid demo_externs parent_tx = 1003" "at_txid demo_externs child_tx = 1005"
  by (simp_all add: at_txid_def txid_def demo_externs_def parent_tx_def child_tx_def)

lemma parent_put:
  obtains mp where "mempool_put demo_externs parent_tx MemPool_new = Ok mp" and "mempool_ok demo_externs mp"
    and "mp_transactions mp = fmupd 1003 parent_tx fmempty"
proof -
  have "distinct (tx_inputs (at_transaction parent_tx))" by (simp add: parent_tx_def)
  moreover have "\<not> spends MemPool_new t vin op" for t vin op by (simp add: spends_def MemPool_new_def)
  moreover have "mp_transactions MemPool_new = fmempty" by (simp add: MemPool_new_def)
  ultimately show ?thesis
    using mempool_put_outcome [OF mempool_ok_new, of demo_externs parent_tx] that by auto
qed

lemma child_put:
  assumes "mempool_ok demo_externs mp" and "mp_transactions mp = fmupd 1003 parent_tx fmempty"
  obtains mp' where "mempool_put demo_externs child_tx mp = Ok mp'" and "mempool_ok demo_externs mp'"
    and "mp_transactions mp' = fmupd 1005 child_tx (fmupd 1003 parent_tx fmempty)"
proof -
  have "distinct (tx_inputs (at_transaction child_tx))" by (simp add: child_tx_def)
  moreover have "\<not> spends mp t vin op" if "op \<in> set (tx_inputs (at_transaction child_tx))" for t vin op
    using that by (auto simp: spends_def assms(2) parent_tx_def child_tx_def)
  ultimately show ?thesis
    using mempool_put_outcome [OF assms(1), of child_tx] that assms(2) by auto
qed

theorem mempool_put_exact_witness:
  "\<exists>mp. mempool_put demo_externs parent_tx MemPool_new = Ok mp \<and> mempool_ok demo_externs mp"
proof -
  have d: "distinct (tx_inputs (at_transaction parent_tx))" by (simp add: parent_tx_def)
  have n: "\<not> spends MemPool_new t vin op" for t vin op by (simp add: spends_def MemPool_new_def)
  have "fmlookup (mp_transactions MemPool_new) (at_txid demo_externs parent_tx) = None" by (simp add: MemPool_new_def)
  from mempool_put_exact [OF mempool_ok_new this] d n show ?thesis by blast
qed

theorem mempool_delete_descendants_witness:
  "\<exists>mp mp'. mempool_put demo_externs parent_tx MemPool_new = Ok mp \<and> mempool_put demo_externs child_tx mp = Ok mp' \<and>
     fmlookup (mp_transactions mp') 1005 = Some child_tx \<and>
     fmlookup (mp_transactions (mempool_delete demo_externs 1003 mp')) 1005 = None"
proof -
  obtain mp where p: "mempool_put demo_externs parent_tx MemPool_new = Ok mp" and ok: "mempool_ok demo_externs mp"
    and t: "mp_transactions mp = fmupd 1003 parent_tx fmempty" by (rule parent_put)
  obtain mp' where c: "mempool_put demo_externs child_tx mp = Ok mp'" and ok': "mempool_ok demo_externs mp'"
    and t': "mp_transactions mp' = fmupd 1005 child_tx (fmupd 1003 parent_tx fmempty)" by (rule child_put [OF ok t])
  have "spends mp' 1005 0 (OpRegular 1003 (of_nat 0))" by (simp add: spends_def t' child_tx_def)
  moreover have "fmlookup (mp_transactions mp') 1003 = Some parent_tx" "(0::nat) < length (tx_outputs (at_transaction parent_tx))"
    by (simp_all add: t' parent_tx_def)
  ultimately have "(1003, 1005) \<in> child_rel mp'" unfolding child_rel_iff by blast
  then have "(1003, 1005) \<in> (child_rel mp')\<^sup>*" by simp
  moreover have "fmlookup (mp_transactions mp') 1005 = Some child_tx" by (simp add: t')
  ultimately show ?thesis using mempool_delete_descendants [OF ok', of 1003] p c by auto
qed

end
