(* ===== verification/Ancestry.thy ===== *)
theory Ancestry
  imports Database
begin

text \<open>
  Searching a chain of blocks through skip lists, as \<open>lib/archive/mod.rs\<close> does for the
  sidechain and, in a second copy of the same code, for the mainchain. The searches are
  stated once over a record \<open>chain\<close> of the lookups they use; \<open>Archive\<close> instantiates them
  with its tables.

  The interface \<open>ancestry\<close> says what the tables of a chain promise: heights grow by one
  from parent to child, and the entries of a skip list are the ancestors at distances 2, 4,
  8 and so on. From it follow: the \<open>n\<close>-th ancestor is the \<open>n\<close>-fold parent, the descendant
  test decides descent, and the binary search finds the last common ancestor.
\<close>

section \<open>Lookups and searches\<close>

record ('e, 'h) chain =
  c_height :: "'h \<Rightarrow> ('e, u32) result"
  c_parent :: "'h \<Rightarrow> ('e, 'h) result"
  c_skips :: "'h \<Rightarrow> ('e, 'h list) result"
  c_no_ancestor :: "'h \<Rightarrow> u32 \<Rightarrow> 'e"

text \<open>\<open>u32::ilog2\<close>, on the numeric value.\<close>

fun ilog2 :: "nat \<Rightarrow> nat" where
  "ilog2 n = (if n < 2 then 0 else Suc (ilog2 (n div 2)))"

declare ilog2.simps [simp del]

lemma ilog2_bounds: "0 < n \<Longrightarrow> 2 ^ ilog2 n \<le> n \<and> n < 2 ^ Suc (ilog2 n)"
proof (induction n rule: ilog2.induct)
  case (1 n)
  show ?case
  proof (cases "n < 2")
    case False
    with 1 have "2 ^ ilog2 (n div 2) \<le> n div 2 \<and> n div 2 < 2 ^ Suc (ilog2 (n div 2))" by simp
    moreover have "ilog2 n = Suc (ilog2 (n div 2))" using False by (simp add: ilog2.simps [of n])
    ultimately show ?thesis by simp linarith
  qed (use 1 in \<open>simp add: ilog2.simps [of n]\<close>)
qed

lemma ilog2_small [simp]: "n < 2 \<Longrightarrow> ilog2 n = 0"
  by (simp add: ilog2.simps [of n])

lemma ilog2_pos: "2 \<le> n \<Longrightarrow> 0 < ilog2 n"
  by (simp add: ilog2.simps [of n])

lemma ilog2_unique: "2 ^ k \<le> n \<Longrightarrow> n < 2 ^ Suc k \<Longrightarrow> ilog2 n = k"
proof -
  assume a: "2 ^ k \<le> n" "n < 2 ^ Suc k"
  then have "0 < n" using order_less_le_trans zero_less_power by fastforce
  from ilog2_bounds [OF this] a have "(2::nat) ^ k < 2 ^ Suc (ilog2 n)" "(2::nat) ^ ilog2 n < 2 ^ Suc k"
    by linarith+
  then have "k < Suc (ilog2 n)" "ilog2 n < Suc k" by (metis power_strict_increasing_iff one_less_numeral_iff semiring_norm(76))+
  then show ?thesis by simp
qed

lemma ilog2_u32: "ilog2 (unat (n :: u32)) < 32"
proof (cases "unat n = 0")
  case False
  then have "2 ^ ilog2 (unat n) \<le> unat n" using ilog2_bounds by blast
  also have "\<dots> < 2 ^ 32" using unat_less_pow [of n] by simp
  finally show ?thesis by (metis power_strict_increasing_iff one_less_numeral_iff semiring_norm(76))
qed simp

lemma unat_of_nat_u32: "k < 2 ^ 32 \<Longrightarrow> unat (of_nat k :: u32) = k"
  by (simp add: unat_of_nat)

lemma two_le_unat: "n \<noteq> 0 \<Longrightarrow> n \<noteq> 1 \<Longrightarrow> 2 \<le> unat (n :: u32)"
proof (rule ccontr)
  assume "n \<noteq> 0" "n \<noteq> 1" "\<not> 2 \<le> unat n"
  then have "unat n = unat (0 :: u32) \<or> unat n = unat (1 :: u32)" by auto
  with \<open>n \<noteq> 0\<close> \<open>n \<noteq> 1\<close> show False using unat_eqI by blast
qed

text \<open>The step of a search: \<open>2 << exp_ancestor_index\<close> for the index \<open>ilog2 n - 1\<close>.\<close>

lemma unat_search_step:
  assumes "2 \<le> unat (n :: u32)"
  shows "unat (push_bit (ilog2 (unat n) - 1) 2 :: u32) = 2 ^ ilog2 (unat n)"
    and "unat (n - push_bit (ilog2 (unat n) - 1) 2) = unat n - 2 ^ ilog2 (unat n)"
proof -
  let ?k = "ilog2 (unat n)"
  have k: "0 < ?k" "?k < 32" using ilog2_pos [OF assms] ilog2_u32 by auto
  have le: "2 ^ ?k \<le> unat n" using ilog2_bounds [of "unat n"] assms by simp
  have "(push_bit (?k - 1) 2 :: u32) = 2 ^ ?k"
    using k(1) by (cases ?k) (simp_all add: push_bit_eq_mult mult.commute)
  moreover have "(2 :: u32) ^ ?k = of_nat (2 ^ ?k)" by simp
  moreover have "(2 :: nat) ^ ?k < 2 ^ 32" using k(2) by (intro power_strict_increasing) auto
  then have "unat (of_nat (2 ^ ?k) :: u32) = 2 ^ ?k" by (rule unat_of_nat_u32)
  ultimately show "unat (push_bit (?k - 1) 2 :: u32) = 2 ^ ?k" by metis
  then show "unat (n - push_bit (?k - 1) 2) = unat n - 2 ^ ?k"
    using le by (simp add: unat_sub word_le_nat_alt)
qed

text \<open>The loop of \<open>get_nth_ancestor\<close>; \<open>b0\<close> and \<open>n0\<close> are the original arguments.\<close>

function nth_ancestor_loop :: "('e, 'h) chain \<Rightarrow> 'h \<Rightarrow> u32 \<Rightarrow> 'h \<Rightarrow> u32 \<Rightarrow> ('e, 'h) result" where
  "nth_ancestor_loop C b0 n0 block_hash n =
     (if n = 0 then Ok block_hash
      else case c_height C block_hash of
        Err e \<Rightarrow> Err e
      | Panic \<Rightarrow> Panic
      | Ok height \<Rightarrow>
          if height < n then Err (c_no_ancestor C b0 n0)
          else if n = 1 then c_parent C block_hash
          else
            (case c_skips C block_hash of
               Err e \<Rightarrow> Err e
             | Panic \<Rightarrow> Panic
             | Ok exponential_ancestors \<Rightarrow>
                 (let exp_ancestor_index = ilog2 (unat n) - 1 in
                  if exp_ancestor_index < length exponential_ancestors
                  then nth_ancestor_loop C b0 n0 (exponential_ancestors ! exp_ancestor_index)
                    (n - push_bit exp_ancestor_index 2)
                  else Panic)))"
  by pat_completeness auto
termination
proof (relation "measure (\<lambda>(_, _, _, _, n). unat n)", goal_cases)
  case (2 C b0 n0 block_hash n height exponential_ancestors x)
  then have n: "2 \<le> unat n" using two_le_unat by blast
  have "(0 :: nat) < 2 ^ ilog2 (unat n)" by simp
  then show ?case using 2 n unat_search_step(2) [OF n] by (simp add: diff_less)
qed simp

declare nth_ancestor_loop.simps [simp del]

definition nth_ancestor :: "('e, 'h) chain \<Rightarrow> 'h \<Rightarrow> u32 \<Rightarrow> ('e, 'h) result" where
  "nth_ancestor C block_hash n = nth_ancestor_loop C block_hash n block_hash n"

definition chain_is_descendant :: "('e, 'h) chain \<Rightarrow> 'h \<Rightarrow> 'h \<Rightarrow> ('e, bool) result" where
  "chain_is_descendant C ancestor descendant =
     (if ancestor = descendant then Ok True
      else rbind (c_height C ancestor) (\<lambda>ancestor_height.
        rbind (c_height C descendant) (\<lambda>descendant_height.
        if descendant_height < ancestor_height then Ok False
        else rbind (nth_ancestor C descendant (descendant_height - ancestor_height)) (\<lambda>b.
          Ok (ancestor = b)))))"

text \<open>Raise the higher of two blocks to the height of the lower; answers that height too.\<close>

definition equalize :: "('e, 'h) chain \<Rightarrow> 'h \<Rightarrow> 'h \<Rightarrow> ('e, 'h \<times> 'h \<times> u32) result" where
  "equalize C block_hash0 block_hash1 =
     rbind (c_height C block_hash0) (\<lambda>height0.
     rbind (c_height C block_hash1) (\<lambda>height1.
       if height0 = height1 then Ok (block_hash0, block_hash1, height0)
       else if height0 < height1
       then rbind (nth_ancestor C block_hash1 (height1 - height0)) (\<lambda>b. Ok (block_hash0, b, height0))
       else rbind (nth_ancestor C block_hash0 (height0 - height1)) (\<lambda>b. Ok (b, block_hash1, height1))))"

lemma unat_midpoint:
  assumes "(lo :: u32) < hi" "add_word lo hi = (Ok both :: ('e, u32) result)"
  shows "unat lo \<le> unat (both div 2)" "unat (both div 2) < unat hi" "unat (both div 2 + 1) = unat (both div 2) + 1"
proof -
  have b: "unat both = unat lo + unat hi" using assms(2) by simp
  have l: "unat lo < unat hi" using assms(1) by (simp add: word_less_nat_alt)
  show "unat lo \<le> unat (both div 2)" and lt: "unat (both div 2) < unat hi" using b l by simp_all
  then have "unat (both div 2) + 1 < 2 ^ 32" using unat_less_pow [of hi] by simp
  then show "unat (both div 2 + 1) = unat (both div 2) + 1" by (simp add: unat_word_ariths)
qed

text \<open>The binary search over depths. The midpoint is computed with a plain addition.\<close>

function common_depth :: "('e, 'h) chain \<Rightarrow> 'h \<Rightarrow> 'h \<Rightarrow> u32 \<Rightarrow> u32 \<Rightarrow> ('e, u32) result" where
  "common_depth C block_hash0 block_hash1 lo_depth hi_depth =
     (if lo_depth < hi_depth then
        (case add_word lo_depth hi_depth of
           Err e \<Rightarrow> Err e
         | Panic \<Rightarrow> Panic
         | Ok both \<Rightarrow>
             (let mid_depth = both div 2 in
              case nth_ancestor C block_hash0 mid_depth of
                Err e \<Rightarrow> Err e
              | Panic \<Rightarrow> Panic
              | Ok mid_ancestor0 \<Rightarrow>
                  (case nth_ancestor C block_hash1 mid_depth of
                     Err e \<Rightarrow> Err e
                   | Panic \<Rightarrow> Panic
                   | Ok mid_ancestor1 \<Rightarrow>
                       if mid_ancestor0 = mid_ancestor1
                       then common_depth C block_hash0 block_hash1 lo_depth mid_depth
                       else common_depth C block_hash0 block_hash1 (mid_depth + 1) hi_depth)))
      else Ok hi_depth)"
  by pat_completeness auto
termination
proof (relation "measure (\<lambda>(_, _, _, lo, hi). unat hi - unat lo)", goal_cases)
  case (2 C b0 b1 lo hi both mid a0 a1)
  then show ?case using unat_midpoint [of lo hi both] by (simp add: word_less_nat_alt)
next
  case (3 C b0 b1 lo hi both mid a0 a1)
  then show ?case using unat_midpoint [of lo hi both] by (simp add: word_less_nat_alt)
qed simp

declare common_depth.simps [simp del]

definition common_search :: "('e, 'h) chain \<Rightarrow> 'h \<Rightarrow> 'h \<Rightarrow> u32 \<Rightarrow> ('e, 'h) result" where
  "common_search C block_hash0 block_hash1 height0 =
     rbind (common_depth C block_hash0 block_hash1 1 height0) (\<lambda>hi_depth. nth_ancestor C block_hash0 hi_depth)"

text \<open>
  The skip list of a new block: the grandparent, then from the last entry found the ancestor
  at half the next distance, as long as the height allows. In round \<open>i\<close> the variable
  \<open>next_exponential_ancestor_depth\<close> is \<open>4 * 2 ^ i\<close>; it stays within \<open>u64\<close> because the loop
  ends once it exceeds a 32-bit height.
\<close>

function skip_list_loop :: "('e, 'h) chain \<Rightarrow> u32 \<Rightarrow> nat \<Rightarrow> 'h list \<Rightarrow> ('e, 'h list) result" where
  "skip_list_loop C height i exponential_ancestors =
     (if 4 * 2 ^ i \<le> unat height then
        (case nth_ancestor C (last exponential_ancestors) (of_nat (4 * 2 ^ i) div 2) of
           Err e \<Rightarrow> Err e
         | Panic \<Rightarrow> Panic
         | Ok b \<Rightarrow> skip_list_loop C height (Suc i) (exponential_ancestors @ [b]))
      else Ok exponential_ancestors)"
  by pat_completeness auto
termination
proof (relation "measure (\<lambda>(_, height, i, _). unat height - i)", goal_cases)
  case (2 C height i exps b)
  have "i < 2 ^ i" by (rule less_exp)
  then have "i < unat height" using 2(1) by linarith
  then show ?case by simp
qed simp

declare skip_list_loop.simps [simp del]

definition skip_list :: "('e, 'h) chain \<Rightarrow> u32 \<Rightarrow> 'h option \<Rightarrow> ('e, 'h list) result" where
  "skip_list C height parent =
     (if 2 \<le> height
      then rbind (expect parent) (\<lambda>parent.
        rbind (nth_ancestor C parent 1) (\<lambda>grandparent.
        skip_list_loop C height 0 [grandparent]))
      else Ok [])"

section \<open>Ancestors\<close>

primrec anc :: "('h \<Rightarrow> 'h option) \<Rightarrow> nat \<Rightarrow> 'h \<Rightarrow> 'h option" where
  "anc par 0 b = Some b"
| "anc par (Suc n) b = Option.bind (par b) (anc par n)"

definition is_ancestor :: "('h \<Rightarrow> 'h option) \<Rightarrow> 'h \<Rightarrow> 'h \<Rightarrow> bool" where
  "is_ancestor par a b \<longleftrightarrow> (\<exists>n. anc par n b = Some a)"

definition skips_ok :: "('h \<Rightarrow> 'h option) \<Rightarrow> u32 \<Rightarrow> 'h \<Rightarrow> 'h list \<Rightarrow> bool" where
  "skips_ok par h b sk \<longleftrightarrow> length sk = ilog2 (unat h) \<and>
     (\<forall>i<length sk. anc par (2 ^ Suc i) b = Some (sk ! i))"

lemma anc_add: "anc par (m + n) b = Option.bind (anc par m b) (anc par n)"
proof (induction m arbitrary: b)
  case (Suc m)
  then have "anc par (m + n) = (\<lambda>b. Option.bind (anc par m b) (anc par n))" by blast
  then show ?case by (cases "par b") simp_all
qed simp

lemma anc_one: "anc par 1 b = par b"
  by (cases "par b") simp_all

lemma anc_compose: "anc par m b = Some c \<Longrightarrow> anc par (m + n) b = anc par n c"
  by (simp add: anc_add)

lemma is_ancestor_refl [simp]: "is_ancestor par b b"
  unfolding is_ancestor_def by (rule exI [of _ 0]) simp

lemma is_ancestor_trans: "is_ancestor par a b \<Longrightarrow> is_ancestor par b c \<Longrightarrow> is_ancestor par a c"
  unfolding is_ancestor_def using anc_compose by metis

lemma ilog2_mono: "m \<le> n \<Longrightarrow> ilog2 m \<le> ilog2 n"
proof (cases "m = 0")
  case False
  assume "m \<le> n"
  with False ilog2_bounds [of m] ilog2_bounds [of n] have "(2::nat) ^ ilog2 m < 2 ^ Suc (ilog2 n)" by simp
  then have "ilog2 m < Suc (ilog2 n)" by (metis power_strict_increasing_iff one_less_numeral_iff semiring_norm(76))
  then show ?thesis by simp
qed simp

locale ancestry =
  fixes lookups :: "'s \<Rightarrow> ('e, 'h) chain"
    and ok :: "'s \<Rightarrow> bool"
    and ht :: "'s \<Rightarrow> 'h \<Rightarrow> u32 option"
    and par :: "'s \<Rightarrow> 'h \<Rightarrow> 'h option"
  assumes height_known: "ok s \<Longrightarrow> ht s b = Some h \<Longrightarrow> c_height (lookups s) b = Ok h"
    and parent_root: "ok s \<Longrightarrow> ht s b = Some h \<Longrightarrow> par s b = None \<longleftrightarrow> h = 0"
    and parent_height: "ok s \<Longrightarrow> ht s b = Some h \<Longrightarrow> par s b = Some p \<Longrightarrow>
      \<exists>h'. ht s p = Some h' \<and> unat h = Suc (unat h')"
    and parent_known: "ok s \<Longrightarrow> ht s b = Some h \<Longrightarrow> par s b = Some p \<Longrightarrow> c_parent (lookups s) b = Ok p"
    and skips_known: "ok s \<Longrightarrow> ht s b = Some h \<Longrightarrow>
      \<exists>sk. c_skips (lookups s) b = Ok sk \<and> skips_ok (par s) h b sk"
begin

lemma anc_height:
  "ok s \<Longrightarrow> ht s b = Some h \<Longrightarrow> anc (par s) n b = Some p \<Longrightarrow> \<exists>h'. ht s p = Some h' \<and> unat h = unat h' + n"
proof (induction n arbitrary: b h)
  case (Suc n)
  then obtain q where q: "par s b = Some q" "anc (par s) n q = Some p" by (auto simp: bind_eq_Some_conv)
  from parent_height [OF Suc.prems(1,2) q(1)] obtain h' where "ht s q = Some h'" "unat h = Suc (unat h')" by blast
  with Suc.IH [OF Suc.prems(1) _ q(2)] show ?case by auto
qed auto

lemma anc_exists:
  "ok s \<Longrightarrow> ht s b = Some h \<Longrightarrow> n \<le> unat h \<Longrightarrow> \<exists>p. anc (par s) n b = Some p"
proof (induction n arbitrary: b h)
  case (Suc n)
  then have "h \<noteq> 0" by auto
  with parent_root [OF Suc.prems(1,2)] obtain q where q: "par s b = Some q" by auto
  from parent_height [OF Suc.prems(1,2) q] obtain h' where "ht s q = Some h'" "unat h = Suc (unat h')" by blast
  with Suc.IH [OF Suc.prems(1), of q h'] Suc.prems q show ?case by auto
qed auto

lemma anc_iff:
  "ok s \<Longrightarrow> ht s b = Some h \<Longrightarrow> (\<exists>p. anc (par s) n b = Some p) \<longleftrightarrow> n \<le> unat h"
  using anc_height anc_exists by (metis le_add2)

lemma nth_ancestor_loop_eq:
  "ok s \<Longrightarrow> ht s b = Some h \<Longrightarrow> nth_ancestor_loop (lookups s) b0 n0 b n =
     (case anc (par s) (unat n) b of Some p \<Rightarrow> Ok p | None \<Rightarrow> Err (c_no_ancestor (lookups s) b0 n0))"
proof (induction "unat n" arbitrary: b h n rule: less_induct)
  case less
  note ok = less.prems(1) and h = less.prems(2)
  consider "n = 0" | "n \<noteq> 0" "h < n" | "n = 1" "\<not> h < n" | "2 \<le> unat n" "\<not> h < n" using two_le_unat by blast
  then show ?case
  proof cases
    case 1
    then show ?thesis by (simp add: nth_ancestor_loop.simps)
  next
    case 2
    then have "\<not> unat n \<le> unat h" by (simp add: word_less_nat_alt)
    then have "anc (par s) (unat n) b = None" using anc_iff [OF ok h, of "unat n"] by (meson not_None_eq)
    with 2 show ?thesis by (simp add: nth_ancestor_loop.simps [of _ _ _ _ n] height_known [OF ok h])
  next
    case 3
    then have "h \<noteq> 0" by auto
    with parent_root [OF ok h] obtain q where q: "par s b = Some q" by auto
    with 3 parent_known [OF ok h q] show ?thesis
      by (simp add: nth_ancestor_loop.simps [of _ _ _ _ 1] height_known [OF ok h])
  next
    case 4
    let ?k = "ilog2 (unat n)" and ?m = "n - push_bit (ilog2 (unat n) - 1) 2"
    from skips_known [OF ok h] obtain sk where sk: "c_skips (lookups s) b = Ok sk" "skips_ok (par s) h b sk" by blast
    have k: "0 < ?k" using ilog2_pos [OF 4(1)] .
    have "?k \<le> ilog2 (unat h)" using 4(2) by (intro ilog2_mono) (simp add: word_less_nat_alt)
    then have i: "?k - 1 < length sk" using sk(2) k by (simp add: skips_ok_def)
    then have a: "anc (par s) (2 ^ ?k) b = Some (sk ! (?k - 1))"
      using sk(2) k unfolding skips_ok_def by (metis Suc_diff_1)
    then obtain h' where h': "ht s (sk ! (?k - 1)) = Some h'" using anc_height [OF ok h] by blast
    have m: "unat ?m = unat n - 2 ^ ?k" by (rule unat_search_step(2) [OF 4(1)])
    have le: "2 ^ ?k \<le> unat n" using ilog2_bounds [of "unat n"] 4(1) by simp
    have "unat ?m < unat n" using m le 4(1) by simp
    note IH = less.hyps [OF this ok h']
    have "anc (par s) (unat n) b = anc (par s) (unat ?m) (sk ! (?k - 1))"
      using anc_compose [OF a, of "unat ?m"] m le by simp
    moreover have "n \<noteq> 0" "n \<noteq> 1" using 4(1) by auto
    ultimately show ?thesis
      using 4(2) sk(1) i IH by (simp add: nth_ancestor_loop.simps [of _ _ _ _ n] height_known [OF ok h] Let_def)
  qed
qed

lemma nth_ancestor_eq:
  "ok s \<Longrightarrow> ht s b = Some h \<Longrightarrow> nth_ancestor (lookups s) b n =
     (case anc (par s) (unat n) b of Some p \<Rightarrow> Ok p | None \<Rightarrow> Err (c_no_ancestor (lookups s) b n))"
  by (simp add: nth_ancestor_def nth_ancestor_loop_eq)

lemma nth_ancestor_Ok:
  "ok s \<Longrightarrow> ht s b = Some h \<Longrightarrow> anc (par s) (unat n) b = Some p \<Longrightarrow> nth_ancestor (lookups s) b n = Ok p"
  by (simp add: nth_ancestor_eq)

lemma is_descendant_iff:
  assumes ok: "ok s" and a: "ht s a = Some ha" and d: "ht s d = Some hb"
  shows "chain_is_descendant (lookups s) a d = Ok (is_ancestor (par s) a d)"
proof -
  consider "a = d" | "a \<noteq> d" "hb < ha" | "a \<noteq> d" "ha \<le> hb" by fastforce
  then show ?thesis
  proof cases
    case 2
    then have "\<not> is_ancestor (par s) a d"
      using anc_height [OF ok d, of _ a] a unfolding is_ancestor_def word_less_nat_alt by fastforce
    with 2 show ?thesis by (simp add: chain_is_descendant_def height_known [OF ok a] height_known [OF ok d])
  next
    case 3
    let ?n = "hb - ha"
    have n: "unat ?n = unat hb - unat ha" "unat ha \<le> unat hb" using 3 by (auto simp: unat_sub word_le_nat_alt)
    obtain p where p: "anc (par s) (unat ?n) d = Some p" using anc_exists [OF ok d, of "unat ?n"] n by auto
    have "is_ancestor (par s) a d \<longleftrightarrow> a = p"
    proof
      assume "is_ancestor (par s) a d"
      then obtain m where m: "anc (par s) m d = Some a" by (auto simp: is_ancestor_def)
      from anc_height [OF ok d m] a n have "m = unat ?n" by auto
      with m p show "a = p" by simp
    qed (use p in \<open>auto simp: is_ancestor_def\<close>)
    moreover have "\<not> hb < ha" using 3(2) by (simp add: not_less)
    ultimately show ?thesis using 3(1)
      by (simp add: chain_is_descendant_def height_known [OF ok a] height_known [OF ok d] nth_ancestor_Ok [OF ok d p])
  qed (simp add: chain_is_descendant_def)
qed

text \<open>Two blocks at the same height agree from some depth on.\<close>

definition agree :: "'s \<Rightarrow> 'h \<Rightarrow> 'h \<Rightarrow> nat \<Rightarrow> bool" where
  "agree s b0 b1 d \<longleftrightarrow> anc (par s) d b0 = anc (par s) d b1"

lemma agree_mono: "agree s b0 b1 d \<Longrightarrow> d \<le> d' \<Longrightarrow> agree s b0 b1 d'"
  unfolding agree_def by (metis anc_add le_add_diff_inverse)

lemma common_depth_least:
  assumes ok: "ok s" and h0: "ht s b0 = Some h" and h1: "ht s b1 = Some h"
  shows "unat lo \<le> unat hi \<Longrightarrow> unat hi \<le> unat h \<Longrightarrow> unat hi < 2 ^ 31 \<Longrightarrow> agree s b0 b1 (unat hi) \<Longrightarrow>
    (\<forall>d<unat lo. \<not> agree s b0 b1 d) \<Longrightarrow>
    \<exists>d. common_depth (lookups s) b0 b1 lo hi = Ok d \<and> unat d \<le> unat hi \<and> agree s b0 b1 (unat d) \<and>
      (\<forall>d'<unat d. \<not> agree s b0 b1 d')"
proof (induction "unat hi - unat lo" arbitrary: lo hi rule: less_induct)
  case less
  show ?case
  proof (cases "lo < hi")
    case False
    with less.prems(1) have "lo = hi" by (simp add: word_less_nat_alt unat_eqI)
    with less.prems show ?thesis by (auto simp: common_depth.simps [of _ _ _ _ hi])
  next
    case True
    have s31: "unat lo + unat hi < 2 ^ 32" using less.prems(1,3) by simp
    then have add: "add_word lo hi = (Ok (lo + hi) :: ('e, u32) result)" by (intro add_word_Ok) (simp only: len_bit0 len_num1, simp)
    let ?mid = "(lo + hi) div 2"
    note mid = unat_midpoint [OF True add]
    have "unat ?mid \<le> unat h" using mid(2) less.prems(2) by linarith
    then obtain p0 p1 where p: "anc (par s) (unat ?mid) b0 = Some p0" "anc (par s) (unat ?mid) b1 = Some p1"
      using anc_exists [OF ok h0] anc_exists [OF ok h1] by blast
    have step: "common_depth (lookups s) b0 b1 lo hi =
        (if p0 = p1 then common_depth (lookups s) b0 b1 lo ?mid else common_depth (lookups s) b0 b1 (?mid + 1) hi)"
      unfolding common_depth.simps [of _ _ _ lo hi] add Let_def result.case
        nth_ancestor_Ok [OF ok h0 p(1)] nth_ancestor_Ok [OF ok h1 p(2)] using True by (rule if_P)
    show ?thesis
    proof (cases "p0 = p1")
      case eq: True
      have "agree s b0 b1 (unat ?mid)" using p eq by (simp add: agree_def)
      then have "\<exists>d. common_depth (lookups s) b0 b1 lo ?mid = Ok d \<and> unat d \<le> unat ?mid \<and> agree s b0 b1 (unat d) \<and>
          (\<forall>d'<unat d. \<not> agree s b0 b1 d')"
        using less.hyps [of ?mid lo] less.prems mid by (simp del: unat_div_word)
      then show ?thesis using step eq mid(2) by (metis (no_types, lifting) less_imp_le order_trans)
    next
      case ne: False
      then have "\<not> agree s b0 b1 (unat ?mid)" using p by (simp add: agree_def)
      then have "\<forall>d<unat (?mid + 1). \<not> agree s b0 b1 d"
        using agree_mono mid(3) by (metis Suc_eq_plus1 less_Suc_eq_le)
      then have "\<exists>d. common_depth (lookups s) b0 b1 (?mid + 1) hi = Ok d \<and> unat d \<le> unat hi \<and> agree s b0 b1 (unat d) \<and>
          (\<forall>d'<unat d. \<not> agree s b0 b1 d')"
        using less.hyps [of hi "?mid + 1"] less.prems mid by (simp del: unat_div_word)
      then show ?thesis using step ne by simp
    qed
  qed
qed

lemma equalize_Ok:
  assumes ok: "ok s" and h0: "ht s b0 = Some h0" and h1: "ht s b1 = Some h1"
  obtains c0 c1 h where "equalize (lookups s) b0 b1 = Ok (c0, c1, h)" "ht s c0 = Some h" "ht s c1 = Some h"
    "is_ancestor (par s) c0 b0" "is_ancestor (par s) c1 b1" "h = min h0 h1"
    "\<And>c. is_ancestor (par s) c b0 \<Longrightarrow> is_ancestor (par s) c b1 \<Longrightarrow>
       is_ancestor (par s) c c0 \<and> is_ancestor (par s) c c1"
proof -
  let ?h = "min h0 h1"
  obtain c0 where c0: "anc (par s) (unat h0 - unat ?h) b0 = Some c0"
    using anc_exists [OF ok h0, of "unat h0 - unat ?h"] by auto
  obtain c1 where c1: "anc (par s) (unat h1 - unat ?h) b1 = Some c1"
    using anc_exists [OF ok h1, of "unat h1 - unat ?h"] by auto
  have le: "unat ?h \<le> unat h0" "unat ?h \<le> unat h1" by (simp_all add: min_def word_le_nat_alt)
  have hc: "ht s c0 = Some ?h" "ht s c1 = Some ?h"
    using anc_height [OF ok h0 c0] anc_height [OF ok h1 c1] le by (auto intro!: unat_eqI simp del: unat_word_ariths)
  have eq: "equalize (lookups s) b0 b1 = Ok (c0, c1, ?h)"
  proof (cases h0 h1 rule: linorder_cases)
    case less
    then have "unat (h1 - h0) = unat h1 - unat ?h" by (simp add: unat_sub word_less_nat_alt word_le_nat_alt)
    with less c0 c1 nth_ancestor_Ok [OF ok h1, of "h1 - h0" c1] height_known [OF ok h0] show ?thesis
      by (auto simp: equalize_def height_known [OF ok h1])
  next
    case greater
    then have "unat (h0 - h1) = unat h0 - unat ?h" by (simp add: unat_sub word_less_nat_alt word_le_nat_alt)
    with greater c0 c1 nth_ancestor_Ok [OF ok h0, of "h0 - h1" c0] show ?thesis
      by (auto simp: equalize_def height_known [OF ok h0] height_known [OF ok h1] min_def)
  qed (use c0 c1 height_known [OF ok h0] height_known [OF ok h1] in \<open>auto simp: equalize_def\<close>)
  have above: "is_ancestor (par s) c d"
    if "anc (par s) m b = Some c" "ht s b = Some hb" "ht s c = Some hc" "unat hc \<le> unat ?h"
      "anc (par s) (unat hb - unat ?h) b = Some d" for m b c d hb hc
  proof -
    have "m = unat hb - unat hc" using anc_height [OF ok that(2,1)] that(3) by auto
    then have "m = (unat hb - unat ?h) + (m - (unat hb - unat ?h))" using that(4) by simp
    then show ?thesis using anc_compose [OF that(5)] that(1) unfolding is_ancestor_def by metis
  qed
  show ?thesis
  proof (rule that [OF eq hc])
    fix c assume "is_ancestor (par s) c b0" "is_ancestor (par s) c b1"
    then obtain m0 m1 where m: "anc (par s) m0 b0 = Some c" "anc (par s) m1 b1 = Some c"
      by (auto simp: is_ancestor_def)
    from anc_height [OF ok h0 m(1)] anc_height [OF ok h1 m(2)] obtain hc
      where c: "ht s c = Some hc" "unat hc \<le> unat ?h" by (auto simp: min_def)
    show "is_ancestor (par s) c c0 \<and> is_ancestor (par s) c c1"
      using above [OF m(1) h0 c c0] above [OF m(2) h1 c c1] by blast
  qed (use c0 c1 in \<open>auto simp: is_ancestor_def\<close>)
qed

lemma agree_iff_common:
  assumes ok: "ok s" and h0: "ht s b0 = Some h" and h1: "ht s b1 = Some h"
  shows "agree s b0 b1 (unat h) \<longleftrightarrow> (\<exists>c. is_ancestor (par s) c b0 \<and> is_ancestor (par s) c b1)"
proof
  assume "agree s b0 b1 (unat h)"
  moreover obtain r where "anc (par s) (unat h) b0 = Some r" using anc_exists [OF ok h0] by blast
  ultimately show "\<exists>c. is_ancestor (par s) c b0 \<and> is_ancestor (par s) c b1"
    unfolding agree_def is_ancestor_def by metis
next
  assume "\<exists>c. is_ancestor (par s) c b0 \<and> is_ancestor (par s) c b1"
  then obtain c m0 m1 where m: "anc (par s) m0 b0 = Some c" "anc (par s) m1 b1 = Some c"
    by (auto simp: is_ancestor_def)
  from anc_height [OF ok h0 m(1)] anc_height [OF ok h1 m(2)] have "m0 = m1" "m0 \<le> unat h" by auto
  with m have "agree s b0 b1 m0" by (simp add: agree_def)
  then show "agree s b0 b1 (unat h)" using \<open>m0 \<le> unat h\<close> by (rule agree_mono)
qed

lemma common_search_last:
  assumes ok: "ok s" and h0: "ht s b0 = Some h" and h1: "ht s b1 = Some h" and small: "unat h < 2 ^ 31"
    and ne: "b0 \<noteq> b1" and ex: "agree s b0 b1 (unat h)"
  obtains c where "common_search (lookups s) b0 b1 h = Ok c"
    "is_ancestor (par s) c b0" "is_ancestor (par s) c b1"
    "\<And>c'. is_ancestor (par s) c' b0 \<Longrightarrow> is_ancestor (par s) c' b1 \<Longrightarrow> is_ancestor (par s) c' c"
proof -
  have n0: "\<not> agree s b0 b1 0" using ne by (simp add: agree_def)
  with ex have "unat h \<noteq> 0" by metis
  then obtain d where d: "common_depth (lookups s) b0 b1 1 h = Ok d" "unat d \<le> unat h" "agree s b0 b1 (unat d)"
      "\<forall>d'<unat d. \<not> agree s b0 b1 d'"
    using common_depth_least [OF ok h0 h1, of 1 h] small ex n0 by auto
  obtain c where c: "anc (par s) (unat d) b0 = Some c" using anc_exists [OF ok h0 d(2)] by blast
  then have c1: "anc (par s) (unat d) b1 = Some c" using d(3) by (simp add: agree_def)
  show ?thesis
  proof (rule that)
    show "common_search (lookups s) b0 b1 h = Ok c"
      by (simp add: common_search_def d(1) nth_ancestor_Ok [OF ok h0 c])
    fix c' assume "is_ancestor (par s) c' b0" "is_ancestor (par s) c' b1"
    then obtain m0 m1 where m: "anc (par s) m0 b0 = Some c'" "anc (par s) m1 b1 = Some c'"
      by (auto simp: is_ancestor_def)
    then have "m0 = m1" using anc_height [OF ok h0 m(1)] anc_height [OF ok h1 m(2)] by auto
    with m have "agree s b0 b1 m0" by (simp add: agree_def)
    then have "unat d \<le> m0" using d(4) by (meson not_le)
    then have "anc (par s) (m0 - unat d) c = Some c'" using anc_compose [OF c, of "m0 - unat d"] m(1) by simp
    then show "is_ancestor (par s) c' c" by (auto simp: is_ancestor_def)
  qed (use c c1 in \<open>auto simp: is_ancestor_def\<close>)
qed

lemma skip_list_loop_ok:
  assumes ok: "ok s" and p: "ht s p = Some hp" and h: "unat h = Suc (unat hp)"
  shows "length exps = Suc i \<Longrightarrow> 2 ^ Suc i \<le> unat h \<Longrightarrow>
    (\<forall>j<length exps. anc (par s) (2 ^ Suc j - 1) p = Some (exps ! j)) \<Longrightarrow>
    \<exists>sk. skip_list_loop (lookups s) h i exps = Ok sk \<and> length sk = ilog2 (unat h) \<and>
      (\<forall>j<length sk. anc (par s) (2 ^ Suc j - 1) p = Some (sk ! j))"
proof (induction "unat h - i" arbitrary: i exps rule: less_induct)
  case less
  show ?case
  proof (cases "4 * 2 ^ i \<le> unat h")
    case False
    then have "ilog2 (unat h) = Suc i" using less.prems(2) by (intro ilog2_unique) auto
    with False less.prems show ?thesis by (simp add: skip_list_loop.simps [of _ h i])
  next
    case True
    let ?n = "of_nat (4 * 2 ^ i) div 2 :: u32"
    have "4 * 2 ^ i < (2 :: nat) ^ 32" using True unat_less_pow [of h] by simp
    then have n: "unat ?n = 2 ^ Suc i" unfolding unat_div_word by (subst unat_of_nat_u32) simp_all
    have last: "last exps = exps ! i" using less.prems(1) by (metis diff_Suc_1 last_conv_nth list.size(3) nat.distinct(1))
    then have a: "anc (par s) (2 ^ Suc i - 1) p = Some (last exps)" using less.prems(1,3) by simp
    have e: "(2 ^ Suc i - 1) + 2 ^ Suc i = (2 :: nat) ^ Suc (Suc i) - 1" by simp
    have "(2 :: nat) ^ Suc (Suc i) - 1 \<le> unat hp" using True h by simp
    then obtain b where b: "anc (par s) (2 ^ Suc (Suc i) - 1) p = Some b" using anc_exists [OF ok p] by blast
    have ab: "anc (par s) (unat ?n) (last exps) = Some b"
      using anc_compose [OF a, of "2 ^ Suc i"] b e n by simp
    obtain hl where hl: "ht s (last exps) = Some hl" using anc_height [OF ok p a] by blast
    have step: "skip_list_loop (lookups s) h i exps = skip_list_loop (lookups s) h (Suc i) (exps @ [b])"
      unfolding skip_list_loop.simps [of _ h i] nth_ancestor_Ok [OF ok hl ab] result.case using True by (rule if_P)
    have "i < 2 ^ i" by (rule less_exp)
    then have "unat h - Suc i < unat h - i" using True by linarith
    moreover have "\<forall>j<length (exps @ [b]). anc (par s) (2 ^ Suc j - 1) p = Some ((exps @ [b]) ! j)"
      using less.prems(1,3) b by (auto simp: nth_append less_Suc_eq simp del: power_Suc)
    ultimately show ?thesis
      using less.hyps [of "Suc i" "exps @ [b]"] less.prems(1) True unfolding step by simp
  qed
qed

lemma skip_list_ok:
  assumes ok: "ok s" and p: "ht s p = Some hp" and h: "unat h = Suc (unat hp)"
  shows "\<exists>sk. skip_list (lookups s) h (Some p) = Ok sk \<and> length sk = ilog2 (unat h) \<and>
    (\<forall>i<length sk. anc (par s) (2 ^ Suc i - 1) p = Some (sk ! i))"
proof (cases "2 \<le> h")
  case True
  then have h2: "2 \<le> unat h" by (simp add: word_le_nat_alt)
  then obtain g where g: "anc (par s) (unat (1 :: u32)) p = Some g" using anc_exists [OF ok p, of 1] h by auto
  have "skip_list (lookups s) h (Some p) = skip_list_loop (lookups s) h 0 [g]"
    using True nth_ancestor_Ok [OF ok p g] by (simp add: skip_list_def)
  with skip_list_loop_ok [OF ok p h, of "[g]" 0] g h2 show ?thesis by simp
next
  case False
  then have "unat h < 2" by (simp add: word_le_nat_alt)
  with False show ?thesis by (simp add: skip_list_def)
qed

end

end
