(* ===== verification/Side_Tips.thy ===== *)
theory Side_Tips
  imports Types Extern_Laws
begin

text \<open>
  The tips to which the sidechain can be reorganised (\<open>lib/archive/side_tips\<close>): the mainchain
  tip with its cumulative work, the candidate sidechain tips, and the same tips ordered by
  sidechain height and work, from which the best one is read.

  \<open>bitcoin::Work\<close> is a 256-bit number; its addition and subtraction, and the bytes under which
  a \<open>SidechainTipInfo\<close> is stored, come from other crates and are parameters.
\<close>

section \<open>Mainchain data\<close>

type_synonym Work = "256 word"

record BlockHeaderInfo =
  bhi_block_hash :: bitcoin_BlockHash
  bhi_prev_block_hash :: bitcoin_BlockHash
  bhi_height :: u32
  bhi_work :: Work

record MainchainTip =
  mt_cumulative_work :: Work
  mt_tip_info :: "BlockHeaderInfo option"

definition mt_block_hash :: "MainchainTip \<Rightarrow> bitcoin_BlockHash" where
  "mt_block_hash t = (case mt_tip_info t of Some info \<Rightarrow> bhi_block_hash info | None \<Rightarrow> 0)"

section \<open>Sidechain tips\<close>

datatype SidechainTipInfo =
  SidechainTipInfo (sidechain_height: u32) (tip_work: Work) (tip_main_block_hash: bitcoin_BlockHash)

text \<open>The derived order: by sidechain height, then work, then mainchain block.\<close>

instantiation SidechainTipInfo :: linorder
begin

fun less_eq_SidechainTipInfo :: "SidechainTipInfo \<Rightarrow> SidechainTipInfo \<Rightarrow> bool" where
  "less_eq_SidechainTipInfo (SidechainTipInfo h w m) (SidechainTipInfo h' w' m') \<longleftrightarrow>
     h < h' \<or> h = h' \<and> (w < w' \<or> w = w' \<and> m \<le> m')"

definition less_SidechainTipInfo :: "SidechainTipInfo \<Rightarrow> SidechainTipInfo \<Rightarrow> bool" where
  "less_SidechainTipInfo a b \<longleftrightarrow> a \<le> b \<and> \<not> b \<le> (a :: SidechainTipInfo)"

instance
proof
  fix x y z :: SidechainTipInfo
  show "(x < y) = (x \<le> y \<and> \<not> y \<le> x)" by (rule less_SidechainTipInfo_def)
  show "x \<le> x" by (cases x) simp
  show "x \<le> y \<Longrightarrow> y \<le> z \<Longrightarrow> x \<le> z" by (cases x; cases y; cases z) auto
  show "x \<le> y \<Longrightarrow> y \<le> x \<Longrightarrow> x = y" by (cases x; cases y) auto
  show "x \<le> y \<or> y \<le> x" by (cases x; cases y) auto
qed

end

record SidechainTip =
  tip_block_hash :: BlockHash
  tip_info :: SidechainTipInfo

record SidechainHeaderData =
  shd_prev_side_hash :: "BlockHash option"
  shd_prev_main_hash :: bitcoin_BlockHash

definition header_data_of :: "Header \<Rightarrow> SidechainHeaderData" where
  "header_data_of header =
     \<lparr>shd_prev_side_hash = hd_prev_side_hash header, shd_prev_main_hash = hd_prev_main_hash header\<rparr>"

record BmmCommitment =
  bc_sidechain_block_hash :: BlockHash
  bc_sidechain_header_data :: SidechainHeaderData

record SideTips =
  sd_mainchain_tip :: MainchainTip
  sd_sidechain_tips :: "(BlockHash, SidechainTipInfo) fmap"
  sd_ordered_sidechain_tips :: "(SidechainTipInfo, BlockHash) fmap"

record tip_externs =
  tx_work_add :: "Work \<Rightarrow> Work \<Rightarrow> Work"
  tx_work_sub :: "Work \<Rightarrow> Work \<Rightarrow> Work"
  tx_tip_key :: "SidechainTipInfo \<Rightarrow> u8 list"

datatype ConnectSidechainTip = CS_MissingSidechainParent BlockHash

datatype ConnectMainchainTip =
    CM_InvalidMainchainParent bitcoin_BlockHash
  | CM_InvalidTipHeight u32
  | CM_MissingSidechainParent BlockHash

fun connect_error :: "ConnectSidechainTip \<Rightarrow> ConnectMainchainTip" where
  "connect_error (CS_MissingSidechainParent b) = CM_MissingSidechainParent b"

datatype DisconnectMainchainTip =
    DM_InvalidMainchainParent bitcoin_BlockHash
  | DM_InvalidMainchainParentHeight u32
  | DM_MissingSidechainTip BlockHash
  | DM_NoMainchainTip

section \<open>Operations\<close>

definition side_tips_create :: SideTips where
  "side_tips_create =
     \<lparr>sd_mainchain_tip = \<lparr>mt_cumulative_work = 0, mt_tip_info = None\<rparr>,
      sd_sidechain_tips = fmempty, sd_ordered_sidechain_tips = fmempty\<rparr>"

definition best_side_tip :: "tip_externs \<Rightarrow> SideTips \<Rightarrow> SidechainTip option" where
  "best_side_tip X s =
     map_option (\<lambda>(info, block_hash). \<lparr>tip_block_hash = block_hash, tip_info = info\<rparr>)
       (db_last (tx_tip_key X) (sd_ordered_sidechain_tips s))"

definition connect_sidechain_tip ::
  "bitcoin_BlockHash \<Rightarrow> Work \<Rightarrow> BlockHash \<Rightarrow> SidechainHeaderData \<Rightarrow> SideTips \<Rightarrow> (ConnectSidechainTip, SideTips) result" where
  "connect_sidechain_tip main_block_hash cumulative_work sidechain_block_hash header_data s =
     rbind (case shd_prev_side_hash header_data of
         None \<Rightarrow> Ok 0
       | Some parent_hash \<Rightarrow>
           rbind (ok_or (CS_MissingSidechainParent parent_hash) (fmlookup (sd_sidechain_tips s) parent_hash)) (\<lambda>parent_info.
             Ok (saturating_add (sidechain_height parent_info) 1))) (\<lambda>height.
       if fmlookup (sd_sidechain_tips s) sidechain_block_hash \<noteq> None then Ok s
       else (let side_tip_info = SidechainTipInfo height cumulative_work main_block_hash in
         Ok (s\<lparr>sd_sidechain_tips := fmupd sidechain_block_hash side_tip_info (sd_sidechain_tips s),
               sd_ordered_sidechain_tips := fmupd side_tip_info sidechain_block_hash (sd_ordered_sidechain_tips s)\<rparr>)))"

definition disconnect_sidechain_tip :: "BlockHash \<Rightarrow> SideTips \<Rightarrow> SideTips" where
  "disconnect_sidechain_tip side_block_hash s =
     (case fmlookup (sd_sidechain_tips s) side_block_hash of
        None \<Rightarrow> s
      | Some side_tip_info \<Rightarrow>
          s\<lparr>sd_ordered_sidechain_tips := fmdrop side_tip_info (sd_ordered_sidechain_tips s),
            sd_sidechain_tips := fmdrop side_block_hash (sd_sidechain_tips s)\<rparr>)"

definition connect_mainchain_tip ::
  "tip_externs \<Rightarrow> BlockHeaderInfo \<Rightarrow> BmmCommitment option \<Rightarrow> SideTips \<Rightarrow> (ConnectMainchainTip, SideTips) result" where
  "connect_mainchain_tip X header_info bmm_commitment s =
     (let mainchain_tip = sd_mainchain_tip s; expected_prev_main_hash = mt_block_hash mainchain_tip in
      rbind (ensure (bhi_prev_block_hash header_info = expected_prev_main_hash)
        (CM_InvalidMainchainParent expected_prev_main_hash)) (\<lambda>_.
      rbind (case mt_tip_info mainchain_tip of
          None \<Rightarrow> Ok ()
        | Some info \<Rightarrow> rbind (add_word (bhi_height info) 1) (\<lambda>expected.
            ensure (bhi_height header_info = expected) (CM_InvalidTipHeight expected))) (\<lambda>_.
      let work = tx_work_add X (mt_cumulative_work mainchain_tip) (bhi_work header_info) in
      rbind (case bmm_commitment of
          None \<Rightarrow> Ok s
        | Some commitment \<Rightarrow> map_err connect_error
            (connect_sidechain_tip (bhi_block_hash header_info) work (bc_sidechain_block_hash commitment)
              (bc_sidechain_header_data commitment) s)) (\<lambda>s.
      Ok (s\<lparr>sd_mainchain_tip := \<lparr>mt_cumulative_work = work, mt_tip_info = Some header_info\<rparr>\<rparr>)))))"

definition previous_tip_info ::
  "BlockHeaderInfo \<Rightarrow> BlockHeaderInfo option \<Rightarrow> (DisconnectMainchainTip, BlockHeaderInfo option) result" where
  "previous_tip_info tip prev_tip_info =
     (case prev_tip_info of
        Some prev \<Rightarrow>
          rbind (ensure (bhi_block_hash prev = bhi_prev_block_hash tip)
            (DM_InvalidMainchainParent (bhi_prev_block_hash tip))) (\<lambda>_.
          rbind (add_word (bhi_height prev) 1) (\<lambda>next_height.
          rbind (ensure (next_height = bhi_height tip) (DM_InvalidMainchainParentHeight (bhi_height tip))) (\<lambda>_.
          Ok (if bhi_prev_block_hash tip \<noteq> 0 then Some prev else None))))
      | None \<Rightarrow>
          if bhi_prev_block_hash tip = 0 then Ok None
          else Err (DM_InvalidMainchainParent (bhi_prev_block_hash tip)))"

definition disconnect_mainchain_tip ::
  "tip_externs \<Rightarrow> BlockHeaderInfo option \<Rightarrow> BlockHash option \<Rightarrow> SideTips \<Rightarrow> (DisconnectMainchainTip, SideTips) result" where
  "disconnect_mainchain_tip X prev_tip_info bmm_commitment s =
     rbind (ok_or DM_NoMainchainTip (mt_tip_info (sd_mainchain_tip s))) (\<lambda>tip.
     rbind (previous_tip_info tip prev_tip_info) (\<lambda>new_tip_info.
     rbind (case bmm_commitment of
         None \<Rightarrow> Ok s
       | Some side_block_hash \<Rightarrow>
           rbind (ok_or (DM_MissingSidechainTip side_block_hash) (fmlookup (sd_sidechain_tips s) side_block_hash)) (\<lambda>info.
             if tip_main_block_hash info = bhi_block_hash tip then
               (if fmlookup (sd_ordered_sidechain_tips s) info = None then Err (DM_MissingSidechainTip side_block_hash)
                else Ok (s\<lparr>sd_ordered_sidechain_tips := fmdrop info (sd_ordered_sidechain_tips s)\<rparr>))
             else Ok s)) (\<lambda>s.
     Ok (s\<lparr>sd_mainchain_tip :=
         \<lparr>mt_cumulative_work = tx_work_sub X (mt_cumulative_work (sd_mainchain_tip s)) (bhi_work tip),
          mt_tip_info = new_tip_info\<rparr>\<rparr>))))"

end
