(* ===== verification/Archive.thy ===== *)
theory Archive
  imports Ancestry Side_Tips "HOL-Library.Option_ord"
begin

text \<open>
  The archive of headers and bodies (\<open>lib/archive/mod.rs\<close>): the tables, their queries, the
  searches of \<open>Ancestry\<close> on the sidechain and the mainchain, and the operations that store and
  delete headers, bodies and mainchain data.

  The code iterates over \<open>HashSet\<close>s and \<open>HashMap\<close>s of block hashes in an order that differs
  from run to run. The model takes that order as a parameter of type \<open>hash_order\<close>: any function
  that lists each set of hashes without repetition.
\<close>

section \<open>Data\<close>

datatype BmmResult = BmmVerified | BmmFailed

record BlockInfo =
  bi_bmm_commitment :: "BlockHash option"
  bi_events :: "BlockEvent list"

record Tip =
  t_block_hash :: BlockHash
  t_main_block_hash :: bitcoin_BlockHash

record ArchivedBlock =
  ab_header :: Header
  ab_body :: Body
  ab_height :: u32

datatype ArchiveError =
    A_DbMissing
  | A_InvalidPrevSideHash
  | A_NoAncestor BlockHash u32
  | A_NoBlock BlockHash
  | A_NoBlockHash BlockHash
  | A_NoBmmResult BlockHash
  | A_NoBody BlockHash
  | A_NoHeader BlockHash
  | A_NoHeight BlockHash
  | A_NoMainAncestor bitcoin_BlockHash u32
  | A_NoMainBlockHash bitcoin_BlockHash
  | A_NoMainBlockInfo bitcoin_BlockHash
  | A_NoMainHeaderInfo bitcoin_BlockHash
  | A_NoMainHeight bitcoin_BlockHash
  | A_SideTips ConnectSidechainTip

record Archive =
  ar_block_hash_to_height :: "(BlockHash, u32) fmap"
  ar_bmm_results :: "(BlockHash, (bitcoin_BlockHash, BmmResult) fmap) fmap"
  ar_bodies :: "(BlockHash, Body) fmap"
  ar_exponential_ancestors :: "(BlockHash, BlockHash list) fmap"
  ar_exponential_main_ancestors :: "(bitcoin_BlockHash, bitcoin_BlockHash list) fmap"
  ar_headers :: "(BlockHash, Header) fmap"
  ar_invalid_blocks :: "BlockHash fset"
  ar_main_block_hash_to_height :: "(bitcoin_BlockHash, u32) fmap"
  ar_main_block_infos :: "(bitcoin_BlockHash, BlockInfo) fmap"
  ar_main_header_infos :: "(bitcoin_BlockHash, BlockHeaderInfo) fmap"
  ar_main_successors :: "(bitcoin_BlockHash, bitcoin_BlockHash fset) fmap"
  ar_side_tips :: SideTips
  ar_successors :: "(BlockHash option, BlockHash fset) fmap"
  ar_total_work :: "(bitcoin_BlockHash, Work) fmap"
  ar_txid_to_inclusions :: "(Txid, (BlockHash, u32) fmap) fmap"

definition Archive_new :: Archive where
  "Archive_new =
     \<lparr>ar_block_hash_to_height = fmempty, ar_bmm_results = fmempty, ar_bodies = fmempty,
      ar_exponential_ancestors = fmempty, ar_exponential_main_ancestors = fmempty,
      ar_headers = fmempty, ar_invalid_blocks = {||}, ar_main_block_hash_to_height = fmempty,
      ar_main_block_infos = fmempty, ar_main_header_infos = fmempty,
      ar_main_successors = fmupd 0 {||} fmempty, ar_side_tips = side_tips_create,
      ar_successors = fmupd None {||} fmempty, ar_total_work = fmempty,
      ar_txid_to_inclusions = fmempty\<rparr>"

subsection \<open>Orders of iteration\<close>

lemma distinct_sorted_list_of_fset [simp]: "distinct (sorted_list_of_fset S)"
  by (simp add: sorted_list_of_fset.rep_eq)

typedef hash_order = "{f :: hash fset \<Rightarrow> hash list. \<forall>S. set (f S) = fset S \<and> distinct (f S)}"
  morphisms in_order hash_order
  by (rule exI [of _ sorted_list_of_fset]) simp

lemma set_in_order [simp]: "set (in_order ho S) = fset S" and distinct_in_order [simp]: "distinct (in_order ho S)"
  using in_order [of ho] by auto

lemma length_in_order [simp]: "length (in_order ho S) = fcard S"
  by (metis set_in_order distinct_in_order distinct_card fcard.rep_eq)

definition ascending :: hash_order where
  "ascending = hash_order sorted_list_of_fset"

lemma in_order_ascending [simp]: "in_order ascending S = sorted_list_of_fset S"
  unfolding ascending_def by (subst hash_order_inverse) simp_all

section \<open>Queries\<close>

definition try_get_height :: "Archive \<Rightarrow> BlockHash \<Rightarrow> u32 option" where
  "try_get_height a block_hash = fmlookup (ar_block_hash_to_height a) block_hash"

definition get_height :: "Archive \<Rightarrow> BlockHash \<Rightarrow> (ArchiveError, u32) result" where
  "get_height a block_hash = ok_or (A_NoHeight block_hash) (try_get_height a block_hash)"

definition get_bmm_results :: "Archive \<Rightarrow> BlockHash \<Rightarrow> (bitcoin_BlockHash, BmmResult) fmap" where
  "get_bmm_results a block_hash = (case fmlookup (ar_bmm_results a) block_hash of Some r \<Rightarrow> r | None \<Rightarrow> fmempty)"

definition contains_body :: "Archive \<Rightarrow> BlockHash \<Rightarrow> bool" where
  "contains_body a block_hash \<longleftrightarrow> fmlookup (ar_bodies a) block_hash \<noteq> None"

definition try_get_bmm_result :: "Archive \<Rightarrow> BlockHash \<Rightarrow> bitcoin_BlockHash \<Rightarrow> BmmResult option" where
  "try_get_bmm_result a block_hash main_hash = fmlookup (get_bmm_results a block_hash) main_hash"

definition get_bmm_result :: "Archive \<Rightarrow> BlockHash \<Rightarrow> bitcoin_BlockHash \<Rightarrow> (ArchiveError, BmmResult) result" where
  "get_bmm_result a block_hash main_hash = ok_or (A_NoBmmResult block_hash) (try_get_bmm_result a block_hash main_hash)"

definition try_get_body :: "Archive \<Rightarrow> BlockHash \<Rightarrow> Body option" where
  "try_get_body a block_hash = fmlookup (ar_bodies a) block_hash"

definition get_body :: "Archive \<Rightarrow> BlockHash \<Rightarrow> (ArchiveError, Body) result" where
  "get_body a block_hash = ok_or (A_NoBody block_hash) (try_get_body a block_hash)"

definition invalidated_block :: "Archive \<Rightarrow> BlockHash \<Rightarrow> bool" where
  "invalidated_block a block_hash \<longleftrightarrow> block_hash |\<in>| ar_invalid_blocks a"

definition try_get_header :: "Archive \<Rightarrow> BlockHash \<Rightarrow> Header option" where
  "try_get_header a block_hash = fmlookup (ar_headers a) block_hash"

definition get_header :: "Archive \<Rightarrow> BlockHash \<Rightarrow> (ArchiveError, Header) result" where
  "get_header a block_hash = ok_or (A_NoHeader block_hash) (try_get_header a block_hash)"

definition try_get_block :: "Archive \<Rightarrow> BlockHash \<Rightarrow> (ArchiveError, ArchivedBlock option) result" where
  "try_get_block a block_hash =
     (case try_get_body a block_hash of
        None \<Rightarrow> Ok None
      | Some body \<Rightarrow>
          rbind (get_header a block_hash) (\<lambda>header.
          rbind (get_height a block_hash) (\<lambda>height.
          Ok (Some \<lparr>ab_header = header, ab_body = body, ab_height = height\<rparr>))))"

definition get_block :: "Archive \<Rightarrow> BlockHash \<Rightarrow> (ArchiveError, ArchivedBlock) result" where
  "get_block a block_hash = rbind (try_get_block a block_hash) (ok_or (A_NoBlock block_hash))"

definition try_get_main_block_info :: "Archive \<Rightarrow> bitcoin_BlockHash \<Rightarrow> BlockInfo option" where
  "try_get_main_block_info a main_hash = fmlookup (ar_main_block_infos a) main_hash"

definition get_main_block_info :: "Archive \<Rightarrow> bitcoin_BlockHash \<Rightarrow> (ArchiveError, BlockInfo) result" where
  "get_main_block_info a main_hash = ok_or (A_NoMainBlockInfo main_hash) (try_get_main_block_info a main_hash)"

definition try_get_main_height :: "Archive \<Rightarrow> bitcoin_BlockHash \<Rightarrow> u32 option" where
  "try_get_main_height a block_hash = fmlookup (ar_main_block_hash_to_height a) block_hash"

definition get_main_height :: "Archive \<Rightarrow> bitcoin_BlockHash \<Rightarrow> (ArchiveError, u32) result" where
  "get_main_height a block_hash = ok_or (A_NoMainHeight block_hash) (try_get_main_height a block_hash)"

definition try_get_main_header_info :: "Archive \<Rightarrow> bitcoin_BlockHash \<Rightarrow> BlockHeaderInfo option" where
  "try_get_main_header_info a block_hash = fmlookup (ar_main_header_infos a) block_hash"

definition get_main_header_info :: "Archive \<Rightarrow> bitcoin_BlockHash \<Rightarrow> (ArchiveError, BlockHeaderInfo) result" where
  "get_main_header_info a block_hash = ok_or (A_NoMainHeaderInfo block_hash) (try_get_main_header_info a block_hash)"

definition try_get_main_successors :: "Archive \<Rightarrow> bitcoin_BlockHash \<Rightarrow> bitcoin_BlockHash fset option" where
  "try_get_main_successors a block_hash = fmlookup (ar_main_successors a) block_hash"

definition get_main_successors :: "Archive \<Rightarrow> bitcoin_BlockHash \<Rightarrow> (ArchiveError, bitcoin_BlockHash fset) result" where
  "get_main_successors a block_hash = ok_or (A_NoMainBlockHash block_hash) (try_get_main_successors a block_hash)"

definition try_get_successors :: "Archive \<Rightarrow> BlockHash option \<Rightarrow> BlockHash fset option" where
  "try_get_successors a block_hash = fmlookup (ar_successors a) block_hash"

definition get_successors :: "Archive \<Rightarrow> BlockHash option \<Rightarrow> (ArchiveError, BlockHash fset) result" where
  "get_successors a block_hash =
     (case try_get_successors a block_hash of
        Some successors \<Rightarrow> Ok successors
      | None \<Rightarrow> rbind (expect block_hash) (\<lambda>b. Err (A_NoBlockHash b)))"

definition try_get_total_work :: "Archive \<Rightarrow> bitcoin_BlockHash \<Rightarrow> Work option" where
  "try_get_total_work a block_hash = fmlookup (ar_total_work a) block_hash"

definition get_total_work :: "Archive \<Rightarrow> bitcoin_BlockHash \<Rightarrow> (ArchiveError, Work) result" where
  "get_total_work a block_hash = ok_or (A_NoMainHeaderInfo block_hash) (try_get_total_work a block_hash)"

definition get_tx_inclusions :: "Archive \<Rightarrow> Txid \<Rightarrow> (BlockHash, u32) fmap" where
  "get_tx_inclusions a t = (case fmlookup (ar_txid_to_inclusions a) t of Some m \<Rightarrow> m | None \<Rightarrow> fmempty)"

text \<open>
  The verified mainchain block with most work; of equals the last in iteration order, as
  \<open>max_by_key\<close> keeps the later one.
\<close>

fun best_by_work :: "Archive \<Rightarrow> bitcoin_BlockHash list \<Rightarrow> (bitcoin_BlockHash \<times> Work) option
    \<Rightarrow> (ArchiveError, bitcoin_BlockHash option) result" where
  "best_by_work a [] best = Ok (map_option fst best)"
| "best_by_work a (b # bs) best =
     rbind (get_total_work a b) (\<lambda>work.
       best_by_work a bs (case best of
           None \<Rightarrow> Some (b, work)
         | Some (b', work') \<Rightarrow> if work' \<le> work then Some (b, work) else Some (b', work')))"

definition try_get_best_main_verification ::
  "hash_order \<Rightarrow> Archive \<Rightarrow> BlockHash \<Rightarrow> (ArchiveError, bitcoin_BlockHash option) result" where
  "try_get_best_main_verification ho a block_hash =
     (let verifications = get_bmm_results a block_hash in
      best_by_work a (filter (\<lambda>b. fmlookup verifications b = Some BmmVerified) (in_order ho (fmdom verifications))) None)"

definition get_best_main_verification ::
  "hash_order \<Rightarrow> Archive \<Rightarrow> BlockHash \<Rightarrow> (ArchiveError, bitcoin_BlockHash) result" where
  "get_best_main_verification ho a block_hash =
     rbind (try_get_best_main_verification ho a block_hash) (ok_or (A_NoBmmResult block_hash))"

section \<open>Ancestors\<close>

definition side_chain :: "Archive \<Rightarrow> (ArchiveError, BlockHash) chain" where
  "side_chain a =
     \<lparr>c_height = get_height a,
      c_parent = (\<lambda>b. rbind (get_header a b) (\<lambda>header. expect (hd_prev_side_hash header))),
      c_skips = (\<lambda>b. ok_or A_DbMissing (fmlookup (ar_exponential_ancestors a) b)),
      c_no_ancestor = A_NoAncestor\<rparr>"

definition main_chain :: "Archive \<Rightarrow> (ArchiveError, bitcoin_BlockHash) chain" where
  "main_chain a =
     \<lparr>c_height = get_main_height a,
      c_parent = (\<lambda>b. rbind (get_main_header_info a b) (\<lambda>info. Ok (bhi_prev_block_hash info))),
      c_skips = (\<lambda>b. ok_or A_DbMissing (fmlookup (ar_exponential_main_ancestors a) b)),
      c_no_ancestor = A_NoMainAncestor\<rparr>"

definition get_nth_ancestor :: "Archive \<Rightarrow> BlockHash \<Rightarrow> u32 \<Rightarrow> (ArchiveError, BlockHash) result" where
  "get_nth_ancestor a = nth_ancestor (side_chain a)"

definition get_nth_main_ancestor :: "Archive \<Rightarrow> bitcoin_BlockHash \<Rightarrow> u32 \<Rightarrow> (ArchiveError, bitcoin_BlockHash) result" where
  "get_nth_main_ancestor a = nth_ancestor (main_chain a)"

definition get_block_locator :: "Archive \<Rightarrow> BlockHash \<Rightarrow> (ArchiveError, BlockHash list) result" where
  "get_block_locator a block_hash =
     rbind (get_header a block_hash) (\<lambda>header.
     rbind (ok_or A_DbMissing (fmlookup (ar_exponential_ancestors a) block_hash)) (\<lambda>res.
     Ok (case hd_prev_side_hash header of None \<Rightarrow> res | Some parent \<Rightarrow> rev (rev res @ [parent]))))"

definition is_descendant :: "Archive \<Rightarrow> BlockHash \<Rightarrow> BlockHash \<Rightarrow> (ArchiveError, bool) result" where
  "is_descendant a = chain_is_descendant (side_chain a)"

definition is_main_descendant :: "Archive \<Rightarrow> bitcoin_BlockHash \<Rightarrow> bitcoin_BlockHash \<Rightarrow> (ArchiveError, bool) result" where
  "is_main_descendant a = chain_is_descendant (main_chain a)"

definition last_common_ancestor :: "Archive \<Rightarrow> BlockHash \<Rightarrow> BlockHash \<Rightarrow> (ArchiveError, BlockHash option) result" where
  "last_common_ancestor a block_hash0 block_hash1 =
     rbind (equalize (side_chain a) block_hash0 block_hash1) (\<lambda>(block_hash0, block_hash1, height0).
       if block_hash0 = block_hash1 then Ok (Some block_hash0)
       else rbind (get_nth_ancestor a block_hash0 height0) (\<lambda>oldest_ancestor_0.
         rbind (get_nth_ancestor a block_hash1 height0) (\<lambda>oldest_ancestor_1.
         if oldest_ancestor_0 \<noteq> oldest_ancestor_1 then Ok None
         else rbind (common_search (side_chain a) block_hash0 block_hash1 height0) (\<lambda>b. Ok (Some b)))))"

definition last_common_main_ancestor ::
  "Archive \<Rightarrow> bitcoin_BlockHash \<Rightarrow> bitcoin_BlockHash \<Rightarrow> (ArchiveError, bitcoin_BlockHash) result" where
  "last_common_main_ancestor a block_hash0 block_hash1 =
     rbind (equalize (main_chain a) block_hash0 block_hash1) (\<lambda>(block_hash0, block_hash1, height0).
       if block_hash0 = block_hash1 then Ok block_hash0
       else common_search (main_chain a) block_hash0 block_hash1 height0)"

definition shared_mainchain_lineage ::
  "Archive \<Rightarrow> bitcoin_BlockHash \<Rightarrow> bitcoin_BlockHash \<Rightarrow> (ArchiveError, bool) result" where
  "shared_mainchain_lineage a block_hash0 block_hash1 =
     rbind (equalize (main_chain a) block_hash0 block_hash1) (\<lambda>(block_hash0, block_hash1, _).
       Ok (block_hash0 = block_hash1))"

definition main_parent_header_info :: "Archive \<Rightarrow> BlockHeaderInfo \<Rightarrow> (ArchiveError, BlockHeaderInfo option) result" where
  "main_parent_header_info a header_info =
     (if bhi_prev_block_hash header_info = 0 then Ok None
      else rbind (get_main_header_info a (bhi_prev_block_hash header_info)) (\<lambda>info. Ok (Some info)))"

section \<open>Storing headers\<close>

text \<open>
  Whether a mainchain block that verifies the parent lies in the ancestry of \<open>main_block\<close>;
  \<open>any\<close> stops at the first one found.
\<close>

fun any_verified_ancestor ::
  "Archive \<Rightarrow> (bitcoin_BlockHash, BmmResult) fmap \<Rightarrow> bitcoin_BlockHash \<Rightarrow> bitcoin_BlockHash list \<Rightarrow> (ArchiveError, bool) result" where
  "any_verified_ancestor a parent_bmm_results main_block [] = Ok False"
| "any_verified_ancestor a parent_bmm_results main_block (bmm_block # bs) =
     (if fmlookup parent_bmm_results bmm_block = Some BmmVerified then
        rbind (is_main_descendant a bmm_block main_block) (\<lambda>verified.
          if verified then Ok True else any_verified_ancestor a parent_bmm_results main_block bs)
      else any_verified_ancestor a parent_bmm_results main_block bs)"

definition parent_verified ::
  "hash_order \<Rightarrow> Archive \<Rightarrow> (bitcoin_BlockHash, BmmResult) fmap \<Rightarrow> bitcoin_BlockHash \<Rightarrow> (ArchiveError, BmmResult) result" where
  "parent_verified ho a parent_bmm_results main_block =
     rbind (any_verified_ancestor a parent_bmm_results main_block (in_order ho (fmdom parent_bmm_results))) (\<lambda>found.
       Ok (if found then BmmVerified else BmmFailed))"

text \<open>The body of the loop over the successors of \<open>header.prev_main_hash\<close>.\<close>

definition bmm_result_at ::
  "hash_order \<Rightarrow> Archive \<Rightarrow> Header \<Rightarrow> BlockHash \<Rightarrow> bitcoin_BlockHash \<Rightarrow> (ArchiveError, BmmResult) result" where
  "bmm_result_at ho a header block_hash main_block =
     rbind (get_main_block_info a main_block) (\<lambda>info.
       if bi_bmm_commitment info \<noteq> Some block_hash then Ok BmmFailed
       else rbind (get_main_header_info a main_block) (\<lambda>main_header_info.
         if hd_prev_main_hash header \<noteq> bhi_prev_block_hash main_header_info then Ok BmmFailed
         else case hd_prev_side_hash header of
             None \<Rightarrow> Ok BmmVerified
           | Some parent \<Rightarrow> parent_verified ho a (get_bmm_results a parent) main_block))"

definition populate_bmm_results ::
  "hash_order \<Rightarrow> Archive \<Rightarrow> Header \<Rightarrow> BlockHash \<Rightarrow> (ArchiveError, (bitcoin_BlockHash, BmmResult) fmap) result" where
  "populate_bmm_results ho a header block_hash =
     rbind (get_main_successors a (hd_prev_main_hash header)) (\<lambda>main_blocks.
       try_fold (\<lambda>main_block bmm_results.
         rbind (bmm_result_at ho a header block_hash main_block) (\<lambda>r. Ok (fmupd main_block r bmm_results)))
         (in_order ho main_blocks) (get_bmm_results a block_hash))"

text \<open>Register a block with its predecessor, and give it an entry of its own.\<close>

definition add_successor :: "BlockHash option \<Rightarrow> BlockHash \<Rightarrow> Archive \<Rightarrow> (ArchiveError, Archive) result" where
  "add_successor prev block_hash a =
     rbind (get_successors a prev) (\<lambda>pred_successors.
       let a = a\<lparr>ar_successors := fmupd prev (finsert block_hash pred_successors) (ar_successors a)\<rparr>;
           successors = (case try_get_successors a (Some block_hash) of Some s \<Rightarrow> s | None \<Rightarrow> {||}) in
       Ok (a\<lparr>ar_successors := fmupd (Some block_hash) successors (ar_successors a)\<rparr>))"

definition put_header :: "externs \<Rightarrow> hash_order \<Rightarrow> Header \<Rightarrow> Archive \<Rightarrow> (ArchiveError, Archive) result" where
  "put_header E ho header a =
     rbind (case hd_prev_side_hash header of
         None \<Rightarrow> Ok 0
       | Some parent \<Rightarrow> rbind (ok_or A_InvalidPrevSideHash (try_get_height a parent)) (\<lambda>h. add_word h 1)) (\<lambda>height.
     let block_hash = header_hash E header;
         a = a\<lparr>ar_block_hash_to_height := fmupd block_hash height (ar_block_hash_to_height a),
               ar_headers := fmupd block_hash header (ar_headers a)\<rparr> in
     rbind (add_successor (hd_prev_side_hash header) block_hash a) (\<lambda>a.
     rbind (skip_list (side_chain a) height (hd_prev_side_hash header)) (\<lambda>exponential_ancestors.
     let a = a\<lparr>ar_exponential_ancestors := fmupd block_hash exponential_ancestors (ar_exponential_ancestors a)\<rparr> in
     rbind (populate_bmm_results ho a header block_hash) (\<lambda>bmm_results.
     Ok (a\<lparr>ar_bmm_results := fmupd block_hash bmm_results (ar_bmm_results a)\<rparr>)))))"

definition put_main_block_info ::
  "hash_order \<Rightarrow> bitcoin_BlockHash \<Rightarrow> BlockInfo \<Rightarrow> Archive \<Rightarrow> (ArchiveError, Archive) result" where
  "put_main_block_info ho main_hash main_block_info a =
     rbind (get_main_header_info a main_hash) (\<lambda>main_header_info.
     rbind (if bhi_prev_block_hash main_header_info \<noteq> 0
         then rbind (get_main_block_info a (bhi_prev_block_hash main_header_info)) (\<lambda>_. Ok ()) else Ok ()) (\<lambda>_.
     let a = a\<lparr>ar_main_block_infos := fmupd main_hash main_block_info (ar_main_block_infos a)\<rparr> in
     case bi_bmm_commitment main_block_info of
       None \<Rightarrow> Ok a
     | Some commitment \<Rightarrow>
         (case try_get_header a commitment of
            None \<Rightarrow> Ok a
          | Some header \<Rightarrow>
              rbind (if hd_prev_main_hash header \<noteq> bhi_prev_block_hash main_header_info then Ok BmmFailed
                else case hd_prev_side_hash header of
                    Some parent \<Rightarrow> parent_verified ho a (get_bmm_results a parent) main_hash
                  | None \<Rightarrow> Ok BmmVerified) (\<lambda>bmm_result.
              Ok (a\<lparr>ar_bmm_results :=
                fmupd commitment (fmupd main_hash bmm_result (get_bmm_results a commitment)) (ar_bmm_results a)\<rparr>)))))"

definition add_main_successor :: "bitcoin_BlockHash \<Rightarrow> bitcoin_BlockHash \<Rightarrow> Archive \<Rightarrow> (ArchiveError, Archive) result" where
  "add_main_successor prev block_hash a =
     rbind (get_main_successors a prev) (\<lambda>pred_successors.
       let a = a\<lparr>ar_main_successors := fmupd prev (finsert block_hash pred_successors) (ar_main_successors a)\<rparr>;
           successors = (case try_get_main_successors a block_hash of Some s \<Rightarrow> s | None \<Rightarrow> {||}) in
       Ok (a\<lparr>ar_main_successors := fmupd block_hash successors (ar_main_successors a)\<rparr>))"

definition put_main_header_info :: "tip_externs \<Rightarrow> BlockHeaderInfo \<Rightarrow> Archive \<Rightarrow> (ArchiveError, Archive) result" where
  "put_main_header_info X header_info a =
     (let prev = bhi_prev_block_hash header_info; block_hash = bhi_block_hash header_info in
      rbind (ensure (try_get_main_header_info a prev \<noteq> None \<or> prev = 0) (A_NoMainHeaderInfo prev)) (\<lambda>_.
      rbind (if prev = 0 then Ok 0 else rbind (get_main_height a prev) (\<lambda>prev_height. add_word prev_height 1)) (\<lambda>height.
      rbind (if prev \<noteq> 0
          then rbind (get_total_work a prev) (\<lambda>prev_work. Ok (tx_work_add X prev_work (bhi_work header_info)))
          else Ok (bhi_work header_info)) (\<lambda>total_work.
      let a = a\<lparr>ar_main_block_hash_to_height := fmupd block_hash height (ar_main_block_hash_to_height a),
                ar_main_header_infos := fmupd block_hash header_info (ar_main_header_infos a),
                ar_total_work := fmupd block_hash total_work (ar_total_work a)\<rparr> in
      rbind (add_main_successor prev block_hash a) (\<lambda>a.
      rbind (skip_list (main_chain a) height (Some prev)) (\<lambda>exponential_ancestors.
      Ok (a\<lparr>ar_exponential_main_ancestors :=
        fmupd block_hash exponential_ancestors (ar_exponential_main_ancestors a)\<rparr>)))))))"

section \<open>Storing and deleting bodies\<close>

definition add_inclusion :: "externs \<Rightarrow> BlockHash \<Rightarrow> nat \<times> Transaction \<Rightarrow> Archive \<Rightarrow> Archive" where
  "add_inclusion E block_hash = (\<lambda>(txin, tx) a.
     let inclusions = fmupd block_hash (of_nat txin) (get_tx_inclusions a (txid E tx)) in
     a\<lparr>ar_txid_to_inclusions := fmupd (txid E tx) inclusions (ar_txid_to_inclusions a)\<rparr>)"

text \<open>The body of the loop over the BMM results of a block; the flag tells whether a tip was connected.\<close>

definition connect_tip_at ::
  "BlockHash \<Rightarrow> Header \<Rightarrow> bitcoin_BlockHash \<Rightarrow> bitcoin_BlockHash \<times> BmmResult \<Rightarrow> Archive \<times> bool \<Rightarrow> (ArchiveError, Archive \<times> bool) result" where
  "connect_tip_at block_hash header mainchain_tip = (\<lambda>(main_block_hash, bmm_result) (a, connected).
     if bmm_result = BmmFailed then Ok (a, connected)
     else if (case hd_prev_side_hash header of
         Some side_parent \<Rightarrow> fmlookup (sd_sidechain_tips (ar_side_tips a)) side_parent = None | None \<Rightarrow> False)
     then Ok (a, connected)
     else rbind (is_main_descendant a main_block_hash mainchain_tip) (\<lambda>active.
       if \<not> active then Ok (a, connected)
       else rbind (get_total_work a main_block_hash) (\<lambda>cumulative_work.
         rbind (map_err A_SideTips
             (connect_sidechain_tip main_block_hash cumulative_work block_hash (header_data_of header) (ar_side_tips a))) (\<lambda>tips.
         Ok (a\<lparr>ar_side_tips := tips\<rparr>, True)))))"

definition update_side_tips ::
  "hash_order \<Rightarrow> bitcoin_BlockHash \<Rightarrow> BlockHash \<Rightarrow> Header \<Rightarrow> Archive \<times> BlockHash list \<Rightarrow> (ArchiveError, Archive \<times> BlockHash list) result" where
  "update_side_tips ho mainchain_tip block_hash header = (\<lambda>(a, queue).
     let results = get_bmm_results a block_hash;
         rows = map (\<lambda>b. (b, the (fmlookup results b))) (in_order ho (fmdom results)) in
     rbind (try_fold (connect_tip_at block_hash header mainchain_tip) rows (a, False)) (\<lambda>(a, connected).
       if connected then rbind (get_successors a (Some block_hash)) (\<lambda>successors. Ok (a, queue @ in_order ho successors))
       else Ok (a, queue)))"

text \<open>
  The loop over the queue. It ends when the successor table has no cycle; the fuel bounds the
  number of rounds, and \<open>None\<close> says it was too little.
\<close>

fun update_side_tips_loop ::
  "nat \<Rightarrow> hash_order \<Rightarrow> bitcoin_BlockHash \<Rightarrow> Archive \<times> BlockHash list \<Rightarrow> (ArchiveError, Archive) result option" where
  "update_side_tips_loop fuel ho mainchain_tip (a, []) = Some (Ok a)"
| "update_side_tips_loop 0 ho mainchain_tip (a, block_hash # queue) = None"
| "update_side_tips_loop (Suc fuel) ho mainchain_tip (a, block_hash # queue) =
     (if \<not> contains_body a block_hash then update_side_tips_loop fuel ho mainchain_tip (a, queue)
      else case rbind (get_header a block_hash) (\<lambda>header.
          update_side_tips ho mainchain_tip block_hash header (a, queue)) of
        Ok s \<Rightarrow> update_side_tips_loop fuel ho mainchain_tip s
      | Err e \<Rightarrow> Some (Err e)
      | Panic \<Rightarrow> Some Panic)"

definition put_body ::
  "nat \<Rightarrow> externs \<Rightarrow> hash_order \<Rightarrow> BlockHash \<Rightarrow> Body \<Rightarrow> Archive \<Rightarrow> (ArchiveError, Archive) result option" where
  "put_body fuel E ho block_hash body a =
     (case get_header a block_hash of
        Ok header \<Rightarrow>
          (let a = fold (add_inclusion E block_hash) (enumerate 0 (bo_transactions body))
                 (a\<lparr>ar_bodies := fmupd block_hash body (ar_bodies a)\<rparr>);
               mainchain_tip = mt_block_hash (sd_mainchain_tip (ar_side_tips a)) in
           case update_side_tips ho mainchain_tip block_hash header (a, []) of
             Ok s \<Rightarrow> update_side_tips_loop fuel ho mainchain_tip s
           | Err e \<Rightarrow> Some (Err e)
           | Panic \<Rightarrow> Some Panic)
      | Err e \<Rightarrow> Some (Err e)
      | Panic \<Rightarrow> Some Panic)"

definition remove_inclusion :: "externs \<Rightarrow> BlockHash \<Rightarrow> Transaction \<Rightarrow> Archive \<Rightarrow> Archive" where
  "remove_inclusion E block_hash tx a =
     (let inclusions = fmdrop block_hash (get_tx_inclusions a (txid E tx)) in
      if inclusions = fmempty
      then a\<lparr>ar_txid_to_inclusions := fmdrop (txid E tx) (ar_txid_to_inclusions a)\<rparr>
      else a\<lparr>ar_txid_to_inclusions := fmupd (txid E tx) inclusions (ar_txid_to_inclusions a)\<rparr>)"

lemma disconnect_sidechain_tip_fewer:
  "fmlookup (sd_sidechain_tips s) b = Some info \<Longrightarrow>
     fcard (fmdom (sd_sidechain_tips (disconnect_sidechain_tip b s))) < fcard (fmdom (sd_sidechain_tips s))"
proof -
  assume b: "fmlookup (sd_sidechain_tips s) b = Some info"
  then have "fmdom (sd_sidechain_tips (disconnect_sidechain_tip b s)) = fmdom (sd_sidechain_tips s) |-| {|b|}"
    by (auto simp: disconnect_sidechain_tip_def)
  with b show ?thesis by (metis fcard_fminus1_less fmdomI)
qed

text \<open>
  Disconnect the block from the side tips, and its descendants after it. Every round either
  shortens the queue or removes a side tip.
\<close>

function disconnect_tips_loop :: "hash_order \<Rightarrow> BlockHash list \<Rightarrow> Archive \<Rightarrow> (ArchiveError, Archive) result" where
  "disconnect_tips_loop ho [] a = Ok a"
| "disconnect_tips_loop ho (block_hash # queue) a =
     (if fmlookup (sd_sidechain_tips (ar_side_tips a)) block_hash = None
      then disconnect_tips_loop ho queue a
      else (let a' = a\<lparr>ar_side_tips := disconnect_sidechain_tip block_hash (ar_side_tips a)\<rparr> in
        case get_successors a' (Some block_hash) of
          Ok successors \<Rightarrow> disconnect_tips_loop ho (queue @ in_order ho successors) a'
        | Err e \<Rightarrow> Err e
        | Panic \<Rightarrow> Panic))"
  by pat_completeness auto
termination
proof (relation "measures [\<lambda>(_, _, a). fcard (fmdom (sd_sidechain_tips (ar_side_tips a))), \<lambda>(_, queue, _). length queue]", goal_cases)
  case (3 ho block_hash queue a a' successors)
  then show ?case using disconnect_sidechain_tip_fewer [of "ar_side_tips a" block_hash] by auto
qed simp_all

definition delete_body :: "externs \<Rightarrow> hash_order \<Rightarrow> BlockHash \<Rightarrow> Body \<Rightarrow> Archive \<Rightarrow> (ArchiveError, Archive) result" where
  "delete_body E ho block_hash body a =
     disconnect_tips_loop ho [block_hash]
       (fold (remove_inclusion E block_hash) (bo_transactions body) (a\<lparr>ar_bodies := fmdrop block_hash (ar_bodies a)\<rparr>))"

section \<open>Invalidating blocks\<close>

definition remove_known_inclusion :: "externs \<Rightarrow> BlockHash \<Rightarrow> Transaction \<Rightarrow> Archive \<Rightarrow> Archive" where
  "remove_known_inclusion E block_hash tx a =
     (if fmlookup (ar_txid_to_inclusions a) (txid E tx) = None then a else remove_inclusion E block_hash tx a)"

text \<open>One round: forget the block, mark it invalid, and answer its successors.\<close>

definition invalidate_one :: "externs \<Rightarrow> BlockHash \<Rightarrow> Archive \<Rightarrow> Archive \<times> BlockHash fset" where
  "invalidate_one E block_hash a =
     (let a = a\<lparr>ar_block_hash_to_height := fmdrop block_hash (ar_block_hash_to_height a)\<rparr>;
          a = (case fmlookup (ar_bodies a) block_hash of
                 Some body \<Rightarrow> fold (remove_known_inclusion E block_hash) (bo_transactions body) a
               | None \<Rightarrow> a);
          a = a\<lparr>ar_bodies := fmdrop block_hash (ar_bodies a),
                ar_exponential_ancestors := fmdrop block_hash (ar_exponential_ancestors a)\<rparr>;
          a = (case fmlookup (ar_headers a) block_hash of
                 None \<Rightarrow> a
               | Some header \<Rightarrow>
                   (case fmlookup (ar_successors a) (hd_prev_side_hash header) of
                      None \<Rightarrow> a
                    | Some pred_successors \<Rightarrow>
                        a\<lparr>ar_successors := fmupd (hd_prev_side_hash header)
                            (pred_successors |-| {|block_hash|}) (ar_successors a)\<rparr>));
          a = a\<lparr>ar_headers := fmdrop block_hash (ar_headers a),
                ar_invalid_blocks := finsert block_hash (ar_invalid_blocks a)\<rparr>;
          successors = (case fmlookup (ar_successors a) (Some block_hash) of Some s \<Rightarrow> s | None \<Rightarrow> {||}) in
      (a\<lparr>ar_successors := fmdrop (Some block_hash) (ar_successors a)\<rparr>, successors))"

lemma remove_inclusion_frame [simp]:
  "ar_successors (remove_known_inclusion E b tx a) = ar_successors a"
  "ar_headers (remove_known_inclusion E b tx a) = ar_headers a"
  "ar_bodies (remove_known_inclusion E b tx a) = ar_bodies a"
  "ar_block_hash_to_height (remove_known_inclusion E b tx a) = ar_block_hash_to_height a"
  "ar_exponential_ancestors (remove_known_inclusion E b tx a) = ar_exponential_ancestors a"
  "ar_invalid_blocks (remove_known_inclusion E b tx a) = ar_invalid_blocks a"
  by (simp_all add: remove_known_inclusion_def remove_inclusion_def Let_def)

lemma remove_inclusions_frame [simp]:
  "ar_successors (fold (remove_known_inclusion E b) txs a) = ar_successors a"
  "ar_headers (fold (remove_known_inclusion E b) txs a) = ar_headers a"
  "ar_bodies (fold (remove_known_inclusion E b) txs a) = ar_bodies a"
  "ar_block_hash_to_height (fold (remove_known_inclusion E b) txs a) = ar_block_hash_to_height a"
  "ar_exponential_ancestors (fold (remove_known_inclusion E b) txs a) = ar_exponential_ancestors a"
  "ar_invalid_blocks (fold (remove_known_inclusion E b) txs a) = ar_invalid_blocks a"
  by (induction txs arbitrary: a) simp_all

text \<open>The number of entries of the successor table: each round moves some of them to the stack.\<close>

definition successor_count :: "Archive \<Rightarrow> nat" where
  "successor_count a = db_total fcard (ar_successors a)"

lemma invalidate_one_count:
  "invalidate_one E b a = (a', successors) \<Longrightarrow> successor_count a' + fcard successors \<le> successor_count a"
proof -
  assume inv: "invalidate_one E b a = (a', successors)"
  define m where "m = (case fmlookup (ar_headers a) b of
      None \<Rightarrow> ar_successors a
    | Some header \<Rightarrow> (case fmlookup (ar_successors a) (hd_prev_side_hash header) of
        None \<Rightarrow> ar_successors a
      | Some ps \<Rightarrow> fmupd (hd_prev_side_hash header) (ps |-| {|b|}) (ar_successors a)))"
  have a': "ar_successors a' = fmdrop (Some b) m"
    and s: "successors = (case fmlookup m (Some b) of Some s \<Rightarrow> s | None \<Rightarrow> {||})"
    using inv by (auto simp: invalidate_one_def m_def Let_def split: option.splits)
  have "db_total fcard m \<le> successor_count a"
  proof -
    have "db_total fcard (fmupd k (ps |-| {|b|}) (ar_successors a)) \<le> db_total fcard (ar_successors a)"
      if "fmlookup (ar_successors a) k = Some ps" for k ps
    proof -
      have e: "fmupd k (ps |-| {|b|}) (ar_successors a) = fmupd k (ps |-| {|b|}) (fmdrop k (ar_successors a))"
        by (rule fmap_ext) simp
      have "fcard (ps |-| {|b|}) \<le> fcard ps" by (rule fcard_mono) auto
      then show ?thesis unfolding e using db_total_drop [OF that, of fcard] by (simp add: db_total_put_fresh)
    qed
    then show ?thesis by (auto simp: m_def successor_count_def split: option.splits)
  qed
  moreover have "db_total fcard (fmdrop (Some b) m) + fcard successors = db_total fcard m"
    using s db_total_drop [of m "Some b" _ fcard] by (auto simp: db.del_absent split: option.splits)
  ultimately show ?thesis using a' by (simp add: successor_count_def)
qed

function invalidate_loop :: "externs \<Rightarrow> hash_order \<Rightarrow> BlockHash list \<Rightarrow> Archive \<Rightarrow> Archive" where
  "invalidate_loop E ho [] a = a"
| "invalidate_loop E ho (block_hash # stack) a =
     (let (a', successors) = invalidate_one E block_hash a in
      invalidate_loop E ho (rev (in_order ho successors) @ stack) a')"
  by pat_completeness auto
termination
proof (relation "measure (\<lambda>(_, _, stack, a). length stack + successor_count a)", goal_cases)
  case (2 E ho block_hash stack a r a' successors)
  then show ?case using invalidate_one_count [of E block_hash a a' successors] by simp
qed simp

definition invalidate_block :: "externs \<Rightarrow> hash_order \<Rightarrow> BlockHash \<Rightarrow> Archive \<Rightarrow> Archive" where
  "invalidate_block E ho block_hash a = invalidate_loop E ho [block_hash] a"

end
