(* ===== verification/Archive_Invariant.thy ===== *)
theory Archive_Invariant
  imports Archive
begin

text \<open>
  The invariant of the archive. The tables of a chain are consistent when every known block has
  a height, a known parent one lower (unless it is at height 0) and the skip list its height
  asks for; \<open>side\<close> and \<open>main\<close> interpret the interface \<open>ancestry\<close> on the tables of the sidechain
  and the mainchain. Storing headers keeps the invariant, and invalidating a block removes
  exactly the block and its descendants.
\<close>

section \<open>Consistent chains\<close>

text \<open>
  The tables of a chain are consistent on a set of blocks. The set is usually that of all known
  blocks; while a header is being stored it is that of the blocks known before.
\<close>

definition chain_ok ::
  "('h \<Rightarrow> u32 option) \<Rightarrow> ('h \<Rightarrow> 'h option) \<Rightarrow> ('h \<Rightarrow> 'h list option) \<Rightarrow> 'h set \<Rightarrow> bool" where
  "chain_ok ht par sk K \<longleftrightarrow> (\<forall>b\<in>K. \<exists>h s. ht b = Some h \<and> sk b = Some s \<and> skips_ok par h b s \<and>
     (case par b of None \<Rightarrow> h = 0 | Some p \<Rightarrow> p \<in> K \<and> (\<exists>h'. ht p = Some h' \<and> unat h = Suc (unat h'))))"

lemma chain_okD:
  assumes "chain_ok ht par sk K" "b \<in> K"
  obtains h s where "ht b = Some h" "sk b = Some s" "skips_ok par h b s"
    "par b = None \<Longrightarrow> h = 0" "\<And>p. par b = Some p \<Longrightarrow> p \<in> K \<and> (\<exists>h'. ht p = Some h' \<and> unat h = Suc (unat h'))"
  using assms unfolding chain_ok_def by (force split: option.splits)

lemma chain_ok_parent: "chain_ok ht par sk K \<Longrightarrow> b \<in> K \<Longrightarrow> par b = Some p \<Longrightarrow> p \<in> K"
  by (meson chain_okD)

lemma anc_cong:
  assumes "\<And>b. b \<in> K \<Longrightarrow> par' b = par b" "\<And>b p. b \<in> K \<Longrightarrow> par b = Some p \<Longrightarrow> p \<in> K"
  shows "b \<in> K \<Longrightarrow> anc par' n b = anc par n b"
proof (induction n arbitrary: b)
  case (Suc n)
  then show ?case by (cases "par b") (simp_all add: assms)
qed simp

lemma chain_ok_cong:
  assumes ok: "chain_ok ht par sk K"
    and eq: "\<And>b. b \<in> K \<Longrightarrow> ht' b = ht b" "\<And>b. b \<in> K \<Longrightarrow> par' b = par b" "\<And>b. b \<in> K \<Longrightarrow> sk' b = sk b"
  shows "chain_ok ht' par' sk' K"
  unfolding chain_ok_def
proof
  fix b assume b: "b \<in> K"
  from ok b obtain h s where hs: "ht b = Some h" "sk b = Some s" "skips_ok par h b s"
    "par b = None \<Longrightarrow> h = 0" "\<And>p. par b = Some p \<Longrightarrow> p \<in> K \<and> (\<exists>h'. ht p = Some h' \<and> unat h = Suc (unat h'))"
    by (rule chain_okD) (rule that)
  have "anc par' n b = anc par n b" for n
    by (rule anc_cong [of K]) (use eq(2) chain_ok_parent [OF ok] b in auto)
  then have "skips_ok par' h b s" using hs(3) by (simp add: skips_ok_def)
  with hs eq b show "\<exists>h s. ht' b = Some h \<and> sk' b = Some s \<and> skips_ok par' h b s \<and>
      (case par' b of None \<Rightarrow> h = 0 | Some p \<Rightarrow> p \<in> K \<and> (\<exists>h'. ht' p = Some h' \<and> unat h = Suc (unat h')))"
    by (auto split: option.splits)
qed

lemma chain_ok_insert:
  assumes ok: "chain_ok ht par sk K" and b: "ht b = Some h" "skips_ok par h b s"
    and p: "case par b of None \<Rightarrow> h = 0 | Some p \<Rightarrow> p \<in> K \<and> (\<exists>h'. ht p = Some h' \<and> unat h = Suc (unat h'))"
  shows "chain_ok ht par (sk(b := Some s)) (insert b K)"
  unfolding chain_ok_def
proof
  fix c assume "c \<in> insert b K"
  then consider "c = b" | "c \<noteq> b" "c \<in> K" by blast
  then show "\<exists>h s'. ht c = Some h \<and> (sk(b := Some s)) c = Some s' \<and> skips_ok par h c s' \<and>
      (case par c of None \<Rightarrow> h = 0 | Some p \<Rightarrow> p \<in> insert b K \<and> (\<exists>h'. ht p = Some h' \<and> unat h = Suc (unat h')))"
  proof cases
    case 1
    with b p show ?thesis by (auto split: option.splits)
  next
    case 2
    from ok 2(2) show ?thesis by (rule chain_okD) (use 2(1) in \<open>auto split: option.splits\<close>)
  qed
qed

lemma chain_ok_subset:
  assumes "chain_ok ht par sk K" "K' \<subseteq> K" "\<And>b p. b \<in> K' \<Longrightarrow> par b = Some p \<Longrightarrow> p \<in> K'"
  shows "chain_ok ht par sk K'"
  unfolding chain_ok_def
proof
  fix b assume b: "b \<in> K'"
  then have "b \<in> K" using assms(2) by blast
  from assms(1) this show "\<exists>h s. ht b = Some h \<and> sk b = Some s \<and> skips_ok par h b s \<and>
      (case par b of None \<Rightarrow> h = 0 | Some p \<Rightarrow> p \<in> K' \<and> (\<exists>h'. ht p = Some h' \<and> unat h = Suc (unat h')))"
    by (rule chain_okD) (use assms(3) b in \<open>auto split: option.splits\<close>)
qed


lemma chain_ok_laws:
  assumes "chain_ok ht par sk K" "b \<in> K" "ht b = Some h"
  shows "par b = None \<longleftrightarrow> h = 0"
    and "par b = Some p \<Longrightarrow> p \<in> K \<and> (\<exists>h'. ht p = Some h' \<and> unat h = Suc (unat h'))"
    and "\<exists>s. sk b = Some s \<and> skips_ok par h b s"
  by (rule chain_okD [OF assms(1,2)]; use assms(3) in \<open>cases "par b"; fastforce\<close>)+

text \<open>
  Storing a block: its height is read off its parent, its skip list is searched from the parent.
  The block is new, or it is stored again with the same parent.
\<close>

definition child_height :: "('h \<Rightarrow> u32 option) \<Rightarrow> 'h option \<Rightarrow> u32 \<Rightarrow> bool" where
  "child_height ht p h \<longleftrightarrow>
     (case p of None \<Rightarrow> h = 0 | Some p \<Rightarrow> \<exists>hp. ht p = Some hp \<and> unat h = Suc (unat hp))"

lemma chain_ok_again:
  assumes ok: "chain_ok ht par sk K" and h: "child_height ht (par' b) h"
    and same: "b \<in> K \<Longrightarrow> par' b = par b" and ht': "ht' = ht(b := Some h)"
    and off: "\<And>c. c \<noteq> b \<Longrightarrow> par' c = par c"
  shows "chain_ok ht' par' sk K" and "\<And>c. c \<in> K \<Longrightarrow> ht' c = ht c"
proof -
  have "ht b = Some h" if b: "b \<in> K"
  proof -
    from ok b obtain h0 where h0: "ht b = Some h0" by (rule chain_okD)
    note laws = chain_ok_laws [OF ok b h0]
    have "h0 = h"
    proof (cases "par b")
      case None
      then show ?thesis using laws(1) h same [OF b] by (simp add: child_height_def)
    next
      case (Some p)
      then show ?thesis using laws(2) [of p] h same [OF b] by (auto simp: child_height_def intro: unat_eqI)
    qed
    with h0 show ?thesis by simp
  qed
  then show eq: "\<And>c. c \<in> K \<Longrightarrow> ht' c = ht c" by (auto simp: ht')
  show "chain_ok ht' par' sk K"
    by (rule chain_ok_cong [OF ok]) (use eq same off in \<open>metis\<close>)+
qed

lemma anc_child: "par b = Some p \<Longrightarrow> anc par (2 ^ Suc i) b = anc par (2 ^ Suc i - 1) p"
proof -
  assume "par b = Some p"
  then have "anc par (Suc n) b = anc par n p" for n by simp
  moreover have "Suc (2 ^ Suc i - 1) = (2 :: nat) ^ Suc i" by simp
  ultimately show ?thesis by metis
qed

lemma chain_ok_store:
  assumes ok: "chain_ok ht par sk K" and b: "ht b = Some h"
    and root: "par b = None \<Longrightarrow> h = 0 \<and> s = []"
    and child: "\<And>p. par b = Some p \<Longrightarrow> p \<in> K \<and> (\<exists>hp. ht p = Some hp \<and> unat h = Suc (unat hp)) \<and>
      length s = ilog2 (unat h) \<and> (\<forall>i<length s. anc par (2 ^ Suc i - 1) p = Some (s ! i))"
  shows "chain_ok ht par (sk(b := Some s)) (insert b K)"
proof (rule chain_ok_insert [OF ok b])
  show "skips_ok par h b s"
    using root child by (cases "par b") (auto simp: skips_ok_def anc_child simp del: anc.simps power_Suc)
  show "case par b of None \<Rightarrow> h = 0 | Some p \<Rightarrow> p \<in> K \<and> (\<exists>h'. ht p = Some h' \<and> unat h = Suc (unat h'))"
    using root child by (auto split: option.splits)
qed

section \<open>The two chains of the archive\<close>

type_synonym 'h known = "Archive \<times> 'h set"

definition side_parent :: "Archive \<Rightarrow> BlockHash \<Rightarrow> BlockHash option" where
  "side_parent a b = Option.bind (fmlookup (ar_headers a) b) hd_prev_side_hash"

definition main_parent :: "Archive \<Rightarrow> bitcoin_BlockHash \<Rightarrow> bitcoin_BlockHash option" where
  "main_parent a b = Option.bind (fmlookup (ar_main_header_infos a) b) (\<lambda>info.
     if bhi_prev_block_hash info = 0 then None else Some (bhi_prev_block_hash info))"

definition side_ok :: "BlockHash known \<Rightarrow> bool" where
  "side_ok = (\<lambda>(a, K). chain_ok (fmlookup (ar_block_hash_to_height a)) (side_parent a)
     (fmlookup (ar_exponential_ancestors a)) K)"

definition main_ok :: "bitcoin_BlockHash known \<Rightarrow> bool" where
  "main_ok = (\<lambda>(a, K). chain_ok (fmlookup (ar_main_block_hash_to_height a)) (main_parent a)
     (fmlookup (ar_exponential_main_ancestors a)) K)"

definition side_height :: "BlockHash known \<Rightarrow> BlockHash \<Rightarrow> u32 option" where
  "side_height = (\<lambda>(a, K) b. if b \<in> K then fmlookup (ar_block_hash_to_height a) b else None)"

definition main_height :: "bitcoin_BlockHash known \<Rightarrow> bitcoin_BlockHash \<Rightarrow> u32 option" where
  "main_height = (\<lambda>(a, K) b. if b \<in> K then fmlookup (ar_main_block_hash_to_height a) b else None)"

interpretation side: ancestry "\<lambda>s. side_chain (fst s)" side_ok side_height "\<lambda>s. side_parent (fst s)"
proof
  fix s :: "BlockHash known" and b p h
  obtain a K where s: "s = (a, K)" by (cases s)
  assume "side_ok s" "side_height s b = Some h"
  then have ok: "chain_ok (fmlookup (ar_block_hash_to_height a)) (side_parent a)
      (fmlookup (ar_exponential_ancestors a)) K" and b: "b \<in> K" "fmlookup (ar_block_hash_to_height a) b = Some h"
    by (auto simp: s side_ok_def side_height_def split: if_splits)
  note laws = chain_ok_laws [OF ok b]
  show "c_height (side_chain (fst s)) b = Ok h"
    using b by (simp add: s side_chain_def get_height_def try_get_height_def)
  show "side_parent (fst s) b = None \<longleftrightarrow> h = 0" using laws(1) by (simp add: s)
  show "side_parent (fst s) b = Some p \<Longrightarrow> \<exists>h'. side_height s p = Some h' \<and> unat h = Suc (unat h')"
    using laws(2) [of p] by (auto simp: s side_height_def)
  show "side_parent (fst s) b = Some p \<Longrightarrow> c_parent (side_chain (fst s)) b = Ok p"
    by (auto simp: s side_parent_def side_chain_def get_header_def try_get_header_def bind_eq_Some_conv)
  show "\<exists>sk. c_skips (side_chain (fst s)) b = Ok sk \<and> skips_ok (side_parent (fst s)) h b sk"
    using laws(3) by (simp add: s side_chain_def)
qed

interpretation main: ancestry "\<lambda>s. main_chain (fst s)" main_ok main_height "\<lambda>s. main_parent (fst s)"
proof
  fix s :: "bitcoin_BlockHash known" and b p h
  obtain a K where s: "s = (a, K)" by (cases s)
  assume "main_ok s" "main_height s b = Some h"
  then have ok: "chain_ok (fmlookup (ar_main_block_hash_to_height a)) (main_parent a)
      (fmlookup (ar_exponential_main_ancestors a)) K" and b: "b \<in> K" "fmlookup (ar_main_block_hash_to_height a) b = Some h"
    by (auto simp: s main_ok_def main_height_def split: if_splits)
  note laws = chain_ok_laws [OF ok b]
  show "c_height (main_chain (fst s)) b = Ok h"
    using b by (simp add: s main_chain_def get_main_height_def try_get_main_height_def)
  show "main_parent (fst s) b = None \<longleftrightarrow> h = 0" using laws(1) by (simp add: s)
  show "main_parent (fst s) b = Some p \<Longrightarrow> \<exists>h'. main_height s p = Some h' \<and> unat h = Suc (unat h')"
    using laws(2) [of p] by (auto simp: s main_height_def)
  show "main_parent (fst s) b = Some p \<Longrightarrow> c_parent (main_chain (fst s)) b = Ok p"
    by (auto simp: s main_parent_def main_chain_def get_main_header_info_def try_get_main_header_info_def
        bind_eq_Some_conv result_simps split: if_splits)
  show "\<exists>sk. c_skips (main_chain (fst s)) b = Ok sk \<and> skips_ok (main_parent (fst s)) h b sk"
    using laws(3) by (simp add: s main_chain_def)
qed

section \<open>The invariant of the tables\<close>

definition side_tables_ok :: "externs \<Rightarrow> Archive \<Rightarrow> bool" where
  "side_tables_ok E a \<longleftrightarrow>
     side_ok (a, fmdom' (ar_headers a)) \<and>
     fmdom' (ar_block_hash_to_height a) = fmdom' (ar_headers a) \<and>
     (\<forall>b header. fmlookup (ar_headers a) b = Some header \<longrightarrow> header_hash E header = b) \<and>
     fmdom' (ar_successors a) = insert None (Some ` fmdom' (ar_headers a)) \<and>
     (\<forall>p S. fmlookup (ar_successors a) p = Some S \<longrightarrow>
        fset S = {b. \<exists>header. fmlookup (ar_headers a) b = Some header \<and> hd_prev_side_hash header = p}) \<and>
     fmdom' (ar_bodies a) \<subseteq> fmdom' (ar_headers a) \<and>
     fset (ar_invalid_blocks a) \<inter> fmdom' (ar_headers a) = {}"

definition info_parent :: "BlockHeaderInfo \<Rightarrow> bitcoin_BlockHash option" where
  "info_parent info = (if bhi_prev_block_hash info = 0 then None else Some (bhi_prev_block_hash info))"

lemma main_parent_info: "main_parent a b = Option.bind (fmlookup (ar_main_header_infos a) b) info_parent"
  by (simp add: main_parent_def info_parent_def [abs_def])

definition info_work :: "tip_externs \<Rightarrow> BlockHeaderInfo \<Rightarrow> (bitcoin_BlockHash, Work) fmap \<Rightarrow> Work option" where
  "info_work X info m = (case info_parent info of None \<Rightarrow> Some (bhi_work info)
     | Some p \<Rightarrow> map_option (\<lambda>w. tx_work_add X w (bhi_work info)) (fmlookup m p))"

definition main_tables_ok :: "tip_externs \<Rightarrow> Archive \<Rightarrow> bool" where
  "main_tables_ok X a \<longleftrightarrow>
     main_ok (a, fmdom' (ar_main_header_infos a)) \<and>
     fmdom' (ar_main_block_hash_to_height a) = fmdom' (ar_main_header_infos a) \<and>
     (\<forall>b info. fmlookup (ar_main_header_infos a) b = Some info \<longrightarrow> bhi_block_hash info = b \<and>
        fmlookup (ar_total_work a) b = info_work X info (ar_total_work a) \<and>
        fmlookup (ar_total_work a) b \<noteq> None) \<and>
     fmdom' (ar_main_successors a) = insert 0 (fmdom' (ar_main_header_infos a)) \<and>
     (\<forall>p S. fmlookup (ar_main_successors a) p = Some S \<longrightarrow>
        fset S = {b. \<exists>info. fmlookup (ar_main_header_infos a) b = Some info \<and> bhi_prev_block_hash info = p})"

definition archive_ok :: "externs \<Rightarrow> tip_externs \<Rightarrow> Archive \<Rightarrow> bool" where
  "archive_ok E X a \<longleftrightarrow> side_tables_ok E a \<and> main_tables_ok X a"

lemma archive_new_ok: "archive_ok E X Archive_new"
  by (simp add: archive_ok_def side_tables_ok_def main_tables_ok_def side_ok_def main_ok_def chain_ok_def Archive_new_def)

text \<open>The invariants read only some of the tables.\<close>

lemma side_ok_frame:
  "ar_block_hash_to_height a' = ar_block_hash_to_height a \<Longrightarrow> ar_headers a' = ar_headers a \<Longrightarrow>
     ar_exponential_ancestors a' = ar_exponential_ancestors a \<Longrightarrow> side_ok (a', K) = side_ok (a, K)"
  by (simp add: side_ok_def side_parent_def [abs_def])

lemma main_ok_frame:
  "ar_main_block_hash_to_height a' = ar_main_block_hash_to_height a \<Longrightarrow> ar_main_header_infos a' = ar_main_header_infos a \<Longrightarrow>
     ar_exponential_main_ancestors a' = ar_exponential_main_ancestors a \<Longrightarrow> main_ok (a', K) = main_ok (a, K)"
  by (simp add: main_ok_def main_parent_def [abs_def])

lemma side_tables_ok_frame:
  assumes "ar_block_hash_to_height a' = ar_block_hash_to_height a" "ar_headers a' = ar_headers a"
    "ar_exponential_ancestors a' = ar_exponential_ancestors a" "ar_successors a' = ar_successors a"
    "fmdom' (ar_bodies a') \<subseteq> fmdom' (ar_headers a')" "ar_invalid_blocks a' = ar_invalid_blocks a"
  shows "side_tables_ok E a \<Longrightarrow> side_tables_ok E a'"
  using side_ok_frame [OF assms(1-3)] assms by (simp add: side_tables_ok_def)

lemma main_tables_ok_frame:
  assumes "ar_main_block_hash_to_height a' = ar_main_block_hash_to_height a" "ar_main_header_infos a' = ar_main_header_infos a"
    "ar_exponential_main_ancestors a' = ar_exponential_main_ancestors a" "ar_main_successors a' = ar_main_successors a"
    "ar_total_work a' = ar_total_work a"
  shows "main_tables_ok X a' = main_tables_ok X a"
  using main_ok_frame [OF assms(1-3)] assms by (simp add: main_tables_ok_def)

section \<open>Storing a sidechain header\<close>

definition with_header :: "BlockHash \<Rightarrow> Header \<Rightarrow> u32 \<Rightarrow> BlockHash fset \<Rightarrow> Archive \<Rightarrow> Archive" where
  "with_header b header height preds a =
     (let m = fmupd (hd_prev_side_hash header) (finsert b preds) (ar_successors a) in
      a\<lparr>ar_block_hash_to_height := fmupd b height (ar_block_hash_to_height a),
        ar_headers := fmupd b header (ar_headers a),
        ar_successors := fmupd (Some b) (case fmlookup m (Some b) of Some s \<Rightarrow> s | None \<Rightarrow> {||}) m\<rparr>)"

lemma put_header_Ok:
  assumes "put_header E ho header a = Ok a'"
  obtains height preds sk results where
    "child_height (fmlookup (ar_block_hash_to_height a)) (hd_prev_side_hash header) height"
    "fmlookup (ar_successors a) (hd_prev_side_hash header) = Some preds"
    "skip_list (side_chain (with_header (header_hash E header) header height preds a)) height (hd_prev_side_hash header) = Ok sk"
    "a' = (with_header (header_hash E header) header height preds a)
       \<lparr>ar_exponential_ancestors := fmupd (header_hash E header) sk (ar_exponential_ancestors a),
        ar_bmm_results := fmupd (header_hash E header) results (ar_bmm_results a)\<rparr>"
proof -
  from assms obtain height a1 sk results
    where h: "(case hd_prev_side_hash header of None \<Rightarrow> Ok 0
        | Some parent \<Rightarrow> rbind (ok_or A_InvalidPrevSideHash (try_get_height a parent)) (\<lambda>h. add_word h 1)) = Ok height"
      and a1: "add_successor (hd_prev_side_hash header) (header_hash E header)
        (a\<lparr>ar_block_hash_to_height := fmupd (header_hash E header) height (ar_block_hash_to_height a),
           ar_headers := fmupd (header_hash E header) header (ar_headers a)\<rparr>) = Ok a1"
      and sk: "skip_list (side_chain a1) height (hd_prev_side_hash header) = Ok sk"
      and a': "a' = a1\<lparr>ar_exponential_ancestors := fmupd (header_hash E header) sk (ar_exponential_ancestors a1),
          ar_bmm_results := fmupd (header_hash E header) results (ar_bmm_results a1)\<rparr>"
    unfolding put_header_def Let_def rbind_Ok_iff by (auto simp: rbind_Ok_iff)
  from a1 obtain preds where preds: "fmlookup (ar_successors a) (hd_prev_side_hash header) = Some preds"
    and eq: "a1 = with_header (header_hash E header) header height preds a"
    by (auto simp: add_successor_def get_successors_def try_get_successors_def with_header_def Let_def
        rbind_Ok_iff split: option.splits)
  show ?thesis
  proof (rule that)
    show "child_height (fmlookup (ar_block_hash_to_height a)) (hd_prev_side_hash header) height"
      using h by (auto simp: child_height_def try_get_height_def rbind_Ok_iff split: option.splits)
  qed (use preds sk a' eq in \<open>auto simp: with_header_def Let_def\<close>)
qed

text \<open>A header may be stored when its hash is new, or again when it is the one already stored.\<close>

definition header_new :: "externs \<Rightarrow> Header \<Rightarrow> Archive \<Rightarrow> bool" where
  "header_new E header a \<longleftrightarrow>
     (case fmlookup (ar_headers a) (header_hash E header) of None \<Rightarrow> True | Some header' \<Rightarrow> header' = header) \<and>
     header_hash E header |\<notin>| ar_invalid_blocks a"

lemma with_header_simps [simp]:
  "ar_block_hash_to_height (with_header b header height preds a) = fmupd b height (ar_block_hash_to_height a)"
  "ar_headers (with_header b header height preds a) = fmupd b header (ar_headers a)"
  "ar_exponential_ancestors (with_header b header height preds a) = ar_exponential_ancestors a"
  "ar_bodies (with_header b header height preds a) = ar_bodies a"
  "ar_invalid_blocks (with_header b header height preds a) = ar_invalid_blocks a"
  by (simp_all add: with_header_def Let_def)

lemma put_header_chain:
  assumes ok: "side_tables_ok E a" and new: "header_new E header a"
    and height: "child_height (fmlookup (ar_block_hash_to_height a)) (hd_prev_side_hash header) height"
    and w: "w = with_header (header_hash E header) header height preds a"
    and sk: "skip_list (side_chain w) height (hd_prev_side_hash header) = Ok sk"
  shows "chain_ok (fmlookup (ar_block_hash_to_height w)) (side_parent w)
    ((fmlookup (ar_exponential_ancestors a))(header_hash E header := Some sk))
    (insert (header_hash E header) (fmdom' (ar_headers a)))"
proof -
  let ?b = "header_hash E header" and ?K = "fmdom' (ar_headers a)"
  have chain: "chain_ok (fmlookup (ar_block_hash_to_height a)) (side_parent a) (fmlookup (ar_exponential_ancestors a)) ?K"
    and dom: "fmdom' (ar_block_hash_to_height a) = ?K"
    using ok by (simp_all add: side_tables_ok_def side_ok_def)
  have par: "side_parent w ?b = hd_prev_side_hash header" by (simp add: w side_parent_def)
  have again: "chain_ok (fmlookup (ar_block_hash_to_height w)) (side_parent w) (fmlookup (ar_exponential_ancestors a)) ?K"
    "\<And>c. c \<in> ?K \<Longrightarrow> fmlookup (ar_block_hash_to_height w) c = fmlookup (ar_block_hash_to_height a) c"
    by (rule chain_ok_again [OF chain, of "side_parent w" ?b height "fmlookup (ar_block_hash_to_height w)"];
        use height new in \<open>auto simp: w side_parent_def header_new_def fmlookup_dom'_iff\<close>)+
  then have okw: "side_ok (w, ?K)" by (simp add: side_ok_def w)
  show ?thesis
  proof (rule chain_ok_store [OF again(1)])
    show "fmlookup (ar_block_hash_to_height w) ?b = Some height" by (simp add: w)
    show "side_parent w ?b = None \<Longrightarrow> height = 0 \<and> sk = []"
      using height sk par by (auto simp: child_height_def skip_list_def)
    fix p assume "side_parent w ?b = Some p"
    then have p: "hd_prev_side_hash header = Some p" using par by simp
    then obtain hp where hp: "fmlookup (ar_block_hash_to_height a) p = Some hp" "unat height = Suc (unat hp)"
      using height by (auto simp: child_height_def)
    then have pK: "p \<in> ?K" using dom fmdom'I by metis
    then have hw: "fmlookup (ar_block_hash_to_height w) p = Some hp" using hp again(2) by simp
    with pK have "side_height (w, ?K) p = Some hp" by (simp add: side_height_def)
    from side.skip_list_ok [OF okw this hp(2)] sk p pK hp(2) hw
    show "p \<in> ?K \<and> (\<exists>hp. fmlookup (ar_block_hash_to_height w) p = Some hp \<and> unat height = Suc (unat hp)) \<and>
        length sk = ilog2 (unat height) \<and> (\<forall>i<length sk. anc (side_parent w) (2 ^ Suc i - 1) p = Some (sk ! i))"
      by auto
  qed
qed

lemma no_orphan:
  assumes ok: "side_tables_ok E a" and c: "fmlookup (ar_headers a) c = Some header" "hd_prev_side_hash header = Some p"
  shows "p \<in> fmdom' (ar_headers a)"
proof (rule chain_ok_parent)
  show "chain_ok (fmlookup (ar_block_hash_to_height a)) (side_parent a) (fmlookup (ar_exponential_ancestors a)) (fmdom' (ar_headers a))"
    using ok by (simp add: side_tables_ok_def side_ok_def)
  show "c \<in> fmdom' (ar_headers a)" using c(1) by (rule fmdom'I)
  show "side_parent a c = Some p" using c by (simp add: side_parent_def)
qed

lemma successors_known:
  assumes "side_tables_ok E a"
  shows "b \<in> fmdom' (ar_headers a) \<Longrightarrow> fmlookup (ar_successors a) (Some b) \<noteq> None"
proof -
  have dom: "fmdom' (ar_successors a) = insert None (Some ` fmdom' (ar_headers a))"
    using assms by (simp add: side_tables_ok_def)
  assume "b \<in> fmdom' (ar_headers a)"
  then have "Some b \<in> fmdom' (ar_successors a)" unfolding dom by blast
  then show ?thesis by (auto simp: fmlookup_dom'_iff)
qed

lemma put_header_side_ok:
  assumes ok: "side_tables_ok E a" and new: "header_new E header a" and put: "put_header E ho header a = Ok a'"
  shows "side_tables_ok E a'"
proof -
  let ?b = "header_hash E header" and ?p = "hd_prev_side_hash header"
  from put obtain height preds sk results where
    h: "child_height (fmlookup (ar_block_hash_to_height a)) ?p height"
    and preds: "fmlookup (ar_successors a) ?p = Some preds"
    and sk: "skip_list (side_chain (with_header ?b header height preds a)) height ?p = Ok sk"
    and a': "a' = (with_header ?b header height preds a)
       \<lparr>ar_exponential_ancestors := fmupd ?b sk (ar_exponential_ancestors a),
        ar_bmm_results := fmupd ?b results (ar_bmm_results a)\<rparr>" by (rule put_header_Ok)
  have "chain_ok (fmlookup (ar_block_hash_to_height a')) (side_parent a') (fmlookup (ar_exponential_ancestors a'))
      (insert ?b (fmdom' (ar_headers a)))"
    by (rule chain_ok_cong [OF put_header_chain [OF ok new h refl sk]]) (simp_all add: a' side_parent_def)
  then have "side_ok (a', fmdom' (ar_headers a'))" by (simp add: side_ok_def a')
  moreover have "fmdom' (ar_block_hash_to_height a') = fmdom' (ar_headers a')"
    "\<forall>b hdr. fmlookup (ar_headers a') b = Some hdr \<longrightarrow> header_hash E hdr = b"
    "fmdom' (ar_bodies a') \<subseteq> fmdom' (ar_headers a')" "fset (ar_invalid_blocks a') \<inter> fmdom' (ar_headers a') = {}"
    using ok new by (auto simp: a' side_tables_ok_def header_new_def split: if_splits)
  moreover have "?p \<in> insert None (Some ` fmdom' (ar_headers a))"
    using ok preds unfolding side_tables_ok_def by (metis fmdom'I)
  then have "fmdom' (ar_successors a') = insert None (Some ` fmdom' (ar_headers a'))"
    using ok by (auto simp: a' side_tables_ok_def with_header_def Let_def)
  moreover have "\<forall>p S. fmlookup (ar_successors a') p = Some S \<longrightarrow>
      fset S = {b. \<exists>hdr. fmlookup (ar_headers a') b = Some hdr \<and> hd_prev_side_hash hdr = p}"
  proof (intro allI impI)
    fix p S assume S: "fmlookup (ar_successors a') p = Some S"
    have old: "fmlookup (ar_successors a) p = Some T \<Longrightarrow>
        fset T = {b. \<exists>hdr. fmlookup (ar_headers a) b = Some hdr \<and> hd_prev_side_hash hdr = p}" for p T
      using ok by (simp add: side_tables_ok_def)
    have none: "{b. \<exists>hdr. fmlookup (ar_headers a) b = Some hdr \<and> hd_prev_side_hash hdr = Some ?b} = {}"
      if "fmlookup (ar_successors a) (Some ?b) = None"
      using no_orphan [OF ok] successors_known [OF ok, of ?b] that by auto
    have keep: "(\<exists>hdr. fmlookup (ar_headers a') c = Some hdr \<and> hd_prev_side_hash hdr = p) \<longleftrightarrow>
        (\<exists>hdr. fmlookup (ar_headers a) c = Some hdr \<and> hd_prev_side_hash hdr = p) \<or> c = ?b \<and> p = ?p" for c p
      using new by (auto simp: a' header_new_def split: option.splits if_splits)
    show "fset S = {b. \<exists>hdr. fmlookup (ar_headers a') b = Some hdr \<and> hd_prev_side_hash hdr = p}"
      unfolding keep using S old [OF preds] old [of p] none
      by (auto simp: a' with_header_def Let_def split: if_splits option.splits)
  qed
  ultimately show ?thesis by (simp add: side_tables_ok_def)
qed

lemma put_header_main_frame:
  "put_header E ho header a = Ok a' \<Longrightarrow> main_tables_ok X a' = main_tables_ok X a"
  by (erule put_header_Ok) (rule main_tables_ok_frame; simp add: with_header_def Let_def)

section \<open>Storing a mainchain header\<close>

definition with_main_header :: "BlockHeaderInfo \<Rightarrow> u32 \<Rightarrow> Work \<Rightarrow> bitcoin_BlockHash fset \<Rightarrow> Archive \<Rightarrow> Archive" where
  "with_main_header info height work preds a =
     (let b = bhi_block_hash info; m = fmupd (bhi_prev_block_hash info) (finsert b preds) (ar_main_successors a) in
      a\<lparr>ar_main_block_hash_to_height := fmupd b height (ar_main_block_hash_to_height a),
        ar_main_header_infos := fmupd b info (ar_main_header_infos a),
        ar_total_work := fmupd b work (ar_total_work a),
        ar_main_successors := fmupd b (case fmlookup m b of Some s \<Rightarrow> s | None \<Rightarrow> {||}) m\<rparr>)"

lemma with_main_header_simps [simp]:
  "ar_main_block_hash_to_height (with_main_header info height work preds a) =
     fmupd (bhi_block_hash info) height (ar_main_block_hash_to_height a)"
  "ar_main_header_infos (with_main_header info height work preds a) =
     fmupd (bhi_block_hash info) info (ar_main_header_infos a)"
  "ar_total_work (with_main_header info height work preds a) = fmupd (bhi_block_hash info) work (ar_total_work a)"
  "ar_exponential_main_ancestors (with_main_header info height work preds a) = ar_exponential_main_ancestors a"
  by (simp_all add: with_main_header_def Let_def)

lemma put_main_header_info_Ok:
  assumes "put_main_header_info X info a = Ok a'"
  obtains height work preds sk where
    "child_height (fmlookup (ar_main_block_hash_to_height a)) (info_parent info) height"
    "info_work X info (ar_total_work a) = Some work"
    "fmlookup (ar_main_successors a) (bhi_prev_block_hash info) = Some preds"
    "skip_list (main_chain (with_main_header info height work preds a)) height (Some (bhi_prev_block_hash info)) = Ok sk"
    "a' = (with_main_header info height work preds a)
       \<lparr>ar_exponential_main_ancestors := fmupd (bhi_block_hash info) sk (ar_exponential_main_ancestors a)\<rparr>"
proof -
  let ?p = "bhi_prev_block_hash info" and ?b = "bhi_block_hash info"
  from assms obtain height work a1 sk
    where h: "(if ?p = 0 then Ok 0 else rbind (get_main_height a ?p) (\<lambda>prev_height. add_word prev_height 1)) = Ok height"
      and work: "(if ?p \<noteq> 0 then rbind (get_total_work a ?p) (\<lambda>w. Ok (tx_work_add X w (bhi_work info)))
        else Ok (bhi_work info)) = Ok work"
      and a1: "add_main_successor ?p ?b
        (a\<lparr>ar_main_block_hash_to_height := fmupd ?b height (ar_main_block_hash_to_height a),
           ar_main_header_infos := fmupd ?b info (ar_main_header_infos a),
           ar_total_work := fmupd ?b work (ar_total_work a)\<rparr>) = Ok a1"
      and sk: "skip_list (main_chain a1) height (Some ?p) = Ok sk"
      and a': "a' = a1\<lparr>ar_exponential_main_ancestors := fmupd ?b sk (ar_exponential_main_ancestors a1)\<rparr>"
    unfolding put_main_header_info_def Let_def rbind_Ok_iff by (auto simp: rbind_Ok_iff)
  from a1 obtain preds where preds: "fmlookup (ar_main_successors a) ?p = Some preds"
    and eq: "a1 = with_main_header info height work preds a"
    by (auto simp: add_main_successor_def get_main_successors_def try_get_main_successors_def with_main_header_def Let_def
        rbind_Ok_iff)
  show ?thesis
  proof (rule that)
    show "child_height (fmlookup (ar_main_block_hash_to_height a)) (info_parent info) height"
      using h by (auto simp: child_height_def info_parent_def get_main_height_def try_get_main_height_def rbind_Ok_iff split: if_splits)
    show "info_work X info (ar_total_work a) = Some work"
      using work by (auto simp: info_work_def info_parent_def get_total_work_def try_get_total_work_def rbind_Ok_iff split: if_splits)
  qed (use preds sk a' eq in auto)
qed

text \<open>
  A mainchain header is new, with no stored header naming it as its parent, or it is the one
  already stored.
\<close>

definition main_header_new :: "BlockHeaderInfo \<Rightarrow> Archive \<Rightarrow> bool" where
  "main_header_new info a \<longleftrightarrow>
     (case fmlookup (ar_main_header_infos a) (bhi_block_hash info) of
        None \<Rightarrow> bhi_block_hash info \<noteq> 0 | Some info' \<Rightarrow> info' = info)"

lemma put_main_header_chain:
  assumes ok: "main_tables_ok X a" and new: "main_header_new info a"
    and height: "child_height (fmlookup (ar_main_block_hash_to_height a)) (info_parent info) height"
    and w: "w = with_main_header info height work preds a"
    and sk: "skip_list (main_chain w) height (Some (bhi_prev_block_hash info)) = Ok sk"
  shows "chain_ok (fmlookup (ar_main_block_hash_to_height w)) (main_parent w)
    ((fmlookup (ar_exponential_main_ancestors a))(bhi_block_hash info := Some sk))
    (insert (bhi_block_hash info) (fmdom' (ar_main_header_infos a)))"
proof -
  let ?b = "bhi_block_hash info" and ?K = "fmdom' (ar_main_header_infos a)"
  have chain: "chain_ok (fmlookup (ar_main_block_hash_to_height a)) (main_parent a) (fmlookup (ar_exponential_main_ancestors a)) ?K"
    and dom: "fmdom' (ar_main_block_hash_to_height a) = ?K"
    using ok by (simp_all add: main_tables_ok_def main_ok_def)
  have par: "main_parent w ?b = info_parent info" by (simp add: w main_parent_info)
  have again: "chain_ok (fmlookup (ar_main_block_hash_to_height w)) (main_parent w) (fmlookup (ar_exponential_main_ancestors a)) ?K"
    "\<And>c. c \<in> ?K \<Longrightarrow> fmlookup (ar_main_block_hash_to_height w) c = fmlookup (ar_main_block_hash_to_height a) c"
    by (rule chain_ok_again [OF chain, of "main_parent w" ?b height "fmlookup (ar_main_block_hash_to_height w)"];
        use height new in \<open>auto simp: w main_parent_info main_header_new_def fmlookup_dom'_iff\<close>)+
  then have okw: "main_ok (w, ?K)" by (simp add: main_ok_def w)
  show ?thesis
  proof (rule chain_ok_store [OF again(1)])
    show "fmlookup (ar_main_block_hash_to_height w) ?b = Some height" by (simp add: w)
    show "main_parent w ?b = None \<Longrightarrow> height = 0 \<and> sk = []"
      using height sk par by (auto simp: child_height_def skip_list_def)
    fix p assume "main_parent w ?b = Some p"
    then have p: "info_parent info = Some p" "bhi_prev_block_hash info = p" using par by (auto simp: info_parent_def split: if_splits)
    then obtain hp where hp: "fmlookup (ar_main_block_hash_to_height a) p = Some hp" "unat height = Suc (unat hp)"
      using height by (auto simp: child_height_def)
    then have pK: "p \<in> ?K" using dom fmdom'I by metis
    then have hw: "fmlookup (ar_main_block_hash_to_height w) p = Some hp" using hp again(2) by simp
    with pK have "main_height (w, ?K) p = Some hp" by (simp add: main_height_def)
    from main.skip_list_ok [OF okw this hp(2)] sk p pK hp(2) hw
    show "p \<in> ?K \<and> (\<exists>hp. fmlookup (ar_main_block_hash_to_height w) p = Some hp \<and> unat height = Suc (unat hp)) \<and>
        length sk = ilog2 (unat height) \<and> (\<forall>i<length sk. anc (main_parent w) (2 ^ Suc i - 1) p = Some (sk ! i))"
      by auto
  qed
qed

lemma no_main_orphan:
  assumes ok: "main_tables_ok X a" and c: "fmlookup (ar_main_header_infos a) c = Some info" "info_parent info = Some p"
  shows "p \<in> fmdom' (ar_main_header_infos a)"
proof (rule chain_ok_parent)
  show "chain_ok (fmlookup (ar_main_block_hash_to_height a)) (main_parent a) (fmlookup (ar_exponential_main_ancestors a))
      (fmdom' (ar_main_header_infos a))"
    using ok by (simp add: main_tables_ok_def main_ok_def)
  show "c \<in> fmdom' (ar_main_header_infos a)" using c(1) by (rule fmdom'I)
  show "main_parent a c = Some p" using c by (simp add: main_parent_info)
qed

lemma put_main_total_work:
  assumes ok: "main_tables_ok X a" and new: "main_header_new info a" and work: "info_work X info (ar_total_work a) = Some work"
    and height: "child_height (fmlookup (ar_main_block_hash_to_height a)) (info_parent info) height"
    and c: "fmlookup (fmupd (bhi_block_hash info) info (ar_main_header_infos a)) c = Some i"
  shows "fmlookup (fmupd (bhi_block_hash info) work (ar_total_work a)) c
      = info_work X i (fmupd (bhi_block_hash info) work (ar_total_work a))"
    and "fmlookup (fmupd (bhi_block_hash info) work (ar_total_work a)) c \<noteq> None" and "bhi_block_hash i = c"
proof -
  let ?b = "bhi_block_hash info"
  have old: "fmlookup (ar_main_header_infos a) c = Some i \<Longrightarrow>
      bhi_block_hash i = c \<and> fmlookup (ar_total_work a) c = info_work X i (ar_total_work a) \<and> fmlookup (ar_total_work a) c \<noteq> None" for c i
    using ok unfolding main_tables_ok_def by blast
  show "fmlookup (fmupd ?b work (ar_total_work a)) c = info_work X i (fmupd ?b work (ar_total_work a))"
  proof (cases "fmlookup (ar_main_header_infos a) ?b")
    case None
    have "info_parent j \<noteq> Some ?b" if "fmlookup (ar_main_header_infos a) d = Some j" for d j
      using no_main_orphan [OF ok that] None by (auto simp: fmlookup_dom'_iff)
    moreover have "fmlookup (ar_main_block_hash_to_height a) ?b = None"
      using ok None by (metis fmdom'_notD fmdom'_notI main_tables_ok_def)
    then have "info_parent info \<noteq> Some ?b" using height by (auto simp: child_height_def)
    ultimately show ?thesis using c old work by (auto simp: info_work_def split: if_splits option.splits)
  next
    case (Some info')
    then have "info' = info" using new by (simp add: main_header_new_def)
    then have "fmlookup (ar_total_work a) ?b = Some work" using old [of ?b info] Some work by simp
    then have e: "fmupd ?b work (ar_total_work a) = ar_total_work a" by (rule db.put_get_same)
    have "fmupd ?b info (ar_main_header_infos a) = ar_main_header_infos a"
      using Some \<open>info' = info\<close> by (intro db.put_get_same) simp
    then show ?thesis unfolding e using c old [of c i] by simp
  qed
  have "c \<noteq> ?b \<Longrightarrow> fmlookup (ar_main_header_infos a) c = Some i" using c by simp
  then have "c \<noteq> ?b \<Longrightarrow> fmlookup (ar_total_work a) c \<noteq> None \<and> bhi_block_hash i = c" using old by blast
  then show "fmlookup (fmupd ?b work (ar_total_work a)) c \<noteq> None" "bhi_block_hash i = c"
    using c by (auto split: if_splits)
qed

lemma put_main_header_info_ok:
  assumes ok: "main_tables_ok X a" and new: "main_header_new info a" and put: "put_main_header_info X info a = Ok a'"
  shows "main_tables_ok X a'"
proof -
  let ?b = "bhi_block_hash info" and ?p = "bhi_prev_block_hash info"
  from put obtain height work preds sk where
    h: "child_height (fmlookup (ar_main_block_hash_to_height a)) (info_parent info) height"
    and work: "info_work X info (ar_total_work a) = Some work"
    and preds: "fmlookup (ar_main_successors a) ?p = Some preds"
    and sk: "skip_list (main_chain (with_main_header info height work preds a)) height (Some ?p) = Ok sk"
    and a': "a' = (with_main_header info height work preds a)
       \<lparr>ar_exponential_main_ancestors := fmupd ?b sk (ar_exponential_main_ancestors a)\<rparr>"
    by (rule put_main_header_info_Ok)
  have "chain_ok (fmlookup (ar_main_block_hash_to_height a')) (main_parent a') (fmlookup (ar_exponential_main_ancestors a'))
      (insert ?b (fmdom' (ar_main_header_infos a)))"
    by (rule chain_ok_cong [OF put_main_header_chain [OF ok new h refl sk]]) (simp_all add: a' main_parent_def)
  then have "main_ok (a', fmdom' (ar_main_header_infos a'))" by (simp add: main_ok_def a')
  moreover have "fmdom' (ar_main_block_hash_to_height a') = fmdom' (ar_main_header_infos a')"
    using ok by (simp add: a' main_tables_ok_def)
  moreover have tables: "ar_total_work a' = fmupd ?b work (ar_total_work a)" "ar_main_header_infos a' = fmupd ?b info (ar_main_header_infos a)"
    by (simp_all add: a')
  moreover have "\<forall>b i. fmlookup (ar_main_header_infos a') b = Some i \<longrightarrow> bhi_block_hash i = b \<and>
      fmlookup (ar_total_work a') b = info_work X i (ar_total_work a') \<and> fmlookup (ar_total_work a') b \<noteq> None"
    unfolding tables using put_main_total_work [OF ok new work h] by blast
  moreover have "?p \<in> insert 0 (fmdom' (ar_main_header_infos a))"
    using ok preds unfolding main_tables_ok_def by (metis fmdom'I)
  then have "fmdom' (ar_main_successors a') = insert 0 (fmdom' (ar_main_header_infos a'))"
    using ok by (auto simp: a' main_tables_ok_def with_main_header_def Let_def)
  moreover have "\<forall>p S. fmlookup (ar_main_successors a') p = Some S \<longrightarrow>
      fset S = {b. \<exists>i. fmlookup (ar_main_header_infos a') b = Some i \<and> bhi_prev_block_hash i = p}"
  proof (intro allI impI)
    fix p S assume S: "fmlookup (ar_main_successors a') p = Some S"
    have old: "fmlookup (ar_main_successors a) p = Some T \<Longrightarrow>
        fset T = {b. \<exists>i. fmlookup (ar_main_header_infos a) b = Some i \<and> bhi_prev_block_hash i = p}" for p T
      using ok by (simp add: main_tables_ok_def)
    have none: "{b. \<exists>i. fmlookup (ar_main_header_infos a) b = Some i \<and> bhi_prev_block_hash i = ?b} = {}"
      if "fmlookup (ar_main_successors a) ?b = None"
    proof -
      have "?b \<notin> insert 0 (fmdom' (ar_main_header_infos a))"
        using ok that unfolding main_tables_ok_def by (metis fmdom'_notI)
      then show ?thesis using no_main_orphan [OF ok] by (auto simp: info_parent_def)
    qed
    have keep: "(\<exists>i. fmlookup (ar_main_header_infos a') c = Some i \<and> bhi_prev_block_hash i = p) \<longleftrightarrow>
        (\<exists>i. fmlookup (ar_main_header_infos a) c = Some i \<and> bhi_prev_block_hash i = p) \<or> c = ?b \<and> p = ?p" for c p
      using new by (auto simp: a' main_header_new_def split: option.splits if_splits)
    show "fset S = {b. \<exists>i. fmlookup (ar_main_header_infos a') b = Some i \<and> bhi_prev_block_hash i = p}"
      unfolding keep using S old [OF preds] old [of p] none
      by (auto simp: a' with_main_header_def Let_def split: if_splits option.splits)
  qed
  ultimately show ?thesis unfolding main_tables_ok_def by blast
qed

lemma put_main_header_side_frame:
  assumes "put_main_header_info X info a = Ok a'" "side_tables_ok E a"
  shows "side_tables_ok E a'"
  using assms(1)
  by (rule put_main_header_info_Ok)
    (rule side_tables_ok_frame [OF _ _ _ _ _ _ assms(2)];
      use assms(2) in \<open>simp add: with_main_header_def Let_def side_tables_ok_def\<close>)

end
