(* ===== verification/Archive_Walks.thy ===== *)
theory Archive_Walks
  imports Archive
begin

text \<open>
  Walks through the archive: the iterators of \<open>lib/archive/iter.rs\<close>, the searches for missing
  bodies, and the comparison of tips that walks back to a common mainchain ancestor.

  A walk towards the genesis block ends when the parents do not form a cycle, so the walks
  without a bound take fuel; \<open>None\<close> says that it was too little. A step past the height of the
  starting block is always enough.
\<close>

section \<open>Walking to older blocks\<close>

text \<open>\<open>ancestor_headers(..).take(n)\<close>, newest first.\<close>

fun ancestor_headers_take ::
  "Archive \<Rightarrow> nat \<Rightarrow> BlockHash option \<Rightarrow> (ArchiveError, (BlockHash \<times> Header) list) result" where
  "ancestor_headers_take a (Suc n) (Some block_hash) =
     rbind (get_header a block_hash) (\<lambda>header.
     rbind (ancestor_headers_take a n (hd_prev_side_hash header)) (\<lambda>items.
     Ok ((block_hash, header) # items)))"
| "ancestor_headers_take a _ _ = Ok []"

fun main_header_infos_take ::
  "Archive \<Rightarrow> nat \<Rightarrow> bitcoin_BlockHash \<Rightarrow> (ArchiveError, BlockHeaderInfo list) result" where
  "main_header_infos_take a 0 block_hash = Ok []"
| "main_header_infos_take a (Suc n) block_hash =
     (if block_hash = 0 then Ok []
      else rbind (get_main_header_info a block_hash) (\<lambda>header_info.
        rbind (main_header_infos_take a n (bhi_prev_block_hash header_info)) (\<lambda>items.
        Ok (header_info # items))))"

text \<open>\<open>ancestors(..).find_map(f)\<close>.\<close>

fun find_ancestor ::
  "nat \<Rightarrow> Archive \<Rightarrow> (BlockHash \<Rightarrow> (ArchiveError, 'a option) result) \<Rightarrow> BlockHash option
     \<Rightarrow> (ArchiveError, 'a option) result option" where
  "find_ancestor fuel a f None = Some (Ok None)"
| "find_ancestor 0 a f (Some block_hash) = None"
| "find_ancestor (Suc fuel) a f (Some block_hash) =
     (case get_header a block_hash of
        Ok header \<Rightarrow>
          (case f block_hash of
             Ok None \<Rightarrow> find_ancestor fuel a f (hd_prev_side_hash header)
           | r \<Rightarrow> Some r)
      | Err e \<Rightarrow> Some (Err e)
      | Panic \<Rightarrow> Some Panic)"

text \<open>The loop of \<open>get_missing_bodies\<close>, newest first, up to \<open>ancestor\<close>.\<close>

fun missing_bodies_walk ::
  "nat \<Rightarrow> Archive \<Rightarrow> BlockHash option \<Rightarrow> BlockHash option \<Rightarrow> BlockHash list \<Rightarrow> (ArchiveError, BlockHash list) result option" where
  "missing_bodies_walk fuel a ancestor None res = Some (Ok res)"
| "missing_bodies_walk 0 a ancestor (Some block_hash) res = None"
| "missing_bodies_walk (Suc fuel) a ancestor (Some block_hash) res =
     (case get_header a block_hash of
        Ok header \<Rightarrow>
          if ancestor = Some block_hash then Some (Ok res)
          else missing_bodies_walk fuel a ancestor (hd_prev_side_hash header)
            (case try_get_body a block_hash of Some _ \<Rightarrow> res | None \<Rightarrow> res @ [block_hash])
      | Err e \<Rightarrow> Some (Err e)
      | Panic \<Rightarrow> Some Panic)"

definition get_missing_bodies ::
  "nat \<Rightarrow> Archive \<Rightarrow> BlockHash \<Rightarrow> BlockHash option \<Rightarrow> (ArchiveError, BlockHash list) result option" where
  "get_missing_bodies fuel a block_hash ancestor =
     map_option (\<lambda>r. rbind r (\<lambda>res. Ok (rev res))) (missing_bodies_walk fuel a ancestor (Some block_hash) [])"

section \<open>Walking to newer blocks\<close>

text \<open>
  \<open>AncestorsRev\<close> and \<open>mainchain_ancestors_rev::Iter\<close>: a batch of at most 32 ancestors is read
  newest first into the buffer, whose last element is the next item. Both iterators are the
  same code over different lookups: the height of the end block, its \<open>n\<close>-th ancestor, and the
  bounded walk to older blocks.
\<close>

record 'i rev_iter =
  ri_batch_start_height :: "u32 option"
  ri_inner :: "(u32 \<times> 'i list) option"

definition rev_iter_new :: "u32 \<Rightarrow> 'i rev_iter" where
  "rev_iter_new start_height = \<lparr>ri_batch_start_height = Some start_height, ri_inner = None\<rparr>"

definition pop_buffer :: "u32 option \<Rightarrow> u32 \<Rightarrow> 'i list \<Rightarrow> 'i option \<times> 'i rev_iter" where
  "pop_buffer start end_height buffer =
     (if buffer = [] then (None, \<lparr>ri_batch_start_height = start, ri_inner = Some (end_height, [])\<rparr>)
      else (Some (last buffer), \<lparr>ri_batch_start_height = start, ri_inner = Some (end_height, butlast buffer)\<rparr>))"

definition rev_next ::
  "('e, u32) result \<Rightarrow> (u32 \<Rightarrow> ('e, 'h) result) \<Rightarrow> (nat \<Rightarrow> 'h \<Rightarrow> ('e, 'i list) result)
     \<Rightarrow> 'i rev_iter \<Rightarrow> ('e, 'i option \<times> 'i rev_iter) result" where
  "rev_next get_end_height nth_anc take_from it =
     rbind (case ri_inner it of Some inner \<Rightarrow> Ok inner | None \<Rightarrow> rbind get_end_height (\<lambda>h. Ok (h, []))) (\<lambda>(end_height, buffer).
       if buffer \<noteq> [] then Ok (pop_buffer (ri_batch_start_height it) end_height buffer)
       else case ri_batch_start_height it of
           None \<Rightarrow> Ok (pop_buffer None end_height [])
         | Some batch_start_height \<Rightarrow>
             (case checked_sub end_height batch_start_height of
                None \<Rightarrow> Ok (pop_buffer (Some batch_start_height) end_height [])
              | Some height_diff \<Rightarrow>
                  (let ancestor_offset = min height_diff 31; batch_size = ancestor_offset + 1 in
                   rbind (nth_anc (height_diff - ancestor_offset)) (\<lambda>ancestor.
                   rbind (take_from (unat batch_size) ancestor) (\<lambda>buffer.
                   Ok (pop_buffer
                     (case checked_add batch_start_height batch_size of
                        Some h \<Rightarrow> if h \<le> end_height then Some h else None
                      | None \<Rightarrow> None) end_height buffer))))))"

definition ancestors_rev_next ::
  "Archive \<Rightarrow> BlockHash \<Rightarrow> (BlockHash \<times> Header) rev_iter
     \<Rightarrow> (ArchiveError, (BlockHash \<times> Header) option \<times> (BlockHash \<times> Header) rev_iter) result" where
  "ancestors_rev_next a block_hash =
     rev_next (get_height a block_hash) (get_nth_ancestor a block_hash) (\<lambda>n b. ancestor_headers_take a n (Some b))"

definition mainchain_ancestors_rev_next ::
  "Archive \<Rightarrow> bitcoin_BlockHash \<Rightarrow> BlockHeaderInfo rev_iter
     \<Rightarrow> (ArchiveError, BlockHeaderInfo option \<times> BlockHeaderInfo rev_iter) result" where
  "mainchain_ancestors_rev_next a block_hash =
     rev_next (rbind (get_main_header_info a block_hash) (\<lambda>info. Ok (bhi_height info)))
       (get_nth_main_ancestor a block_hash) (main_header_infos_take a)"

text \<open>The items of an iterator until it answers \<open>None\<close>.\<close>

fun collect_iter ::
  "nat \<Rightarrow> ('i rev_iter \<Rightarrow> ('e, 'i option \<times> 'i rev_iter) result) \<Rightarrow> 'i rev_iter \<Rightarrow> ('e, 'i list) result option" where
  "collect_iter 0 nxt it = None"
| "collect_iter (Suc fuel) nxt it =
     (case nxt it of
        Ok (None, _) \<Rightarrow> Some (Ok [])
      | Ok (Some item, it') \<Rightarrow> map_option (\<lambda>r. rbind r (\<lambda>items. Ok (item # items))) (collect_iter fuel nxt it')
      | Err e \<Rightarrow> Some (Err e)
      | Panic \<Rightarrow> Some Panic)"

definition iter_missing_bodies ::
  "nat \<Rightarrow> Archive \<Rightarrow> BlockHash \<Rightarrow> u32 \<Rightarrow> (ArchiveError, BlockHash list) result option" where
  "iter_missing_bodies fuel a block_hash start_height =
     map_option (\<lambda>r. rbind r (\<lambda>items.
       Ok (filter (\<lambda>ancestor. try_get_body a ancestor = None) (map fst items))))
       (collect_iter fuel (ancestors_rev_next a block_hash) (rev_iter_new start_height))"

section \<open>The better of two tips\<close>

text \<open>
  The closures of \<open>better_tip\<close>: the height (and the total work of the mainchain block that
  commits to it) of a block whose mainchain parent lies strictly before the common ancestor.
\<close>

definition height_before ::
  "Archive \<Rightarrow> bitcoin_BlockHash \<Rightarrow> BlockHash \<Rightarrow> (ArchiveError, u32 option) result" where
  "height_before a main_ancestor tip_ancestor =
     rbind (get_header a tip_ancestor) (\<lambda>header.
     rbind (is_main_descendant a (hd_prev_main_hash header) main_ancestor) (\<lambda>before.
       if \<not> before then Ok None
       else if hd_prev_main_hash header = main_ancestor then Ok None
       else rbind (get_height a tip_ancestor) (\<lambda>height. Ok (Some height))))"

definition height_work_before ::
  "Archive \<Rightarrow> bitcoin_BlockHash \<Rightarrow> u32 \<Rightarrow> BlockHash \<Rightarrow> (ArchiveError, (u32 \<times> Work) option) result" where
  "height_work_before a main_ancestor main_ancestor_height tip_ancestor =
     rbind (get_header a tip_ancestor) (\<lambda>header.
     rbind (is_main_descendant a (hd_prev_main_hash header) main_ancestor) (\<lambda>before.
       if \<not> before then Ok None
       else if hd_prev_main_hash header = main_ancestor then Ok None
       else rbind (get_height a tip_ancestor) (\<lambda>height.
         rbind (get_main_height a (hd_prev_main_hash header)) (\<lambda>prev_height.
         rbind (add_word prev_height 1) (\<lambda>main_height.
         rbind (sub_word main_ancestor_height main_height) (\<lambda>depth.
         rbind (get_nth_main_ancestor a main_ancestor depth) (\<lambda>main_block.
         rbind (get_total_work a main_block) (\<lambda>work.
         Ok (Some (height, work))))))))))"

text \<open>Sequencing walks that may run out of fuel.\<close>

definition fbind :: "('e, 'a) result option \<Rightarrow> ('a \<Rightarrow> ('e, 'b) result option) \<Rightarrow> ('e, 'b) result option" where
  "fbind m f = (case m of
      None \<Rightarrow> None | Some (Ok x) \<Rightarrow> f x | Some (Err e) \<Rightarrow> Some (Err e) | Some Panic \<Rightarrow> Some Panic)"

definition better_tip :: "nat \<Rightarrow> Archive \<Rightarrow> Tip \<Rightarrow> Tip \<Rightarrow> (ArchiveError, Tip option) result option" where
  "better_tip fuel a tip0 tip1 =
     (if tip0 = tip1 then Some (Ok None)
      else let block_hash0 = t_block_hash tip0; block_hash1 = t_block_hash tip1 in
      fbind (Some (get_height a block_hash0)) (\<lambda>height0.
      fbind (Some (get_height a block_hash1)) (\<lambda>height1.
      if height0 = 0 \<and> height1 = 0 then Some (Ok None)
      else if height0 = 0 then Some (Ok (Some tip1))
      else if height1 = 0 then Some (Ok (Some tip0))
      else
      fbind (Some (get_total_work a (t_main_block_hash tip0))) (\<lambda>work0.
      fbind (Some (get_total_work a (t_main_block_hash tip1))) (\<lambda>work1.
      if work0 \<le> work1 \<and> height0 < height1 then Some (Ok (Some tip1))
      else if work1 \<le> work0 \<and> height1 < height0 then Some (Ok (Some tip0))
      else if work0 < work1 \<and> height0 = height1 then
        fbind (Some (shared_mainchain_lineage a (t_main_block_hash tip0) (t_main_block_hash tip1))) (\<lambda>shared.
          Some (Ok (Some (if shared then tip0 else tip1))))
      else if work1 < work0 \<and> height0 = height1 then
        fbind (Some (shared_mainchain_lineage a (t_main_block_hash tip0) (t_main_block_hash tip1))) (\<lambda>shared.
          Some (Ok (Some (if \<not> shared then tip0 else tip1))))
      else if work0 < work1 \<and> height1 < height0 then
        fbind (Some (last_common_main_ancestor a (t_main_block_hash tip0) (t_main_block_hash tip1))) (\<lambda>main_ancestor.
        fbind (find_ancestor fuel a (height_before a main_ancestor) (Some block_hash0)) (\<lambda>tip0_ancestor_height.
          Some (Ok (Some (if tip0_ancestor_height \<ge> Some height1 then tip0 else tip1)))))
      else if work1 < work0 \<and> height0 < height1 then
        fbind (Some (last_common_main_ancestor a (t_main_block_hash tip0) (t_main_block_hash tip1))) (\<lambda>main_ancestor.
        fbind (find_ancestor fuel a (height_before a main_ancestor) (Some block_hash1)) (\<lambda>tip1_ancestor_height.
          Some (Ok (Some (if tip1_ancestor_height < Some height0 then tip0 else tip1)))))
      else if block_hash0 = block_hash1 then Some (Ok (Some tip0))
      else
        fbind (Some (last_common_main_ancestor a (t_main_block_hash tip0) (t_main_block_hash tip1))) (\<lambda>main_ancestor.
        fbind (Some (get_main_height a main_ancestor)) (\<lambda>main_ancestor_height.
        fbind (find_ancestor fuel a (height_work_before a main_ancestor main_ancestor_height) (Some block_hash0)) (\<lambda>before0.
        fbind (find_ancestor fuel a (height_work_before a main_ancestor main_ancestor_height) (Some block_hash1)) (\<lambda>before1.
          let height_of = map_option fst; work_of = map_option snd in
          Some (Ok (Some
            (if height_of before1 < height_of before0
               \<or> height_of before0 = height_of before1 \<and> work_of before0 \<le> work_of before1
             then tip0 else tip1))))))))))))"

end
