(* ===== verification/Archive_Properties.thy ===== *)
theory Archive_Properties
  imports Archive_Invariant Archive_Walks
begin

text \<open>
  What the archive guarantees: the searches through skip lists compute the ancestors that the
  parent links define, the operations keep the invariant of the tables, and invalidating a block
  removes exactly the block and its descendants.
\<close>

section \<open>Invalidating a block\<close>

text \<open>The archive \<open>a\<close> is \<open>a0\<close> without the blocks of \<open>D\<close>, which are marked invalid.\<close>

definition without :: "Archive \<Rightarrow> BlockHash fset \<Rightarrow> Archive \<Rightarrow> bool" where
  "without a0 D a \<longleftrightarrow>
     (\<forall>b. fmlookup (ar_block_hash_to_height a) b = (if b |\<in>| D then None else fmlookup (ar_block_hash_to_height a0) b)) \<and>
     (\<forall>b. fmlookup (ar_headers a) b = (if b |\<in>| D then None else fmlookup (ar_headers a0) b)) \<and>
     (\<forall>b. fmlookup (ar_bodies a) b = (if b |\<in>| D then None else fmlookup (ar_bodies a0) b)) \<and>
     (\<forall>b. fmlookup (ar_exponential_ancestors a) b = (if b |\<in>| D then None else fmlookup (ar_exponential_ancestors a0) b)) \<and>
     (\<forall>p. fmlookup (ar_successors a) p = (if p |\<in>| Some |`| D then None else map_option (\<lambda>S. S |-| D) (fmlookup (ar_successors a0) p))) \<and>
     ar_invalid_blocks a = ar_invalid_blocks a0 |\<union>| D"

definition children :: "Archive \<Rightarrow> BlockHash \<Rightarrow> BlockHash set" where
  "children a b = {c. side_parent a c = Some b}"

lemma without_refl: "without a {||} a"
  by (simp add: without_def option.map_ident fminus_fempty)

lemma invalidate_one_tables:
  assumes "invalidate_one E b a = (a', successors)"
  shows "ar_block_hash_to_height a' = fmdrop b (ar_block_hash_to_height a)"
    and "ar_headers a' = fmdrop b (ar_headers a)"
    and "ar_bodies a' = fmdrop b (ar_bodies a)"
    and "ar_exponential_ancestors a' = fmdrop b (ar_exponential_ancestors a)"
    and "ar_invalid_blocks a' = finsert b (ar_invalid_blocks a)"
  using assms by (auto simp: invalidate_one_def Let_def split: option.splits)

lemma invalidate_one_successors:
  assumes "invalidate_one E b a = (a', successors)"
  defines "m \<equiv> (case fmlookup (ar_headers a) b of
      None \<Rightarrow> ar_successors a
    | Some header \<Rightarrow> (case fmlookup (ar_successors a) (hd_prev_side_hash header) of
        None \<Rightarrow> ar_successors a
      | Some ps \<Rightarrow> fmupd (hd_prev_side_hash header) (ps |-| {|b|}) (ar_successors a)))"
  shows "ar_successors a' = fmdrop (Some b) m"
    and "successors = (case fmlookup m (Some b) of Some s \<Rightarrow> s | None \<Rightarrow> {||})"
  using assms by (auto simp: invalidate_one_def Let_def split: option.splits)

lemma successors_children:
  assumes "side_tables_ok E a" "fmlookup (ar_successors a) p = Some S"
  shows "c |\<in>| S \<longleftrightarrow> (\<exists>header. fmlookup (ar_headers a) c = Some header \<and> hd_prev_side_hash header = p)"
  using assms unfolding side_tables_ok_def by blast

text \<open>Taking the block out of its predecessor's set takes it out of every set.\<close>

lemma invalidate_one_pred:
  assumes ok: "side_tables_ok E a0" and w: "without a0 D a"
  shows "fmlookup (case fmlookup (ar_headers a) b of
      None \<Rightarrow> ar_successors a
    | Some header \<Rightarrow> (case fmlookup (ar_successors a) (hd_prev_side_hash header) of
        None \<Rightarrow> ar_successors a
      | Some ps \<Rightarrow> fmupd (hd_prev_side_hash header) (ps |-| {|b|}) (ar_successors a))) p
    = (if p |\<in>| Some |`| D then None else map_option (\<lambda>S. S |-| finsert b D) (fmlookup (ar_successors a0) p))"
    (is "fmlookup ?m p = _")
proof -
  have succ: "fmlookup (ar_successors a) q = (if q |\<in>| Some |`| D then None
      else map_option (\<lambda>S. S |-| D) (fmlookup (ar_successors a0) q))" for q
    using w by (simp add: without_def)
  have hdr: "fmlookup (ar_headers a) b = (if b |\<in>| D then None else fmlookup (ar_headers a0) b)"
    using w by (simp add: without_def)
  have gone: "S |-| finsert b D = S |-| D"
    if "fmlookup (ar_successors a0) p = Some S" "\<And>header. fmlookup (ar_headers a) b = Some header \<Longrightarrow> hd_prev_side_hash header \<noteq> p" for S
    using successors_children [OF ok that(1), of b] that(2) hdr by auto
  show ?thesis
  proof (cases "fmlookup (ar_headers a) b")
    case None
    then show ?thesis using succ gone by (auto split: option.splits simp: map_option_case)
  next
    case (Some header)
    show ?thesis
    proof (cases "hd_prev_side_hash header = p")
      case True
      have "S |-| D |-| {|b|} = S |-| finsert b D" for S by auto
      with Some True succ [of p] show ?thesis by (simp add: map_option_case split: option.splits)
    next
      case False
      with Some gone have "map_option (\<lambda>S. S |-| finsert b D) (fmlookup (ar_successors a0) p)
          = map_option (\<lambda>S. S |-| D) (fmlookup (ar_successors a0) p)"
        by (intro map_option_cong) auto
      with Some False succ [of p] show ?thesis by (simp split: option.splits)
    qed
  qed
qed

lemma invalidate_one_without:
  assumes ok: "side_tables_ok E a0" and w: "without a0 D a" and inv: "invalidate_one E b a = (a', successors)"
  shows "without a0 (finsert b D) a'" and "fset successors \<subseteq> children a0 b"
    and "b |\<notin>| D \<Longrightarrow> children a0 b \<subseteq> insert b (fset D \<union> fset successors)"
proof -
  note tables = invalidate_one_tables [OF inv] and succ = invalidate_one_successors [OF inv]
    and pred = invalidate_one_pred [OF ok w, of b]
  have "fmlookup (ar_successors a') p = (if p |\<in>| Some |`| finsert b D then None
      else map_option (\<lambda>S. S |-| finsert b D) (fmlookup (ar_successors a0) p))" for p
    unfolding succ(1) fmlookup_drop pred by auto
  then show "without a0 (finsert b D) a'"
    using w unfolding without_def tables by simp
  have s: "successors = (case (if b |\<in>| D then None else fmlookup (ar_successors a0) (Some b)) of
      Some S \<Rightarrow> S |-| finsert b D | None \<Rightarrow> {||})"
    unfolding succ(2) pred by (auto split: option.splits)
  have ch: "c |\<in>| S \<longleftrightarrow> c \<in> children a0 b" if "fmlookup (ar_successors a0) (Some b) = Some S" for S c
    using successors_children [OF ok that] by (auto simp: children_def side_parent_def bind_eq_Some_conv)
  show "fset successors \<subseteq> children a0 b" using s ch by (auto split: option.splits if_splits)
  show "children a0 b \<subseteq> insert b (fset D \<union> fset successors)" if "b |\<notin>| D"
  proof (cases "fmlookup (ar_successors a0) (Some b)")
    case None
    then have "b \<notin> fmdom' (ar_headers a0)" using successors_known [OF ok, of b] by auto
    then have "children a0 b = {}"
      using no_orphan [OF ok] by (auto simp: children_def side_parent_def bind_eq_Some_conv)
    then show ?thesis by simp
  next
    case (Some S)
    with s that ch [OF Some] show ?thesis by auto
  qed
qed

text \<open>
  The loop removes a set of blocks that contains the stack, is closed under children, and holds
  only descendants of what was on the stack.
\<close>

lemma is_ancestor_child: "c \<in> children a b \<Longrightarrow> is_ancestor (side_parent a) b c"
  unfolding is_ancestor_def children_def by (rule exI [of _ 1]) (simp add: anc_one)

lemma invalidate_loop_without:
  "side_tables_ok E a0 \<Longrightarrow> without a0 D a \<Longrightarrow> (\<forall>b|\<in>|D. children a0 b \<subseteq> fset D \<union> set stack) \<Longrightarrow>
    \<exists>D'. without a0 D' (invalidate_loop E ho stack a) \<and> fset D \<union> set stack \<subseteq> fset D' \<and>
      (\<forall>b|\<in>|D'. children a0 b \<subseteq> fset D') \<and>
      (\<forall>c|\<in>|D'. c |\<in>| D \<or> (\<exists>b\<in>set stack. is_ancestor (side_parent a0) b c))"
proof (induction E ho stack a arbitrary: D rule: invalidate_loop.induct)
  case (1 E ho a)
  then show ?case by auto
next
  case (2 E ho b stack a)
  obtain a' successors where inv: "invalidate_one E b a = (a', successors)" by (cases "invalidate_one E b a")
  note one = invalidate_one_without [OF 2(2) 2(3) inv]
  have "\<forall>c|\<in>|finsert b D. children a0 c \<subseteq> fset (finsert b D) \<union> set (rev (in_order ho successors) @ stack)"
    using 2(4) one(3) by (cases "b |\<in>| D") auto
  from 2(1) [OF inv [symmetric] refl 2(2) one(1) this] obtain D' where
    D': "without a0 D' (invalidate_loop E ho (b # stack) a)"
      "fset (finsert b D) \<union> set (rev (in_order ho successors) @ stack) \<subseteq> fset D'"
      "\<forall>b|\<in>|D'. children a0 b \<subseteq> fset D'"
      "\<forall>c|\<in>|D'. c |\<in>| finsert b D \<or> (\<exists>b\<in>set (rev (in_order ho successors) @ stack). is_ancestor (side_parent a0) b c)"
    by (auto simp: inv)
  have "is_ancestor (side_parent a0) b c" if "d |\<in>| successors" "is_ancestor (side_parent a0) d c" for c d
    using is_ancestor_trans [OF is_ancestor_child that(2)] one(2) that(1) by blast
  with D'(4) have "\<forall>c|\<in>|D'. c |\<in>| D \<or> (\<exists>b\<in>set (b # stack). is_ancestor (side_parent a0) b c)" by fastforce
  with D' show ?case by auto
qed

lemma closed_under_descendants:
  assumes "\<forall>b\<in>D. children a b \<subseteq> D" "b \<in> D" "is_ancestor (side_parent a) b c"
  shows "c \<in> D"
proof -
  from assms(3) obtain n where "anc (side_parent a) n c = Some b" by (auto simp: is_ancestor_def)
  then show ?thesis
  proof (induction n arbitrary: c)
    case 0
    with assms(2) show ?case by simp
  next
    case (Suc n)
    then obtain p where "side_parent a c = Some p" "anc (side_parent a) n p = Some b" by (auto simp: bind_eq_Some_conv)
    with Suc.IH [of p] assms(1) show ?case by (auto simp: children_def)
  qed
qed

lemma invalidate_block_without:
  assumes ok: "side_tables_ok E a"
  obtains D where "without a D (invalidate_block E ho b a)" "\<And>c. c |\<in>| D \<longleftrightarrow> is_ancestor (side_parent a) b c"
proof -
  from invalidate_loop_without [OF ok without_refl, of "[b]" ho] obtain D where
    D: "without a D (invalidate_block E ho b a)" "b |\<in>| D" "\<forall>b|\<in>|D. children a b \<subseteq> fset D"
      "\<forall>c|\<in>|D. is_ancestor (side_parent a) b c"
    by (auto simp: invalidate_block_def)
  show ?thesis
  proof (rule that [OF D(1)])
    fix c show "c |\<in>| D \<longleftrightarrow> is_ancestor (side_parent a) b c"
      using D(2-4) closed_under_descendants [of "fset D" a b c] by blast
  qed
qed

lemma without_side_ok:
  assumes ok: "side_tables_ok E a" and w: "without a D a'" and closed: "\<And>b. b |\<in>| D \<Longrightarrow> children a b \<subseteq> fset D"
  shows "side_tables_ok E a'"
proof -
  have dom: "fmdom' (ar_headers a') = fmdom' (ar_headers a) - fset D"
    "fmdom' (ar_block_hash_to_height a') = fmdom' (ar_block_hash_to_height a) - fset D"
    "fmdom' (ar_bodies a') = fmdom' (ar_bodies a) - fset D"
    "fmdom' (ar_successors a') = fmdom' (ar_successors a) - Some ` fset D"
    using w unfolding without_def set_eq_iff fmlookup_dom'_iff Diff_iff by (auto split: if_splits)
  have chain: "chain_ok (fmlookup (ar_block_hash_to_height a)) (side_parent a) (fmlookup (ar_exponential_ancestors a)) (fmdom' (ar_headers a))"
    using ok by (simp add: side_tables_ok_def side_ok_def)
  have "chain_ok (fmlookup (ar_block_hash_to_height a)) (side_parent a) (fmlookup (ar_exponential_ancestors a)) (fmdom' (ar_headers a'))"
  proof (rule chain_ok_subset [OF chain])
    fix b p assume b: "b \<in> fmdom' (ar_headers a')" "side_parent a b = Some p"
    then have "p |\<notin>| D" using closed [of p] dom(1) by (auto simp: children_def)
    with b dom(1) chain_ok_parent [OF chain, of b p] show "p \<in> fmdom' (ar_headers a')" by simp
  qed (simp add: dom(1))
  then have "side_ok (a', fmdom' (ar_headers a'))"
    unfolding side_ok_def prod.case by (rule chain_ok_cong) (use w dom in \<open>auto simp: without_def side_parent_def\<close>)
  moreover have "\<forall>p S. fmlookup (ar_successors a') p = Some S \<longrightarrow>
      fset S = {b. \<exists>header. fmlookup (ar_headers a') b = Some header \<and> hd_prev_side_hash header = p}"
  proof (intro allI impI)
    fix p S assume S: "fmlookup (ar_successors a') p = Some S"
    then obtain T where T: "fmlookup (ar_successors a) p = Some T" "S = T |-| D"
      using w by (auto simp: without_def split: if_splits)
    show "fset S = {b. \<exists>header. fmlookup (ar_headers a') b = Some header \<and> hd_prev_side_hash header = p}"
      using successors_children [OF ok T(1)] T(2) w by (auto simp: without_def split: if_splits)
  qed
  moreover have "\<forall>b header. fmlookup (ar_headers a') b = Some header \<longrightarrow> header_hash E header = b"
    using ok w by (simp add: side_tables_ok_def without_def)
  moreover have "fmdom' (ar_block_hash_to_height a') = fmdom' (ar_headers a')" "fmdom' (ar_bodies a') \<subseteq> fmdom' (ar_headers a')"
    "fmdom' (ar_successors a') = insert None (Some ` fmdom' (ar_headers a'))"
    unfolding dom using ok by (auto simp: side_tables_ok_def)
  moreover have "fset (ar_invalid_blocks a') \<inter> fmdom' (ar_headers a') = {}"
    unfolding dom using ok w by (auto simp: side_tables_ok_def without_def)
  ultimately show ?thesis unfolding side_tables_ok_def by blast
qed

section \<open>Operations on other tables\<close>

text \<open>
  Operations that leave the header tables of both chains alone; the bodies stay among the headers.
\<close>

definition same_headers :: "Archive \<Rightarrow> Archive \<Rightarrow> bool" where
  "same_headers a a' \<longleftrightarrow>
     ar_block_hash_to_height a' = ar_block_hash_to_height a \<and> ar_headers a' = ar_headers a \<and>
     ar_exponential_ancestors a' = ar_exponential_ancestors a \<and> ar_successors a' = ar_successors a \<and>
     ar_invalid_blocks a' = ar_invalid_blocks a \<and> fmdom' (ar_bodies a') \<subseteq> fmdom' (ar_bodies a) \<union> fmdom' (ar_headers a) \<and>
     ar_main_block_hash_to_height a' = ar_main_block_hash_to_height a \<and> ar_main_header_infos a' = ar_main_header_infos a \<and>
     ar_exponential_main_ancestors a' = ar_exponential_main_ancestors a \<and> ar_main_successors a' = ar_main_successors a \<and>
     ar_total_work a' = ar_total_work a"

lemma same_headers_ok: "same_headers a a' \<Longrightarrow> archive_ok E X a \<Longrightarrow> archive_ok E X a'"
proof -
  assume same: "same_headers a a'" and ok: "archive_ok E X a"
  have bodies: "fmdom' (ar_bodies a) \<subseteq> fmdom' (ar_headers a)" using ok by (simp add: archive_ok_def side_tables_ok_def)
  have "side_tables_ok E a \<Longrightarrow> side_tables_ok E a'"
    by (rule side_tables_ok_frame) (use same bodies in \<open>auto simp: same_headers_def\<close>)
  moreover have "main_tables_ok X a' = main_tables_ok X a"
    by (rule main_tables_ok_frame) (use same in \<open>auto simp: same_headers_def\<close>)
  ultimately show ?thesis using ok by (simp add: archive_ok_def)
qed

lemma same_headers_refl [simp]: "same_headers a a"
  by (simp add: same_headers_def)

lemma same_headers_trans: "same_headers a b \<Longrightarrow> same_headers b c \<Longrightarrow> same_headers a c"
  unfolding same_headers_def by auto

lemma same_headers_other:
  "same_headers a (a\<lparr>ar_side_tips := s\<rparr>)" "same_headers a (a\<lparr>ar_txid_to_inclusions := i\<rparr>)"
  "same_headers a (a\<lparr>ar_bmm_results := r\<rparr>)" "same_headers a (a\<lparr>ar_main_block_infos := m\<rparr>)"
  "same_headers a (a\<lparr>ar_bodies := fmdrop b (ar_bodies a)\<rparr>)"
  "b \<in> fmdom' (ar_headers a) \<Longrightarrow> same_headers a (a\<lparr>ar_bodies := fmupd b body (ar_bodies a)\<rparr>)"
  by (auto simp: same_headers_def)

lemma same_headers_tips [simp]:
  "same_headers a (b\<lparr>ar_side_tips := s\<rparr>) = same_headers a b" "same_headers (a\<lparr>ar_side_tips := s\<rparr>) b = same_headers a b"
  by (simp_all add: same_headers_def)

lemma same_headers_fold:
  "(\<And>x a. same_headers a (f x a)) \<Longrightarrow> same_headers a (fold f xs a)"
  by (induction xs arbitrary: a) (auto intro: same_headers_trans)

lemma add_inclusion_same: "same_headers a (add_inclusion E b x a)"
  by (cases x) (simp add: add_inclusion_def Let_def same_headers_other)

lemma remove_inclusion_same: "same_headers a (remove_inclusion E b tx a)"
  by (simp add: remove_inclusion_def Let_def same_headers_other)

lemma put_main_block_info_same:
  "put_main_block_info ho h i a = Ok a' \<Longrightarrow> same_headers a a'"
  by (cases "bi_bmm_commitment i"; cases "fmlookup (ar_headers a) (the (bi_bmm_commitment i))")
    (auto simp: put_main_block_info_def try_get_header_def Let_def rbind_Ok_iff same_headers_def)

interpretation tip_row: stepwise "connect_tip_at b header tip" "\<lambda>s. same_headers a (fst s)" for b header tip a
  by unfold_locales
    (auto simp: connect_tip_at_def rbind_Ok_iff split: if_splits)

lemma update_side_tips_same:
  "update_side_tips ho tip b header (a, queue) = Ok s \<Longrightarrow> same_headers a (fst s)"
  unfolding update_side_tips_def Let_def prod.case rbind_Ok_iff
  by (auto simp: rbind_Ok_iff dest: tip_row.try_fold_inv [of a, rotated] split: if_splits)

lemma update_side_tips_loop_same:
  "update_side_tips_loop fuel ho tip s = Some (Ok a') \<Longrightarrow> same_headers (fst s) a'"
proof (induction fuel ho tip s rule: update_side_tips_loop.induct)
  case (3 fuel ho tip a b queue)
  show ?case
  proof (cases "contains_body a b")
    case True
    with 3(3) obtain s' where s': "rbind (get_header a b) (\<lambda>header. update_side_tips ho tip b header (a, queue)) = Ok s'"
      "update_side_tips_loop fuel ho tip s' = Some (Ok a')"
      by (auto split: result.splits)
    then have "same_headers a (fst s')" by (auto simp: rbind_Ok_iff dest: update_side_tips_same)
    with 3(2) [of s'] True s' show ?thesis by (auto intro: same_headers_trans)
  qed (use 3(1,3) in auto)
qed auto

lemma put_body_same:
  assumes "put_body fuel E ho b body a = Some (Ok a')"
  shows "same_headers a a'"
proof -
  from assms obtain header where h: "get_header a b = Ok header"
    by (auto simp: put_body_def split: result.splits)
  let ?a1 = "fold (add_inclusion E b) (enumerate 0 (bo_transactions body)) (a\<lparr>ar_bodies := fmupd b body (ar_bodies a)\<rparr>)"
  let ?tip = "mt_block_hash (sd_mainchain_tip (ar_side_tips ?a1))"
  from assms h obtain s where s: "update_side_tips ho ?tip b header (?a1, []) = Ok s"
    "update_side_tips_loop fuel ho ?tip s = Some (Ok a')"
    by (auto simp: put_body_def Let_def split: result.splits)
  have "b \<in> fmdom' (ar_headers a)" using h by (auto simp: get_header_def try_get_header_def intro: fmdom'I)
  then have "same_headers a ?a1"
    by (rule same_headers_trans [OF same_headers_other(6) same_headers_fold]) (rule add_inclusion_same)
  with update_side_tips_same [OF s(1)] update_side_tips_loop_same [OF s(2)] show ?thesis
    by (meson same_headers_trans)
qed

lemma disconnect_tips_loop_same: "disconnect_tips_loop ho queue a = Ok a' \<Longrightarrow> same_headers a a'"
proof (induction ho queue a rule: disconnect_tips_loop.induct)
  case (2 ho b queue a)
  then show ?case
    by (auto simp: Let_def split: if_splits result.splits)
qed simp

lemma delete_body_same:
  assumes "delete_body E ho b body a = Ok a'"
  shows "same_headers a a'"
proof -
  have "same_headers a (fold (remove_inclusion E b) (bo_transactions body) (a\<lparr>ar_bodies := fmdrop b (ar_bodies a)\<rparr>))"
    by (rule same_headers_trans [OF same_headers_other(5) same_headers_fold]) (rule remove_inclusion_same)
  with disconnect_tips_loop_same assms show ?thesis unfolding delete_body_def by (meson same_headers_trans)
qed

lemma remove_known_inclusion_same: "same_headers a (remove_known_inclusion E b tx a)"
  by (simp add: remove_known_inclusion_def remove_inclusion_same)

lemma invalidate_one_main_frame:
  assumes "invalidate_one E b a = (a', successors)"
  shows "main_tables_ok X a' = main_tables_ok X a"
proof -
  have "same_headers a (fold (remove_known_inclusion E b) txs (a\<lparr>ar_block_hash_to_height := h\<rparr>)
      \<lparr>ar_block_hash_to_height := ar_block_hash_to_height a\<rparr>)" for txs h
    using same_headers_fold [where f = "remove_known_inclusion E b" and a = "a\<lparr>ar_block_hash_to_height := h\<rparr>" and xs = txs,
      OF remove_known_inclusion_same]
    by (simp add: same_headers_def)
  with assms show ?thesis
    by (intro main_tables_ok_frame) (auto simp: invalidate_one_def Let_def same_headers_def split: option.splits)
qed

lemma invalidate_loop_main_frame: "main_tables_ok X (invalidate_loop E ho stack a) = main_tables_ok X a"
proof (induction E ho stack a rule: invalidate_loop.induct)
  case (2 E ho b stack a)
  obtain a' successors where inv: "invalidate_one E b a = (a', successors)" by (cases "invalidate_one E b a")
  with 2 [OF inv [symmetric] refl] invalidate_one_main_frame [OF inv] show ?case by simp
qed simp

section \<open>Properties\<close>

lemma archive_side_height:
  assumes "archive_ok E X a" "fmlookup (ar_headers a) b = Some header"
  obtains h where "side_ok (a, fmdom' (ar_headers a))" "side_height (a, fmdom' (ar_headers a)) b = Some h"
    "fmlookup (ar_block_hash_to_height a) b = Some h"
proof -
  have ok: "side_ok (a, fmdom' (ar_headers a))" and "fmdom' (ar_block_hash_to_height a) = fmdom' (ar_headers a)"
    using assms(1) by (simp_all add: archive_ok_def side_tables_ok_def)
  moreover have "b \<in> fmdom' (ar_headers a)" using assms(2) by (rule fmdom'I)
  ultimately obtain h where "fmlookup (ar_block_hash_to_height a) b = Some h" by (metis fmlookup_dom'_iff)
  with that ok \<open>b \<in> fmdom' (ar_headers a)\<close> show ?thesis by (simp add: side_height_def)
qed

lemma archive_main_height:
  assumes "archive_ok E X a" "fmlookup (ar_main_header_infos a) b = Some info"
  obtains h where "main_ok (a, fmdom' (ar_main_header_infos a))" "main_height (a, fmdom' (ar_main_header_infos a)) b = Some h"
    "fmlookup (ar_main_block_hash_to_height a) b = Some h"
proof -
  have ok: "main_ok (a, fmdom' (ar_main_header_infos a))"
    and "fmdom' (ar_main_block_hash_to_height a) = fmdom' (ar_main_header_infos a)"
    using assms(1) by (simp_all add: archive_ok_def main_tables_ok_def)
  moreover have "b \<in> fmdom' (ar_main_header_infos a)" using assms(2) by (rule fmdom'I)
  ultimately obtain h where "fmlookup (ar_main_block_hash_to_height a) b = Some h" by (metis fmlookup_dom'_iff)
  with that ok \<open>b \<in> fmdom' (ar_main_header_infos a)\<close> show ?thesis by (simp add: main_height_def)
qed

text \<open>
  C13: in a consistent archive the search through the skip lists finds exactly the ancestor that
  following \<open>n\<close> parent links gives, on the sidechain and on the mainchain, and fails with
  \<open>NoAncestor\<close> exactly when the chain is shorter.
\<close>

theorem nth_ancestor_follows_parents:
  assumes "archive_ok E X a" "fmlookup (ar_headers a) b = Some header" "fmlookup (ar_main_header_infos a) m = Some info"
  shows "get_nth_ancestor a b n =
      (case anc (side_parent a) (unat n) b of Some p \<Rightarrow> Ok p | None \<Rightarrow> Err (A_NoAncestor b n)) \<and>
    get_nth_main_ancestor a m n =
      (case anc (main_parent a) (unat n) m of Some p \<Rightarrow> Ok p | None \<Rightarrow> Err (A_NoMainAncestor m n))"
proof -
  obtain h where h: "side_ok (a, fmdom' (ar_headers a))" "side_height (a, fmdom' (ar_headers a)) b = Some h"
    by (rule archive_side_height [OF assms(1,2)])
  obtain hm where hm: "main_ok (a, fmdom' (ar_main_header_infos a))"
    "main_height (a, fmdom' (ar_main_header_infos a)) m = Some hm"
    by (rule archive_main_height [OF assms(1,3)])
  have "c_no_ancestor (side_chain a) = A_NoAncestor" "c_no_ancestor (main_chain a) = A_NoMainAncestor"
    by (simp_all add: side_chain_def main_chain_def)
  with side.nth_ancestor_eq [OF h, of n] main.nth_ancestor_eq [OF hm, of n] show ?thesis
    unfolding fst_conv get_nth_ancestor_def get_nth_main_ancestor_def by (simp split: option.splits)
qed

lemma invalidate_block_archive_ok:
  assumes "archive_ok E X a"
  shows "archive_ok E X (invalidate_block E ho b a)"
proof -
  from assms have side: "side_tables_ok E a" and main: "main_tables_ok X a" by (simp_all add: archive_ok_def)
  obtain D where D: "without a D (invalidate_block E ho b a)" "\<And>c. c |\<in>| D \<longleftrightarrow> is_ancestor (side_parent a) b c"
    by (rule invalidate_block_without [OF side, of ho b]) (rule that)
  have "children a d \<subseteq> fset D" if "d |\<in>| D" for d
    using that is_ancestor_trans [OF _ is_ancestor_child] by (auto simp: D(2))
  with without_side_ok [OF side D(1)] main show ?thesis
    by (simp add: archive_ok_def invalidate_block_def invalidate_loop_main_frame del: invalidate_loop.simps)
qed

text \<open>
  C15: invalidating a block ends, removes the block and its descendants from the headers, bodies
  and heights and nothing else, marks exactly them invalid, and leaves the archive consistent.
\<close>

theorem invalidate_block_exact:
  assumes ok: "archive_ok E X a"
  shows "let a' = invalidate_block E ho b a; gone = is_ancestor (side_parent a) b in
    archive_ok E X a' \<and>
    (\<forall>c. fmlookup (ar_headers a') c = (if gone c then None else fmlookup (ar_headers a) c)) \<and>
    (\<forall>c. fmlookup (ar_block_hash_to_height a') c = (if gone c then None else fmlookup (ar_block_hash_to_height a) c)) \<and>
    (\<forall>c. fmlookup (ar_bodies a') c = (if gone c then None else fmlookup (ar_bodies a) c)) \<and>
    (\<forall>c. invalidated_block a' c = (invalidated_block a c \<or> gone c))"
proof -
  let ?a = "invalidate_block E ho b a"
  from ok have side: "side_tables_ok E a" by (simp add: archive_ok_def)
  obtain D where D: "without a D ?a" "\<And>c. c |\<in>| D \<longleftrightarrow> is_ancestor (side_parent a) b c"
    by (rule invalidate_block_without [OF side, of ho b]) (rule that)
  with invalidate_block_archive_ok [OF ok, of ho b] show ?thesis by (simp add: Let_def without_def invalidated_block_def)
qed

text \<open>
  The operations that write the archive. A header is stored when its hash is new or it is the
  header already stored under it, and it has not been marked invalid; a mainchain header
  likewise, and its hash is not the all-zero one. (The hashes are not assumed to be free of
  collisions; a second header with the hash of a stored one is what the conditions exclude.)
\<close>

inductive archive_step :: "externs \<Rightarrow> tip_externs \<Rightarrow> hash_order \<Rightarrow> Archive \<Rightarrow> Archive \<Rightarrow> bool" for E X ho where
  step_header: "header_new E header a \<Longrightarrow> put_header E ho header a = Ok a' \<Longrightarrow> archive_step E X ho a a'"
| step_main_header: "main_header_new info a \<Longrightarrow> put_main_header_info X info a = Ok a' \<Longrightarrow> archive_step E X ho a a'"
| step_main_block: "put_main_block_info ho m block a = Ok a' \<Longrightarrow> archive_step E X ho a a'"
| step_body: "put_body fuel E ho b body a = Some (Ok a') \<Longrightarrow> archive_step E X ho a a'"
| step_delete_body: "delete_body E ho b body a = Ok a' \<Longrightarrow> archive_step E X ho a a'"
| step_invalidate: "archive_step E X ho a (invalidate_block E ho b a)"

lemma put_header_archive_ok:
  "archive_ok E X a \<Longrightarrow> header_new E header a \<Longrightarrow> put_header E ho header a = Ok a' \<Longrightarrow> archive_ok E X a'"
  using put_header_side_ok put_header_main_frame by (auto simp: archive_ok_def)

lemma put_main_header_archive_ok:
  "archive_ok E X a \<Longrightarrow> main_header_new info a \<Longrightarrow> put_main_header_info X info a = Ok a' \<Longrightarrow> archive_ok E X a'"
  using put_main_header_info_ok put_main_header_side_frame by (metis archive_ok_def)

lemma archive_step_ok:
  assumes "archive_step E X ho a a'" and "archive_ok E X a"
  shows "archive_ok E X a'"
  using assms
proof cases
  case (step_main_block m block)
  then show ?thesis using same_headers_ok [OF _ assms(2)] put_main_block_info_same by blast
next
  case (step_body fuel b body)
  then show ?thesis using same_headers_ok [OF _ assms(2)] put_body_same by blast
next
  case (step_delete_body b body)
  then show ?thesis using same_headers_ok [OF _ assms(2)] delete_body_same by blast
next
  case (step_header header)
  then show ?thesis using put_header_archive_ok [OF assms(2)] by blast
next
  case (step_main_header info)
  then show ?thesis using put_main_header_archive_ok [OF assms(2)] by blast
next
  case (step_invalidate b)
  then show ?thesis using invalidate_block_archive_ok [OF assms(2)] by simp
qed

lemma archive_steps_ok: "(archive_step E X ho)\<^sup>*\<^sup>* a a' \<Longrightarrow> archive_ok E X a \<Longrightarrow> archive_ok E X a'"
  by (induction rule: rtranclp_induct) (auto intro: archive_step_ok)

text \<open>What the invariant says of a stored header, on either chain.\<close>

lemma archive_ok_header:
  assumes "archive_ok E X a" and "fmlookup (ar_headers a) b = Some header"
  shows "header_hash E header = b" and "\<not> invalidated_block a b"
    and "\<exists>h. get_height a b = Ok h \<and> child_height (fmlookup (ar_block_hash_to_height a)) (hd_prev_side_hash header) h"
    and "\<exists>S. fmlookup (ar_successors a) (hd_prev_side_hash header) = Some S \<and> b |\<in>| S"
proof -
  from assms(1) have side: "side_tables_ok E a" by (simp add: archive_ok_def)
  have b: "b \<in> fmdom' (ar_headers a)" using assms(2) by (rule fmdom'I)
  show "header_hash E header = b" using side assms(2) by (simp add: side_tables_ok_def)
  show "\<not> invalidated_block a b" using side b by (auto simp: side_tables_ok_def invalidated_block_def)
  have "chain_ok (fmlookup (ar_block_hash_to_height a)) (side_parent a) (fmlookup (ar_exponential_ancestors a)) (fmdom' (ar_headers a))"
    using side by (simp add: side_tables_ok_def side_ok_def)
  then obtain h where h: "fmlookup (ar_block_hash_to_height a) b = Some h" "side_parent a b = None \<Longrightarrow> h = 0"
    "\<And>p. side_parent a b = Some p \<Longrightarrow> p \<in> fmdom' (ar_headers a) \<and>
       (\<exists>h'. fmlookup (ar_block_hash_to_height a) p = Some h' \<and> unat h = Suc (unat h'))"
    using b by (rule chain_okD) (rule that)
  have par: "side_parent a b = hd_prev_side_hash header" using assms(2) by (simp add: side_parent_def)
  show "\<exists>h. get_height a b = Ok h \<and> child_height (fmlookup (ar_block_hash_to_height a)) (hd_prev_side_hash header) h"
    using h par by (auto simp: get_height_def try_get_height_def child_height_def split: option.splits)
  have "hd_prev_side_hash header \<in> fmdom' (ar_successors a)"
    using side h(3) par by (cases "hd_prev_side_hash header") (auto simp: side_tables_ok_def)
  then obtain S where S: "fmlookup (ar_successors a) (hd_prev_side_hash header) = Some S" by (auto simp: fmlookup_dom'_iff)
  then show "\<exists>S. fmlookup (ar_successors a) (hd_prev_side_hash header) = Some S \<and> b |\<in>| S"
    using successors_children [OF side S] assms(2) by blast
qed

lemma archive_ok_main_header:
  assumes "archive_ok E X a" and "fmlookup (ar_main_header_infos a) m = Some info"
  shows "bhi_block_hash info = m"
    and "\<exists>h. get_main_height a m = Ok h \<and> child_height (fmlookup (ar_main_block_hash_to_height a)) (info_parent info) h"
    and "\<exists>w. get_total_work a m = Ok w \<and> info_work X info (ar_total_work a) = Some w"
    and "\<exists>S. fmlookup (ar_main_successors a) (bhi_prev_block_hash info) = Some S \<and> m |\<in>| S"
proof -
  from assms(1) have main: "main_tables_ok X a" by (simp add: archive_ok_def)
  have m: "m \<in> fmdom' (ar_main_header_infos a)" using assms(2) by (rule fmdom'I)
  show "bhi_block_hash info = m" using main assms(2) by (simp add: main_tables_ok_def)
  have "chain_ok (fmlookup (ar_main_block_hash_to_height a)) (main_parent a) (fmlookup (ar_exponential_main_ancestors a))
      (fmdom' (ar_main_header_infos a))"
    using main by (simp add: main_tables_ok_def main_ok_def)
  then obtain h where h: "fmlookup (ar_main_block_hash_to_height a) m = Some h" "main_parent a m = None \<Longrightarrow> h = 0"
    "\<And>p. main_parent a m = Some p \<Longrightarrow> p \<in> fmdom' (ar_main_header_infos a) \<and>
       (\<exists>h'. fmlookup (ar_main_block_hash_to_height a) p = Some h' \<and> unat h = Suc (unat h'))"
    using m by (rule chain_okD) (rule that)
  have par: "main_parent a m = info_parent info" using assms(2) by (simp add: main_parent_info)
  show "\<exists>h. get_main_height a m = Ok h \<and> child_height (fmlookup (ar_main_block_hash_to_height a)) (info_parent info) h"
    using h par by (auto simp: get_main_height_def try_get_main_height_def child_height_def split: option.splits)
  show "\<exists>w. get_total_work a m = Ok w \<and> info_work X info (ar_total_work a) = Some w"
  proof -
    have "fmlookup (ar_total_work a) m = info_work X info (ar_total_work a)" "fmlookup (ar_total_work a) m \<noteq> None"
      using main assms(2) unfolding main_tables_ok_def by blast+
    then show ?thesis by (auto simp: get_total_work_def try_get_total_work_def)
  qed
  have "bhi_prev_block_hash info \<in> fmdom' (ar_main_successors a)"
    using main h(3) par by (auto simp: main_tables_ok_def info_parent_def split: if_splits)
  then obtain S where S: "fmlookup (ar_main_successors a) (bhi_prev_block_hash info) = Some S" by (auto simp: fmlookup_dom'_iff)
  moreover have "m |\<in>| S" using main S assms(2) by (auto simp: main_tables_ok_def)
  ultimately show "\<exists>S. fmlookup (ar_main_successors a) (bhi_prev_block_hash info) = Some S \<and> m |\<in>| S" by blast
qed

text \<open>
  C12: any sequence of archive operations (storing headers, mainchain headers, mainchain block
  data and bodies, deleting bodies, invalidating blocks) keeps the invariant of the tables,
  the skip lists included, when each header stored is new or the one already stored under
  its hash, and not marked invalid. So, from an empty archive on: a stored header is stored
  under its hash, is not marked invalid, is at height 0 or one above its stored parent, and is
  among the successors of its parent; a body is stored only under a stored header; a mainchain
  header is stored under its hash, one above its parent, among its parent's successors, and its
  total work is its own added to its parent's.
\<close>

theorem archive_invariant:
  assumes "archive_ok E X a" and "(archive_step E X ho)\<^sup>*\<^sup>* a a'"
  shows "archive_ok E X a' \<and>
    (\<forall>b header. fmlookup (ar_headers a') b = Some header \<longrightarrow>
      header_hash E header = b \<and> \<not> invalidated_block a' b \<and>
      (\<exists>h. get_height a' b = Ok h \<and> child_height (fmlookup (ar_block_hash_to_height a')) (hd_prev_side_hash header) h) \<and>
      (\<exists>S. fmlookup (ar_successors a') (hd_prev_side_hash header) = Some S \<and> b |\<in>| S)) \<and>
    (\<forall>b. contains_body a' b \<longrightarrow> fmlookup (ar_headers a') b \<noteq> None) \<and>
    (\<forall>m info. fmlookup (ar_main_header_infos a') m = Some info \<longrightarrow>
      bhi_block_hash info = m \<and>
      (\<exists>h. get_main_height a' m = Ok h \<and> child_height (fmlookup (ar_main_block_hash_to_height a')) (info_parent info) h) \<and>
      (\<exists>w. get_total_work a' m = Ok w \<and> info_work X info (ar_total_work a') = Some w) \<and>
      (\<exists>S. fmlookup (ar_main_successors a') (bhi_prev_block_hash info) = Some S \<and> m |\<in>| S))"
proof -
  have ok: "archive_ok E X a'" by (rule archive_steps_ok [OF assms(2,1)])
  moreover have "fmdom' (ar_bodies a') \<subseteq> fmdom' (ar_headers a')" using ok by (simp add: archive_ok_def side_tables_ok_def)
  then have "contains_body a' b \<longrightarrow> fmlookup (ar_headers a') b \<noteq> None" for b
    by (metis contains_body_def fmdom'_notD fmdom'_notI subsetD)
  ultimately show ?thesis using archive_ok_header [OF ok] archive_ok_main_header [OF ok] by blast
qed

definition common :: "Archive \<Rightarrow> BlockHash \<Rightarrow> BlockHash \<Rightarrow> BlockHash \<Rightarrow> bool" where
  "common a b0 b1 c \<longleftrightarrow> is_ancestor (side_parent a) c b0 \<and> is_ancestor (side_parent a) c b1"

lemma last_common_ancestor_aux:
  assumes ok: "side_ok (a, K)" and h0: "side_height (a, K) b0 = Some h0" and h1: "side_height (a, K) b1 = Some h1"
    and small: "unat h0 < 2 ^ 31"
  shows "\<exists>r. last_common_ancestor a b0 b1 = Ok r \<and>
    (case r of None \<Rightarrow> \<not> (\<exists>c. common a b0 b1 c)
     | Some c \<Rightarrow> common a b0 b1 c \<and> (\<forall>c'. common a b0 b1 c' \<longrightarrow> is_ancestor (side_parent a) c' c))"
proof -
  obtain c0 c1 h where eq: "equalize (side_chain a) b0 b1 = Ok (c0, c1, h)"
    and hc: "side_height (a, K) c0 = Some h" "side_height (a, K) c1 = Some h"
    and up: "is_ancestor (side_parent a) c0 b0" "is_ancestor (side_parent a) c1 b1" and h: "h = min h0 h1"
    and down: "\<And>c. common a b0 b1 c \<Longrightarrow> common a c0 c1 c"
    using side.equalize_Ok [OF ok h0 h1] unfolding fst_conv common_def by metis
  have lift: "common a c0 c1 c \<Longrightarrow> common a b0 b1 c" for c
    unfolding common_def using up is_ancestor_trans by metis
  obtain r0 r1 where r: "anc (side_parent a) (unat h) c0 = Some r0" "anc (side_parent a) (unat h) c1 = Some r1"
    using side.anc_exists [OF ok hc(1), of "unat h"] side.anc_exists [OF ok hc(2), of "unat h"] by auto
  note nth = side.nth_ancestor_Ok [OF ok hc(1), of h, unfolded fst_conv, OF r(1)]
    side.nth_ancestor_Ok [OF ok hc(2), of h, unfolded fst_conv, OF r(2)]
  have agree: "side.agree (a, K) c0 c1 (unat h) \<longleftrightarrow> r0 = r1" using r by (simp add: side.agree_def)
  consider "c0 = c1" | "c0 \<noteq> c1" "r0 \<noteq> r1" | "c0 \<noteq> c1" "r0 = r1" by blast
  then show ?thesis
  proof cases
    case 1
    then have "last_common_ancestor a b0 b1 = Ok (Some c0)" by (simp add: last_common_ancestor_def eq)
    moreover have "common a b0 b1 c0" using up 1 by (simp add: common_def)
    ultimately show ?thesis using down by (auto simp: common_def)
  next
    case 2
    then have "last_common_ancestor a b0 b1 = Ok None"
      by (simp add: last_common_ancestor_def eq get_nth_ancestor_def nth)
    moreover have "\<not> (\<exists>c. common a c0 c1 c)"
      using side.agree_iff_common [OF ok hc] agree 2 by (simp add: common_def)
    ultimately show ?thesis using down by auto
  next
    case 3
    have "unat h < 2 ^ 31" using small h by (auto simp: min_def word_le_nat_alt)
    from side.common_search_last [OF ok hc this 3(1)] agree 3(2) obtain c where
      c: "common_search (side_chain a) c0 c1 h = Ok c" "common a c0 c1 c"
        "\<And>c'. common a c0 c1 c' \<Longrightarrow> is_ancestor (side_parent a) c' c"
      unfolding fst_conv common_def by metis
    then have "last_common_ancestor a b0 b1 = Ok (Some c)"
      using 3 by (simp add: last_common_ancestor_def eq get_nth_ancestor_def nth)
    with c(2,3) lift down show ?thesis by auto
  qed
qed

text \<open>
  C14: for two blocks, the first below height \<open>2 ^ 31\<close>, the binary search finds the last common
  ancestor, of which every common ancestor is an ancestor, and answers \<open>None\<close> exactly when
  there is none. (From \<open>2 ^ 31\<close> on the midpoint may overflow.) The test for descent decides it.
\<close>

theorem last_common_ancestor_correct:
  assumes ok: "archive_ok E X a" and b0: "fmlookup (ar_headers a) b0 = Some hdr0" and b1: "fmlookup (ar_headers a) b1 = Some hdr1"
    and small: "\<exists>h. get_height a b0 = Ok h \<and> unat h < 2 ^ 31"
  shows "is_descendant a b0 b1 = Ok (is_ancestor (side_parent a) b0 b1) \<and>
    (\<exists>r. last_common_ancestor a b0 b1 = Ok r \<and>
      (case r of None \<Rightarrow> \<not> (\<exists>c. common a b0 b1 c)
       | Some c \<Rightarrow> common a b0 b1 c \<and> (\<forall>c'. common a b0 b1 c' \<longrightarrow> is_ancestor (side_parent a) c' c)))"
proof -
  obtain h0 where h0: "side_ok (a, fmdom' (ar_headers a))" "side_height (a, fmdom' (ar_headers a)) b0 = Some h0"
      "fmlookup (ar_block_hash_to_height a) b0 = Some h0"
    by (rule archive_side_height [OF ok b0])
  obtain h1 where h1: "side_height (a, fmdom' (ar_headers a)) b1 = Some h1"
    by (rule archive_side_height [OF ok b1])
  have "unat h0 < 2 ^ 31" using small h0(3) by (auto simp: get_height_def try_get_height_def)
  with last_common_ancestor_aux [OF h0(1,2) h1] side.is_descendant_iff [OF h0(1,2) h1] show ?thesis
    by (simp add: is_descendant_def)
qed

section \<open>A small archive\<close>

text \<open>Two mainchain blocks, the second committing to a first sidechain block; then a child of it.\<close>

definition demo_tips :: tip_externs where
  "demo_tips = \<lparr>tx_work_add = (+), tx_work_sub = (-), tx_tip_key = (\<lambda>_. [])\<rparr>"

definition genesis_header :: Header where
  "genesis_header = \<lparr>hd_merkle_root = 1, hd_prev_side_hash = None, hd_prev_main_hash = 100\<rparr>"

definition child_header :: Header where
  "child_header = \<lparr>hd_merkle_root = 2, hd_prev_side_hash = Some 8, hd_prev_main_hash = 100\<rparr>"

definition main_genesis :: BlockHeaderInfo where
  "main_genesis = \<lparr>bhi_block_hash = 100, bhi_prev_block_hash = 0, bhi_height = 0, bhi_work = 5\<rparr>"

lemma demo_hashes [simp]: "header_hash demo_externs genesis_header = 8" "header_hash demo_externs child_header = 9"
  by (simp_all add: header_hash_def demo_externs_def genesis_header_def child_header_def)

definition archive1 :: Archive where
  "archive1 = (with_main_header main_genesis 0 5 {||} Archive_new)\<lparr>ar_exponential_main_ancestors := fmupd 100 [] fmempty\<rparr>"

lemma put_main_genesis: "put_main_header_info demo_tips main_genesis Archive_new = Ok archive1"
  by (simp add: put_main_header_info_def main_genesis_def try_get_main_header_info_def add_main_successor_def
      get_main_successors_def try_get_main_successors_def skip_list_def archive1_def with_main_header_def Archive_new_def Let_def)

definition archive2 :: Archive where
  "archive2 = (with_header 8 genesis_header 0 {||} archive1)
     \<lparr>ar_exponential_ancestors := fmupd 8 [] fmempty, ar_bmm_results := fmupd 8 fmempty fmempty\<rparr>"

lemma demo_header_sels [simp]:
  "hd_prev_side_hash genesis_header = None" "hd_prev_main_hash genesis_header = 100"
  "hd_prev_side_hash child_header = Some 8" "hd_prev_main_hash child_header = 100"
  by (simp_all add: genesis_header_def child_header_def)

lemma sorted_list_of_fset_empty [simp]: "sorted_list_of_fset {||} = []"
  by (simp add: sorted_list_of_fset.rep_eq)

lemma put_genesis: "put_header demo_externs ascending genesis_header archive1 = Ok archive2"
  by (simp add: put_header_def add_successor_def get_successors_def try_get_successors_def skip_list_def
      populate_bmm_results_def get_main_successors_def try_get_main_successors_def get_bmm_results_def
      archive2_def archive1_def with_header_def with_main_header_def main_genesis_def Archive_new_def Let_def)

definition archive3 :: Archive where
  "archive3 = (with_header 9 child_header 1 {||} archive2)
     \<lparr>ar_exponential_ancestors := fmupd 9 [] (ar_exponential_ancestors archive2),
      ar_bmm_results := fmupd 9 fmempty (ar_bmm_results archive2)\<rparr>"

lemma put_child: "put_header demo_externs ascending child_header archive2 = Ok archive3"
proof -
  have "add_word 0 1 = (Ok 1 :: (ArchiveError, u32) result)" by simp
  moreover have "\<not> (2 :: u32) \<le> 1" by (simp add: word_le_nat_alt)
  ultimately show ?thesis
    by (simp add: put_header_def try_get_height_def add_successor_def get_successors_def try_get_successors_def skip_list_def
        populate_bmm_results_def get_main_successors_def try_get_main_successors_def get_bmm_results_def
        archive3_def archive2_def archive1_def with_header_def with_main_header_def main_genesis_def Archive_new_def Let_def
        del: add_word_Ok_iff)
qed

lemma archive1_ok: "archive_ok demo_externs demo_tips archive1"
proof -
  have new: "main_header_new main_genesis Archive_new" by (simp add: main_header_new_def Archive_new_def main_genesis_def)
  have "side_tables_ok demo_externs Archive_new" "main_tables_ok demo_tips Archive_new"
    using archive_new_ok by (auto simp: archive_ok_def)
  then show ?thesis
    using put_main_header_info_ok [OF _ new put_main_genesis] put_main_header_side_frame [OF put_main_genesis]
    by (simp add: archive_ok_def)
qed

lemma demo_headers:
  "ar_headers archive2 = fmupd 8 genesis_header fmempty"
  "ar_headers archive3 = fmupd 9 child_header (fmupd 8 genesis_header fmempty)"
  "ar_main_header_infos archive3 = fmupd 100 main_genesis fmempty"
  "ar_invalid_blocks archive2 = {||}" "get_height archive3 8 = Ok 0"
  by (simp_all add: archive3_def archive2_def archive1_def Archive_new_def with_header_def with_main_header_def
      main_genesis_def Let_def get_height_def try_get_height_def)

lemma archive2_ok: "archive_ok demo_externs demo_tips archive2"
  by (rule put_header_archive_ok [OF archive1_ok _ put_genesis])
    (simp add: header_new_def archive1_def with_main_header_def Archive_new_def Let_def)

lemma child_new: "header_new demo_externs child_header archive2"
  by (simp add: header_new_def demo_headers)

lemma archive3_ok: "archive_ok demo_externs demo_tips archive3"
  by (rule put_header_archive_ok [OF archive2_ok child_new put_child])

lemma demo_parents: "side_parent archive3 9 = Some 8" "side_parent archive3 8 = None" "main_parent archive3 100 = None"
  by (simp_all add: side_parent_def main_parent_def demo_headers main_genesis_def)

lemma demo_ancestor: "is_ancestor (side_parent archive3) 8 9"
  unfolding is_ancestor_def by (rule exI [of _ 1]) (simp add: demo_parents)

theorem archive_invariant_witness:
  "\<exists>a'. a' = invalidate_block demo_externs ascending 9 archive3 \<and> archive_ok demo_externs demo_tips a' \<and>
     (\<forall>header. fmlookup (ar_headers a') 8 = Some header \<longrightarrow> header_hash demo_externs header = 8)"
proof -
  let ?step = "archive_step demo_externs demo_tips ascending"
  have "main_header_new main_genesis Archive_new" by (simp add: main_header_new_def Archive_new_def main_genesis_def)
  then have "?step Archive_new archive1" using put_main_genesis by (rule step_main_header)
  moreover have "header_new demo_externs genesis_header archive1"
    by (simp add: header_new_def archive1_def with_main_header_def Archive_new_def Let_def)
  then have "?step archive1 archive2" using put_genesis by (rule step_header)
  moreover have "?step archive2 archive3" using child_new put_child by (rule step_header)
  moreover have "?step archive3 (invalidate_block demo_externs ascending 9 archive3)" by (rule step_invalidate)
  ultimately have "?step\<^sup>*\<^sup>* Archive_new (invalidate_block demo_externs ascending 9 archive3)"
    by (meson converse_rtranclp_into_rtranclp r_into_rtranclp)
  from archive_invariant [OF archive_new_ok this] show ?thesis by blast
qed

theorem nth_ancestor_follows_parents_witness:
  "get_nth_ancestor archive3 9 1 = Ok 8 \<and> get_nth_main_ancestor archive3 100 1 = Err (A_NoMainAncestor 100 1)"
  using nth_ancestor_follows_parents [OF archive3_ok, of 9 child_header 100 main_genesis 1]
  by (simp add: demo_headers demo_parents)

theorem invalidate_block_exact_witness:
  "fmlookup (ar_headers (invalidate_block demo_externs ascending 8 archive3)) 9 = None \<and>
   invalidated_block (invalidate_block demo_externs ascending 8 archive3) 9"
  using invalidate_block_exact [OF archive3_ok, of ascending 8] demo_ancestor by (simp add: Let_def)

theorem last_common_ancestor_correct_witness:
  "is_descendant archive3 8 9 = Ok True \<and>
   (\<exists>c. last_common_ancestor archive3 8 9 = Ok (Some c) \<and> common archive3 8 9 c)"
proof -
  have "common archive3 8 9 8" using demo_ancestor by (simp add: common_def)
  with last_common_ancestor_correct [OF archive3_ok, of 8 genesis_header 9 child_header] demo_ancestor
  show ?thesis by (auto simp: demo_headers split: option.splits)
qed

section \<open>Candidate tips across mainchain reorganisations\<close>

lemma connect_mainchain_tip_new:
  assumes "connect_mainchain_tip X info (Some c) s = Ok s1"
    and "fmlookup (sd_sidechain_tips s) (bc_sidechain_block_hash c) = None"
  obtains i where "fmlookup (sd_sidechain_tips s1) (bc_sidechain_block_hash c) = Some i"
    "fmlookup (sd_ordered_sidechain_tips s1) i = Some (bc_sidechain_block_hash c)"
    "tip_main_block_hash i = bhi_block_hash info" "mt_tip_info (sd_mainchain_tip s1) = Some info"
  using assms
  by (auto simp: connect_mainchain_tip_def connect_sidechain_tip_def Let_def rbind_Ok_iff)

lemma connect_mainchain_tip_known:
  assumes "connect_mainchain_tip X info (Some c) s = Ok s1"
    and "fmlookup (sd_sidechain_tips s) (bc_sidechain_block_hash c) \<noteq> None"
  shows "sd_sidechain_tips s1 = sd_sidechain_tips s" "sd_ordered_sidechain_tips s1 = sd_ordered_sidechain_tips s"
  using assms by (auto simp: connect_mainchain_tip_def connect_sidechain_tip_def Let_def rbind_Ok_iff)

lemma disconnect_mainchain_tip_tips:
  assumes "disconnect_mainchain_tip X prev (Some b) s = Ok s'" "mt_tip_info (sd_mainchain_tip s) = Some info"
    "fmlookup (sd_sidechain_tips s) b = Some i" "tip_main_block_hash i = bhi_block_hash info"
  shows "sd_sidechain_tips s' = sd_sidechain_tips s" "sd_ordered_sidechain_tips s' = fmdrop i (sd_ordered_sidechain_tips s)"
  using assms by (auto simp: disconnect_mainchain_tip_def rbind_Ok_iff split: if_splits)

text \<open>
  C36: disconnecting a mainchain block drops the sidechain tip it committed to from the ordered
  table but not from \<open>sidechain_tips\<close>; connecting the same block again then finds the tip
  present and does not put it back, so it can no longer be chosen as the best tip.
\<close>

theorem reconnected_tip_is_lost:
  assumes new: "fmlookup (sd_sidechain_tips s) (bc_sidechain_block_hash c) = None"
    and "connect_mainchain_tip X info (Some c) s = Ok s1"
    and "disconnect_mainchain_tip X prev (Some (bc_sidechain_block_hash c)) s1 = Ok s2"
    and "connect_mainchain_tip X info (Some c) s2 = Ok s3"
  shows "\<exists>i. fmlookup (sd_ordered_sidechain_tips s1) i = Some (bc_sidechain_block_hash c) \<and>
    fmlookup (sd_sidechain_tips s3) (bc_sidechain_block_hash c) = Some i \<and>
    fmlookup (sd_ordered_sidechain_tips s3) i = None"
proof -
  obtain i where i: "fmlookup (sd_sidechain_tips s1) (bc_sidechain_block_hash c) = Some i"
    "fmlookup (sd_ordered_sidechain_tips s1) i = Some (bc_sidechain_block_hash c)"
    "tip_main_block_hash i = bhi_block_hash info" "mt_tip_info (sd_mainchain_tip s1) = Some info"
    by (rule connect_mainchain_tip_new [OF assms(2) new])
  note s2 = disconnect_mainchain_tip_tips [OF assms(3) i(4,1,3)]
  note s3 = connect_mainchain_tip_known [OF assms(4)]
  show ?thesis using i s2 s3 by (intro exI [of _ i]) simp
qed

definition demo_commitment :: BmmCommitment where
  "demo_commitment = \<lparr>bc_sidechain_block_hash = 8, bc_sidechain_header_data = header_data_of genesis_header\<rparr>"

definition tips_with :: "(SidechainTipInfo, BlockHash) fmap \<Rightarrow> SideTips" where
  "tips_with m = \<lparr>sd_mainchain_tip = \<lparr>mt_cumulative_work = 5, mt_tip_info = Some main_genesis\<rparr>,
     sd_sidechain_tips = fmupd 8 (SidechainTipInfo 0 5 100) fmempty, sd_ordered_sidechain_tips = m\<rparr>"

lemmas tip_defs = connect_mainchain_tip_def connect_sidechain_tip_def disconnect_mainchain_tip_def previous_tip_info_def
  demo_commitment_def header_data_of_def tips_with_def side_tips_create_def main_genesis_def demo_tips_def mt_block_hash_def

theorem reconnected_tip_is_lost_witness:
  "\<exists>i. fmlookup (sd_ordered_sidechain_tips (tips_with fmempty)) i = None \<and>
     fmlookup (sd_sidechain_tips (tips_with fmempty)) 8 = Some i"
proof -
  have "connect_mainchain_tip demo_tips main_genesis (Some demo_commitment) side_tips_create
      = Ok (tips_with (fmupd (SidechainTipInfo 0 5 100) 8 fmempty))"
    by (simp add: tip_defs Let_def)
  moreover have "disconnect_mainchain_tip demo_tips None (Some 8) (tips_with (fmupd (SidechainTipInfo 0 5 100) 8 fmempty))
      = Ok ((tips_with fmempty)\<lparr>sd_mainchain_tip := \<lparr>mt_cumulative_work = 0, mt_tip_info = None\<rparr>\<rparr>)"
    by (simp add: tip_defs Let_def db.del_put_fresh)
  moreover have "connect_mainchain_tip demo_tips main_genesis (Some demo_commitment)
      ((tips_with fmempty)\<lparr>sd_mainchain_tip := \<lparr>mt_cumulative_work = 0, mt_tip_info = None\<rparr>\<rparr>) = Ok (tips_with fmempty)"
    by (simp add: tip_defs Let_def)
  moreover have "bc_sidechain_block_hash demo_commitment = 8" "fmlookup (sd_sidechain_tips side_tips_create) 8 = None"
    by (simp_all add: demo_commitment_def side_tips_create_def)
  ultimately show ?thesis
    using reconnected_tip_is_lost [of side_tips_create demo_commitment demo_tips main_genesis] by metis
qed

text \<open>
  Disconnecting fails when the block commits to a sidechain block that was never connected, as
  when its header or body was not known at the time.
\<close>

lemma disconnect_unconnected_commitment:
  assumes "mt_tip_info (sd_mainchain_tip s) = Some tip" "previous_tip_info tip prev = Ok new_tip"
    and "fmlookup (sd_sidechain_tips s) b = None"
  shows "disconnect_mainchain_tip X prev (Some b) s = Err (DM_MissingSidechainTip b)"
  using assms by (simp add: disconnect_mainchain_tip_def)

end
