(* ===== verification/Seed_Address.thy ===== *)
theory Seed_Address
  imports Prelude
begin

text \<open>
  Addresses of peers (\<open>lib/types/net.rs\<close>) and how a seed address becomes a list of IP addresses
  (\<open>resolve_seed_address\<close> of \<open>lib/net/mod.rs\<close>). Parsing ports and hosts and looking up names
  are the library's, parameters here.
\<close>

section \<open>Addresses\<close>

datatype IpAddr = IpV4 "32 word" | IpV6 "128 word"

type_synonym u16 = "16 word"
type_synonym SocketAddr = "IpAddr \<times> u16"

definition is_unspecified :: "IpAddr \<Rightarrow> bool" where
  "is_unspecified ip = (case ip of IpV4 w \<Rightarrow> w = 0 | IpV6 w \<Rightarrow> w = 0)"

datatype Host = H_Domain string | H_Ipv4 "32 word" | H_Ipv6 "128 word"

record SeedAddress =
  sa_host :: Host
  sa_port :: u16

definition DEFAULT_PORT :: u16 where
  "DEFAULT_PORT = 4000 + 4"

definition seed_socket_addr :: "SeedAddress \<Rightarrow> SocketAddr option" where
  "seed_socket_addr s =
     (case sa_host s of
        H_Domain _ \<Rightarrow> None
      | H_Ipv4 ipv4 \<Rightarrow> Some (IpV4 ipv4, sa_port s)
      | H_Ipv6 ipv6 \<Rightarrow> Some (IpV6 ipv6, sa_port s))"

text \<open>
  \<open>FromStr\<close>: the text after the last colon is the port. Parsing a port and a host is the
  library's.
\<close>

definition rsplit_once :: "char \<Rightarrow> string \<Rightarrow> (string \<times> string) option" where
  "rsplit_once c s =
     (if c \<in> set s
      then Some (butlast (rev (dropWhile (\<lambda>x. x \<noteq> c) (rev s))), rev (takeWhile (\<lambda>x. x \<noteq> c) (rev s)))
      else None)"

datatype ParseSeedAddressError = InvalidPort | InvalidHost

definition parse_seed_address ::
  "(string \<Rightarrow> u16 option) \<Rightarrow> (string \<Rightarrow> Host option) \<Rightarrow> string \<Rightarrow> (ParseSeedAddressError, SeedAddress) result" where
  "parse_seed_address parse_port parse_host s =
     rbind (case rsplit_once (CHR '':'') s of
         Some (host_str, port) \<Rightarrow> rbind (ok_or InvalidPort (parse_port port)) (\<lambda>port. Ok (host_str, port))
       | None \<Rightarrow> Ok (s, DEFAULT_PORT)) (\<lambda>(host_str, port).
     rbind (ok_or InvalidHost (parse_host host_str)) (\<lambda>host. Ok \<lparr>sa_host = host, sa_port = port\<rparr>))"

text \<open>The addresses of a domain are kept in reverse: a head and a tail whose last is the first.\<close>

datatype ResolvedSeedAddress =
    R_Domain string u16 IpAddr "IpAddr list"
  | R_Static SocketAddr

fun resolved_host :: "ResolvedSeedAddress \<Rightarrow> Host" where
  "resolved_host (R_Domain domain _ _ _) = H_Domain domain"
| "resolved_host (R_Static (IpV4 ip, _)) = H_Ipv4 ip"
| "resolved_host (R_Static (IpV6 ip, _)) = H_Ipv6 ip"

fun resolved_port :: "ResolvedSeedAddress \<Rightarrow> u16" where
  "resolved_port (R_Domain _ port _ _) = port"
| "resolved_port (R_Static addr) = snd addr"

fun first_ip_addr :: "ResolvedSeedAddress \<Rightarrow> IpAddr" where
  "first_ip_addr (R_Domain _ _ h t) = last (h # t)"
| "first_ip_addr (R_Static addr) = fst addr"

fun pop_first_ip_addr :: "ResolvedSeedAddress \<Rightarrow> IpAddr \<times> ResolvedSeedAddress option" where
  "pop_first_ip_addr (R_Domain domain port h t) =
     (if t = [] then (h, None) else (last t, Some (R_Domain domain port h (butlast t))))"
| "pop_first_ip_addr (R_Static addr) = (fst addr, None)"

fun ip_addrs :: "ResolvedSeedAddress \<Rightarrow> IpAddr list" where
  "ip_addrs (R_Domain _ _ h t) = rev (h # t)"
| "ip_addrs (R_Static addr) = [fst addr]"

datatype ResolveError = RE_Net | RE_NoIpAddrs string

definition resolve_seed_address ::
  "(string \<Rightarrow> IpAddr list option) \<Rightarrow> SeedAddress \<Rightarrow> (ResolveError, ResolvedSeedAddress) result" where
  "resolve_seed_address lookup_ip s =
     (case sa_host s of
        H_Ipv4 ipv4 \<Rightarrow> Ok (R_Static (IpV4 ipv4, sa_port s))
      | H_Ipv6 ipv6 \<Rightarrow> Ok (R_Static (IpV6 ipv6, sa_port s))
      | H_Domain domain \<Rightarrow>
          rbind (ok_or RE_Net (lookup_ip domain)) (\<lambda>found.
          let addrs = filter (\<lambda>ip. \<not> is_unspecified ip) found in
          if addrs = [] then Err (RE_NoIpAddrs domain)
          else Ok (R_Domain domain (sa_port s) (last addrs) (rev (butlast addrs)))))"

lemma pop_first_ip_addr_size: "pop_first_ip_addr r = (ip, Some r') \<Longrightarrow> length (ip_addrs r') < length (ip_addrs r)"
  by (cases r) (auto split: if_splits)

end
