(* ===== verification/Peer.thy ===== *)
theory Peer
  imports Archive_Walks Chain_State Seed_Address
begin

text \<open>
  One peer connection: the messages of \<open>lib/net/peer/message.rs\<close>, the deduplicating request
  queue of \<open>request_queue.rs\<close>, and the connection task of \<open>task.rs\<close> that compares the tip of the
  peer with the node's, asks for missing headers and bodies, and answers the peer's requests.

  Reading and writing QUIC streams, timeouts and rate limits are not modelled. The channels
  of a task are lists of what was sent; a closed channel refuses every message.
\<close>

section \<open>Messages\<close>

datatype Network = Betanet | Forknet | Regtest | Signet

fun network_identifier :: "Network \<Rightarrow> u8" where
  "network_identifier Regtest = 0"
| "network_identifier Signet = 1"
| "network_identifier Forknet = 2"
| "network_identifier Betanet = 4"

definition magic_bytes :: "Network \<Rightarrow> u8 list" where
  "magic_bytes network = [0xCC, 0x06, 0x58, or 0 (network_identifier network)]"

record TipInfo =
  ti_block_height :: u32
  ti_tip :: Tip
  ti_total_work :: Work

record PeerState =
  ps_tip_info :: "TipInfo option"
  ps_version :: "u64 \<times> u64 \<times> u64"

type_synonym PeerStateId = hash

record GetBlockRequest =
  gb_block_hash :: BlockHash
  gb_descendant_tip :: "Tip option"
  gb_ancestor :: "BlockHash option"
  gb_peer_state_id :: "PeerStateId option"

record GetHeadersRequest =
  gh_start :: "BlockHash fset"
  gh_end :: BlockHash
  gh_height :: "u32 option"
  gh_peer_state_id :: "PeerStateId option"

datatype Request =
    GetBlock GetBlockRequest
  | GetHeaders GetHeadersRequest
  | PushTransaction AuthorizedTransaction

datatype RequestMessage = RM_Heartbeat PeerState | RM_Request Request

datatype ResponseMessage =
    RespBlock Header Body
  | RespHeaders "Header list"
  | RespNoBlock BlockHash
  | RespNoHeader BlockHash
  | RespTransactionAccepted Txid
  | RespTransactionRejected Txid

text \<open>The bytes of a response that are read at most.\<close>

definition read_response_limit :: "Request \<Rightarrow> ('e, nat) result" where
  "read_response_limit request =
     (case request of
        GetBlock _ \<Rightarrow> Ok (10 * 1024 * 1024)
      | GetHeaders r \<Rightarrow> rbind (expect (gh_height r)) (\<lambda>height. Ok ((unat height + 1) * 2048))
      | PushTransaction _ \<Rightarrow> Ok 256)"

fun request_cost :: "Request \<Rightarrow> nat" where
  "request_cost (GetBlock _) = 1000"
| "request_cost (GetHeaders _) = 10000"
| "request_cost (PushTransaction _) = 10"

datatype BanReason = BmmVerificationFailed Tip | IncorrectTotalWork Tip Work

text \<open>What the task tells the node, and what the node tells the task.\<close>

text \<open>Of the errors of the connection itself the node tells four apart.\<close>

datatype PeerError =
    PE_Archive ArchiveError
  | PE_BadMagic
  | PE_ConnectTimeout
  | PE_Connection
  | PE_DuplicateConnection
  | PE_HeartbeatTimeout
  | PE_MissingPeerState PeerStateId
  | PE_SendBlockingTask
  | PE_SendInfo
  | PE_SendRequest
  | PE_SendHeartbeat
  | PE_PeerBan BanReason
  | PE_State Error

definition is_connect_timeout :: "PeerError \<Rightarrow> bool" where
  "is_connect_timeout err = (err = PE_ConnectTimeout)"

definition is_duplicate_connection :: "PeerError \<Rightarrow> bool" where
  "is_duplicate_connection err = (err = PE_DuplicateConnection)"

definition is_bad_magic :: "PeerError \<Rightarrow> bool" where
  "is_bad_magic err = (err = PE_BadMagic)"

datatype Info =
    I_Connected
  | I_Error PeerError ResolvedSeedAddress
  | I_NeedMainchainAncestors bitcoin_BlockHash PeerStateId
  | I_NewTipReady Tip
  | I_NewTransaction AuthorizedTransaction
  | I_Response ResponseMessage Request

datatype InternalMessage =
    IM_BmmVerification bool PeerStateId
  | IM_BmmVerificationError
  | IM_ForwardRequest Request
  | IM_MainchainAncestors PeerStateId
  | IM_MainchainAncestorsError
  | IM_Headers PeerStateId
  | IM_BodiesAvailable PeerStateId

section \<open>The request queue\<close>

text \<open>
  Requests are deduplicated by the hash of their serialization, which leaves out the fields
  that only the requester uses.
\<close>

datatype request_bytes =
    RB_GetBlock BlockHash
  | RB_GetHeaders "BlockHash fset" BlockHash
  | RB_PushTransaction AuthorizedTransaction

fun serialized :: "Request \<Rightarrow> request_bytes" where
  "serialized (GetBlock r) = RB_GetBlock (gb_block_hash r)"
| "serialized (GetHeaders r) = RB_GetHeaders (gh_start r) (gh_end r)"
| "serialized (PushTransaction tx) = RB_PushTransaction tx"

record net_externs =
  nx_hash_request :: "request_bytes \<Rightarrow> hash"
  nx_hash_peer_state :: "PeerState \<Rightarrow> hash"
  nx_version :: "u64 \<times> u64 \<times> u64"

record peer_io =
  io_requests_open :: bool
  io_request_hashes :: "hash fset"
  io_requests :: "Request list"
  io_infos_open :: bool
  io_infos :: "Info list"

fun is_push :: "Request \<Rightarrow> bool" where
  "is_push (PushTransaction _) = True"
| "is_push _ = False"

definition send_request :: "net_externs \<Rightarrow> Request \<Rightarrow> peer_io \<Rightarrow> (PeerError, bool \<times> peer_io) result" where
  "send_request X request io =
     (let h = nx_hash_request X (serialized request) in
      if is_push request \<or> h |\<notin>| io_request_hashes io then
        (let io = (if is_push request then io else io\<lparr>io_request_hashes := finsert h (io_request_hashes io)\<rparr>) in
         if io_requests_open io then Ok (True, io\<lparr>io_requests := io_requests io @ [request]\<rparr>) else Err PE_SendRequest)
      else Ok (False, io))"

definition send_info :: "Info \<Rightarrow> peer_io \<Rightarrow> (PeerError, peer_io) result" where
  "send_info info io =
     (if io_infos_open io then Ok (io\<lparr>io_infos := io_infos io @ [info]\<rparr>) else Err PE_SendInfo)"

section \<open>Comparing tips\<close>

type_synonym 'a task = "(PeerError, 'a) result option"

definition from_archive :: "(ArchiveError, 'a) result \<Rightarrow> 'a task" where
  "from_archive r = Some (map_err PE_Archive r)"

definition from_walk :: "(ArchiveError, 'a) result option \<Rightarrow> 'a task" where
  "from_walk r = map_option (map_err PE_Archive) r"

text \<open>Ask for the headers of the peer tip unless they are available.\<close>

definition request_headers ::
  "net_externs \<Rightarrow> Archive \<Rightarrow> (ArchiveError, BlockHash fset) result \<Rightarrow> TipInfo \<Rightarrow> PeerStateId \<Rightarrow> peer_io \<Rightarrow> (bool option \<times> peer_io) task" where
  "request_headers X a start peer_tip_info peer_state_id io =
     (if try_get_header a (t_block_hash (ti_tip peer_tip_info)) = None then
        fbind (from_archive start) (\<lambda>start.
        fbind (Some (send_request X (GetHeaders \<lparr>gh_start = start, gh_end = t_block_hash (ti_tip peer_tip_info),
            gh_height = Some (ti_block_height peer_tip_info), gh_peer_state_id = Some peer_state_id\<rparr>) io)) (\<lambda>(_, io).
        Some (Ok (Some False, io))))
      else Some (Ok (Some True, io)))"

definition block_locator :: "Archive \<Rightarrow> TipInfo \<Rightarrow> (ArchiveError, BlockHash fset) result" where
  "block_locator a own_info = rbind (get_block_locator a (t_block_hash (ti_tip own_info))) (\<lambda>l. Ok (fset_of_list l))"

text \<open>The comparison of two tips of equal work and height.\<close>

definition equal_tips_better ::
  "nat \<Rightarrow> Archive \<Rightarrow> bitcoin_BlockHash \<Rightarrow> BlockHash \<Rightarrow> BlockHash \<Rightarrow> bool task" where
  "equal_tips_better fuel a main_ancestor tip_hash peer_tip_hash =
     fbind (from_archive (get_main_height a main_ancestor)) (\<lambda>main_ancestor_height.
     fbind (from_walk (find_ancestor fuel a (height_work_before a main_ancestor main_ancestor_height) (Some tip_hash))) (\<lambda>before.
     fbind (from_walk (find_ancestor fuel a (height_work_before a main_ancestor main_ancestor_height) (Some peer_tip_hash))) (\<lambda>peer_before.
     let height = map_option fst before; work = map_option snd before;
         peer_height = map_option fst peer_before; peer_work = map_option snd peer_before in
     Some (Ok (\<not> (work \<le> peer_work \<and> height = peer_height \<or> peer_height < height))))))"

definition check_peer_tip_and_request_headers ::
  "nat \<Rightarrow> net_externs \<Rightarrow> Archive \<Rightarrow> TipInfo option \<Rightarrow> TipInfo \<Rightarrow> PeerStateId \<Rightarrow> peer_io \<Rightarrow> (bool option \<times> peer_io) task" where
  "check_peer_tip_and_request_headers fuel X a own_info peer_tip_info peer_state_id io =
     (let peer_tip = ti_tip peer_tip_info; not_better = Some (Ok (None, io)) in
      if try_get_main_header_info a (t_main_block_hash peer_tip) = None then not_better
      else case mt_tip_info (sd_mainchain_tip (ar_side_tips a)) of None \<Rightarrow> not_better | Some side_tips_tip_info \<Rightarrow>
      fbind (from_archive (is_main_descendant a (t_main_block_hash peer_tip) (bhi_block_hash side_tips_tip_info))) (\<lambda>active.
      if \<not> active then not_better
      else case own_info of None \<Rightarrow> request_headers X a (Ok {||}) peer_tip_info peer_state_id io | Some own \<Rightarrow>
      (let tip = ti_tip own;
           work = ti_total_work own; peer_work = ti_total_work peer_tip_info;
           height = ti_block_height own; peer_height = ti_block_height peer_tip_info;
           shared = from_archive (shared_mainchain_lineage a (t_main_block_hash tip) (t_main_block_hash peer_tip));
           common = from_archive (last_common_main_ancestor a (t_main_block_hash tip) (t_main_block_hash peer_tip));
           ask = request_headers X a (block_locator a own) peer_tip_info peer_state_id io in
       if work \<le> peer_work \<and> height < peer_height then ask
       else if peer_work \<le> work \<and> peer_height < height then not_better
       else if work < peer_work \<and> height = peer_height then
         fbind shared (\<lambda>shared. if shared then not_better else ask)
       else if peer_work < work \<and> height = peer_height then
         fbind shared (\<lambda>shared. if \<not> shared then not_better else ask)
       else if work < peer_work \<and> peer_height < height then
         fbind common (\<lambda>main_ancestor.
         fbind (from_walk (find_ancestor fuel a (height_before a main_ancestor) (Some (t_block_hash tip)))) (\<lambda>tip_ancestor_height.
         if tip_ancestor_height \<ge> Some peer_height then not_better else ask))
       else if peer_work < work \<and> height < peer_height then
         fbind ask (\<lambda>(available, io). if available \<noteq> Some True then Some (Ok (available, io)) else
         fbind common (\<lambda>main_ancestor.
         fbind (from_walk (find_ancestor fuel a (height_before a main_ancestor) (Some (t_block_hash peer_tip)))) (\<lambda>peer_tip_ancestor_height.
         Some (Ok (if peer_tip_ancestor_height < Some height then None else Some True, io)))))
       else if t_block_hash peer_tip = t_block_hash tip then not_better
       else
         fbind ask (\<lambda>(available, io). if available \<noteq> Some True then Some (Ok (available, io)) else
         fbind common (\<lambda>main_ancestor.
         fbind (equal_tips_better fuel a main_ancestor (t_block_hash tip) (t_block_hash peer_tip)) (\<lambda>better.
         Some (Ok (if better then Some True else None, io))))))))"

section \<open>The state of a peer\<close>

text \<open>The tip of the node, as \<open>handle_peer_state\<close> and the heartbeat read it.\<close>

definition own_tip_info :: "hash_order \<Rightarrow> Archive \<Rightarrow> State \<Rightarrow> TipInfo option task" where
  "own_tip_info ho a st =
     (case st_tip st of
        None \<Rightarrow> Some (Ok None)
      | Some tip \<Rightarrow>
          fbind (Some (expect (st_height st))) (\<lambda>tip_height.
          fbind (from_archive (get_best_main_verification ho a tip)) (\<lambda>bmm_verification.
          fbind (from_archive (get_total_work a bmm_verification)) (\<lambda>total_work.
          Some (Ok (Some \<lparr>ti_block_height = tip_height,
            ti_tip = \<lparr>t_block_hash = tip, t_main_block_hash = bmm_verification\<rparr>, ti_total_work = total_work\<rparr>))))))"

text \<open>The claims of a peer about the mainchain block that commits to its tip.\<close>

definition check_claims :: "Archive \<Rightarrow> TipInfo \<Rightarrow> (PeerError, unit) result" where
  "check_claims a peer_tip_info =
     (let tip = ti_tip peer_tip_info in
      rbind (map_err PE_Archive (get_total_work a (t_main_block_hash tip))) (\<lambda>computed_total_work.
      rbind (ensure (ti_total_work peer_tip_info = computed_total_work)
        (PE_PeerBan (IncorrectTotalWork tip (ti_total_work peer_tip_info)))) (\<lambda>_.
      rbind (map_err PE_Archive (get_main_block_info a (t_main_block_hash tip))) (\<lambda>info.
      ensure (bi_bmm_commitment info = Some (t_block_hash tip)) (PE_PeerBan (BmmVerificationFailed tip))))))"

text \<open>\<open>iter_missing_bodies(..).take(n)\<close>: the iterator is not read past the last item that is taken.\<close>

fun take_missing_bodies ::
  "nat \<Rightarrow> nat \<Rightarrow> Archive \<Rightarrow> BlockHash \<Rightarrow> (BlockHash \<times> Header) rev_iter \<Rightarrow> (ArchiveError, BlockHash list) result option" where
  "take_missing_bodies fuel 0 a block_hash it = Some (Ok [])"
| "take_missing_bodies 0 (Suc n) a block_hash it = None"
| "take_missing_bodies (Suc fuel) (Suc n) a block_hash it =
     fbind (Some (ancestors_rev_next a block_hash it)) (\<lambda>(item, it).
     case item of
       None \<Rightarrow> Some (Ok [])
     | Some (ancestor, _) \<Rightarrow>
         if try_get_body a ancestor = None
         then fbind (take_missing_bodies fuel n a block_hash it) (\<lambda>rest. Some (Ok (ancestor # rest)))
         else take_missing_bodies fuel (Suc n) a block_hash it)"

definition missing_bodies_from :: "nat \<Rightarrow> nat \<Rightarrow> Archive \<Rightarrow> BlockHash \<Rightarrow> u32 \<Rightarrow> (ArchiveError, BlockHash list) result option" where
  "missing_bodies_from fuel n a block_hash start_height = take_missing_bodies fuel n a block_hash (rev_iter_new start_height)"

definition MAX_BLOCK_REQUESTS :: nat where
  "MAX_BLOCK_REQUESTS = 100"

definition block_request :: "TipInfo \<Rightarrow> PeerStateId \<Rightarrow> BlockHash option \<Rightarrow> BlockHash \<Rightarrow> Request" where
  "block_request peer_tip_info peer_state_id common_ancestor block_hash =
     GetBlock \<lparr>gb_block_hash = block_hash, gb_descendant_tip = Some (ti_tip peer_tip_info),
       gb_ancestor = common_ancestor, gb_peer_state_id = Some peer_state_id\<rparr>"

definition request_bodies ::
  "nat \<Rightarrow> net_externs \<Rightarrow> Archive \<Rightarrow> TipInfo option \<Rightarrow> TipInfo \<Rightarrow> PeerStateId \<Rightarrow> peer_io \<Rightarrow> peer_io task" where
  "request_bodies fuel X a own_info peer_tip_info peer_state_id io =
     fbind (case own_info of
         None \<Rightarrow> Some (Ok None)
       | Some own \<Rightarrow> from_archive (last_common_ancestor a (t_block_hash (ti_tip own)) (t_block_hash (ti_tip peer_tip_info)))) (\<lambda>common_ancestor.
     fbind (case common_ancestor of None \<Rightarrow> Some (Ok 0) | Some b \<Rightarrow> from_archive (get_height a b)) (\<lambda>start_height.
     fbind (from_walk (missing_bodies_from fuel MAX_BLOCK_REQUESTS a (t_block_hash (ti_tip peer_tip_info)) start_height)) (\<lambda>missing_bodies.
     Some (if missing_bodies = [] then send_info (I_NewTipReady (ti_tip peer_tip_info)) io
       else try_fold (\<lambda>b io. rbind (send_request X (block_request peer_tip_info peer_state_id common_ancestor b) io)
         (\<lambda>(_, io). Ok io)) missing_bodies io))))"

definition handle_peer_state ::
  "nat \<Rightarrow> net_externs \<Rightarrow> hash_order \<Rightarrow> Archive \<Rightarrow> State \<Rightarrow> PeerState \<Rightarrow> peer_io \<Rightarrow> peer_io task" where
  "handle_peer_state fuel X ho a st peer_state io =
     (case ps_tip_info peer_state of None \<Rightarrow> Some (Ok io) | Some peer_tip_info \<Rightarrow>
      (let peer_state_id = nx_hash_peer_state X peer_state; peer_tip = ti_tip peer_tip_info in
      fbind (own_tip_info ho a st) (\<lambda>own_info.
      if try_get_main_header_info a (t_main_block_hash peer_tip) = None then
        Some (send_info (I_NeedMainchainAncestors (t_main_block_hash peer_tip) peer_state_id) io)
      else
      fbind (Some (check_claims a peer_tip_info)) (\<lambda>_.
      fbind (check_peer_tip_and_request_headers fuel X a own_info peer_tip_info peer_state_id io) (\<lambda>(better, io).
      if better \<noteq> Some True then Some (Ok io)
      else
      fbind (Some (ensure (try_get_bmm_result a (t_block_hash peer_tip) (t_main_block_hash peer_tip) = Some BmmVerified)
        (PE_PeerBan (BmmVerificationFailed peer_tip)))) (\<lambda>_.
      request_bodies fuel X a own_info peer_tip_info peer_state_id io))))))"

section \<open>Answering a peer\<close>

definition handle_get_block :: "Archive \<Rightarrow> BlockHash \<Rightarrow> ResponseMessage" where
  "handle_get_block a block_hash =
     (case (try_get_header a block_hash, try_get_body a block_hash) of
        (Some header, Some body) \<Rightarrow> RespBlock header body
      | _ \<Rightarrow> RespNoBlock block_hash)"

text \<open>\<open>ancestor_headers(..).take_while(..)\<close>, newest first.\<close>

fun headers_until :: "nat \<Rightarrow> Archive \<Rightarrow> BlockHash fset \<Rightarrow> BlockHash option \<Rightarrow> (ArchiveError, Header list) result option" where
  "headers_until fuel a start None = Some (Ok [])"
| "headers_until 0 a start (Some block_hash) = None"
| "headers_until (Suc fuel) a start (Some block_hash) =
     fbind (Some (get_header a block_hash)) (\<lambda>header.
     if block_hash |\<in>| start then Some (Ok [])
     else fbind (headers_until fuel a start (hd_prev_side_hash header)) (\<lambda>headers. Some (Ok (header # headers))))"

definition handle_get_headers :: "nat \<Rightarrow> Archive \<Rightarrow> BlockHash fset \<Rightarrow> BlockHash \<Rightarrow> ResponseMessage task" where
  "handle_get_headers fuel a start end_hash =
     (if try_get_header a end_hash \<noteq> None then
        fbind (from_walk (headers_until fuel a start (Some end_hash))) (\<lambda>headers. Some (Ok (RespHeaders (rev headers))))
      else Some (Ok (RespNoHeader end_hash)))"

text \<open>The answer that is sent, and then the result of the handler.\<close>

definition handle_push_tx ::
  "externs \<Rightarrow> State \<Rightarrow> AuthorizedTransaction \<Rightarrow> peer_io \<Rightarrow> ResponseMessage option \<times> (PeerError, peer_io) result" where
  "handle_push_tx E st tx io =
     (let t = txid E (at_transaction tx) in
      case validate_transaction E st tx of
        Ok _ \<Rightarrow> (Some (RespTransactionAccepted t), send_info (I_NewTransaction tx) io)
      | Err err \<Rightarrow> (Some (RespTransactionRejected t), case err of E_NoUtxo _ \<Rightarrow> Ok io | _ \<Rightarrow> Err (PE_State err))
      | Panic \<Rightarrow> (None, Panic))"

section \<open>The connection task\<close>

record ConnectionTask =
  ct_resolved_address :: ResolvedSeedAddress
  ct_peer_state :: "PeerStateId option"
  ct_peer_states :: "(PeerStateId, PeerState) fmap"
  ct_blocking_open :: bool
  ct_blocking_tasks :: "PeerState list"
  ct_heartbeats :: "PeerState list"
  ct_responses :: "ResponseMessage list"
  ct_io :: peer_io

definition push_blocking_task :: "PeerState \<Rightarrow> ConnectionTask \<Rightarrow> (PeerError, ConnectionTask) result" where
  "push_blocking_task peer_state ct =
     (if ct_blocking_open ct then Ok (ct\<lparr>ct_blocking_tasks := ct_blocking_tasks ct @ [peer_state]\<rparr>)
      else Err PE_SendBlockingTask)"

definition respond :: "ResponseMessage \<Rightarrow> ConnectionTask \<Rightarrow> ConnectionTask" where
  "respond response ct = ct\<lparr>ct_responses := ct_responses ct @ [response]\<rparr>"

definition respond_if :: "ResponseMessage option \<Rightarrow> ConnectionTask \<Rightarrow> ConnectionTask" where
  "respond_if response ct = (case response of Some r \<Rightarrow> respond r ct | None \<Rightarrow> ct)"

definition handle_heartbeat :: "net_externs \<Rightarrow> PeerState \<Rightarrow> ConnectionTask \<Rightarrow> (PeerError, ConnectionTask) result" where
  "handle_heartbeat X new_peer_state ct =
     (let new_peer_state_id = nx_hash_peer_state X new_peer_state;
          ct = ct\<lparr>ct_peer_states := fmupd new_peer_state_id new_peer_state (ct_peer_states ct)\<rparr> in
      if ct_peer_state ct \<noteq> Some new_peer_state_id then
        rbind (push_blocking_task new_peer_state ct) (\<lambda>ct. Ok (ct\<lparr>ct_peer_state := Some new_peer_state_id\<rparr>))
      else Ok ct)"

definition handle_peer_request ::
  "nat \<Rightarrow> externs \<Rightarrow> net_externs \<Rightarrow> Archive \<Rightarrow> State \<Rightarrow> RequestMessage \<Rightarrow> ConnectionTask \<Rightarrow> ConnectionTask task" where
  "handle_peer_request fuel E X a st request_msg ct =
     (case request_msg of
        RM_Heartbeat new_peer_state \<Rightarrow> Some (handle_heartbeat X new_peer_state ct)
      | RM_Request (GetBlock r) \<Rightarrow> Some (Ok (respond (handle_get_block a (gb_block_hash r)) ct))
      | RM_Request (GetHeaders r) \<Rightarrow>
          fbind (handle_get_headers fuel a (gh_start r) (gh_end r)) (\<lambda>response. Some (Ok (respond response ct)))
      | RM_Request (PushTransaction tx) \<Rightarrow>
          (let (response, res) = handle_push_tx E st tx (ct_io ct) in
           Some (rbind res (\<lambda>io. Ok ((respond_if response ct)\<lparr>ct_io := io\<rparr>)))))"

text \<open>Handle the state of a peer again that was known when the node was asked for something.\<close>

definition resume_peer_state :: "PeerStateId \<Rightarrow> ConnectionTask \<Rightarrow> (PeerError, ConnectionTask) result" where
  "resume_peer_state peer_state_id ct =
     rbind (ok_or (PE_MissingPeerState peer_state_id) (fmlookup (ct_peer_states ct) peer_state_id)) (\<lambda>peer_state.
       push_blocking_task peer_state ct)"

definition handle_internal_message ::
  "net_externs \<Rightarrow> InternalMessage \<Rightarrow> ConnectionTask \<Rightarrow> (PeerError, ConnectionTask) result" where
  "handle_internal_message X msg ct =
     (case msg of
        IM_ForwardRequest request \<Rightarrow> rbind (send_request X request (ct_io ct)) (\<lambda>(_, io). Ok (ct\<lparr>ct_io := io\<rparr>))
      | IM_BmmVerification found peer_state_id \<Rightarrow> if found then resume_peer_state peer_state_id ct else Ok ct
      | IM_BmmVerificationError \<Rightarrow> Ok ct
      | IM_MainchainAncestorsError \<Rightarrow> Ok ct
      | IM_MainchainAncestors peer_state_id \<Rightarrow> resume_peer_state peer_state_id ct
      | IM_Headers peer_state_id \<Rightarrow> resume_peer_state peer_state_id ct
      | IM_BodiesAvailable peer_state_id \<Rightarrow> resume_peer_state peer_state_id ct)"

text \<open>The blocking tasks run one after the other, in order.\<close>

definition run_blocking_task ::
  "nat \<Rightarrow> net_externs \<Rightarrow> hash_order \<Rightarrow> Archive \<Rightarrow> State \<Rightarrow> ConnectionTask \<Rightarrow> ConnectionTask task" where
  "run_blocking_task fuel X ho a st ct =
     (case ct_blocking_tasks ct of
        [] \<Rightarrow> Some (Ok ct)
      | peer_state # tasks \<Rightarrow>
          fbind (handle_peer_state fuel X ho a st peer_state (ct_io ct)) (\<lambda>io.
          Some (Ok (ct\<lparr>ct_blocking_tasks := tasks, ct_io := io\<rparr>))))"

definition send_heartbeat ::
  "net_externs \<Rightarrow> hash_order \<Rightarrow> Archive \<Rightarrow> State \<Rightarrow> ConnectionTask \<Rightarrow> ConnectionTask task" where
  "send_heartbeat X ho a st ct =
     fbind (own_tip_info ho a st) (\<lambda>own_info.
     if \<not> io_requests_open (ct_io ct) then Some (Err PE_SendHeartbeat)
     else Some (Ok (ct\<lparr>ct_heartbeats := ct_heartbeats ct @ [\<lparr>ps_tip_info = own_info, ps_version = nx_version X\<rparr>]\<rparr>)))"

text \<open>A response is passed on to the node; a closed channel is ignored.\<close>

definition handle_peer_response :: "Request \<Rightarrow> PeerError + ResponseMessage \<Rightarrow> ConnectionTask \<Rightarrow> ConnectionTask" where
  "handle_peer_response request response ct =
     (let info = (case response of Inr resp \<Rightarrow> I_Response resp request | Inl err \<Rightarrow> I_Error err (ct_resolved_address ct)) in
      case send_info info (ct_io ct) of Ok io \<Rightarrow> ct\<lparr>ct_io := io\<rparr> | _ \<Rightarrow> ct)"

end
