(* ===== verification/Net.thy ===== *)
theory Net
  imports Peer
begin

text \<open>
  The table of peers: the active and known peers of \<open>Net\<close> (\<open>lib/net/mod.rs\<close>). The QUIC
  endpoint is a parameter. The order in which the code iterates over the \<open>HashMap\<close> of active
  peers is the order of the list.
\<close>

section \<open>Peers\<close>

datatype PeerConnectionStatus = Connecting | Connected

record PeerHandle =
  ph_status :: PeerConnectionStatus
  ph_received_msg_successfully :: bool
  ph_open :: bool
  ph_messages :: "InternalMessage list"

record Net =
  net_active_peers :: "(SocketAddr \<times> PeerHandle) list"
  net_known_peers :: "SocketAddr fset"

datatype NetError =
    NE_AlreadyConnected SocketAddr
  | NE_InvalidRemoteAddress SocketAddr
  | NE_Connect
  | NE_PushTransaction SocketAddr
  | NE_UnspecifiedPeerIP IpAddr

definition seed_node_addrs :: "Network \<Rightarrow> SeedAddress list" where
  "seed_node_addrs network =
     (case network of
        Betanet \<Rightarrow> [\<lparr>sa_host = H_Domain ''seed.beta.ecash.eu.com'', sa_port = DEFAULT_PORT\<rparr>]
      | Forknet \<Rightarrow> [\<lparr>sa_host = H_Ipv4 0x9DB408E0, sa_port = DEFAULT_PORT\<rparr>]
      | Regtest \<Rightarrow> []
      | Signet \<Rightarrow> [\<lparr>sa_host = H_Ipv4 0xAC699487, sa_port = DEFAULT_PORT\<rparr>,
                  \<lparr>sa_host = H_Ipv4 0x5FD9F30C, sa_port = DEFAULT_PORT\<rparr>])"

definition ensure_seed_peers :: "Network \<Rightarrow> Net \<Rightarrow> Net" where
  "ensure_seed_peers network n =
     n\<lparr>net_known_peers := fold finsert (List.map_filter seed_socket_addr (seed_node_addrs network)) (net_known_peers n)\<rparr>"

definition is_active_peer :: "Net \<Rightarrow> SocketAddr \<Rightarrow> bool" where
  "is_active_peer n addr = (map_of (net_active_peers n) addr \<noteq> None)"

definition add_active_peer :: "SocketAddr \<Rightarrow> PeerHandle \<Rightarrow> Net \<Rightarrow> (NetError, Net) result" where
  "add_active_peer addr handle n =
     (if is_active_peer n addr then Err (NE_AlreadyConnected addr)
      else Ok (n\<lparr>net_active_peers := net_active_peers n @ [(addr, handle)]\<rparr>))"

definition remove_active_peer :: "SocketAddr \<Rightarrow> Net \<Rightarrow> Net" where
  "remove_active_peer addr n = n\<lparr>net_active_peers := filter (\<lambda>(a, _). a \<noteq> addr) (net_active_peers n)\<rparr>"

definition get_active_peers :: "Net \<Rightarrow> (SocketAddr \<times> PeerConnectionStatus) list" where
  "get_active_peers n = map (\<lambda>(addr, handle). (addr, ph_status handle)) (net_active_peers n)"

definition forget_peer :: "SocketAddr \<Rightarrow> Net \<Rightarrow> bool \<times> Net" where
  "forget_peer addr n = (addr |\<in>| net_known_peers n, n\<lparr>net_known_peers := net_known_peers n |-| {|addr|}\<rparr>)"

text \<open>What the QUIC endpoint answers when it starts to connect.\<close>

datatype connect_answer = CA_Connecting | CA_InvalidRemoteAddress | CA_Error

definition server_name :: "ResolvedSeedAddress \<Rightarrow> string" where
  "server_name r = (case resolved_host r of H_Domain domain \<Rightarrow> domain | _ \<Rightarrow> ''localhost'')"

function dial :: "(SocketAddr \<Rightarrow> string \<Rightarrow> connect_answer) \<Rightarrow> ResolvedSeedAddress
    \<Rightarrow> (NetError, SocketAddr \<times> ResolvedSeedAddress) result" where
  "dial server_connect r =
     (let addr = (first_ip_addr r, resolved_port r) in
      if is_unspecified (fst addr) then Err (NE_UnspecifiedPeerIP (fst addr))
      else case server_connect addr (server_name r) of
        CA_Connecting \<Rightarrow> Ok (addr, r)
      | CA_InvalidRemoteAddress \<Rightarrow>
          (case pop_first_ip_addr r of
             (_, Some next_addr) \<Rightarrow> dial server_connect next_addr
           | (_, None) \<Rightarrow> Err (NE_InvalidRemoteAddress addr))
      | CA_Error \<Rightarrow> Err NE_Connect)"
  by pat_completeness auto
termination
  by (relation "measure (\<lambda>(_, r). length (ip_addrs r))") (simp_all, metis pop_first_ip_addr_size)

declare dial.simps [simp del]

definition new_handle :: "PeerConnectionStatus \<Rightarrow> PeerHandle" where
  "new_handle status = \<lparr>ph_status = status, ph_received_msg_successfully = False, ph_open = True, ph_messages = []\<rparr>"

text \<open>Both the address table and, where the last step fails, what was already written are kept.\<close>

definition connect_peer ::
  "(SocketAddr \<Rightarrow> string \<Rightarrow> connect_answer) \<Rightarrow> ResolvedSeedAddress \<Rightarrow> Net \<Rightarrow> (NetError, unit) result \<times> Net" where
  "connect_peer server_connect r n =
     (case find (is_active_peer n) (map (\<lambda>ip. (ip, resolved_port r)) (ip_addrs r)) of
        Some addr \<Rightarrow> (Err (NE_AlreadyConnected addr), n)
      | None \<Rightarrow>
          (case dial server_connect r of
             Err e \<Rightarrow> (Err e, n)
           | Panic \<Rightarrow> (Panic, n)
           | Ok (addr, r) \<Rightarrow>
               (let n = (case r of R_Static static_addr \<Rightarrow> n\<lparr>net_known_peers := finsert static_addr (net_known_peers n)\<rparr> | _ \<Rightarrow> n) in
                case add_active_peer addr (new_handle Connecting) n of
                  Ok n \<Rightarrow> (Ok (), n)
                | Err e \<Rightarrow> (Err e, n)
                | Panic \<Rightarrow> (Panic, n))))"

definition dial_known_peers ::
  "(SocketAddr \<Rightarrow> string \<Rightarrow> connect_answer) \<Rightarrow> SocketAddr list \<Rightarrow> Net \<Rightarrow> nat \<times> Net" where
  "dial_known_peers server_connect peer_addrs n =
     fold (\<lambda>peer_addr (dialed, n).
       if is_active_peer n peer_addr then (dialed, n)
       else case connect_peer server_connect (R_Static peer_addr) n of
           (Ok _, n) \<Rightarrow> (dialed + 1, n)
         | (_, n) \<Rightarrow> (dialed, n)) peer_addrs (0, n)"

text \<open>A seed with a host name is resolved and then dialed.\<close>

datatype DialSeedError = DS_Resolve ResolveError | DS_Connect NetError

definition dial_seed ::
  "(string \<Rightarrow> IpAddr list option) \<Rightarrow> (SocketAddr \<Rightarrow> string \<Rightarrow> connect_answer) \<Rightarrow> SeedAddress \<Rightarrow> Net
    \<Rightarrow> (DialSeedError, unit) result \<times> Net" where
  "dial_seed lookup_ip server_connect seed_addr n =
     (case resolve_seed_address lookup_ip seed_addr of
        Ok resolved_addr \<Rightarrow>
          (let (r, n) = connect_peer server_connect resolved_addr n in (map_err DS_Connect r, n))
      | Err e \<Rightarrow> (Err (DS_Resolve e), n)
      | Panic \<Rightarrow> (Panic, n))"

text \<open>
  The loop \<open>redial_known_peers\<close>, one round of it after each sleep: the next delay, whether the
  last check found no peer, and the network.
\<close>

record redial =
  rd_delay :: nat
  rd_no_peers_at_last_check :: bool

definition redial_known_peers ::
  "(SocketAddr \<Rightarrow> string \<Rightarrow> connect_answer) \<Rightarrow> SocketAddr list \<Rightarrow> nat \<Rightarrow> nat \<Rightarrow> redial \<times> Net \<Rightarrow> redial \<times> Net" where
  "redial_known_peers server_connect peer_addrs min_delay max_delay s =
     (let (rd, n) = s in
      if net_active_peers n \<noteq> [] then (\<lparr>rd_delay = min_delay, rd_no_peers_at_last_check = False\<rparr>, n)
      else if \<not> rd_no_peers_at_last_check rd then (rd\<lparr>rd_no_peers_at_last_check := True\<rparr>, n)
      else (rd\<lparr>rd_delay := min (2 * rd_delay rd) max_delay\<rparr>, snd (dial_known_peers server_connect peer_addrs n)))"

text \<open>An incoming connection; \<open>closed\<close> says whether it was closed before it is looked at.\<close>

definition accept_incoming :: "SocketAddr \<Rightarrow> bool \<Rightarrow> Net \<Rightarrow> (NetError, SocketAddr option) result \<times> Net" where
  "accept_incoming addr closed n =
     (if is_active_peer n addr \<or> closed then (Ok None, n)
      else
        (let n = n\<lparr>net_known_peers := finsert addr (net_known_peers n)\<rparr> in
         case add_active_peer addr (new_handle Connected) n of
           Ok n \<Rightarrow> (Ok (Some addr), n)
         | Err e \<Rightarrow> (Err e, n)
         | Panic \<Rightarrow> (Panic, n)))"

section \<open>Messages to peers\<close>

definition send_message :: "InternalMessage \<Rightarrow> PeerHandle \<Rightarrow> PeerHandle" where
  "send_message msg h = h\<lparr>ph_messages := ph_messages h @ [msg]\<rparr>"

definition push_internal_message :: "InternalMessage \<Rightarrow> SocketAddr \<Rightarrow> Net \<Rightarrow> bool \<times> Net" where
  "push_internal_message msg addr n =
     (case map_of (net_active_peers n) addr of
        None \<Rightarrow> (False, n)
      | Some h \<Rightarrow>
          if \<not> ph_open h then (False, n)
          else (True, n\<lparr>net_active_peers :=
            map (\<lambda>(a, h). (a, if a = addr then send_message msg h else h)) (net_active_peers n)\<rparr>))"

text \<open>The loop over the active peers: a closed queue ends it, and what was sent stays sent.\<close>

fun push_to_peers ::
  "SocketAddr set \<Rightarrow> AuthorizedTransaction \<Rightarrow> (SocketAddr \<times> PeerHandle) list
    \<Rightarrow> (NetError, nat) result \<times> (SocketAddr \<times> PeerHandle) list" where
  "push_to_peers exclude tx [] = (Ok 0, [])"
| "push_to_peers exclude tx ((addr, peer) # peers) =
     (if addr \<in> exclude \<or> ph_status peer \<noteq> Connected then
        (let (r, peers) = push_to_peers exclude tx peers in (r, (addr, peer) # peers))
      else if \<not> ph_open peer then (Err (NE_PushTransaction addr), (addr, peer) # peers)
      else
        (let (r, peers) = push_to_peers exclude tx peers in
         (rbind r (\<lambda>peer_count. Ok (peer_count + 1)),
          (addr, send_message (IM_ForwardRequest (PushTransaction tx)) peer) # peers)))"

definition push_tx :: "SocketAddr set \<Rightarrow> AuthorizedTransaction \<Rightarrow> Net \<Rightarrow> (NetError, nat) result \<times> Net" where
  "push_tx exclude tx n =
     (let (r, peers) = push_to_peers exclude tx (net_active_peers n) in (r, n\<lparr>net_active_peers := peers\<rparr>))"

lemma push_to_peers_addrs: "map fst (snd (push_to_peers exclude tx peers)) = map fst peers"
  by (induction exclude tx peers rule: push_to_peers.induct) (auto split: prod.splits)

lemma push_to_peers_Err:
  "push_to_peers exclude tx peers = (Err e, peers') \<Longrightarrow>
   \<exists>addr. e = NE_PushTransaction addr \<and> addr \<in> fst ` set peers \<and> addr \<notin> exclude"
  by (induction exclude tx peers arbitrary: peers' rule: push_to_peers.induct)
    (force split: prod.splits if_splits simp: rbind_Err_iff)+

lemma push_tx_addrs: "fst ` set (net_active_peers (snd (push_tx exclude tx n))) = fst ` set (net_active_peers n)"
  by (simp add: push_tx_def split: prod.splits) (metis list.set_map push_to_peers_addrs snd_conv)

lemma push_tx_closed_peer:
  "push_tx exclude tx n = (Err (NE_PushTransaction addr), n') \<Longrightarrow> addr \<in> fst ` set (net_active_peers n) \<and> addr \<notin> exclude"
  using push_to_peers_Err [of exclude tx "net_active_peers n"] by (auto simp: push_tx_def split: prod.splits)

text \<open>
  \<open>relay_transaction\<close>: a peer whose queue is closed is left out and the others are tried
  again.
\<close>

function relay_transaction ::
  "AuthorizedTransaction \<Rightarrow> SocketAddr set \<Rightarrow> Net \<Rightarrow> (NetError, unit) result \<times> Net" where
  "relay_transaction tx exclude n =
     (case push_tx exclude tx n of
        (Ok _, n) \<Rightarrow> (Ok (), n)
      | (Err (NE_PushTransaction addr), n) \<Rightarrow> relay_transaction tx (insert addr exclude) n
      | (Err e, n) \<Rightarrow> (Err e, n)
      | (Panic, n) \<Rightarrow> (Panic, n))"
  by pat_completeness auto
termination
proof (relation "measure (\<lambda>(_, exclude, n). card (fst ` set (net_active_peers n) - exclude))", goal_cases)
  case (2 tx exclude n x n' e addr)
  then have p: "push_tx exclude tx n = (Err (NE_PushTransaction addr), n')" by auto
  have "fst ` set (net_active_peers n') - insert addr exclude \<subset> fst ` set (net_active_peers n) - exclude"
    using push_tx_closed_peer [OF p] push_tx_addrs [of exclude tx n] p by auto
  then show ?case by (auto intro!: psubset_card_mono)
qed simp

declare relay_transaction.simps [simp del]

end
