(* ===== verification/Node_Tip.thy ===== *)
theory Node_Tip
  imports Net Mempool Two_Way_Peg Block "HOL-Library.AList"
begin

text \<open>
  How the node moves its tip: \<open>connect_tip_\<close>, \<open>disconnect_tip_\<close> and \<open>reorg_to_tip\<close> of
  \<open>lib/node/net_task.rs\<close> and the handler of mainchain block events there.

  The databases of the node are one record. A write transaction is a value of that record:
  committing it replaces the node's databases, dropping it leaves them alone. \<open>reorg_to_tip\<close>
  commits several times, so it answers its result together with what has been committed.
  The fuel bounds the walks towards the genesis blocks and the queue of \<open>put_body\<close>; \<open>None\<close>
  says that it was too little.
\<close>

section \<open>Data\<close>

record Node =
  nd_archive :: Archive
  nd_mempool :: MemPool
  nd_state :: State

datatype NetTaskError =
    NT_Archive ArchiveError
  | NT_MemPool MempoolError
  | NT_Net NetError
  | NT_State Error

definition is_fatal_reorg_error :: "NetTaskError \<Rightarrow> bool" where
  "is_fatal_reorg_error err = (case err of NT_State _ \<Rightarrow> False | _ \<Rightarrow> True)"

text \<open>Results of the components as results of the net task.\<close>

definition lift_state :: "(Error, 'a) result \<Rightarrow> (NetTaskError, 'a) result option" where
  "lift_state r = Some (map_err NT_State r)"

definition lift_archive :: "(ArchiveError, 'a) result \<Rightarrow> (NetTaskError, 'a) result option" where
  "lift_archive r = Some (map_err NT_Archive r)"

definition lift_walk :: "(ArchiveError, 'a) result option \<Rightarrow> (NetTaskError, 'a) result option" where
  "lift_walk r = map_option (map_err NT_Archive) r"

definition lift_mempool :: "(MempoolError, 'a) result \<Rightarrow> (NetTaskError, 'a) result option" where
  "lift_mempool r = Some (map_err NT_MemPool r)"

section \<open>Connecting a block\<close>

type_synonym bundle_order = "AggregatedWithdrawal list \<Rightarrow> AggregatedWithdrawal list"

definition node_connect_tip ::
  "nat \<Rightarrow> externs \<Rightarrow> bundle_order \<Rightarrow> hash_order \<Rightarrow> Header \<Rightarrow> Body \<Rightarrow> TwoWayPegData \<Rightarrow> Node
    \<Rightarrow> (NetTaskError, Node) result option" where
  "node_connect_tip fuel E order ho header body two_way_peg_data nd =
     fbind (lift_state (apply_block E header body (nd_state nd))) (\<lambda>st.
     fbind (lift_state (connect_two_way_peg_data E order two_way_peg_data st)) (\<lambda>st.
     fbind (lift_archive (put_header E ho header (nd_archive nd))) (\<lambda>a.
     fbind (lift_walk (put_body fuel E ho (header_hash E header) body a)) (\<lambda>a.
     Some (Ok \<lparr>nd_archive = a,
       nd_mempool = fold (\<lambda>tx. mempool_delete E (txid E tx)) (bo_transactions body) (nd_mempool nd),
       nd_state = st\<rparr>)))))"

section \<open>Disconnecting the tip\<close>

text \<open>The last event block that was applied below a height.\<close>

definition last_applied :: "externs \<Rightarrow> u32 \<Rightarrow> (u32, bitcoin_BlockHash \<times> u32) fmap \<Rightarrow> (bitcoin_BlockHash \<times> u32) option" where
  "last_applied E height m =
     List.find (\<lambda>(_, applied_height). applied_height < height) (map snd (rev (db_iter (ext_bincode_u32 E) m)))"

definition start_block_hash ::
  "Archive \<Rightarrow> (bitcoin_BlockHash \<times> u32) option \<Rightarrow> (bitcoin_BlockHash \<times> u32) option
    \<Rightarrow> (ArchiveError, bitcoin_BlockHash option) result" where
  "start_block_hash a deposit withdrawal =
     (case (deposit, withdrawal) of
        (None, None) \<Rightarrow> Ok None
      | (Some (block_hash, _), None) \<Rightarrow> Ok (Some block_hash)
      | (None, Some (block_hash, _)) \<Rightarrow> Ok (Some block_hash)
      | (Some (deposit_block, deposit_height), Some (withdrawal_block, withdrawal_height)) \<Rightarrow>
          if deposit_height < withdrawal_height then Ok (Some withdrawal_block)
          else if withdrawal_height < deposit_height then Ok (Some deposit_block)
          else rbind (is_main_descendant a withdrawal_block deposit_block) (\<lambda>before.
            if before then Ok (Some withdrawal_block)
            else rbind (is_main_descendant a deposit_block withdrawal_block) (\<lambda>after.
              rbind (assert_that after) (\<lambda>_. Ok (Some deposit_block)))))"

text \<open>
  \<open>main_ancestors(..).take_while(..)\<close> with the information of each block, newest first, up to
  but without the block \<open>stop\<close>.
\<close>

fun main_infos_until ::
  "nat \<Rightarrow> Archive \<Rightarrow> bitcoin_BlockHash option \<Rightarrow> bitcoin_BlockHash
    \<Rightarrow> (ArchiveError, (bitcoin_BlockHash \<times> BlockInfo) list) result option" where
  "main_infos_until 0 a stop block_hash = (if block_hash = 0 then Some (Ok []) else None)"
| "main_infos_until (Suc fuel) a stop block_hash =
     (if block_hash = 0 then Some (Ok [])
      else fbind (Some (get_main_header_info a block_hash)) (\<lambda>header_info.
        let ancestor = bhi_block_hash header_info in
        if Some ancestor = stop then Some (Ok [])
        else fbind (Some (get_main_block_info a ancestor)) (\<lambda>block_info.
          fbind (main_infos_until fuel a stop (bhi_prev_block_hash header_info)) (\<lambda>items.
          Some (Ok ((ancestor, block_info) # items))))))"

text \<open>\<open>LinkedHashMap\<close>: collecting inserts at the back, \<open>replace\<close> keeps the place of a known key.\<close>

definition linked_insert :: "'k \<times> 'v \<Rightarrow> ('k \<times> 'v) list \<Rightarrow> ('k \<times> 'v) list" where
  "linked_insert kv l = filter (\<lambda>(k, _). k \<noteq> fst kv) l @ [kv]"

definition linked_collect :: "('k \<times> 'v) list \<Rightarrow> ('k \<times> 'v) list" where
  "linked_collect kvs = fold linked_insert kvs []"

definition events_of :: "bitcoin_BlockHash \<times> BlockInfo \<Rightarrow> bitcoin_BlockHash \<times> BlockEvent list" where
  "events_of = (\<lambda>(block_hash, info). (block_hash, bi_events info))"

definition tip_peg_data :: "nat \<Rightarrow> externs \<Rightarrow> Archive \<Rightarrow> Header \<Rightarrow> u32 \<Rightarrow> State \<Rightarrow> (NetTaskError, TwoWayPegData) result option" where
  "tip_peg_data fuel E a tip_header height st =
     fbind (lift_archive (start_block_hash a (last_applied E height (st_deposit_blocks st))
       (last_applied E height (st_withdrawal_bundle_event_blocks st)))) (\<lambda>start.
     fbind (lift_walk (main_infos_until fuel a start (hd_prev_main_hash tip_header))) (\<lambda>infos.
     Some (Ok \<lparr>block_info = map events_of
       (linked_collect (rev (filter (\<lambda>(_, info). bi_events info \<noteq> []) infos)))\<rparr>)))"

definition node_disconnect_tip :: "nat \<Rightarrow> externs \<Rightarrow> Node \<Rightarrow> (NetTaskError, Node) result option" where
  "node_disconnect_tip fuel E nd =
     (let a = nd_archive nd; st = nd_state nd in
      fbind (lift_state (ok_or E_NoTip (st_tip st))) (\<lambda>tip_block_hash.
      fbind (lift_archive (get_header a tip_block_hash)) (\<lambda>tip_header.
      fbind (lift_archive (get_body a tip_block_hash)) (\<lambda>tip_body.
      fbind (lift_state (ok_or E_NoTip (st_height st))) (\<lambda>height.
      fbind (tip_peg_data fuel E a tip_header height st) (\<lambda>two_way_peg_data.
      fbind (lift_state (disconnect_two_way_peg_data E two_way_peg_data st)) (\<lambda>st.
      fbind (lift_state (disconnect_tip E tip_header tip_body st)) (\<lambda>st.
      fbind (Some (authorized_transactions tip_body)) (\<lambda>txs.
      fbind (lift_mempool (try_fold (mempool_put E) (rev txs) (nd_mempool nd))) (\<lambda>mp.
      Some (Ok (nd\<lparr>nd_mempool := mp, nd_state := st\<rparr>))))))))))))"

text \<open>The loop that disconnects a given number of blocks.\<close>

fun disconnect_tips :: "nat \<Rightarrow> externs \<Rightarrow> nat \<Rightarrow> Node \<Rightarrow> (NetTaskError, Node) result option" where
  "disconnect_tips fuel E 0 nd = Some (Ok nd)"
| "disconnect_tips fuel E (Suc n) nd = fbind (node_disconnect_tip fuel E nd) (disconnect_tips fuel E n)"

section \<open>Moving to another tip\<close>

definition state_tip :: "hash_order \<Rightarrow> Archive \<Rightarrow> State \<Rightarrow> (NetTaskError, Tip option) result option" where
  "state_tip ho a st =
     (case st_tip st of
        None \<Rightarrow> Some (Ok None)
      | Some tip_hash \<Rightarrow>
          fbind (lift_archive (get_best_main_verification ho a tip_hash)) (\<lambda>bmm_verification.
          Some (Ok (Some \<lparr>t_block_hash = tip_hash, t_main_block_hash = bmm_verification\<rparr>))))"

text \<open>Is the new tip better than the current one, where there is one?\<close>

definition improves :: "nat \<Rightarrow> Archive \<Rightarrow> Tip option \<Rightarrow> Tip \<Rightarrow> (NetTaskError, bool) result option" where
  "improves fuel a tip new_tip =
     (case tip of
        None \<Rightarrow> Some (Ok True)
      | Some tip \<Rightarrow> fbind (lift_walk (better_tip fuel a tip new_tip)) (\<lambda>better. Some (Ok (better = Some new_tip))))"

definition get_block_parts :: "Archive \<Rightarrow> BlockHash \<Rightarrow> (ArchiveError, Header \<times> Body) result" where
  "get_block_parts a block_hash =
     rbind (get_header a block_hash) (\<lambda>header. rbind (get_body a block_hash) (\<lambda>body. Ok (header, body)))"

text \<open>The ancestors to apply, newest first, up to but without the common ancestor.\<close>

fun blocks_until ::
  "nat \<Rightarrow> Archive \<Rightarrow> BlockHash option \<Rightarrow> BlockHash option \<Rightarrow> (ArchiveError, (Header \<times> Body) list) result option" where
  "blocks_until fuel a common_ancestor None = Some (Ok [])"
| "blocks_until 0 a common_ancestor (Some block_hash) = None"
| "blocks_until (Suc fuel) a common_ancestor (Some block_hash) =
     fbind (Some (get_header a block_hash)) (\<lambda>header.
     if common_ancestor = Some block_hash then Some (Ok [])
     else fbind (Some (get_block_parts a block_hash)) (\<lambda>block.
       fbind (blocks_until fuel a common_ancestor (hd_prev_side_hash header)) (\<lambda>blocks.
       Some (Ok (block # blocks)))))"

definition blocks_to_apply ::
  "nat \<Rightarrow> Archive \<Rightarrow> BlockHash option \<Rightarrow> BlockHash \<Rightarrow> (ArchiveError, (Header \<times> Body) \<times> (Header \<times> Body) list) result option" where
  "blocks_to_apply fuel a common_ancestor block_hash =
     fbind (Some (get_block_parts a block_hash)) (\<lambda>block.
     fbind (blocks_until fuel a common_ancestor (hd_prev_side_hash (fst block))) (\<lambda>ancestors.
     Some (Ok (block, ancestors))))"

text \<open>
  The loop \<open>'fill_2wpd\<close>: the batch is newest first and is popped from its back until the
  mainchain block that the header names.
\<close>

function fill_2wpd ::
  "bitcoin_BlockHash \<Rightarrow> (bitcoin_BlockHash \<times> BlockInfo) list \<Rightarrow> (bitcoin_BlockHash \<times> BlockEvent list) list
    \<Rightarrow> TwoWayPegData \<times> (bitcoin_BlockHash \<times> BlockInfo) list" where
  "fill_2wpd prev_main_hash batch data =
     (if batch = [] then (\<lparr>block_info = data\<rparr>, [])
      else let (block_hash, info) = last batch; data = AList.update block_hash (bi_events info) data in
        if block_hash = prev_main_hash then (\<lparr>block_info = data\<rparr>, butlast batch)
        else fill_2wpd prev_main_hash (butlast batch) data)"
  by pat_completeness auto
termination
  by (relation "measure (\<lambda>(_, batch, _). length batch)") auto

declare fill_2wpd.simps [simp del]

text \<open>
  The loop that applies blocks, oldest first. \<open>nd\<close> is the open write transaction, \<open>db\<close> what
  has been committed. A block that the state rejects closes the transaction, and its body is
  removed from what has been committed.
\<close>

type_synonym ('n, 'a) outcome = "((NetTaskError, 'a) result \<times> 'n) option"

definition obind ::
  "'n \<Rightarrow> ('e, 'a) result option \<Rightarrow> ('a \<Rightarrow> (('e, 'b) result \<times> 'n) option) \<Rightarrow> (('e, 'b) result \<times> 'n) option" where
  "obind db m f = (case m of
      None \<Rightarrow> None | Some (Ok x) \<Rightarrow> f x | Some (Err e) \<Rightarrow> Some (Err e, db) | Some Panic \<Rightarrow> Some (Panic, db))"

definition reject_block :: "externs \<Rightarrow> hash_order \<Rightarrow> Header \<Rightarrow> Body \<Rightarrow> NetTaskError \<Rightarrow> Node \<Rightarrow> (Node, 'a) outcome" where
  "reject_block E ho header body err db =
     (if is_fatal_reorg_error err then Some (Err err, db)
      else obind db (lift_archive (delete_body E ho (header_hash E header) body (nd_archive db))) (\<lambda>a.
        Some (Err err, db\<lparr>nd_archive := a\<rparr>)))"

fun apply_blocks ::
  "nat \<Rightarrow> externs \<Rightarrow> bundle_order \<Rightarrow> hash_order \<Rightarrow> Tip option \<Rightarrow> (Header \<times> Body) list
    \<Rightarrow> (bitcoin_BlockHash \<times> BlockInfo) list \<Rightarrow> Node \<Rightarrow> Node \<Rightarrow> (Node, Node) outcome" where
  "apply_blocks fuel E order ho tip [] batch nd db = Some (Ok nd, db)"
| "apply_blocks fuel E order ho tip ((header, body) # blocks) batch nd db =
     (let (two_way_peg_data, batch) = fill_2wpd (hd_prev_main_hash header) batch [] in
      case node_connect_tip fuel E order ho header body two_way_peg_data nd of
        Some (Err err) \<Rightarrow> reject_block E ho header body err db
      | connected \<Rightarrow> obind db connected (\<lambda>nd.
        obind db (Some (expect (st_tip (nd_state nd)))) (\<lambda>new_tip_hash.
        obind db (lift_archive (get_best_main_verification ho (nd_archive nd) new_tip_hash)) (\<lambda>bmm_verification.
        obind db (improves fuel (nd_archive nd) tip
            \<lparr>t_block_hash = new_tip_hash, t_main_block_hash = bmm_verification\<rparr>) (\<lambda>better.
          apply_blocks fuel E order ho tip blocks batch nd (if better then nd else db))))))"

text \<open>How many blocks to disconnect before the common ancestor is the tip.\<close>

definition disconnects :: "Archive \<Rightarrow> u32 option \<Rightarrow> BlockHash option \<Rightarrow> (NetTaskError, nat) result option" where
  "disconnects a tip_height common_ancestor =
     (case tip_height of
        None \<Rightarrow> Some (Ok 0)
      | Some tip_height \<Rightarrow>
          (case common_ancestor of
             None \<Rightarrow> fbind (Some (add_word tip_height 1)) (\<lambda>n. Some (Ok (unat n)))
           | Some common_ancestor \<Rightarrow>
               fbind (lift_archive (get_height a common_ancestor)) (\<lambda>height.
               fbind (Some (sub_word tip_height height)) (\<lambda>n. Some (Ok (unat n))))))"

definition reorg_batch ::
  "nat \<Rightarrow> Archive \<Rightarrow> BlockHash option \<Rightarrow> bitcoin_BlockHash \<Rightarrow> (NetTaskError, (bitcoin_BlockHash \<times> BlockInfo) list) result option" where
  "reorg_batch fuel a common_ancestor prev_main_hash =
     fbind (case common_ancestor of
         None \<Rightarrow> Some (Ok None)
       | Some common_ancestor \<Rightarrow>
           fbind (lift_archive (get_header a common_ancestor)) (\<lambda>header. Some (Ok (Some (hd_prev_main_hash header))))) (\<lambda>stop.
       lift_walk (main_infos_until fuel a stop prev_main_hash))"

definition reorg_to_tip ::
  "nat \<Rightarrow> externs \<Rightarrow> bundle_order \<Rightarrow> hash_order \<Rightarrow> Tip \<Rightarrow> Node \<Rightarrow> (Node, bool) outcome" where
  "reorg_to_tip fuel E order ho new_tip db =
     (let a = nd_archive db; st = nd_state db in
      obind db (state_tip ho a st) (\<lambda>tip.
      obind db (improves fuel a tip new_tip) (\<lambda>better.
      if \<not> better then Some (Ok False, db) else
      obind db (case tip of
          None \<Rightarrow> Some (Ok None)
        | Some tip \<Rightarrow> lift_archive (last_common_ancestor a (t_block_hash tip) (t_block_hash new_tip))) (\<lambda>common_ancestor.
      obind db (lift_walk (blocks_to_apply fuel a common_ancestor (t_block_hash new_tip))) (\<lambda>(block, ancestors).
      obind db (disconnects a (st_height st) common_ancestor) (\<lambda>n.
      obind db (disconnect_tips fuel E n db) (\<lambda>nd.
      obind db (Some (assert_that (st_tip (nd_state nd) = common_ancestor))) (\<lambda>_.
      obind db (reorg_batch fuel (nd_archive nd) common_ancestor (hd_prev_main_hash (fst block))) (\<lambda>batch.
      case apply_blocks fuel E order ho tip (rev (block # ancestors)) batch nd db of
        None \<Rightarrow> None
      | Some (r, db) \<Rightarrow> obind db (Some r) (\<lambda>nd.
        obind db (Some (assert_that (st_tip (nd_state nd) = Some (t_block_hash new_tip)))) (\<lambda>_.
        Some (Ok True, nd))))))))))))"

section \<open>Handlers of the net task\<close>

definition side_tip_known :: "Archive \<Rightarrow> BlockHash \<Rightarrow> bool" where
  "side_tip_known a block_hash = (fmlookup (sd_sidechain_tips (ar_side_tips a)) block_hash \<noteq> None)"

definition height_measure :: "State \<Rightarrow> nat" where
  "height_measure st = (case st_height st of None \<Rightarrow> 0 | Some h \<Rightarrow> Suc (unat h))"

lemma disconnect_tip_height: "disconnect_tip E header body st = Ok st' \<Longrightarrow> height_measure st' < height_measure st"
  by (auto simp: disconnect_tip_def rbind_Ok_iff height_measure_def unat_minus_one unat_gt_0 split: option.splits if_splits)

text \<open>
  The loop of \<open>handle_mainchain_block_event\<close>: while the tip is not one of the sidechain tips,
  disconnect it.
\<close>

function disconnect_stale_tips :: "externs \<Rightarrow> Archive \<Rightarrow> State \<Rightarrow> (NetTaskError, State) result" where
  "disconnect_stale_tips E a st =
     (case st_tip st of
        None \<Rightarrow> Ok st
      | Some tip_hash \<Rightarrow>
          if side_tip_known a tip_hash then Ok st
          else
            (case map_err NT_Archive (get_block_parts a tip_hash) of
               Err e \<Rightarrow> Err e
             | Panic \<Rightarrow> Panic
             | Ok (header, body) \<Rightarrow>
                 (case disconnect_tip E header body st of
                    Err e \<Rightarrow> Err (NT_State e)
                  | Panic \<Rightarrow> Panic
                  | Ok st \<Rightarrow> disconnect_stale_tips E a st)))"
  by pat_completeness auto
termination
  by (relation "measure (\<lambda>(_, _, st). height_measure st)") (auto dest: disconnect_tip_height)

declare disconnect_stale_tips.simps [simp del]

definition handle_mainchain_block_event ::
  "nat \<Rightarrow> externs \<Rightarrow> tip_externs \<Rightarrow> bundle_order \<Rightarrow> hash_order \<Rightarrow> Node \<Rightarrow> (Node, unit) outcome" where
  "handle_mainchain_block_event fuel E X order ho db =
     obind db (Some (disconnect_stale_tips E (nd_archive db) (nd_state db))) (\<lambda>st.
     let db = db\<lparr>nd_state := st\<rparr> in
     case best_side_tip X (ar_side_tips (nd_archive db)) of
       None \<Rightarrow> Some (Ok (), db)
     | Some best \<Rightarrow>
         (case reorg_to_tip fuel E order ho
             \<lparr>t_block_hash = tip_block_hash best, t_main_block_hash = tip_main_block_hash (tip_info best)\<rparr> db of
            None \<Rightarrow> None
          | Some (r, db) \<Rightarrow> obind db (Some r) (\<lambda>_. Some (Ok (), db))))"

text \<open>
  \<open>MailboxItem::NewTipReady\<close>: a tip is ready to be applied. The result says whether it was;
  an error that is not fatal is an answer \<open>False\<close>, and then a peer that sent the tip is removed
  (the second component).
\<close>

definition new_tip_ready ::
  "nat \<Rightarrow> externs \<Rightarrow> bundle_order \<Rightarrow> hash_order \<Rightarrow> Tip \<Rightarrow> SocketAddr option \<Rightarrow> Node \<Rightarrow> (Node, bool \<times> SocketAddr option) outcome" where
  "new_tip_ready fuel E order ho new_tip addr db =
     (let a = nd_archive db in
      if \<not> side_tip_known a (t_block_hash new_tip) then Some (Ok (False, None), db)
      else obind db (lift_archive (is_main_descendant a (t_main_block_hash new_tip)
          (mt_block_hash (sd_mainchain_tip (ar_side_tips a))))) (\<lambda>active.
        if \<not> active then Some (Ok (False, None), db)
        else (case reorg_to_tip fuel E order ho new_tip db of
            None \<Rightarrow> None
          | Some (Err err, db) \<Rightarrow>
              if is_fatal_reorg_error err then Some (Err err, db) else Some (Ok (False, addr), db)
          | Some (r, db) \<Rightarrow> obind db (Some r) (\<lambda>applied. Some (Ok (applied, None), db)))))"

end
