(* ===== verification/Net_Task.thy ===== *)
theory Net_Task
  imports Node_Tip
begin

text \<open>
  The net task of \<open>lib/node/net_task.rs\<close>: the state it keeps between the items of its
  mailbox, the handler of the answers of peers, the pool of pending transactions that is
  relayed again, and one step for each kind of mailbox item.

  The task owns the receivers of the channels on which it sends to itself, so these sends
  succeed; the channels are lists of what was sent. Reading a database does not fail in the
  model, so the test for such a failure in \<open>relay_pending_transactions\<close> has nothing to find.
\<close>

section \<open>State\<close>

record NetTask =
  nt_node :: Node
  nt_net :: Net
  nt_descendant_tips :: "(BlockHash, (Tip, SocketAddr fset) fmap) fmap"
  nt_request_sources :: "(bitcoin_BlockHash, (SocketAddr \<times> PeerStateId) fset) fmap"
  nt_new_tips :: "(Tip \<times> SocketAddr option) list"
  nt_forward :: "(bitcoin_BlockHash \<times> SocketAddr \<times> PeerStateId) list"
  nt_main_requests :: "bitcoin_BlockHash list"

text \<open>The orders in which the code iterates over its hash maps and hash sets.\<close>

record orders =
  or_hashes :: hash_order
  or_addrs :: "SocketAddr fset \<Rightarrow> SocketAddr list"
  or_tips :: "Tip fset \<Rightarrow> Tip list"
  or_sources :: "(SocketAddr \<times> PeerStateId) fset \<Rightarrow> (SocketAddr \<times> PeerStateId) list"

definition set_archive :: "Archive \<Rightarrow> NetTask \<Rightarrow> NetTask" where
  "set_archive a nt = nt\<lparr>nt_node := (nt_node nt)\<lparr>nd_archive := a\<rparr>\<rparr>"

definition set_mempool :: "MemPool \<Rightarrow> NetTask \<Rightarrow> NetTask" where
  "set_mempool mp nt = nt\<lparr>nt_node := (nt_node nt)\<lparr>nd_mempool := mp\<rparr>\<rparr>"

definition drop_peer :: "SocketAddr \<Rightarrow> NetTask \<Rightarrow> NetTask" where
  "drop_peer addr nt = nt\<lparr>nt_net := remove_active_peer addr (nt_net nt)\<rparr>"

definition tell_peer :: "InternalMessage \<Rightarrow> SocketAddr \<Rightarrow> NetTask \<Rightarrow> NetTask" where
  "tell_peer msg addr nt = nt\<lparr>nt_net := snd (push_internal_message msg addr (nt_net nt))\<rparr>"

definition send_new_tip :: "Tip \<Rightarrow> SocketAddr option \<Rightarrow> NetTask \<Rightarrow> NetTask" where
  "send_new_tip tip addr nt = nt\<lparr>nt_new_tips := nt_new_tips nt @ [(tip, addr)]\<rparr>"

section \<open>Pending transactions\<close>

text \<open>Validate one pending transaction; an invalid one leaves the mempool with its descendants.\<close>

definition check_pending ::
  "externs \<Rightarrow> State \<Rightarrow> AuthorizedTransaction \<Rightarrow> AuthorizedTransaction list \<times> MemPool
    \<Rightarrow> (NetTaskError, AuthorizedTransaction list \<times> MemPool) result" where
  "check_pending E st tx s =
     (let (valid, mp) = s in
      case validate_transaction E st tx of
        Ok _ \<Rightarrow> Ok (valid @ [tx], mp)
      | Err _ \<Rightarrow> Ok (valid, mempool_delete E (at_txid E tx) mp)
      | Panic \<Rightarrow> Panic)"

fun relay_all :: "AuthorizedTransaction list \<Rightarrow> SocketAddr set \<Rightarrow> Net \<Rightarrow> (NetError, unit) result \<times> Net" where
  "relay_all [] exclude n = (Ok (), n)"
| "relay_all (tx # txs) exclude n =
     (case relay_transaction tx exclude n of
        (Ok _, n) \<Rightarrow> relay_all txs exclude n
      | (Err e, n) \<Rightarrow> (Err e, n)
      | (Panic, n) \<Rightarrow> (Panic, n))"

definition relay_pending_transactions ::
  "externs \<Rightarrow> SocketAddr option \<Rightarrow> NetTask \<Rightarrow> (NetTask, unit) outcome" where
  "relay_pending_transactions E peer nt =
     obind nt (Some (try_fold (check_pending E (nd_state (nt_node nt))) (take_all (nd_mempool (nt_node nt)))
       ([], nd_mempool (nt_node nt)))) (\<lambda>(valid, mp).
     let nt = set_mempool mp nt;
         exclude = (case peer of None \<Rightarrow> {} | Some peer \<Rightarrow> set (map fst (get_active_peers (nt_net nt))) - {peer});
         (r, n) = relay_all valid exclude (nt_net nt) in
     Some (map_err NT_Net r, nt\<lparr>nt_net := n\<rparr>))"

section \<open>Answers to requests for blocks\<close>

definition add_source :: "BlockHash \<Rightarrow> Tip \<Rightarrow> SocketAddr fset \<Rightarrow> NetTask \<Rightarrow> NetTask" where
  "add_source missing descendant_tip sources nt =
     (let tips = (case fmlookup (nt_descendant_tips nt) missing of Some tips \<Rightarrow> tips | None \<Rightarrow> fmempty);
          known = (case fmlookup tips descendant_tip of Some s \<Rightarrow> s | None \<Rightarrow> {||}) in
      nt\<lparr>nt_descendant_tips := fmupd missing (fmupd descendant_tip (known |\<union>| sources) tips) (nt_descendant_tips nt)\<rparr>)"

text \<open>The earliest missing body above an ancestor (or above the genesis block).\<close>

definition earliest_missing_body ::
  "nat \<Rightarrow> Archive \<Rightarrow> BlockHash \<Rightarrow> BlockHash option \<Rightarrow> (NetTaskError, BlockHash option) result option" where
  "earliest_missing_body fuel a block_hash ancestor =
     fbind (case ancestor of
         None \<Rightarrow> Some (Ok 0)
       | Some ancestor \<Rightarrow> fbind (lift_archive (get_height a ancestor)) (\<lambda>height. Some (add_word height 1))) (\<lambda>start_height.
     fbind (lift_walk (missing_bodies_from fuel 1 a block_hash start_height)) (\<lambda>missing.
     Some (Ok (case missing of [] \<Rightarrow> None | b # _ \<Rightarrow> Some b))))"

text \<open>The verification of a block below a mainchain block; \<open>find_map\<close> over the results.\<close>

fun verification_below ::
  "Archive \<Rightarrow> bitcoin_BlockHash \<Rightarrow> (bitcoin_BlockHash \<times> BmmResult) list \<Rightarrow> (ArchiveError, bitcoin_BlockHash option) result" where
  "verification_below a main_tip [] = Ok None"
| "verification_below a main_tip ((main_block_hash, bmm_result) # results) =
     (if bmm_result = BmmFailed then verification_below a main_tip results
      else rbind (is_main_descendant a main_block_hash main_tip) (\<lambda>below.
        if below then Ok (Some main_block_hash) else verification_below a main_tip results))"

definition bmm_rows :: "hash_order \<Rightarrow> Archive \<Rightarrow> BlockHash \<Rightarrow> (bitcoin_BlockHash \<times> BmmResult) list" where
  "bmm_rows ho a block_hash =
     (let results = get_bmm_results a block_hash in map (\<lambda>b. (b, the (fmlookup results b))) (in_order ho (fmdom results)))"

text \<open>The tip that can be moved to for a descendant tip: itself, or the parent of its first missing body.\<close>

definition next_tip_of ::
  "hash_order \<Rightarrow> Archive \<Rightarrow> Tip \<Rightarrow> BlockHash option \<Rightarrow> (NetTaskError, Tip option) result option" where
  "next_tip_of ho a descendant_tip missing =
     (case missing of
        None \<Rightarrow> Some (Ok (Some descendant_tip))
      | Some missing \<Rightarrow>
          fbind (lift_archive (get_header a missing)) (\<lambda>header.
          case hd_prev_side_hash header of
            None \<Rightarrow> Some (Ok None)
          | Some tip_hash \<Rightarrow>
              fbind (lift_archive (get_best_main_verification ho a tip_hash)) (\<lambda>bmm_verification.
              Some (Ok (Some \<lparr>t_block_hash = tip_hash, t_main_block_hash = bmm_verification\<rparr>)))))"

definition handle_descendant_tip ::
  "nat \<Rightarrow> orders \<Rightarrow> Tip option \<Rightarrow> Tip \<times> SocketAddr fset \<Rightarrow> NetTask \<Rightarrow> (NetTask, unit) outcome" where
  "handle_descendant_tip fuel R tip entry nt =
     (let (descendant_tip, sources) = entry; a = nd_archive (nt_node nt) in
      obind nt (case tip of
          None \<Rightarrow> Some (Ok None)
        | Some tip \<Rightarrow> lift_archive (last_common_ancestor a (t_block_hash descendant_tip) (t_block_hash tip))) (\<lambda>common_ancestor.
      obind nt (earliest_missing_body fuel a (t_block_hash descendant_tip) common_ancestor) (\<lambda>missing.
      let nt = (case missing of None \<Rightarrow> nt | Some b \<Rightarrow> add_source b descendant_tip sources nt) in
      obind nt (next_tip_of (or_hashes R) a descendant_tip missing) (\<lambda>next_tip.
      case next_tip of
        None \<Rightarrow> Some (Ok (), nt)
      | Some next_tip \<Rightarrow>
          obind nt (improves fuel a tip next_tip) (\<lambda>better.
          Some (Ok (), if better then fold (\<lambda>addr. send_new_tip next_tip (Some addr)) (or_addrs R sources) nt else nt))))))"

fun handle_descendant_tips ::
  "nat \<Rightarrow> orders \<Rightarrow> Tip option \<Rightarrow> (Tip \<times> SocketAddr fset) list \<Rightarrow> NetTask \<Rightarrow> (NetTask, unit) outcome" where
  "handle_descendant_tips fuel R tip [] nt = Some (Ok (), nt)"
| "handle_descendant_tips fuel R tip (entry # entries) nt =
     (case handle_descendant_tip fuel R tip entry nt of
        Some (Ok _, nt) \<Rightarrow> handle_descendant_tips fuel R tip entries nt
      | r \<Rightarrow> r)"

definition block_stored ::
  "nat \<Rightarrow> orders \<Rightarrow> SocketAddr \<Rightarrow> BlockHash \<Rightarrow> Tip \<Rightarrow> Header \<Rightarrow> NetTask \<Rightarrow> (NetTask, unit) outcome" where
  "block_stored fuel R addr block_hash descendant_tip header nt =
     (let a = nd_archive (nt_node nt); ho = or_hashes R in
      obind nt (state_tip ho a (nd_state (nt_node nt))) (\<lambda>tip.
      obind nt (lift_archive (verification_below a (t_main_block_hash descendant_tip) (bmm_rows ho a block_hash))) (\<lambda>verification.
      obind nt (Some (expect verification)) (\<lambda>main_block_hash.
      let nt = (if hd_prev_side_hash header = map_option t_block_hash tip
                then send_new_tip \<lparr>t_block_hash = block_hash, t_main_block_hash = main_block_hash\<rparr> (Some addr) nt else nt) in
      case fmlookup (nt_descendant_tips nt) block_hash of
        None \<Rightarrow> Some (Ok (), nt)
      | Some tips \<Rightarrow>
          handle_descendant_tips fuel R tip (map (\<lambda>t. (t, the (fmlookup tips t))) (or_tips R (fmdom tips)))
            (nt\<lparr>nt_descendant_tips := fmdrop block_hash (nt_descendant_tips nt)\<rparr>)))))"

definition handle_block ::
  "nat \<Rightarrow> externs \<Rightarrow> orders \<Rightarrow> SocketAddr \<Rightarrow> GetBlockRequest \<Rightarrow> Tip \<Rightarrow> PeerStateId \<Rightarrow> Header \<Rightarrow> Body \<Rightarrow> NetTask \<Rightarrow> (NetTask, unit) outcome" where
  "handle_block fuel E R addr req descendant_tip peer_state_id header body nt =
     (let block_hash = gb_block_hash req in
      if header_hash E header \<noteq> block_hash then Some (Ok (), drop_peer addr nt)
      else
      obind nt (lift_walk (put_body fuel E (or_hashes R) block_hash body (nd_archive (nt_node nt)))) (\<lambda>a.
      let nt = set_archive a nt in
      obind nt (earliest_missing_body fuel a block_hash (gb_ancestor req)) (\<lambda>missing.
      block_stored fuel R addr block_hash descendant_tip header
        (case missing of
           Some b \<Rightarrow> add_source b descendant_tip {|addr|} nt
         | None \<Rightarrow> tell_peer (IM_BodiesAvailable peer_state_id) addr nt))))"

section \<open>Answers to requests for headers\<close>

text \<open>Headers follow each other from \<open>prev\<close>, and none is invalidated.\<close>

fun sequential :: "externs \<Rightarrow> Archive \<Rightarrow> BlockHash option \<Rightarrow> Header list \<Rightarrow> bool" where
  "sequential E a prev [] = True"
| "sequential E a prev (header # headers) =
     (hd_prev_side_hash header = prev \<and> \<not> invalidated_block a (header_hash E header)
       \<and> sequential E a (Some (header_hash E header)) headers)"

fun store_headers :: "externs \<Rightarrow> hash_order \<Rightarrow> Header list \<Rightarrow> Archive \<Rightarrow> (ArchiveError, Archive) result" where
  "store_headers E ho [] a = Ok a"
| "store_headers E ho (header # headers) a =
     (if try_get_header a (header_hash E header) \<noteq> None then store_headers E ho headers a
      else if (case hd_prev_side_hash header of Some parent \<Rightarrow> try_get_header a parent = None | None \<Rightarrow> False) then Ok a
      else rbind (put_header E ho header a) (store_headers E ho headers))"

definition expected_end_height :: "Archive \<Rightarrow> BlockHash option \<Rightarrow> nat \<Rightarrow> (NetTaskError, u32) result option" where
  "expected_end_height a start_hash n =
     (case start_hash of
        Some start_hash \<Rightarrow> fbind (lift_archive (get_height a start_hash)) (\<lambda>h. Some (add_word h (of_nat n)))
      | None \<Rightarrow> Some (sub_word (of_nat n) 1))"

definition handle_headers ::
  "externs \<Rightarrow> orders \<Rightarrow> SocketAddr \<Rightarrow> GetHeadersRequest \<Rightarrow> u32 \<Rightarrow> PeerStateId \<Rightarrow> Header list \<Rightarrow> NetTask \<Rightarrow> (NetTask, unit) outcome" where
  "handle_headers E R addr req height peer_state_id headers nt =
     (let a = nd_archive (nt_node nt); invalid = Some (Ok (), drop_peer addr nt) in
      if headers = [] then invalid
      else if header_hash E (last headers) \<noteq> gh_end req then invalid
      else let start_hash = hd_prev_side_hash (hd headers) in
      if (case start_hash of Some s \<Rightarrow> s |\<notin>| gh_start req | None \<Rightarrow> False) then invalid
      else obind nt (expected_end_height a start_hash (length headers)) (\<lambda>end_height.
      if end_height \<noteq> height then invalid
      else if \<not> sequential E a start_hash headers then invalid
      else obind nt (lift_archive (store_headers E (or_hashes R) headers a)) (\<lambda>a.
      Some (Ok (), tell_peer (IM_Headers peer_state_id) addr (set_archive a nt)))))"

section \<open>Answers\<close>

definition handle_response ::
  "nat \<Rightarrow> externs \<Rightarrow> orders \<Rightarrow> SocketAddr \<Rightarrow> ResponseMessage \<Rightarrow> Request \<Rightarrow> NetTask \<Rightarrow> (NetTask, unit) outcome" where
  "handle_response fuel E R addr resp req nt =
     (let ok = Some (Ok (), nt); invalid = Some (Ok (), drop_peer addr nt) in
      case (req, resp) of
        (GetBlock r, RespBlock header body) \<Rightarrow>
          (case (gb_descendant_tip r, gb_peer_state_id r) of
             (Some descendant_tip, Some peer_state_id) \<Rightarrow> handle_block fuel E R addr r descendant_tip peer_state_id header body nt
           | _ \<Rightarrow> invalid)
      | (GetBlock r, RespNoBlock block_hash) \<Rightarrow>
          if gb_descendant_tip r \<noteq> None \<and> gb_peer_state_id r \<noteq> None \<and> gb_block_hash r = block_hash then ok else invalid
      | (GetHeaders r, RespHeaders headers) \<Rightarrow>
          (case (gh_height r, gh_peer_state_id r) of
             (Some height, Some peer_state_id) \<Rightarrow> handle_headers E R addr r height peer_state_id headers nt
           | _ \<Rightarrow> invalid)
      | (GetHeaders r, RespNoHeader block_hash) \<Rightarrow> if gh_end r = block_hash then ok else invalid
      | (PushTransaction _, RespTransactionAccepted _) \<Rightarrow> ok
      | (PushTransaction _, RespTransactionRejected _) \<Rightarrow> ok
      | _ \<Rightarrow> invalid)"

section \<open>The mailbox\<close>

text \<open>\<open>AncestorInfos\<close> responses of the mainchain task: available, not available, or an error.\<close>

datatype ancestor_infos = AI_Available | AI_Unavailable | AI_Error

definition ancestors_message :: "ancestor_infos \<Rightarrow> PeerStateId \<Rightarrow> InternalMessage" where
  "ancestors_message res peer_state_id =
     (case res of AI_Available \<Rightarrow> IM_MainchainAncestors peer_state_id | _ \<Rightarrow> IM_MainchainAncestorsError)"

definition handle_mainchain_task_response ::
  "orders \<Rightarrow> bitcoin_BlockHash \<Rightarrow> ancestor_infos \<Rightarrow> NetTask \<Rightarrow> NetTask" where
  "handle_mainchain_task_response R block_hash res nt =
     (case fmlookup (nt_request_sources nt) block_hash of
        None \<Rightarrow> nt
      | Some sources \<Rightarrow>
          fold (\<lambda>(addr, peer_state_id). tell_peer (ancestors_message res peer_state_id) addr) (or_sources R sources)
            (nt\<lparr>nt_request_sources := fmdrop block_hash (nt_request_sources nt)\<rparr>))"

text \<open>\<open>accepted\<close> says whether the mainchain task took the request.\<close>

definition forward_mainchain_task_request ::
  "bool \<Rightarrow> bitcoin_BlockHash \<Rightarrow> SocketAddr \<Rightarrow> PeerStateId \<Rightarrow> NetTask \<Rightarrow> NetTask" where
  "forward_mainchain_task_request accepted request peer peer_state_id nt =
     (if \<not> accepted then nt
      else let sources = (case fmlookup (nt_request_sources nt) request of Some s \<Rightarrow> s | None \<Rightarrow> {||}) in
        nt\<lparr>nt_main_requests := nt_main_requests nt @ [request],
           nt_request_sources := fmupd request (finsert (peer, peer_state_id) sources) (nt_request_sources nt)\<rparr>)"

definition new_transaction :: "externs \<Rightarrow> SocketAddr \<Rightarrow> AuthorizedTransaction \<Rightarrow> NetTask \<Rightarrow> (NetTask, unit) outcome" where
  "new_transaction E addr new_tx nt =
     (let mp = nd_mempool (nt_node nt) in
      if fmlookup (mp_transactions mp) (at_txid E new_tx) \<noteq> None then Some (Ok (), nt)
      else case mempool_put E new_tx mp of
        Err MP_UtxoDoubleSpent \<Rightarrow> Some (Ok (), nt)
      | Err e \<Rightarrow> Some (Err (NT_MemPool e), nt)
      | Panic \<Rightarrow> Some (Panic, nt)
      | Ok mp \<Rightarrow>
          (let nt = set_mempool mp nt; (r, n) = relay_transaction new_tx {addr} (nt_net nt) in
           Some (map_err NT_Net r, nt\<lparr>nt_net := n\<rparr>)))"

text \<open>
  An error of a peer connection; the second component lists the addresses that are dialed
  again after a delay.
\<close>

definition handle_peer_error :: "SocketAddr \<Rightarrow> PeerError \<Rightarrow> ResolvedSeedAddress \<Rightarrow> NetTask \<Rightarrow> NetTask \<times> ResolvedSeedAddress list" where
  "handle_peer_error addr err resolved_addr nt =
     (let next_addr = (case pop_first_ip_addr resolved_addr of (_, Some r) \<Rightarrow> [r] | (_, None) \<Rightarrow> []) in
      if err = PE_HeartbeatTimeout then
        (case map_of (net_active_peers (nt_net nt)) addr of
           None \<Rightarrow> (nt, [])
         | Some handle \<Rightarrow> (drop_peer addr nt, if ph_received_msg_successfully handle then [resolved_addr] else next_addr))
      else
        (let nt = drop_peer addr nt;
             redial = (if is_duplicate_connection err \<or> is_connect_timeout err then [resolved_addr]
                       else if \<not> is_bad_magic err then next_addr else []) in
         (if is_bad_magic err then nt\<lparr>nt_net := snd (forget_peer addr (nt_net nt))\<rparr> else nt, redial)))"

text \<open>\<open>None\<close> says that the stream of a connection ended.\<close>

definition handle_peer_info ::
  "nat \<Rightarrow> externs \<Rightarrow> orders \<Rightarrow> SocketAddr \<Rightarrow> Info option \<Rightarrow> NetTask \<Rightarrow> (NetTask, ResolvedSeedAddress list) outcome" where
  "handle_peer_info fuel E R addr info nt =
     (let then_nothing = map_option (\<lambda>(r, nt). (rbind r (\<lambda>_. Ok []), nt)) in
      case info of
        None \<Rightarrow> Some (Ok [], drop_peer addr nt)
      | Some I_Connected \<Rightarrow> then_nothing (relay_pending_transactions E (Some addr) nt)
      | Some (I_Error err resolved_addr) \<Rightarrow>
          (let (nt, redial) = handle_peer_error addr err resolved_addr nt in Some (Ok redial, nt))
      | Some (I_NeedMainchainAncestors main_hash peer_state_id) \<Rightarrow>
          Some (Ok [], nt\<lparr>nt_forward := nt_forward nt @ [(main_hash, addr, peer_state_id)]\<rparr>)
      | Some (I_NewTipReady new_tip) \<Rightarrow> Some (Ok [], send_new_tip new_tip (Some addr) nt)
      | Some (I_NewTransaction new_tx) \<Rightarrow> then_nothing (new_transaction E addr new_tx nt)
      | Some (I_Response resp req) \<Rightarrow> then_nothing (handle_response fuel E R addr resp req nt))"

text \<open>The front of the channel of new tips is handled, and a peer that sent a bad one is dropped.\<close>

definition next_new_tip ::
  "nat \<Rightarrow> externs \<Rightarrow> bundle_order \<Rightarrow> orders \<Rightarrow> NetTask \<Rightarrow> (NetTask, bool) outcome" where
  "next_new_tip fuel E order R nt =
     (case nt_new_tips nt of
        [] \<Rightarrow> Some (Ok False, nt)
      | (new_tip, addr) # rest \<Rightarrow>
          (case new_tip_ready fuel E order (or_hashes R) new_tip addr (nt_node nt) of
             None \<Rightarrow> None
           | Some (r, node) \<Rightarrow>
               (let nt = nt\<lparr>nt_node := node, nt_new_tips := rest\<rparr> in
                obind nt (Some r) (\<lambda>(applied, dropped).
                Some (Ok applied, case dropped of Some addr \<Rightarrow> drop_peer addr nt | None \<Rightarrow> nt)))))"

definition mainchain_block_event ::
  "nat \<Rightarrow> externs \<Rightarrow> tip_externs \<Rightarrow> bundle_order \<Rightarrow> orders \<Rightarrow> NetTask \<Rightarrow> (NetTask, unit) outcome" where
  "mainchain_block_event fuel E X order R nt =
     map_option (\<lambda>(r, node). (r, nt\<lparr>nt_node := node\<rparr>))
       (handle_mainchain_block_event fuel E X order (or_hashes R) (nt_node nt))"

end
