(* ===== verification/Mainchain_Task.thy ===== *)
theory Mainchain_Task
  imports Archive_Walks
begin

text \<open>
  The task that follows the mainchain (\<open>lib/node/mainchain_task.rs\<close>): it fetches headers from
  the mainchain node, moves the sidechain tips to the mainchain tip, and handles block events.

  The client of the mainchain node is a parameter, a function from a block hash and a number
  of ancestors to the infos it answers, newest first. The loops take fuel: the node may go on
  answering for ever, and the walks need parents without a cycle.
\<close>

section \<open>Progress of the startup sync\<close>

datatype MainchainSyncPhase = Phase_Idle | Phase_Headers | Phase_Writing | Phase_State

record MainchainSyncProgress =
  sp_phase :: MainchainSyncPhase
  sp_done :: u32
  sp_total :: u32
  sp_tip_height :: u32

definition set_idle :: MainchainSyncProgress where
  "set_idle = \<lparr>sp_phase = Phase_Idle, sp_done = 0, sp_total = 0, sp_tip_height = 0\<rparr>"

definition fetched_headers :: "u32 \<Rightarrow> u32 option \<Rightarrow> ('e, MainchainSyncProgress) result" where
  "fetched_headers tip_height next_height =
     rbind (sub_word tip_height (case next_height of Some h \<Rightarrow> h | None \<Rightarrow> 0)) (\<lambda>fetched.
     Ok \<lparr>sp_phase = Phase_Headers, sp_done = fetched, sp_total = tip_height, sp_tip_height = tip_height\<rparr>)"

definition start_writing :: "u32 \<Rightarrow> u32 \<Rightarrow> MainchainSyncProgress" where
  "start_writing tip_height n = \<lparr>sp_phase = Phase_Writing, sp_done = 0, sp_total = n, sp_tip_height = tip_height\<rparr>"

definition start_state :: "u32 \<Rightarrow> u32 \<Rightarrow> MainchainSyncProgress" where
  "start_state tip_height n = \<lparr>sp_phase = Phase_State, sp_done = 0, sp_total = n, sp_tip_height = tip_height\<rparr>"

text \<open>\<open>wrote_headers\<close> and \<open>connected\<close>.\<close>

definition add_done :: "u32 \<Rightarrow> MainchainSyncProgress \<Rightarrow> ('e, MainchainSyncProgress) result" where
  "add_done n sp = rbind (add_word (sp_done sp) n) (\<lambda>d. Ok (sp\<lparr>sp_done := d\<rparr>))"

section \<open>Fetching headers\<close>

datatype RequestError = RA_Archive ArchiveError | RA_Mainchain

type_synonym validator = "bitcoin_BlockHash \<Rightarrow> u32 \<Rightarrow> (RequestError, (BlockHeaderInfo \<times> BlockInfo) list option) result"

definition BATCH_REQUEST_SIZE :: u32 where
  "BATCH_REQUEST_SIZE = 20000"

definition from_archive_request :: "(ArchiveError, 'a) result \<Rightarrow> (RequestError, 'a) result" where
  "from_archive_request = map_err RA_Archive"

text \<open>
  The loop of requests. It ends with \<open>None\<close> when the node does not know the block, and with
  the infos, newest first, when the genesis block or a known block is reached. The client
  answers at least one info; an empty answer has no last element.
\<close>

fun fetch_infos ::
  "nat \<Rightarrow> validator \<Rightarrow> Archive \<Rightarrow> bitcoin_BlockHash \<Rightarrow> (BlockHeaderInfo \<times> BlockInfo) list \<Rightarrow> MainchainSyncProgress
    \<Rightarrow> (RequestError, (BlockHeaderInfo \<times> BlockInfo) list option \<times> MainchainSyncProgress) result option" where
  "fetch_infos 0 client a current_block_hash block_infos sp = None"
| "fetch_infos (Suc fuel) client a current_block_hash block_infos sp =
     fbind (Some (client current_block_hash (BATCH_REQUEST_SIZE - 1))) (\<lambda>resp.
     case resp of
       None \<Rightarrow> Some (Ok (None, sp))
     | Some infos \<Rightarrow>
         if infos = [] then Some Panic
         else
           (let current_header = fst (last infos);
                current_block_hash = bhi_prev_block_hash current_header;
                current_height = checked_sub (bhi_height current_header) 1;
                block_infos = block_infos @ infos in
            fbind (Some (fetched_headers (bhi_height (fst (hd block_infos))) current_height)) (\<lambda>sp.
            if current_block_hash = 0 \<or> try_get_main_header_info a current_block_hash \<noteq> None
            then Some (Ok (Some block_infos, sp))
            else fetch_infos fuel client a current_block_hash block_infos sp)))"

definition store_info ::
  "tip_externs \<Rightarrow> hash_order \<Rightarrow> BlockHeaderInfo \<times> BlockInfo \<Rightarrow> Archive \<times> MainchainSyncProgress
    \<Rightarrow> (RequestError, Archive \<times> MainchainSyncProgress) result" where
  "store_info X ho item s =
     (let (header_info, block_info) = item; (a, sp) = s in
      rbind (from_archive_request (put_main_header_info X header_info a)) (\<lambda>a.
      rbind (from_archive_request (put_main_block_info ho (bhi_block_hash header_info) block_info a)) (\<lambda>a.
      rbind (add_done 1 sp) (\<lambda>sp. Ok (a, sp)))))"

definition request_ancestor_infos ::
  "nat \<Rightarrow> tip_externs \<Rightarrow> hash_order \<Rightarrow> validator \<Rightarrow> bitcoin_BlockHash \<Rightarrow> Archive \<Rightarrow> MainchainSyncProgress
    \<Rightarrow> (RequestError, bool \<times> Archive \<times> MainchainSyncProgress) result option" where
  "request_ancestor_infos fuel X ho client block_hash a sp =
     (if block_hash = 0 \<or> try_get_main_header_info a block_hash \<noteq> None then Some (Ok (True, a, sp))
      else fbind (fetch_infos fuel client a block_hash [] sp) (\<lambda>(infos, sp).
        case infos of
          None \<Rightarrow> Some (Ok (False, a, sp))
        | Some infos \<Rightarrow>
            (let sp = start_writing (bhi_height (fst (hd infos))) (of_nat (length infos)) in
             Some (rbind (try_fold (store_info X ho) (rev infos) (a, sp)) (\<lambda>(a, sp). Ok (True, a, sp))))))"

section \<open>Block events\<close>

datatype main_event =
    ConnectBlock BlockHeaderInfo BlockInfo
  | DisconnectBlock bitcoin_BlockHash

datatype SyncError =
    SE_Archive ArchiveError
  | SE_ConnectMainchainTip bitcoin_BlockHash ConnectMainchainTip
  | SE_DisconnectMainchainTip DisconnectMainchainTip

text \<open>
  The labelled block \<open>'bmm_commitment\<close>: the commitment of a mainchain block counts if the body
  and the parent of the sidechain block are there and the commitment was verified.
\<close>

definition bmm_commitment_of ::
  "Archive \<Rightarrow> bitcoin_BlockHash \<Rightarrow> BlockInfo \<Rightarrow> (ArchiveError, BmmCommitment option) result" where
  "bmm_commitment_of a main_block_hash info =
     (case bi_bmm_commitment info of
        None \<Rightarrow> Ok None
      | Some side_block_hash \<Rightarrow>
          if \<not> contains_body a side_block_hash then Ok None
          else rbind (get_header a side_block_hash) (\<lambda>side_header.
            if (case hd_prev_side_hash side_header of
                  Some side_parent \<Rightarrow> fmlookup (sd_sidechain_tips (ar_side_tips a)) side_parent = None
                | None \<Rightarrow> False)
            then Ok None
            else rbind (get_bmm_result a side_block_hash main_block_hash) (\<lambda>result.
              Ok (case result of
                    BmmVerified \<Rightarrow> Some \<lparr>bc_sidechain_block_hash = side_block_hash,
                      bc_sidechain_header_data = header_data_of side_header\<rparr>
                  | BmmFailed \<Rightarrow> None))))"

definition connect_main_block ::
  "tip_externs \<Rightarrow> BlockHeaderInfo \<Rightarrow> BlockInfo \<Rightarrow> Archive \<Rightarrow> (SyncError, Archive) result" where
  "connect_main_block X header_info info a =
     rbind (map_err SE_Archive (bmm_commitment_of a (bhi_block_hash header_info) info)) (\<lambda>bmm_commitment.
     rbind (map_err (SE_ConnectMainchainTip (bhi_block_hash header_info))
       (connect_mainchain_tip X header_info bmm_commitment (ar_side_tips a))) (\<lambda>tips.
     Ok (a\<lparr>ar_side_tips := tips\<rparr>)))"

definition disconnect_main_tip ::
  "tip_externs \<Rightarrow> BlockHeaderInfo option \<Rightarrow> BlockInfo \<Rightarrow> Archive \<Rightarrow> (SyncError, Archive) result" where
  "disconnect_main_tip X parent_info info a =
     rbind (map_err SE_DisconnectMainchainTip
       (disconnect_mainchain_tip X parent_info (bi_bmm_commitment info) (ar_side_tips a))) (\<lambda>tips.
     Ok (a\<lparr>ar_side_tips := tips\<rparr>))"

text \<open>One round of the loop of \<open>sync_side_tips_to_tip\<close> that disconnects.\<close>

definition disconnect_main_block ::
  "tip_externs \<Rightarrow> BlockHeaderInfo \<Rightarrow> Archive \<Rightarrow> (SyncError, BlockHeaderInfo option \<times> Archive) result" where
  "disconnect_main_block X header_info a =
     rbind (map_err SE_Archive (main_parent_header_info a header_info)) (\<lambda>parent_info.
     rbind (map_err SE_Archive (get_main_block_info a (bhi_block_hash header_info))) (\<lambda>info.
     rbind (disconnect_main_tip X parent_info info a) (\<lambda>a. Ok (parent_info, a))))"

definition handle_block_event ::
  "tip_externs \<Rightarrow> hash_order \<Rightarrow> main_event \<Rightarrow> Archive \<Rightarrow> (SyncError, Archive) result" where
  "handle_block_event X ho event a =
     (case event of
        ConnectBlock header_info info \<Rightarrow>
          rbind (map_err SE_Archive (put_main_header_info X header_info a)) (\<lambda>a.
          rbind (map_err SE_Archive (put_main_block_info ho (bhi_block_hash header_info) info a)) (\<lambda>a.
          connect_main_block X header_info info a))
      | DisconnectBlock block_hash \<Rightarrow>
          rbind (map_err SE_Archive (get_main_header_info a block_hash)) (\<lambda>header_info.
          rbind (map_err SE_Archive (get_main_block_info a block_hash)) (\<lambda>info.
          rbind (map_err SE_Archive (main_parent_header_info a header_info)) (\<lambda>parent_info.
          disconnect_main_tip X parent_info info a))))"

section \<open>Moving to the mainchain tip\<close>

text \<open>Disconnect the mainchain tip until the common ancestor is reached.\<close>

fun disconnect_main_blocks ::
  "nat \<Rightarrow> tip_externs \<Rightarrow> bitcoin_BlockHash \<Rightarrow> BlockHeaderInfo option \<Rightarrow> main_event list \<Rightarrow> Archive
    \<Rightarrow> (SyncError, BlockHeaderInfo option \<times> main_event list \<times> Archive) result option" where
  "disconnect_main_blocks fuel X common_ancestor None events a = Some (Ok (None, events, a))"
| "disconnect_main_blocks fuel X common_ancestor (Some tip) events a =
     (if bhi_block_hash tip = common_ancestor then Some (Ok (Some tip, events, a))
      else case fuel of
        0 \<Rightarrow> None
      | Suc fuel \<Rightarrow>
          fbind (Some (disconnect_main_block X tip a)) (\<lambda>(parent, a).
          disconnect_main_blocks fuel X common_ancestor parent (events @ [DisconnectBlock (bhi_block_hash tip)]) a))"

text \<open>\<open>take(n)\<close> on an iterator.\<close>

fun take_iter :: "nat \<Rightarrow> ('i rev_iter \<Rightarrow> ('e, 'i option \<times> 'i rev_iter) result) \<Rightarrow> 'i rev_iter \<Rightarrow> ('e, 'i list) result" where
  "take_iter 0 nxt it = Ok []"
| "take_iter (Suc n) nxt it =
     rbind (nxt it) (\<lambda>(item, it).
     case item of None \<Rightarrow> Ok [] | Some i \<Rightarrow> rbind (take_iter n nxt it) (\<lambda>items. Ok (i # items)))"

definition start_height_of :: "BlockHeaderInfo option \<Rightarrow> ('e, u32) result" where
  "start_height_of tip = (case tip of None \<Rightarrow> Ok 0 | Some info \<Rightarrow> add_word (bhi_height info) 1)"

definition next_batch :: "Archive \<Rightarrow> bitcoin_BlockHash \<Rightarrow> BlockHeaderInfo option \<Rightarrow> (SyncError, BlockHeaderInfo list) result" where
  "next_batch a mainchain_tip tip =
     rbind (start_height_of tip) (\<lambda>start_height.
     map_err SE_Archive (take_iter 32 (mainchain_ancestors_rev_next a mainchain_tip) (rev_iter_new start_height)))"

text \<open>The tip, the events and the archive as the blocks of a batch are connected.\<close>

definition connect_next ::
  "tip_externs \<Rightarrow> BlockHeaderInfo \<Rightarrow> BlockHeaderInfo option \<times> main_event list \<times> Archive
    \<Rightarrow> (SyncError, BlockHeaderInfo option \<times> main_event list \<times> Archive) result" where
  "connect_next X header_info s =
     (let (tip, events, a) = s in
      rbind (map_err SE_Archive (get_main_block_info a (bhi_block_hash header_info))) (\<lambda>info.
      rbind (connect_main_block X header_info info a) (\<lambda>a.
      Ok (Some header_info, events @ [ConnectBlock header_info info], a))))"

definition extract_tip :: "BlockHeaderInfo option \<Rightarrow> bitcoin_BlockHash" where
  "extract_tip tip = (case tip of None \<Rightarrow> 0 | Some info \<Rightarrow> bhi_block_hash info)"

fun connect_main_blocks ::
  "nat \<Rightarrow> tip_externs \<Rightarrow> bitcoin_BlockHash \<Rightarrow> BlockHeaderInfo option \<times> main_event list \<times> Archive \<Rightarrow> MainchainSyncProgress
    \<Rightarrow> (SyncError, (BlockHeaderInfo option \<times> main_event list \<times> Archive) \<times> MainchainSyncProgress) result option" where
  "connect_main_blocks fuel X mainchain_tip (tip, events, a) sp =
     (if extract_tip tip = mainchain_tip then Some (Ok ((tip, events, a), sp))
      else case fuel of
        0 \<Rightarrow> None
      | Suc fuel \<Rightarrow>
          fbind (Some (next_batch a mainchain_tip tip)) (\<lambda>infos.
          fbind (Some (try_fold (connect_next X) infos (tip, events, a))) (\<lambda>s.
          fbind (Some (add_done (of_nat (length infos)) sp)) (\<lambda>sp.
          connect_main_blocks fuel X mainchain_tip s sp))))"

definition common_main_ancestor :: "Archive \<Rightarrow> bitcoin_BlockHash \<Rightarrow> bitcoin_BlockHash \<Rightarrow> (SyncError, bitcoin_BlockHash) result" where
  "common_main_ancestor a side_tips_tip mainchain_tip =
     (if side_tips_tip = 0 \<or> mainchain_tip = 0 then Ok 0
      else map_err SE_Archive (last_common_main_ancestor a mainchain_tip side_tips_tip))"

definition state_progress ::
  "Archive \<Rightarrow> bitcoin_BlockHash \<Rightarrow> BlockHeaderInfo option \<Rightarrow> MainchainSyncProgress \<Rightarrow> (SyncError, MainchainSyncProgress) result" where
  "state_progress a mainchain_tip tip sp =
     (case try_get_main_header_info a mainchain_tip of
        None \<Rightarrow> Ok sp
      | Some info \<Rightarrow>
          rbind (start_height_of tip) (\<lambda>start_height.
          rbind (add_word (bhi_height info) 1) (\<lambda>end_height.
          rbind (sub_word end_height start_height) (\<lambda>total.
          Ok (start_state (bhi_height info) total)))))"

text \<open>The archive that is committed and the events that are then sent.\<close>

definition sync_side_tips_to_tip ::
  "nat \<Rightarrow> tip_externs \<Rightarrow> bitcoin_BlockHash \<Rightarrow> Archive \<Rightarrow> MainchainSyncProgress
    \<Rightarrow> (SyncError, Archive \<times> main_event list \<times> MainchainSyncProgress) result option" where
  "sync_side_tips_to_tip fuel X mainchain_tip a sp =
     (let side_tips_tip = sd_mainchain_tip (ar_side_tips a) in
      fbind (Some (common_main_ancestor a (mt_block_hash side_tips_tip) mainchain_tip)) (\<lambda>common_ancestor.
      fbind (disconnect_main_blocks fuel X common_ancestor (mt_tip_info side_tips_tip) [] a) (\<lambda>(tip, events, a).
      fbind (Some (state_progress a mainchain_tip tip sp)) (\<lambda>sp.
      fbind (connect_main_blocks fuel X mainchain_tip (tip, events, a) sp) (\<lambda>((_, events, a), sp).
      Some (Ok (a, events, sp)))))))"

declare connect_main_blocks.simps [simp del] disconnect_main_blocks.simps [simp del]

end
