(* ===== verification/Node.thy ===== *)
theory Node
  imports Net_Task Mainchain_Task
begin

text \<open>
  The operations that \<open>Node\<close> (\<open>lib/node/mod.rs\<close>) offers to the application: queries over the
  state, the archive and the mempool, submitting and rebroadcasting transactions, the choice
  of transactions for a block, submitting a block, and invalidating one.
\<close>

datatype NodeError =
    N_AmountOverflow
  | N_AmountUnderflow
  | N_Archive ArchiveError
  | N_MainchainAncestors RequestError
  | N_MemPool MempoolError
  | N_Net NetError
  | N_NetTask NetTaskError
  | N_NotInCurrentChain BlockHash
  | N_State Error

section \<open>Queries\<close>

text \<open>A fraction as numerator and denominator, before reduction.\<close>

definition try_get_amm_price :: "State \<Rightarrow> AssetId \<Rightarrow> AssetId \<Rightarrow> (u64 \<times> u64) option" where
  "try_get_amm_price st base quote =
     (case fmlookup (st_amm_pools st) (AmmPair_new base quote) of
        None \<Rightarrow> None
      | Some p \<Rightarrow>
          if reserve0 p = 0 \<or> reserve1 p = 0 then None
          else if base < quote then Some (reserve1 p, reserve0 p) else Some (reserve0 p, reserve1 p))"

definition node_get_amm_pool_state :: "State \<Rightarrow> AmmPair \<Rightarrow> (NodeError, PoolState) result" where
  "node_get_amm_pool_state st pair =
     ok_or (N_State (E_Amm (Amm_MissingPoolState (pair_asset0 pair) (pair_asset1 pair)))) (fmlookup (st_amm_pools st) pair)"

definition node_bitassets :: "externs \<Rightarrow> State \<Rightarrow> (NodeError, (SeqId \<times> BitAssetId \<times> BitAssetData) list) result" where
  "node_bitassets E st =
     try_map (\<lambda>(seq, bitasset).
       rbind (ok_or (N_State (E_BitAsset (BA_Missing bitasset))) (fmlookup (bitassets (st_bitassets st)) bitasset)) (\<lambda>history.
       Ok (seq, bitasset, current history)))
     (db_iter (ext_bincode_u32 E) (seq_to_bitasset (st_bitassets st)))"

definition node_get_dutch_auction_state :: "State \<Rightarrow> DutchAuctionId \<Rightarrow> (NodeError, DutchAuctionState) result" where
  "node_get_dutch_auction_state st auction_id =
     ok_or (N_State (E_DutchAuction (DA_Bid Bid_MissingAuction))) (fmlookup (st_dutch_auctions st) auction_id)"

definition get_spent_utxos :: "State \<Rightarrow> OutPoint list \<Rightarrow> (OutPoint \<times> SpentOutput) list" where
  "get_spent_utxos st outpoints =
     List.map_filter (\<lambda>outpoint. map_option (Pair outpoint) (fmlookup (st_stxos st) (from_outpoint outpoint))) outpoints"

definition get_unconfirmed_spent_utxos :: "MemPool \<Rightarrow> OutPoint list \<Rightarrow> (OutPoint \<times> InPoint) list" where
  "get_unconfirmed_spent_utxos mp outpoints =
     List.map_filter (\<lambda>outpoint. map_option (Pair outpoint) (fmlookup (mp_spent_utxos mp) outpoint)) outpoints"

definition get_unconfirmed_utxos_by_addresses ::
  "externs \<Rightarrow> MemPool \<Rightarrow> Address list \<Rightarrow> (NodeError, (OutPoint, TxOutput) fmap) result" where
  "get_unconfirmed_utxos_by_addresses E mp addresses =
     try_fold (\<lambda>addr res. rbind (map_err N_MemPool (get_unconfirmed_utxos E mp addr)) (\<lambda>utxos. Ok (res ++\<^sub>f utxos)))
       addresses fmempty"

text \<open>\<open>ancestors(..).nth(n)\<close>.\<close>

fun nth_of_ancestors :: "Archive \<Rightarrow> BlockHash option \<Rightarrow> nat \<Rightarrow> (ArchiveError, BlockHash option) result" where
  "nth_of_ancestors a None n = Ok None"
| "nth_of_ancestors a (Some block_hash) 0 = rbind (get_header a block_hash) (\<lambda>_. Ok (Some block_hash))"
| "nth_of_ancestors a (Some block_hash) (Suc n) =
     rbind (get_header a block_hash) (\<lambda>header. nth_of_ancestors a (hd_prev_side_hash header) n)"

definition try_get_block_hash :: "Node \<Rightarrow> u32 \<Rightarrow> (NodeError, BlockHash option) result" where
  "try_get_block_hash nd height =
     (case (st_tip (nd_state nd), st_height (nd_state nd)) of
        (Some tip, Some tip_height) \<Rightarrow>
          if height \<le> tip_height
          then map_err N_Archive (nth_of_ancestors (nd_archive nd) (Some tip) (unat (tip_height - height)))
          else Ok None
      | _ \<Rightarrow> Ok None)"

definition node_get_block_index_events :: "Node \<Rightarrow> BlockHash \<Rightarrow> (NodeError, BlockIndexEvents) result" where
  "node_get_block_index_events nd block_hash =
     rbind (map_err N_Archive (get_height (nd_archive nd) block_hash)) (\<lambda>height.
     rbind (try_get_block_hash nd height) (\<lambda>at_height.
     rbind (ensure (at_height = Some block_hash) (N_NotInCurrentChain block_hash)) (\<lambda>_.
     Ok (get_block_index_events (nd_state nd) height))))"

definition get_bmm_inclusions :: "hash_order \<Rightarrow> Archive \<Rightarrow> BlockHash \<Rightarrow> bitcoin_BlockHash list" where
  "get_bmm_inclusions ho a block_hash = map fst (filter (\<lambda>(_, r). r = BmmVerified) (bmm_rows ho a block_hash))"

text \<open>The first block, in the order of hashes, that includes the transaction.\<close>

definition try_get_transaction :: "Node \<Rightarrow> Txid \<Rightarrow> (NodeError, Transaction option) result" where
  "try_get_transaction nd t =
     (case db_iter id (get_tx_inclusions (nd_archive nd) t) of
        (block_hash, txin) # _ \<Rightarrow>
          rbind (map_err N_Archive (get_body (nd_archive nd) block_hash)) (\<lambda>body.
          rbind (assert_that (unat txin < length (bo_transactions body))) (\<lambda>_.
          Ok (Some (bo_transactions body ! unat txin))))
      | [] \<Rightarrow> Ok (map_option at_transaction (fmlookup (mp_transactions (nd_mempool nd)) t)))"

record AuthorizedFilled =
  af_transaction :: FilledTransaction
  af_authorizations :: "Authorization list"

definition fill_authorized_transaction :: "State \<Rightarrow> AuthorizedTransaction \<Rightarrow> (Error, AuthorizedFilled) result" where
  "fill_authorized_transaction st tx =
     rbind (fill_transaction st (at_transaction tx)) (\<lambda>ft.
     Ok \<lparr>af_transaction = ft, af_authorizations = at_authorizations tx\<rparr>)"

fun first_active :: "Archive \<Rightarrow> BlockHash option \<Rightarrow> (BlockHash \<times> u32) list \<Rightarrow> (ArchiveError, (BlockHash \<times> u32) option) result" where
  "first_active a tip [] = Ok None"
| "first_active a tip ((block_hash, idx) # inclusions) =
     rbind (case tip of Some tip \<Rightarrow> is_descendant a block_hash tip | None \<Rightarrow> Ok True) (\<lambda>active.
     if active then Ok (Some (block_hash, idx)) else first_active a tip inclusions)"

definition try_get_filled_transaction ::
  "externs \<Rightarrow> Node \<Rightarrow> Txid \<Rightarrow> (NodeError, (AuthorizedFilled \<times> (BlockHash \<times> u32) option) option) result" where
  "try_get_filled_transaction E nd t =
     rbind (map_err N_Archive (first_active (nd_archive nd) (st_tip (nd_state nd))
       (db_iter id (get_tx_inclusions (nd_archive nd) t)))) (\<lambda>inclusion.
     case inclusion of
       Some (block_hash, idx) \<Rightarrow>
         rbind (map_err N_Archive (get_body (nd_archive nd) block_hash)) (\<lambda>body.
         rbind (authorized_transactions body) (\<lambda>auth_txs.
         rbind (assert_that (unat idx < length auth_txs)) (\<lambda>_.
         rbind (map_err N_State (fill_transaction_from_stxos E (nd_state nd) (at_transaction (auth_txs ! unat idx)))) (\<lambda>ft.
         Ok (Some (\<lparr>af_transaction = ft, af_authorizations = at_authorizations (auth_txs ! unat idx)\<rparr>, Some (block_hash, idx)))))))
     | None \<Rightarrow>
         (case fmlookup (mp_transactions (nd_mempool nd)) t of
            None \<Rightarrow> Ok None
          | Some tx \<Rightarrow>
              (case fill_authorized_transaction (nd_state nd) tx of
                 Ok filled \<Rightarrow> Ok (Some (filled, None))
               | Err (E_NoUtxo _) \<Rightarrow> Ok None
               | Err err \<Rightarrow> Err (N_State err)
               | Panic \<Rightarrow> Panic)))"

section \<open>Transactions\<close>

text \<open>
  Submitting a transaction: it must be valid on the state; one that is not in the mempool is
  put there; then the stored one is pushed to the peers. The mempool is committed before the
  push.
\<close>

definition broadcast_transaction ::
  "externs \<Rightarrow> AuthorizedTransaction \<Rightarrow> Node \<times> Net \<Rightarrow> (NodeError, Txid \<times> nat) result \<times> Node \<times> Net" where
  "broadcast_transaction E tx s =
     (let (nd, n) = s; t = at_txid E tx; mp = nd_mempool nd; stored = fmlookup (mp_transactions mp) t in
      case rbind (map_err N_State (validate_transaction E (nd_state nd) tx)) (\<lambda>_.
        if stored = None then map_err N_MemPool (mempool_put E tx mp) else Ok mp) of
        Err e \<Rightarrow> (Err e, nd, n)
      | Panic \<Rightarrow> (Panic, nd, n)
      | Ok mp \<Rightarrow>
          (let (r, n) = push_tx {} (case stored of Some tx \<Rightarrow> tx | None \<Rightarrow> tx) n in
           (rbind (map_err N_Net r) (\<lambda>peer_count. Ok (t, peer_count)), nd\<lparr>nd_mempool := mp\<rparr>, n)))"

definition rebroadcast_transaction ::
  "externs \<Rightarrow> Txid \<Rightarrow> Node \<times> Net \<Rightarrow> (NodeError, Txid \<times> nat) result \<times> Node \<times> Net" where
  "rebroadcast_transaction E t s =
     (case fmlookup (mp_transactions (nd_mempool (fst s))) t of
        None \<Rightarrow> (Err (N_MemPool (MP_MissingTransaction t)), s)
      | Some tx \<Rightarrow> broadcast_transaction E tx s)"

definition remove_from_mempool :: "externs \<Rightarrow> Txid \<Rightarrow> Node \<Rightarrow> Node" where
  "remove_from_mempool E t nd = nd\<lparr>nd_mempool := mempool_delete E t (nd_mempool nd)\<rparr>"

text \<open>The transactions for a block: the state of the loop of \<open>get_transactions\<close> and its body.\<close>

record template =
  tm_mempool :: MemPool
  tm_fee :: u64
  tm_transactions :: "AuthorizedFilled list"
  tm_spent :: "OutPoint set"

definition sum_values :: "u64 list \<Rightarrow> (NodeError, u64) result" where
  "sum_values values = ok_or N_AmountOverflow (checked_sum values)"

definition add_to_template :: "externs \<Rightarrow> State \<Rightarrow> AuthorizedTransaction \<Rightarrow> template \<Rightarrow> (NodeError, template) result" where
  "add_to_template E st tx tm =
     (let inputs = set (tx_inputs (at_transaction tx));
          without = tm\<lparr>tm_mempool := mempool_delete E (at_txid E tx) (tm_mempool tm)\<rparr> in
      if tm_spent tm \<inter> inputs \<noteq> {} then Ok without
      else case validate_transaction E st tx of
        Err _ \<Rightarrow> Ok without
      | Panic \<Rightarrow> Panic
      | Ok _ \<Rightarrow>
          rbind (map_err N_State (fill_authorized_transaction st tx)) (\<lambda>filled.
          rbind (sum_values (map utxo_value (ft_spent_utxos (af_transaction filled)))) (\<lambda>value_in.
          rbind (sum_values (map txout_value (tx_outputs (ft_transaction (af_transaction filled))))) (\<lambda>value_out.
          rbind (ok_or N_AmountOverflow (checked_sub value_in value_out)) (\<lambda>tx_fee.
          rbind (ok_or N_AmountUnderflow (checked_add (tm_fee tm) tx_fee)) (\<lambda>fee.
          Ok (tm\<lparr>tm_fee := fee, tm_spent := tm_spent tm \<union> inputs,
            tm_transactions := tm_transactions tm @ [filled]\<rparr>)))))))"

definition get_transactions :: "externs \<Rightarrow> nat \<Rightarrow> Node \<Rightarrow> (NodeError, (AuthorizedFilled list \<times> u64) \<times> Node) result" where
  "get_transactions E number nd =
     rbind (try_fold (add_to_template E (nd_state nd)) (mempool_take number (nd_mempool nd))
       \<lparr>tm_mempool = nd_mempool nd, tm_fee = 0, tm_transactions = [], tm_spent = {}\<rparr>) (\<lambda>tm.
     Ok ((tm_transactions tm, tm_fee tm), nd\<lparr>nd_mempool := tm_mempool tm\<rparr>))"

section \<open>Blocks\<close>

text \<open>Disconnect until the tip is the parent of the block; the fuel bounds the number of blocks.\<close>

fun disconnect_until :: "nat \<Rightarrow> externs \<Rightarrow> BlockHash option \<Rightarrow> Node \<Rightarrow> (NetTaskError, Node) result option" where
  "disconnect_until fuel E parent nd =
     (if st_tip (nd_state nd) = parent then Some (Ok nd)
      else case fuel of
        0 \<Rightarrow> None
      | Suc fuel' \<Rightarrow> fbind (node_disconnect_tip fuel E nd) (disconnect_until fuel' E parent))"

declare disconnect_until.simps [simp del]

definition node_invalidate_block ::
  "nat \<Rightarrow> externs \<Rightarrow> hash_order \<Rightarrow> BlockHash \<Rightarrow> Node \<Rightarrow> (NodeError, Node) result option" where
  "node_invalidate_block fuel E ho block_hash nd =
     (case try_get_header (nd_archive nd) block_hash of
        None \<Rightarrow> Some (Ok nd)
      | Some header \<Rightarrow>
          fbind (Some (case st_tip (nd_state nd) of
              Some tip \<Rightarrow> map_err N_Archive (is_descendant (nd_archive nd) block_hash tip)
            | None \<Rightarrow> Ok False)) (\<lambda>in_active_chain.
          fbind (if in_active_chain
              then map_option (map_err N_NetTask) (disconnect_until fuel E (hd_prev_side_hash header) nd)
              else Some (Ok nd)) (\<lambda>nd.
          Some (Ok (nd\<lparr>nd_archive := invalidate_block E ho block_hash (nd_archive nd)\<rparr>)))))"

text \<open>
  Submitting a block. The parameters are the client of the mainchain node and the orders of
  iteration; the answer tells whether the block was accepted and which pending withdrawal
  bundle is then proposed to the mainchain.
\<close>

definition missing_ancestor_bodies ::
  "nat \<Rightarrow> Node \<Rightarrow> BlockHash \<Rightarrow> (NodeError, BlockHash list) result option" where
  "missing_ancestor_bodies fuel nd block_hash =
     fbind (Some (case st_tip (nd_state nd) of
         None \<Rightarrow> Ok None
       | Some tip \<Rightarrow> map_err N_Archive (last_common_ancestor (nd_archive nd) tip block_hash))) (\<lambda>common_ancestor.
     map_option (map_err N_Archive) (get_missing_bodies fuel (nd_archive nd) block_hash common_ancestor))"

definition store_submitted_body ::
  "nat \<Rightarrow> externs \<Rightarrow> hash_order \<Rightarrow> BlockHash \<Rightarrow> Body \<Rightarrow> BlockHash list \<Rightarrow> Node \<Rightarrow> (NodeError, Node) result option" where
  "store_submitted_body fuel E ho block_hash body missing_bodies nd =
     (if missing_bodies = [block_hash]
      then fbind (map_option (map_err N_Archive) (put_body fuel E ho block_hash body (nd_archive nd))) (\<lambda>a.
        Some (Ok (nd\<lparr>nd_archive := a\<rparr>)))
      else Some (Ok nd))"

definition submit_tip ::
  "nat \<Rightarrow> externs \<Rightarrow> bundle_order \<Rightarrow> hash_order \<Rightarrow> Tip \<Rightarrow> Node
    \<Rightarrow> ((NodeError, bool \<times> WithdrawalBundle option) result \<times> Node) option" where
  "submit_tip fuel E order ho new_tip nd =
     (case new_tip_ready fuel E order ho new_tip None nd of
        None \<Rightarrow> None
      | Some (r, nd) \<Rightarrow>
          obind nd (Some (map_err N_NetTask r)) (\<lambda>(applied, _).
          if \<not> applied then Some (Ok (False, None), nd)
          else obind nd (Some (map_err N_State (try_get_pending_withdrawal_bundle (nd_state nd)))) (\<lambda>bundle.
            Some (Ok (True, map_option fst bundle), nd))))"

definition submit_block ::
  "nat \<Rightarrow> externs \<Rightarrow> tip_externs \<Rightarrow> bundle_order \<Rightarrow> hash_order \<Rightarrow> validator \<Rightarrow> bitcoin_BlockHash \<Rightarrow> Header \<Rightarrow> Body \<Rightarrow> Node
    \<Rightarrow> ((NodeError, bool \<times> WithdrawalBundle option) result \<times> Node) option" where
  "submit_block fuel E X order ho client main_block_hash header body nd =
     (let block_hash = header_hash E header; rejected = (\<lambda>nd. Some (Ok (False, None), nd)) in
      if (case hd_prev_side_hash header of Some parent \<Rightarrow> try_get_header (nd_archive nd) parent = None | None \<Rightarrow> False)
      then rejected nd
      else obind nd (map_option (map_err N_MainchainAncestors)
          (request_ancestor_infos fuel X ho client main_block_hash (nd_archive nd) set_idle)) (\<lambda>(available, a, _).
      let nd = nd\<lparr>nd_archive := a\<rparr> in
      if \<not> available then rejected nd
      else obind nd (Some (map_err N_Archive (put_header E ho header (nd_archive nd)))) (\<lambda>a.
      let nd = nd\<lparr>nd_archive := a\<rparr> in
      obind nd (Some (map_err N_Archive (get_bmm_result a block_hash main_block_hash))) (\<lambda>bmm_result.
      if bmm_result = BmmFailed then rejected nd
      else obind nd (missing_ancestor_bodies fuel nd block_hash) (\<lambda>missing_bodies.
      if \<not> (missing_bodies = [] \<or> missing_bodies = [block_hash]) then rejected nd
      else obind nd (store_submitted_body fuel E ho block_hash body missing_bodies nd) (\<lambda>nd.
      submit_tip fuel E order ho \<lparr>t_block_hash = block_hash, t_main_block_hash = main_block_hash\<rparr> nd))))))"

end
