(* ===== verification/Node_Properties.thy ===== *)
theory Node_Properties
  imports Node Archive_Properties Block_Undo
begin

text \<open>
  Properties of the node that span its components: when a re-org moves the tip and what it
  leaves behind when it fails, a re-org that succeeds, and what the handler of mainchain
  events forgets to undo.
\<close>

section \<open>Sequencing\<close>

lemma fbind_Ok_iff [result_simps]:
  "fbind m f = Some (Ok y) \<longleftrightarrow> (\<exists>x. m = Some (Ok x) \<and> f x = Some (Ok y))"
  by (auto simp: fbind_def split: option.splits result.splits)

lemma fbind_simps [simp]:
  "fbind (Some (Ok x)) f = f x" "fbind (Some (Err e)) f = Some (Err e)"
  "fbind (Some Panic) f = Some Panic" "fbind None f = None"
  by (simp_all add: fbind_def)

lemma obind_simps [simp]:
  "obind db (Some (Ok x)) f = f x" "obind db (Some (Err e)) f = Some (Err e, db)"
  "obind db (Some Panic) f = Some (Panic, db)" "obind db None f = None"
  by (simp_all add: obind_def)

lemma obind_cases:
  assumes "obind db m f = Some (r, db')"
  obtains x where "m = Some (Ok x)" "f x = Some (r, db')"
  | "r = Panic \<or> (\<exists>e. r = Err e)" "db' = db"
  using assms by (auto simp: obind_def split: option.splits result.splits)

lemma lift_Ok_iff [result_simps, simp]:
  "lift_state r = Some (Ok x) \<longleftrightarrow> r = Ok x" "lift_archive r' = Some (Ok x) \<longleftrightarrow> r' = Ok x"
  "lift_walk w = Some (Ok x) \<longleftrightarrow> w = Some (Ok x)" "lift_mempool r'' = Some (Ok x) \<longleftrightarrow> r'' = Ok x"
  by (auto simp: lift_state_def lift_archive_def lift_walk_def lift_mempool_def)

section \<open>Moving to another tip\<close>

text \<open>\<open>better_tip\<close> answers the new tip, or there is no old one.\<close>

definition preferred :: "nat \<Rightarrow> Archive \<Rightarrow> Tip option \<Rightarrow> Tip \<Rightarrow> bool" where
  "preferred fuel a tip new_tip \<longleftrightarrow>
     (case tip of None \<Rightarrow> True | Some t \<Rightarrow> better_tip fuel a t new_tip = Some (Ok (Some new_tip)))"

lemma improves_preferred: "improves fuel a tip new_tip = Some (Ok b) \<Longrightarrow> b = preferred fuel a tip new_tip"
  by (auto simp: improves_def preferred_def fbind_def lift_walk_def split: option.splits result.splits)

text \<open>\<open>d\<close> has a tip that \<open>better_tip\<close> prefers to the tip of \<open>db\<close>.\<close>

definition has_better_tip :: "nat \<Rightarrow> hash_order \<Rightarrow> Node \<Rightarrow> Node \<Rightarrow> bool" where
  "has_better_tip fuel ho db d \<longleftrightarrow>
     (\<exists>tip t. state_tip ho (nd_archive db) (nd_state db) = Some (Ok tip)
       \<and> st_tip (nd_state d) = Some (t_block_hash t) \<and> preferred fuel (nd_archive d) tip t)"

text \<open>\<open>d'\<close> is \<open>d\<close>, perhaps without the body of one block.\<close>

definition without_body :: "externs \<Rightarrow> hash_order \<Rightarrow> Node \<Rightarrow> Node \<Rightarrow> bool" where
  "without_body E ho d d' \<longleftrightarrow>
     d' = d \<or> (\<exists>header body a. delete_body E ho (header_hash E header) body (nd_archive d) = Ok a \<and> d' = d\<lparr>nd_archive := a\<rparr>)"

lemma without_body_state: "without_body E ho d d' \<Longrightarrow> nd_state d' = nd_state d \<and> nd_mempool d' = nd_mempool d"
  by (auto simp: without_body_def)

lemma reject_block_failed:
  assumes "reject_block E ho header body err db = Some (r, db')"
  shows "(r = Panic \<or> (\<exists>e. r = Err e)) \<and> without_body E ho db db'"
proof (cases "is_fatal_reorg_error err")
  case False
  with assms have "obind db (lift_archive (delete_body E ho (header_hash E header) body (nd_archive db)))
      (\<lambda>a. Some (Err err, db\<lparr>nd_archive := a\<rparr>)) = Some (r, db')" by (simp add: reject_block_def)
  then show ?thesis by (rule obind_cases) (unfold without_body_def lift_Ok_iff, blast+)
qed (use assms in \<open>auto simp: reject_block_def without_body_def\<close>)

lemma apply_blocks_commits:
  assumes "apply_blocks fuel E order ho tip blocks batch nd db = Some (r, db')"
    and "state_tip ho (nd_archive db0) (nd_state db0) = Some (Ok tip)"
    and "db = db0 \<or> has_better_tip fuel ho db0 db"
  shows "\<exists>d. (d = db0 \<or> has_better_tip fuel ho db0 d) \<and> without_body E ho d db'"
  using assms
proof (induction fuel E order ho tip blocks batch nd db rule: apply_blocks.induct)
  case (1 fuel E order ho tip batch nd db)
  then show ?case by (auto simp: without_body_def)
next
  case (2 fuel E order ho tip header body blocks batch nd db)
  have same: "\<exists>d. (d = db0 \<or> has_better_tip fuel ho db0 d) \<and> without_body E ho d db"
    using "2.prems"(3) by (auto simp: without_body_def)
  obtain data batch' where f: "fill_2wpd (hd_prev_main_hash header) batch [] = (data, batch')" by fastforce
  let ?c = "node_connect_tip fuel E order ho header body data nd"
  show ?case
  proof (cases "\<exists>e. ?c = Some (Err e)")
    case True
    then show ?thesis using "2.prems"(1,3) f reject_block_failed [of E ho header body _ db r db'] by auto
  next
    case False
    with "2.prems"(1) f have run: "obind db ?c (\<lambda>nd.
        obind db (Some (expect (st_tip (nd_state nd)))) (\<lambda>new_tip_hash.
        obind db (lift_archive (get_best_main_verification ho (nd_archive nd) new_tip_hash)) (\<lambda>bmm_verification.
        obind db (improves fuel (nd_archive nd) tip
            \<lparr>t_block_hash = new_tip_hash, t_main_block_hash = bmm_verification\<rparr>) (\<lambda>better.
          apply_blocks fuel E order ho tip blocks batch' nd (if better then nd else db))))) = Some (r, db')"
      by (auto split: option.splits result.splits)
    then show ?thesis
    proof (elim obind_cases)
      fix nd' h v b
      assume c: "?c = Some (Ok nd')" and h: "Some (expect (st_tip (nd_state nd'))) = Some (Ok h)"
        and b: "improves fuel (nd_archive nd') tip \<lparr>t_block_hash = h, t_main_block_hash = v\<rparr> = Some (Ok b)"
        and rest: "apply_blocks fuel E order ho tip blocks batch' nd' (if b then nd' else db) = Some (r, db')"
      have "(if b then nd' else db) = db0 \<or> has_better_tip fuel ho db0 (if b then nd' else db)"
        using "2.prems"(2,3) h improves_preferred [OF b] by (auto simp: has_better_tip_def intro!: exI)
      with rest show ?thesis using "2.IH" [OF f [symmetric]] c h "2.prems"(2) by simp
    qed (use same in auto)
  qed
qed

text \<open>Whether the new tip is preferred to the tip of \<open>db\<close>.\<close>

definition should_move :: "nat \<Rightarrow> hash_order \<Rightarrow> Node \<Rightarrow> Tip \<Rightarrow> bool \<Rightarrow> bool" where
  "should_move fuel ho db new_tip b \<longleftrightarrow>
     (\<exists>tip. state_tip ho (nd_archive db) (nd_state db) = Some (Ok tip) \<and> preferred fuel (nd_archive db) tip new_tip = b)"

lemma reorg_to_tip_outcome:
  assumes "reorg_to_tip fuel E order ho new_tip db = Some (r, db')"
  obtains "r = Panic \<or> (\<exists>e. r = Err e)" "\<exists>d. (d = db \<or> has_better_tip fuel ho db d) \<and> without_body E ho d db'"
  | "r = Ok False" "db' = db" "should_move fuel ho db new_tip False"
  | "r = Ok True" "st_tip (nd_state db') = Some (t_block_hash new_tip)" "should_move fuel ho db new_tip True"
proof -
  have old: "\<exists>d. (d = db \<or> has_better_tip fuel ho db d) \<and> without_body E ho d db" by (auto simp: without_body_def)
  have "(r = Panic \<or> (\<exists>e. r = Err e)) \<and> (\<exists>d. (d = db \<or> has_better_tip fuel ho db d) \<and> without_body E ho d db')
      \<or> r = Ok False \<and> db' = db \<and> should_move fuel ho db new_tip False
      \<or> r = Ok True \<and> st_tip (nd_state db') = Some (t_block_hash new_tip) \<and> should_move fuel ho db new_tip True" (is ?P)
    using assms unfolding reorg_to_tip_def Let_def case_prod_beta
  proof (elim obind_cases, goal_cases)
    case (1 tip b)
    note tip = 1(1)
    have move: "should_move fuel ho db new_tip b" using tip improves_preferred [OF 1(2)] by (auto simp: should_move_def)
    show ?case
    proof (cases b)
      case True
      show ?thesis using 1(3) [unfolded eqTrueI [OF True] not_True_eq_False if_False]
      proof (elim obind_cases, goal_cases)
        case (1 c bs n nd u batch)
        from 1(7) obtain r1 db1 where run: "apply_blocks fuel E order ho tip (rev (fst bs # snd bs)) batch nd db = Some (r1, db1)"
          and fin: "obind db1 (Some r1) (\<lambda>nd. obind db1 (Some (assert_that (st_tip (nd_state nd) = Some (t_block_hash new_tip))))
            (\<lambda>_. Some (Ok True, nd))) = Some (r, db')"
          by (auto split: option.splits)
        from apply_blocks_commits [OF run tip] have "\<exists>d. (d = db \<or> has_better_tip fuel ho db d) \<and> without_body E ho d db1"
          by simp
        with fin show ?case using move True by (elim obind_cases) auto
      qed (use old in auto)
    qed (use 1(3) move in auto)
  qed (use old in auto)
  then show thesis using that by blast
qed

text \<open>
  C16: a re-org never leaves the node on a worse tip. It succeeds only when \<open>better_tip\<close> prefers
  the new tip to the old one (or there is no old tip), and the tip is then the new one.
  It answers that nothing is to be done only when the new tip is not preferred, and then the
  databases are unchanged. When it fails, what has been committed is the old state or a state
  whose tip is preferred to the old tip, except that the body of the block that failed may
  have been deleted from the archive.
\<close>

theorem reorg_commits_only_better_tips:
  "reorg_to_tip fuel E order ho new_tip db = Some (r, db') \<Longrightarrow>
    (r = Ok True \<longrightarrow> st_tip (nd_state db') = Some (t_block_hash new_tip) \<and>
      (\<exists>tip. state_tip ho (nd_archive db) (nd_state db) = Some (Ok tip) \<and> preferred fuel (nd_archive db) tip new_tip)) \<and>
    (r = Ok False \<longrightarrow> db' = db \<and>
      (\<exists>tip. state_tip ho (nd_archive db) (nd_state db) = Some (Ok tip) \<and> \<not> preferred fuel (nd_archive db) tip new_tip)) \<and>
    (r \<noteq> Ok True \<longrightarrow> (\<exists>d. (d = db \<or> has_better_tip fuel ho db d) \<and> without_body E ho d db'))"
  by (erule reorg_to_tip_outcome) (auto simp: without_body_def should_move_def)

subsection \<open>A re-org that succeeds\<close>

text \<open>
  A node at the first of two sidechain blocks, whose archive holds both; mainchain block 100
  commits to the first (hash 8) and its child 101 to the second (hash 7), which has no
  transactions. Moving to the second block succeeds.
\<close>

definition first_header :: Header where
  "first_header = \<lparr>hd_merkle_root = 1, hd_prev_side_hash = None, hd_prev_main_hash = 0\<rparr>"

definition second_header :: Header where
  "second_header = \<lparr>hd_merkle_root = 0, hd_prev_side_hash = Some 8, hd_prev_main_hash = 100\<rparr>"

definition empty_body :: Body where
  "empty_body = \<lparr>bo_coinbase = \<lparr>cb_memo = [], cb_outputs = []\<rparr>, bo_transactions = [], bo_authorizations = []\<rparr>"

definition main_second :: BlockHeaderInfo where
  "main_second = \<lparr>bhi_block_hash = 101, bhi_prev_block_hash = 100, bhi_height = 1, bhi_work = 5\<rparr>"

definition two_blocks :: Archive where
  "two_blocks = Archive_new\<lparr>
     ar_headers := fmupd 7 second_header (fmupd 8 first_header fmempty),
     ar_bodies := fmupd 7 empty_body (fmupd 8 empty_body fmempty),
     ar_block_hash_to_height := fmupd 7 1 (fmupd 8 0 fmempty),
     ar_successors := fmupd (Some 7) {||} (fmupd (Some 8) {|7|} (fmupd None {|8|} fmempty)),
     ar_exponential_ancestors := fmupd 7 [] (fmupd 8 [] fmempty),
     ar_bmm_results := fmupd 7 (fmupd 101 BmmVerified fmempty) (fmupd 8 (fmupd 100 BmmVerified fmempty) fmempty),
     ar_main_header_infos := fmupd 101 main_second (fmupd 100 main_genesis fmempty),
     ar_main_block_infos := fmupd 101 \<lparr>bi_bmm_commitment = Some 7, bi_events = []\<rparr>
       (fmupd 100 \<lparr>bi_bmm_commitment = Some 8, bi_events = []\<rparr> fmempty),
     ar_main_block_hash_to_height := fmupd 101 1 (fmupd 100 0 fmempty),
     ar_main_successors := fmupd 101 {||} (fmupd 100 {|101|} (fmupd 0 {|100|} fmempty)),
     ar_exponential_main_ancestors := fmupd 101 [] (fmupd 100 [] fmempty),
     ar_total_work := fmupd 101 10 (fmupd 100 5 fmempty)\<rparr>"

definition one_block_node :: Node where
  "one_block_node = \<lparr>nd_archive = two_blocks, nd_mempool = MemPool_new,
     nd_state = State_new\<lparr>st_tip := Some 8, st_height := Some 0\<rparr>\<rparr>"

abbreviation second_tip :: Tip where
  "second_tip \<equiv> \<lparr>t_block_hash = 7, t_main_block_hash = 101\<rparr>"

abbreviation at_second :: State where
  "at_second \<equiv> State_new\<lparr>st_tip := Some 7, st_height := Some 1\<rparr>"

lemma second_root: "compute_merkle_root demo_externs (bo_coinbase empty_body) [] = Ok 0"
  by (simp add: compute_merkle_root_def coinbase_compute_merkle_root_def outputs_compute_merkle_root_def outputs_merkle_leaves_def
      demo_externs_def empty_body_def)

lemma second_applies: "apply_block demo_externs second_header empty_body (State_new\<lparr>st_tip := Some 8, st_height := Some 0\<rparr>) = Ok at_second"
proof -
  let ?st = "State_new\<lparr>st_tip := Some 8, st_height := Some 0\<rparr>"
  have v: "verify_authorizations demo_externs empty_body = Ok ()"
    by (simp add: verify_authorizations_def empty_body_def messages_def demo_externs_def CHUNK_SIZE_def chunks.simps)
  have s: "bo_transactions empty_body = []" "bo_authorizations empty_body = []" "cb_outputs (bo_coinbase empty_body) = []"
    "hd_prev_side_hash second_header = Some 8" "hd_merkle_root second_header = 0"
    by (simp_all add: empty_body_def second_header_def)
  have h: "header_hash demo_externs second_header = 7" by (simp add: header_hash_def demo_externs_def second_header_def)
  have z: "\<not> ext_body_size demo_externs empty_body > Body_MAX_SIZE" by (simp add: demo_externs_def empty_body_def Body_MAX_SIZE_def)
  have n: "next_height ?st = (Ok 1 :: (Error, u32) result)" by (simp add: next_height_def)
  have "check_block demo_externs ?st second_header empty_body = Ok ([], 0, 0, 0)"
    using z by (simp add: check_block_def second_root s v checked_total_def total_fees_def input_keys_def check_addresses_def)
  then have "prevalidate demo_externs ?st second_header empty_body = Ok \<lparr>pv_filled_transactions = [], pv_computed_merkle_root = 0,
      pv_total_fees = 0, pv_coinbase_value = 0, pv_next_height = 1\<rparr>"
    by (simp add: prevalidate_def n)
  then show ?thesis
    by (simp add: apply_block_def connect_prevalidated_def s h db.put_all_def db.del_all_def)
qed


lemma second_no_events: "connect_two_way_peg_data demo_externs id \<lparr>block_info = [(100, [])]\<rparr> at_second = Ok at_second"
proof -
  have l: "latest_failure_height at_second = (Ok 0 :: (Error, u32) result)"
    by (simp add: latest_failure_height_def get_latest_failed_withdrawal_bundle_def State_new_def)
  have g: "sub_word 1 0 = (Ok 1 :: (Error, u32) result)" by simp
  have "collect_pending demo_externs id 1 at_second = Ok at_second"
    by (simp add: collect_pending_def l g WITHDRAWAL_BUNDLE_FAILURE_GAP_def word_le_nat_alt)
  moreover have "peg_events \<lparr>block_info = [(100, [])]\<rparr> = []" by (simp add: peg_events_def)
  moreover have "record_progress demo_externs 1 peg_progress_init at_second = (Ok at_second :: (Error, State) result)"
    by (simp add: record_progress_def peg_progress_init_def block_index_events_is_empty_def append_block_def)
  ultimately show ?thesis by (simp add: connect_two_way_peg_data_def)
qed

lemma two_blocks_sel [simp]:
  "fmlookup (ar_headers two_blocks) 7 = Some second_header" "fmlookup (ar_headers two_blocks) 8 = Some first_header"
  "fmlookup (ar_bodies two_blocks) 7 = Some empty_body"
  "fmlookup (ar_block_hash_to_height two_blocks) 7 = Some 1" "fmlookup (ar_block_hash_to_height two_blocks) 8 = Some 0"
  "fmlookup (ar_bmm_results two_blocks) 7 = Some (fmupd 101 BmmVerified fmempty)"
  "fmlookup (ar_bmm_results two_blocks) 8 = Some (fmupd 100 BmmVerified fmempty)"
  "fmlookup (ar_main_header_infos two_blocks) 100 = Some main_genesis"
  "fmlookup (ar_main_header_infos two_blocks) 101 = Some main_second"
  "fmlookup (ar_main_block_infos two_blocks) 100 = Some \<lparr>bi_bmm_commitment = Some 8, bi_events = []\<rparr>"
  "fmlookup (ar_main_block_infos two_blocks) 101 = Some \<lparr>bi_bmm_commitment = Some 7, bi_events = []\<rparr>"
  "fmlookup (ar_main_block_hash_to_height two_blocks) 100 = Some 0" "fmlookup (ar_main_block_hash_to_height two_blocks) 101 = Some 1"
  "fmlookup (ar_main_successors two_blocks) 100 = Some {|101|}"
  "fmlookup (ar_total_work two_blocks) 100 = Some 5" "fmlookup (ar_total_work two_blocks) 101 = Some 10"
  "fmlookup (ar_successors two_blocks) (Some 8) = Some {|7|}" "fmlookup (ar_successors two_blocks) (Some 7) = Some {||}"
  "fmlookup (ar_exponential_ancestors two_blocks) 7 = Some []" "ar_side_tips two_blocks = side_tips_create"
  by (simp_all add: two_blocks_def Archive_new_def)

lemma second_sel [simp]:
  "hd_prev_side_hash second_header = Some 8" "hd_prev_main_hash second_header = 100" "hd_prev_main_hash first_header = 0"
  "header_hash demo_externs second_header = 7" "bhi_prev_block_hash main_second = 100" "bhi_block_hash main_genesis = 100"
  "bhi_prev_block_hash main_genesis = 0" "bo_transactions empty_body = []"
  by (simp_all add: second_header_def first_header_def header_hash_def demo_externs_def main_second_def main_genesis_def empty_body_def)

lemma second_main_descends: "is_main_descendant two_blocks 100 101 = Ok True"
  by (simp add: is_main_descendant_def chain_is_descendant_def main_chain_def get_main_height_def try_get_main_height_def
      nth_ancestor_def nth_ancestor_loop.simps get_main_header_info_def try_get_main_header_info_def)

lemma fmupd_known: "fmlookup m k = Some v \<Longrightarrow> fmupd k v m = m"
  by (rule fmap_ext) auto

lemma second_put_header: "put_header demo_externs ascending second_header two_blocks = Ok two_blocks"
proof -
  have a: "add_word 0 1 = (Ok 1 :: (ArchiveError, u32) result)" by simp
  have s: "finsert 7 {|7|} = {|7 :: BlockHash|}" by simp
  have b: "bmm_result_at ascending two_blocks second_header 7 101 = Ok BmmVerified"
    by (simp add: bmm_result_at_def get_main_block_info_def try_get_main_block_info_def get_main_header_info_def
        try_get_main_header_info_def parent_verified_def get_bmm_results_def second_main_descends sorted_list_of_fset.rep_eq)
  have p: "populate_bmm_results ascending two_blocks second_header 7 = Ok (fmupd 101 BmmVerified fmempty)"
    by (simp add: populate_bmm_results_def get_main_successors_def try_get_main_successors_def get_bmm_results_def b
       sorted_list_of_fset.rep_eq)
  have r: "two_blocks\<lparr>ar_block_hash_to_height := ar_block_hash_to_height two_blocks, ar_headers := ar_headers two_blocks\<rparr> = two_blocks"
    "two_blocks\<lparr>ar_successors := ar_successors two_blocks\<rparr> = two_blocks"
    "two_blocks\<lparr>ar_exponential_ancestors := ar_exponential_ancestors two_blocks\<rparr> = two_blocks"
    "two_blocks\<lparr>ar_bmm_results := ar_bmm_results two_blocks\<rparr> = two_blocks" by simp_all
  have k: "skip_list C 1 (Some b) = Ok []" for C :: "(ArchiveError, BlockHash) chain" and b
    by (simp add: skip_list_def word_le_nat_alt)
  show ?thesis
    by (simp add: put_header_def try_get_height_def add_successor_def get_successors_def try_get_successors_def
        a s k p r fmupd_known Let_def del: add_word_Ok_iff)
qed


lemma second_put_body: "put_body (Suc (Suc n)) demo_externs ascending 7 empty_body two_blocks = Some (Ok two_blocks)"
proof -
  have u: "update_side_tips ascending m 7 second_header (two_blocks, []) = Ok (two_blocks, [])" for m
    by (simp add: update_side_tips_def get_bmm_results_def sorted_list_of_fset.rep_eq connect_tip_at_def side_tips_create_def)
  have r: "two_blocks\<lparr>ar_bodies := ar_bodies two_blocks\<rparr> = two_blocks" by simp
  show ?thesis
    by (simp add: put_body_def get_header_def try_get_header_def u fmupd_known r Let_def)
qed

lemma second_connects: "node_connect_tip (Suc (Suc n)) demo_externs id ascending second_header empty_body \<lparr>block_info = [(100, [])]\<rparr> one_block_node
    = Some (Ok (one_block_node\<lparr>nd_state := at_second\<rparr>))"
  by (simp add: node_connect_tip_def one_block_node_def second_applies second_no_events second_put_header second_put_body
      lift_state_def lift_archive_def lift_walk_def)

lemma best_verifications:
  "get_best_main_verification ascending two_blocks 7 = Ok 101" "get_best_main_verification ascending two_blocks 8 = Ok 100"
  by (simp_all add: get_best_main_verification_def try_get_best_main_verification_def get_bmm_results_def sorted_list_of_fset.rep_eq
      get_total_work_def try_get_total_work_def)

lemma second_better: "better_tip (Suc (Suc n)) two_blocks \<lparr>t_block_hash = 8, t_main_block_hash = 100\<rparr> second_tip = Some (Ok (Some second_tip))"
  by (simp add: better_tip_def get_height_def try_get_height_def)

lemma second_common: "last_common_ancestor two_blocks 8 7 = Ok (Some 8)"
  by (simp add: last_common_ancestor_def equalize_def side_chain_def get_height_def try_get_height_def nth_ancestor_def
      nth_ancestor_loop.simps get_header_def try_get_header_def)

lemma second_reorg:
  "reorg_to_tip (Suc (Suc n)) demo_externs id ascending second_tip one_block_node = Some (Ok True, one_block_node\<lparr>nd_state := at_second\<rparr>)"
proof -
  have sel: "nd_archive one_block_node = two_blocks" "st_tip (nd_state one_block_node) = Some 8"
    "st_height (nd_state one_block_node) = Some 0" by (simp_all add: one_block_node_def)
  have tip: "state_tip ascending two_blocks (nd_state one_block_node) = Some (Ok (Some \<lparr>t_block_hash = 8, t_main_block_hash = 100\<rparr>))"
    by (simp add: state_tip_def sel best_verifications lift_archive_def)
  have imp: "improves (Suc (Suc n)) two_blocks (Some \<lparr>t_block_hash = 8, t_main_block_hash = 100\<rparr>) second_tip = Some (Ok True)"
    by (simp add: improves_def second_better lift_walk_def)
  have blocks: "blocks_to_apply (Suc (Suc n)) two_blocks (Some 8) 7 = Some (Ok ((second_header, empty_body), []))"
    by (simp add: blocks_to_apply_def get_block_parts_def get_header_def try_get_header_def get_body_def try_get_body_def)
  have dn: "disconnects two_blocks (Some 0) (Some 8) = Some (Ok 0)"
  proof -
    have "sub_word 0 0 = (Ok 0 :: (NetTaskError, u32) result)" by simp
    then show ?thesis by (simp add: disconnects_def get_height_def try_get_height_def lift_archive_def del: sub_word_Ok_iff)
  qed
  have batch: "reorg_batch (Suc (Suc n)) two_blocks (Some 8) 100 = Some (Ok [(100, \<lparr>bi_bmm_commitment = Some 8, bi_events = []\<rparr>)])"
    by (simp add: reorg_batch_def get_header_def try_get_header_def lift_archive_def lift_walk_def
        get_main_header_info_def try_get_main_header_info_def get_main_block_info_def try_get_main_block_info_def)
  have fill: "fill_2wpd 100 [(100, \<lparr>bi_bmm_commitment = Some 8, bi_events = []\<rparr>)] [] = (\<lparr>block_info = [(100, [])]\<rparr>, [])"
    by (simp add: fill_2wpd.simps)
  have "apply_blocks (Suc (Suc n)) demo_externs id ascending (Some \<lparr>t_block_hash = 8, t_main_block_hash = 100\<rparr>) [(second_header, empty_body)]
      [(100, \<lparr>bi_bmm_commitment = Some 8, bi_events = []\<rparr>)] one_block_node one_block_node
    = Some (Ok (one_block_node\<lparr>nd_state := at_second\<rparr>), one_block_node\<lparr>nd_state := at_second\<rparr>)"
    by (simp add: fill second_connects sel best_verifications imp lift_archive_def)
  then show ?thesis
    by (simp add: reorg_to_tip_def sel tip imp second_common blocks dn batch lift_archive_def lift_walk_def)
qed

theorem reorg_commits_only_better_tips_witness:
  "\<exists>db'. reorg_to_tip (Suc (Suc 0)) demo_externs id ascending second_tip one_block_node = Some (Ok True, db') \<and>
     st_tip (nd_state one_block_node) = Some 8 \<and> st_tip (nd_state db') = Some 7 \<and>
     (\<exists>tip. state_tip ascending (nd_archive one_block_node) (nd_state one_block_node) = Some (Ok (Some tip)) \<and>
        better_tip (Suc (Suc 0)) (nd_archive one_block_node) tip second_tip = Some (Ok (Some second_tip)))"
proof -
  have "st_tip (nd_state one_block_node) = Some 8" by (simp add: one_block_node_def)
  moreover from this have "state_tip ho a (nd_state one_block_node) \<noteq> Some (Ok None)" for ho a
    by (auto simp: state_tip_def fbind_def split: option.splits result.splits)
  ultimately show ?thesis
    using reorg_commits_only_better_tips [OF second_reorg [of 0]] second_reorg [of 0]
    by (fastforce simp: preferred_def split: option.splits)
qed

section \<open>Events of the mainchain\<close>

text \<open>
  The tables of the two-way peg are the same in both states, and a deposit that can be spent
  in the first can be spent in the second.
\<close>

definition peg_kept :: "State \<Rightarrow> State \<Rightarrow> bool" where
  "peg_kept st st' \<longleftrightarrow>
     st_deposit_blocks st' = st_deposit_blocks st
     \<and> st_withdrawal_bundle_event_blocks st' = st_withdrawal_bundle_event_blocks st
     \<and> st_withdrawal_bundles st' = st_withdrawal_bundles st
     \<and> st_pending_withdrawal_bundle st' = st_pending_withdrawal_bundle st
     \<and> st_latest_failed_withdrawal_bundle st' = st_latest_failed_withdrawal_bundle st
     \<and> st_block_index_events st' = st_block_index_events st
     \<and> (\<forall>t v. fmlookup (st_utxos st) (from_outpoint (OpDeposit t v)) \<noteq> None
           \<longrightarrow> fmlookup (st_utxos st') (from_outpoint (OpDeposit t v)) \<noteq> None)"

lemma peg_kept_refl [simp]: "peg_kept st st"
  by (simp add: peg_kept_def)

lemma peg_kept_trans: "peg_kept a b \<Longrightarrow> peg_kept b c \<Longrightarrow> peg_kept a c"
  by (auto simp: peg_kept_def)

lemma try_fold_peg_kept:
  assumes "\<And>x s s'. x \<in> set xs \<Longrightarrow> f x s = Ok s' \<Longrightarrow> peg_kept s s'"
  shows "try_fold f xs s = Ok s' \<Longrightarrow> peg_kept s s'"
  using assms
proof (induction xs arbitrary: s)
  case (Cons x xs)
  from Cons.prems(1) obtain s1 where "f x s = Ok s1" "try_fold f xs s1 = Ok s'" by (auto simp: rbind_Ok_iff)
  moreover from this have "peg_kept s s1" by (intro Cons.prems(2)) auto
  moreover from calculation have "peg_kept s1 s'" by (intro Cons.IH) (auto intro: Cons.prems(2))
  ultimately show ?case by (blast intro: peg_kept_trans)
qed simp

lemma delete_utxo_peg_kept: "\<not> is_deposit outpoint \<Longrightarrow> delete_utxo outpoint st = Ok st' \<Longrightarrow> peg_kept st st'"
  by (cases outpoint) (auto simp: delete_utxo_def Let_def rbind_Ok_iff peg_kept_def)

lemma unspend_peg_kept: "unspend outpoint st = Ok st' \<Longrightarrow> peg_kept st st'"
  by (auto simp: unspend_def Let_def rbind_Ok_iff peg_kept_def)

lemma revert_payload_peg_kept: "revert_payload E height ft st = Ok st' \<Longrightarrow> peg_kept st st'"
  by (auto simp: revert_payload_def rbind_Ok_iff peg_kept_def lift_amm_def lift_bitassets_def lift_auctions_def
      split: option.splits TxData.splits prod.splits)

lemma disconnect_tx_peg_kept:
  assumes "disconnect_tx E height tx st = Ok st'"
  shows "peg_kept st st'"
proof -
  from assms obtain ft st1 st2 where "revert_payload E height ft st = Ok st1"
    and "try_fold delete_utxo (rev (map (\<lambda>vout. OpRegular (txid E tx) (of_nat vout)) [0..<length (tx_outputs tx)])) st1 = Ok st2"
    and "try_fold unspend (rev (tx_inputs tx)) st2 = Ok st'"
    by (auto simp: disconnect_tx_def rbind_Ok_iff)
  then have "peg_kept st st1" "peg_kept st1 st2" "peg_kept st2 st'"
    by (auto intro: revert_payload_peg_kept unspend_peg_kept elim!: try_fold_peg_kept [rotated] delete_utxo_peg_kept [rotated])
  then show ?thesis by (blast intro: peg_kept_trans)
qed

lemma disconnect_tip_peg_kept:
  assumes "disconnect_tip E header body st = Ok st'"
  shows "peg_kept st st'"
proof -
  have tip: "peg_kept st2 (st2\<lparr>st_tip := t, st_height := h\<rparr>)" for t h st2 by (simp add: peg_kept_def)
  from assms obtain height st1 st2 where "try_fold (disconnect_tx E height) (rev (bo_transactions body)) st = Ok st1"
    and "try_fold delete_utxo (rev (map (coinbase_outpoint E header) [0..<length (cb_outputs (bo_coinbase body))])) st1 = Ok st2"
    and "peg_kept st2 st'"
    by (cases "hd_prev_side_hash header") (auto simp: disconnect_tip_def rbind_Ok_iff tip split: if_splits)
  moreover from this have "peg_kept st st1" "peg_kept st1 st2"
    by (auto simp: coinbase_outpoint_def intro: disconnect_tx_peg_kept
      elim!: try_fold_peg_kept [rotated] delete_utxo_peg_kept [rotated])
  ultimately show ?thesis by (blast intro: peg_kept_trans)
qed

lemma disconnect_stale_tips_cases:
  assumes "disconnect_stale_tips E a st = Ok st'"
  obtains "st' = st"
  | tip header body st1 where "st_tip st = Some tip" "\<not> side_tip_known a tip" "get_block_parts a tip = Ok (header, body)"
      "disconnect_tip E header body st = Ok st1" "disconnect_stale_tips E a st1 = Ok st'"
  using assms
  by (subst (asm) disconnect_stale_tips.simps) (auto split: option.splits if_splits result.splits)

text \<open>
  C37: an event of the mainchain undoes blocks and not their two-way peg data. While the tip is
  no sidechain tip any more, \<open>handle_mainchain_block_event\<close> calls \<open>disconnect_tip\<close> alone, where
  the net task's own \<open>disconnect_tip_\<close> first calls \<open>disconnect_two_way_peg_data\<close>: all the tables
  of the peg stay as they are, and every deposit of a disconnected block can still be spent.
\<close>

theorem mainchain_event_keeps_peg_data:
  "disconnect_stale_tips E a st = Ok st' \<Longrightarrow> peg_kept st st'"
proof (induction E a st rule: disconnect_stale_tips.induct)
  case (1 E a st)
  from "1.prems" show ?case
  proof (cases rule: disconnect_stale_tips_cases)
    case (2 tip header body st1)
    then have "peg_kept st1 st'" by (intro "1.IH") simp_all
    with 2 show ?thesis by (blast intro: peg_kept_trans disconnect_tip_peg_kept)
  qed simp
qed

text \<open>An archive that holds the tip of \<open>demo_state_after\<close> and no sidechain tip.\<close>

definition stale_archive :: Archive where
  "stale_archive = Archive_new\<lparr>ar_headers := fmupd 7 demo_header fmempty, ar_bodies := fmupd 7 demo_body fmempty\<rparr>"

lemma demo_tip_is_stale: "disconnect_stale_tips demo_externs stale_archive demo_state_after = Ok demo_state"
proof -
  have "get_block_parts stale_archive 7 = Ok (demo_header, demo_body)"
    by (simp add: get_block_parts_def get_header_def try_get_header_def get_body_def try_get_body_def stale_archive_def)
  moreover have "\<not> side_tip_known stale_archive 7"
    by (simp add: side_tip_known_def stale_archive_def Archive_new_def side_tips_create_def)
  moreover have "st_tip demo_state_after = Some 7" by (simp add: demo_state_after_def)
  moreover have "disconnect_stale_tips demo_externs stale_archive demo_state = Ok demo_state"
    by (subst disconnect_stale_tips.simps) (simp add: demo_state_def State_new_def)
  ultimately show ?thesis by (subst disconnect_stale_tips.simps) (simp add: demo_disconnect)
qed

theorem mainchain_event_keeps_peg_data_witness: "peg_kept demo_state_after demo_state"
  by (rule mainchain_event_keeps_peg_data [OF demo_tip_is_stale])

end
