(* ===== verification/Block_Template.thy ===== *)
theory Block_Template
  imports Node Mempool_Properties Bundle_Properties
begin

text \<open>
  The transactions that \<open>get_transactions\<close> chooses for a block make a block that the node's
  own validation accepts: they are valid on the state, spend no output twice, and their fees
  add up to the fee that the coinbase may claim.
\<close>

definition unfill :: "AuthorizedFilled \<Rightarrow> AuthorizedTransaction" where
  "unfill af = \<lparr>at_transaction = ft_transaction (af_transaction af), at_authorizations = af_authorizations af\<rparr>"

definition af_inputs :: "AuthorizedFilled \<Rightarrow> OutPoint list" where
  "af_inputs af = tx_inputs (ft_transaction (af_transaction af))"

section \<open>What the loop keeps\<close>

text \<open>One chosen transaction, and all of them with their fee.\<close>

definition valid_choice :: "externs \<Rightarrow> State \<Rightarrow> AuthorizedFilled \<Rightarrow> bool" where
  "valid_choice E st af \<longleftrightarrow>
     fill_transaction st (ft_transaction (af_transaction af)) = Ok (af_transaction af)
     \<and> check_addresses E (af_authorizations af) (ft_spent_utxos (af_transaction af)) = Ok ()
     \<and> verify_authorized_transaction E (unfill af) = Ok ()"

definition template_ok :: "externs \<Rightarrow> State \<Rightarrow> template \<Rightarrow> bool" where
  "template_ok E st tm \<longleftrightarrow>
     (\<forall>af\<in>set (tm_transactions tm). valid_choice E st af)
     \<and> total_fees E st (map af_transaction (tm_transactions tm)) = Ok (tm_fee tm)
     \<and> distinct (concat (map af_inputs (tm_transactions tm)))
     \<and> tm_spent tm = set (concat (map af_inputs (tm_transactions tm)))"

lemma validate_transaction_Ok:
  assumes "validate_transaction E st tx = Ok fee"
  obtains ft where "fill_transaction st (at_transaction tx) = Ok ft" "ft_transaction ft = at_transaction tx"
    "valid_choice E st \<lparr>af_transaction = ft, af_authorizations = at_authorizations tx\<rparr>"
    "validate_filled_transaction E st ft = Ok fee" "bitcoin_fee ft = Ok fee"
proof -
  from assms obtain ft where ft: "fill_transaction st (at_transaction tx) = Ok ft"
    "check_addresses E (at_authorizations tx) (ft_spent_utxos ft) = Ok ()"
    "verify_authorized_transaction E tx = Ok ()" "validate_filled_transaction E st ft = Ok fee"
    by (auto simp: validate_transaction_def rbind_Ok_iff)
  have "ft_transaction ft = at_transaction tx" by (rule fill_transaction_Ok(1) [OF ft(1)])
  moreover have "bitcoin_fee ft = Ok fee"
    using ft(4) by (auto simp: validate_filled_transaction_def rbind_Ok_iff split: option.splits)
  moreover have "unfill \<lparr>af_transaction = ft, af_authorizations = at_authorizations tx\<rparr> = tx"
    using calculation(1) by (cases tx) (simp add: unfill_def)
  ultimately show thesis using that ft by (simp add: valid_choice_def)
qed

lemma total_fees_snoc:
  assumes "total_fees E st fts = Ok fees" and "validate_filled_transaction E st ft = Ok fee" and "checked_add fees fee = Some fees'"
  shows "total_fees E st (fts @ [ft]) = Ok fees'"
  using assms by (simp add: total_fees_def try_fold_append add_amount_def)

lemma add_to_template_ok:
  assumes "template_ok E st tm" and "add_to_template E st tx tm = Ok tm'" and "distinct (tx_inputs (at_transaction tx))"
  shows "template_ok E st tm'"
proof -
  let ?inputs = "set (tx_inputs (at_transaction tx))"
  have dropped: "template_ok E st (tm\<lparr>tm_mempool := mp\<rparr>)" for mp using assms(1) by (simp add: template_ok_def)
  show ?thesis
  proof (cases "tm_spent tm \<inter> ?inputs \<noteq> {} \<or> (\<exists>e. validate_transaction E st tx = Err e)")
    case True
    then show ?thesis using assms(2) dropped by (auto simp: add_to_template_def Let_def split: if_splits)
  next
    case False
    with assms(2) obtain fee where "validate_transaction E st tx = Ok fee"
      by (auto simp: add_to_template_def Let_def split: result.splits)
    then obtain ft where ft: "fill_transaction st (at_transaction tx) = Ok ft" "ft_transaction ft = at_transaction tx"
      "valid_choice E st \<lparr>af_transaction = ft, af_authorizations = at_authorizations tx\<rparr>"
      "validate_filled_transaction E st ft = Ok fee" "bitcoin_fee ft = Ok fee"
      by (rule validate_transaction_Ok)
    with False assms(2) \<open>validate_transaction E st tx = Ok fee\<close> obtain fees where "checked_add (tm_fee tm) fee = Some fees"
      and "tm' = tm\<lparr>tm_fee := fees, tm_spent := tm_spent tm \<union> ?inputs,
        tm_transactions := tm_transactions tm @ [\<lparr>af_transaction = ft, af_authorizations = at_authorizations tx\<rparr>]\<rparr>"
      by (auto simp: add_to_template_def Let_def fill_authorized_transaction_def rbind_Ok_iff sum_values_def
          bitcoin_fee_def spent_bitcoin_value_def bitcoin_value_out_def)
    then show ?thesis
      using assms(1,3) ft False total_fees_snoc [OF _ ft(4)] by (auto simp: template_ok_def af_inputs_def)
  qed
qed

lemma get_transactions_ok:
  assumes "get_transactions E number nd = Ok ((txs, fee), nd')"
    and "\<forall>tx\<in>set (mempool_take number (nd_mempool nd)). distinct (tx_inputs (at_transaction tx))"
  obtains tm where "template_ok E (nd_state nd) tm" "tm_transactions tm = txs" "tm_fee tm = fee"
proof -
  have step: "template_ok E st tm' "
    if "try_fold (add_to_template E st) pool tm = Ok tm'" "template_ok E st tm" "\<forall>tx\<in>set pool. distinct (tx_inputs (at_transaction tx))"
    for pool tm tm' st
    using that by (induction pool arbitrary: tm) (auto simp: rbind_Ok_iff intro: add_to_template_ok)
  show thesis
    using assms(1) step [OF _ _ assms(2)] that
    by (fastforce simp: get_transactions_def rbind_Ok_iff template_ok_def total_fees_def)
qed

section \<open>The pool\<close>

text \<open>A transaction of the pool lists no input twice, as long as its inputs can be counted in 32 bits.\<close>

lemma pooled_inputs_distinct:
  assumes "mempool_ok E mp" and "fmlookup (mp_transactions mp) t = Some tx"
    and "length (tx_inputs (at_transaction tx)) \<le> 2 ^ 32"
  shows "distinct (tx_inputs (at_transaction tx))"
  unfolding distinct_conv_nth
proof (intro allI impI notI)
  let ?ins = "tx_inputs (at_transaction tx)"
  fix i j
  assume ij: "i < length ?ins" "j < length ?ins" "i \<noteq> j" "?ins ! i = ?ins ! j"
  then have "spends mp t i (?ins ! i)" "spends mp t j (?ins ! i)" using assms(2) by (auto simp: spends_def)
  then have "fmlookup (mp_spent_utxos mp) (?ins ! i) = Some (IpRegular t (of_nat i))"
    "fmlookup (mp_spent_utxos mp) (?ins ! i) = Some (IpRegular t (of_nat j))"
    using mempool_ok_spends [OF assms(1)] by blast+
  then have "(of_nat i :: u32) = of_nat j" by simp
  then have "unat (of_nat i :: u32) = unat (of_nat j :: u32)" by simp
  then have "i mod 2 ^ 32 = j mod 2 ^ 32" by (simp add: unat_of_nat)
  with ij(1-3) assms(3) show False by simp
qed

lemma mempool_take_lookup: "tx \<in> set (mempool_take n mp) \<Longrightarrow> \<exists>t. fmlookup (mp_transactions mp) t = Some tx"
  by (auto simp: mempool_take_def db_iter_lookup dest!: in_set_takeD)

section \<open>The block\<close>

lemma zip_concat:
  "list_all2 (\<lambda>xs ys. length xs = length ys) xss yss \<Longrightarrow> zip (concat xss) (concat yss) = concat (map2 zip xss yss)"
  by (induction xss yss rule: list_all2_induct) auto

lemma verify_authorized_valid:
  assumes "\<forall>batch. batch \<noteq> [] \<longrightarrow> ext_batch_verify E batch = list_all valid batch"
    and "verify_authorized_transaction E tx = Ok ()"
  shows "length (at_authorizations tx) = length (tx_inputs (at_transaction tx))"
    and "\<forall>a\<in>set (at_authorizations tx). valid (au_verifying_key a, au_signature a, at_transaction tx)"
  using assms
  by (auto simp: verify_authorized_transaction_def Let_def list_all_iff split: if_splits)

definition template_body :: "AuthorizedFilled list \<Rightarrow> Coinbase \<Rightarrow> Body" where
  "template_body txs coinbase = Body_new (map unfill txs) coinbase"

lemma template_body_simps [simp]:
  "bo_coinbase (template_body txs coinbase) = coinbase"
  "bo_transactions (template_body txs coinbase) = map (\<lambda>af. ft_transaction (af_transaction af)) txs"
  "bo_authorizations (template_body txs coinbase) = concat (map af_authorizations txs)"
  by (simp_all add: template_body_def Body_new_def unfill_def comp_def)

lemma template_fills:
  assumes "\<forall>af\<in>set txs. valid_choice E st af"
  shows "try_map (fill_transaction st) (map (\<lambda>af. ft_transaction (af_transaction af)) txs) = Ok (map af_transaction txs)"
  using assms by (induction txs) (auto simp: valid_choice_def)

lemma template_authorized:
  assumes law: "\<forall>batch. batch \<noteq> [] \<longrightarrow> ext_batch_verify E batch = list_all valid batch"
    and ok: "\<forall>af\<in>set txs. valid_choice E st af"
  shows "verify_authorizations E (template_body txs coinbase) = Ok ()"
    and "check_addresses E (concat (map af_authorizations txs)) (concat (map ft_spent_utxos (map af_transaction txs))) = Ok ()"
proof -
  have one: "length (af_authorizations af) = length (af_inputs af)" "length (ft_spent_utxos (af_transaction af)) = length (af_inputs af)"
    "\<forall>a\<in>set (af_authorizations af). valid (au_verifying_key a, au_signature a, ft_transaction (af_transaction af))"
    "list_all (\<lambda>(a, out). auth_get_address E a = out_address out) (zip (af_authorizations af) (ft_spent_utxos (af_transaction af)))"
    if "af \<in> set txs" for af
  proof -
    from ok that have v: "valid_choice E st af" by blast
    then show "length (af_authorizations af) = length (af_inputs af)"
      "\<forall>a\<in>set (af_authorizations af). valid (au_verifying_key a, au_signature a, ft_transaction (af_transaction af))"
      using verify_authorized_valid [OF law, of "unfill af"] by (auto simp: valid_choice_def unfill_def af_inputs_def)
    show "length (ft_spent_utxos (af_transaction af)) = length (af_inputs af)"
      using v fill_transaction_Ok(2) by (fastforce simp: valid_choice_def af_inputs_def)
    show "list_all (\<lambda>(a, out). auth_get_address E a = out_address out) (zip (af_authorizations af) (ft_spent_utxos (af_transaction af)))"
      using v by (simp add: valid_choice_def check_addresses_def)
  qed
  let ?auths = "map af_authorizations txs" and ?spent = "map (\<lambda>af. ft_spent_utxos (af_transaction af)) txs"
    and ?msgs = "map (\<lambda>af. replicate (length (af_inputs af)) (ft_transaction (af_transaction af))) txs"
  have z: "zip (concat ?auths) (concat ?spent) = concat (map2 zip ?auths ?spent)"
    "zip (concat ?auths) (concat ?msgs) = concat (map2 zip ?auths ?msgs)"
    by (rule zip_concat; simp add: list_all2_map1 list_all2_map2 list_all2_same one)+
  show "check_addresses E (concat ?auths) (concat (map ft_spent_utxos (map af_transaction txs))) = Ok ()"
    using one(4) by (simp add: check_addresses_def comp_def z list_all_iff map2_map_map)
  have "length (concat ?auths) = length (get_inputs (template_body txs coinbase))"
    using one(1) by (simp add: get_inputs_def length_concat comp_def af_inputs_def cong: map_cong)
  moreover have "messages (template_body txs coinbase) = concat ?msgs" by (simp add: messages_def comp_def af_inputs_def)
  ultimately show "verify_authorizations E (template_body txs coinbase) = Ok ()"
    using one(3) unfolding verify_authorizations_valid [OF law, THEN conjunct1]
    by (fastforce simp: z list_all_iff map2_map_map elim: in_set_zipE)
qed

text \<open>
  the transactions that \<open>get_transactions\<close> chooses make a valid block. If the pool is
  consistent, the batch verifier accepts exactly the batches of valid signatures, and the
  header and the coinbase fit (the parent is the tip, the Merkle root is the computed one,
  the body is not too large, and the coinbase claims at most the fee that
  \<open>get_transactions\<close> answered), then \<open>validate\<close> accepts the block with exactly that fee.
\<close>

lemma template_block_is_valid:
  assumes "mempool_ok E (nd_mempool nd)"
    and "\<forall>t tx. fmlookup (mp_transactions (nd_mempool nd)) t = Some tx \<longrightarrow> length (tx_inputs (at_transaction tx)) \<le> 2 ^ 32"
    and "get_transactions E number nd = Ok ((txs, fee), nd')"
    and "\<forall>batch. batch \<noteq> [] \<longrightarrow> ext_batch_verify E batch = list_all valid batch"
    and "ext_body_size E (template_body txs coinbase) \<le> Body_MAX_SIZE"
    and "hd_prev_side_hash header = st_tip (nd_state nd)"
    and "compute_merkle_root E coinbase (map af_transaction txs) = Ok (hd_merkle_root header)"
    and "checked_total (map txout_value (cb_outputs coinbase)) = Ok claimed" and "claimed \<le> fee"
  shows "validate E (nd_state nd) header (template_body txs coinbase) = Ok fee"
proof -
  have "\<forall>tx\<in>set (mempool_take number (nd_mempool nd)). distinct (tx_inputs (at_transaction tx))"
    using mempool_take_lookup pooled_inputs_distinct [OF assms(1)] assms(2) by metis
  with assms(3) obtain tm where tm: "template_ok E (nd_state nd) tm" "tm_transactions tm = txs" "tm_fee tm = fee"
    by (rule get_transactions_ok)
  then have ok: "\<forall>af\<in>set txs. valid_choice E (nd_state nd) af"
    and fees: "total_fees E (nd_state nd) (map af_transaction txs) = Ok fee"
    and "distinct (concat (map af_inputs txs))" by (simp_all add: template_ok_def)
  then have "\<not> any_adjacent_equal (sort (input_keys (map af_transaction txs)))"
    by (simp add: any_adjacent_equal_sorted distinct_input_keys block_inputs_def comp_def af_inputs_def [abs_def])
  then show ?thesis
    using assms(5-9) template_fills [OF ok] template_authorized [OF assms(4) ok] fees
    by (simp add: validate_def check_block_def not_less)
qed

section \<open>A concrete template\<close>

definition demo_pooled :: AuthorizedTransaction where
  "demo_pooled = \<lparr>at_transaction = hd (bo_transactions demo_body), at_authorizations = bo_authorizations demo_body\<rparr>"

definition demo_chosen :: AuthorizedFilled where
  "demo_chosen = \<lparr>af_transaction = demo_filled, af_authorizations = bo_authorizations demo_body\<rparr>"

lemma demo_pooled_txid: "at_txid demo_externs demo_pooled = 1003"
  by (simp add: at_txid_def txid_def demo_externs_def demo_pooled_def demo_body_def)

lemma demo_pool:
  obtains mp where "mempool_ok demo_externs mp" and "mp_transactions mp = fmupd 1003 demo_pooled fmempty"
proof -
  have "distinct (tx_inputs (at_transaction demo_pooled))" by (simp add: demo_pooled_def demo_body_def)
  moreover have "\<not> spends MemPool_new t vin op" for t vin op by (simp add: spends_def MemPool_new_def)
  moreover have "mp_transactions MemPool_new = fmempty" by (simp add: MemPool_new_def)
  ultimately show ?thesis
    using mempool_put_outcome [OF mempool_ok_new, of demo_externs demo_pooled] that by (auto simp: demo_pooled_txid)
qed

lemma demo_pooled_valid: "validate_transaction demo_externs demo_state demo_pooled = Ok 3"
proof -
  have "check_addresses demo_externs (bo_authorizations demo_body) (ft_spent_utxos demo_filled) = Ok ()"
    by (simp add: check_addresses_def demo_body_def demo_filled_def demo_externs_def auth_get_address_def)
  moreover have "verify_authorized_transaction demo_externs demo_pooled = Ok ()"
    by (simp add: verify_authorized_transaction_def demo_pooled_def demo_body_def demo_externs_def)
  ultimately show ?thesis by (simp add: validate_transaction_def demo_pooled_def demo_fill demo_valid)
qed

lemma demo_get_transactions:
  assumes "mp_transactions mp = fmupd 1003 demo_pooled fmempty"
  shows "get_transactions demo_externs 5 \<lparr>nd_archive = a, nd_mempool = mp, nd_state = demo_state\<rparr>
    = Ok (([demo_chosen], 3), \<lparr>nd_archive = a, nd_mempool = mp, nd_state = demo_state\<rparr>)"
proof -
  have "mempool_take 5 mp = [demo_pooled]" by (simp add: mempool_take_def assms)
  moreover have "sum_values (map utxo_value (ft_spent_utxos demo_filled)) = Ok 10"
    "sum_values (map txout_value (tx_outputs (ft_transaction demo_filled))) = Ok 7"
    by (simp_all add: sum_values_def demo_filled_def demo_body_def plain_def filled_get_bitcoin_value_def checked_add_def)
  moreover have "fill_authorized_transaction demo_state demo_pooled = Ok demo_chosen"
    by (simp add: fill_authorized_transaction_def demo_pooled_def demo_fill demo_chosen_def)
  ultimately show ?thesis
    by (simp add: get_transactions_def add_to_template_def demo_pooled_valid demo_chosen_def checked_sub_def checked_add_def)
qed

theorem template_block_is_valid_witness:
  "\<exists>nd. get_transactions demo_externs 5 nd = Ok (([demo_chosen], 3), nd) \<and>
     validate demo_externs (nd_state nd) demo_header (template_body [demo_chosen] (bo_coinbase demo_body)) = Ok 3"
proof -
  obtain mp where mp: "mempool_ok demo_externs mp" "mp_transactions mp = fmupd 1003 demo_pooled fmempty" by (rule demo_pool)
  let ?nd = "\<lparr>nd_archive = Archive_new, nd_mempool = mp, nd_state = demo_state\<rparr>"
  have "validate demo_externs (nd_state ?nd) demo_header (template_body [demo_chosen] (bo_coinbase demo_body)) = Ok 3"
  proof (rule template_block_is_valid [OF _ _ demo_get_transactions [OF mp(2)]])
    show "\<forall>batch. batch \<noteq> [] \<longrightarrow> ext_batch_verify demo_externs batch = list_all (\<lambda>(key, signature, _). signature = ucast key) batch"
      by (simp add: demo_externs_def)
    show "checked_total (map txout_value (cb_outputs (bo_coinbase demo_body))) = Ok 3"
      by (simp add: checked_total_def demo_body_def plain_def add_amount_def checked_add_def)
    show "compute_merkle_root demo_externs (bo_coinbase demo_body) (map af_transaction [demo_chosen]) = Ok (hd_merkle_root demo_header)"
      by (simp add: demo_root demo_chosen_def demo_header_def)
    show "ext_body_size demo_externs (template_body [demo_chosen] (bo_coinbase demo_body)) \<le> Body_MAX_SIZE"
      by (simp add: demo_externs_def Body_MAX_SIZE_def)
  qed (use mp in \<open>simp_all add: demo_header_def demo_state_def State_new_def demo_pooled_def demo_body_def\<close>)
  then show ?thesis using demo_get_transactions [OF mp(2)] by blast
qed

end
