(* ===== verification/Net_Properties.thy ===== *)
theory Net_Properties
  imports Net_Task Node_Properties
begin

text \<open>
  What two nodes tell each other: the headers with which a node answers a request are
  accepted by the node that asked.
\<close>

section \<open>The headers that are sent\<close>

lemma sequential_snoc:
  "sequential E a prev (headers @ [header]) \<longleftrightarrow> sequential E a prev headers
     \<and> hd_prev_side_hash header = (if headers = [] then prev else Some (header_hash E (last headers)))
     \<and> \<not> invalidated_block a (header_hash E header)"
  by (induction E a prev headers rule: sequential.induct) auto

text \<open>
  A run of headers up to the block \<open>b\<close>, oldest first: they follow each other, the oldest comes
  after a block of \<open>start\<close> or is the first of the chain, and their number is the difference of
  heights. \<open>a\<close> is the archive of the sender, \<open>r\<close> that of the receiver.
\<close>

definition header_run :: "externs \<Rightarrow> Archive \<Rightarrow> Archive \<Rightarrow> BlockHash fset \<Rightarrow> BlockHash \<Rightarrow> u32 \<Rightarrow> Header list \<Rightarrow> bool" where
  "header_run E a r start b h headers \<longleftrightarrow> headers \<noteq> [] \<and> header_hash E (last headers) = b
     \<and> sequential E r (hd_prev_side_hash (hd headers)) headers
     \<and> (case hd_prev_side_hash (hd headers) of
          None \<Rightarrow> length headers = Suc (unat h)
        | Some s \<Rightarrow> s |\<in>| start \<and> (\<exists>h'. get_height a s = Ok h' \<and> s \<in> fmdom' (ar_headers a) \<and> unat h = unat h' + length headers))"

lemma header_run_single:
  assumes "header_hash E header = b" and "\<not> invalidated_block r b"
    and "case hd_prev_side_hash header of None \<Rightarrow> h = 0
      | Some s \<Rightarrow> s |\<in>| start \<and> s \<in> fmdom' (ar_headers a) \<and> (\<exists>h'. get_height a s = Ok h' \<and> unat h = Suc (unat h'))"
  shows "header_run E a r start b h [header]"
  using assms by (auto simp: header_run_def split: option.splits)

lemma header_run_snoc:
  assumes "header_run E a r start p hp headers" and "header_hash E header = b" and "hd_prev_side_hash header = Some p"
    and "\<not> invalidated_block r b" and "unat h = Suc (unat hp)"
  shows "header_run E a r start b h (headers @ [header])"
  using assms by (auto simp: header_run_def sequential_snoc split: option.splits)

lemma archive_parent:
  assumes "archive_ok E X a" and "fmlookup (ar_headers a) b = Some header" and "get_height a b = Ok h"
  shows "hd_prev_side_hash header = None \<Longrightarrow> h = 0"
    and "hd_prev_side_hash header = Some p \<Longrightarrow> \<exists>hdr h'. fmlookup (ar_headers a) p = Some hdr \<and> get_height a p = Ok h' \<and> unat h = Suc (unat h')"
proof -
  obtain h0 where h0: "side_ok (a, fmdom' (ar_headers a))" "side_height (a, fmdom' (ar_headers a)) b = Some h0"
    "fmlookup (ar_block_hash_to_height a) b = Some h0" by (rule archive_side_height [OF assms(1,2)])
  then have h: "h0 = h" using assms(3) by (simp add: get_height_def try_get_height_def)
  have par: "side_parent a b = hd_prev_side_hash header" using assms(2) by (simp add: side_parent_def)
  show "h = 0" if "hd_prev_side_hash header = None"
    using side.parent_root [OF h0(1,2)] that par h by simp
  show "\<exists>hdr h'. fmlookup (ar_headers a) p = Some hdr \<and> get_height a p = Ok h' \<and> unat h = Suc (unat h')" if "hd_prev_side_hash header = Some p"
  proof -
    from side.parent_height [OF h0(1,2), of p] that par h obtain h' where
      "side_height (a, fmdom' (ar_headers a)) p = Some h'" "unat h = Suc (unat h')" by auto
    then show ?thesis by (auto simp: side_height_def get_height_def try_get_height_def fmlookup_dom'_iff split: if_splits)
  qed
qed

lemma headers_until_run:
  assumes "archive_ok E X a" and "\<forall>b\<in>fmdom' (ar_headers a). \<not> invalidated_block r b"
    and "fmlookup (ar_headers a) b = Some header" and "get_height a b = Ok h" and "unat h < fuel"
  shows "\<exists>headers. headers_until fuel a start (Some b) = Some (Ok headers)
    \<and> (if b |\<in>| start then headers = [] else header_run E a r start b h (rev headers))"
  using assms(3-5)
proof (induction fuel arbitrary: b header h)
  case (Suc fuel)
  have get: "get_header a b = Ok header" using Suc.prems(1) by (simp add: get_header_def try_get_header_def)
  have hash: "header_hash E header = b" using assms(1) Suc.prems(1) by (simp add: archive_ok_def side_tables_ok_def)
  have valid: "\<not> invalidated_block r b" using assms(2) Suc.prems(1) by (auto intro: fmdom'I)
  note parent = archive_parent [OF assms(1) Suc.prems(1,2)]
  show ?case
  proof (cases "b |\<in>| start \<or> hd_prev_side_hash header = None")
    case True
    then show ?thesis using get hash valid parent(1) header_run_single [of E header b r h start a] by (auto simp: fbind_def)
  next
    case False
    then obtain p where p: "hd_prev_side_hash header = Some p" by auto
    from parent(2) [OF p] obtain hdr hp where hp: "fmlookup (ar_headers a) p = Some hdr" "get_height a p = Ok hp" "unat h = Suc (unat hp)"
      by blast
    obtain headers where run: "headers_until fuel a start (Some p) = Some (Ok headers)"
      "if p |\<in>| start then headers = [] else header_run E a r start p hp (rev headers)"
      using Suc.IH [OF hp(1,2)] Suc.prems(3) hp(3) by auto
    have "header_run E a r start b h (rev (header # headers))"
    proof (cases "p |\<in>| start")
      case True
      with run(2) p hp hash valid show ?thesis by (auto intro!: header_run_single fmdom'I)
    next
      case False
      with run(2) header_run_snoc [OF _ hash p valid hp(3)] show ?thesis by simp
    qed
    with False get run(1) p show ?thesis by (simp add: fbind_def)
  qed
qed simp

section \<open>Heights agree\<close>

lemma heights_agree:
  assumes "archive_ok E X a" and "archive_ok E X' r"
    and agree: "\<forall>b header header'. fmlookup (ar_headers a) b = Some header \<and> fmlookup (ar_headers r) b = Some header' \<longrightarrow> header = header'"
    and "fmlookup (ar_headers a) b = Some header" and "fmlookup (ar_headers r) b = Some header'" and "get_height a b = Ok h"
  shows "get_height r b = Ok h"
  using assms(4-6)
proof (induction "unat h" arbitrary: b header header' h)
  case 0
  obtain hr where hr: "get_height r b = Ok hr"
    by (rule archive_side_height [OF assms(2) "0.prems"(2)]) (simp add: get_height_def try_get_height_def)
  show ?case
  proof (cases "hd_prev_side_hash header")
    case None
    moreover have "header' = header" using agree "0.prems"(1,2) by blast
    ultimately have "hr = 0" using archive_parent(1) [OF assms(2) "0.prems"(2) hr] by simp
    with 0 hr show ?thesis by (simp add: unat_eq_0)
  next
    case (Some p)
    with archive_parent(2) [OF assms(1) "0.prems"(1,3)] 0 show ?thesis by auto
  qed
next
  case (Suc n)
  obtain hr where hr: "get_height r b = Ok hr"
    by (rule archive_side_height [OF assms(2) Suc.prems(2)]) (simp add: get_height_def try_get_height_def)
  have same: "header' = header" using agree Suc.prems(1,2) by blast
  show ?case
  proof (cases "hd_prev_side_hash header")
    case None
    with archive_parent(1) [OF assms(1) Suc.prems(1,3)] Suc.hyps(2) show ?thesis by simp
  next
    case (Some p)
    from archive_parent(2) [OF assms(1) Suc.prems(1,3) Some] obtain hdr hp
      where hp: "fmlookup (ar_headers a) p = Some hdr" "get_height a p = Ok hp" "unat h = Suc (unat hp)" by blast
    from archive_parent(2) [OF assms(2) Suc.prems(2) hr, of p] Some same obtain hdr' hp'
      where hp': "fmlookup (ar_headers r) p = Some hdr'" "get_height r p = Ok hp'" "unat hr = Suc (unat hp')" by blast
    have "n = unat hp" using hp(3) Suc.hyps(2) by simp
    from Suc.hyps(1) [OF this hp(1) hp'(1) hp(2)] hp' hp(3) have "unat hr = unat h" by simp
    with hr show ?thesis by (simp add: word_unat_eq_iff)
  qed
qed

section \<open>The headers that are received\<close>

lemma put_header_headers: "put_header E ho header a = Ok a' \<Longrightarrow> ar_headers a' = fmupd (header_hash E header) header (ar_headers a)"
  by (erule put_header_Ok) (simp add: with_header_def Let_def)

lemma store_headers_all:
  assumes "sequential E r prev headers" and "case prev of Some p \<Rightarrow> p \<in> fmdom' (ar_headers a) | None \<Rightarrow> True"
    and "store_headers E ho headers a = Ok a'"
  shows "fmdom' (ar_headers a') = fmdom' (ar_headers a) \<union> header_hash E ` set headers"
  using assms
proof (induction headers arbitrary: prev a)
  case (Cons header headers)
  let ?b = "header_hash E header"
  from Cons.prems(1) have seq: "hd_prev_side_hash header = prev" "sequential E r (Some ?b) headers" by simp_all
  show ?case
  proof (cases "?b \<in> fmdom' (ar_headers a)")
    case True
    then have "store_headers E ho headers a = Ok a'"
      using Cons.prems(3) by (auto simp: try_get_header_def fmlookup_dom'_iff)
    from Cons.IH [OF seq(2) _ this] True show ?thesis by auto
  next
    case False
    with Cons.prems(2,3) seq(1) obtain a1 where a1: "put_header E ho header a = Ok a1" "store_headers E ho headers a1 = Ok a'"
      by (auto simp: try_get_header_def fmlookup_dom'_iff rbind_Ok_iff split: option.splits if_splits)
    note hs = put_header_headers [OF a1(1)]
    from Cons.IH [OF seq(2) _ a1(2)] show ?thesis by (simp add: hs)
  qed
qed simp

lemma expected_end_height_run:
  assumes "header_run E a r start b h headers" and "unat h < 2 ^ 32 - 1"
    and "\<And>s h'. s |\<in>| start \<Longrightarrow> s \<in> fmdom' (ar_headers a) \<Longrightarrow> get_height a s = Ok h' \<Longrightarrow> get_height r s = Ok h'"
  shows "expected_end_height r (hd_prev_side_hash (hd headers)) (length headers) = Some (Ok h)"
proof (cases "hd_prev_side_hash (hd headers)")
  case None
  then have n: "length headers = Suc (unat h)" using assms(1) by (simp add: header_run_def)
  then have "unat (of_nat (length headers) :: u32) = Suc (unat h)" using assms(2) by (simp add: unat_of_nat_u32 del: of_nat_Suc)
  then show ?thesis by (simp add: expected_end_height_def None)
next
  case (Some s)
  then obtain h' where h': "s |\<in>| start" "s \<in> fmdom' (ar_headers a)" "get_height a s = Ok h'" "unat h = unat h' + length headers"
    using assms(1) by (auto simp: header_run_def)
  then have "unat (of_nat (length headers) :: u32) = length headers" using assms(2) by (simp add: unat_of_nat_u32)
  with h' assms(3) show ?thesis by (simp add: expected_end_height_def Some lift_archive_def fbind_def)
qed

lemma handle_headers_valid:
  assumes "headers \<noteq> []" and "header_hash E (last headers) = gh_end req"
    and "case hd_prev_side_hash (hd headers) of Some p \<Rightarrow> p |\<in>| gh_start req | None \<Rightarrow> True"
    and "expected_end_height (nd_archive (nt_node nt)) (hd_prev_side_hash (hd headers)) (length headers) = Some (Ok height)"
    and "sequential E (nd_archive (nt_node nt)) (hd_prev_side_hash (hd headers)) headers"
  shows "handle_headers E R addr req height peer_state_id headers nt
      = obind nt (lift_archive (store_headers E (or_hashes R) headers (nd_archive (nt_node nt))))
          (\<lambda>a'. Some (Ok (), tell_peer (IM_Headers peer_state_id) addr (set_archive a' nt)))"
proof -
  have "\<not> (case hd_prev_side_hash (hd headers) of Some s \<Rightarrow> s |\<notin>| gh_start req | None \<Rightarrow> False)"
    using assms(3) by (simp split: option.splits)
  with assms(1,2,4,5) show ?thesis by (simp add: handle_headers_def Let_def)
qed

text \<open>
  C20: the headers that a node sends are the headers that its peer asked for. Let two nodes have
  consistent archives that agree on the headers both know, let none of the sender's blocks be
  invalid for the receiver, and let the receiver ask for a block that it does not know with a
  locator of blocks that it knows and the height that the sender announced. Then the sender
  answers, with enough fuel, a list of headers; the receiver never takes this answer for an
  invalid one, so it does not drop the peer; and when the headers have been stored, the
  receiver knows the block that it asked for and all headers up to it.
\<close>

theorem requested_headers_are_accepted:
  assumes "archive_ok E X a" and "archive_ok E X' (nd_archive (nt_node nt))"
    and "\<forall>b header header'. fmlookup (ar_headers a) b = Some header \<and> fmlookup (ar_headers (nd_archive (nt_node nt))) b = Some header'
      \<longrightarrow> header = header'"
    and "\<forall>b\<in>fmdom' (ar_headers a). \<not> invalidated_block (nd_archive (nt_node nt)) b"
    and "fmlookup (ar_headers a) (gh_end req) = Some end_header" and "get_height a (gh_end req) = Ok height"
    and "unat height < fuel" and "unat height < 2 ^ 32 - 1"
    and "fset (gh_start req) \<subseteq> fmdom' (ar_headers (nd_archive (nt_node nt)))"
    and "gh_end req \<notin> fmdom' (ar_headers (nd_archive (nt_node nt)))"
  shows "\<exists>headers. handle_get_headers fuel a (gh_start req) (gh_end req) = Some (Ok (RespHeaders headers))
    \<and> handle_headers E R addr req height peer_state_id headers nt
      = obind nt (lift_archive (store_headers E (or_hashes R) headers (nd_archive (nt_node nt))))
          (\<lambda>a'. Some (Ok (), tell_peer (IM_Headers peer_state_id) addr (set_archive a' nt)))
    \<and> (\<forall>a'. store_headers E (or_hashes R) headers (nd_archive (nt_node nt)) = Ok a' \<longrightarrow>
        fmdom' (ar_headers a') = fmdom' (ar_headers (nd_archive (nt_node nt))) \<union> header_hash E ` set headers
        \<and> gh_end req \<in> fmdom' (ar_headers a'))"
proof -
  let ?r = "nd_archive (nt_node nt)"
  have "gh_end req |\<notin>| gh_start req" using assms(9,10) by auto
  with headers_until_run [OF assms(1,4,5,6,7), of "gh_start req"] obtain hs where
    hs: "headers_until fuel a (gh_start req) (Some (gh_end req)) = Some (Ok hs)"
    and run: "header_run E a ?r (gh_start req) (gh_end req) height (rev hs)" by auto
  have sent: "handle_get_headers fuel a (gh_start req) (gh_end req) = Some (Ok (RespHeaders (rev hs)))"
    using hs assms(5) by (simp add: handle_get_headers_def try_get_header_def from_walk_def fbind_def)
  have known: "get_height ?r s = Ok h'" if start: "s |\<in>| gh_start req" "s \<in> fmdom' (ar_headers a)" "get_height a s = Ok h'" for s h'
  proof -
    obtain header where "fmlookup (ar_headers a) s = Some header" using start(2) by (auto simp: fmlookup_dom'_iff)
    moreover obtain header' where "fmlookup (ar_headers ?r) s = Some header'"
      using start(1) assms(9) by (auto simp: fmlookup_dom'_iff subset_iff)
    ultimately show ?thesis using heights_agree [OF assms(1-3)] start(3) by blast
  qed
  note height = expected_end_height_run [OF run assms(8) known]
  have start: "case hd_prev_side_hash (hd (rev hs)) of Some p \<Rightarrow> p |\<in>| gh_start req | None \<Rightarrow> True"
    and seq: "sequential E ?r (hd_prev_side_hash (hd (rev hs))) (rev hs)" and hs_end: "hs \<noteq> []" "header_hash E (last (rev hs)) = gh_end req"
    using run by (auto simp: header_run_def split: option.splits)
  have "rev hs \<noteq> []" using hs_end(1) by simp
  note accepted = handle_headers_valid [OF this hs_end(2) start height seq]
  have stored: "fmdom' (ar_headers a') = fmdom' (ar_headers ?r) \<union> header_hash E ` set (rev hs) \<and> gh_end req \<in> fmdom' (ar_headers a')"
    if "store_headers E (or_hashes R) (rev hs) ?r = Ok a'" for a'
  proof -
    have "case hd_prev_side_hash (hd (rev hs)) of Some p \<Rightarrow> p \<in> fmdom' (ar_headers ?r) | None \<Rightarrow> True"
      using start assms(9) by (auto split: option.splits)
    from store_headers_all [OF seq this that] hs_end show ?thesis by (metis UnCI image_eqI last_in_set rev_is_Nil_conv)
  qed
  show ?thesis by (intro exI [of _ "rev hs"] conjI allI impI sent accepted) (use stored in blast)+
qed

definition bare_node :: Node where
  "bare_node = \<lparr>nd_archive = archive2, nd_mempool = MemPool_new, nd_state = State_new\<rparr>"

definition asking_node :: NetTask where
  "asking_node = \<lparr>nt_node = bare_node, nt_net = \<lparr>net_active_peers = [], net_known_peers = {||}\<rparr>, nt_descendant_tips = fmempty,
     nt_request_sources = fmempty, nt_new_tips = [], nt_forward = [], nt_main_requests = []\<rparr>"

lemma archive3_child_height: "get_height archive3 9 = Ok 1"
  by (simp add: archive3_def with_header_def get_height_def try_get_height_def Let_def)

lemma demo_archives_agree:
  "\<forall>b header header'. fmlookup (ar_headers archive3) b = Some header \<and> fmlookup (ar_headers (nd_archive (nt_node asking_node))) b = Some header'
     \<longrightarrow> header = header'"
  by (simp add: asking_node_def bare_node_def demo_headers)

lemma asking_archive: "nd_archive (nt_node asking_node) = archive2"
  by (simp add: asking_node_def bare_node_def)

definition demo_request :: GetHeadersRequest where
  "demo_request = \<lparr>gh_start = {|8|}, gh_end = 9, gh_height = Some 1, gh_peer_state_id = None\<rparr>"

definition demo_orders :: orders where
  "demo_orders = \<lparr>or_hashes = ascending, or_addrs = (\<lambda>_. []), or_tips = (\<lambda>_. []), or_sources = (\<lambda>_. [])\<rparr>"

lemma demo_headers_sent: "handle_get_headers 5 archive3 {|8|} 9 = Some (Ok (RespHeaders [child_header]))"
  by (simp add: handle_get_headers_def try_get_header_def get_header_def demo_headers from_walk_def fbind_def numeral_eq_Suc)

lemma demo_headers_stored: "store_headers demo_externs ascending [child_header] archive2 = Ok archive3"
  by (simp add: try_get_header_def demo_headers put_child)

theorem requested_headers_are_accepted_witness:
  "handle_headers demo_externs demo_orders (IpV4 1, 8333) demo_request 1 0 [child_header] asking_node
     = Some (Ok (), tell_peer (IM_Headers 0) (IpV4 1, 8333) (set_archive archive3 asking_node))"
  using requested_headers_are_accepted [OF archive3_ok _ demo_archives_agree, where X' = demo_tips and req = demo_request
      and end_header = child_header and height = 1 and fuel = 5 and R = demo_orders and addr = "(IpV4 1, 8333)" and peer_state_id = 0]
  by (simp add: asking_archive archive2_ok demo_headers archive3_child_height invalidated_block_def demo_request_def demo_orders_def
      demo_headers_sent demo_headers_stored lift_archive_def del: store_headers.simps)

end
