(* ===== verification/Wallet.thy ===== *)
theory Wallet
  imports Node
begin

text \<open>
  The wallet (\<open>lib/wallet.rs\<close>): keys derived from a seed, the coins it knows, the selection of
  coins and the building and signing of transactions; and the update of its coins from the
  node (\<open>update_wallet\<close> in \<open>app/app.rs\<close>).

  Key derivation, signing, encryption and hashing are other crates, fields of the record
  \<open>wallet_externs\<close>. Most operations commit several times: an operation is a function from
  the wallet to its result and the wallet it leaves, also where the result is an error.
\<close>

section \<open>Data\<close>

type_synonym SigningKey = hash
type_synonym xpriv = "u8 list"

datatype ChildNumber = Hardened u32 | Normal u32

text \<open>
  The order in which a hash map of coins is walked and the order in which an unstable sort
  leaves coins of equal value: some order of each set.
\<close>

typedef coin_order = "{f :: OutPoint fset \<Rightarrow> OutPoint list. \<forall>S. set (f S) = fset S \<and> distinct (f S)}"
  morphisms coins_in_order coin_order
  by (rule exI [of _ sorted_list_of_fset]) simp

lemma set_coins_in_order [simp]: "set (coins_in_order co S) = fset S"
  and distinct_coins_in_order [simp]: "distinct (coins_in_order co S)"
  using coins_in_order [of co] by auto

definition coins_ascending :: coin_order where
  "coins_ascending = coin_order sorted_list_of_fset"

lemma coins_in_order_ascending [simp]: "coins_in_order coins_ascending S = sorted_list_of_fset S"
  unfolding coins_ascending_def by (subst coin_order_inverse) simp_all

text \<open>
  \<open>wx_new_master\<close>, \<open>wx_derive_priv\<close>, \<open>wx_secret_bytes\<close>: BIP 32; \<open>wx_scalar\<close>: bytes as a scalar;
  \<open>wx_verifying_key\<close>, \<open>wx_sign_tx\<close>, \<open>wx_sign_msg\<close>: keys and signatures, the number is the state of
  the random number generator; \<open>wx_encryption_pubkey\<close>, \<open>wx_decrypt\<close>: encryption; \<open>wx_hash_name\<close>:
  \<open>blake3::hash\<close> of a name; \<open>wx_seed_of_mnemonic\<close>: BIP 39; \<open>wx_outpoint_key\<close>: the bytes under which
  \<open>SerdeBincode\<close> stores an outpoint; \<open>wx_hash_order\<close>, \<open>wx_address_order\<close>: the orders in which hash maps
  of coins and hash sets of addresses are walked; \<open>wx_sort_order\<close>: the order in which sorting
  leaves equal keys.
\<close>

record wallet_externs =
  wx_new_master :: "u8 list \<Rightarrow> xpriv option"
  wx_derive_priv :: "xpriv \<Rightarrow> ChildNumber list \<Rightarrow> xpriv option"
  wx_secret_bytes :: "xpriv \<Rightarrow> hash"
  wx_scalar :: "hash \<Rightarrow> hash"
  wx_verifying_key :: "SigningKey \<Rightarrow> VerifyingKey"
  wx_sign_tx :: "nat \<Rightarrow> SigningKey \<Rightarrow> Transaction \<Rightarrow> Signature \<times> nat"
  wx_sign_msg :: "nat \<Rightarrow> SigningKey \<Rightarrow> string \<Rightarrow> Signature \<times> nat"
  wx_encryption_pubkey :: "hash \<Rightarrow> EncryptionPubKey"
  wx_decrypt :: "hash \<Rightarrow> u8 list \<Rightarrow> u8 list option"
  wx_hash_name :: "string \<Rightarrow> hash"
  wx_seed_of_mnemonic :: "string \<Rightarrow> u8 list option"
  wx_outpoint_key :: "OutPoint \<Rightarrow> u8 list"
  wx_hash_order :: coin_order
  wx_address_order :: "Address set \<Rightarrow> Address list"
  wx_sort_order :: coin_order

record SpentTxOutput =
  sto_output :: TxOutput
  sto_inpoint :: InPoint

record Wallet =
  wa_seed :: "u8 list option"
  wa_address_to_index :: "(Address, u32) fmap"
  wa_epk_to_index :: "(EncryptionPubKey, u32) fmap"
  wa_index_to_address :: "(u32, Address) fmap"
  wa_index_to_epk :: "(u32, EncryptionPubKey) fmap"
  wa_index_to_vk :: "(u32, VerifyingKey) fmap"
  wa_unconfirmed_utxos :: "(OutPoint, TxOutput) fmap"
  wa_utxos :: "(OutPoint, FilledOutput) fmap"
  wa_stxos :: "(OutPoint, SpentOutput) fmap"
  wa_spent_unconfirmed_utxos :: "(OutPoint, SpentTxOutput) fmap"
  wa_bitasset_reservations :: "(hash, string) fmap"
  wa_known_bitassets :: "(BitAssetId, string) fmap"
  wa_vk_to_index :: "(VerifyingKey, u32) fmap"

definition Wallet_new :: Wallet where
  "Wallet_new =
     \<lparr>wa_seed = None, wa_address_to_index = fmempty, wa_epk_to_index = fmempty, wa_index_to_address = fmempty,
      wa_index_to_epk = fmempty, wa_index_to_vk = fmempty, wa_unconfirmed_utxos = fmempty, wa_utxos = fmempty,
      wa_stxos = fmempty, wa_spent_unconfirmed_utxos = fmempty, wa_bitasset_reservations = fmempty,
      wa_known_bitassets = fmempty, wa_vk_to_index = fmempty\<rparr>"

datatype WalletError =
    W_AddressDoesNotExist Address
  | W_AmountOverflow
  | W_Bip32
  | W_Ecies
  | W_EpkDoesNotExist EncryptionPubKey
  | W_NoIndex Address
  | W_NoSeed
  | W_NoBitassetReservation string
  | W_NotEnoughFunds
  | W_NoTransferDestination
  | W_NoUtxo
  | W_ParseMnemonic
  | W_SeedAlreadyExists
  | W_VkDoesNotExist VerifyingKey

text \<open>Operations on a state: a read, a write, and one operation after another.\<close>

type_synonym ('s, 'e, 'a) stateful = "'s \<Rightarrow> ('e, 'a) result \<times> 's"
type_synonym 'a wallet_op = "(Wallet, WalletError, 'a) stateful"

definition wread :: "('s \<Rightarrow> ('e, 'a) result) \<Rightarrow> ('s, 'e, 'a) stateful" where
  "wread f w = (f w, w)"

abbreviation wreturn :: "'a \<Rightarrow> ('s, 'e, 'a) stateful" where
  "wreturn x \<equiv> wread (\<lambda>_. Ok x)"

definition wwrite :: "('s \<Rightarrow> 's) \<Rightarrow> ('s, 'e, unit) stateful" where
  "wwrite f w = (Ok (), f w)"

definition wbind :: "('s, 'e, 'a) stateful \<Rightarrow> ('a \<Rightarrow> ('s, 'e, 'b) stateful) \<Rightarrow> ('s, 'e, 'b) stateful" where
  "wbind m f w = (case m w of (Ok x, w) \<Rightarrow> f x w | (Err e, w) \<Rightarrow> (Err e, w) | (Panic, w) \<Rightarrow> (Panic, w))"

section \<open>Keys\<close>

definition signing_key_from_secret_bytes :: "wallet_externs \<Rightarrow> hash \<Rightarrow> ('e, SigningKey) result" where
  "signing_key_from_secret_bytes X bytes =
     (let scalar = wx_scalar X bytes in expect (if scalar = 0 then None else Some scalar))"

definition get_master_xpriv :: "wallet_externs \<Rightarrow> Wallet \<Rightarrow> (WalletError, xpriv) result" where
  "get_master_xpriv X w =
     rbind (ok_or W_NoSeed (wa_seed w)) (\<lambda>seed_bytes. ok_or W_Bip32 (wx_new_master X seed_bytes))"

text \<open>The private key at a path below the master key.\<close>

definition derive_secret :: "wallet_externs \<Rightarrow> u32 \<Rightarrow> u32 \<Rightarrow> Wallet \<Rightarrow> (WalletError, hash) result" where
  "derive_secret X account index w =
     rbind (get_master_xpriv X w) (\<lambda>master.
     rbind (ok_or W_Bip32 (wx_derive_priv X master [Hardened account, Normal index])) (\<lambda>xpriv.
     Ok (wx_secret_bytes X xpriv)))"

definition get_encryption_secret :: "wallet_externs \<Rightarrow> u32 \<Rightarrow> Wallet \<Rightarrow> (WalletError, hash) result" where
  "get_encryption_secret X index w = derive_secret X 1 index w"

definition get_encryption_secret_for_epk :: "wallet_externs \<Rightarrow> EncryptionPubKey \<Rightarrow> Wallet \<Rightarrow> (WalletError, hash) result" where
  "get_encryption_secret_for_epk X epk w =
     rbind (ok_or (W_EpkDoesNotExist epk) (fmlookup (wa_epk_to_index w) epk)) (\<lambda>epk_idx.
     rbind (get_encryption_secret X epk_idx w) (\<lambda>secret.
     rbind (assert_that (epk = wx_encryption_pubkey X secret)) (\<lambda>_. Ok secret)))"

definition get_tx_signing_key :: "wallet_externs \<Rightarrow> u32 \<Rightarrow> Wallet \<Rightarrow> (WalletError, SigningKey) result" where
  "get_tx_signing_key X index w = rbind (derive_secret X 0 index w) (signing_key_from_secret_bytes X)"

definition key_address :: "externs \<Rightarrow> wallet_externs \<Rightarrow> SigningKey \<Rightarrow> Address" where
  "key_address E X signing_key = ext_key_address E (wx_verifying_key X signing_key)"

definition get_tx_signing_key_for_addr ::
  "externs \<Rightarrow> wallet_externs \<Rightarrow> Address \<Rightarrow> Wallet \<Rightarrow> (WalletError, SigningKey) result" where
  "get_tx_signing_key_for_addr E X address w =
     rbind (ok_or (W_AddressDoesNotExist address) (fmlookup (wa_address_to_index w) address)) (\<lambda>addr_idx.
     rbind (get_tx_signing_key X addr_idx w) (\<lambda>signing_key.
     rbind (assert_that (address = key_address E X signing_key)) (\<lambda>_. Ok signing_key)))"

definition get_message_signing_key :: "wallet_externs \<Rightarrow> u32 \<Rightarrow> Wallet \<Rightarrow> (WalletError, SigningKey) result" where
  "get_message_signing_key X index w = rbind (derive_secret X 2 index w) (signing_key_from_secret_bytes X)"

definition get_message_signing_key_for_vk ::
  "wallet_externs \<Rightarrow> VerifyingKey \<Rightarrow> Wallet \<Rightarrow> (WalletError, SigningKey) result" where
  "get_message_signing_key_for_vk X vk w =
     rbind (ok_or (W_VkDoesNotExist vk) (fmlookup (wa_vk_to_index w) vk)) (\<lambda>vk_idx.
     rbind (get_message_signing_key X vk_idx w) (\<lambda>signing_key.
     rbind (assert_that (vk = wx_verifying_key X signing_key)) (\<lambda>_. Ok signing_key)))"

text \<open>The indices are stored big-endian, so the last key is the greatest.\<close>

definition next_key_index :: "(u32, 'v) fmap \<Rightarrow> ('e, u32) result" where
  "next_key_index m = (case db_last id m of None \<Rightarrow> Ok 0 | Some (idx, _) \<Rightarrow> add_word idx 1)"

definition get_new_address :: "externs \<Rightarrow> wallet_externs \<Rightarrow> Address wallet_op" where
  "get_new_address E X w =
     (let r = rbind (next_key_index (wa_index_to_address w)) (\<lambda>index.
          rbind (get_tx_signing_key X index w) (\<lambda>key. Ok (index, key_address E X key))) in
      case r of
        Ok (index, address) \<Rightarrow>
          (Ok address, w\<lparr>wa_index_to_address := fmupd index address (wa_index_to_address w),
             wa_address_to_index := fmupd address index (wa_address_to_index w)\<rparr>)
      | Err e \<Rightarrow> (Err e, w)
      | Panic \<Rightarrow> (Panic, w))"

text \<open>Has any output that the wallet holds or held paid this address?\<close>

definition address_received :: "Wallet \<Rightarrow> Address \<Rightarrow> bool" where
  "address_received w address \<longleftrightarrow>
     list_ex (\<lambda>out. out_address out = address) (map snd (db_iter id (wa_utxos w)))
     \<or> list_ex (\<lambda>out. out_address out = address) (map snd (db_iter id (wa_unconfirmed_utxos w)))
     \<or> list_ex (\<lambda>stxo. out_address (so_output stxo) = address) (map snd (db_iter id (wa_stxos w)))"

definition get_receive_address :: "externs \<Rightarrow> wallet_externs \<Rightarrow> Address wallet_op" where
  "get_receive_address E X w =
     (case db_last id (wa_index_to_address w) of
        Some (_, address) \<Rightarrow> if \<not> address_received w address then (Ok address, w) else get_new_address E X w
      | None \<Rightarrow> get_new_address E X w)"

definition get_new_encryption_key :: "wallet_externs \<Rightarrow> EncryptionPubKey wallet_op" where
  "get_new_encryption_key X w =
     (let r = rbind (next_key_index (wa_index_to_epk w)) (\<lambda>index.
          rbind (get_encryption_secret X index w) (\<lambda>secret. Ok (index, wx_encryption_pubkey X secret))) in
      case r of
        Ok (index, epk) \<Rightarrow>
          (Ok epk, w\<lparr>wa_index_to_epk := fmupd index epk (wa_index_to_epk w),
             wa_epk_to_index := fmupd epk index (wa_epk_to_index w)\<rparr>)
      | Err e \<Rightarrow> (Err e, w)
      | Panic \<Rightarrow> (Panic, w))"

definition get_new_verifying_key :: "wallet_externs \<Rightarrow> VerifyingKey wallet_op" where
  "get_new_verifying_key X w =
     (let r = rbind (next_key_index (wa_index_to_vk w)) (\<lambda>index.
          rbind (get_message_signing_key X index w) (\<lambda>key. Ok (index, wx_verifying_key X key))) in
      case r of
        Ok (index, vk) \<Rightarrow>
          (Ok vk, w\<lparr>wa_index_to_vk := fmupd index vk (wa_index_to_vk w),
             wa_vk_to_index := fmupd vk index (wa_vk_to_index w)\<rparr>)
      | Err e \<Rightarrow> (Err e, w)
      | Panic \<Rightarrow> (Panic, w))"

text \<open>
  \<open>overwrite_seed\<close> clears the addresses and the coins. The tables of encryption keys, message
  keys and known BitAssets stay.
\<close>

definition overwrite_seed :: "u8 list \<Rightarrow> unit wallet_op" where
  "overwrite_seed seed = wwrite (\<lambda>w. w\<lparr>wa_seed := Some seed, wa_address_to_index := fmempty,
     wa_index_to_address := fmempty, wa_unconfirmed_utxos := fmempty, wa_utxos := fmempty, wa_stxos := fmempty,
     wa_spent_unconfirmed_utxos := fmempty, wa_bitasset_reservations := fmempty\<rparr>)"

definition has_seed :: "Wallet \<Rightarrow> bool" where
  "has_seed w = (wa_seed w \<noteq> None)"

definition set_seed :: "u8 list \<Rightarrow> unit wallet_op" where
  "set_seed seed w =
     (case wa_seed w of
        Some current_seed \<Rightarrow> (if current_seed = seed then Ok () else Err W_SeedAlreadyExists, w)
      | None \<Rightarrow> overwrite_seed seed w)"

definition set_seed_from_mnemonic :: "wallet_externs \<Rightarrow> string \<Rightarrow> unit wallet_op" where
  "set_seed_from_mnemonic X mnemonic w =
     (case wx_seed_of_mnemonic X mnemonic of None \<Rightarrow> (Err W_ParseMnemonic, w) | Some seed \<Rightarrow> set_seed seed w)"

definition decrypt_msg :: "wallet_externs \<Rightarrow> EncryptionPubKey \<Rightarrow> u8 list \<Rightarrow> Wallet \<Rightarrow> (WalletError, u8 list) result" where
  "decrypt_msg X encryption_pubkey ciphertext w =
     rbind (get_encryption_secret_for_epk X encryption_pubkey w) (\<lambda>secret. ok_or W_Ecies (wx_decrypt X secret ciphertext))"

end
