(* ===== verification/Wallet_Tx.thy ===== *)
theory Wallet_Tx
  imports Wallet
begin

text \<open>
  How the wallet selects coins, builds transactions and signs them (\<open>lib/wallet.rs\<close>, from
  \<open>create_regular_transaction\<close> on), and how it learns of coins that were received or spent.
\<close>

section \<open>Selecting coins\<close>

fun content_is_bitcoin :: "Content \<Rightarrow> bool" where
  "content_is_bitcoin (C_Bitcoin _) = True"
| "content_is_bitcoin _ = False"

fun content_is_withdrawal :: "Content \<Rightarrow> bool" where
  "content_is_withdrawal (C_Withdrawal _) = True"
| "content_is_withdrawal _ = False"

text \<open>The coins of a table that satisfy \<open>p\<close>, sorted by a key; equal keys come in any order.\<close>

definition coin_rows :: "coin_order \<Rightarrow> ('o \<Rightarrow> bool) \<Rightarrow> (OutPoint, 'o) fmap \<Rightarrow> (OutPoint \<times> 'o) list" where
  "coin_rows co p m =
     (let kept = fmfilter (\<lambda>op. p (the (fmlookup m op))) m in
      map (\<lambda>op. (op, the (fmlookup kept op))) (coins_in_order co (fmdom kept)))"

definition sorted_coins :: "coin_order \<Rightarrow> ('o \<Rightarrow> 'k::linorder) \<Rightarrow> ('o \<Rightarrow> bool) \<Rightarrow> (OutPoint, 'o) fmap \<Rightarrow> (OutPoint \<times> 'o) list" where
  "sorted_coins co key p m = sort_key (\<lambda>(_, out). key out) (coin_rows co p m)"

fun select_bitcoins_loop ::
  "u64 \<Rightarrow> (OutPoint \<times> TxOutput) list \<Rightarrow> u64 \<times> (OutPoint, TxOutput) fmap
    \<Rightarrow> (WalletError, u64 \<times> (OutPoint, TxOutput) fmap) result" where
  "select_bitcoins_loop value [] (sum_in, selected) = Ok (sum_in, selected)"
| "select_bitcoins_loop value ((outpoint, out) # coins) (sum_in, selected) =
     (if content_is_withdrawal (out_content out) \<or> content_is_bitasset (out_content out)
         \<or> content_is_reservation (out_content out) \<or> txout_value out = 0
      then select_bitcoins_loop value coins (sum_in, selected)
      else if value \<le> sum_in then Ok (sum_in, selected)
      else rbind (ok_or W_AmountOverflow (checked_add sum_in (txout_value out))) (\<lambda>sum_in.
        select_bitcoins_loop value coins (sum_in, fmupd outpoint out selected)))"

definition bitcoin_coins :: "wallet_externs \<Rightarrow> Wallet \<Rightarrow> (OutPoint \<times> TxOutput) list" where
  "bitcoin_coins X w =
     sorted_coins (wx_sort_order X) (\<lambda>out. txout_value out) (\<lambda>_. True)
       (fmmap output_of_filled (fmfilter (\<lambda>op. filled_is_bitcoin (out_content (the (fmlookup (wa_utxos w) op)))) (wa_utxos w)))
     @ sorted_coins (wx_sort_order X) (\<lambda>out. txout_value out) (\<lambda>out. content_is_bitcoin (out_content out)) (wa_unconfirmed_utxos w)"

definition select_bitcoins ::
  "wallet_externs \<Rightarrow> u64 \<Rightarrow> Wallet \<Rightarrow> (WalletError, u64 \<times> (OutPoint, TxOutput) fmap) result" where
  "select_bitcoins X value w =
     rbind (select_bitcoins_loop value (bitcoin_coins X w) (0, fmempty)) (\<lambda>(sum_in, selected).
     if value \<le> sum_in then Ok (sum_in, selected) else Err W_NotEnoughFunds)"

text \<open>The loop of \<open>select_bitasset_utxos\<close>; plain \<open>+\<close> panics on overflow.\<close>

fun select_bitasset_loop ::
  "u64 \<Rightarrow> (OutPoint \<times> FilledOutput) list \<Rightarrow> u64 \<times> (OutPoint, TxOutput) fmap
    \<Rightarrow> (WalletError, u64 \<times> (OutPoint, TxOutput) fmap) result" where
  "select_bitasset_loop value [] (sum_in, selected) = Ok (sum_in, selected)"
| "select_bitasset_loop value ((outpoint, out) # coins) (sum_in, selected) =
     (if filled_is_withdrawal (out_content out) then select_bitasset_loop value coins (sum_in, selected)
      else if value < sum_in then Ok (sum_in, selected)
      else rbind (expect (filled_bitasset_value (out_content out))) (\<lambda>(_, bitasset_value).
        rbind (add_word sum_in bitasset_value) (\<lambda>sum_in.
        select_bitasset_loop value coins (sum_in, fmupd outpoint (output_of_filled out) selected))))"

definition select_bitasset_utxos ::
  "wallet_externs \<Rightarrow> BitAssetId \<Rightarrow> u64 \<Rightarrow> Wallet \<Rightarrow> (WalletError, u64 \<times> (OutPoint, TxOutput) fmap) result" where
  "select_bitasset_utxos X bitasset value w =
     rbind (select_bitasset_loop value
       (sorted_coins (wx_sort_order X) (\<lambda>out. map_option snd (filled_bitasset_value (out_content out)))
         (\<lambda>out. filled_bitasset (out_content out) = Some bitasset) (wa_utxos w)) (0, fmempty)) (\<lambda>(sum_in, selected).
     if sum_in < value then Err W_NotEnoughFunds else Ok (sum_in, selected))"

definition select_bitasset_control ::
  "wallet_externs \<Rightarrow> BitAssetId \<Rightarrow> Wallet \<Rightarrow> (WalletError, OutPoint \<times> TxOutput) result" where
  "select_bitasset_control X bitasset w =
     ok_or W_NotEnoughFunds (map_option (\<lambda>(outpoint, out). (outpoint, output_of_filled out))
       (find (\<lambda>(_, out). filled_bitasset (out_content out) = Some bitasset) (db_iter (wx_outpoint_key X) (wa_utxos w))))"

definition select_asset_utxos ::
  "wallet_externs \<Rightarrow> AssetId \<Rightarrow> u64 \<Rightarrow> Wallet \<Rightarrow> (WalletError, u64 \<times> (OutPoint, TxOutput) fmap) result" where
  "select_asset_utxos X asset amount w =
     (case asset of
        A_Bitcoin \<Rightarrow> select_bitcoins X amount w
      | A_BitAsset bitasset \<Rightarrow> select_bitasset_utxos X bitasset amount w
      | A_BitAssetControl bitasset \<Rightarrow>
          if amount = 1
          then rbind (select_bitasset_control X bitasset w) (\<lambda>(outpoint, out). Ok (1, fmupd outpoint out fmempty))
          else Err W_NotEnoughFunds)"

fun select_lp_loop ::
  "u64 \<Rightarrow> (OutPoint \<times> FilledOutput) list \<Rightarrow> u64 \<times> (OutPoint, FilledOutput) fmap
    \<Rightarrow> (WalletError, u64 \<times> (OutPoint, FilledOutput) fmap) result" where
  "select_lp_loop amount [] (sum_in, selected) = Ok (sum_in, selected)"
| "select_lp_loop amount ((outpoint, out) # coins) (sum_in, selected) =
     (if amount < sum_in then Ok (sum_in, selected)
      else rbind (expect (filled_lp_token_amount (out_content out))) (\<lambda>(_, _, lp_token_amount).
        rbind (add_word sum_in lp_token_amount) (\<lambda>sum_in.
        select_lp_loop amount coins (sum_in, fmupd outpoint out selected))))"

definition select_amm_lp_tokens ::
  "wallet_externs \<Rightarrow> AssetId \<Rightarrow> AssetId \<Rightarrow> u64 \<Rightarrow> Wallet \<Rightarrow> (WalletError, u64 \<times> (OutPoint, FilledOutput) fmap) result" where
  "select_amm_lp_tokens X asset0 asset1 amount w =
     rbind (select_lp_loop amount
       (sorted_coins (wx_sort_order X) (\<lambda>out. map_option (snd \<circ> snd) (filled_lp_token_amount (out_content out)))
         (\<lambda>out. case filled_lp_token_amount (out_content out) of
            Some (pool_asset0, pool_asset1, _) \<Rightarrow> pool_asset0 = asset0 \<and> pool_asset1 = asset1
          | None \<Rightarrow> False) (wa_utxos w)) (0, fmempty)) (\<lambda>(sum_in, selected).
     if sum_in < amount then Err W_NotEnoughFunds else Ok (sum_in, selected))"

definition select_dutch_auction_receipt ::
  "wallet_externs \<Rightarrow> DutchAuctionId \<Rightarrow> Wallet \<Rightarrow> (WalletError, OutPoint \<times> FilledOutput) result" where
  "select_dutch_auction_receipt X auction_id w =
     ok_or W_NotEnoughFunds
       (find (\<lambda>(_, out). filled_dutch_auction_receipt (out_content out) = Some auction_id)
         (db_iter (wx_outpoint_key X) (wa_utxos w)))"

section \<open>Building transactions\<close>

definition Output_new :: "Address \<Rightarrow> Content \<Rightarrow> TxOutput" where
  "Output_new address content = \<lparr>out_address = address, out_content = content, out_memo = []\<rparr>"

definition Transaction_new :: "OutPoint list \<Rightarrow> TxOutput list \<Rightarrow> Transaction" where
  "Transaction_new inputs outputs = \<lparr>tx_inputs = inputs, tx_outputs = outputs, tx_memo = [], tx_data = None\<rparr>"

text \<open>\<open>coins.into_keys()\<close>.\<close>

definition into_keys :: "wallet_externs \<Rightarrow> (OutPoint, 'o) fmap \<Rightarrow> OutPoint list" where
  "into_keys X coins = coins_in_order (wx_hash_order X) (fmdom coins)"

text \<open>An output to a new address, with no memo; and one only where the amount is not zero.\<close>

definition new_output :: "externs \<Rightarrow> wallet_externs \<Rightarrow> Content \<Rightarrow> TxOutput wallet_op" where
  "new_output E X content = wbind (get_new_address E X) (\<lambda>address. wreturn (Output_new address content))"

definition new_output_unless :: "externs \<Rightarrow> wallet_externs \<Rightarrow> bool \<Rightarrow> Content \<Rightarrow> TxOutput list wallet_op" where
  "new_output_unless E X skip content =
     (if skip then wreturn [] else wbind (new_output E X content) (\<lambda>out. wreturn [out]))"

fun asset_content :: "AssetId \<Rightarrow> u64 \<Rightarrow> Content" where
  "asset_content A_Bitcoin amount = C_Bitcoin amount"
| "asset_content (A_BitAsset _) amount = C_BitAsset amount"
| "asset_content (A_BitAssetControl _) amount = C_BitAssetControl"

definition create_regular_transaction :: "externs \<Rightarrow> wallet_externs \<Rightarrow> u64 \<Rightarrow> Transaction wallet_op" where
  "create_regular_transaction E X fee =
     wbind (wread (select_bitcoins X fee)) (\<lambda>(sum_in, coins).
     wbind (wread (\<lambda>_. sub_word sum_in fee)) (\<lambda>change.
     wbind (new_output E X (C_Bitcoin change)) (\<lambda>out.
     wreturn (Transaction_new (into_keys X coins) [out]))))"

definition create_withdrawal ::
  "externs \<Rightarrow> wallet_externs \<Rightarrow> main_address \<Rightarrow> u64 \<Rightarrow> u64 \<Rightarrow> u64 \<Rightarrow> Transaction wallet_op" where
  "create_withdrawal E X main_address value main_fee fee =
     wbind (wread (\<lambda>_. ok_or W_AmountOverflow (checked_add value fee))) (\<lambda>sum0.
     wbind (wread (\<lambda>_. ok_or W_AmountOverflow (checked_add sum0 main_fee))) (\<lambda>needed.
     wbind (wread (select_bitcoins X needed)) (\<lambda>(sum_in, coins).
     wbind (wread (\<lambda>_. rbind (sub_word sum_in value) (\<lambda>c. rbind (sub_word c fee) (\<lambda>c. sub_word c main_fee)))) (\<lambda>change.
     wbind (new_output E X (C_Withdrawal \<lparr>wc_value = value, wc_main_fee = main_fee, wc_main_address = main_address\<rparr>)) (\<lambda>out0.
     wbind (new_output E X (C_Bitcoin change)) (\<lambda>out1.
     wreturn (Transaction_new (into_keys X coins) [out0, out1])))))))"

definition create_transfer_to :: "externs \<Rightarrow> wallet_externs \<Rightarrow> TxOutput list \<Rightarrow> u64 \<Rightarrow> Transaction wallet_op" where
  "create_transfer_to E X outputs fee =
     wbind (wread (\<lambda>_. try_fold (\<lambda>out sum_in. ok_or W_AmountOverflow (checked_add sum_in (txout_value out))) outputs 0)) (\<lambda>value.
     wbind (wread (\<lambda>_. ok_or W_AmountOverflow (checked_add value fee))) (\<lambda>needed.
     wbind (wread (select_bitcoins X needed)) (\<lambda>(sum_in, coins).
     wbind (wread (\<lambda>_. rbind (sub_word sum_in value) (\<lambda>c. sub_word c fee))) (\<lambda>change.
     wbind (new_output_unless E X (change = 0) (C_Bitcoin change)) (\<lambda>change_outputs.
     wreturn (Transaction_new (into_keys X coins) (outputs @ change_outputs)))))))"

definition create_transfer ::
  "externs \<Rightarrow> wallet_externs \<Rightarrow> Address \<Rightarrow> u64 \<Rightarrow> u64 \<Rightarrow> u8 list option \<Rightarrow> Transaction wallet_op" where
  "create_transfer E X address value fee memo =
     create_transfer_to E X [\<lparr>out_address = address, out_content = C_Bitcoin value,
       out_memo = (case memo of Some m \<Rightarrow> m | None \<Rightarrow> [])\<rparr>] fee"

definition create_transfer_many :: "externs \<Rightarrow> wallet_externs \<Rightarrow> (Address, u64) fmap \<Rightarrow> u64 \<Rightarrow> Transaction wallet_op" where
  "create_transfer_many E X dests fee =
     (if dests = fmempty then wread (\<lambda>_. Err W_NoTransferDestination)
      else create_transfer_to E X (map (\<lambda>(address, value). Output_new address (C_Bitcoin value)) (db_iter id dests)) fee)"

definition create_bitasset_transfer ::
  "externs \<Rightarrow> wallet_externs \<Rightarrow> Address \<Rightarrow> BitAssetId \<Rightarrow> u64 \<Rightarrow> u64 \<Rightarrow> u8 list option \<Rightarrow> Transaction wallet_op" where
  "create_bitasset_transfer E X address asset_id amount fee memo =
     wbind (wread (select_bitcoins X fee)) (\<lambda>(total_sats, bitcoins).
     wbind (wread (\<lambda>_. sub_word total_sats fee)) (\<lambda>change_sats.
     wbind (wread (select_bitasset_utxos X asset_id amount)) (\<lambda>(total_bitasset, bitasset_utxos).
     wbind (wread (\<lambda>_. sub_word total_bitasset amount)) (\<lambda>bitasset_change.
     wbind (new_output_unless E X (change_sats = 0) (C_Bitcoin change_sats)) (\<lambda>outs0.
     wbind (new_output_unless E X (bitasset_change = 0) (C_BitAsset bitasset_change)) (\<lambda>outs1.
     wreturn (Transaction_new (into_keys X bitcoins @ into_keys X bitasset_utxos)
       (\<lparr>out_address = address, out_content = C_BitAsset amount,
         out_memo = (case memo of Some m \<Rightarrow> m | None \<Rightarrow> [])\<rparr> # outs0 @ outs1))))))))"

section \<open>Names\<close>

definition tx_is_regular :: "Transaction \<Rightarrow> bool" where
  "tx_is_regular tx = (tx_data tx = None)"

definition tx_reservation_outputs :: "Transaction \<Rightarrow> TxOutput list" where
  "tx_reservation_outputs tx = filter (\<lambda>out. content_is_reservation (out_content out)) (tx_outputs tx)"

text \<open>The address of the last output, if it belongs to the wallet, or a new one.\<close>

definition last_output_address :: "externs \<Rightarrow> wallet_externs \<Rightarrow> Transaction \<Rightarrow> Address wallet_op" where
  "last_output_address E X tx w =
     (if tx_outputs tx \<noteq> [] \<and> fmlookup (wa_address_to_index w) (out_address (last (tx_outputs tx))) \<noteq> None
      then (Ok (out_address (last (tx_outputs tx))), w)
      else get_new_address E X w)"

definition reservation_nonce :: "externs \<Rightarrow> SigningKey \<Rightarrow> hash \<Rightarrow> hash" where
  "reservation_nonce E signing_key name_hash = ext_keyed_hash E signing_key name_hash"

definition reserve_bitasset :: "externs \<Rightarrow> wallet_externs \<Rightarrow> Transaction \<Rightarrow> string \<Rightarrow> Transaction wallet_op" where
  "reserve_bitasset E X tx plain_name =
     wbind (wread (\<lambda>_. assert_that (tx_is_regular tx \<or> tx_is is_reservation tx))) (\<lambda>_.
     wbind (if tx_is is_reservation tx
         then wread (\<lambda>_. if tx_reservation_outputs tx = [] then Panic else Ok (out_address (last (tx_reservation_outputs tx))))
         else last_output_address E X tx) (\<lambda>reservation_addr.
     wbind (wread (get_tx_signing_key_for_addr E X reservation_addr)) (\<lambda>signing_key.
     let name_hash = wx_hash_name X plain_name;
         commitment = ext_keyed_hash E (reservation_nonce E signing_key name_hash) name_hash in
     wbind (wwrite (\<lambda>w. w\<lparr>wa_bitasset_reservations := fmupd commitment plain_name (wa_bitasset_reservations w),
         wa_known_bitassets := fmupd name_hash plain_name (wa_known_bitassets w)\<rparr>)) (\<lambda>_.
     wreturn (tx\<lparr>tx_outputs := (if tx_is_regular tx then tx_outputs tx @ [Output_new reservation_addr C_BitAssetReservation]
         else tx_outputs tx), tx_data := Some (BitAssetReservation commitment)\<rparr>)))))"

text \<open>The search for the reservation of a name among the coins of the wallet.\<close>

fun find_reservation ::
  "externs \<Rightarrow> wallet_externs \<Rightarrow> Wallet \<Rightarrow> hash \<Rightarrow> (OutPoint \<times> FilledOutput) list \<Rightarrow> (WalletError, (OutPoint \<times> hash) option) result" where
  "find_reservation E X w name_hash [] = Ok None"
| "find_reservation E X w name_hash ((outpoint, out) # coins) =
     (case filled_reservation_commitment (out_content out) of
        None \<Rightarrow> find_reservation E X w name_hash coins
      | Some committed \<Rightarrow>
          rbind (get_tx_signing_key_for_addr E X (out_address out) w) (\<lambda>signing_key.
          let nonce = reservation_nonce E signing_key name_hash in
          if ext_keyed_hash E nonce name_hash = committed then Ok (Some (outpoint, nonce))
          else find_reservation E X w name_hash coins))"

definition hash_rows :: "wallet_externs \<Rightarrow> (OutPoint, 'o) fmap \<Rightarrow> (OutPoint \<times> 'o) list" where
  "hash_rows X m = map (\<lambda>op. (op, the (fmlookup m op))) (into_keys X m)"

definition register_bitasset ::
  "externs \<Rightarrow> wallet_externs \<Rightarrow> Transaction \<Rightarrow> string \<Rightarrow> BitAssetData \<Rightarrow> u64 \<Rightarrow> Transaction wallet_op" where
  "register_bitasset E X tx plain_name bitasset_data initial_supply =
     wbind (wread (\<lambda>_. assert_that (tx_is_regular tx))) (\<lambda>_.
     wbind (last_output_address E X tx) (\<lambda>registration_addr.
     let name_hash = wx_hash_name X plain_name in
     wbind (wread (\<lambda>w. find_reservation E X w name_hash (hash_rows X (wa_utxos w)))) (\<lambda>found.
     wbind (wwrite (\<lambda>w. w\<lparr>wa_known_bitassets := fmupd name_hash plain_name (wa_known_bitassets w)\<rparr>)) (\<lambda>_.
     wbind (wread (\<lambda>_. ok_or (W_NoBitassetReservation plain_name) found)) (\<lambda>(reservation_outpoint, nonce).
     wreturn (tx\<lparr>tx_inputs := tx_inputs tx @ [reservation_outpoint],
       tx_outputs := tx_outputs tx
         @ (if initial_supply \<noteq> 0 then [Output_new registration_addr (C_BitAsset initial_supply)] else [])
         @ [Output_new registration_addr C_BitAssetControl],
       tx_data := Some (BitAssetRegistration name_hash nonce bitasset_data initial_supply)\<rparr>))))))"

section \<open>Pools and auctions\<close>

definition rotate_right :: "nat \<Rightarrow> 'a list \<Rightarrow> 'a list" where
  "rotate_right k xs = drop (length xs - k) xs @ take (length xs - k) xs"

text \<open>Select the coins for an asset, and the amount of change.\<close>

definition fund_asset :: "wallet_externs \<Rightarrow> AssetId \<Rightarrow> u64 \<Rightarrow> (u64 \<times> OutPoint list) wallet_op" where
  "fund_asset X asset amount =
     wbind (wread (select_asset_utxos X asset amount)) (\<lambda>(input_amount, utxos).
     wbind (wread (\<lambda>_. sub_word input_amount amount)) (\<lambda>change. wreturn (change, into_keys X utxos)))"

definition wallet_amm_mint ::
  "externs \<Rightarrow> wallet_externs \<Rightarrow> Transaction \<Rightarrow> AssetId \<Rightarrow> AssetId \<Rightarrow> u64 \<Rightarrow> u64 \<Rightarrow> u64 \<Rightarrow> Transaction wallet_op" where
  "wallet_amm_mint E X tx asset0 asset1 amount0 amount1 lp_token_mint =
     wbind (wread (\<lambda>_. assert_that (tx_is_regular tx))) (\<lambda>_.
     wbind (get_new_address E X) (\<lambda>lp_token_addr.
     wbind (wread (select_asset_utxos X asset0 amount0)) (\<lambda>(input_amount0, asset0_utxos).
     wbind (wread (select_asset_utxos X asset1 amount1)) (\<lambda>(input_amount1, asset1_utxos).
     wbind (wread (\<lambda>_. sub_word input_amount0 amount0)) (\<lambda>change_amount0.
     wbind (wread (\<lambda>_. sub_word input_amount1 amount1)) (\<lambda>change_amount1.
     wbind (new_output_unless E X (change_amount0 = 0) (asset_content asset0 change_amount0)) (\<lambda>change_output0.
     wbind (new_output_unless E X (change_amount1 = 0) (asset_content asset1 change_amount1)) (\<lambda>change_output1.
     let keys = into_keys X asset0_utxos @ into_keys X asset1_utxos in
     wreturn (tx\<lparr>tx_inputs := rotate_right (length keys) (tx_inputs tx @ keys),
       tx_outputs := tx_outputs tx @ change_output0 @ change_output1 @ [Output_new lp_token_addr (C_AmmLpToken lp_token_mint)],
       tx_data := Some (AmmMint amount0 amount1 lp_token_mint)\<rparr>)))))))))"

definition wallet_amm_burn ::
  "externs \<Rightarrow> wallet_externs \<Rightarrow> Transaction \<Rightarrow> AssetId \<Rightarrow> AssetId \<Rightarrow> u64 \<Rightarrow> u64 \<Rightarrow> u64 \<Rightarrow> Transaction wallet_op" where
  "wallet_amm_burn E X tx asset0 asset1 amount0 amount1 lp_token_burn =
     wbind (wread (\<lambda>_. assert_that (tx_is_regular tx))) (\<lambda>_.
     wbind (get_new_address E X) (\<lambda>asset0_addr.
     wbind (get_new_address E X) (\<lambda>asset1_addr.
     wbind (wread (select_amm_lp_tokens X asset0 asset1 lp_token_burn)) (\<lambda>(input_lp_token_amount, lp_token_utxos).
     wbind (wread (\<lambda>_. sub_word input_lp_token_amount lp_token_burn)) (\<lambda>lp_token_change_amount.
     wbind (new_output_unless E X (lp_token_change_amount = 0) (C_AmmLpToken lp_token_change_amount)) (\<lambda>change_output.
     let keys = into_keys X lp_token_utxos in
     wreturn (tx\<lparr>tx_inputs := rotate_right (length keys) (tx_inputs tx @ keys),
       tx_outputs := tx_outputs tx @ change_output
         @ [Output_new asset0_addr (asset_content asset0 amount0), Output_new asset1_addr (asset_content asset1 amount1)],
       tx_data := Some (AmmBurn amount0 amount1 lp_token_burn)\<rparr>)))))))"

definition wallet_amm_swap ::
  "externs \<Rightarrow> wallet_externs \<Rightarrow> Transaction \<Rightarrow> AssetId \<Rightarrow> AssetId \<Rightarrow> u64 \<Rightarrow> u64 \<Rightarrow> Transaction wallet_op" where
  "wallet_amm_swap E X tx asset_spend asset_receive amount_spend amount_receive =
     wbind (wread (\<lambda>_. assert_that (tx_is_regular tx))) (\<lambda>_.
     wbind (get_new_address E X) (\<lambda>receive_addr.
     wbind (fund_asset X asset_spend amount_spend) (\<lambda>(amount_change, keys).
     wbind (new_output_unless E X (amount_change = 0) (asset_content asset_spend amount_change)) (\<lambda>change_output.
     wreturn (tx\<lparr>tx_inputs := rotate_right (length keys) (tx_inputs tx @ keys),
       tx_outputs := tx_outputs tx @ change_output @ [Output_new receive_addr (asset_content asset_receive amount_receive)],
       tx_data := Some (AmmSwap amount_spend amount_receive asset_receive)\<rparr>)))))"

definition wallet_dutch_auction_create ::
  "externs \<Rightarrow> wallet_externs \<Rightarrow> Transaction \<Rightarrow> DutchAuctionParams \<Rightarrow> Transaction wallet_op" where
  "wallet_dutch_auction_create E X tx params =
     wbind (wread (\<lambda>_. assert_that (tx_is_regular tx))) (\<lambda>_.
     wbind (fund_asset X (dap_base_asset params) (dap_base_amount params)) (\<lambda>(change_amount, keys).
     wbind (new_output_unless E X (change_amount = 0) (asset_content (dap_base_asset params) change_amount)) (\<lambda>change_output.
     wbind (new_output E X C_DutchAuctionReceipt) (\<lambda>receipt.
     wreturn (tx\<lparr>tx_inputs := tx_inputs tx @ keys, tx_outputs := tx_outputs tx @ change_output @ [receipt],
       tx_data := Some (DutchAuctionCreate params)\<rparr>)))))"

definition wallet_dutch_auction_bid ::
  "externs \<Rightarrow> wallet_externs \<Rightarrow> Transaction \<Rightarrow> DutchAuctionId \<Rightarrow> AssetId \<Rightarrow> AssetId \<Rightarrow> u64 \<Rightarrow> u64 \<Rightarrow> Transaction wallet_op" where
  "wallet_dutch_auction_bid E X tx auction_id base_asset quote_asset bid_size receive_quantity =
     wbind (wread (\<lambda>_. assert_that (tx_is_regular tx))) (\<lambda>_.
     wbind (fund_asset X quote_asset bid_size) (\<lambda>(change_amount, keys).
     wbind (new_output_unless E X (change_amount = 0) (asset_content quote_asset change_amount)) (\<lambda>change_output.
     wbind (new_output E X (asset_content base_asset receive_quantity)) (\<lambda>base_output.
     wreturn (tx\<lparr>tx_inputs := rotate_right (length keys) (tx_inputs tx @ keys),
       tx_outputs := tx_outputs tx @ [base_output] @ change_output,
       tx_data := Some (DutchAuctionBid auction_id base_asset receive_quantity bid_size)\<rparr>)))))"

definition wallet_dutch_auction_collect ::
  "externs \<Rightarrow> wallet_externs \<Rightarrow> Transaction \<Rightarrow> DutchAuctionId \<Rightarrow> AssetId \<Rightarrow> AssetId \<Rightarrow> u64 \<Rightarrow> u64 \<Rightarrow> Transaction wallet_op" where
  "wallet_dutch_auction_collect E X tx auction_id base_asset quote_asset amount_base amount_quote =
     wbind (wread (\<lambda>_. assert_that (tx_is_regular tx))) (\<lambda>_.
     wbind (wread (select_dutch_auction_receipt X auction_id)) (\<lambda>(receipt_input, _).
     wbind (new_output_unless E X (amount_base = 0) (asset_content base_asset amount_base)) (\<lambda>base_output.
     wbind (new_output_unless E X (amount_quote = 0) (asset_content quote_asset amount_quote)) (\<lambda>quote_output.
     wreturn (tx\<lparr>tx_inputs := rotate_right 1 (tx_inputs tx @ [receipt_input]),
       tx_outputs := tx_outputs tx @ base_output @ quote_output,
       tx_data := Some (DutchAuctionCollect base_asset quote_asset amount_base amount_quote)\<rparr>)))))"

section \<open>Known coins\<close>

definition spend_utxo :: "OutPoint \<times> InPoint \<Rightarrow> Wallet \<Rightarrow> Wallet" where
  "spend_utxo item w =
     (let (outpoint, inpoint) = item in
      case fmlookup (wa_utxos w) outpoint of
        Some out \<Rightarrow> w\<lparr>wa_utxos := fmdrop outpoint (wa_utxos w),
          wa_stxos := fmupd outpoint \<lparr>so_output = out, so_inpoint = inpoint\<rparr> (wa_stxos w)\<rparr>
      | None \<Rightarrow>
          (case fmlookup (wa_unconfirmed_utxos w) outpoint of
             Some out \<Rightarrow> w\<lparr>wa_unconfirmed_utxos := fmdrop outpoint (wa_unconfirmed_utxos w),
               wa_spent_unconfirmed_utxos :=
                 fmupd outpoint \<lparr>sto_output = out, sto_inpoint = inpoint\<rparr> (wa_spent_unconfirmed_utxos w)\<rparr>
           | None \<Rightarrow> w))"

definition spend_utxos :: "(OutPoint \<times> InPoint) list \<Rightarrow> Wallet \<Rightarrow> Wallet" where
  "spend_utxos spent w = fold spend_utxo spent w"

definition put_unconfirmed_utxos :: "(OutPoint, TxOutput) fmap \<Rightarrow> Wallet \<Rightarrow> Wallet" where
  "put_unconfirmed_utxos utxos w = w\<lparr>wa_unconfirmed_utxos := wa_unconfirmed_utxos w ++\<^sub>f utxos\<rparr>"

definition put_utxos :: "(OutPoint, FilledOutput) fmap \<Rightarrow> Wallet \<Rightarrow> Wallet" where
  "put_utxos utxos w = w\<lparr>wa_utxos := wa_utxos w ++\<^sub>f utxos\<rparr>"

record Balance =
  bal_total :: u64
  bal_available :: u64

definition add_to_balance :: "FilledOutput \<Rightarrow> Balance \<Rightarrow> (WalletError, Balance) result" where
  "add_to_balance utxo b =
     rbind (ok_or W_AmountOverflow (checked_add (bal_total b) (utxo_value utxo))) (\<lambda>sum_in.
     if filled_is_withdrawal (out_content utxo) then Ok (b\<lparr>bal_total := sum_in\<rparr>)
     else rbind (ok_or W_AmountOverflow (checked_add (bal_available b) (utxo_value utxo))) (\<lambda>available.
       Ok \<lparr>bal_total = sum_in, bal_available = available\<rparr>))"

definition get_bitcoin_balance :: "wallet_externs \<Rightarrow> Wallet \<Rightarrow> (WalletError, Balance) result" where
  "get_bitcoin_balance X w =
     try_fold add_to_balance (map snd (db_iter (wx_outpoint_key X) (wa_utxos w))) \<lparr>bal_total = 0, bal_available = 0\<rparr>"

definition wallet_get_bitassets :: "Wallet \<Rightarrow> (OutPoint, FilledOutput) fmap" where
  "wallet_get_bitassets w = fmfilter (\<lambda>op. filled_is_bitasset (out_content (the (fmlookup (wa_utxos w) op)))) (wa_utxos w)"

definition get_spent_bitassets :: "Wallet \<Rightarrow> (OutPoint, SpentOutput) fmap" where
  "get_spent_bitassets w =
     fmfilter (\<lambda>op. filled_is_bitasset (out_content (so_output (the (fmlookup (wa_stxos w) op))))) (wa_stxos w)"

definition get_addresses :: "Wallet \<Rightarrow> Address set" where
  "get_addresses w = set (map snd (db_iter id (wa_index_to_address w)))"

definition try_get_last_address :: "Wallet \<Rightarrow> Address option" where
  "try_get_last_address w = map_option snd (db_last id (wa_index_to_address w))"

definition get_or_generate_last_address :: "externs \<Rightarrow> wallet_externs \<Rightarrow> Address wallet_op" where
  "get_or_generate_last_address E X w =
     (case try_get_last_address w of Some address \<Rightarrow> (Ok address, w) | None \<Rightarrow> get_new_address E X w)"

definition get_num_addresses :: "Wallet \<Rightarrow> u32" where
  "get_num_addresses w = of_nat (length (db_iter id (wa_index_to_address w)))"

section \<open>Signing\<close>

text \<open>The coin that an input spends, as the wallet knows it.\<close>

definition known_coin :: "Wallet \<Rightarrow> OutPoint \<Rightarrow> (WalletError, TxOutput) result" where
  "known_coin w input =
     (case fmlookup (wa_utxos w) input of
        Some utxo \<Rightarrow> Ok (output_of_filled utxo)
      | None \<Rightarrow> ok_or W_NoUtxo (fmlookup (wa_unconfirmed_utxos w) input))"

definition authorize_input ::
  "wallet_externs \<Rightarrow> Wallet \<Rightarrow> Transaction \<Rightarrow> OutPoint \<Rightarrow> Authorization list \<times> nat \<Rightarrow> (WalletError, Authorization list \<times> nat) result" where
  "authorize_input X w tx input s =
     (let (authorizations, rng) = s in
      rbind (known_coin w input) (\<lambda>spent_utxo.
      rbind (ok_or (W_NoIndex (out_address spent_utxo)) (fmlookup (wa_address_to_index w) (out_address spent_utxo))) (\<lambda>index.
      rbind (get_tx_signing_key X index w) (\<lambda>key.
      let (signature, rng) = wx_sign_tx X rng key tx in
      Ok (authorizations @ [\<lparr>au_verifying_key = wx_verifying_key X key, au_signature = signature\<rparr>], rng)))))"

definition wallet_authorize ::
  "wallet_externs \<Rightarrow> nat \<Rightarrow> Transaction \<Rightarrow> Wallet \<Rightarrow> (WalletError, AuthorizedTransaction) result" where
  "wallet_authorize X rng tx w =
     rbind (try_fold (authorize_input X w tx) (tx_inputs tx) ([], rng)) (\<lambda>(authorizations, _).
     Ok \<lparr>at_transaction = tx, at_authorizations = authorizations\<rparr>)"

definition sign_arbitrary_msg ::
  "wallet_externs \<Rightarrow> nat \<Rightarrow> VerifyingKey \<Rightarrow> string \<Rightarrow> Wallet \<Rightarrow> (WalletError, Signature) result" where
  "sign_arbitrary_msg X rng verifying_key msg w =
     rbind (get_message_signing_key_for_vk X verifying_key w) (\<lambda>key. Ok (fst (wx_sign_msg X rng key msg)))"

definition sign_arbitrary_msg_as_addr ::
  "externs \<Rightarrow> wallet_externs \<Rightarrow> nat \<Rightarrow> Address \<Rightarrow> string \<Rightarrow> Wallet \<Rightarrow> (WalletError, Authorization) result" where
  "sign_arbitrary_msg_as_addr E X rng address msg w =
     rbind (get_tx_signing_key_for_addr E X address w) (\<lambda>key.
     Ok \<lparr>au_verifying_key = wx_verifying_key X key, au_signature = fst (wx_sign_msg X rng key msg)\<rparr>)"

section \<open>Following the node\<close>

definition update_wallet ::
  "externs \<Rightarrow> wallet_externs \<Rightarrow> Node \<Rightarrow> Wallet \<Rightarrow> (NodeError, unit) result \<times> Wallet" where
  "update_wallet E X nd w =
     (let addresses = wx_address_order X (get_addresses w);
          confirmed_outpoints = into_keys X (wa_utxos w);
          unconfirmed_outpoints = into_keys X (wa_unconfirmed_utxos w);
          found = rbind (get_unconfirmed_utxos_by_addresses E (nd_mempool nd) addresses) (\<lambda>unconfirmed_utxos.
            rbind (get_utxos_by_addresses (nd_state nd) (set addresses)) (\<lambda>utxos. Ok (unconfirmed_utxos, utxos))) in
      case found of
        Ok (unconfirmed_utxos, utxos) \<Rightarrow>
          (Ok (), spend_utxos
             (map (\<lambda>(outpoint, stxo). (outpoint, so_inpoint stxo)) (get_spent_utxos (nd_state nd) confirmed_outpoints)
              @ get_unconfirmed_spent_utxos (nd_mempool nd) (confirmed_outpoints @ unconfirmed_outpoints))
             (put_unconfirmed_utxos unconfirmed_utxos (put_utxos utxos w)))
      | Err e \<Rightarrow> (Err e, w)
      | Panic \<Rightarrow> (Panic, w))"

end
