(* ===== verification/Wallet_Properties.thy ===== *)
theory Wallet_Properties
  imports Wallet_Tx Block_Value
begin

text \<open>
  What the wallet guarantees: selected coins are worth what the selection says and enough is
  found when there is enough; the transactions it builds and signs are accepted by the node
  and pay exactly the fee that was asked for; a reserved name can be registered. And three
  selections that go wrong.
\<close>

section \<open>Sequencing\<close>

lemma wbind_Ok_iff [result_simps]:
  "wbind m f w = (Ok y, w') \<longleftrightarrow> (\<exists>x w1. m w = (Ok x, w1) \<and> f x w1 = (Ok y, w'))"
  by (auto simp: wbind_def split: prod.splits result.splits)

lemma wread_iff [simp]: "wread f w = (r, w') \<longleftrightarrow> f w = r \<and> w' = w"
  by (auto simp: wread_def)

lemma wwrite_iff [simp]: "wwrite f w = (r, w') \<longleftrightarrow> r = Ok () \<and> w' = f w"
  by (auto simp: wwrite_def)

section \<open>Selecting coins\<close>

lemma coin_rows_distinct: "distinct (map fst (coin_rows co p m))"
  by (simp add: coin_rows_def comp_def)

lemma set_coin_rows: "set (coin_rows co p m) = {(op, out). fmlookup m op = Some out \<and> p out}"
  by (auto simp: coin_rows_def fmlookup_dom'_iff fmdom'_alt_def [symmetric] image_iff split: if_splits)

lemma sorted_coins_rows [simp]:
  "set (sorted_coins co key p m) = {(op, out). fmlookup m op = Some out \<and> p out}"
  "distinct (map fst (sorted_coins co key p m))"
proof -
  show "set (sorted_coins co key p m) = {(op, out). fmlookup m op = Some out \<and> p out}"
    by (simp add: sorted_coins_def set_coin_rows)
  have "mset (map fst (sorted_coins co key p m)) = mset (map fst (coin_rows co p m))"
    by (simp add: sorted_coins_def)
  then show "distinct (map fst (sorted_coins co key p m))"
    using coin_rows_distinct [of co p m] by (metis mset_eq_imp_distinct_iff)
qed

text \<open>The coins of a wallet that count as bitcoins: confirmed and unconfirmed ones.\<close>

definition bitcoin_coin :: "Wallet \<Rightarrow> OutPoint \<Rightarrow> TxOutput \<Rightarrow> bool" where
  "bitcoin_coin w op out \<longleftrightarrow>
     (\<exists>utxo. fmlookup (wa_utxos w) op = Some utxo \<and> filled_is_bitcoin (out_content utxo) \<and> out = output_of_filled utxo)
     \<or> fmlookup (wa_unconfirmed_utxos w) op = Some out \<and> content_is_bitcoin (out_content out)"

definition tables_disjoint :: "Wallet \<Rightarrow> bool" where
  "tables_disjoint w \<longleftrightarrow> fmdom' (wa_utxos w) \<inter> fmdom' (wa_unconfirmed_utxos w) = {}"

lemma set_bitcoin_coins: "set (bitcoin_coins X w) = {(op, out). bitcoin_coin w op out}"
  by (auto simp: bitcoin_coins_def bitcoin_coin_def split: if_splits)

lemma distinct_bitcoin_coins: "tables_disjoint w \<Longrightarrow> distinct (map fst (bitcoin_coins X w))"
  by (force simp: bitcoin_coins_def tables_disjoint_def fmlookup_dom'_iff split: if_splits)

lemma bitcoin_coin_content: "bitcoin_coin w op out \<Longrightarrow> \<exists>v. out_content out = C_Bitcoin v"
proof -
  assume a: "bitcoin_coin w op out"
  have "filled_is_bitcoin c \<Longrightarrow> \<exists>v. content_of_filled c = C_Bitcoin v" for c by (cases c) auto
  moreover have "content_is_bitcoin c \<Longrightarrow> \<exists>v. c = C_Bitcoin v" for c by (cases c) auto
  ultimately show ?thesis using a by (auto simp: bitcoin_coin_def output_of_filled_def)
qed

abbreviation coins_value :: "(OutPoint, TxOutput) fmap \<Rightarrow> nat" where
  "coins_value \<equiv> db_total (\<lambda>out. unat (txout_value out))"

lemma select_bitcoins_loop_sound:
  assumes "select_bitcoins_loop value coins (t, sel) = Ok (t', sel')"
    and "distinct (map fst coins)" and "fst ` set coins \<inter> fmdom' sel = {}" and "unat t = coins_value sel"
  shows "unat t' = coins_value sel'
    \<and> (\<forall>op out. fmlookup sel' op = Some out \<longrightarrow> fmlookup sel op = Some out \<or> (op, out) \<in> set coins)"
  using assms
proof (induction "value" coins "(t, sel)" arbitrary: t sel rule: select_bitcoins_loop.induct)
  case (2 val op out coins t sel)
  note IH = 2(1,2)
  show ?case
  proof (cases "content_is_withdrawal (out_content out) \<or> content_is_bitasset (out_content out)
      \<or> content_is_reservation (out_content out) \<or> txout_value out = 0")
    case True
    then show ?thesis using IH(1) "2.prems" by auto
  next
    case False
    show ?thesis
    proof (cases "val \<le> t")
      case True
      with False "2.prems" show ?thesis by simp
    next
      case less: False
      with False "2.prems"(1) obtain t1 where t1: "checked_add t (txout_value out) = Some t1"
        and run: "select_bitcoins_loop val coins (t1, fmupd op out sel) = Ok (t', sel')"
        by (auto simp: rbind_Ok_iff)
      have fresh: "fmlookup sel op = None" using "2.prems"(3) by (auto simp: fmlookup_dom'_iff)
      have "unat t1 = coins_value (fmupd op out sel)"
        using t1 "2.prems"(4) fresh by (simp add: checked_add_Some_iff db_total_put_fresh)
      then have "unat t' = coins_value sel'
          \<and> (\<forall>op' out'. fmlookup sel' op' = Some out' \<longrightarrow> fmlookup (fmupd op out sel) op' = Some out' \<or> (op', out') \<in> set coins)"
        using IH(2) [OF False less] t1 run "2.prems"(2,3) by auto
      then show ?thesis by (auto split: if_splits)
    qed
  qed
qed auto

lemma select_bitcoins_sound:
  assumes "select_bitcoins X value w = Ok (t, sel)" and "tables_disjoint w"
  shows "unat t = coins_value sel" and "value \<le> t" and "\<And>op out. fmlookup sel op = Some out \<Longrightarrow> bitcoin_coin w op out"
proof -
  from assms(1) have run: "select_bitcoins_loop value (bitcoin_coins X w) (0, fmempty) = Ok (t, sel)" and "value \<le> t"
    by (auto simp: select_bitcoins_def rbind_Ok_iff split: if_splits)
  then show "value \<le> t" by simp
  show "unat t = coins_value sel" "\<And>op out. fmlookup sel op = Some out \<Longrightarrow> bitcoin_coin w op out"
    using select_bitcoins_loop_sound [OF run distinct_bitcoin_coins [OF assms(2)]] by (auto simp: set_bitcoin_coins)
qed

text \<open>A table with one coin.\<close>

lemma coin_rows_single: "coin_rows co p (fmupd op out fmempty) = (if p out then [(op, out)] else [])"
proof -
  have d: "distinct (map fst (coin_rows co p (fmupd op out fmempty)))" by (rule coin_rows_distinct)
  have s: "set (coin_rows co p (fmupd op out fmempty)) = (if p out then {(op, out)} else {})"
    by (auto simp: set_coin_rows split: if_splits)
  show ?thesis
  proof (cases "coin_rows co p (fmupd op out fmempty)")
    case (Cons r rs)
    moreover have "rs = []" using d s Cons by (cases rs) (auto split: if_splits)
    ultimately show ?thesis using s by (auto split: if_splits)
  qed (use s in \<open>auto split: if_splits\<close>)
qed

lemma coins_in_order_empty: "coins_in_order co {||} = []"
  using set_coins_in_order [of co "{||}"] by (simp del: set_coins_in_order)

lemma fmfilter_single: "fmfilter p (fmupd k v fmempty) = (if p k then fmupd k v fmempty else fmempty)"
  by (rule fmap_ext) auto

lemma fmmap_single: "fmmap f (fmupd k v fmempty) = fmupd k (f v) fmempty"
  by (rule fmap_ext) auto

lemma bitcoin_coins_single:
  assumes "wa_utxos w = fmupd op \<lparr>out_address = a, out_content = F_Bitcoin v, out_memo = memo\<rparr> fmempty"
  shows "bitcoin_coins X w = (op, \<lparr>out_address = a, out_content = C_Bitcoin v, out_memo = memo\<rparr>)
    # sorted_coins (wx_sort_order X) txout_value (\<lambda>out. content_is_bitcoin (out_content out)) (wa_unconfirmed_utxos w)"
  unfolding bitcoin_coins_def assms fmfilter_single
  by (simp add: fmmap_single sorted_coins_def coin_rows_single output_of_filled_def)

text \<open>The loop gives up only with all coins counted, or when their sum does not fit.\<close>

lemma select_bitcoins_loop_complete:
  assumes "unat t + (\<Sum>(op, out)\<leftarrow>coins. unat (txout_value out)) < 2 ^ 64"
    and "\<forall>(op, out)\<in>set coins. \<exists>v. out_content out = C_Bitcoin v"
  shows "\<exists>t' sel'. select_bitcoins_loop value coins (t, sel) = Ok (t', sel')
    \<and> (value \<le> t' \<or> unat t' = unat t + (\<Sum>(op, out)\<leftarrow>coins. unat (txout_value out)))"
  using assms
proof (induction "value" coins "(t, sel)" arbitrary: t sel rule: select_bitcoins_loop.induct)
  case (2 val op out coins t sel)
  note IH = 2(1,2)
  obtain v where v: "out_content out = C_Bitcoin v" using "2.prems"(2) by auto
  show ?case
  proof (cases "v = 0 \<or> val \<le> t")
    case True
    then show ?thesis using IH(1) "2.prems" v by (cases "v = 0") auto
  next
    case False
    have "unat t + unat v < 2 ^ LENGTH(64)" using "2.prems"(1) v by simp
    then obtain t1 where t1: "checked_add t v = Some t1" using checked_add_None_iff [of t v] by (metis not_le option.exhaust)
    then have u: "unat t1 = unat t + unat v" by (simp only: checked_add_Some_iff)
    have "\<exists>t' sel'. select_bitcoins_loop val coins (t1, fmupd op out sel) = Ok (t', sel')
        \<and> (val \<le> t' \<or> unat t' = unat t1 + (\<Sum>(op, out)\<leftarrow>coins. unat (txout_value out)))"
      by (rule IH(2)) (use "2.prems" v False u in auto)
    then show ?thesis using False v t1 u by (auto simp: add.assoc)
  qed
qed simp

text \<open>
  the selection of bitcoins is exact and finds enough when there is enough. If no outpoint
  is in both tables of coins, then what \<open>select_bitcoins\<close> answers is the sum of the selected
  coins and covers the value, and every selected coin is a bitcoin coin of the wallet. If all
  these coins together cover the value and their sum fits 64 bits, the selection succeeds.
\<close>

lemma select_bitcoins_exact:
  assumes "tables_disjoint w"
  shows "(\<forall>t sel. select_bitcoins X amount w = Ok (t, sel) \<longrightarrow>
      unat t = coins_value sel \<and> amount \<le> t \<and> (\<forall>op out. fmlookup sel op = Some out \<longrightarrow> bitcoin_coin w op out))
    \<and> (unat amount \<le> (\<Sum>(op, out)\<leftarrow>bitcoin_coins X w. unat (txout_value out)) \<and>
       (\<Sum>(op, out)\<leftarrow>bitcoin_coins X w. unat (txout_value out)) < 2 ^ 64 \<longrightarrow>
       (\<exists>t sel. select_bitcoins X amount w = Ok (t, sel)))"
proof (intro conjI allI impI)
  fix t sel assume run: "select_bitcoins X amount w = Ok (t, sel)"
  note sound = select_bitcoins_sound [OF run assms]
  show "unat t = coins_value sel" "amount \<le> t" by (rule sound)+
  show "bitcoin_coin w op out" if "fmlookup sel op = Some out" for op out by (rule sound(3) [OF that])
next
  let ?s = "\<Sum>(op, out)\<leftarrow>bitcoin_coins X w. unat (txout_value out)"
  assume a: "unat amount \<le> ?s \<and> ?s < 2 ^ 64"
  obtain t sel where run: "select_bitcoins_loop amount (bitcoin_coins X w) (0, fmempty) = Ok (t, sel)"
    and t: "amount \<le> t \<or> unat t = ?s"
    using select_bitcoins_loop_complete [of 0 "bitcoin_coins X w" amount fmempty] a bitcoin_coin_content
    by (auto simp: set_bitcoin_coins)
  then have "amount \<le> t" using a by (auto simp: word_le_nat_alt)
  with run show "\<exists>t sel. select_bitcoins X amount w = Ok (t, sel)" by (simp add: select_bitcoins_def)
qed

section \<open>Transactions of bitcoins\<close>

text \<open>A transaction without payload that moves bitcoins only is valid if its fee is.\<close>

definition moves_bitcoins :: "FilledTransaction \<Rightarrow> bool" where
  "moves_bitcoins ft \<longleftrightarrow> tx_data (ft_transaction ft) = None
     \<and> (\<forall>out\<in>set (ft_spent_utxos ft). filled_is_bitcoin (out_content out))
     \<and> (\<forall>out\<in>set (tx_outputs (ft_transaction ft)). content_is_bitcoin (out_content out) \<or> content_is_withdrawal (out_content out))"

lemma is_bitcoin_not:
  "filled_is_bitcoin c \<Longrightarrow> \<not> filled_is_reservation c \<and> \<not> filled_is_bitasset c \<and> \<not> filled_is_bitasset_control c \<and> \<not> filled_is_withdrawal c"
  "content_is_bitcoin d \<or> content_is_withdrawal d \<Longrightarrow>
     \<not> content_is_reservation d \<and> \<not> content_is_bitasset d \<and> \<not> content_is_bitasset_control d"
  by (cases c; simp) (cases d; simp)

lemma moves_bitcoins_nothing_else:
  assumes "moves_bitcoins ft"
  shows "spent_reservations ft = []" "spent_bitassets ft = []" "spent_bitasset_controls ft = []"
    "reservation_outputs ft = []" "bitasset_outputs ft = []" "bitasset_control_outputs ft = []"
    "find (\<lambda>(_, out). filled_is_withdrawal (out_content out)) (spent_inputs ft) = None"
proof -
  have "(op, out) \<in> set (spent_inputs ft) \<Longrightarrow> filled_is_bitcoin (out_content out)" for op out
    using assms by (auto simp: moves_bitcoins_def spent_inputs_def dest: set_zip_rightD)
  then show "spent_reservations ft = []" "spent_bitassets ft = []" "spent_bitasset_controls ft = []"
    "find (\<lambda>(_, out). filled_is_withdrawal (out_content out)) (spent_inputs ft) = None"
    unfolding spent_reservations_def spent_bitassets_def spent_bitasset_controls_def filter_empty_conv find_None_iff
    by (auto dest!: is_bitcoin_not(1))
  show "reservation_outputs ft = []" "bitasset_outputs ft = []" "bitasset_control_outputs ft = []"
    using assms
    unfolding reservation_outputs_def bitasset_outputs_def bitasset_control_outputs_def filter_empty_conv moves_bitcoins_def
    by (auto dest!: is_bitcoin_not(2))
qed

lemma moves_bitcoins_valid:
  assumes "moves_bitcoins ft"
  shows "validate_filled_transaction E st ft = map_err E_BitcoinFee (bitcoin_fee ft)"
proof -
  have d: "tx_data (ft_transaction ft) = None" using assms by (simp add: moves_bitcoins_def)
  note no_assets = moves_bitcoins_nothing_else [OF assms]
  have "validate_reservations ft = Ok ()"
    by (simp add: no_assets validate_reservations_def ft_is_def tx_is_def d Let_def)
  moreover have "validate_bitassets E st ft = Ok ()"
    by (simp add: validate_bitassets_def ft_is_def tx_is_def d no_assets unique_spent_bitassets_def combined_values_def
        spent_values_def List.map_filter_def Let_def)
  ultimately show ?thesis by (cases "bitcoin_fee ft") (simp_all add: validate_filled_transaction_def no_assets)
qed

section \<open>Keys\<close>

text \<open>Every address of the wallet belongs to the key with its index.\<close>

definition keys_ok :: "externs \<Rightarrow> wallet_externs \<Rightarrow> Wallet \<Rightarrow> bool" where
  "keys_ok E X w \<longleftrightarrow> (\<forall>address index. fmlookup (wa_address_to_index w) address = Some index
     \<longrightarrow> (\<exists>key. get_tx_signing_key X index w = Ok key \<and> address = key_address E X key))"

text \<open>
  Building a transaction adds addresses: those that were known stay known, and the seed and
  the coins stay as they are.
\<close>

definition adds_addresses :: "externs \<Rightarrow> wallet_externs \<Rightarrow> Wallet \<Rightarrow> Wallet \<Rightarrow> bool" where
  "adds_addresses E X w w' \<longleftrightarrow>
     wa_seed w' = wa_seed w \<and> wa_utxos w' = wa_utxos w \<and> wa_unconfirmed_utxos w' = wa_unconfirmed_utxos w
     \<and> fmdom' (wa_address_to_index w) \<subseteq> fmdom' (wa_address_to_index w') \<and> (keys_ok E X w \<longrightarrow> keys_ok E X w')"

lemma adds_addresses_refl [simp]: "adds_addresses E X w w"
  by (simp add: adds_addresses_def)

lemma adds_addresses_trans: "adds_addresses E X w w1 \<Longrightarrow> adds_addresses E X w1 w2 \<Longrightarrow> adds_addresses E X w w2"
  by (auto simp: adds_addresses_def)

lemma get_tx_signing_key_seed: "wa_seed w' = wa_seed w \<Longrightarrow> get_tx_signing_key X index w' = get_tx_signing_key X index w"
  by (simp add: get_tx_signing_key_def derive_secret_def get_master_xpriv_def)

lemma get_new_address_cases:
  assumes "get_new_address E X w = (r, w')"
  obtains "w' = w"
  | index key where "r = Ok (key_address E X key)" "get_tx_signing_key X index w = Ok key"
      "w' = w\<lparr>wa_index_to_address := fmupd index (key_address E X key) (wa_index_to_address w),
         wa_address_to_index := fmupd (key_address E X key) index (wa_address_to_index w)\<rparr>"
proof (cases "rbind (next_key_index (wa_index_to_address w)) (\<lambda>index.
    rbind (get_tx_signing_key X index w) (\<lambda>key. Ok (index, key_address E X key)))")
  case (Ok p)
  then obtain index key where "p = (index, key_address E X key)" "get_tx_signing_key X index w = Ok key"
    by (auto simp: rbind_Ok_iff)
  with assms Ok show thesis by (intro that(2) [of key index]) (simp_all add: get_new_address_def)
next
  case (Err e)
  with assms have "w' = w" unfolding get_new_address_def Let_def by (simp only: result.case prod.inject)
  then show thesis by (rule that(1))
next
  case Panic
  with assms have "w' = w" unfolding get_new_address_def Let_def by (simp only: result.case prod.inject)
  then show thesis by (rule that(1))
qed

lemma get_new_address_adds:
  assumes "get_new_address E X w = (r, w')"
  shows "adds_addresses E X w w'"
  using assms
proof (cases rule: get_new_address_cases)
  case (2 index key)
  then have same: "get_tx_signing_key X i w' = get_tx_signing_key X i w" for i by (intro get_tx_signing_key_seed) simp
  have "keys_ok E X w'" if "keys_ok E X w"
    unfolding keys_ok_def same
  proof (intro allI impI)
    fix a i assume "fmlookup (wa_address_to_index w') a = Some i"
    then have a: "fmlookup (fmupd (key_address E X key) index (wa_address_to_index w)) a = Some i" by (simp add: 2(3))
    show "\<exists>k. get_tx_signing_key X i w = Ok k \<and> a = key_address E X k"
    proof (cases "a = key_address E X key")
      case True
      with a have "i = index" by simp
      with True 2(2) show ?thesis by blast
    next
      case False
      with a that show ?thesis unfolding keys_ok_def by simp
    qed
  qed
  moreover have "wa_seed w' = wa_seed w" "wa_utxos w' = wa_utxos w" "wa_unconfirmed_utxos w' = wa_unconfirmed_utxos w"
    "fmdom' (wa_address_to_index w) \<subseteq> fmdom' (wa_address_to_index w')"
    unfolding 2(3) by (simp_all add: subset_insertI)
  ultimately show ?thesis unfolding adds_addresses_def by blast
qed simp

lemma new_output_adds: "new_output E X content w = (Ok out, w') \<Longrightarrow> adds_addresses E X w w' \<and> out_content out = content"
  by (auto simp: new_output_def wbind_Ok_iff Output_new_def dest: get_new_address_adds)

lemma new_output_unless_adds:
  "new_output_unless E X skip content w = (Ok outs, w') \<Longrightarrow>
    adds_addresses E X w w' \<and> map out_content outs = (if skip then [] else [content])"
  by (auto simp: new_output_unless_def wbind_Ok_iff dest: new_output_adds split: if_splits)

section \<open>Signing\<close>

lemma authorize_inputs:
  assumes "keys_ok E X w"
    and "\<And>input. input \<in> set inputs \<Longrightarrow> \<exists>out. fmlookup (wa_utxos w) input = Some out \<and> out_address out \<in> fmdom' (wa_address_to_index w)"
    and "\<And>rng key tx. valid (wx_verifying_key X key, fst (wx_sign_tx X rng key tx), tx)"
  shows "\<exists>auths rng'. try_fold (authorize_input X w tx) inputs (acc, rng) = Ok (acc @ auths, rng')
    \<and> list_all2 (\<lambda>input a. auth_get_address E a = out_address (the (fmlookup (wa_utxos w) input))
        \<and> valid (au_verifying_key a, au_signature a, tx)) inputs auths"
  using assms(2)
proof (induction inputs arbitrary: acc rng)
  case (Cons input inputs)
  obtain out index where out: "fmlookup (wa_utxos w) input = Some out"
    and index: "fmlookup (wa_address_to_index w) (out_address out) = Some index"
    using Cons.prems [of input] by (auto simp: fmlookup_dom'_iff)
  obtain key where key: "get_tx_signing_key X index w = Ok key" "out_address out = key_address E X key"
    using assms(1) index by (auto simp: keys_ok_def)
  obtain signature rng1 where sign: "wx_sign_tx X rng key tx = (signature, rng1)" by fastforce
  let ?a = "\<lparr>au_verifying_key = wx_verifying_key X key, au_signature = signature\<rparr>"
  have step: "authorize_input X w tx input (acc, rng) = Ok (acc @ [?a], rng1)"
    by (simp add: authorize_input_def known_coin_def out output_of_filled_def index key(1) sign)
  have ok: "auth_get_address E ?a = out_address out" "valid (au_verifying_key ?a, au_signature ?a, tx)"
    using assms(3) [of key rng tx] by (simp_all add: auth_get_address_def key(2) key_address_def sign)
  obtain auths rng' where "try_fold (authorize_input X w tx) inputs (acc @ [?a], rng1) = Ok ((acc @ [?a]) @ auths, rng')"
    "list_all2 (\<lambda>input a. auth_get_address E a = out_address (the (fmlookup (wa_utxos w) input))
        \<and> valid (au_verifying_key a, au_signature a, tx)) inputs auths"
    using Cons.IH [of "acc @ [?a]" rng1] Cons.prems by auto
  then show ?case using step ok out by (intro exI [of _ "?a # auths"]) auto
qed simp

section \<open>Transactions the node accepts\<close>

text \<open>
  The wallet knows confirmed coins only, and they are coins of the node's state that pay
  addresses of the wallet.
\<close>

definition in_step :: "Wallet \<Rightarrow> State \<Rightarrow> bool" where
  "in_step w st \<longleftrightarrow> wa_unconfirmed_utxos w = fmempty
     \<and> (\<forall>op out. fmlookup (wa_utxos w) op = Some out \<longrightarrow>
          fmlookup (st_utxos st) (from_outpoint op) = Some out \<and> out_address out \<in> fmdom' (wa_address_to_index w))"

lemma in_step_disjoint: "in_step w st \<Longrightarrow> tables_disjoint w"
  by (simp add: in_step_def tables_disjoint_def)

lemma in_step_coin:
  assumes "in_step w st" and "bitcoin_coin w op out"
  obtains utxo where "fmlookup (wa_utxos w) op = Some utxo" "filled_is_bitcoin (out_content utxo)" "out = output_of_filled utxo"
    "fmlookup (st_utxos st) (from_outpoint op) = Some utxo" "out_address utxo \<in> fmdom' (wa_address_to_index w)"
  using assms by (auto simp: in_step_def bitcoin_coin_def)

lemma set_into_keys [simp]: "set (into_keys X m) = fmdom' m"
  by (simp add: into_keys_def fmdom'_alt_def)

lemma into_keys_total: "(\<Sum>op\<leftarrow>into_keys X m. f (the (fmlookup m op))) = db_total f m"
  unfolding db_total_def by (subst sum_list_distinct_conv_sum_set) (simp_all add: into_keys_def fmdom'_alt_def)

text \<open>What the coins of a selection are worth in the table of the wallet.\<close>

lemma selected_value:
  assumes "in_step w st" and "select_bitcoins X amount w = Ok (t, sel)"
  shows "(\<Sum>op\<leftarrow>into_keys X sel. unat (utxo_value (the (fmlookup (wa_utxos w) op)))) = unat t"
proof -
  note sound = select_bitcoins_sound [OF assms(2) in_step_disjoint [OF assms(1)]]
  have "unat (utxo_value (the (fmlookup (wa_utxos w) op))) = unat (txout_value (the (fmlookup sel op)))"
    if op: "op \<in> set (into_keys X sel)" for op
  proof -
    from op obtain out where out: "fmlookup sel op = Some out" by (auto simp: fmlookup_dom'_iff)
    with sound(3) in_step_coin [OF assms(1)] obtain utxo where "fmlookup (wa_utxos w) op = Some utxo" "out = output_of_filled utxo"
      by metis
    with out show ?thesis by (simp add: output_of_filled_def filled_get_bitcoin_value_def)
  qed
  then have "map (\<lambda>op. unat (utxo_value (the (fmlookup (wa_utxos w) op)))) (into_keys X sel)
      = map (\<lambda>op. unat (txout_value (the (fmlookup sel op)))) (into_keys X sel)" by (intro map_cong refl)
  then show ?thesis using into_keys_total [of "\<lambda>out. unat (txout_value out)" sel X] sound(1) by metis
qed

lemma selected_inputs:
  assumes "in_step w st" and "select_bitcoins X amount w = Ok (t, sel)" and "op \<in> set (into_keys X sel)"
  shows "\<exists>utxo. fmlookup (wa_utxos w) op = Some utxo \<and> fmlookup (st_utxos st) (from_outpoint op) = Some utxo
    \<and> filled_is_bitcoin (out_content utxo) \<and> out_address utxo \<in> fmdom' (wa_address_to_index w)"
proof -
  from assms(3) obtain out where "fmlookup sel op = Some out" by (auto simp: fmlookup_dom'_iff)
  then have "bitcoin_coin w op out" by (rule select_bitcoins_sound(3) [OF assms(2) in_step_disjoint [OF assms(1)]])
  then show ?thesis by (rule in_step_coin [OF assms(1)]) blast
qed

lemma bitcoin_fee_exact:
  fixes t :: u64
  assumes "(\<Sum>u\<leftarrow>ft_spent_utxos ft. unat (utxo_value u)) = unat t"
    and "(\<Sum>out\<leftarrow>tx_outputs (ft_transaction ft). unat (txout_value out)) + unat fee = unat t"
  shows "bitcoin_fee ft = Ok fee"
proof -
  have "fee \<le> t" using assms(2) by (simp add: word_le_nat_alt)
  then have "unat (t - fee) = unat t - unat fee" by (rule unat_sub)
  then have "bitcoin_value_out ft = Some (t - fee)"
    using assms(2) by (simp add: bitcoin_value_out_def checked_sum_Some comp_def)
  moreover have "spent_bitcoin_value ft = Some t"
    using assms(1) by (simp add: spent_bitcoin_value_def checked_sum_Some comp_def)
  moreover have "checked_sub t (t - fee) = Some fee"
    using \<open>fee \<le> t\<close> by (simp add: checked_sub_Some_iff unat_sub word_le_nat_alt)
  ultimately show ?thesis by (simp add: bitcoin_fee_def)
qed

lemma try_map_known:
  "(\<And>x. x \<in> set xs \<Longrightarrow> g x = Some (h x)) \<Longrightarrow> try_map (\<lambda>x. ok_or (e x) (g x)) xs = Ok (map h xs)"
  by (induction xs) auto

lemma funded_transaction_accepted:
  assumes step: "in_step w st" and sel: "select_bitcoins X amount w = Ok (t, sel)"
    and keys: "keys_ok E X w'" "wa_utxos w' = wa_utxos w" "fmdom' (wa_address_to_index w) \<subseteq> fmdom' (wa_address_to_index w')"
    and batch: "\<And>batch. batch \<noteq> [] \<Longrightarrow> ext_batch_verify E batch = list_all valid batch"
    and sign: "\<And>rng key tx. valid (wx_verifying_key X key, fst (wx_sign_tx X rng key tx), tx)"
    and outs: "\<forall>out\<in>set outs. content_is_bitcoin (out_content out) \<or> content_is_withdrawal (out_content out)"
    and fee: "(\<Sum>out\<leftarrow>outs. unat (txout_value out)) + unat fee = unat t"
  shows "\<exists>at. wallet_authorize X rng (Transaction_new (into_keys X sel) outs) w' = Ok at \<and> validate_transaction E st at = Ok fee"
proof -
  let ?tx = "Transaction_new (into_keys X sel) outs" and ?coin = "\<lambda>op. the (fmlookup (wa_utxos w) op)"
  let ?ft = "\<lparr>ft_transaction = ?tx, ft_spent_utxos = map ?coin (into_keys X sel)\<rparr>"
  note input = selected_inputs [OF step sel]
  have coin: "op \<in> set (into_keys X sel) \<Longrightarrow> fmlookup (st_utxos st) (from_outpoint op) = Some (?coin op)" for op
    using input [of op] by fastforce
  have "try_map (\<lambda>op. ok_or (E_NoUtxo op) (fmlookup (st_utxos st) (from_outpoint op))) (into_keys X sel)
      = Ok (map ?coin (into_keys X sel))" by (rule try_map_known) (rule coin)
  then have fill: "fill_transaction st ?tx = Ok ?ft" by (simp add: fill_transaction_def Transaction_new_def)
  have own: "\<exists>out. fmlookup (wa_utxos w') op = Some out \<and> out_address out \<in> fmdom' (wa_address_to_index w')"
    if "op \<in> set (into_keys X sel)" for op
    using input [OF that] keys(3) unfolding keys(2) by blast
  from authorize_inputs [of E X w' "into_keys X sel" valid ?tx "[]" rng, OF keys(1) own sign]
  obtain auths rng' where auths: "try_fold (authorize_input X w' ?tx) (into_keys X sel) ([], rng) = Ok (auths, rng')"
    and a2: "list_all2 (\<lambda>op a. auth_get_address E a = out_address (?coin op) \<and> valid (au_verifying_key a, au_signature a, ?tx))
      (into_keys X sel) auths"
    unfolding keys(2) append_Nil by blast
  let ?at = "\<lparr>at_transaction = ?tx, at_authorizations = auths\<rparr>"
  have authorized: "wallet_authorize X rng ?tx w' = Ok ?at" using auths by (simp add: wallet_authorize_def Transaction_new_def)
  have addr: "check_addresses E auths (map ?coin (into_keys X sel)) = Ok ()"
    using a2 by (auto simp: check_addresses_def list_all_iff in_set_zip list_all2_conv_all_nth)
  have sigs: "list_all valid (map (\<lambda>a. (au_verifying_key a, au_signature a, ?tx)) auths)"
    using a2 by (auto simp: list_all_iff in_set_conv_nth list_all2_conv_all_nth)
  have verify: "verify_authorized_transaction E ?at = Ok ()"
    using batch sigs list_all2_lengthD [OF a2] by (simp add: verify_authorized_transaction_def Transaction_new_def)
  have "filled_is_bitcoin (out_content (?coin op))" if "op \<in> set (into_keys X sel)" for op
    using input [OF that] by auto
  then have moves: "moves_bitcoins ?ft" using outs by (auto simp: moves_bitcoins_def Transaction_new_def)
  have "bitcoin_fee ?ft = Ok fee"
    by (rule bitcoin_fee_exact [of _ t]) (use selected_value [OF step sel] fee in \<open>simp_all add: Transaction_new_def comp_def\<close>)
  then show ?thesis using authorized fill addr verify moves_bitcoins_valid [OF moves] by (auto simp: validate_transaction_def)
qed

text \<open>
  A transaction whose inputs are a selection of coins and whose outputs move bitcoins and
  leave exactly the fee.
\<close>

definition funded :: "externs \<Rightarrow> wallet_externs \<Rightarrow> u64 \<Rightarrow> Wallet \<Rightarrow> Transaction \<Rightarrow> Wallet \<Rightarrow> bool" where
  "funded E X fee w tx w' \<longleftrightarrow> (\<exists>amount t sel outs. select_bitcoins X amount w = Ok (t, sel)
     \<and> tx = Transaction_new (into_keys X sel) outs \<and> adds_addresses E X w w'
     \<and> (\<forall>out\<in>set outs. content_is_bitcoin (out_content out) \<or> content_is_withdrawal (out_content out))
     \<and> (\<Sum>out\<leftarrow>outs. unat (txout_value out)) + unat fee = unat t)"

lemma fundedI:
  "select_bitcoins X amount w = Ok (t, sel) \<Longrightarrow> adds_addresses E X w w' \<Longrightarrow>
   (\<forall>out\<in>set outs. content_is_bitcoin (out_content out) \<or> content_is_withdrawal (out_content out)) \<Longrightarrow>
   (\<Sum>out\<leftarrow>outs. unat (txout_value out)) + unat fee = unat t \<Longrightarrow>
   funded E X fee w (Transaction_new (into_keys X sel) outs) w'"
  unfolding funded_def by blast

lemma try_fold_value:
  "try_fold (\<lambda>out sum_out. ok_or W_AmountOverflow (checked_add sum_out (txout_value out))) outs v0 = Ok v \<Longrightarrow>
   unat v = unat v0 + (\<Sum>out\<leftarrow>outs. unat (txout_value out))"
  by (induction outs arbitrary: v0) (force simp: rbind_Ok_iff checked_add_Some_iff)+

lemma create_transfer_to_funded:
  assumes "create_transfer_to E X outputs fee w = (Ok tx, w')"
    and "\<forall>out\<in>set outputs. content_is_bitcoin (out_content out)"
  shows "funded E X fee w tx w'"
proof -
  from assms(1) obtain v needed t sel change outs where
    v: "try_fold (\<lambda>out sum_out. ok_or W_AmountOverflow (checked_add sum_out (txout_value out))) outputs 0 = Ok v"
    and sel: "select_bitcoins X needed w = Ok (t, sel)"
    and change: "unat t = unat change + unat v + unat fee"
    and outs: "new_output_unless E X (change = 0) (C_Bitcoin change) w = (Ok outs, w')"
    and tx: "tx = Transaction_new (into_keys X sel) (outputs @ outs)"
    by (auto simp: create_transfer_to_def wbind_Ok_iff rbind_Ok_iff sub_word_Ok_iff)
  note new = new_output_unless_adds [OF outs]
  have c: "(\<Sum>out\<leftarrow>outs. unat (txout_value out)) = unat change"
    using new by (cases "change = 0") (auto simp: map_eq_Cons_conv)
  show ?thesis unfolding tx
  proof (rule fundedI [OF sel])
    show "\<forall>out\<in>set (outputs @ outs). content_is_bitcoin (out_content out) \<or> content_is_withdrawal (out_content out)"
      using assms(2) new by (cases "change = 0") (auto simp: map_eq_Cons_conv)
  qed (use new change c try_fold_value [OF v] in simp_all)
qed

lemma create_regular_transaction_funded:
  assumes "create_regular_transaction E X fee w = (Ok tx, w')"
  shows "funded E X fee w tx w'"
proof -
  from assms obtain t sel change out where sel: "select_bitcoins X fee w = Ok (t, sel)"
    and change: "unat t = unat change + unat fee" and out: "new_output E X (C_Bitcoin change) w = (Ok out, w')"
    and tx: "tx = Transaction_new (into_keys X sel) [out]"
    by (auto simp: create_regular_transaction_def wbind_Ok_iff sub_word_Ok_iff)
  show ?thesis unfolding tx by (rule fundedI [OF sel]) (use new_output_adds [OF out] change in simp_all)
qed

lemma create_withdrawal_funded:
  assumes "create_withdrawal E X main_address v main_fee fee w = (Ok tx, w')"
  shows "funded E X fee w tx w'"
proof -
  let ?wd = "\<lparr>wc_value = v, wc_main_fee = main_fee, wc_main_address = main_address\<rparr>"
  from assms obtain needed t sel change out0 w1 out1 where add: "unat needed = unat v + unat fee + unat main_fee"
    and sel: "select_bitcoins X needed w = Ok (t, sel)" and change: "unat t = unat change + unat main_fee + unat fee + unat v"
    and out0: "new_output E X (C_Withdrawal ?wd) w = (Ok out0, w1)" and out1: "new_output E X (C_Bitcoin change) w1 = (Ok out1, w')"
    and tx: "tx = Transaction_new (into_keys X sel) [out0, out1]"
    by (clarsimp simp: create_withdrawal_def wbind_Ok_iff rbind_Ok_iff checked_add_Some_iff)
  have "checked_add v main_fee \<noteq> None" using add unat_less_pow [of needed] checked_add_None_iff [of v main_fee] by simp
  then have "unat (withdrawal_get_bitcoin_value ?wd) = unat v + unat main_fee"
    using withdrawal_value_covers_fee [of ?wd] by simp
  with change show ?thesis
    unfolding tx
    by (intro fundedI [OF sel]) (use new_output_adds [OF out0] new_output_adds [OF out1] in \<open>auto intro: adds_addresses_trans\<close>)
qed

section \<open>A wallet with one coin\<close>

definition demo_wallet_externs :: wallet_externs where
  "demo_wallet_externs =
     \<lparr>wx_new_master = Some, wx_derive_priv = (\<lambda>_ path. Some (map (case_ChildNumber ucast ucast) path)),
      wx_secret_bytes = (\<lambda>bytes. 2 + ucast (last bytes)), wx_scalar = id, wx_verifying_key = id,
      wx_sign_tx = (\<lambda>rng key _. (ucast key, Suc rng)), wx_sign_msg = (\<lambda>rng key _. (ucast key, Suc rng)),
      wx_encryption_pubkey = id, wx_decrypt = (\<lambda>_. Some), wx_hash_name = (\<lambda>name. of_nat (length name)),
      wx_seed_of_mnemonic = (\<lambda>_. Some []), wx_outpoint_key = (\<lambda>op. from_outpoint op),
      wx_hash_order = coins_ascending, wx_address_order = sorted_list_of_set, wx_sort_order = coins_ascending\<rparr>"

definition demo_wallet :: Wallet where
  "demo_wallet = Wallet_new\<lparr>wa_seed := Some [], wa_index_to_address := fmupd 0 2 fmempty,
     wa_address_to_index := fmupd 2 0 fmempty,
     wa_utxos := fmupd (OpDeposit 1 0) \<lparr>out_address = 2, out_content = F_Bitcoin 10, out_memo = []\<rparr> fmempty\<rparr>"

lemma demo_wallet_coins [simp]: "wa_unconfirmed_utxos demo_wallet = fmempty"
  "wa_utxos demo_wallet = fmupd (OpDeposit 1 0) \<lparr>out_address = 2, out_content = F_Bitcoin 10, out_memo = []\<rparr> fmempty"
  by (simp_all add: demo_wallet_def Wallet_new_def)

lemma demo_bitcoin_coins [simp]:
  "bitcoin_coins X demo_wallet = [(OpDeposit 1 0, \<lparr>out_address = 2, out_content = C_Bitcoin 10, out_memo = []\<rparr>)]"
  by (simp add: bitcoin_coins_single sorted_coins_def coin_rows_def coins_in_order_empty)

lemma demo_in_step: "in_step demo_wallet demo_state"
  by (simp add: in_step_def demo_state_def) (simp add: demo_wallet_def)

lemma demo_signing_key:
  "wa_seed w = Some [] \<Longrightarrow> index = 0 \<or> index = 1 \<Longrightarrow> get_tx_signing_key demo_wallet_externs index w = Ok (2 + ucast index)"
  by (auto simp: get_tx_signing_key_def derive_secret_def get_master_xpriv_def demo_wallet_externs_def
      signing_key_from_secret_bytes_def)

lemma demo_keys_ok: "keys_ok demo_externs demo_wallet_externs demo_wallet"
  using demo_signing_key [of demo_wallet 0]
  by (simp add: keys_ok_def demo_wallet_def key_address_def demo_externs_def demo_wallet_externs_def)

lemma demo_select: "0 < amount \<Longrightarrow> amount \<le> 10 \<Longrightarrow> select_bitcoins X amount demo_wallet
    = Ok (10, fmupd (OpDeposit 1 0) \<lparr>out_address = 2, out_content = C_Bitcoin 10, out_memo = []\<rparr> fmempty)"
  by (auto simp: select_bitcoins_def checked_add_def)

section \<open>Accepted transactions\<close>

lemma payments_funded:
  assumes "create_transfer E X address amount fee memo w = (Ok tx, w')
      \<or> create_transfer_many E X dests fee w = (Ok tx, w')
      \<or> create_withdrawal E X main_address amount main_fee fee w = (Ok tx, w')
      \<or> create_regular_transaction E X fee w = (Ok tx, w')"
  shows "funded E X fee w tx w'"
  using assms
proof (elim disjE)
  assume "create_transfer_many E X dests fee w = (Ok tx, w')"
  then have "create_transfer_to E X (map (\<lambda>(address, v). Output_new address (C_Bitcoin v)) (db_iter id dests)) fee w = (Ok tx, w')"
    by (simp add: create_transfer_many_def split: if_splits)
  then show ?thesis by (rule create_transfer_to_funded) (auto simp: Output_new_def)
next
  assume "create_transfer E X address amount fee memo w = (Ok tx, w')"
  then show ?thesis unfolding create_transfer_def by (rule create_transfer_to_funded) simp
qed (rule create_withdrawal_funded create_regular_transaction_funded, assumption)+

lemma funded_accepted:
  assumes "in_step w st" and "keys_ok E X w"
    and "\<forall>batch. batch \<noteq> [] \<longrightarrow> ext_batch_verify E batch = list_all valid batch"
    and "\<forall>rng key tx. valid (wx_verifying_key X key, fst (wx_sign_tx X rng key tx), tx)"
    and "funded E X fee w tx w'"
  shows "\<exists>at. wallet_authorize X rng tx w' = Ok at \<and> validate_transaction E st at = Ok fee"
proof -
  from assms(5) obtain n t sel outs where "select_bitcoins X n w = Ok (t, sel)" "tx = Transaction_new (into_keys X sel) outs"
    "adds_addresses E X w w'" "\<forall>out\<in>set outs. content_is_bitcoin (out_content out) \<or> content_is_withdrawal (out_content out)"
    "(\<Sum>out\<leftarrow>outs. unat (txout_value out)) + unat fee = unat t"
    unfolding funded_def by blast
  with assms(1-4) show ?thesis
    using funded_transaction_accepted [of w st X n t sel E w' valid outs fee rng] by (simp add: adds_addresses_def)
qed

text \<open>
  C18: the node accepts what the wallet builds. If the wallet is in step with the state of the
  node and its addresses belong to its keys, then a transfer, a transfer to many addresses, a
  withdrawal or a plain transaction that it builds can be signed, and the signed transaction
  is valid in that state and pays exactly the requested fee. The signature scheme accepts the
  signatures that it makes.
\<close>

theorem wallet_transactions_accepted:
  assumes "in_step w st" and "keys_ok E X w"
    and "\<forall>batch. batch \<noteq> [] \<longrightarrow> ext_batch_verify E batch = list_all valid batch"
    and "\<forall>rng key tx. valid (wx_verifying_key X key, fst (wx_sign_tx X rng key tx), tx)"
    and "create_transfer E X address amount fee memo w = (Ok tx, w')
      \<or> create_transfer_many E X dests fee w = (Ok tx, w')
      \<or> create_withdrawal E X main_address amount main_fee fee w = (Ok tx, w')
      \<or> create_regular_transaction E X fee w = (Ok tx, w')"
  shows "\<exists>at. wallet_authorize X rng tx w' = Ok at \<and> validate_transaction E st at = Ok fee"
  by (rule funded_accepted [OF assms(1-4) payments_funded [OF assms(5)]])

lemma demo_new_address:
  "\<exists>w'. get_new_address demo_externs demo_wallet_externs demo_wallet = (Ok 3, w')"
proof -
  have "wa_index_to_address demo_wallet = fmupd 0 2 fmempty" "wa_seed demo_wallet = Some []" by (simp_all add: demo_wallet_def)
  moreover have "next_key_index (fmupd 0 2 fmempty :: (u32, Address) fmap) = (Ok 1 :: (WalletError, u32) result)"
    by (simp add: next_key_index_def db_last_def db_iter_def db_keys_def sorted_list_of_fset.rep_eq add_word_def checked_add_def)
  ultimately show ?thesis
    using demo_signing_key [of demo_wallet 1]
    by (simp add: get_new_address_def key_address_def demo_externs_def demo_wallet_externs_def)
qed

theorem wallet_transactions_accepted_witness:
  "\<exists>tx w' at. create_transfer demo_externs demo_wallet_externs 7 5 1 None demo_wallet = (Ok tx, w')
    \<and> wallet_authorize demo_wallet_externs 0 tx w' = Ok at \<and> validate_transaction demo_externs demo_state at = Ok 1"
proof -
  obtain w' where w': "get_new_address demo_externs demo_wallet_externs demo_wallet = (Ok 3, w')" using demo_new_address by blast
  have "\<exists>tx. create_transfer demo_externs demo_wallet_externs 7 5 1 None demo_wallet = (Ok tx, w')"
    by (simp add: create_transfer_def create_transfer_to_def wbind_def wread_def demo_select checked_add_def sub_word_def checked_sub_def
        new_output_unless_def new_output_def w')
  then obtain tx where tx: "create_transfer demo_externs demo_wallet_externs 7 5 1 None demo_wallet = (Ok tx, w')" by blast
  have "\<forall>batch. batch \<noteq> [] \<longrightarrow> ext_batch_verify demo_externs batch
      = list_all (\<lambda>(key, signature, _). signature = ucast key) batch"
    by (simp add: demo_externs_def)
  moreover have "\<forall>rng key tx. (case (wx_verifying_key demo_wallet_externs key, fst (wx_sign_tx demo_wallet_externs rng key tx), tx)
      of (key, signature, _) \<Rightarrow> signature = ucast key)" by (simp add: demo_wallet_externs_def)
  ultimately show ?thesis
    using wallet_transactions_accepted [OF demo_in_step demo_keys_ok _ _ disjI1 [OF tx], of "\<lambda>(key, signature, _). signature = ucast key" 0] tx
    by blast
qed

theorem select_bitcoins_exact_witness:
  "tables_disjoint demo_wallet \<and> (\<exists>t sel. select_bitcoins demo_wallet_externs 6 demo_wallet = Ok (t, sel) \<and> unat t = coins_value sel)"
proof -
  have d: "tables_disjoint demo_wallet" by (simp add: tables_disjoint_def)
  note all = select_bitcoins_exact [OF d, of demo_wallet_externs 6]
  then obtain t sel where "select_bitcoins demo_wallet_externs 6 demo_wallet = Ok (t, sel)" by auto
  with d all show ?thesis by blast
qed

section \<open>Names\<close>

text \<open>All coins that the wallet holds are at its own addresses.\<close>

definition owns_coins :: "Wallet \<Rightarrow> bool" where
  "owns_coins w \<longleftrightarrow> (\<forall>op out. fmlookup (wa_utxos w) op = Some out \<longrightarrow> out_address out \<in> fmdom' (wa_address_to_index w))"

lemma signing_key_for_own_address:
  assumes "keys_ok E X w" and "a \<in> fmdom' (wa_address_to_index w)"
  obtains key where "get_tx_signing_key_for_addr E X a w = Ok key"
proof -
  from assms(2) obtain i where i: "fmlookup (wa_address_to_index w) a = Some i" by (auto simp: fmlookup_dom'_iff)
  with assms(1) obtain key where "get_tx_signing_key X i w = Ok key" "key_address E X key = a" by (auto simp: keys_ok_def)
  then show thesis by (intro that [of key]) (simp add: get_tx_signing_key_for_addr_def i)
qed

lemma signing_key_for_addr_cong:
  assumes "wa_seed w' = wa_seed w" and "fmlookup (wa_address_to_index w') a = fmlookup (wa_address_to_index w) a"
  shows "get_tx_signing_key_for_addr E X a w' = get_tx_signing_key_for_addr E X a w"
proof -
  have "get_tx_signing_key X i w' = get_tx_signing_key X i w" for i by (rule get_tx_signing_key_seed) (rule assms(1))
  then show ?thesis by (simp add: get_tx_signing_key_for_addr_def assms(2))
qed

text \<open>The search finds a reservation of the name if there is one that was made with the key of its address.\<close>

lemma find_reservation_found:
  assumes "\<forall>(op, out)\<in>set coins. \<exists>key. get_tx_signing_key_for_addr E X (out_address out) w = Ok key"
    and "\<exists>(op, out)\<in>set coins. \<exists>key. get_tx_signing_key_for_addr E X (out_address out) w = Ok key \<and>
      filled_reservation_commitment (out_content out) = Some (ext_keyed_hash E (reservation_nonce E key name_hash) name_hash)"
  shows "\<exists>op nonce out. find_reservation E X w name_hash coins = Ok (Some (op, nonce)) \<and> (op, out) \<in> set coins
    \<and> filled_reservation_commitment (out_content out) = Some (ext_keyed_hash E nonce name_hash)"
  using assms
proof (induction coins)
  case (Cons c coins)
  obtain op out where c: "c = (op, out)" by fastforce
  obtain key where key: "get_tx_signing_key_for_addr E X (out_address out) w = Ok key" using Cons.prems(1) c by auto
  let ?nonce = "reservation_nonce E key name_hash"
  show ?case
  proof (cases "filled_reservation_commitment (out_content out) = Some (ext_keyed_hash E ?nonce name_hash)")
    case True
    then show ?thesis using key c by (intro exI [of _ op] exI [of _ ?nonce] exI [of _ out]) simp
  next
    case False
    then have skip: "find_reservation E X w name_hash (c # coins) = find_reservation E X w name_hash coins"
      using key c by (cases "filled_reservation_commitment (out_content out)") auto
    have "\<exists>op nonce out. find_reservation E X w name_hash coins = Ok (Some (op, nonce)) \<and> (op, out) \<in> set coins
        \<and> filled_reservation_commitment (out_content out) = Some (ext_keyed_hash E nonce name_hash)"
      by (rule Cons.IH) (use Cons.prems False key c in auto)
    then show ?thesis unfolding skip by auto
  qed
qed simp

lemma set_hash_rows: "set (hash_rows X m) = {(op, out). fmlookup m op = Some out}"
  by (auto simp: hash_rows_def fmlookup_dom'_iff image_iff)

lemma last_output_address_adds:
  "last_output_address E X tx w = (r, w') \<Longrightarrow> adds_addresses E X w w'"
  by (auto simp: last_output_address_def split: if_splits dest: get_new_address_adds)

lemma register_finds_reservation:
  assumes "keys_ok E X w" and "owns_coins w" and "tx_is_regular tx"
    and "last_output_address E X tx w = (Ok a, w1)"
    and "fmlookup (wa_utxos w) op = Some out" and "get_tx_signing_key_for_addr E X (out_address out) w1 = Ok key"
    and "filled_reservation_commitment (out_content out) = Some (ext_keyed_hash E (reservation_nonce E key (wx_hash_name X name)) (wx_hash_name X name))"
  shows "\<exists>tx' w' spent nonce out'. register_bitasset E X tx name d supply w = (Ok tx', w') \<and> fmlookup (wa_utxos w) spent = Some out'
    \<and> tx_inputs tx' = tx_inputs tx @ [spent] \<and> tx_data tx' = Some (BitAssetRegistration (wx_hash_name X name) nonce d supply)
    \<and> filled_reservation_commitment (out_content out') = Some (ext_keyed_hash E nonce (wx_hash_name X name))"
proof -
  have add: "wa_utxos w1 = wa_utxos w" "keys_ok E X w1" "fmdom' (wa_address_to_index w) \<subseteq> fmdom' (wa_address_to_index w1)"
    using last_output_address_adds [OF assms(4)] assms(1) by (simp_all add: adds_addresses_def)
  have own: "\<exists>key. get_tx_signing_key_for_addr E X (out_address out) w1 = Ok key"
    if "fmlookup (wa_utxos w) op = Some out" for op out
  proof -
    have "out_address out \<in> fmdom' (wa_address_to_index w1)" using that assms(2) add(3) unfolding owns_coins_def by blast
    from signing_key_for_own_address [OF add(2) this] show ?thesis by blast
  qed
  have "\<exists>op nonce out. find_reservation E X w1 (wx_hash_name X name) (hash_rows X (wa_utxos w)) = Ok (Some (op, nonce))
      \<and> (op, out) \<in> set (hash_rows X (wa_utxos w))
      \<and> filled_reservation_commitment (out_content out) = Some (ext_keyed_hash E nonce (wx_hash_name X name))"
    by (rule find_reservation_found) (use own assms(5-7) in \<open>auto simp: set_hash_rows\<close>)
  then obtain spent nonce out' where
    "find_reservation E X w1 (wx_hash_name X name) (hash_rows X (wa_utxos w)) = Ok (Some (spent, nonce))"
    "fmlookup (wa_utxos w) spent = Some out'"
    "filled_reservation_commitment (out_content out') = Some (ext_keyed_hash E nonce (wx_hash_name X name))"
    unfolding set_hash_rows by blast
  note found = this
  let ?tx = "tx\<lparr>tx_inputs := tx_inputs tx @ [spent], tx_outputs := tx_outputs tx
      @ (if supply \<noteq> 0 then [Output_new a (C_BitAsset supply)] else []) @ [Output_new a C_BitAssetControl],
      tx_data := Some (BitAssetRegistration (wx_hash_name X name) nonce d supply)\<rparr>"
  have "\<exists>w'. register_bitasset E X tx name d supply w = (Ok ?tx, w')"
    unfolding register_bitasset_def wbind_def wread_def wwrite_def Let_def
    by (simp add: assms(3,4) add(1) found(1))
  then obtain w' where "register_bitasset E X tx name d supply w = (Ok ?tx, w')" ..
  with found(2,3) show ?thesis by (intro exI [of _ ?tx] exI [of _ w'] exI [of _ spent] exI [of _ nonce] exI [of _ out']) simp
qed

text \<open>
  C22: a name that the wallet reserved can be registered. Let \<open>reserve_bitasset\<close> turn a regular
  transaction into a reservation of a name. If the wallet later, with the same seed and the
  same key for its address, holds the coin of that reservation, then \<open>register_bitasset\<close> with the same name succeeds as soon as
  an address for its outputs is found: the last input spends a reservation coin of the wallet
  whose commitment is the one that the registration implies, as the node demands.
\<close>

theorem reserved_name_can_be_registered:
  assumes "reserve_bitasset E X tx name w = (Ok tx1, w1)" and "tx_is_regular tx"
    and "wa_seed w2 = wa_seed w1" and "keys_ok E X w2" and "owns_coins w2"
    and "fmlookup (wa_address_to_index w2') (out_address (last (tx_outputs tx1)))
      = fmlookup (wa_address_to_index w1) (out_address (last (tx_outputs tx1)))"
    and "fmlookup (wa_utxos w2) op = Some \<lparr>out_address = out_address (last (tx_outputs tx1)),
      out_content = F_BitAssetReservation rtxid commitment, out_memo = memo\<rparr>"
    and "tx_data tx1 = Some (BitAssetReservation commitment)"
    and "tx_is_regular tx2" and "last_output_address E X tx2 w2 = (Ok a, w2')"
  shows "\<exists>tx3 w3 spent out. register_bitasset E X tx2 name d supply w2 = (Ok tx3, w3)
    \<and> tx_inputs tx3 = tx_inputs tx2 @ [spent] \<and> fmlookup (wa_utxos w2) spent = Some out
    \<and> filled_reservation_commitment (out_content out)
      = implied_reservation_commitment E \<lparr>ft_transaction = tx3, ft_spent_utxos = spent_utxos\<rparr>
    \<and> filled_reservation_commitment (out_content out) \<noteq> None"
proof -
  let ?a = "out_address (last (tx_outputs tx1))" and ?h = "wx_hash_name X name"
  have "\<not> tx_is is_reservation tx" using assms(2) by (simp add: tx_is_regular_def tx_is_def)
  with assms(1,2) obtain key w0 where key: "get_tx_signing_key_for_addr E X ?a w0 = Ok key"
    and w1: "wa_seed w1 = wa_seed w0" "wa_address_to_index w1 = wa_address_to_index w0"
    and tx1: "tx_data tx1 = Some (BitAssetReservation (ext_keyed_hash E (reservation_nonce E key ?h) ?h))"
    by (auto simp: reserve_bitasset_def wbind_Ok_iff Let_def Output_new_def)
  have "wa_seed w2' = wa_seed w0" using last_output_address_adds [OF assms(10)] assms(3) w1(1) by (simp add: adds_addresses_def)
  moreover have "fmlookup (wa_address_to_index w2') ?a = fmlookup (wa_address_to_index w0) ?a" using assms(6) w1(2) by simp
  ultimately have "get_tx_signing_key_for_addr E X ?a w2' = get_tx_signing_key_for_addr E X ?a w0" by (rule signing_key_for_addr_cong)
  then have "get_tx_signing_key_for_addr E X ?a w2' = Ok key" unfolding key .
  moreover have "commitment = ext_keyed_hash E (reservation_nonce E key ?h) ?h" using tx1 assms(8) by simp
  ultimately have "\<exists>tx' w' spent nonce out'. register_bitasset E X tx2 name d supply w2 = (Ok tx', w')
      \<and> fmlookup (wa_utxos w2) spent = Some out' \<and> tx_inputs tx' = tx_inputs tx2 @ [spent]
      \<and> tx_data tx' = Some (BitAssetRegistration ?h nonce d supply)
      \<and> filled_reservation_commitment (out_content out') = Some (ext_keyed_hash E nonce ?h)"
    by (intro register_finds_reservation [OF assms(4,5,9,10,7), where key = key])
      (simp_all add: filled_reservation_commitment_def)
  then obtain tx' w' spent nonce out' where "register_bitasset E X tx2 name d supply w2 = (Ok tx', w')"
    "fmlookup (wa_utxos w2) spent = Some out'" "tx_inputs tx' = tx_inputs tx2 @ [spent]"
    "tx_data tx' = Some (BitAssetRegistration ?h nonce d supply)"
    "filled_reservation_commitment (out_content out') = Some (ext_keyed_hash E nonce ?h)" by blast
  then show ?thesis
    by (intro exI [of _ tx'] exI [of _ w'] exI [of _ spent] exI [of _ out']) (simp add: implied_reservation_commitment_def)
qed

definition demo_holder :: Wallet where
  "demo_holder = demo_wallet\<lparr>wa_utxos := fmupd (OpDeposit 1 0)
     \<lparr>out_address = 2, out_content = F_BitAssetReservation 5 6, out_memo = []\<rparr> fmempty\<rparr>"

definition demo_registered :: BitAssetData where
  "demo_registered = \<lparr>bd_commitment = None, bd_socket_addr_v4 = None,
      bd_socket_addr_v6 = None, bd_encryption_pubkey = None, bd_signing_pubkey = None\<rparr>"

theorem reserved_name_can_be_registered_witness:
  "\<exists>tx3 w3. register_bitasset demo_externs demo_wallet_externs (Transaction_new [] [Output_new 2 (C_Bitcoin 1)]) ''ab''
    demo_registered 100 demo_holder
    = (Ok tx3, w3) \<and> tx_inputs tx3 = [OpDeposit 1 0]"
proof -
  let ?tx = "Transaction_new [] [Output_new 2 (C_Bitcoin 1)]"
  let ?tx1 = "?tx\<lparr>tx_outputs := [Output_new 2 (C_Bitcoin 1), Output_new 2 C_BitAssetReservation], tx_data := Some (BitAssetReservation 6)\<rparr>"
  have seed: "wa_seed demo_wallet = Some []" "wa_address_to_index demo_wallet = fmupd 2 0 fmempty" by (simp_all add: demo_wallet_def)
  have key: "get_tx_signing_key_for_addr demo_externs demo_wallet_externs 2 demo_wallet = Ok 2"
    using demo_signing_key [of demo_wallet 0] seed
    by (simp add: get_tx_signing_key_for_addr_def key_address_def demo_externs_def demo_wallet_externs_def)
  have last: "last_output_address demo_externs demo_wallet_externs ?tx w = (Ok 2, w)"
    if "wa_address_to_index w = fmupd 2 0 fmempty" for w
    using that by (simp add: last_output_address_def Transaction_new_def Output_new_def)
  have h: "wx_hash_name demo_wallet_externs ''ab'' = 2" "ext_keyed_hash demo_externs = (\<lambda>k m. k + m)"
    by (simp_all add: demo_wallet_externs_def demo_externs_def)
  have "\<exists>w1. reserve_bitasset demo_externs demo_wallet_externs ?tx ''ab'' demo_wallet = (Ok ?tx1, w1)
      \<and> wa_seed w1 = Some [] \<and> wa_address_to_index w1 = fmupd 2 0 fmempty"
    unfolding reserve_bitasset_def wbind_def wread_def wwrite_def Let_def reservation_nonce_def h
    using key last [OF seed(2)] seed by (simp add: tx_is_regular_def tx_is_def Transaction_new_def)
  then obtain w1 where r: "reserve_bitasset demo_externs demo_wallet_externs ?tx ''ab'' demo_wallet = (Ok ?tx1, w1)"
    and w1: "wa_seed w1 = Some []" "wa_address_to_index w1 = fmupd 2 0 fmempty" by blast
  have held: "wa_seed demo_holder = Some []" "wa_address_to_index demo_holder = fmupd 2 0 fmempty"
    "wa_utxos demo_holder = fmupd (OpDeposit 1 0) \<lparr>out_address = 2, out_content = F_BitAssetReservation 5 6, out_memo = []\<rparr> fmempty"
    by (simp_all add: demo_holder_def seed)
  have "keys_ok demo_externs demo_wallet_externs demo_holder"
    using demo_signing_key [of demo_holder 0] held
    by (simp add: keys_ok_def key_address_def demo_externs_def demo_wallet_externs_def)
  moreover have "owns_coins demo_holder" by (simp add: owns_coins_def held)
  ultimately show ?thesis
    using reserved_name_can_be_registered [OF r, of demo_holder demo_holder "OpDeposit 1 0" 5 6 "[]" ?tx 2 demo_registered 100 "[]"] w1 held last [OF held(2)]
    by (simp add: tx_is_regular_def Transaction_new_def Output_new_def) (auto split: if_splits)
qed

section \<open>Selections that go wrong\<close>

text \<open>
  C39: a coin that is in both tables is counted twice. \<open>put_utxos\<close> leaves a coin that was stored
  by \<open>put_unconfirmed_utxos\<close> in the table of unconfirmed coins when it is confirmed. While a
  wallet with one coin is in this state, \<open>select_bitcoins\<close> answers that this one coin is worth
  twice its value, so a transaction that it funds spends more than its inputs hold.
\<close>

theorem confirmed_coin_counted_twice:
  assumes "0 < v" and "unat v + unat v < 2 ^ 64" and "v < amount" and "amount \<le> v + v"
    and "wa_utxos w = fmempty" and "wa_unconfirmed_utxos w = fmempty"
  shows "select_bitcoins X amount
      (put_utxos (fmupd op \<lparr>out_address = a, out_content = F_Bitcoin v, out_memo = memo\<rparr> fmempty)
        (put_unconfirmed_utxos (fmupd op \<lparr>out_address = a, out_content = C_Bitcoin v, out_memo = memo\<rparr> fmempty) w))
    = Ok (v + v, fmupd op \<lparr>out_address = a, out_content = C_Bitcoin v, out_memo = memo\<rparr> fmempty)"
proof -
  let ?out = "\<lparr>out_address = a, out_content = C_Bitcoin v, out_memo = memo\<rparr>"
  let ?w = "put_utxos (fmupd op \<lparr>out_address = a, out_content = F_Bitcoin v, out_memo = memo\<rparr> fmempty)
        (put_unconfirmed_utxos (fmupd op ?out fmempty) w)"
  have "wa_unconfirmed_utxos ?w = fmupd op ?out fmempty" using assms(6) by (simp add: put_utxos_def put_unconfirmed_utxos_def)
  moreover have "wa_utxos ?w = fmupd op \<lparr>out_address = a, out_content = F_Bitcoin v, out_memo = memo\<rparr> fmempty"
    using assms(5) by (simp add: put_utxos_def put_unconfirmed_utxos_def)
  ultimately have "bitcoin_coins X ?w = [(op, ?out), (op, ?out)]"
    by (simp add: bitcoin_coins_single sorted_coins_def coin_rows_single)
  moreover have "v \<noteq> 0" "\<not> amount \<le> 0" "\<not> amount \<le> v" using assms(1,3) by auto
  moreover have "checked_add v v = Some (v + v)"
    using assms(2) by (simp add: checked_add_Some_iff unat_word_ariths)
  moreover have "checked_add 0 v = Some v" by (simp add: checked_add_Some_iff)
  ultimately show ?thesis using assms(4) by (simp add: select_bitcoins_def)
qed

theorem confirmed_coin_counted_twice_witness:
  "select_bitcoins demo_wallet_externs 15
      (put_utxos (fmupd (OpDeposit 1 0) \<lparr>out_address = 2, out_content = F_Bitcoin 10, out_memo = []\<rparr> fmempty)
        (put_unconfirmed_utxos (fmupd (OpDeposit 1 0) \<lparr>out_address = 2, out_content = C_Bitcoin 10, out_memo = []\<rparr> fmempty) Wallet_new))
    = Ok (20, fmupd (OpDeposit 1 0) \<lparr>out_address = 2, out_content = C_Bitcoin 10, out_memo = []\<rparr> fmempty)"
  using confirmed_coin_counted_twice [of 10 15 Wallet_new demo_wallet_externs "OpDeposit 1 0" 2 "[]"]
  by (simp add: Wallet_new_def)

text \<open>
  C40: the control coin of a BitAsset is never selected. \<open>select_bitasset_control\<close> looks for an
  amount of the BitAsset, not for its control coin: what it answers is always a coin that
  holds an amount, and a wallet that has the control coin but no amount gets
  \<open>NotEnoughFunds\<close>. So no auction or pool can be given the control coin.
\<close>

theorem control_coin_never_selected:
  "(\<forall>op out. select_bitasset_control X bitasset w = Ok (op, out) \<longrightarrow> (\<exists>n. out_content out = C_BitAsset n))
   \<and> ((\<forall>op out. fmlookup (wa_utxos w) op = Some out \<longrightarrow> filled_bitasset (out_content out) \<noteq> Some bitasset) \<longrightarrow>
      select_bitasset_control X bitasset w = Err W_NotEnoughFunds)"
proof (intro conjI allI impI)
  have amount: "\<exists>n. content_of_filled c = C_BitAsset n" if "filled_bitasset c = Some bitasset" for c
    using that by (cases c) auto
  show "\<exists>n. out_content out = C_BitAsset n" if sel: "select_bitasset_control X bitasset w = Ok (op, out)" for op out
  proof -
    from sel obtain utxo where "find (\<lambda>(_, out). filled_bitasset (out_content out) = Some bitasset)
        (db_iter (wx_outpoint_key X) (wa_utxos w)) = Some (op, utxo)" and out: "out = output_of_filled utxo"
      by (auto simp: select_bitasset_control_def)
    then have "filled_bitasset (out_content utxo) = Some bitasset" by (metis (mono_tags, lifting) case_prod_conv find_Some_iff)
    from amount [OF this] show ?thesis by (simp add: out output_of_filled_def)
  qed
  assume "\<forall>op out. fmlookup (wa_utxos w) op = Some out \<longrightarrow> filled_bitasset (out_content out) \<noteq> Some bitasset"
  then have "find (\<lambda>(_, out). filled_bitasset (out_content out) = Some bitasset) (db_iter (wx_outpoint_key X) (wa_utxos w)) = None"
    by (auto simp: find_None_iff db_iter_def fmlookup_dom'_iff)
  then show "select_bitasset_control X bitasset w = Err W_NotEnoughFunds" by (simp add: select_bitasset_control_def)
qed

theorem control_coin_never_selected_witness:
  "select_bitasset_control demo_wallet_externs 1 (Wallet_new\<lparr>wa_utxos := fmupd (OpDeposit 1 0)
     \<lparr>out_address = 2, out_content = F_BitAssetControl 1, out_memo = []\<rparr> fmempty\<rparr>) = Err W_NotEnoughFunds"
  by (rule control_coin_never_selected [THEN conjunct2, rule_format]) (auto split: if_splits)

end
