(* ===== verification/App.thy ===== *)
theory App
  imports Wallet_Tx
begin

text \<open>
  The application (\<open>app/app.rs\<close>) and the miner (\<open>lib/miner.rs\<close>): the node, its peers, the wallet
  and the miner together. Sending a transaction signs it, hands it to the node and updates
  the wallet; a block template takes the transactions of the node and an address of the
  wallet; mining asks the mainchain to commit to a template and submits it.

  The mainchain node is a parameter: the block at its tip, the transaction that requests a
  commitment, and the event that the miner waits for.
\<close>

section \<open>Miner\<close>

record Miner =
  mi_block :: "(Header \<times> Body) option"

datatype MinerError = Mi_CusfMainchain

definition Miner_new :: Miner where
  "Miner_new = \<lparr>mi_block = None\<rparr>"

text \<open>\<open>create_bmm_critical_data_tx\<close>: amount, height, critical hash and parent; \<open>None\<close> is an error.\<close>

type_synonym bmm_client = "u64 \<Rightarrow> u32 \<Rightarrow> hash \<Rightarrow> bitcoin_BlockHash \<Rightarrow> hash option"

definition attempt_bmm ::
  "externs \<Rightarrow> bmm_client \<Rightarrow> u64 \<Rightarrow> u32 \<Rightarrow> Header \<Rightarrow> Body \<Rightarrow> (Miner, MinerError, hash) stateful" where
  "attempt_bmm E create_bmm amount height header body =
     wbind (wread (\<lambda>_. ok_or Mi_CusfMainchain (create_bmm amount height (header_hash E header) (hd_prev_main_hash header)))) (\<lambda>t.
     wbind (wwrite (\<lambda>m. m\<lparr>mi_block := Some (header, body)\<rparr>)) (\<lambda>_. wreturn t))"

text \<open>\<open>next_event\<close> is the first event of the stream, or nothing where the stream ends.\<close>

definition confirm_bmm ::
  "externs \<Rightarrow> (MinerError, main_event option) result \<Rightarrow> (Miner, MinerError, (bitcoin_BlockHash \<times> Header \<times> Body) option) stateful" where
  "confirm_bmm E next_event m =
     (case mi_block m of
        None \<Rightarrow> (Ok None, m)
      | Some (header, body) \<Rightarrow>
          wbind (wread (\<lambda>_. next_event)) (\<lambda>event.
          wbind (wwrite (\<lambda>m. m\<lparr>mi_block := None\<rparr>)) (\<lambda>_.
          wreturn (case event of
              Some (ConnectBlock header_info info) \<Rightarrow>
                if bi_bmm_commitment info = Some (header_hash E header)
                then Some (bhi_block_hash header_info, header, body) else None
            | _ \<Rightarrow> None))) m)"

section \<open>The application\<close>

record App =
  app_node :: Node
  app_net :: Net
  app_wallet :: Wallet
  app_miner :: "Miner option"
  app_utxos :: "(OutPoint, FilledOutput) fmap"
  app_unconfirmed_utxos :: "(OutPoint, TxOutput) fmap"

text \<open>The errors of the application, and those that its RPC methods pass on.\<close>

datatype AppError =
    App_ComputeMerkleRoot ComputeMerkleRootError
  | App_CusfMainchain
  | App_Miner MinerError
  | App_Node NodeError
  | App_NoCusfMainchainWalletClient
  | App_RequestMainchainAncestorInfos bitcoin_BlockHash
  | App_Wallet WalletError
  | Rpc_Amm AmmError
  | Rpc_BitcoinFee BitcoinFeeError
  | Rpc_DutchAuction DutchAuctionError
  | Rpc_Hex

type_synonym 'a app_op = "(App, AppError, 'a) stateful"

definition on_wallet :: "'a wallet_op \<Rightarrow> 'a app_op" where
  "on_wallet m s = (let (r, w) = m (app_wallet s) in (map_err App_Wallet r, s\<lparr>app_wallet := w\<rparr>))"

definition on_node :: "(Node \<Rightarrow> (NodeError, 'a) result) \<Rightarrow> 'a app_op" where
  "on_node f = wread (\<lambda>s. map_err App_Node (f (app_node s)))"

text \<open>The coins that the application shows at the start: those that no transaction of the pool spends.\<close>

definition unspent_in_pool :: "MemPool \<Rightarrow> (OutPoint, 'o) fmap \<Rightarrow> (OutPoint, 'o) fmap" where
  "unspent_in_pool mp coins =
     fold (\<lambda>tx coins. fold fmdrop (tx_inputs (at_transaction tx)) coins) (map snd (db_iter id (mp_transactions mp))) coins"

definition App_new :: "Node \<Rightarrow> Net \<Rightarrow> Wallet \<Rightarrow> Miner option \<Rightarrow> App" where
  "App_new nd n w m =
     \<lparr>app_node = nd, app_net = n, app_wallet = w, app_miner = m, app_utxos = unspent_in_pool (nd_mempool nd) (wa_utxos w),
      app_unconfirmed_utxos = unspent_in_pool (nd_mempool nd) (wa_unconfirmed_utxos w)\<rparr>"

definition app_update :: "externs \<Rightarrow> wallet_externs \<Rightarrow> unit app_op" where
  "app_update E X s =
     (let (r, w) = update_wallet E X (app_node s) (app_wallet s); s = s\<lparr>app_wallet := w\<rparr> in
      case r of
        Ok _ \<Rightarrow> (Ok (), s\<lparr>app_utxos := wa_utxos w, app_unconfirmed_utxos := wa_unconfirmed_utxos w\<rparr>)
      | Err e \<Rightarrow> (Err (App_Node e), s)
      | Panic \<Rightarrow> (Panic, s))"

text \<open>One turn of the loop that follows changes of the state; an error is logged.\<close>

definition app_task_turn :: "externs \<Rightarrow> wallet_externs \<Rightarrow> App \<Rightarrow> App" where
  "app_task_turn E X s = snd (app_update E X s)"

definition node_submit_transaction :: "externs \<Rightarrow> AuthorizedTransaction \<Rightarrow> (Txid \<times> nat) app_op" where
  "node_submit_transaction E tx s =
     (let (r, nd, n) = broadcast_transaction E tx (app_node s, app_net s) in
      (map_err App_Node r, s\<lparr>app_node := nd, app_net := n\<rparr>))"

definition app_broadcast_transaction :: "externs \<Rightarrow> wallet_externs \<Rightarrow> AuthorizedTransaction \<Rightarrow> (Txid \<times> nat) app_op" where
  "app_broadcast_transaction E X tx =
     wbind (node_submit_transaction E tx) (\<lambda>r. wbind (app_update E X) (\<lambda>_. wreturn r))"

definition app_submit_transaction :: "externs \<Rightarrow> wallet_externs \<Rightarrow> AuthorizedTransaction \<Rightarrow> unit app_op" where
  "app_submit_transaction E X tx = wbind (app_broadcast_transaction E X tx) (\<lambda>_. wreturn ())"

definition sign_and_send :: "externs \<Rightarrow> wallet_externs \<Rightarrow> nat \<Rightarrow> Transaction \<Rightarrow> unit app_op" where
  "sign_and_send E X rng tx =
     wbind (on_wallet (wread (wallet_authorize X rng tx))) (\<lambda>authorized. app_submit_transaction E X authorized)"

section \<open>Block templates\<close>

record BlockTemplate =
  bt_bribe :: u64
  bt_header :: Header
  bt_body :: Body
  bt_height :: u32
  bt_fees :: u64

definition EMPTY_BLOCK_BMM_BRIBE :: u64 where
  "EMPTY_BLOCK_BMM_BRIBE = 1000"

text \<open>
  The search for a block to mine on after a reorganisation of the mainchain: the first
  ancestor of the tip whose mainchain block is a proper ancestor of the last common one. The
  fuel bounds the walk to the genesis block.
\<close>

fun tip_to_mine_on ::
  "nat \<Rightarrow> Archive \<Rightarrow> bitcoin_BlockHash \<Rightarrow> BlockHash option \<Rightarrow> (ArchiveError, BlockHash option) result option" where
  "tip_to_mine_on fuel a common None = Some (Ok None)"
| "tip_to_mine_on 0 a common (Some block_hash) = None"
| "tip_to_mine_on (Suc fuel) a common (Some block_hash) =
     fbind (Some (get_header a block_hash)) (\<lambda>header.
     if hd_prev_main_hash header = common then tip_to_mine_on fuel a common (hd_prev_side_hash header)
     else fbind (Some (is_main_descendant a (hd_prev_main_hash header) common)) (\<lambda>found.
       if found then Some (Ok (Some block_hash)) else tip_to_mine_on fuel a common (hd_prev_side_hash header)))"

definition parent_on_chain ::
  "nat \<Rightarrow> Archive \<Rightarrow> bitcoin_BlockHash \<Rightarrow> BlockHash \<Rightarrow> (ArchiveError, BlockHash option) result option" where
  "parent_on_chain fuel a prev_main_hash tip_hash =
     fbind (Some (get_header a tip_hash)) (\<lambda>tip_header.
     fbind (Some (last_common_main_ancestor a prev_main_hash (hd_prev_main_hash tip_header))) (\<lambda>common.
     if common = hd_prev_main_hash tip_header then Some (Ok (Some tip_hash))
     else tip_to_mine_on fuel a common (Some tip_hash)))"

text \<open>The parent of the template, and the node with the mainchain headers that were missing.\<close>

definition template_parent ::
  "nat \<Rightarrow> tip_externs \<Rightarrow> hash_order \<Rightarrow> validator \<Rightarrow> bitcoin_BlockHash \<Rightarrow> Node
    \<Rightarrow> ((AppError, BlockHash option) result \<times> Node) option" where
  "template_parent fuel T ho client prev_main_hash nd =
     (case st_tip (nd_state nd) of
        None \<Rightarrow> Some (Ok None, nd)
      | Some tip_hash \<Rightarrow>
          obind nd (Some (map_err (\<lambda>e. App_Node (N_Archive e)) (get_header (nd_archive nd) tip_hash))) (\<lambda>_.
          obind nd (if try_get_main_header_info (nd_archive nd) prev_main_hash \<noteq> None then Some (Ok (True, nd_archive nd, set_idle))
              else map_option (map_err (\<lambda>e. App_Node (N_MainchainAncestors e)))
                (request_ancestor_infos fuel T ho client prev_main_hash (nd_archive nd) set_idle)) (\<lambda>(available, a, _).
          let nd = nd\<lparr>nd_archive := a\<rparr> in
          if \<not> available then Some (Err (App_RequestMainchainAncestorInfos prev_main_hash), nd)
          else obind nd (map_option (map_err (\<lambda>e. App_Node (N_Archive e))) (parent_on_chain fuel a prev_main_hash tip_hash)) (\<lambda>parent.
            Some (Ok parent, nd)))))"

definition template_coinbase :: "externs \<Rightarrow> wallet_externs \<Rightarrow> u64 \<Rightarrow> Coinbase wallet_op" where
  "template_coinbase E X tx_fees =
     wbind (if tx_fees = 0 then wreturn []
       else wbind (get_receive_address E X) (\<lambda>address. wreturn [Output_new address (C_Bitcoin tx_fees)])) (\<lambda>outputs.
     wreturn \<lparr>cb_memo = [], cb_outputs = outputs\<rparr>)"

definition template_header :: "externs \<Rightarrow> Coinbase \<Rightarrow> FilledTransaction list \<Rightarrow> BlockHash option \<Rightarrow> bitcoin_BlockHash \<Rightarrow> (AppError, Header) result" where
  "template_header E coinbase txs prev_side_hash prev_main_hash =
     rbind (map_err App_ComputeMerkleRoot (compute_merkle_root E coinbase txs)) (\<lambda>merkle_root.
     Ok \<lparr>hd_merkle_root = merkle_root, hd_prev_side_hash = prev_side_hash, hd_prev_main_hash = prev_main_hash\<rparr>)"

definition template_height :: "Archive \<Rightarrow> BlockHash option \<Rightarrow> (AppError, u32) result" where
  "template_height a prev_side_hash =
     (case prev_side_hash of
        None \<Rightarrow> Ok 0
      | Some block_hash \<Rightarrow> rbind (map_err (\<lambda>e. App_Node (N_Archive e)) (get_height a block_hash)) (\<lambda>height. add_word height 1))"

definition NUM_TRANSACTIONS :: nat where
  "NUM_TRANSACTIONS = 1000"

definition full_template ::
  "externs \<Rightarrow> wallet_externs \<Rightarrow> u64 option \<Rightarrow> bitcoin_BlockHash \<Rightarrow> BlockHash option \<Rightarrow> BlockTemplate app_op" where
  "full_template E X fee prev_main_hash prev_side_hash =
     wbind (\<lambda>s. case get_transactions E NUM_TRANSACTIONS (app_node s) of
         Ok (chosen, nd) \<Rightarrow> (Ok chosen, s\<lparr>app_node := nd\<rparr>) | Err e \<Rightarrow> (Err (App_Node e), s) | Panic \<Rightarrow> (Panic, s)) (\<lambda>(txs, tx_fees).
     wbind (on_wallet (template_coinbase E X tx_fees)) (\<lambda>coinbase.
     wbind (wread (\<lambda>_. template_header E coinbase (map af_transaction txs) prev_side_hash prev_main_hash)) (\<lambda>header.
     wbind (wread (\<lambda>s. template_height (nd_archive (app_node s)) prev_side_hash)) (\<lambda>height.
     wreturn \<lparr>bt_bribe = (case fee of Some fee \<Rightarrow> fee | None \<Rightarrow> if tx_fees > 0 then tx_fees else EMPTY_BLOCK_BMM_BRIBE),
       bt_header = header,
       bt_body = Body_new (map (\<lambda>tx. \<lparr>at_transaction = ft_transaction (af_transaction tx),
         at_authorizations = af_authorizations tx\<rparr>) txs) coinbase,
       bt_height = height, bt_fees = tx_fees\<rparr>))))"

definition empty_template :: "externs \<Rightarrow> bitcoin_BlockHash \<Rightarrow> BlockHash option \<Rightarrow> BlockTemplate app_op" where
  "empty_template E prev_main_hash prev_side_hash =
     wbind (wread (\<lambda>_. template_header E \<lparr>cb_memo = [], cb_outputs = []\<rparr> [] prev_side_hash prev_main_hash)) (\<lambda>header.
     wbind (wread (\<lambda>s. template_height (nd_archive (app_node s)) prev_side_hash)) (\<lambda>height.
     wreturn \<lparr>bt_bribe = EMPTY_BLOCK_BMM_BRIBE, bt_header = header, bt_body = Body_new [] \<lparr>cb_memo = [], cb_outputs = []\<rparr>,
       bt_height = height, bt_fees = 0\<rparr>))"

text \<open>\<open>chain_tip\<close> is the answer of the mainchain node for its tip.\<close>

definition build_block_template ::
  "nat \<Rightarrow> externs \<Rightarrow> wallet_externs \<Rightarrow> tip_externs \<Rightarrow> hash_order \<Rightarrow> validator \<Rightarrow> bitcoin_BlockHash option \<Rightarrow> u64 option
    \<Rightarrow> App \<Rightarrow> ((AppError, BlockTemplate) result \<times> App) option" where
  "build_block_template fuel E X T ho client chain_tip fee s =
     obind s (Some (ok_or App_CusfMainchain chain_tip)) (\<lambda>prev_main_hash.
     case template_parent fuel T ho client prev_main_hash (app_node s) of
       None \<Rightarrow> None
     | Some (r, nd) \<Rightarrow>
         (let tip_hash = st_tip (nd_state (app_node s)); s = s\<lparr>app_node := nd\<rparr> in
          obind s (Some r) (\<lambda>prev_side_hash.
          Some (if prev_side_hash = tip_hash then full_template E X fee prev_main_hash prev_side_hash s
            else empty_template E prev_main_hash prev_side_hash s))))"

definition app_get_block_template ::
  "nat \<Rightarrow> externs \<Rightarrow> wallet_externs \<Rightarrow> tip_externs \<Rightarrow> hash_order \<Rightarrow> validator \<Rightarrow> bitcoin_BlockHash option
    \<Rightarrow> App \<Rightarrow> ((AppError, BlockTemplate) result \<times> App) option" where
  "app_get_block_template fuel E X T ho client chain_tip s = build_block_template fuel E X T ho client chain_tip None s"

section \<open>Blocks\<close>

text \<open>Submit a block; the proposal of a withdrawal bundle goes to the mainchain.\<close>

definition app_submit_block ::
  "nat \<Rightarrow> externs \<Rightarrow> tip_externs \<Rightarrow> bundle_order \<Rightarrow> hash_order \<Rightarrow> validator \<Rightarrow> bitcoin_BlockHash \<Rightarrow> Header \<Rightarrow> Body
    \<Rightarrow> App \<Rightarrow> ((AppError, bool) result \<times> App) option" where
  "app_submit_block fuel E T order ho client main_block_hash header body s =
     map_option (\<lambda>(r, nd). (rbind (map_err App_Node r) (\<lambda>(accepted, _). Ok accepted), s\<lparr>app_node := nd\<rparr>))
       (submit_block fuel E T order ho client main_block_hash header body (app_node s))"

definition app_connect_block ::
  "nat \<Rightarrow> externs \<Rightarrow> wallet_externs \<Rightarrow> tip_externs \<Rightarrow> bundle_order \<Rightarrow> hash_order \<Rightarrow> validator \<Rightarrow> Header \<Rightarrow> Body \<Rightarrow> bitcoin_BlockHash
    \<Rightarrow> App \<Rightarrow> ((AppError, bool) result \<times> App) option" where
  "app_connect_block fuel E X T order ho client header body main_block_hash s =
     (case app_submit_block fuel E T order ho client main_block_hash header body s of
        None \<Rightarrow> None
      | Some (r, s) \<Rightarrow>
          obind s (Some r) (\<lambda>accepted.
          Some ((if accepted then wbind (app_update E X) (\<lambda>_. wreturn accepted) else wreturn accepted) s)))"

definition on_miner :: "(Miner, MinerError, 'a) stateful \<Rightarrow> 'a app_op" where
  "on_miner f s =
     (case app_miner s of
        None \<Rightarrow> (Err App_NoCusfMainchainWalletClient, s)
      | Some m \<Rightarrow> (let (r, m) = f m in (map_err App_Miner r, s\<lparr>app_miner := Some m\<rparr>)))"

definition mine ::
  "nat \<Rightarrow> externs \<Rightarrow> wallet_externs \<Rightarrow> tip_externs \<Rightarrow> bundle_order \<Rightarrow> hash_order \<Rightarrow> validator \<Rightarrow> bitcoin_BlockHash option \<Rightarrow> bmm_client
    \<Rightarrow> (MinerError, main_event option) result \<Rightarrow> u64 option \<Rightarrow> App \<Rightarrow> ((AppError, unit) result \<times> App) option" where
  "mine fuel E X T order ho client chain_tip create_bmm next_event fee s =
     (if app_miner s = None then Some (Err App_NoCusfMainchainWalletClient, s)
      else case build_block_template fuel E X T ho client chain_tip fee s of
        None \<Rightarrow> None
      | Some (r, s) \<Rightarrow>
          obind s (Some r) (\<lambda>template.
          case wbind (on_miner (attempt_bmm E create_bmm (bt_bribe template) 0 (bt_header template) (bt_body template)))
              (\<lambda>_. on_miner (confirm_bmm E next_event)) s of
            (r, s) \<Rightarrow>
              obind s (Some r) (\<lambda>confirmed.
              case (case confirmed of
                  None \<Rightarrow> Some (Ok False, s)
                | Some (main_hash, header, body) \<Rightarrow> app_submit_block fuel E T order ho client main_hash header body s) of
                None \<Rightarrow> None
              | Some (r, s) \<Rightarrow> obind s (Some r) (\<lambda>_. Some (app_update E X s)))))"

end
