(* ===== verification/Rpc_Server.thy ===== *)
theory Rpc_Server
  imports App
begin

text \<open>
  The methods of the RPC server (\<open>app/rpc_server.rs\<close>) that do more than pass a call on: they
  quote an AMM burn, mint or swap or an auction bid from the current state, let the wallet
  build the transaction, and sign and send it; and the queries that combine tables.
  Random generators and the decoding of hexadecimal memos are parameters.
\<close>

section \<open>Queries\<close>

definition rpc_get_amm_pool_state :: "AssetId \<Rightarrow> AssetId \<Rightarrow> PoolState app_op" where
  "rpc_get_amm_pool_state asset0 asset1 =
     on_node (\<lambda>nd. node_get_amm_pool_state (nd_state nd) (AmmPair_new asset0 asset1))"

definition getblockcount :: "u32 app_op" where
  "getblockcount =
     wread (\<lambda>s. case st_height (nd_state (app_node s)) of None \<Rightarrow> Ok 0 | Some height \<Rightarrow> add_word height 1)"

definition get_best_mainchain_block_hash :: "hash_order \<Rightarrow> bitcoin_BlockHash option app_op" where
  "get_best_mainchain_block_hash ho =
     on_node (\<lambda>nd. case st_tip (nd_state nd) of
         None \<Rightarrow> Ok None
       | Some sidechain_hash \<Rightarrow>
           rbind (map_err N_Archive (get_best_main_verification ho (nd_archive nd) sidechain_hash)) (\<lambda>h. Ok (Some h)))"

record TxInfo =
  ti_confirmations :: "u32 option"
  ti_fee_sats :: u64
  ti_txin :: "(BlockHash \<times> u32) option"

definition get_transaction_info :: "externs \<Rightarrow> Txid \<Rightarrow> TxInfo option app_op" where
  "get_transaction_info E t =
     wbind (on_node (\<lambda>nd. try_get_filled_transaction E nd t)) (\<lambda>found.
     case found of
       None \<Rightarrow> wreturn None
     | Some (filled_tx, txin) \<Rightarrow>
         wbind (case txin of
             None \<Rightarrow> wreturn None
           | Some (block_hash, _) \<Rightarrow>
               wbind (wread (\<lambda>s. expect (st_height (nd_state (app_node s))))) (\<lambda>tip_height.
               wbind (on_node (\<lambda>nd. map_err N_Archive (get_height (nd_archive nd) block_hash))) (\<lambda>height.
               wbind (wread (\<lambda>_. sub_word tip_height height)) (\<lambda>n. wreturn (Some n))))) (\<lambda>confirmations.
         wbind (wread (\<lambda>_. map_err Rpc_BitcoinFee (bitcoin_fee (af_transaction filled_tx)))) (\<lambda>fee.
         wreturn (Some \<lparr>ti_confirmations = confirmations, ti_fee_sats = fee, ti_txin = txin\<rparr>))))"

definition my_unconfirmed_utxos :: "externs \<Rightarrow> wallet_externs \<Rightarrow> (OutPoint, TxOutput) fmap app_op" where
  "my_unconfirmed_utxos E X =
     wread (\<lambda>s. map_err App_Node (get_unconfirmed_utxos_by_addresses E (nd_mempool (app_node s))
       (wx_address_order X (get_addresses (app_wallet s)))))"

section \<open>Sending\<close>

definition Transaction_default :: Transaction where
  "Transaction_default = \<lparr>tx_inputs = [], tx_outputs = [], tx_memo = [], tx_data = None\<rparr>"

definition send :: "externs \<Rightarrow> wallet_externs \<Rightarrow> nat \<Rightarrow> Transaction wallet_op \<Rightarrow> Txid app_op" where
  "send E X rng build =
     wbind (on_wallet build) (\<lambda>tx. wbind (sign_and_send E X rng tx) (\<lambda>_. wreturn (txid E tx)))"

text \<open>Authorize and submit to the node; the wallet is not updated.\<close>

definition submit_only :: "externs \<Rightarrow> wallet_externs \<Rightarrow> nat \<Rightarrow> Transaction \<Rightarrow> unit app_op" where
  "submit_only E X rng tx =
     wbind (on_wallet (wread (wallet_authorize X rng tx))) (\<lambda>authorized.
     wbind (node_submit_transaction E authorized) (\<lambda>_. wreturn ()))"

definition rpc_amm_burn ::
  "externs \<Rightarrow> wallet_externs \<Rightarrow> nat \<Rightarrow> AssetId \<Rightarrow> AssetId \<Rightarrow> u64 \<Rightarrow> Txid app_op" where
  "rpc_amm_burn E X rng asset0 asset1 lp_token_amount =
     (let amm_pair = AmmPair_new asset0 asset1 in
      wbind (rpc_get_amm_pool_state asset0 asset1) (\<lambda>pool.
      wbind (wread (\<lambda>_. map_err Rpc_Amm (burn lp_token_amount pool))) (\<lambda>next.
      wbind (wread (\<lambda>_. sub_word (reserve0 pool) (reserve0 next))) (\<lambda>amount0.
      wbind (wread (\<lambda>_. sub_word (reserve1 pool) (reserve1 next))) (\<lambda>amount1.
      send E X rng (wallet_amm_burn E X Transaction_default (pair_asset0 amm_pair) (pair_asset1 amm_pair)
        amount0 amount1 lp_token_amount))))))"

definition rpc_amm_mint ::
  "externs \<Rightarrow> wallet_externs \<Rightarrow> nat \<Rightarrow> AssetId \<Rightarrow> AssetId \<Rightarrow> u64 \<Rightarrow> u64 \<Rightarrow> Txid app_op" where
  "rpc_amm_mint E X rng asset0 asset1 amount0 amount1 =
     wbind (rpc_get_amm_pool_state asset0 asset1) (\<lambda>pool.
     wbind (wread (\<lambda>_. map_err Rpc_Amm (mint E amount0 amount1 pool))) (\<lambda>next.
     wbind (wread (\<lambda>_. sub_word (outstanding_lp_tokens next) (outstanding_lp_tokens pool))) (\<lambda>lp_token_mint.
     send E X rng (wallet_amm_mint E X Transaction_default asset0 asset1 amount0 amount1 lp_token_mint))))"

definition rpc_amm_swap ::
  "externs \<Rightarrow> wallet_externs \<Rightarrow> nat \<Rightarrow> AssetId \<Rightarrow> AssetId \<Rightarrow> u64 \<Rightarrow> u64 app_op" where
  "rpc_amm_swap E X rng asset_spend asset_receive amount_spend =
     (if asset_spend = asset_receive then wread (\<lambda>_. Err (Rpc_Amm Amm_InvalidSwap))
      else
        (let (asset0, asset1) = (if asset_spend < asset_receive then (asset_spend, asset_receive) else (asset_receive, asset_spend)) in
         wbind (rpc_get_amm_pool_state asset0 asset1) (\<lambda>pool.
         wbind (wread (\<lambda>_.
             if asset_spend < asset_receive
             then rbind (map_err Rpc_Amm (swap_asset0_for_asset1 amount_spend pool)) (\<lambda>new. sub_word (reserve1 new) (reserve1 pool))
             else rbind (map_err Rpc_Amm (swap_asset1_for_asset0 amount_spend pool)) (\<lambda>new. sub_word (reserve0 new) (reserve0 pool))))
           (\<lambda>amount_receive.
         wbind (on_wallet (wallet_amm_swap E X Transaction_default asset_spend asset_receive amount_spend amount_receive)) (\<lambda>tx.
         wbind (submit_only E X rng tx) (\<lambda>_. wreturn amount_receive))))))"

definition rpc_dutch_auction_bid ::
  "externs \<Rightarrow> wallet_externs \<Rightarrow> nat \<Rightarrow> DutchAuctionId \<Rightarrow> u64 \<Rightarrow> u64 app_op" where
  "rpc_dutch_auction_bid E X rng auction_id bid_size =
     wbind getblockcount (\<lambda>height.
     wbind (on_node (\<lambda>nd. node_get_dutch_auction_state (nd_state nd) auction_id)) (\<lambda>auction.
     wbind (wread (\<lambda>_. map_err Rpc_DutchAuction (bid 0 bid_size height auction))) (\<lambda>next.
     wbind (wread (\<lambda>_. sub_word (latest_data (da_base_amount_remaining auction)) (latest_data (da_base_amount_remaining next))))
       (\<lambda>receive_quantity.
     wbind (on_wallet (wallet_dutch_auction_bid E X Transaction_default auction_id (da_base_asset auction) (da_quote_asset auction)
         bid_size receive_quantity)) (\<lambda>tx.
     wbind (submit_only E X rng tx) (\<lambda>_. wreturn receive_quantity))))))"

definition rpc_dutch_auction_collect :: "externs \<Rightarrow> wallet_externs \<Rightarrow> nat \<Rightarrow> DutchAuctionId \<Rightarrow> (u64 \<times> u64) app_op" where
  "rpc_dutch_auction_collect E X rng auction_id =
     wbind getblockcount (\<lambda>height.
     wbind (on_node (\<lambda>nd. node_get_dutch_auction_state (nd_state nd) auction_id)) (\<lambda>auction.
     wbind (wread (\<lambda>_. add_word (da_start_block auction) (da_duration auction))) (\<lambda>end_block.
     wbind (wread (\<lambda>_. ensure (\<not> height \<le> end_block) (Rpc_DutchAuction (DA_Collect Collect_AuctionNotFinished)))) (\<lambda>_.
     let amounts = (latest_data (da_base_amount_remaining auction), latest_data (da_quote_amount auction)) in
     wbind (on_wallet (wallet_dutch_auction_collect E X Transaction_default auction_id (da_base_asset auction) (da_quote_asset auction)
         (fst amounts) (snd amounts))) (\<lambda>tx.
     wbind (submit_only E X rng tx) (\<lambda>_. wreturn amounts))))))"

definition rpc_dutch_auction_create :: "externs \<Rightarrow> wallet_externs \<Rightarrow> nat \<Rightarrow> DutchAuctionParams \<Rightarrow> Txid app_op" where
  "rpc_dutch_auction_create E X rng params = send E X rng (wallet_dutch_auction_create E X Transaction_default params)"

definition BitAssetData_default :: BitAssetData where
  "BitAssetData_default = \<lparr>bd_commitment = None, bd_socket_addr_v4 = None, bd_socket_addr_v6 = None,
     bd_encryption_pubkey = None, bd_signing_pubkey = None\<rparr>"

definition rpc_register_bitasset ::
  "externs \<Rightarrow> wallet_externs \<Rightarrow> nat \<Rightarrow> string \<Rightarrow> u64 \<Rightarrow> BitAssetData option \<Rightarrow> Txid app_op" where
  "rpc_register_bitasset E X rng plain_name initial_supply bitasset_data =
     send E X rng (register_bitasset E X Transaction_default plain_name
       (case bitasset_data of Some d \<Rightarrow> d | None \<Rightarrow> BitAssetData_default) initial_supply)"

definition rpc_reserve_bitasset :: "externs \<Rightarrow> wallet_externs \<Rightarrow> nat \<Rightarrow> string \<Rightarrow> Txid app_op" where
  "rpc_reserve_bitasset E X rng plain_name = send E X rng (reserve_bitasset E X Transaction_default plain_name)"

definition sign_transaction ::
  "externs \<Rightarrow> wallet_externs \<Rightarrow> nat \<Rightarrow> Transaction \<Rightarrow> bool option \<Rightarrow> AuthorizedTransaction app_op" where
  "sign_transaction E X rng tx broadcast =
     wbind (on_wallet (wread (wallet_authorize X rng tx))) (\<lambda>authorized.
     wbind (if broadcast = Some True then app_submit_transaction E X authorized else wreturn ()) (\<lambda>_.
     wreturn authorized))"

definition decode_memo :: "(string \<Rightarrow> u8 list option) \<Rightarrow> string option \<Rightarrow> u8 list option app_op" where
  "decode_memo hex_decode memo =
     (case memo of
        None \<Rightarrow> wreturn None
      | Some memo \<Rightarrow> wbind (wread (\<lambda>_. ok_or Rpc_Hex (hex_decode memo))) (\<lambda>hex. wreturn (Some hex)))"

definition rpc_transfer ::
  "externs \<Rightarrow> wallet_externs \<Rightarrow> (string \<Rightarrow> u8 list option) \<Rightarrow> nat \<Rightarrow> Address \<Rightarrow> u64 \<Rightarrow> u64 \<Rightarrow> string option \<Rightarrow> Txid app_op" where
  "rpc_transfer E X hex_decode rng dest value_sats fee_sats memo =
     wbind (decode_memo hex_decode memo) (\<lambda>memo. send E X rng (create_transfer E X dest value_sats fee_sats memo))"

definition rpc_transfer_many ::
  "externs \<Rightarrow> wallet_externs \<Rightarrow> nat \<Rightarrow> (Address, u64) fmap \<Rightarrow> u64 \<Rightarrow> Txid app_op" where
  "rpc_transfer_many E X rng dests fee_sats = send E X rng (create_transfer_many E X dests fee_sats)"

definition rpc_transfer_bitasset ::
  "externs \<Rightarrow> wallet_externs \<Rightarrow> (string \<Rightarrow> u8 list option) \<Rightarrow> nat \<Rightarrow> Address \<Rightarrow> BitAssetId \<Rightarrow> u64 \<Rightarrow> u64 \<Rightarrow> string option \<Rightarrow> Txid app_op" where
  "rpc_transfer_bitasset E X hex_decode rng dest asset_id amount fee_sats memo =
     wbind (decode_memo hex_decode memo) (\<lambda>memo.
     send E X rng (create_bitasset_transfer E X dest asset_id amount fee_sats memo))"

definition rpc_withdraw ::
  "externs \<Rightarrow> wallet_externs \<Rightarrow> nat \<Rightarrow> main_address \<Rightarrow> u64 \<Rightarrow> u64 \<Rightarrow> u64 \<Rightarrow> Txid app_op" where
  "rpc_withdraw E X rng mainchain_address amount_sats fee_sats mainchain_fee_sats =
     send E X rng (create_withdrawal E X mainchain_address amount_sats mainchain_fee_sats fee_sats)"

end
