(* ===== verification/App_Properties.thy ===== *)
theory App_Properties
  imports Rpc_Server Wallet_Properties Block_Template Archive_Properties Auction_Properties Node_Properties
begin

text \<open>
  The components together: the templates that the application builds are valid blocks, on the
  sidechain tip or on its newest ancestor from before a fork of the mainchain; what is sent through the RPC server reaches the
  mempool as a valid transaction; a bid is quoted as the node will demand it in the next
  block; and a method that cannot work.
\<close>

section \<open>Block templates\<close>

lemma obind_Ok_iff:
  "obind db m f = Some (Ok y, db') \<longleftrightarrow> (\<exists>x. m = Some (Ok x) \<and> f x = Some (Ok y, db'))"
  by (auto simp: obind_def split: option.splits result.splits)

lemma template_parent_Ok:
  assumes "template_parent fuel T ho client prev_main_hash nd = Some (Ok parent, nd')"
  shows "nd_state nd' = nd_state nd \<and> nd_mempool nd' = nd_mempool nd"
    and "st_tip (nd_state nd) = None \<and> parent = None
      \<or> (\<exists>tip. st_tip (nd_state nd) = Some tip \<and> parent_on_chain fuel (nd_archive nd') prev_main_hash tip = Some (Ok parent))"
  using assms
  by (auto simp: template_parent_def obind_Ok_iff Let_def map_err_Ok_iff split: option.splits if_splits)

lemma build_block_template_Ok:
  assumes "build_block_template fuel E X T ho client chain_tip fee s = Some (Ok bt, s')"
  obtains prev_main_hash parent nd where "chain_tip = Some prev_main_hash"
    "template_parent fuel T ho client prev_main_hash (app_node s) = Some (Ok parent, nd)"
    "parent = st_tip (nd_state (app_node s)) \<Longrightarrow>
       full_template E X fee prev_main_hash parent (s\<lparr>app_node := nd\<rparr>) = (Ok bt, s')"
    "parent \<noteq> st_tip (nd_state (app_node s)) \<Longrightarrow>
       empty_template E prev_main_hash parent (s\<lparr>app_node := nd\<rparr>) = (Ok bt, s')"
  using assms
  by (auto simp: build_block_template_def obind_Ok_iff Let_def split: option.splits if_splits prod.splits)

lemma template_header_Ok:
  "template_header E coinbase txs parent prev_main = Ok header \<longleftrightarrow>
     compute_merkle_root E coinbase txs = Ok (hd_merkle_root header) \<and> hd_prev_side_hash header = parent \<and> hd_prev_main_hash header = prev_main"
  by (cases header) (auto simp: template_header_def rbind_Ok_iff map_err_Ok_iff)

lemma template_coinbase_total:
  assumes "template_coinbase E X fees w = (Ok coinbase, w')"
  shows "checked_total (map txout_value (cb_outputs coinbase)) = Ok fees"
proof -
  from assms have "map txout_value (cb_outputs coinbase) = (if fees = 0 then [] else [fees])"
    by (auto simp: template_coinbase_def wbind_Ok_iff Output_new_def split: if_splits)
  moreover have "checked_add 0 fees = Some fees" by (simp add: checked_add_Some_iff)
  ultimately show ?thesis by (simp add: checked_total_def add_amount_def)
qed

lemma on_wallet_Ok: "on_wallet m s = (Ok x, s') \<longleftrightarrow> (\<exists>w. m (app_wallet s) = (Ok x, w) \<and> s' = s\<lparr>app_wallet := w\<rparr>)"
  by (auto simp: on_wallet_def split: prod.splits)

lemma full_template_Ok:
  assumes "full_template E X fee prev_main_hash parent s = (Ok bt, s')"
  obtains txs nd coinbase w where "get_transactions E NUM_TRANSACTIONS (app_node s) = Ok ((txs, bt_fees bt), nd)"
    "template_coinbase E X (bt_fees bt) (app_wallet s) = (Ok coinbase, w)" "bt_body bt = template_body txs coinbase"
    "template_header E coinbase (map af_transaction txs) parent prev_main_hash = Ok (bt_header bt)"
    "s' = s\<lparr>app_node := nd, app_wallet := w\<rparr>"
  using assms
  by (auto simp: full_template_def wbind_Ok_iff on_wallet_Ok template_body_def unfill_def [abs_def] split: result.splits)

lemma empty_template_Ok:
  assumes "empty_template E prev_main_hash parent s = (Ok bt, s')"
  shows "hd_prev_side_hash (bt_header bt) = parent" "hd_prev_main_hash (bt_header bt) = prev_main_hash" "s' = s"
  using assms by (auto simp: empty_template_def wbind_Ok_iff template_header_Ok)

text \<open>
  C17: a block template is a valid block. If the pool is consistent and the batch verifier
  accepts exactly the batches of valid signatures, then a template that
  \<open>build_block_template\<close> puts on the tip of the state, and whose body is not too large, passes the validation of the
  node; its fees are those that the template announces, and no coinbase output is missing
  or in excess: the coinbase claims exactly these fees.
\<close>

theorem block_template_is_valid:
  assumes "mempool_ok E (nd_mempool (app_node s))"
    and "\<forall>t tx. fmlookup (mp_transactions (nd_mempool (app_node s))) t = Some tx \<longrightarrow> length (tx_inputs (at_transaction tx)) \<le> 2 ^ 32"
    and "\<forall>batch. batch \<noteq> [] \<longrightarrow> ext_batch_verify E batch = list_all valid batch"
    and "build_block_template fuel E X T ho client chain_tip fee s = Some (Ok bt, s')"
    and "hd_prev_side_hash (bt_header bt) = st_tip (nd_state (app_node s))"
    and "ext_body_size E (bt_body bt) \<le> Body_MAX_SIZE"
  shows "validate E (nd_state (app_node s)) (bt_header bt) (bt_body bt) = Ok (bt_fees bt)
    \<and> checked_total (map txout_value (cb_outputs (bo_coinbase (bt_body bt)))) = Ok (bt_fees bt)"
proof -
  obtain prev_main parent nd where parent: "template_parent fuel T ho client prev_main (app_node s) = Some (Ok parent, nd)"
    and full: "parent = st_tip (nd_state (app_node s)) \<Longrightarrow> full_template E X fee prev_main parent (s\<lparr>app_node := nd\<rparr>) = (Ok bt, s')"
    and empt: "parent \<noteq> st_tip (nd_state (app_node s)) \<Longrightarrow> empty_template E prev_main parent (s\<lparr>app_node := nd\<rparr>) = (Ok bt, s')"
    by (rule build_block_template_Ok [OF assms(4)]) blast
  have nd: "nd_state nd = nd_state (app_node s)" "nd_mempool nd = nd_mempool (app_node s)" using template_parent_Ok(1) [OF parent] by simp_all
  have p: "parent = st_tip (nd_state (app_node s))"
    using empty_template_Ok(1) [OF empt] assms(5) by fastforce
  obtain txs nd' coinbase w where f: "get_transactions E NUM_TRANSACTIONS nd = Ok ((txs, bt_fees bt), nd')"
    "template_coinbase E X (bt_fees bt) (app_wallet s) = (Ok coinbase, w)" "bt_body bt = template_body txs coinbase"
    "template_header E coinbase (map af_transaction txs) parent prev_main = Ok (bt_header bt)"
  proof (rule full_template_Ok [OF full [OF p]], goal_cases)
    case (1 txs nd' coinbase w)
    then show ?case by (intro that) simp_all
  qed
  have c: "checked_total (map txout_value (cb_outputs coinbase)) = Ok (bt_fees bt)" by (rule template_coinbase_total [OF f(2)])
  have "validate E (nd_state nd) (bt_header bt) (template_body txs coinbase) = Ok (bt_fees bt)"
    by (rule template_block_is_valid [OF _ _ f(1) assms(3) _ _ _ c]) (use assms f nd p in \<open>simp_all add: template_header_Ok\<close>)
  then show ?thesis using c f(3) nd(1) by simp
qed

section \<open>The parent of a template\<close>

lemma main_height_known:
  assumes "archive_ok E T a" and "get_main_height a b = Ok h"
  shows "main_ok (a, fmdom' (ar_main_header_infos a))" "main_height (a, fmdom' (ar_main_header_infos a)) b = Some h"
proof -
  from assms(1) have "main_tables_ok T a" by (simp add: archive_ok_def)
  then show "main_ok (a, fmdom' (ar_main_header_infos a))" by (simp add: main_tables_ok_def)
  from assms(2) have h: "fmlookup (ar_main_block_hash_to_height a) b = Some h"
    by (simp add: get_main_height_def try_get_main_height_def split: option.splits)
  then have "b \<in> fmdom' (ar_main_header_infos a)"
    using \<open>main_tables_ok T a\<close> by (metis fmdom'I main_tables_ok_def)
  with h show "main_height (a, fmdom' (ar_main_header_infos a)) b = Some h" by (simp add: main_height_def)
qed

text \<open>The mainchain has one genesis block, so that any two of its blocks have a common ancestor.\<close>

definition one_main_genesis :: "Archive \<Rightarrow> bool" where
  "one_main_genesis a \<longleftrightarrow> (\<forall>m0 m1 i0 i1. fmlookup (ar_main_header_infos a) m0 = Some i0 \<longrightarrow>
     fmlookup (ar_main_header_infos a) m1 = Some i1 \<longrightarrow> bhi_prev_block_hash i0 = 0 \<longrightarrow> bhi_prev_block_hash i1 = 0 \<longrightarrow> m0 = m1)"

lemma main_root:
  assumes ok: "main_ok (a, K)" and h: "main_height (a, K) b = Some h" and K: "K = fmdom' (ar_main_header_infos a)"
  obtains r info where "anc (main_parent a) (unat h) b = Some r" "fmlookup (ar_main_header_infos a) r = Some info"
    "bhi_prev_block_hash info = 0"
proof -
  obtain r where r: "anc (main_parent a) (unat h) b = Some r" using main.anc_exists [OF ok h, of "unat h"] by auto
  from main.anc_height [OF ok h, unfolded fst_conv, OF r] obtain hr where hr: "main_height (a, K) r = Some hr" "unat hr = 0" by auto
  then have "main_parent a r = None" using main.parent_root [OF ok hr(1)] by (simp add: unat_eq_zero)
  moreover from hr(1) have "r \<in> K" by (simp add: main_height_def split: if_splits)
  then obtain info where "fmlookup (ar_main_header_infos a) r = Some info" using K by (auto simp: fmlookup_dom'_iff)
  ultimately show ?thesis using r by (intro that) (auto simp: main_parent_def split: if_splits)
qed

definition common_main :: "Archive \<Rightarrow> bitcoin_BlockHash \<Rightarrow> bitcoin_BlockHash \<Rightarrow> bitcoin_BlockHash \<Rightarrow> bool" where
  "common_main a b0 b1 c \<longleftrightarrow> is_ancestor (main_parent a) c b0 \<and> is_ancestor (main_parent a) c b1"

lemma last_common_main_ancestor_last:
  assumes ok: "archive_ok E T a" and one: "one_main_genesis a"
    and small: "\<forall>h. get_main_height a b0 = Ok h \<longrightarrow> unat h < 2 ^ 31"
    and c: "last_common_main_ancestor a b0 b1 = Ok c"
  shows "common_main a b0 b1 c" and "\<And>c'. common_main a b0 b1 c' \<Longrightarrow> is_ancestor (main_parent a) c' c"
proof -
  let ?K = "fmdom' (ar_main_header_infos a)"
  from c obtain h0 h1 where g: "get_main_height a b0 = Ok h0" "get_main_height a b1 = Ok h1"
    by (auto simp: last_common_main_ancestor_def equalize_def main_chain_def rbind_Ok_iff)
  note k = main_height_known [OF ok g(1)] main_height_known(2) [OF ok g(2)]
  obtain c0 c1 h where eq: "equalize (main_chain a) b0 b1 = Ok (c0, c1, h)"
    and hc: "main_height (a, ?K) c0 = Some h" "main_height (a, ?K) c1 = Some h"
    and up: "is_ancestor (main_parent a) c0 b0" "is_ancestor (main_parent a) c1 b1" and h: "h = min h0 h1"
    and down: "\<And>x. common_main a b0 b1 x \<Longrightarrow> common_main a c0 c1 x"
    using main.equalize_Ok [OF k] unfolding fst_conv common_main_def by metis
  have lift: "common_main a c0 c1 x \<Longrightarrow> common_main a b0 b1 x" for x
    unfolding common_main_def using up is_ancestor_trans by metis
  have last: "common_main a c0 c1 c \<and> (\<forall>x. common_main a c0 c1 x \<longrightarrow> is_ancestor (main_parent a) x c)"
  proof (cases "c0 = c1")
    case True
    with c have "c = c0" by (simp add: last_common_main_ancestor_def eq)
    with True show ?thesis by (simp add: common_main_def)
  next
    case False
    obtain r0 i0 where r0: "anc (main_parent a) (unat h) c0 = Some r0" "fmlookup (ar_main_header_infos a) r0 = Some i0" "bhi_prev_block_hash i0 = 0"
      by (rule main_root [OF k(1) hc(1) refl])
    obtain r1 i1 where r1: "anc (main_parent a) (unat h) c1 = Some r1" "fmlookup (ar_main_header_infos a) r1 = Some i1" "bhi_prev_block_hash i1 = 0"
      by (rule main_root [OF k(1) hc(2) refl])
    have "r0 = r1" using one r0 r1 unfolding one_main_genesis_def by blast
    then have agree: "main.agree (a, ?K) c0 c1 (unat h)" using r0 r1 by (simp add: main.agree_def)
    have "unat h < 2 ^ 31" using small g(1) h by (auto simp: min_def word_le_nat_alt)
    from main.common_search_last [OF k(1) hc this False agree] obtain x where
      x: "common_search (main_chain a) c0 c1 h = Ok x" "common_main a c0 c1 x"
        "\<And>y. common_main a c0 c1 y \<Longrightarrow> is_ancestor (main_parent a) y x"
      unfolding fst_conv common_main_def by metis
    with c False show ?thesis by (simp add: last_common_main_ancestor_def eq)
  qed
  then show "common_main a b0 b1 c" "\<And>c'. common_main a b0 b1 c' \<Longrightarrow> is_ancestor (main_parent a) c' c"
    using lift down by auto
qed

lemma get_transactions_archive: "get_transactions E number nd = Ok (chosen, nd') \<Longrightarrow> nd_archive nd' = nd_archive nd"
  by (auto simp: get_transactions_def rbind_Ok_iff)

lemma is_main_descendant_exact:
  assumes "archive_ok E T a" and "is_main_descendant a b c = Ok found"
  shows "found = is_ancestor (main_parent a) b c"
proof (cases "b = c")
  case True
  with assms(2) show ?thesis by (simp add: is_main_descendant_def chain_is_descendant_def)
next
  case False
  with assms(2) obtain hb hc where "get_main_height a b = Ok hb" "get_main_height a c = Ok hc"
    by (auto simp: is_main_descendant_def chain_is_descendant_def main_chain_def rbind_Ok_iff)
  note known = main_height_known [OF assms(1) this(1)] main_height_known(2) [OF assms(1) this(2)]
  from main.is_descendant_iff [OF known] assms(2) show ?thesis by (simp add: is_main_descendant_def)
qed

text \<open>
  A sidechain block that refers to a proper ancestor of \<open>c\<close>; and the newest such block
  among \<open>tip\<close> and its ancestors, if there is one.
\<close>

definition before_fork :: "Archive \<Rightarrow> bitcoin_BlockHash \<Rightarrow> BlockHash \<Rightarrow> bool" where
  "before_fork a c b \<longleftrightarrow> (\<exists>header. get_header a b = Ok header \<and> hd_prev_main_hash header \<noteq> c \<and>
     is_ancestor (main_parent a) (hd_prev_main_hash header) c)"

definition newest_before_fork :: "Archive \<Rightarrow> bitcoin_BlockHash \<Rightarrow> BlockHash \<Rightarrow> BlockHash option \<Rightarrow> bool" where
  "newest_before_fork a c tip r \<longleftrightarrow> (case r of
     None \<Rightarrow> \<forall>i b. anc (side_parent a) i tip = Some b \<longrightarrow> \<not> before_fork a c b
   | Some p \<Rightarrow> \<exists>n. anc (side_parent a) n tip = Some p \<and> before_fork a c p \<and>
       (\<forall>i<n. \<forall>b. anc (side_parent a) i tip = Some b \<longrightarrow> \<not> before_fork a c b))"

lemma newest_before_fork_here: "before_fork a c b \<Longrightarrow> newest_before_fork a c b (Some b)"
  unfolding newest_before_fork_def by (auto intro: exI [of _ 0])

lemma newest_before_fork_skip:
  assumes "\<not> before_fork a c b" and "side_parent a b = p"
    and "case p of None \<Rightarrow> r = None | Some b' \<Rightarrow> newest_before_fork a c b' r"
  shows "newest_before_fork a c b r"
proof (cases p)
  case None
  have "anc (side_parent a) i b = Some x \<Longrightarrow> x = b" for i x
    using assms(2) None by (cases i) auto
  with assms None show ?thesis by (auto simp: newest_before_fork_def)
next
  case (Some b')
  have step: "anc (side_parent a) i b = (case i of 0 \<Rightarrow> Some b | Suc j \<Rightarrow> anc (side_parent a) j b')" for i
    using assms(2) Some by (cases i) simp_all
  show ?thesis
  proof (cases r)
    case None
    with assms Some show ?thesis by (auto simp: newest_before_fork_def step split: nat.splits)
  next
    case r: (Some q)
    with assms(3) Some obtain n where n: "anc (side_parent a) n b' = Some q" "before_fork a c q"
      "\<forall>i<n. \<forall>x. anc (side_parent a) i b' = Some x \<longrightarrow> \<not> before_fork a c x" by (auto simp: newest_before_fork_def)
    then have "\<forall>i<Suc n. \<forall>x. anc (side_parent a) i b = Some x \<longrightarrow> \<not> before_fork a c x"
      using assms(1) by (auto simp: step split: nat.splits)
    with n r show ?thesis unfolding newest_before_fork_def by (auto simp: step intro!: exI [of _ "Suc n"])
  qed
qed

lemma tip_to_mine_on_exact:
  assumes ok: "archive_ok E T a" and "tip_to_mine_on fuel a c (Some b) = Some (Ok r)"
  shows "newest_before_fork a c b r"
  using assms(2)
proof (induction fuel arbitrary: b)
  case (Suc fuel)
  from Suc.prems obtain header where h: "get_header a b = Ok header" by (auto simp: fbind_Ok_iff)
  then have par: "side_parent a b = hd_prev_side_hash header"
    by (auto simp: side_parent_def get_header_def try_get_header_def)
  have rest: "case hd_prev_side_hash header of None \<Rightarrow> r = None | Some b' \<Rightarrow> newest_before_fork a c b' r"
    if "tip_to_mine_on fuel a c (hd_prev_side_hash header) = Some (Ok r)"
    using that Suc.IH by (cases "hd_prev_side_hash header") simp_all
  show ?case
  proof (cases "hd_prev_main_hash header = c")
    case True
    then have "\<not> before_fork a c b" using h by (simp add: before_fork_def)
    with rest True Suc.prems h par show ?thesis by (intro newest_before_fork_skip) auto
  next
    case False
    with Suc.prems h obtain found where f: "is_main_descendant a (hd_prev_main_hash header) c = Ok found"
      and next_block: "if found then r = Some b else tip_to_mine_on fuel a c (hd_prev_side_hash header) = Some (Ok r)"
      by (auto simp: fbind_Ok_iff split: if_splits)
    have "found = before_fork a c b"
      using is_main_descendant_exact [OF ok f] False h by (simp add: before_fork_def)
    with next_block rest par show ?thesis
      by (cases found) (auto intro: newest_before_fork_here newest_before_fork_skip)
  qed
qed simp

text \<open>A mainchain block that would commit to a block before the fork lies on the chain of \<open>c\<close>.\<close>

lemma committing_block_on_chain:
  assumes ok: "archive_ok E T a" and m: "get_main_height a m = Ok h" and c: "is_ancestor (main_parent a) c m"
    and p: "is_ancestor (main_parent a) p c" "p \<noteq> c" and k: "main_parent a k = Some p" "is_ancestor (main_parent a) k m"
  shows "is_ancestor (main_parent a) k c"
proof -
  note known = main_height_known [OF ok m]
  obtain i j d where i: "anc (main_parent a) i m = Some k" and j: "anc (main_parent a) j m = Some c"
    and d: "anc (main_parent a) d c = Some p" using c p(1) k(2) by (auto simp: is_ancestor_def)
  have d0: "0 < d" using d p(2) by (cases d) auto
  have pk: "anc (main_parent a) (i + 1) m = Some p" using anc_compose [OF i, of 1] k(1) by (simp add: anc_one)
  have pc: "anc (main_parent a) (j + d) m = Some p" using anc_compose [OF j, of d] d by simp
  have "i + 1 = j + d"
    using main.anc_height [OF known, unfolded fst_conv, OF pk] main.anc_height [OF known, unfolded fst_conv, OF pc] by auto
  with d0 have "anc (main_parent a) (i - j) c = Some k" "j \<le> i" using anc_compose [OF j, of "i - j"] i by simp_all
  then show ?thesis by (auto simp: is_ancestor_def)
qed

lemma parent_on_chain_exact:
  assumes "parent_on_chain fuel a main_tip tip = Some (Ok parent)"
    and ok: "archive_ok E T a" and one: "one_main_genesis a"
    and small: "\<forall>h. get_main_height a main_tip = Ok h \<longrightarrow> unat h < 2 ^ 31"
  shows "\<exists>tip_header c. get_header a tip = Ok tip_header \<and>
    common_main a main_tip (hd_prev_main_hash tip_header) c \<and>
    (\<forall>c'. common_main a main_tip (hd_prev_main_hash tip_header) c' \<longrightarrow> is_ancestor (main_parent a) c' c) \<and>
    (if c = hd_prev_main_hash tip_header then parent = Some tip
     else newest_before_fork a c tip parent \<and>
       (\<forall>p header k. parent = Some p \<longrightarrow> get_header a p = Ok header \<longrightarrow>
          main_parent a k = Some (hd_prev_main_hash header) \<longrightarrow>
          is_ancestor (main_parent a) k (hd_prev_main_hash tip_header) \<longrightarrow> is_ancestor (main_parent a) k main_tip))"
proof -
  from assms(1) obtain tip_header c where tip: "get_header a tip = Ok tip_header"
    and c: "last_common_main_ancestor a main_tip (hd_prev_main_hash tip_header) = Ok c"
    and choice: "if c = hd_prev_main_hash tip_header then parent = Some tip else tip_to_mine_on fuel a c (Some tip) = Some (Ok parent)"
    by (auto simp: parent_on_chain_def fbind_Ok_iff split: if_splits)
  note last = last_common_main_ancestor_last [OF ok one small c]
  from c obtain h where h: "get_main_height a (hd_prev_main_hash tip_header) = Ok h"
    by (auto simp: last_common_main_ancestor_def equalize_def main_chain_def rbind_Ok_iff)
  have up: "is_ancestor (main_parent a) c main_tip" "is_ancestor (main_parent a) c (hd_prev_main_hash tip_header)"
    using last(1) by (simp_all add: common_main_def)
  have newest: "newest_before_fork a c tip parent" if "c \<noteq> hd_prev_main_hash tip_header"
    using choice that tip_to_mine_on_exact [OF ok] by simp
  have "is_ancestor (main_parent a) k main_tip"
    if "c \<noteq> hd_prev_main_hash tip_header" "parent = Some p" "get_header a p = Ok header"
      "main_parent a k = Some (hd_prev_main_hash header)" "is_ancestor (main_parent a) k (hd_prev_main_hash tip_header)" for p header k
  proof -
    from newest [OF that(1)] that(2,3) have "hd_prev_main_hash header \<noteq> c" "is_ancestor (main_parent a) (hd_prev_main_hash header) c"
      by (auto simp: newest_before_fork_def before_fork_def)
    with committing_block_on_chain [OF ok h up(2) _ _ that(4,5)] have "is_ancestor (main_parent a) k c" by simp
    with up(1) show ?thesis by (rule is_ancestor_trans [rotated])
  qed
  with tip last choice newest show ?thesis by (intro exI [of _ tip_header] exI [of _ c]) auto
qed

lemma template_refers:
  assumes "build_block_template fuel E X T ho client (Some main_tip) fee s = Some (Ok bt, s')"
  obtains parent nd where "template_parent fuel T ho client main_tip (app_node s) = Some (Ok parent, nd)"
    "hd_prev_side_hash (bt_header bt) = parent" "hd_prev_main_hash (bt_header bt) = main_tip"
    "nd_archive (app_node s') = nd_archive nd"
proof -
  obtain parent nd where tp: "template_parent fuel T ho client main_tip (app_node s) = Some (Ok parent, nd)"
    and full: "parent = st_tip (nd_state (app_node s)) \<Longrightarrow> full_template E X fee main_tip parent (s\<lparr>app_node := nd\<rparr>) = (Ok bt, s')"
    and empt: "parent \<noteq> st_tip (nd_state (app_node s)) \<Longrightarrow> empty_template E main_tip parent (s\<lparr>app_node := nd\<rparr>) = (Ok bt, s')"
    by (rule build_block_template_Ok [OF assms]) blast
  show ?thesis
  proof (cases "parent = st_tip (nd_state (app_node s))")
    case True
    show ?thesis
    proof (rule full_template_Ok [OF full [OF True]], goal_cases)
      case (1 txs nd' coinbase w)
      then show ?case by (intro that [OF tp]) (auto simp: template_header_Ok dest: get_transactions_archive)
    qed
  next
    case False
    from empty_template_Ok [OF empt [OF False]] show ?thesis by (intro that [OF tp]) simp_all
  qed
qed

text \<open>
  C21: the block that a template builds on. Let the archive satisfy its invariant, the
  mainchain have one genesis block and the mainchain tip be below height \<open>2 ^ 31\<close>. A template refers to the mainchain tip it was
  built for; it has no parent when the state has no tip. Otherwise let c be the last common
  ancestor of the mainchain tip and the mainchain block to which the sidechain tip refers. If c
  is that block, so that the mainchain tip descends from it, the template builds on the
  sidechain tip. If not, it builds on the newest ancestor of the sidechain tip that refers to a
  proper ancestor of c, or starts a new chain when there is none. A block that refers to c itself
  is passed over: the mainchain block that commits to it may be the first of the abandoned
  branch. Every mainchain block of the old branch that could commit to the chosen parent (a
  child of the block to which the parent refers) is an ancestor of the mainchain tip. No
  such claim is made for a sidechain tip that is kept.
\<close>

theorem template_builds_on_main_chain:
  assumes "build_block_template fuel E X T ho client (Some main_tip) fee s = Some (Ok bt, s')"
    and "archive_ok E T (nd_archive (app_node s'))" and "one_main_genesis (nd_archive (app_node s'))"
    and "\<forall>h. get_main_height (nd_archive (app_node s')) main_tip = Ok h \<longrightarrow> unat h < 2 ^ 31"
  shows "hd_prev_main_hash (bt_header bt) = main_tip \<and>
    (let a = nd_archive (app_node s'); parent = hd_prev_side_hash (bt_header bt) in
     case st_tip (nd_state (app_node s)) of
       None \<Rightarrow> parent = None
     | Some tip \<Rightarrow> \<exists>tip_header c. get_header a tip = Ok tip_header \<and>
         common_main a main_tip (hd_prev_main_hash tip_header) c \<and>
         (\<forall>c'. common_main a main_tip (hd_prev_main_hash tip_header) c' \<longrightarrow> is_ancestor (main_parent a) c' c) \<and>
         (if c = hd_prev_main_hash tip_header then parent = Some tip
          else newest_before_fork a c tip parent \<and>
            (\<forall>p header k. parent = Some p \<longrightarrow> get_header a p = Ok header \<longrightarrow>
               main_parent a k = Some (hd_prev_main_hash header) \<longrightarrow>
               is_ancestor (main_parent a) k (hd_prev_main_hash tip_header) \<longrightarrow> is_ancestor (main_parent a) k main_tip)))"
proof -
  let ?a = "nd_archive (app_node s')"
  obtain parent nd where tp: "template_parent fuel T ho client main_tip (app_node s) = Some (Ok parent, nd)"
    and bt: "hd_prev_side_hash (bt_header bt) = parent" "hd_prev_main_hash (bt_header bt) = main_tip" "?a = nd_archive nd"
    by (rule template_refers [OF assms(1)])
  show ?thesis
  proof (cases "st_tip (nd_state (app_node s))")
    case None
    with template_parent_Ok(2) [OF tp] bt show ?thesis by simp
  next
    case (Some tip)
    with template_parent_Ok(2) [OF tp] bt(3) have "parent_on_chain fuel ?a main_tip tip = Some (Ok parent)" by simp
    from parent_on_chain_exact [OF this assms(2-4)] show ?thesis using Some bt(1,2) by (simp only: Let_def option.case simp_thms)
  qed
qed

section \<open>Sending\<close>

lemma app_update_node: "app_update E X s = (r, s') \<Longrightarrow> app_node s' = app_node s"
  by (auto simp: app_update_def Let_def split: prod.splits result.splits)

lemma node_submit_transaction_Ok:
  assumes "node_submit_transaction E at s = (Ok r, s')"
    and "mempool_ok E (nd_mempool (app_node s))" and "fmlookup (mp_transactions (nd_mempool (app_node s))) (at_txid E at) = None"
  shows "nd_state (app_node s') = nd_state (app_node s)" "mempool_ok E (nd_mempool (app_node s'))"
    "mp_transactions (nd_mempool (app_node s')) = fmupd (at_txid E at) at (mp_transactions (nd_mempool (app_node s)))"
proof -
  from assms(1,3) obtain mp where mp: "mempool_put E at (nd_mempool (app_node s)) = Ok mp"
    and s': "app_node s' = (app_node s)\<lparr>nd_mempool := mp\<rparr>"
    by (auto simp: node_submit_transaction_def broadcast_transaction_def Let_def rbind_Ok_iff split: prod.splits result.splits)
  from mempool_put_outcome [OF assms(2), of at] assms(3) mp
  show "nd_state (app_node s') = nd_state (app_node s)" "mempool_ok E (nd_mempool (app_node s'))"
    "mp_transactions (nd_mempool (app_node s')) = fmupd (at_txid E at) at (mp_transactions (nd_mempool (app_node s)))"
    unfolding s' by auto
qed

text \<open>A transaction that was built, signed and sent.\<close>

lemma send_Ok:
  assumes "send E X rng build s = (Ok t, s')"
  obtains tx w at r s1 where "build (app_wallet s) = (Ok tx, w)" "wallet_authorize X rng tx w = Ok at" "t = txid E tx"
    "node_submit_transaction E at (s\<lparr>app_wallet := w\<rparr>) = (Ok r, s1)" "app_node s' = app_node s1"
  using assms
  by (auto simp: send_def sign_and_send_def app_submit_transaction_def app_broadcast_transaction_def wbind_Ok_iff on_wallet_Ok
      dest!: app_update_node)

lemma decode_memo_Ok: "decode_memo hex_decode memo s = (Ok m, s') \<Longrightarrow> s' = s"
  by (auto simp: decode_memo_def wbind_Ok_iff split: option.splits)

lemma sent_funded:
  assumes "in_step (app_wallet s) (nd_state (app_node s))" and "keys_ok E X (app_wallet s)"
    and "\<forall>batch. batch \<noteq> [] \<longrightarrow> ext_batch_verify E batch = list_all valid batch"
    and "\<forall>rng key tx. valid (wx_verifying_key X key, fst (wx_sign_tx X rng key tx), tx)"
    and "mempool_ok E (nd_mempool (app_node s))" and "fmlookup (mp_transactions (nd_mempool (app_node s))) t = None"
    and "send E X rng build s = (Ok t, s')"
    and "\<And>tx w. build (app_wallet s) = (Ok tx, w) \<Longrightarrow> funded E X fee (app_wallet s) tx w"
  shows "\<exists>at. mp_transactions (nd_mempool (app_node s')) = fmupd t at (mp_transactions (nd_mempool (app_node s)))
    \<and> validate_transaction E (nd_state (app_node s')) at = Ok fee
    \<and> mempool_ok E (nd_mempool (app_node s')) \<and> nd_state (app_node s') = nd_state (app_node s)"
proof -
  obtain tx w at r s1 where b: "build (app_wallet s) = (Ok tx, w)" and auth: "wallet_authorize X rng tx w = Ok at" and t: "t = txid E tx"
    and sub: "node_submit_transaction E at (s\<lparr>app_wallet := w\<rparr>) = (Ok r, s1)" and s1: "app_node s' = app_node s1"
    by (rule send_Ok [OF assms(7)])
  have at: "at_txid E at = t" using auth t by (auto simp: wallet_authorize_def rbind_Ok_iff at_txid_def)
  have "validate_transaction E (nd_state (app_node s)) at = Ok fee"
    using funded_accepted [OF assms(1-4) assms(8) [OF b], of rng] auth by auto
  with node_submit_transaction_Ok [OF sub] assms(5,6) at s1 show ?thesis by auto
qed

text \<open>
  C19: a payment that the RPC server reports as sent waits in the mempool. If the wallet is in
  step with the node and has the keys of its addresses, the pool is consistent and the
  signature scheme accepts its own signatures, then after a successful \<open>transfer\<close>,
  \<open>transfer_many\<close> or \<open>withdraw\<close> with a new transaction identifier exactly one transaction was
  added to the pool, under the identifier that was answered; it is valid in the state of the
  node and pays exactly the fee that was asked for.
\<close>

theorem sent_payment_is_pooled:
  assumes "in_step (app_wallet s) (nd_state (app_node s))" and "keys_ok E X (app_wallet s)"
    and "\<forall>batch. batch \<noteq> [] \<longrightarrow> ext_batch_verify E batch = list_all valid batch"
    and "\<forall>rng key tx. valid (wx_verifying_key X key, fst (wx_sign_tx X rng key tx), tx)"
    and "mempool_ok E (nd_mempool (app_node s))" and "fmlookup (mp_transactions (nd_mempool (app_node s))) t = None"
    and "rpc_transfer E X hex_decode rng dest amount fee memo s = (Ok t, s')
      \<or> rpc_transfer_many E X rng dests fee s = (Ok t, s')
      \<or> rpc_withdraw E X rng main_address amount fee main_fee s = (Ok t, s')"
  shows "\<exists>at. mp_transactions (nd_mempool (app_node s')) = fmupd t at (mp_transactions (nd_mempool (app_node s)))
    \<and> validate_transaction E (nd_state (app_node s')) at = Ok fee
    \<and> mempool_ok E (nd_mempool (app_node s')) \<and> nd_state (app_node s') = nd_state (app_node s)"
proof -
  from assms(7) obtain build where "send E X rng build s = (Ok t, s')"
    and "\<And>tx w. build (app_wallet s) = (Ok tx, w) \<Longrightarrow> funded E X fee (app_wallet s) tx w"
    unfolding rpc_transfer_def rpc_transfer_many_def rpc_withdraw_def
    by (auto simp: wbind_Ok_iff dest!: decode_memo_Ok intro: payments_funded)
  then show ?thesis by (rule sent_funded [OF assms(1-6)])
qed

section \<open>A method that cannot work\<close>

lemma swap_lowers_reserve:
  "swap_asset0_for_asset1 amount pool = Ok pool' \<Longrightarrow> reserve1 pool' \<le> reserve1 pool"
  "swap_asset1_for_asset0 amount pool = Ok pool' \<Longrightarrow> reserve0 pool' \<le> reserve0 pool"
  by (auto simp: swap_asset0_for_asset1_def swap_asset1_for_asset0_def rbind_Ok_iff checked_sub_Some_iff word_le_nat_alt Let_def)

lemma sub_word_below: "a \<le> b \<Longrightarrow> a \<noteq> b \<Longrightarrow> sub_word a b = Panic"
  by (simp add: sub_word_def checked_sub_def order.antisym)

text \<open>
  C38: the RPC method \<open>amm_swap\<close> panics on every swap that pays out. It computes the amount to
  receive as the new reserve of the received asset less the old one; a swap lowers that
  reserve, so the subtraction underflows before any transaction is built.
\<close>

theorem rpc_swap_panics:
  assumes "asset_spend \<noteq> asset_receive"
    and "fmlookup (st_amm_pools (nd_state (app_node s))) (AmmPair_new asset_spend asset_receive) = Some pool"
    and "asset_spend < asset_receive \<Longrightarrow> swap_asset0_for_asset1 amount pool = Ok pool' \<and> reserve1 pool' \<noteq> reserve1 pool"
    and "\<not> asset_spend < asset_receive \<Longrightarrow> swap_asset1_for_asset0 amount pool = Ok pool' \<and> reserve0 pool' \<noteq> reserve0 pool"
  shows "rpc_amm_swap E X rng asset_spend asset_receive amount s = (Panic, s)"
proof (cases "asset_spend < asset_receive")
  case True
  then have "asset_spend \<le> asset_receive" by simp
  moreover have "sub_word (reserve1 pool') (reserve1 pool) = (Panic :: (AppError, u64) result)"
    using assms(3) [OF True] swap_lowers_reserve(1) by (blast intro: sub_word_below)
  ultimately show ?thesis
    using True assms(1,2) assms(3) [OF True]
    by (simp add: rpc_amm_swap_def rpc_get_amm_pool_state_def on_node_def node_get_amm_pool_state_def wbind_def wread_def AmmPair_new_def)
next
  case False
  then have "asset_receive \<le> asset_spend" "\<not> asset_spend \<le> asset_receive" using assms(1) by auto
  moreover have "sub_word (reserve0 pool') (reserve0 pool) = (Panic :: (AppError, u64) result)"
    using assms(4) [OF False] swap_lowers_reserve(2) by (blast intro: sub_word_below)
  ultimately show ?thesis
    using False assms(1,2) assms(4) [OF False]
    by (simp add: rpc_amm_swap_def rpc_get_amm_pool_state_def on_node_def node_get_amm_pool_state_def wbind_def wread_def AmmPair_new_def)
qed

section \<open>Concrete applications\<close>

definition demo_app :: "Node \<Rightarrow> Wallet \<Rightarrow> App" where
  "demo_app nd w = App_new nd \<lparr>net_active_peers = [], net_known_peers = {||}\<rparr> w None"

definition demo_miner_node :: Node where
  "demo_miner_node = \<lparr>nd_archive = archive2, nd_mempool = MemPool_new, nd_state = State_new\<lparr>st_tip := Some 8, st_height := Some 0\<rparr>\<rparr>"

lemma demo_empty_root: "\<exists>root. compute_merkle_root demo_externs \<lparr>cb_memo = [], cb_outputs = []\<rparr> [] = Ok root"
  by (simp add: compute_merkle_root_def coinbase_compute_merkle_root_def outputs_compute_merkle_root_def
      outputs_merkle_leaves_def demo_externs_def)

lemma demo_common: "last_common_main_ancestor archive2 100 100 = Ok 100"
proof -
  have "get_main_height archive2 100 = Ok 0"
    by (simp add: get_main_height_def try_get_main_height_def archive2_def archive1_def with_main_header_def with_header_def main_genesis_def Let_def Archive_new_def)
  then show ?thesis by (simp add: last_common_main_ancestor_def equalize_def main_chain_def)
qed

lemma demo_template_parent:
  "template_parent 2 demo_tips ascending client 100 demo_miner_node = Some (Ok (Some 8), demo_miner_node)"
proof -
  have tables: "get_header archive2 8 = Ok genesis_header" "try_get_main_header_info archive2 100 \<noteq> None"
    by (simp_all add: get_header_def try_get_header_def demo_headers try_get_main_header_info_def archive2_def archive1_def
        with_header_def with_main_header_def main_genesis_def Let_def)
  then have "parent_on_chain 2 archive2 100 8 = Some (Ok (Some 8))" by (simp add: parent_on_chain_def fbind_def demo_common)
  with tables show ?thesis by (simp add: template_parent_def demo_miner_node_def obind_def)
qed

lemma demo_template:
  "\<exists>bt. build_block_template 2 demo_externs demo_wallet_externs demo_tips ascending client (Some 100) None (demo_app demo_miner_node Wallet_new)
      = Some (Ok bt, demo_app demo_miner_node Wallet_new) \<and> hd_prev_side_hash (bt_header bt) = Some 8 \<and> bt_body bt = Body_new [] \<lparr>cb_memo = [], cb_outputs = []\<rparr>"
proof -
  let ?s = "demo_app demo_miner_node Wallet_new"
  have node: "app_node ?s = demo_miner_node" by (simp add: demo_app_def App_new_def)
  have same: "?s\<lparr>app_node := demo_miner_node\<rparr> = ?s" "?s\<lparr>app_wallet := app_wallet ?s\<rparr> = ?s" by (simp_all add: demo_app_def App_new_def)
  have txs: "get_transactions demo_externs NUM_TRANSACTIONS demo_miner_node = Ok (([], 0), demo_miner_node)"
    by (simp add: get_transactions_def demo_miner_node_def mempool_take_def MemPool_new_def db_iter_def db_keys_def)
  obtain root where root: "compute_merkle_root demo_externs \<lparr>cb_memo = [], cb_outputs = []\<rparr> [] = Ok root" using demo_empty_root ..
  have "add_word 0 1 = (Ok 1 :: (AppError, u32) result)" by simp
  then have height: "template_height (nd_archive demo_miner_node) (Some 8) = Ok 1"
    by (simp add: template_height_def demo_miner_node_def get_height_def try_get_height_def archive2_def with_header_def Let_def
        del: add_word_Ok_iff)
  have tip: "st_tip (nd_state demo_miner_node) = Some 8" by (simp add: demo_miner_node_def)
  have coinbase: "on_wallet (template_coinbase demo_externs demo_wallet_externs 0) ?s = (Ok \<lparr>cb_memo = [], cb_outputs = []\<rparr>, ?s)"
    by (simp add: on_wallet_def template_coinbase_def wbind_def wread_def same)
  have "\<exists>bt. full_template demo_externs demo_wallet_externs None 100 (Some 8) ?s = (Ok bt, ?s)
      \<and> hd_prev_side_hash (bt_header bt) = Some 8 \<and> bt_body bt = Body_new [] \<lparr>cb_memo = [], cb_outputs = []\<rparr>"
    by (simp add: full_template_def wbind_def wread_def node txs same coinbase template_header_def root height)
  then show ?thesis by (simp add: build_block_template_def obind_def node demo_template_parent same tip Let_def)
qed

theorem block_template_is_valid_witness:
  "\<exists>bt s'. build_block_template 2 demo_externs demo_wallet_externs demo_tips ascending (\<lambda>_ _. Ok None) (Some 100) None
      (demo_app demo_miner_node Wallet_new) = Some (Ok bt, s') \<and>
     validate demo_externs (nd_state demo_miner_node) (bt_header bt) (bt_body bt) = Ok (bt_fees bt)"
proof -
  let ?s = "demo_app demo_miner_node Wallet_new"
  obtain bt where bt: "build_block_template 2 demo_externs demo_wallet_externs demo_tips ascending (\<lambda>_ _. Ok None) (Some 100) None ?s
      = Some (Ok bt, ?s)" "hd_prev_side_hash (bt_header bt) = Some 8" "bt_body bt = Body_new [] \<lparr>cb_memo = [], cb_outputs = []\<rparr>"
    using demo_template by blast
  have node: "app_node ?s = demo_miner_node" by (simp add: demo_app_def App_new_def)
  have "validate demo_externs (nd_state (app_node ?s)) (bt_header bt) (bt_body bt) = Ok (bt_fees bt)
      \<and> checked_total (map txout_value (cb_outputs (bo_coinbase (bt_body bt)))) = Ok (bt_fees bt)"
  proof (rule block_template_is_valid [OF _ _ _ bt(1)])
    show "\<forall>batch. batch \<noteq> [] \<longrightarrow> ext_batch_verify demo_externs batch = list_all (\<lambda>(key, signature, _). signature = ucast key) batch"
      by (simp add: demo_externs_def)
    show "ext_body_size demo_externs (bt_body bt) \<le> Body_MAX_SIZE" by (simp add: bt(3) demo_externs_def Body_new_def)
    show "mempool_ok demo_externs (nd_mempool (app_node ?s))" unfolding node by (simp add: demo_miner_node_def mempool_ok_new)
  qed (unfold node, simp_all add: demo_miner_node_def MemPool_new_def bt(2))
  with bt(1) node show ?thesis by auto
qed

text \<open>
  A fork of the mainchain: 100, 101, and then 102 or 103. The first sidechain block (hash 8)
  refers to 100, the second (10) to 101 and the third (11) to 102.
\<close>

definition main_at :: "bitcoin_BlockHash \<Rightarrow> bitcoin_BlockHash \<Rightarrow> u32 \<Rightarrow> BlockHeaderInfo" where
  "main_at b parent height = \<lparr>bhi_block_hash = b, bhi_prev_block_hash = parent, bhi_height = height, bhi_work = 5\<rparr>"

definition fork_header :: "BlockHash \<Rightarrow> BlockHash \<Rightarrow> bitcoin_BlockHash \<Rightarrow> Header" where
  "fork_header b parent main_block = \<lparr>hd_merkle_root = b - 7, hd_prev_side_hash = Some parent, hd_prev_main_hash = main_block\<rparr>"

definition fork1 :: Archive where
  "fork1 = (with_main_header (main_at 101 100 1) 1 10 {||} archive2)
     \<lparr>ar_exponential_main_ancestors := fmupd 101 [] (ar_exponential_main_ancestors archive2)\<rparr>"

definition fork2 :: Archive where
  "fork2 = (with_header 10 (fork_header 10 8 101) 1 {||} fork1)
     \<lparr>ar_exponential_ancestors := fmupd 10 [] (ar_exponential_ancestors fork1),
      ar_bmm_results := fmupd 10 fmempty (ar_bmm_results fork1)\<rparr>"

definition fork3 :: Archive where
  "fork3 = (with_main_header (main_at 102 101 2) 2 15 {||} fork2)
     \<lparr>ar_exponential_main_ancestors := fmupd 102 [100] (ar_exponential_main_ancestors fork2)\<rparr>"

definition fork4 :: Archive where
  "fork4 = (with_main_header (main_at 103 101 2) 2 15 {|102|} fork3)
     \<lparr>ar_exponential_main_ancestors := fmupd 103 [100] (ar_exponential_main_ancestors fork3)\<rparr>"

definition fork5 :: Archive where
  "fork5 = (with_header 11 (fork_header 11 10 102) 2 {||} fork4)
     \<lparr>ar_exponential_ancestors := fmupd 11 [8] (ar_exponential_ancestors fork4),
      ar_bmm_results := fmupd 11 fmempty (ar_bmm_results fork4)\<rparr>"

lemmas fork_defs = fork5_def fork4_def fork3_def fork2_def fork1_def archive2_def archive1_def with_header_def
  with_main_header_def main_genesis_def main_at_def fork_header_def Archive_new_def Let_def

lemma fork_hashes [simp]:
  "header_hash demo_externs (fork_header 10 p m) = 10" "header_hash demo_externs (fork_header 11 p m) = 11"
  by (simp_all add: header_hash_def demo_externs_def fork_header_def)

lemma fork_sums:
  "add_word 0 1 = (Ok 1 :: (ArchiveError, u32) result)" "add_word 1 1 = (Ok 2 :: (ArchiveError, u32) result)"
  "\<not> (2 :: u32) \<le> 1" "\<not> (2 :: u32) \<le> 0"
  by (simp_all add: word_le_nat_alt)

lemma put_fork1: "put_main_header_info demo_tips (main_at 101 100 1) archive2 = Ok fork1"
  by (simp add: put_main_header_info_def try_get_main_header_info_def add_main_successor_def get_main_successors_def
      try_get_main_successors_def skip_list_def fork_sums get_main_height_def try_get_main_height_def get_total_work_def
      try_get_total_work_def demo_tips_def fork_defs del: add_word_Ok_iff)

lemma put_fork2: "put_header demo_externs ascending (fork_header 10 8 101) fork1 = Ok fork2"
  by (simp add: put_header_def try_get_height_def add_successor_def get_successors_def try_get_successors_def skip_list_def
      populate_bmm_results_def get_main_successors_def try_get_main_successors_def get_bmm_results_def fork_sums
      fork_defs header_hash_def demo_externs_def genesis_header_def del: add_word_Ok_iff)

lemma put_fork3: "put_main_header_info demo_tips (main_at 102 101 2) fork2 = Ok fork3"
  by (simp add: put_main_header_info_def try_get_main_header_info_def add_main_successor_def get_main_successors_def
      try_get_main_successors_def skip_list_def fork_sums get_main_height_def try_get_main_height_def get_total_work_def
      try_get_total_work_def demo_tips_def nth_ancestor_def nth_ancestor_loop.simps skip_list_loop.simps main_chain_def
      get_main_header_info_def fork_defs del: add_word_Ok_iff)

lemma put_fork4: "put_main_header_info demo_tips (main_at 103 101 2) fork3 = Ok fork4"
  by (simp add: put_main_header_info_def try_get_main_header_info_def add_main_successor_def get_main_successors_def
      try_get_main_successors_def skip_list_def fork_sums get_main_height_def try_get_main_height_def get_total_work_def
      try_get_total_work_def demo_tips_def nth_ancestor_def nth_ancestor_loop.simps skip_list_loop.simps main_chain_def
      get_main_header_info_def fork_defs del: add_word_Ok_iff)

lemma put_fork5: "put_header demo_externs ascending (fork_header 11 10 102) fork4 = Ok fork5"
  by (simp add: put_header_def try_get_height_def add_successor_def get_successors_def try_get_successors_def skip_list_def
      populate_bmm_results_def get_main_successors_def try_get_main_successors_def get_bmm_results_def fork_sums
      nth_ancestor_def nth_ancestor_loop.simps skip_list_loop.simps side_chain_def get_header_def try_get_header_def
      get_height_def fork_defs header_hash_def demo_externs_def genesis_header_def del: add_word_Ok_iff)

lemma fork5_ok: "archive_ok demo_externs demo_tips fork5"
proof -
  have "archive_ok demo_externs demo_tips fork1"
    by (rule put_main_header_archive_ok [OF archive2_ok _ put_fork1]) (simp add: main_header_new_def fork_defs)
  then have "archive_ok demo_externs demo_tips fork2"
    by (rule put_header_archive_ok [OF _ _ put_fork2]) (simp add: header_new_def fork_defs header_hash_def demo_externs_def)
  then have "archive_ok demo_externs demo_tips fork3"
    by (rule put_main_header_archive_ok [OF _ _ put_fork3]) (simp add: main_header_new_def fork_defs)
  then have "archive_ok demo_externs demo_tips fork4"
    by (rule put_main_header_archive_ok [OF _ _ put_fork4]) (simp add: main_header_new_def fork_defs)
  then show ?thesis
    by (rule put_header_archive_ok [OF _ _ put_fork5]) (simp add: header_new_def fork_defs header_hash_def demo_externs_def)
qed

lemma fork5_tables:
  "get_header fork5 8 = Ok genesis_header" "get_header fork5 10 = Ok (fork_header 10 8 101)"
  "get_header fork5 11 = Ok (fork_header 11 10 102)" "get_height fork5 8 = Ok 0"
  "ar_main_header_infos fork5 = fmupd 103 (main_at 103 101 2) (fmupd 102 (main_at 102 101 2) (fmupd 101 (main_at 101 100 1)
    (fmupd 100 main_genesis fmempty)))"
  "ar_main_block_hash_to_height fork5 = fmupd 103 2 (fmupd 102 2 (fmupd 101 1 (fmupd 100 0 fmempty)))"
  "ar_exponential_main_ancestors fork5 = fmupd 103 [100] (fmupd 102 [100] (fmupd 101 [] (fmupd 100 [] fmempty)))"
  by (simp_all add: get_header_def try_get_header_def get_height_def try_get_height_def fork_defs)

lemmas fork5_search = main_chain_def get_main_height_def try_get_main_height_def get_main_header_info_def
  try_get_main_header_info_def nth_ancestor_def nth_ancestor_loop.simps fork5_tables main_at_def main_genesis_def

lemma fork5_up:
  "nth_ancestor (main_chain fork5) 103 1 = Ok 101" "nth_ancestor (main_chain fork5) 102 1 = Ok 101"
  by (simp_all add: fork5_search)

lemma fork5_common: "last_common_main_ancestor fork5 103 102 = Ok 101"
proof -
  have sum: "add_word 1 2 = (Ok 3 :: (ArchiveError, u32) result)" by simp
  have "common_depth (main_chain fork5) 103 102 1 2 = Ok 1"
    by (subst common_depth.simps, subst common_depth.simps) (simp add: sum fork5_up del: add_word_Ok_iff)
  moreover have "equalize (main_chain fork5) 103 102 = Ok (103, 102, 2)" by (simp add: equalize_def fork5_search)
  ultimately show ?thesis by (simp add: last_common_main_ancestor_def common_search_def fork5_up)
qed

lemma fork5_descent:
  "is_main_descendant fork5 102 101 = Ok False" "is_main_descendant fork5 100 101 = Ok True"
  by (simp_all add: is_main_descendant_def chain_is_descendant_def fork5_search)

lemma fork5_parent: "parent_on_chain 3 fork5 103 11 = Some (Ok (Some 8))"
  by (simp add: parent_on_chain_def fbind_def fork5_tables fork_header_def fork5_common fork5_descent genesis_header_def
      numeral_3_eq_3)

definition forked_node :: Node where
  "forked_node = \<lparr>nd_archive = fork5, nd_mempool = MemPool_new, nd_state = State_new\<lparr>st_tip := Some 11, st_height := Some 2\<rparr>\<rparr>"

lemma forked_template:
  "\<exists>bt. build_block_template 3 demo_externs demo_wallet_externs demo_tips ascending client (Some 103) None (demo_app forked_node Wallet_new)
      = Some (Ok bt, demo_app forked_node Wallet_new) \<and> hd_prev_side_hash (bt_header bt) = Some 8"
proof -
  let ?s = "demo_app forked_node Wallet_new"
  have node: "app_node ?s = forked_node" "st_tip (nd_state forked_node) = Some 11" "nd_archive forked_node = fork5"
    by (simp_all add: demo_app_def App_new_def forked_node_def)
  have same: "?s\<lparr>app_node := forked_node\<rparr> = ?s" "forked_node\<lparr>nd_archive := fork5\<rparr> = forked_node"
    by (simp_all add: demo_app_def App_new_def forked_node_def)
  have parent: "template_parent 3 demo_tips ascending client 103 forked_node = Some (Ok (Some 8), forked_node)"
    by (simp add: template_parent_def obind_def node same fork5_tables fork5_parent try_get_main_header_info_def)
  obtain root where root: "compute_merkle_root demo_externs \<lparr>cb_memo = [], cb_outputs = []\<rparr> [] = Ok root" using demo_empty_root ..
  have "add_word 0 1 = (Ok 1 :: (AppError, u32) result)" by simp
  then have "template_height fork5 (Some 8) = Ok 1" by (simp add: template_height_def fork5_tables del: add_word_Ok_iff)
  then show ?thesis
    by (simp add: build_block_template_def obind_def node parent same Let_def empty_template_def wbind_def wread_def
        template_header_def root)
qed

theorem template_builds_on_main_chain_witness:
  "\<exists>bt s'. build_block_template 3 demo_externs demo_wallet_externs demo_tips ascending (\<lambda>_ _. Ok None) (Some 103) None
      (demo_app forked_node Wallet_new) = Some (Ok bt, s') \<and>
    (\<exists>c. common_main fork5 103 102 c \<and> newest_before_fork fork5 c 11 (hd_prev_side_hash (bt_header bt)))"
proof -
  let ?s = "demo_app forked_node Wallet_new"
  obtain bt where bt: "build_block_template 3 demo_externs demo_wallet_externs demo_tips ascending (\<lambda>_ _. Ok None) (Some 103) None ?s
      = Some (Ok bt, ?s)" "hd_prev_side_hash (bt_header bt) = Some 8"
    using forked_template by blast
  have node: "nd_archive (app_node ?s) = fork5" "st_tip (nd_state (app_node ?s)) = Some 11"
    by (simp_all add: demo_app_def App_new_def forked_node_def)
  have "one_main_genesis fork5" by (auto simp: one_main_genesis_def fork5_tables main_at_def main_genesis_def split: if_splits)
  moreover have "\<forall>h. get_main_height fork5 103 = Ok h \<longrightarrow> unat h < 2 ^ 31"
    by (simp add: get_main_height_def try_get_main_height_def fork5_tables)
  ultimately obtain c where "common_main fork5 103 102 c"
    "if c = 102 then hd_prev_side_hash (bt_header bt) = Some 11 else newest_before_fork fork5 c 11 (hd_prev_side_hash (bt_header bt))"
    using template_builds_on_main_chain [OF bt(1), unfolded node, OF fork5_ok]
    by (auto simp: node fork5_tables fork_header_def Let_def split: if_splits)
  with bt show ?thesis by (auto split: if_splits)
qed

definition demo_pool_node :: Node where
  "demo_pool_node = \<lparr>nd_archive = Archive_new, nd_mempool = MemPool_new,
     nd_state = State_new\<lparr>st_amm_pools := fmupd (AmmPair_new A_Bitcoin (A_BitAsset 1)) demo_pool fmempty\<rparr>\<rparr>"

theorem rpc_swap_panics_witness:
  "rpc_amm_swap demo_externs demo_wallet_externs 0 A_Bitcoin (A_BitAsset 1) 100 (demo_app demo_pool_node Wallet_new)
    = (Panic, demo_app demo_pool_node Wallet_new)"
proof -
  have "swap_asset0_for_asset1 100 demo_pool = Ok (demo_pool\<lparr>reserve0 := 200, reserve1 := 203\<rparr>)"
    by (simp add: swap_asset0_for_asset1_def demo_pool_def after_fee_def checked_sub_def checked_add_def div_ceil_def try_into_u64_def Let_def)
  then show ?thesis
    by (intro rpc_swap_panics [where pool = demo_pool and pool' = "demo_pool\<lparr>reserve0 := 200, reserve1 := 203\<rparr>"])
      (simp_all add: demo_app_def App_new_def demo_pool_node_def demo_pool_def less_AssetId_def)
qed

definition demo_purse :: Wallet where
  "demo_purse = demo_wallet\<lparr>wa_index_to_address := fmempty\<rparr>"

definition demo_payer :: App where
  "demo_payer = demo_app \<lparr>nd_archive = Archive_new, nd_mempool = MemPool_new, nd_state = demo_state\<rparr> demo_purse"

lemma demo_purse_sels [simp]: "wa_utxos demo_purse = wa_utxos demo_wallet" "wa_unconfirmed_utxos demo_purse = fmempty"
  "wa_address_to_index demo_purse = wa_address_to_index demo_wallet" "wa_index_to_address demo_purse = fmempty"
  "wa_seed demo_purse = wa_seed demo_wallet"
  by (simp_all add: demo_purse_def)

lemma demo_payer_sels [simp]: "app_wallet demo_payer = demo_purse" "nd_state (app_node demo_payer) = demo_state"
  "nd_mempool (app_node demo_payer) = MemPool_new" "net_active_peers (app_net demo_payer) = []"
  by (simp_all add: demo_payer_def demo_app_def App_new_def)

lemma demo_purse_ok: "in_step demo_purse demo_state" "keys_ok demo_externs demo_wallet_externs demo_purse"
proof -
  show "in_step demo_purse demo_state" using demo_in_step by (simp add: in_step_def)
  have "get_tx_signing_key X i demo_purse = get_tx_signing_key X i demo_wallet" for X i by (rule get_tx_signing_key_seed) simp
  then show "keys_ok demo_externs demo_wallet_externs demo_purse" using demo_keys_ok by (simp add: keys_ok_def)
qed

lemma demo_transfer:
  "\<exists>tx. create_transfer demo_externs demo_wallet_externs 7 9 1 None demo_purse = (Ok tx, demo_purse)
    \<and> distinct (tx_inputs tx)"
proof -
  have "bitcoin_coins demo_wallet_externs demo_purse = bitcoin_coins demo_wallet_externs demo_wallet"
    by (simp only: bitcoin_coins_def demo_purse_sels demo_wallet_coins)
  then have "select_bitcoins demo_wallet_externs 10 demo_purse = select_bitcoins demo_wallet_externs 10 demo_wallet"
    by (simp add: select_bitcoins_def)
  then show ?thesis
    by (simp add: create_transfer_def create_transfer_to_def wbind_def wread_def demo_select checked_add_def sub_word_def checked_sub_def
        new_output_unless_def Transaction_new_def into_keys_def)
qed

lemma demo_update:
  assumes "app_wallet s = demo_purse"
  shows "\<exists>s'. app_update demo_externs demo_wallet_externs s = (Ok (), s')"
proof -
  have "get_addresses demo_purse = {}" by (simp add: get_addresses_def db_iter_def db_keys_def)
  then show ?thesis
    using assms by (simp add: app_update_def update_wallet_def get_unconfirmed_utxos_by_addresses_def get_utxos_by_addresses_def
        decode_rows_def Let_def demo_wallet_externs_def)
qed

lemma demo_rpc_transfer:
  "\<exists>t s'. rpc_transfer demo_externs demo_wallet_externs (\<lambda>_. None) 0 7 9 1 None demo_payer = (Ok t, s')"
proof -
  obtain tx where tx: "create_transfer demo_externs demo_wallet_externs 7 9 1 None demo_purse = (Ok tx, demo_purse)"
    and d: "distinct (tx_inputs tx)" using demo_transfer by blast
  have "\<exists>at. wallet_authorize demo_wallet_externs 0 tx demo_purse = Ok at \<and> validate_transaction demo_externs demo_state at = Ok 1"
    by (rule funded_accepted [OF demo_purse_ok _ _ payments_funded [OF disjI1 [OF tx]], of "\<lambda>(key, signature, _). signature = ucast key"])
      (simp_all add: demo_externs_def demo_wallet_externs_def)
  then obtain at where at: "wallet_authorize demo_wallet_externs 0 tx demo_purse = Ok at"
    "validate_transaction demo_externs demo_state at = Ok 1" by blast
  have "at_transaction at = tx" using at(1) by (auto simp: wallet_authorize_def rbind_Ok_iff)
  moreover have "mp_transactions MemPool_new = fmempty" by (simp add: MemPool_new_def)
  ultimately obtain mp where "mempool_put demo_externs at MemPool_new = Ok mp"
    using mempool_put_outcome [OF mempool_ok_new, of demo_externs at] d by (auto simp: spends_def)
  then have sub: "\<exists>r s1. node_submit_transaction demo_externs at demo_payer = (Ok r, s1) \<and> app_wallet s1 = demo_purse"
    using at(2) by (simp add: node_submit_transaction_def broadcast_transaction_def Let_def push_tx_def MemPool_new_def)
  then obtain r s1 where s1: "node_submit_transaction demo_externs at demo_payer = (Ok r, s1)" "app_wallet s1 = demo_purse" by blast
  obtain s2 where s2: "app_update demo_externs demo_wallet_externs s1 = (Ok (), s2)" using demo_update [OF s1(2)] by blast
  have same: "demo_payer\<lparr>app_wallet := demo_purse\<rparr> = demo_payer" by (simp add: demo_payer_def demo_app_def App_new_def)
  show ?thesis
    by (simp add: rpc_transfer_def decode_memo_def send_def sign_and_send_def app_submit_transaction_def app_broadcast_transaction_def
        on_wallet_def wbind_def wread_def tx at(1) same s1(1) s2)
qed

theorem sent_payment_is_pooled_witness:
  "\<exists>t s' at. rpc_transfer demo_externs demo_wallet_externs (\<lambda>_. None) 0 7 9 1 None demo_payer = (Ok t, s')
    \<and> fmlookup (mp_transactions (nd_mempool (app_node s'))) t = Some at \<and> validate_transaction demo_externs demo_state at = Ok 1"
proof -
  obtain t s' where t: "rpc_transfer demo_externs demo_wallet_externs (\<lambda>_. None) 0 7 9 1 None demo_payer = (Ok t, s')"
    using demo_rpc_transfer by blast
  have "\<exists>at. mp_transactions (nd_mempool (app_node s')) = fmupd t at (mp_transactions (nd_mempool (app_node demo_payer)))
      \<and> validate_transaction demo_externs (nd_state (app_node s')) at = Ok 1
      \<and> mempool_ok demo_externs (nd_mempool (app_node s')) \<and> nd_state (app_node s') = nd_state (app_node demo_payer)"
    by (rule sent_payment_is_pooled [OF _ _ _ _ _ _ disjI1 [OF t], of "\<lambda>(key, signature, _). signature = ucast key"])
      (use demo_purse_ok mempool_ok_new in \<open>simp_all add: MemPool_new_def demo_externs_def demo_wallet_externs_def\<close>)
  with t show ?thesis by auto
qed

end
