(* ===== verification/Text_Formats.thy ===== *)
theory Text_Formats
  imports Outpoint_Key
begin

text \<open>
  The text forms of addresses and keys (\<open>lib/types/address.rs\<close>, \<open>lib/types/keys.rs\<close>). A Rust string
  is the list of its UTF-8 bytes, each byte a \<open>char\<close>.

  Base58, Bech32, hexadecimal and SHA-256 are other crates: fields of \<open>format_externs\<close>.
\<close>

section \<open>Other crates\<close>

text \<open>
  \<open>fx_base58_encode\<close>, \<open>fx_base58_decode\<close>: \<open>bitcoin::base58\<close>; \<open>fx_sha256\<close>: the 32 bytes of the digest
  of the bytes of a string; \<open>fx_hex_encode\<close>, \<open>fx_hex_decode\<close>: \<open>const_hex\<close>; \<open>fx_bech32m_encode\<close>,
  \<open>fx_bech32_decode\<close>: \<open>bech32\<close>, with the human-readable part first; \<open>fx_vk_bytes\<close>,
  \<open>fx_vk_deserialize\<close>: the 32 bytes of a ristretto255 verifying key.
\<close>

record format_externs =
  fx_base58_encode :: "u8 list \<Rightarrow> string"
  fx_base58_decode :: "string \<Rightarrow> u8 list option"
  fx_sha256 :: "string \<Rightarrow> u8 list"
  fx_hex_encode :: "u8 list \<Rightarrow> string"
  fx_hex_decode :: "string \<Rightarrow> u8 list option"
  fx_bech32m_encode :: "string \<Rightarrow> u8 list \<Rightarrow> string option"
  fx_bech32_decode :: "string \<Rightarrow> (string \<times> u8 list) option"
  fx_vk_bytes :: "VerifyingKey \<Rightarrow> u8 list"
  fx_vk_deserialize :: "u8 list \<Rightarrow> VerifyingKey option"

section \<open>Strings\<close>

definition string_bytes :: "string \<Rightarrow> u8 list" where
  "string_bytes s = map of_char s"

definition bytes_string :: "u8 list \<Rightarrow> string" where
  "bytes_string bs = map (\<lambda>b. char_of (unat b)) bs"

definition strip_prefix :: "string \<Rightarrow> string \<Rightarrow> string option" where
  "strip_prefix p s = (if take (length p) s = p then Some (drop (length p) s) else None)"

definition starts_with :: "string \<Rightarrow> string \<Rightarrow> bool" where
  "starts_with s p \<longleftrightarrow> take (length p) s = p"

text \<open>The parts before and after the last occurrence of a character.\<close>

definition rsplit_once :: "char \<Rightarrow> string \<Rightarrow> (string \<times> string) option" where
  "rsplit_once c s =
     (case dropWhile (\<lambda>d. d \<noteq> c) (rev s) of
        [] \<Rightarrow> None
      | _ # before \<Rightarrow> Some (rev before, rev (takeWhile (\<lambda>d. d \<noteq> c) (rev s))))"

text \<open>
  \<open>str::to_lowercase\<close>. Letters that are not ASCII are left as they are: their lower case never
  is one of the digits with which the result is compared.
\<close>

definition to_lowercase :: "string \<Rightarrow> string" where
  "to_lowercase s = map (\<lambda>c. let n = of_char c :: nat in if 65 \<le> n \<and> n \<le> 90 then char_of (n + 32) else c) s"

text \<open>\<open>std::str::from_utf8\<close>: the bytes are well-formed UTF-8.\<close>

definition utf8_tail :: "u8 \<Rightarrow> bool" where
  "utf8_tail b \<longleftrightarrow> 128 \<le> b \<and> b \<le> 191"

definition utf8_second :: "u8 \<Rightarrow> u8 \<Rightarrow> bool" where
  "utf8_second b c =
     (if b = 224 then 160 \<le> c \<and> c \<le> 191
      else if b = 237 then 128 \<le> c \<and> c \<le> 159
      else if b = 240 then 144 \<le> c \<and> c \<le> 191
      else if b = 244 then 128 \<le> c \<and> c \<le> 143
      else utf8_tail c)"

fun utf8_valid :: "u8 list \<Rightarrow> bool" where
  "utf8_valid [] = True"
| "utf8_valid (b # bs) =
     (if b < 128 then utf8_valid bs
      else if 194 \<le> b \<and> b \<le> 223 then
        (case bs of c # rest \<Rightarrow> utf8_tail c \<and> utf8_valid rest | _ \<Rightarrow> False)
      else if 224 \<le> b \<and> b \<le> 239 then
        (case bs of c # d # rest \<Rightarrow> utf8_second b c \<and> utf8_tail d \<and> utf8_valid rest | _ \<Rightarrow> False)
      else if 240 \<le> b \<and> b \<le> 244 then
        (case bs of c # d # e # rest \<Rightarrow> utf8_second b c \<and> utf8_tail d \<and> utf8_tail e \<and> utf8_valid rest | _ \<Rightarrow> False)
      else False)"

definition from_utf8 :: "u8 list \<Rightarrow> string option" where
  "from_utf8 bs = (if utf8_valid bs then Some (bytes_string bs) else None)"

section \<open>Addresses\<close>

datatype AddressParseError =
    AP_Bs58
  | AP_MissingDepositChecksum string
  | AP_MissingDepositPrefix string
  | AP_WrongDepositChecksum string string
  | AP_WrongLength nat

definition THIS_SIDECHAIN :: u8 where
  "THIS_SIDECHAIN = 4"

definition ALL_ZEROS :: Address where
  "ALL_ZEROS = 0"

text \<open>The 20 bytes of an address, the most significant first.\<close>

definition address_bytes :: "Address \<Rightarrow> u8 list" where
  "address_bytes a = rev (le_bytes 20 a)"

definition address_of_bytes :: "u8 list \<Rightarrow> Address" where
  "address_of_bytes bs = of_le_bytes (rev bs)"

definition as_base58 :: "'x format_externs_scheme \<Rightarrow> Address \<Rightarrow> string" where
  "as_base58 X a = fx_base58_encode X (address_bytes a)"

text \<open>\<open>s{THIS_SIDECHAIN}_\<close>; the number has one digit.\<close>

definition deposit_prefix :: string where
  "deposit_prefix = [CHR ''s'', char_of (48 + unat THIS_SIDECHAIN), CHR ''_'']"

definition format_for_deposit :: "'x format_externs_scheme \<Rightarrow> Address \<Rightarrow> string" where
  "format_for_deposit X a =
     (let prefix = deposit_prefix @ as_base58 X a @ ''_''; prefix_digest = fx_sha256 X prefix in
      prefix @ fx_hex_encode X (take 3 prefix_digest))"

definition address_from_str :: "'x format_externs_scheme \<Rightarrow> string \<Rightarrow> (AddressParseError, Address) result" where
  "address_from_str X s =
     rbind (ok_or AP_Bs58 (fx_base58_decode X s)) (\<lambda>address.
     if length address = 20 then Ok (address_of_bytes address) else Err (AP_WrongLength (length address)))"

definition from_deposit_address :: "'x format_externs_scheme \<Rightarrow> string \<Rightarrow> (AddressParseError, Address) result" where
  "from_deposit_address X s =
     rbind (ok_or (AP_MissingDepositPrefix s) (strip_prefix deposit_prefix s)) (\<lambda>rest.
     rbind (ok_or (AP_MissingDepositChecksum s)
       (case rsplit_once CHR ''_'' rest of
          Some (address_str, checksum) \<Rightarrow> if checksum \<noteq> [] then Some (address_str, checksum) else None
        | None \<Rightarrow> None)) (\<lambda>(address_str, checksum).
     let digest = fx_sha256 X (deposit_prefix @ address_str @ ''_'') in
     if \<not> starts_with (fx_hex_encode X digest) (to_lowercase checksum) then Err (AP_WrongDepositChecksum s checksum)
     else address_from_str X address_str))"

section \<open>Keys\<close>

datatype Bech32mDecodeError =
    BD_Bech32m
  | BD_InvalidBytes "u8 list"
  | BD_WrongHrp string string
  | BD_WrongSize
  | BD_WrongVariant

text \<open>The 32 bytes of an encryption key, the most significant first; every 32 bytes are a key.\<close>

definition key_bytes :: "EncryptionPubKey \<Rightarrow> u8 list" where
  "key_bytes k = rev (le_bytes 32 k)"

definition key_of_bytes :: "u8 list \<Rightarrow> EncryptionPubKey" where
  "key_of_bytes bs = of_le_bytes (rev bs)"

definition epk_bech32m_encode :: "'x format_externs_scheme \<Rightarrow> EncryptionPubKey \<Rightarrow> ('e, string) result" where
  "epk_bech32m_encode X k = expect (fx_bech32m_encode X ''ba-enc'' (key_bytes k))"

definition epk_bech32m_decode :: "'x format_externs_scheme \<Rightarrow> string \<Rightarrow> (Bech32mDecodeError, EncryptionPubKey) result" where
  "epk_bech32m_decode X s =
     rbind (ok_or BD_Bech32m (fx_bech32_decode X s)) (\<lambda>(hrp, data).
     if hrp \<noteq> ''ba-enc'' then Err (BD_WrongHrp ''ba-enc'' hrp)
     else if length data \<noteq> 32 then Err BD_WrongSize
     else let res = key_of_bytes data in
       rbind (epk_bech32m_encode X res) (\<lambda>t. if s \<noteq> t then Err BD_WrongVariant else Ok res))"

definition vk_bech32m_encode :: "'x format_externs_scheme \<Rightarrow> VerifyingKey \<Rightarrow> ('e, string) result" where
  "vk_bech32m_encode X k = expect (fx_bech32m_encode X ''ba-svk'' (fx_vk_bytes X k))"

definition vk_bech32m_decode :: "'x format_externs_scheme \<Rightarrow> string \<Rightarrow> (Bech32mDecodeError, VerifyingKey) result" where
  "vk_bech32m_decode X s =
     rbind (ok_or BD_Bech32m (fx_bech32_decode X s)) (\<lambda>(hrp, data).
     if hrp \<noteq> ''ba-svk'' then Err (BD_WrongHrp ''ba-svk'' hrp)
     else if length data \<noteq> 32 then Err BD_WrongSize
     else case fx_vk_deserialize X data of
         None \<Rightarrow> Err (BD_InvalidBytes data)
       | Some res \<Rightarrow> rbind (vk_bech32m_encode X res) (\<lambda>t. if s \<noteq> t then Err BD_WrongVariant else Ok res))"

end
