(* ===== verification/Proto.thy ===== *)
theory Proto
  imports Text_Formats Mainchain_Task
begin

text \<open>
  The messages of the mainchain node and its clients (\<open>lib/types/proto.rs\<close>): decoding of
  headers, blocks, deposits and withdrawal bundle events, and the requests.

  The message types are generated from protobuf files; the records below have the fields that
  the code destructures. A hash arrives as \<open>ConsensusHex\<close> or as \<open>ReverseHex\<close>: which of them a
  field has is in the protobuf files, so a field is either here, and \<open>decode\<close> is that of its type.
  The name of a message in an error is a constructor of \<open>message\<close>. The service itself is a
  parameter, one function per method; it answers a message or a status.
\<close>

section \<open>Errors\<close>

datatype message =
    Msg_ConsensusHex | Msg_Hex | Msg_ReverseHex | Msg_BlockNotFoundError | Msg_OptionalCommitment | Msg_Commitment
  | Msg_OutPoint | Msg_DepositOutput | Msg_Deposit | Msg_WithdrawalBundleEvent | Msg_WithdrawalBundleEvent_Event
  | Msg_BlockInfo_Event | Msg_BlockInfo | Msg_GetBlockInfoResponse_Info | Msg_ResponseItem | Msg_BlockHeaderInfo
  | Msg_ConnectBlock | Msg_DisconnectBlock | Msg_SubscribeEventsResponse_Event | Msg_SubscribeEventsResponse
  | Msg_GetBlockHeaderInfoResponse | Msg_GetBlockInfoResponse | Msg_GetBmmHStarCommitmentResponse
  | Msg_GetChainInfoResponse | Msg_GetChainTipResponse | Msg_CreateBmmCriticalDataTransactionResponse
  | Msg_CreateDepositTransactionResponse | Msg_CreateNewAddressResponse

type_synonym i32 = "32 word"

datatype ProtoError =
    Pr_Grpc string
  | Pr_InvalidEnumVariant string message string
  | Pr_InvalidFieldValue string message string
  | Pr_InvalidRepeatedValue string message string
  | Pr_MissingField string message
  | Pr_UnknownEnumTag string message i32

definition missing_field :: "message \<Rightarrow> string \<Rightarrow> ProtoError" where
  "missing_field message_name field_name = Pr_MissingField field_name message_name"

definition invalid_field_value :: "message \<Rightarrow> string \<Rightarrow> string \<Rightarrow> ProtoError" where
  "invalid_field_value message_name field_name v = Pr_InvalidFieldValue field_name message_name v"

definition invalid_repeated_value :: "message \<Rightarrow> string \<Rightarrow> string \<Rightarrow> ProtoError" where
  "invalid_repeated_value message_name field_name v = Pr_InvalidRepeatedValue field_name message_name v"

definition invalid_enum_variant :: "message \<Rightarrow> string \<Rightarrow> string \<Rightarrow> ProtoError" where
  "invalid_enum_variant message_name field_name variant = Pr_InvalidEnumVariant field_name message_name variant"

section \<open>Other crates\<close>

datatype g_Network = GN_Unknown | GN_Unspecified | GN_Mainnet | GN_Regtest | GN_Signet | GN_Testnet
datatype bitcoin_Network = BN_Bitcoin | BN_Regtest | BN_Signet | BN_Testnet

text \<open>
  \<open>px_deserialize\<close>, \<open>px_serialize\<close>, \<open>px_deserialize_hex\<close>, \<open>px_serialize_hex\<close>: \<open>bitcoin::consensus\<close> at
  the types of 32 bytes; \<open>px_work\<close>: \<open>Work::from_le_bytes\<close>; \<open>px_tx_bytes\<close>: the encoding of a mainchain
  transaction; \<open>px_parse_address\<close>: parsing a mainchain address; \<open>px_network\<close>, \<open>px_network_name\<close>: the
  generated enumeration of networks; \<open>px_header_json\<close>, \<open>px_info_json\<close>: \<open>serde_json\<close>.
\<close>

record proto_externs = format_externs +
  px_deserialize :: "u8 list \<Rightarrow> hash option"
  px_serialize :: "hash \<Rightarrow> u8 list"
  px_deserialize_hex :: "string \<Rightarrow> hash option"
  px_serialize_hex :: "hash \<Rightarrow> string"
  px_work :: "hash \<Rightarrow> Work"
  px_tx_bytes :: "bitcoin_Transaction \<Rightarrow> u8 list"
  px_parse_address :: "string \<Rightarrow> main_address option"
  px_network :: "i32 \<Rightarrow> g_Network option"
  px_network_name :: "g_Network \<Rightarrow> string"
  px_header_json :: "BlockHeaderInfo \<Rightarrow> string"
  px_info_json :: "BlockHeaderInfo \<times> BlockInfo \<Rightarrow> string"

section \<open>Hexadecimal fields\<close>

datatype Hex = Hex "string option"

datatype hex_field = ConsensusHex "string option" | ReverseHex "string option"

definition consensus_hex_decode :: "proto_externs \<Rightarrow> message \<Rightarrow> string \<Rightarrow> string option \<Rightarrow> (ProtoError, hash) result" where
  "consensus_hex_decode X msg field_name hex =
     rbind (ok_or (missing_field Msg_ConsensusHex ''hex'') hex) (\<lambda>hex.
     ok_or (invalid_field_value msg field_name hex) (px_deserialize_hex X hex))"

definition consensus_hex_encode :: "proto_externs \<Rightarrow> hash \<Rightarrow> hex_field" where
  "consensus_hex_encode X h = ConsensusHex (Some (px_serialize_hex X h))"

definition Hex_decode_bytes :: "proto_externs \<Rightarrow> message \<Rightarrow> string \<Rightarrow> Hex \<Rightarrow> (ProtoError, u8 list) result" where
  "Hex_decode_bytes X msg field_name self =
     (case self of Hex hex \<Rightarrow>
       rbind (ok_or (missing_field Msg_Hex ''hex'') hex) (\<lambda>hex.
       ok_or (invalid_field_value msg field_name hex) (fx_hex_decode X hex)))"

text \<open>\<open>try_from_slice\<close> is the Borsh decoder of the type.\<close>

definition Hex_decode ::
  "proto_externs \<Rightarrow> (u8 list \<Rightarrow> 'a option) \<Rightarrow> message \<Rightarrow> string \<Rightarrow> Hex \<Rightarrow> (ProtoError, 'a) result" where
  "Hex_decode X try_from_slice msg field_name self =
     (case self of Hex hex \<Rightarrow>
       rbind (ok_or (missing_field Msg_Hex ''hex'') hex) (\<lambda>hex.
       rbind (ok_or (invalid_field_value msg field_name hex) (fx_hex_decode X hex)) (\<lambda>bytes.
       ok_or (invalid_field_value msg field_name hex) (try_from_slice bytes))))"

definition Hex_encode :: "proto_externs \<Rightarrow> u8 list \<Rightarrow> Hex" where
  "Hex_encode X bytes = Hex (Some (fx_hex_encode X bytes))"

definition reverse_hex_decode :: "proto_externs \<Rightarrow> message \<Rightarrow> string \<Rightarrow> string option \<Rightarrow> (ProtoError, hash) result" where
  "reverse_hex_decode X msg field_name hex =
     rbind (ok_or (missing_field Msg_ReverseHex ''hex'') hex) (\<lambda>hex.
     rbind (ok_or (invalid_field_value msg field_name hex) (fx_hex_decode X hex)) (\<lambda>bytes.
     ok_or (invalid_field_value msg field_name hex) (px_deserialize X (rev bytes))))"

definition reverse_hex_encode :: "proto_externs \<Rightarrow> hash \<Rightarrow> hex_field" where
  "reverse_hex_encode X h = ReverseHex (Some (fx_hex_encode X (rev (px_serialize X h))))"

fun decode :: "proto_externs \<Rightarrow> message \<Rightarrow> string \<Rightarrow> hex_field \<Rightarrow> (ProtoError, hash) result" where
  "decode X msg field_name (ConsensusHex hex) = consensus_hex_decode X msg field_name hex"
| "decode X msg field_name (ReverseHex hex) = reverse_hex_decode X msg field_name hex"

text \<open>A field that must be present and decode, and one that may be absent.\<close>

definition required :: "proto_externs \<Rightarrow> message \<Rightarrow> string \<Rightarrow> hex_field option \<Rightarrow> (ProtoError, hash) result" where
  "required X msg field_name field = rbind (ok_or (missing_field msg field_name) field) (decode X msg field_name)"

definition optional :: "proto_externs \<Rightarrow> message \<Rightarrow> string \<Rightarrow> hex_field option \<Rightarrow> (ProtoError, hash option) result" where
  "optional X msg field_name field =
     (case field of None \<Rightarrow> Ok None | Some f \<Rightarrow> rbind (decode X msg field_name f) (\<lambda>h. Ok (Some h)))"

section \<open>Networks and commitments\<close>

fun network_decode :: "proto_externs \<Rightarrow> message \<Rightarrow> string \<Rightarrow> g_Network \<Rightarrow> (ProtoError, bitcoin_Network) result" where
  "network_decode X msg field_name GN_Unknown = Err (invalid_enum_variant msg field_name (px_network_name X GN_Unknown))"
| "network_decode X msg field_name GN_Unspecified = Err (invalid_enum_variant msg field_name (px_network_name X GN_Unspecified))"
| "network_decode X msg field_name GN_Mainnet = Ok BN_Bitcoin"
| "network_decode X msg field_name GN_Regtest = Ok BN_Regtest"
| "network_decode X msg field_name GN_Signet = Ok BN_Signet"
| "network_decode X msg field_name GN_Testnet = Ok BN_Testnet"

datatype BlockNotFoundError = BlockNotFoundError bitcoin_BlockHash

definition block_not_found :: "proto_externs \<Rightarrow> hex_field option \<Rightarrow> (ProtoError, BlockNotFoundError) result" where
  "block_not_found X block_hash =
     rbind (required X Msg_BlockNotFoundError ''block_hash'' block_hash) (\<lambda>h. Ok (BlockNotFoundError h))"

text \<open>\<open>OptionalCommitment\<close>\<close>

definition optional_commitment :: "proto_externs \<Rightarrow> hex_field option \<Rightarrow> (ProtoError, BlockHash option) result" where
  "optional_commitment X commitment = optional X Msg_OptionalCommitment ''commitment'' commitment"

record g_Commitment =
  gc_commitment :: "hex_field option"
  gc_ancestor_commitments :: "hex_field option list"

text \<open>A non-empty list.\<close>

definition commitments :: "proto_externs \<Rightarrow> g_Commitment \<Rightarrow> (ProtoError, BlockHash option list) result" where
  "commitments X c =
     rbind (optional X Msg_Commitment ''commitment'' (gc_commitment c)) (\<lambda>commitment.
     rbind (try_map (optional_commitment X) (gc_ancestor_commitments c)) (\<lambda>ancestor_commitments.
     Ok (commitment # ancestor_commitments)))"

datatype g_commitment_result = GR_BlockNotFound "hex_field option" | GR_Commitment g_Commitment

fun commitment_result ::
  "proto_externs \<Rightarrow> g_commitment_result \<Rightarrow> (ProtoError, BlockNotFoundError + BlockHash option list) result" where
  "commitment_result X (GR_BlockNotFound err) = rbind (block_not_found X err) (\<lambda>e. Ok (Inl e))"
| "commitment_result X (GR_Commitment c) = rbind (commitments X c) (\<lambda>cs. Ok (Inr cs))"

section \<open>Deposits\<close>

record g_OutPoint =
  go_txid :: "hex_field option"
  go_vout :: "u32 option"

definition outpoint_of :: "proto_externs \<Rightarrow> g_OutPoint \<Rightarrow> (ProtoError, hash \<times> u32) result" where
  "outpoint_of X outpoint =
     rbind (required X Msg_OutPoint ''txid'' (go_txid outpoint)) (\<lambda>t.
     rbind (ok_or (missing_field Msg_OutPoint ''vout'') (go_vout outpoint)) (\<lambda>vout. Ok (t, vout)))"

record g_deposit_Output =
  gd_address :: "Hex option"
  gd_value_sats :: "u64 option"

text \<open>The block \<open>'address\<close>: what is not an address of either form gives the address of zeros.\<close>

definition deposit_address :: "'x format_externs_scheme \<Rightarrow> u8 list \<Rightarrow> Address" where
  "deposit_address X bytes =
     (case from_utf8 bytes of
        None \<Rightarrow> ALL_ZEROS
      | Some address_utf8 \<Rightarrow>
          (case from_deposit_address X address_utf8 of
             Ok address \<Rightarrow> address
           | _ \<Rightarrow> (case address_from_str X address_utf8 of Ok address \<Rightarrow> address | _ \<Rightarrow> ALL_ZEROS)))"

definition deposit_output :: "proto_externs \<Rightarrow> g_deposit_Output \<Rightarrow> (ProtoError, FilledOutput) result" where
  "deposit_output X out =
     rbind (ok_or (missing_field Msg_DepositOutput ''address'') (gd_address out)) (\<lambda>address.
     rbind (Hex_decode_bytes X Msg_DepositOutput ''address'' address) (\<lambda>bytes.
     rbind (ok_or (missing_field Msg_DepositOutput ''value_sats'') (gd_value_sats out)) (\<lambda>value.
     Ok \<lparr>out_address = deposit_address X bytes, out_content = F_Bitcoin value, out_memo = []\<rparr>)))"

record g_Deposit =
  gd_sequence_number :: "u64 option"
  gd_outpoint :: "g_OutPoint option"
  gd_output :: "g_deposit_Output option"

definition deposit_of :: "proto_externs \<Rightarrow> g_Deposit \<Rightarrow> (ProtoError, Deposit) result" where
  "deposit_of X d =
     rbind (ok_or (missing_field Msg_Deposit ''sequence_number'') (gd_sequence_number d)) (\<lambda>sequence_number.
     rbind (ok_or (missing_field Msg_Deposit ''outpoint'') (gd_outpoint d)) (\<lambda>outpoint.
     rbind (ok_or (missing_field Msg_Deposit ''output'') (gd_output d)) (\<lambda>output.
     rbind (outpoint_of X outpoint) (\<lambda>(t, vout).
     rbind (deposit_output X output) (\<lambda>output.
     Ok \<lparr>dp_tx_index = sequence_number, dp_txid = t, dp_vout = vout, dp_output = output\<rparr>)))))"

section \<open>Blocks\<close>

text \<open>The contents of \<open>Succeeded\<close> are not read.\<close>

datatype g_bundle_status = GB_Failed | GB_Submitted | GB_Succeeded

fun bundle_status :: "g_bundle_status \<Rightarrow> WithdrawalBundleEventStatus" where
  "bundle_status GB_Failed = WBE_Failed"
| "bundle_status GB_Submitted = WBE_Submitted"
| "bundle_status GB_Succeeded = WBE_Confirmed"

record g_WithdrawalBundleEvent =
  gw_m6id :: "hex_field option"
  gw_event :: "g_bundle_status option option"

definition bundle_event_status :: "g_bundle_status option \<Rightarrow> (ProtoError, WithdrawalBundleEventStatus) result" where
  "bundle_event_status event =
     rbind (ok_or (missing_field Msg_WithdrawalBundleEvent_Event ''event'') event) (\<lambda>event. Ok (bundle_status event))"

definition bundle_event :: "proto_externs \<Rightarrow> g_WithdrawalBundleEvent \<Rightarrow> (ProtoError, WithdrawalBundleEvent) result" where
  "bundle_event X ev =
     rbind (required X Msg_WithdrawalBundleEvent ''m6id'' (gw_m6id ev)) (\<lambda>m6id.
     rbind (ok_or (missing_field Msg_WithdrawalBundleEvent ''event'') (gw_event ev)) (\<lambda>event.
     rbind (bundle_event_status event) (\<lambda>status. Ok \<lparr>wbe_m6id = m6id, wbe_status = status\<rparr>)))"

datatype g_block_event = GE_Deposit g_Deposit | GE_WithdrawalBundle g_WithdrawalBundleEvent

fun block_event_inner :: "proto_externs \<Rightarrow> g_block_event \<Rightarrow> (ProtoError, BlockEvent) result" where
  "block_event_inner X (GE_Deposit d) = rbind (deposit_of X d) (\<lambda>d. Ok (BE_Deposit d))"
| "block_event_inner X (GE_WithdrawalBundle ev) = rbind (bundle_event X ev) (\<lambda>ev. Ok (BE_WithdrawalBundle ev))"

definition block_event :: "proto_externs \<Rightarrow> g_block_event option \<Rightarrow> (ProtoError, BlockEvent) result" where
  "block_event X event = rbind (ok_or (missing_field Msg_BlockInfo_Event ''event'') event) (block_event_inner X)"

record g_BlockInfo =
  gi_bmm_commitment :: "hex_field option"
  gi_events :: "g_block_event option list"

definition block_info_of :: "proto_externs \<Rightarrow> g_BlockInfo \<Rightarrow> (ProtoError, BlockInfo) result" where
  "block_info_of X info =
     rbind (optional X Msg_BlockInfo ''bmm_commitment'' (gi_bmm_commitment info)) (\<lambda>bmm_commitment.
     rbind (try_map (block_event X) (gi_events info)) (\<lambda>events.
     Ok \<lparr>bi_bmm_commitment = bmm_commitment, bi_events = events\<rparr>))"

record g_BlockHeaderInfo =
  gh_block_hash :: "hex_field option"
  gh_prev_block_hash :: "hex_field option"
  gh_block_height :: u32
  gh_work :: "hex_field option"

definition block_header_info :: "proto_externs \<Rightarrow> g_BlockHeaderInfo \<Rightarrow> (ProtoError, BlockHeaderInfo) result" where
  "block_header_info X info =
     rbind (required X Msg_BlockHeaderInfo ''block_hash'' (gh_block_hash info)) (\<lambda>block_hash.
     rbind (required X Msg_BlockHeaderInfo ''prev_block_hash'' (gh_prev_block_hash info)) (\<lambda>prev_block_hash.
     rbind (required X Msg_BlockHeaderInfo ''work'' (gh_work info)) (\<lambda>work.
     Ok \<lparr>bhi_block_hash = block_hash, bhi_prev_block_hash = prev_block_hash, bhi_height = gh_block_height info,
         bhi_work = px_work X work\<rparr>)))"

record g_Info =
  gi_header_info :: "g_BlockHeaderInfo option"
  gi_block_info :: "g_BlockInfo option"

definition info_of :: "proto_externs \<Rightarrow> g_Info \<Rightarrow> (ProtoError, BlockHeaderInfo \<times> BlockInfo) result" where
  "info_of X info =
     rbind (ok_or (missing_field Msg_GetBlockInfoResponse_Info ''header_info'') (gi_header_info info)) (\<lambda>header_info.
     rbind (block_header_info X header_info) (\<lambda>header_info.
     rbind (ok_or (missing_field Msg_GetBlockInfoResponse_Info ''block_info'') (gi_block_info info)) (\<lambda>block_info.
     rbind (block_info_of X block_info) (\<lambda>block_info. Ok (header_info, block_info)))))"

end
