(* ===== verification/Proto_Client.thy ===== *)
theory Proto_Client
  imports Proto
begin

text \<open>
  The two-way peg data and the events of the mainchain node, and the clients of its services
  (\<open>lib/types/proto.rs\<close>).
\<close>

section \<open>Two-way peg data\<close>

definition block_deposits :: "BlockEvent list \<Rightarrow> Deposit list" where
  "block_deposits events = List.map_filter (\<lambda>ev. case ev of BE_Deposit d \<Rightarrow> Some d | BE_WithdrawalBundle _ \<Rightarrow> None) events"

definition block_bundle_events :: "BlockEvent list \<Rightarrow> WithdrawalBundleEvent list" where
  "block_bundle_events events =
     List.map_filter (\<lambda>ev. case ev of BE_WithdrawalBundle e \<Rightarrow> Some e | BE_Deposit _ \<Rightarrow> None) events"

definition peg_deposits :: "TwoWayPegData \<Rightarrow> (bitcoin_BlockHash \<times> Deposit list) list" where
  "peg_deposits data =
     List.map_filter (\<lambda>(block_hash, events).
       let deposits = block_deposits events in if deposits = [] then None else Some (block_hash, deposits)) (block_info data)"

definition peg_bundle_events :: "TwoWayPegData \<Rightarrow> (bitcoin_BlockHash \<times> WithdrawalBundleEvent) list" where
  "peg_bundle_events data =
     concat (map (\<lambda>(block_hash, events). map (\<lambda>ev. (block_hash, ev)) (block_bundle_events events)) (block_info data))"

definition next_back :: "'a list \<Rightarrow> 'a option" where
  "next_back xs = (if xs = [] then None else Some (last xs))"

definition latest_deposit_block_hash :: "TwoWayPegData \<Rightarrow> bitcoin_BlockHash option" where
  "latest_deposit_block_hash data = map_option fst (next_back (peg_deposits data))"

definition latest_withdrawal_bundle_event_block_hash :: "TwoWayPegData \<Rightarrow> bitcoin_BlockHash option" where
  "latest_withdrawal_bundle_event_block_hash data = map_option fst (next_back (peg_bundle_events data))"

record g_ResponseItem =
  gr_block_header_info :: "g_BlockHeaderInfo option"
  gr_block_info :: "g_BlockInfo option"

definition response_item :: "proto_externs \<Rightarrow> g_ResponseItem \<Rightarrow> (ProtoError, bitcoin_BlockHash \<times> BlockInfo) result" where
  "response_item X item =
     rbind (ok_or (missing_field Msg_ResponseItem ''block_header_info'') (gr_block_header_info item)) (\<lambda>header_info.
     rbind (block_header_info X header_info) (\<lambda>header_info.
     rbind (ok_or (missing_field Msg_ResponseItem ''block_info'') (gr_block_info item)) (\<lambda>block_info.
     rbind (block_info_of X block_info) (\<lambda>block_info. Ok (bhi_block_hash header_info, block_info)))))"

text \<open>\<open>LinkedHashMap::insert\<close> puts the entry at the back, also when the key is present.\<close>

definition linked_insert :: "'k \<times> 'v \<Rightarrow> ('k \<times> 'v) list \<Rightarrow> ('k \<times> 'v) list" where
  "linked_insert e m = filter (\<lambda>(k, _). k \<noteq> fst e) m @ [e]"

text \<open>\<open>TwoWayPegData\<close> holds the events; nothing reads the commitments of its blocks.\<close>

definition two_way_peg_data_of :: "proto_externs \<Rightarrow> g_ResponseItem list \<Rightarrow> (ProtoError, TwoWayPegData) result" where
  "two_way_peg_data_of X blocks =
     rbind (try_map (response_item X) blocks) (\<lambda>items.
     Ok \<lparr>block_info = map (\<lambda>(h, info). (h, bi_events info)) (fold linked_insert items [])\<rparr>)"

section \<open>Events\<close>

datatype g_event =
    GEv_ConnectBlock "g_BlockHeaderInfo option" "g_BlockInfo option"
  | GEv_DisconnectBlock "hex_field option"

fun event_inner :: "proto_externs \<Rightarrow> g_event \<Rightarrow> (ProtoError, main_event) result" where
  "event_inner X (GEv_ConnectBlock header_info info) =
     rbind (ok_or (missing_field Msg_ConnectBlock ''header_info'') header_info) (\<lambda>header_info.
     rbind (ok_or (missing_field Msg_ConnectBlock ''block_info'') info) (\<lambda>block_info.
     rbind (block_header_info X header_info) (\<lambda>header_info.
     rbind (block_info_of X block_info) (\<lambda>block_info. Ok (ConnectBlock header_info block_info)))))"
| "event_inner X (GEv_DisconnectBlock block_hash) =
     rbind (required X Msg_DisconnectBlock ''disconnect_block'' block_hash) (\<lambda>block_hash. Ok (DisconnectBlock block_hash))"

definition event_message :: "proto_externs \<Rightarrow> g_event option \<Rightarrow> (ProtoError, main_event) result" where
  "event_message X event = rbind (ok_or (missing_field Msg_SubscribeEventsResponse_Event ''event'') event) (event_inner X)"

definition event_response :: "proto_externs \<Rightarrow> g_event option option \<Rightarrow> (ProtoError, main_event) result" where
  "event_response X event = rbind (ok_or (missing_field Msg_SubscribeEventsResponse ''event'') event) (event_message X)"

section \<open>Requests\<close>

record GetBlockHeaderInfoRequest =
  ghi_block_hash :: "hex_field option"
  ghi_max_ancestors :: "u32 option"

text \<open>\<open>GetBlockInfoRequest\<close> and \<open>GetBmmHStarCommitmentRequest\<close>\<close>

record GetBlockInfoRequest =
  gbi_block_hash :: "hex_field option"
  gbi_sidechain_id :: "u32 option"
  gbi_max_ancestors :: "u32 option"

record GetTwoWayPegDataRequest =
  gtw_sidechain_id :: "u32 option"
  gtw_start_block_hash :: "hex_field option"
  gtw_end_block_hash :: "hex_field option"

record ProposeWithdrawalBundleRequest =
  pwb_sidechain_id :: "u32 option"
  pwb_transaction :: "u8 list option"

record CreateBmmCriticalDataTransactionRequest =
  cbm_sidechain_id :: "u32 option"
  cbm_value_sats :: "u64 option"
  cbm_height :: "u32 option"
  cbm_critical_hash :: "hex_field option"
  cbm_prev_bytes :: "hex_field option"

record CreateDepositTransactionRequest =
  cdt_sidechain_id :: "u32 option"
  cdt_address :: "string option"
  cdt_value_sats :: "u64 option"
  cdt_fee_sats :: "u64 option"

text \<open>
  The services of the mainchain node. The answers to \<open>GetBmmHStarCommitment\<close>, \<open>GetChainTip\<close> and the
  two that create a transaction have one optional field; the stream of events is the list of
  its items.
\<close>

type_synonym 'a answer = "(string, 'a) result"

record services =
  sv_get_block_header_info :: "GetBlockHeaderInfoRequest \<Rightarrow> g_BlockHeaderInfo list answer"
  sv_get_block_info :: "GetBlockInfoRequest \<Rightarrow> g_Info list answer"
  sv_get_bmm_h_star_commitment :: "GetBlockInfoRequest \<Rightarrow> g_commitment_result option answer"
  sv_get_chain_info :: "i32 answer"
  sv_get_chain_tip :: "g_BlockHeaderInfo option answer"
  sv_get_two_way_peg_data :: "GetTwoWayPegDataRequest \<Rightarrow> g_ResponseItem list answer"
  sv_subscribe_events :: "u32 option \<Rightarrow> g_event option option answer list answer"
  sv_propose_withdrawal_bundle :: "ProposeWithdrawalBundleRequest \<Rightarrow> unit answer"
  sv_create_bmm_critical_data_transaction :: "CreateBmmCriticalDataTransactionRequest \<Rightarrow> hex_field option answer"
  sv_create_deposit_transaction :: "CreateDepositTransactionRequest \<Rightarrow> hex_field option answer"
  sv_create_new_address :: "string answer"

definition this_sidechain :: "u32 option" where
  "this_sidechain = Some (ucast THIS_SIDECHAIN)"

section \<open>The client of the block producer\<close>

definition propose_withdrawal_bundle :: "proto_externs \<Rightarrow> services \<Rightarrow> bitcoin_Transaction \<Rightarrow> (ProtoError, unit) result" where
  "propose_withdrawal_bundle X sv tx =
     map_err Pr_Grpc (sv_propose_withdrawal_bundle sv
       \<lparr>pwb_sidechain_id = this_sidechain, pwb_transaction = Some (px_tx_bytes X tx)\<rparr>)"

section \<open>The client of the validator\<close>

definition header_infos_request :: "proto_externs \<Rightarrow> services \<Rightarrow> bitcoin_BlockHash \<Rightarrow> u32 \<Rightarrow> (ProtoError, g_BlockHeaderInfo list) result" where
  "header_infos_request X sv block_hash max_ancestors =
     map_err Pr_Grpc (sv_get_block_header_info sv
       \<lparr>ghi_block_hash = Some (reverse_hex_encode X block_hash), ghi_max_ancestors = Some max_ancestors\<rparr>)"

definition get_block_header_info :: "proto_externs \<Rightarrow> services \<Rightarrow> bitcoin_BlockHash \<Rightarrow> (ProtoError, BlockHeaderInfo option) result" where
  "get_block_header_info X sv block_hash =
     rbind (header_infos_request X sv block_hash 0) (\<lambda>header_infos.
     case header_infos of
       [] \<Rightarrow> Ok None
     | header_info # _ \<Rightarrow> rbind (block_header_info X header_info) (\<lambda>header_info. Ok (Some header_info)))"

text \<open>The loops that check that the infos are sequential.\<close>

fun sequential_headers :: "('a \<Rightarrow> BlockHeaderInfo) \<Rightarrow> ('a \<Rightarrow> ProtoError) \<Rightarrow> bitcoin_BlockHash \<Rightarrow> 'a list \<Rightarrow> (ProtoError, unit) result" where
  "sequential_headers header err expected_block_hash [] = Ok ()"
| "sequential_headers header err expected_block_hash (info # infos) =
     (if bhi_block_hash (header info) = expected_block_hash
      then sequential_headers header err (bhi_prev_block_hash (header info)) infos
      else Err (err info))"

definition get_block_header_infos ::
  "proto_externs \<Rightarrow> services \<Rightarrow> bitcoin_BlockHash \<Rightarrow> u32 \<Rightarrow> (ProtoError, BlockHeaderInfo list option) result" where
  "get_block_header_infos X sv block_hash max_ancestors =
     rbind (header_infos_request X sv block_hash max_ancestors) (\<lambda>header_infos.
     if header_infos = [] then Ok None
     else rbind (try_map (block_header_info X) header_infos) (\<lambda>header_infos.
       rbind (sequential_headers id (\<lambda>h. invalid_repeated_value Msg_GetBlockHeaderInfoResponse ''header_infos'' (px_header_json X h))
         (bhi_prev_block_hash (hd header_infos)) (tl header_infos)) (\<lambda>_.
       Ok (Some header_infos))))"

definition get_block_infos ::
  "proto_externs \<Rightarrow> services \<Rightarrow> bitcoin_BlockHash \<Rightarrow> u32 \<Rightarrow> (ProtoError, (BlockHeaderInfo \<times> BlockInfo) list option) result" where
  "get_block_infos X sv block_hash max_ancestors =
     rbind (map_err Pr_Grpc (sv_get_block_info sv \<lparr>gbi_block_hash = Some (reverse_hex_encode X block_hash),
       gbi_sidechain_id = this_sidechain, gbi_max_ancestors = Some max_ancestors\<rparr>)) (\<lambda>infos.
     if infos = [] then Ok None
     else rbind (try_map (info_of X) infos) (\<lambda>infos.
       rbind (sequential_headers fst (\<lambda>info. invalid_repeated_value Msg_GetBlockInfoResponse ''infos'' (px_info_json X info))
         (bhi_prev_block_hash (fst (hd infos))) (tl infos)) (\<lambda>_.
       Ok (Some infos))))"

definition get_bmm_hstar_commitments ::
  "proto_externs \<Rightarrow> services \<Rightarrow> bitcoin_BlockHash \<Rightarrow> u32 \<Rightarrow> (ProtoError, BlockNotFoundError + BlockHash option list) result" where
  "get_bmm_hstar_commitments X sv block_hash max_ancestors =
     rbind (map_err Pr_Grpc (sv_get_bmm_h_star_commitment sv \<lparr>gbi_block_hash = Some (reverse_hex_encode X block_hash),
       gbi_sidechain_id = this_sidechain, gbi_max_ancestors = Some max_ancestors\<rparr>)) (\<lambda>answer.
     rbind (ok_or (missing_field Msg_GetBmmHStarCommitmentResponse ''result'') answer) (commitment_result X))"

text \<open>\<open>ChainInfo\<close> has the network as its only field.\<close>

definition get_chain_info :: "proto_externs \<Rightarrow> services \<Rightarrow> (ProtoError, bitcoin_Network) result" where
  "get_chain_info X sv =
     rbind (map_err Pr_Grpc (sv_get_chain_info sv)) (\<lambda>network.
     rbind (ok_or (Pr_UnknownEnumTag ''network'' Msg_GetChainInfoResponse network) (px_network X network))
       (network_decode X Msg_GetChainInfoResponse ''network''))"

definition get_chain_tip :: "proto_externs \<Rightarrow> services \<Rightarrow> (ProtoError, BlockHeaderInfo) result" where
  "get_chain_tip X sv =
     rbind (map_err Pr_Grpc (sv_get_chain_tip sv)) (\<lambda>answer.
     rbind (ok_or (missing_field Msg_GetChainTipResponse ''block_header_info'') answer) (block_header_info X))"

definition get_two_way_peg_data ::
  "proto_externs \<Rightarrow> services \<Rightarrow> bitcoin_BlockHash option \<Rightarrow> bitcoin_BlockHash \<Rightarrow> (ProtoError, TwoWayPegData) result" where
  "get_two_way_peg_data X sv start_block_hash end_block_hash =
     rbind (map_err Pr_Grpc (sv_get_two_way_peg_data sv \<lparr>gtw_sidechain_id = this_sidechain,
       gtw_start_block_hash = map_option (reverse_hex_encode X) start_block_hash,
       gtw_end_block_hash = Some (reverse_hex_encode X end_block_hash)\<rparr>)) (two_way_peg_data_of X)"

definition subscribe_events :: "proto_externs \<Rightarrow> services \<Rightarrow> (ProtoError, (ProtoError, main_event) result list) result" where
  "subscribe_events X sv =
     rbind (map_err Pr_Grpc (sv_subscribe_events sv this_sidechain)) (\<lambda>event_stream.
     Ok (map (\<lambda>event_res. rbind (map_err Pr_Grpc event_res) (event_response X)) event_stream))"

section \<open>The client of the wallet\<close>

definition create_bmm_critical_data_tx ::
  "proto_externs \<Rightarrow> services \<Rightarrow> u64 \<Rightarrow> u32 \<Rightarrow> hash \<Rightarrow> bitcoin_BlockHash \<Rightarrow> (ProtoError, hash) result" where
  "create_bmm_critical_data_tx X sv value_sats height critical_hash prev_bytes =
     rbind (map_err Pr_Grpc (sv_create_bmm_critical_data_transaction sv \<lparr>cbm_sidechain_id = this_sidechain,
       cbm_value_sats = Some value_sats, cbm_height = Some height,
       cbm_critical_hash = Some (consensus_hex_encode X critical_hash),
       cbm_prev_bytes = Some (reverse_hex_encode X prev_bytes)\<rparr>))
     (required X Msg_CreateBmmCriticalDataTransactionResponse ''txid'')"

definition create_deposit_tx :: "proto_externs \<Rightarrow> services \<Rightarrow> Address \<Rightarrow> u64 \<Rightarrow> u64 \<Rightarrow> (ProtoError, hash) result" where
  "create_deposit_tx X sv address value_sats fee_sats =
     rbind (map_err Pr_Grpc (sv_create_deposit_transaction sv \<lparr>cdt_sidechain_id = this_sidechain,
       cdt_address = Some (as_base58 X address), cdt_value_sats = Some value_sats, cdt_fee_sats = Some fee_sats\<rparr>))
     (required X Msg_CreateDepositTransactionResponse ''txid'')"

definition create_new_address :: "proto_externs \<Rightarrow> services \<Rightarrow> (ProtoError, main_address) result" where
  "create_new_address X sv =
     rbind (map_err Pr_Grpc (sv_create_new_address sv)) (\<lambda>address.
     ok_or (invalid_field_value Msg_CreateNewAddressResponse ''address'' address) (px_parse_address X address))"

end
