(* ===== verification/Proto_Properties.thy ===== *)
theory Proto_Properties
  imports Proto_Client
begin

text \<open>
  What the node reads of the mainchain is what the mainchain has: deposit addresses are read
  back, and the answers of the validator are taken over exactly when they are a chain.
\<close>

section \<open>Strings\<close>

lemma strip_prefix_append [simp]: "strip_prefix p (p @ s) = Some s"
  by (simp add: strip_prefix_def)

lemma rsplit_once_append:
  assumes "c \<notin> set t"
  shows "rsplit_once c (s @ c # t) = Some (s, t)"
proof -
  have "\<forall>d\<in>set (rev t). d \<noteq> c" using assms by auto
  then have "takeWhile (\<lambda>d. d \<noteq> c) (rev t @ c # rev s) = rev t" "dropWhile (\<lambda>d. d \<noteq> c) (rev t @ c # rev s) = c # rev s"
    by (simp_all add: takeWhile_append dropWhile_append)
  then show ?thesis by (simp add: rsplit_once_def)
qed

lemma starts_with_take [simp]: "starts_with s (take n s)"
  by (metis starts_with_def append_eq_conv_conj append_take_drop_id)

definition ascii :: "char \<Rightarrow> bool" where
  "ascii c \<longleftrightarrow> of_char c < (128 :: nat)"

lemma of_char_u8: "unat (of_char c :: u8) = of_char c"
proof -
  have "of_char c mod 256 = (of_char c :: nat)" by (rule of_char_mod_256)
  then have "of_char c < (256 :: nat)" by (metis mod_less_divisor zero_less_numeral)
  then have "unat (of_nat (of_char c) :: u8) = of_char c" by (simp add: unat_of_nat)
  then show ?thesis by (simp add: of_nat_of_char)
qed

lemma bytes_string_inverse [simp]: "bytes_string (string_bytes s) = s"
  by (simp add: bytes_string_def string_bytes_def of_char_u8 comp_def)

lemma utf8_ascii: "list_all ascii s \<Longrightarrow> utf8_valid (string_bytes s)"
proof (induction s)
  case (Cons c s)
  then have "(of_char c :: u8) < 128" by (simp add: word_less_nat_alt of_char_u8 ascii_def)
  with Cons show ?case by (simp add: string_bytes_def)
qed (simp add: string_bytes_def)

lemma from_utf8_ascii: "list_all ascii s \<Longrightarrow> from_utf8 (string_bytes s) = Some s"
  by (simp add: from_utf8_def utf8_ascii)

section \<open>Addresses\<close>

definition lower_hex :: string where
  "lower_hex = ''0123456789abcdef''"

text \<open>
  What the documentation of the crates says: encodings are read back; \<open>const_hex::encode\<close> writes two
  lower-case digits per byte; Base58 consists of letters and digits, and nothing else decodes.
\<close>

definition formats_ok :: "'x format_externs_scheme \<Rightarrow> bool" where
  "formats_ok X \<longleftrightarrow>
     (\<forall>bs. fx_hex_decode X (fx_hex_encode X bs) = Some bs \<and> set (fx_hex_encode X bs) \<subseteq> set lower_hex
        \<and> length (fx_hex_encode X bs) = 2 * length bs)
     \<and> (\<forall>n bs. fx_hex_encode X (take n bs) = take (2 * n) (fx_hex_encode X bs))
     \<and> (\<forall>bs. fx_base58_decode X (fx_base58_encode X bs) = Some bs)
     \<and> (\<forall>bs. \<forall>c\<in>set (fx_base58_encode X bs). ascii c \<and> c \<noteq> CHR ''_'')
     \<and> (\<forall>s. CHR ''_'' \<in> set s \<longrightarrow> fx_base58_decode X s = None)
     \<and> (\<forall>s. length (fx_sha256 X s) = 32)"

lemma address_bytes_inverse [simp]: "address_of_bytes (address_bytes a) = a"
  by (simp add: address_of_bytes_def address_bytes_def of_le_bytes_le_bytes)

lemma length_address_bytes [simp]: "length (address_bytes a) = 20"
  by (simp add: address_bytes_def)

lemma address_from_base58: "formats_ok X \<Longrightarrow> address_from_str X (as_base58 X a) = Ok a"
  by (simp add: formats_ok_def address_from_str_def as_base58_def)

lemma lower_hex_fixed: "set t \<subseteq> set lower_hex \<Longrightarrow> to_lowercase t = t"
  unfolding to_lowercase_def by (rule map_idI) (auto simp: lower_hex_def)

lemma lower_hex_chars: "set t \<subseteq> set lower_hex \<Longrightarrow> CHR ''_'' \<notin> set t \<and> list_all ascii t"
  by (auto simp: lower_hex_def list_all_iff ascii_def)

definition deposit_digest :: "'x format_externs_scheme \<Rightarrow> Address \<Rightarrow> string" where
  "deposit_digest X a = fx_hex_encode X (fx_sha256 X (deposit_prefix @ as_base58 X a @ ''_''))"

lemma from_deposit_address_checksum:
  assumes "formats_ok X" and "checksum \<noteq> []" and "CHR ''_'' \<notin> set checksum"
  shows "from_deposit_address X (deposit_prefix @ as_base58 X a @ ''_'' @ checksum)
    = (if starts_with (deposit_digest X a) (to_lowercase checksum) then Ok a
       else Err (AP_WrongDepositChecksum (deposit_prefix @ as_base58 X a @ ''_'' @ checksum) checksum))"
proof -
  have "rsplit_once CHR ''_'' (as_base58 X a @ CHR ''_'' # checksum) = Some (as_base58 X a, checksum)"
    by (rule rsplit_once_append [OF assms(3)])
  with assms(1,2) show ?thesis
    by (simp add: from_deposit_address_def deposit_digest_def address_from_base58)
qed

lemma digest_prefix_accepted:
  assumes "formats_ok X" and "0 < n"
  shows "from_deposit_address X (deposit_prefix @ as_base58 X a @ ''_'' @ take n (deposit_digest X a)) = Ok a"
proof -
  have "length (deposit_digest X a) = 64" using assms(1) by (simp add: deposit_digest_def formats_ok_def)
  then have "take n (deposit_digest X a) \<noteq> []" using assms(2) by auto
  moreover have hex: "set (take n (deposit_digest X a)) \<subseteq> set lower_hex"
    using assms(1) set_take_subset [of n "deposit_digest X a"] by (auto simp: deposit_digest_def formats_ok_def)
  ultimately show ?thesis
    using from_deposit_address_checksum [OF assms(1), of "take n (deposit_digest X a)" a]
      lower_hex_chars [OF hex] lower_hex_fixed [OF hex] by simp
qed

lemma format_for_deposit_eq:
  "formats_ok X \<Longrightarrow> format_for_deposit X a = deposit_prefix @ as_base58 X a @ ''_'' @ take 6 (deposit_digest X a)"
  by (simp add: format_for_deposit_def Let_def deposit_digest_def formats_ok_def)

lemma deposit_form_ascii:
  assumes "formats_ok X" and "list_all ascii checksum"
  shows "list_all ascii (deposit_prefix @ as_base58 X a @ ''_'' @ checksum)"
  using assms by (auto simp: formats_ok_def list_all_iff as_base58_def deposit_prefix_def THIS_SIDECHAIN_def ascii_def)

lemma base58_not_deposit_form: "formats_ok X \<Longrightarrow> strip_prefix deposit_prefix (as_base58 X a) = None"
proof (rule ccontr)
  assume ok: "formats_ok X" and "strip_prefix deposit_prefix (as_base58 X a) \<noteq> None"
  then have "take (length deposit_prefix) (as_base58 X a) = deposit_prefix" by (simp add: strip_prefix_def split: if_splits)
  moreover have "CHR ''_'' \<in> set deposit_prefix" by (simp add: deposit_prefix_def)
  ultimately have "CHR ''_'' \<in> set (as_base58 X a)" by (metis in_set_takeD)
  with ok show False by (auto simp: formats_ok_def as_base58_def)
qed

lemma deposit_address_formatted:
  assumes "formats_ok X"
  shows "deposit_address X (string_bytes (format_for_deposit X a)) = a"
proof -
  let ?c = "take 6 (deposit_digest X a)"
  have "set ?c \<subseteq> set lower_hex"
    using assms set_take_subset [of 6 "deposit_digest X a"] by (auto simp: deposit_digest_def formats_ok_def)
  then have "list_all ascii ?c" by (simp add: lower_hex_chars)
  from from_utf8_ascii [OF deposit_form_ascii [OF assms this]] show ?thesis
    unfolding format_for_deposit_eq [OF assms] deposit_address_def
    by (simp only: option.case result.case digest_prefix_accepted [OF assms zero_less_numeral])
qed

lemma deposit_output_encoded:
  "formats_ok X \<Longrightarrow> deposit_output X \<lparr>gd_address = Some (Hex_encode X bs), gd_value_sats = Some v\<rparr>
    = Ok \<lparr>out_address = deposit_address X bs, out_content = F_Bitcoin v, out_memo = []\<rparr>"
  by (simp add: deposit_output_def Hex_encode_def Hex_decode_bytes_def formats_ok_def)

text \<open>
  C23: a deposit is credited to the address for which it was made. If the text encodings of the
  other crates are read back, then the string that \<open>format_for_deposit\<close> writes is parsed to its
  address, and an output of a deposit whose address bytes are this string, or the bare Base58
  form, is credited to the address with the value of the deposit. Any non-empty part of the
  digest from its start is accepted as checksum. A checksum that is not such a part is refused,
  and the value of a deposit that carries it goes to the address of zeros.
\<close>

theorem deposit_address_roundtrip:
  assumes "formats_ok X"
  shows "from_deposit_address X (format_for_deposit X a) = Ok a
    \<and> (\<forall>s\<in>{format_for_deposit X a, as_base58 X a}.
        deposit_output X \<lparr>gd_address = Some (Hex_encode X (string_bytes s)), gd_value_sats = Some v\<rparr>
          = Ok \<lparr>out_address = a, out_content = F_Bitcoin v, out_memo = []\<rparr>)
    \<and> (\<forall>n. 0 < n \<longrightarrow> from_deposit_address X (deposit_prefix @ as_base58 X a @ ''_'' @ take n (deposit_digest X a)) = Ok a)
    \<and> (\<forall>checksum. checksum \<noteq> [] \<and> CHR ''_'' \<notin> set checksum \<and> list_all ascii checksum
         \<and> \<not> starts_with (deposit_digest X a) (to_lowercase checksum) \<longrightarrow>
        deposit_output X \<lparr>gd_address = Some (Hex_encode X (string_bytes (deposit_prefix @ as_base58 X a @ ''_'' @ checksum))),
            gd_value_sats = Some v\<rparr>
          = Ok \<lparr>out_address = ALL_ZEROS, out_content = F_Bitcoin v, out_memo = []\<rparr>)"
proof -
  have parsed: "from_deposit_address X (format_for_deposit X a) = Ok a"
    unfolding format_for_deposit_eq [OF assms] by (rule digest_prefix_accepted [OF assms]) simp
  have "list_all ascii (as_base58 X a)" using assms by (auto simp: formats_ok_def list_all_iff as_base58_def)
  then have bare: "deposit_address X (string_bytes (as_base58 X a)) = a"
    by (simp add: deposit_address_def from_utf8_ascii from_deposit_address_def base58_not_deposit_form [OF assms]
        address_from_base58 [OF assms])
  have wrong: "deposit_address X (string_bytes (deposit_prefix @ as_base58 X a @ ''_'' @ checksum)) = ALL_ZEROS"
    if c: "checksum \<noteq> []" "CHR ''_'' \<notin> set checksum" "list_all ascii checksum"
      "\<not> starts_with (deposit_digest X a) (to_lowercase checksum)" for checksum
  proof -
    let ?s = "deposit_prefix @ as_base58 X a @ ''_'' @ checksum"
    have "from_utf8 (string_bytes ?s) = Some ?s" by (rule from_utf8_ascii [OF deposit_form_ascii [OF assms c(3)]])
    moreover have "from_deposit_address X ?s = Err (AP_WrongDepositChecksum ?s checksum)"
      using from_deposit_address_checksum [OF assms c(1,2)] c(4) by simp
    moreover have "fx_base58_decode X ?s = None" using assms unfolding formats_ok_def by auto
    ultimately show ?thesis by (simp add: deposit_address_def address_from_str_def)
  qed
  show ?thesis unfolding deposit_output_encoded [OF assms]
    by (intro conjI allI impI parsed digest_prefix_accepted [OF assms])
      (simp_all add: deposit_address_formatted [OF assms] bare wrong [simplified])
qed

section \<open>Chains of blocks\<close>

text \<open>Each entry is followed by the block that it names as its parent.\<close>

fun linked :: "(BlockHeaderInfo \<times> BlockInfo) list \<Rightarrow> bool" where
  "linked (x # y # rest) \<longleftrightarrow> bhi_block_hash (fst y) = bhi_prev_block_hash (fst x) \<and> linked (y # rest)"
| "linked _ \<longleftrightarrow> True"

lemma sequential_headers_iff:
  "sequential_headers fst err (bhi_prev_block_hash (fst x)) infos = Ok () \<longleftrightarrow> linked (x # infos)"
  by (induction infos arbitrary: x) auto

text \<open>The messages that carry a header, an event and a block. \<open>wb\<close> gives the bytes of a work.\<close>

definition header_msg :: "proto_externs \<Rightarrow> (Work \<Rightarrow> hash) \<Rightarrow> BlockHeaderInfo \<Rightarrow> g_BlockHeaderInfo" where
  "header_msg X wb h = \<lparr>gh_block_hash = Some (reverse_hex_encode X (bhi_block_hash h)),
     gh_prev_block_hash = Some (reverse_hex_encode X (bhi_prev_block_hash h)), gh_block_height = bhi_height h,
     gh_work = Some (consensus_hex_encode X (wb (bhi_work h)))\<rparr>"

definition deposit_msg :: "proto_externs \<Rightarrow> Deposit \<Rightarrow> g_Deposit" where
  "deposit_msg X d = \<lparr>gd_sequence_number = Some (dp_tx_index d),
     gd_outpoint = Some \<lparr>go_txid = Some (reverse_hex_encode X (dp_txid d)), go_vout = Some (dp_vout d)\<rparr>,
     gd_output = Some \<lparr>gd_address = Some (Hex_encode X (string_bytes (format_for_deposit X (out_address (dp_output d))))),
       gd_value_sats = Some (utxo_value (dp_output d))\<rparr>\<rparr>"

fun status_msg :: "WithdrawalBundleEventStatus \<Rightarrow> g_bundle_status" where
  "status_msg WBE_Confirmed = GB_Succeeded"
| "status_msg WBE_Failed = GB_Failed"
| "status_msg WBE_Submitted = GB_Submitted"

fun event_msg :: "proto_externs \<Rightarrow> BlockEvent \<Rightarrow> g_block_event" where
  "event_msg X (BE_Deposit d) = GE_Deposit (deposit_msg X d)"
| "event_msg X (BE_WithdrawalBundle e) = GE_WithdrawalBundle
     \<lparr>gw_m6id = Some (consensus_hex_encode X (wbe_m6id e)), gw_event = Some (Some (status_msg (wbe_status e)))\<rparr>"

definition info_msg :: "proto_externs \<Rightarrow> (Work \<Rightarrow> hash) \<Rightarrow> BlockHeaderInfo \<times> BlockInfo \<Rightarrow> g_Info" where
  "info_msg X wb info = \<lparr>gi_header_info = Some (header_msg X wb (fst info)),
     gi_block_info = Some \<lparr>gi_bmm_commitment = map_option (consensus_hex_encode X) (bi_bmm_commitment (snd info)),
       gi_events = map (Some \<circ> event_msg X) (bi_events (snd info))\<rparr>\<rparr>"

text \<open>What the documentation of \<open>bitcoin::consensus\<close> says: encodings are read back.\<close>

definition consensus_ok :: "proto_externs \<Rightarrow> (Work \<Rightarrow> hash) \<Rightarrow> bool" where
  "consensus_ok X wb \<longleftrightarrow> (\<forall>h. px_deserialize X (px_serialize X h) = Some h)
     \<and> (\<forall>h. px_deserialize_hex X (px_serialize_hex X h) = Some h) \<and> (\<forall>w. px_work X (wb w) = w)"

text \<open>A deposit is a coin of bitcoins without a memo.\<close>

fun plain_event :: "BlockEvent \<Rightarrow> bool" where
  "plain_event (BE_Deposit d) \<longleftrightarrow> (\<exists>v. out_content (dp_output d) = F_Bitcoin v) \<and> out_memo (dp_output d) = []"
| "plain_event (BE_WithdrawalBundle _) \<longleftrightarrow> True"

definition messages_ok :: "proto_externs \<Rightarrow> (Work \<Rightarrow> hash) \<Rightarrow> bool" where
  "messages_ok X wb \<longleftrightarrow> formats_ok X \<and> consensus_ok X wb"

lemma decode_encoded:
  assumes "messages_ok X wb"
  shows "decode X msg field (reverse_hex_encode X h) = Ok h" "decode X msg field (consensus_hex_encode X h) = Ok h"
  using assms
  by (simp_all add: reverse_hex_encode_def consensus_hex_encode_def reverse_hex_decode_def consensus_hex_decode_def
      messages_ok_def formats_ok_def consensus_ok_def)

lemma header_msg_read: "messages_ok X wb \<Longrightarrow> block_header_info X (header_msg X wb h) = Ok h"
  by (simp add: block_header_info_def header_msg_def required_def decode_encoded) (simp add: messages_ok_def consensus_ok_def)

lemma deposit_msg_read:
  assumes "messages_ok X wb" and "plain_event (BE_Deposit d)"
  shows "deposit_of X (deposit_msg X d) = Ok d"
proof -
  have ok: "formats_ok X" using assms(1) by (simp add: messages_ok_def)
  obtain i t n a v where "d = \<lparr>dp_tx_index = i, dp_txid = t, dp_vout = n,
      dp_output = \<lparr>out_address = a, out_content = F_Bitcoin v, out_memo = []\<rparr>\<rparr>"
    using assms(2) by (cases d; cases "dp_output d") auto
  then show ?thesis
    by (simp add: deposit_of_def deposit_msg_def outpoint_of_def required_def decode_encoded [OF assms(1)]
        deposit_output_encoded [OF ok] deposit_address_formatted [OF ok] filled_get_bitcoin_value_def)
qed

lemma event_msg_read:
  assumes "messages_ok X wb" and "plain_event ev"
  shows "block_event X (Some (event_msg X ev)) = Ok ev"
proof (cases ev)
  case (BE_Deposit d)
  then show ?thesis using deposit_msg_read [OF assms(1)] assms(2) by (simp add: block_event_def)
next
  case (BE_WithdrawalBundle e)
  then show ?thesis
    by (cases e; cases "wbe_status e")
      (simp_all add: block_event_def bundle_event_def bundle_event_status_def required_def decode_encoded [OF assms(1)])
qed

lemma info_msg_read:
  assumes "messages_ok X wb" and "list_all plain_event (bi_events (snd info))"
  shows "info_of X (info_msg X wb info) = Ok info"
proof -
  have "list_all2 (\<lambda>x y. block_event X x = Ok y) (map (Some \<circ> event_msg X) (bi_events (snd info))) (bi_events (snd info))"
    using assms(2) event_msg_read [OF assms(1)] by (auto simp: list_all2_conv_all_nth list_all_length)
  then have "try_map (block_event X) (map (Some \<circ> event_msg X) (bi_events (snd info))) = Ok (bi_events (snd info))"
    by (simp only: try_map_Ok_iff)
  then show ?thesis
    by (cases info) (simp add: info_of_def info_msg_def header_msg_read [OF assms(1)] block_info_of_def optional_def
        decode_encoded [OF assms(1)] split: option.split)
qed

text \<open>
  C24: the client of the validator takes over exactly the chains. What \<open>get_block_infos\<close> answers is
  a non-empty list in which each block is followed by its parent. Conversely, when the service
  answers the messages of such a list, whose deposits are coins of bitcoins without a memo, then
  \<open>get_block_infos\<close> answers this list: every header, commitment, deposit and bundle event
  is read back. When the list is not a chain the answer is an error.
\<close>

theorem block_infos_exact:
  assumes "messages_ok X wb" and "list_all (\<lambda>info. list_all plain_event (bi_events (snd info))) infos" and "infos \<noteq> []"
    and "sv_get_block_info sv \<lparr>gbi_block_hash = Some (reverse_hex_encode X block_hash), gbi_sidechain_id = Some 4,
        gbi_max_ancestors = Some max_ancestors\<rparr> = Ok (map (info_msg X wb) infos)"
  shows "(linked infos \<longrightarrow> get_block_infos X sv block_hash max_ancestors = Ok (Some infos))
    \<and> (\<not> linked infos \<longrightarrow> (\<exists>v. get_block_infos X sv block_hash max_ancestors
          = Err (Pr_InvalidRepeatedValue ''infos'' Msg_GetBlockInfoResponse v)))
    \<and> (\<forall>sv' block_hash' n infos'. get_block_infos X sv' block_hash' n = Ok (Some infos') \<longrightarrow> infos' \<noteq> [] \<and> linked infos')"
proof -
  obtain x rest where infos: "infos = x # rest" using assms(3) by (cases infos) auto
  let ?err = "\<lambda>info. invalid_repeated_value Msg_GetBlockInfoResponse ''infos'' (px_info_json X info)"
  have "list_all2 (\<lambda>m info. info_of X m = Ok info) (map (info_msg X wb) infos) infos"
    using assms(2) info_msg_read [OF assms(1)] by (auto simp: list_all2_conv_all_nth list_all_length)
  then have "try_map (info_of X) (map (info_msg X wb) infos) = Ok infos" by (simp only: try_map_Ok_iff)
  then have run: "get_block_infos X sv block_hash max_ancestors
      = rbind (sequential_headers fst ?err (bhi_prev_block_hash (fst x)) rest) (\<lambda>_. Ok (Some infos))"
    using assms(3,4) infos by (simp add: get_block_infos_def this_sidechain_def THIS_SIDECHAIN_def)
  have "\<exists>info. sequential_headers fst ?err h l = Err (?err info)" if "sequential_headers fst ?err h l \<noteq> Ok ()" for h l
    using that by (induction l arbitrary: h) auto
  then have bad: "\<not> linked infos \<Longrightarrow> \<exists>v. get_block_infos X sv block_hash max_ancestors
      = Err (Pr_InvalidRepeatedValue ''infos'' Msg_GetBlockInfoResponse v)"
    using run infos sequential_headers_iff [of ?err x rest] by (fastforce simp: invalid_repeated_value_def)
  have chain: "infos' \<noteq> [] \<and> linked infos'" if "get_block_infos X sv' block_hash' n = Ok (Some infos')" for sv' block_hash' n infos'
  proof -
    from that obtain ms where "ms \<noteq> []" "try_map (info_of X) ms = Ok infos'"
      and seq: "sequential_headers fst ?err (bhi_prev_block_hash (fst (hd infos'))) (tl infos') = Ok ()"
      by (auto simp: get_block_infos_def rbind_Ok_iff split: if_splits)
    then have "infos' \<noteq> []" using try_map_length by fastforce
    with seq sequential_headers_iff [of ?err "hd infos'" "tl infos'"] show ?thesis by simp
  qed
  show ?thesis using run infos sequential_headers_iff [of ?err x rest] bad chain by auto
qed

section \<open>An instance of the other crates\<close>

definition hex_digit :: "nat \<Rightarrow> char" where
  "hex_digit n = lower_hex ! n"

definition digit_value :: "char \<Rightarrow> nat" where
  "digit_value c = (if of_char c < (58 :: nat) then of_char c - 48 else of_char c - 87)"

definition to_hex :: "u8 list \<Rightarrow> string" where
  "to_hex bs = concat (map (\<lambda>b. [hex_digit (unat b div 16), hex_digit (unat b mod 16)]) bs)"

fun of_hex :: "string \<Rightarrow> u8 list option" where
  "of_hex [] = Some []"
| "of_hex (c # d # rest) =
     (if c \<in> set lower_hex \<and> d \<in> set lower_hex
      then map_option (\<lambda>bs. of_nat (16 * digit_value c + digit_value d) # bs) (of_hex rest) else None)"
| "of_hex [_] = None"

lemma digit_value_digit: "n < 16 \<Longrightarrow> digit_value (hex_digit n) = n"
proof -
  have "\<forall>n\<in>set [0..<16]. digit_value (hex_digit n) = n" by code_simp
  then show "n < 16 \<Longrightarrow> digit_value (hex_digit n) = n" by simp
qed

lemma hex_digit_lower: "n < 16 \<Longrightarrow> hex_digit n \<in> set lower_hex"
  unfolding hex_digit_def by (rule nth_mem) (simp add: lower_hex_def)

lemma byte_digits: "unat (b :: u8) div 16 < 16"
proof -
  have "unat b < 2 ^ LENGTH(8)" by (rule unsigned_less)
  then show ?thesis by simp
qed

lemma of_hex_to_hex: "of_hex (to_hex bs) = Some bs"
proof (induction bs)
  case (Cons b bs)
  have "(of_nat (16 * (unat b div 16) + unat b mod 16) :: u8) = b" by (simp only: mult_div_mod_eq) simp
  then have "of_hex (hex_digit (unat b div 16) # hex_digit (unat b mod 16) # to_hex bs) = Some (b # bs)"
    using Cons.IH by (simp only: of_hex.simps digit_value_digit hex_digit_lower byte_digits) simp
  then show ?case by (simp add: to_hex_def)
qed (simp add: to_hex_def)

lemma set_to_hex: "set (to_hex bs) \<subseteq> set lower_hex"
  using hex_digit_lower byte_digits by (fastforce simp: to_hex_def)

lemma length_to_hex [simp]: "length (to_hex bs) = 2 * length bs"
  by (induction bs) (simp_all add: to_hex_def)

lemma to_hex_take: "to_hex (take n bs) = take (2 * n) (to_hex bs)"
proof (induction bs arbitrary: n)
  case (Cons b bs)
  then show ?case by (cases n) (simp_all add: to_hex_def)
qed (simp add: to_hex_def)

lemma of_hex_only_digits: "of_hex s = Some bs \<Longrightarrow> set s \<subseteq> set lower_hex"
  by (induction s arbitrary: bs rule: of_hex.induct) (auto split: if_splits)

lemma hash_bytes_inverse: "of_le_bytes (le_bytes 32 h) = (h :: hash)"
  by (simp add: of_le_bytes_le_bytes)

definition demo_proto :: proto_externs where
  "demo_proto = \<lparr>fx_base58_encode = to_hex, fx_base58_decode = of_hex, fx_sha256 = (\<lambda>s. replicate 32 (of_nat (length s))),
     fx_hex_encode = to_hex, fx_hex_decode = of_hex, fx_bech32m_encode = (\<lambda>hrp bs. Some (hrp @ to_hex bs)),
     fx_bech32_decode = (\<lambda>_. None), fx_vk_bytes = (\<lambda>k. le_bytes 32 k), fx_vk_deserialize = (\<lambda>bs. Some (of_le_bytes bs)),
     px_deserialize = (\<lambda>bs. if length bs = 32 then Some (of_le_bytes bs) else None), px_serialize = le_bytes 32,
     px_deserialize_hex = (\<lambda>s. map_option of_le_bytes (of_hex s)), px_serialize_hex = (\<lambda>h. to_hex (le_bytes 32 h)),
     px_work = id, px_tx_bytes = (\<lambda>_. []), px_parse_address = (\<lambda>_. None), px_network = (\<lambda>_. None),
     px_network_name = (\<lambda>_. []), px_header_json = (\<lambda>_. []), px_info_json = (\<lambda>_. [])\<rparr>"

lemma demo_formats_ok: "formats_ok demo_proto"
proof -
  have "of_hex s = None" if "CHR ''_'' \<in> set s" for s
    using that of_hex_only_digits [of s] by (cases "of_hex s") (auto simp: lower_hex_def)
  moreover have "\<forall>c\<in>set (to_hex bs). ascii c \<and> c \<noteq> CHR ''_''" for bs
    using lower_hex_chars [OF set_to_hex, of bs] by (auto simp: list_all_iff)
  ultimately show ?thesis
    using of_hex_to_hex set_to_hex to_hex_take unfolding formats_ok_def demo_proto_def by simp
qed

lemma demo_messages_ok: "messages_ok demo_proto id"
  using demo_formats_ok by (simp add: messages_ok_def consensus_ok_def demo_proto_def of_hex_to_hex hash_bytes_inverse)

theorem deposit_address_roundtrip_witness:
  "from_deposit_address demo_proto (format_for_deposit demo_proto 7) = Ok 7
    \<and> deposit_output demo_proto \<lparr>gd_address = Some (Hex_encode demo_proto (string_bytes (as_base58 demo_proto 7))), gd_value_sats = Some 5\<rparr>
      = Ok \<lparr>out_address = 7, out_content = F_Bitcoin 5, out_memo = []\<rparr>"
  using deposit_address_roundtrip [OF demo_formats_ok, of 7 5] by simp

text \<open>Two blocks, the newer one with a deposit and a bundle event.\<close>

definition demo_infos :: "(BlockHeaderInfo \<times> BlockInfo) list" where
  "demo_infos = [(\<lparr>bhi_block_hash = 101, bhi_prev_block_hash = 100, bhi_height = 1, bhi_work = 2\<rparr>,
       \<lparr>bi_bmm_commitment = Some 8, bi_events = [BE_Deposit \<lparr>dp_tx_index = 0, dp_txid = 4, dp_vout = 1,
            dp_output = \<lparr>out_address = 7, out_content = F_Bitcoin 5, out_memo = []\<rparr>\<rparr>,
          BE_WithdrawalBundle \<lparr>wbe_m6id = 9, wbe_status = WBE_Failed\<rparr>]\<rparr>),
     (\<lparr>bhi_block_hash = 100, bhi_prev_block_hash = 0, bhi_height = 0, bhi_work = 2\<rparr>,
       \<lparr>bi_bmm_commitment = None, bi_events = []\<rparr>)]"

definition demo_services :: services where
  "demo_services = \<lparr>sv_get_block_header_info = (\<lambda>_. Ok []), sv_get_block_info = (\<lambda>_. Ok (map (info_msg demo_proto id) demo_infos)),
     sv_get_bmm_h_star_commitment = (\<lambda>_. Ok None), sv_get_chain_info = Ok 0, sv_get_chain_tip = Ok None,
     sv_get_two_way_peg_data = (\<lambda>_. Ok []), sv_subscribe_events = (\<lambda>_. Ok []), sv_propose_withdrawal_bundle = (\<lambda>_. Ok ()),
     sv_create_bmm_critical_data_transaction = (\<lambda>_. Ok None), sv_create_deposit_transaction = (\<lambda>_. Ok None),
     sv_create_new_address = Ok []\<rparr>"

theorem block_infos_exact_witness: "get_block_infos demo_proto demo_services 101 1 = Ok (Some demo_infos)"
  using block_infos_exact [OF demo_messages_ok, of demo_infos demo_services 101 1]
  by (simp add: demo_infos_def demo_services_def)

end
