(* ===== verification/App_Mainchain.thy ===== *)
theory App_Mainchain
  imports App Proto_Client
begin

text \<open>
  The operations of the application that ask the wallet of the mainchain node
  (\<open>app/app.rs\<close>): a new mainchain address and a deposit.
\<close>

text \<open>\<open>require_network\<close> answers the address if it belongs to the network; \<open>unwrap\<close> panics otherwise.\<close>

definition get_new_main_address ::
  "proto_externs \<Rightarrow> services \<Rightarrow> (main_address \<Rightarrow> bitcoin_Network \<Rightarrow> main_address option) \<Rightarrow> App \<Rightarrow> (AppError, main_address) result" where
  "get_new_main_address X sv require_network s =
     (if app_miner s = None then Err App_NoCusfMainchainWalletClient
      else rbind (map_err (\<lambda>_. App_CusfMainchain) (get_chain_info X sv)) (\<lambda>network.
        rbind (map_err (\<lambda>_. App_CusfMainchain) (create_new_address X sv)) (\<lambda>address.
        expect (require_network address network))))"

definition app_deposit :: "proto_externs \<Rightarrow> services \<Rightarrow> Address \<Rightarrow> u64 \<Rightarrow> u64 \<Rightarrow> App \<Rightarrow> (AppError, hash) result" where
  "app_deposit X sv address amount fee s =
     (if app_miner s = None then Err App_NoCusfMainchainWalletClient
      else map_err (\<lambda>_. App_CusfMainchain) (create_deposit_tx X sv address amount fee))"

end
