(* ===== verification/Spec2Isabelle.thy ===== *)
theory Spec2Isabelle
  imports Block_Value Block_Refinement Block_Undo Amm_Properties Auction_Properties BitAsset_Properties
    Bundle_Properties Peg_Invariant Peg_Undo Mempool_Properties Archive_Properties
    Node_Properties Block_Template Net_Properties Wallet_Properties App_Properties
    Proto_Properties App_Mainchain
begin

text \<open>
  Verification of the BitAssets sidechain node.

  \<^bold>\<open>The program.\<close> A node keeps the state of a sidechain (\<open>lib/state\<close>): the coins (UTXO and STXO
  tables), the registered BitAssets and their reservations, the AMM pools, the Dutch auctions
  and the two-way peg to the mainchain. Blocks of transactions (\<open>lib/types\<close>) are validated
  against this state and connected to it; a reorganisation disconnects them again. After the
  body of a block the two-way peg data of the mainchain blocks it refers to are connected:
  deposits create coins, withdrawal bundles destroy them. The transactions of the next block
  wait in the mempool (\<open>lib/mempool.rs\<close>). Headers, bodies and what is known of the mainchain are
  in the archive (\<open>lib/archive\<close>). The node (\<open>lib/node\<close>) runs one task that follows the mainchain and
  one that talks to peers (\<open>lib/net\<close>), and moves the tip of the state to the best known tip.
  The wallet (\<open>lib/wallet.rs\<close>) derives keys, keeps the coins at its addresses and builds transactions;
  the application (\<open>app\<close>) joins node, wallet and miner (\<open>lib/miner.rs\<close>) and serves RPC methods.

  \<^bold>\<open>Theories and sources.\<close>
  \<^item> \<open>Prelude\<close>: machine words, Rust's checked arithmetic, results with \<open>Ok\<close>, \<open>Err\<close> and \<open>Panic\<close>.
    \<open>Database\<close>: tables as finite maps behind the interface \<open>kv_store\<close> (interpreted as \<open>db\<close>), and
    the interfaces \<open>stepwise\<close> (operations that keep an invariant) and \<open>reversible\<close> (operations
    with an inverse), each with a lemma that lifts it to sequences of operations.
  \<^item> \<open>Types\<close>, \<open>Outpoint_Key\<close>, \<open>Filled_Transaction\<close>, \<open>Fill_Outputs\<close>, \<open>Merkle\<close>: \<open>lib/types\<close>. Identifiers
    and hashes are 256-bit words, amounts \<open>u64\<close>; structs are records and enums datatypes with the
    constructors of the source. \<open>Fill_Outputs\<close> is \<open>FilledTransaction::filled_outputs\<close> and the totals
    it draws on. \<open>Asset_Conservation\<close>: an asset in the outputs is spent, issued or credited.
  \<^item> \<open>State_Error\<close>: \<open>lib/state/error.rs\<close>. \<open>Extern_Laws\<close>: what is assumed of other crates.
  \<^item> \<open>Rollback\<close> (\<open>rollback.rs\<close>), \<open>Amm\<close> and \<open>Amm_Properties\<close> (\<open>amm.rs\<close>), \<open>Dutch_Auction\<close> and
    \<open>Auction_Properties\<close> (\<open>dutch_auction.rs\<close>), \<open>BitAssets\<close> and \<open>BitAsset_Properties\<close>
    (\<open>bitassets.rs\<close>): for each table its invariant, that every operation keeps it, the outcome
    of the operations on every branch, and that reverting undoes applying; for \<open>bitassets.rs\<close> also the
    exact effect of a registration, a mint and an update. The operations are
    interpreted as \<open>stepwise\<close> (\<open>burn_op\<close>, \<open>mint_op\<close>, \<open>swap_op\<close>, \<open>bid_op\<close>, \<open>create_op\<close>, \<open>collect_op\<close>,
    \<open>update_op\<close>, \<open>mint_supply_op\<close>).
  \<^item> \<open>Authorizing\<close> (\<open>lib/authorization.rs\<close>), \<open>Chain_State\<close> (\<open>state/mod.rs\<close>) and \<open>Block\<close>
    (\<open>state/block.rs\<close>): the record \<open>State\<close> of the tables, filling and validating transactions,
    validating, connecting and disconnecting blocks. \<open>Block_Value\<close>: no double spend, every spend
    authorized, no inflation. \<open>Block_Refinement\<close>: the optimised \<open>connect_prevalidated\<close> implements
    the plain \<open>connect\<close>. \<open>Block_Undo\<close>: \<open>disconnect_tip\<close> restores the state (\<open>tx_op\<close>, an
    interpretation of \<open>reversible\<close>).
  \<^item> \<open>Withdrawal_Bundle\<close> and \<open>Two_Way_Peg\<close> (\<open>state/two_way_peg_data.rs\<close>): weights and collection of
    bundles, connecting and disconnecting deposits and bundle events. \<open>Bundle_Properties\<close>: a bundle
    pays out exactly what it spends, does not depend on the order of a hash map and respects the
    weight limit. \<open>Peg_Invariant\<close>: the statuses of a bundle as a step relation and the invariant
    \<open>peg_ok\<close> (\<open>peg_event\<close>, \<open>bundle_spend\<close>, \<open>bundle_unspend\<close>). \<open>Peg_Undo\<close>: disconnecting undoes
    connecting (\<open>peg_op\<close>), panics on a table of more than 255 rows, and the case in which it leaves
    a bundle behind.
  \<^item> \<open>Mempool\<close> and \<open>Mempool_Properties\<close> (\<open>lib/mempool.rs\<close>): accepting a transaction, and deleting one
    together with exactly its descendants.
  \<^item> \<open>Ancestry\<close>, \<open>Archive\<close>, \<open>Archive_Walks\<close> (\<open>archive/mod.rs\<close>, \<open>archive/iter.rs\<close>) and \<open>Side_Tips\<close>
    (\<open>archive/side_tips\<close>): the tables of headers, bodies and mainchain blocks, the searches through
    skip lists, the comparison of tips, the iterators, and the candidate tips. \<open>ancestry\<close> is the
    interface of a chain with skip lists, interpreted for both chains (\<open>side\<close>, \<open>main\<close>) in
    \<open>Archive_Invariant\<close>, which holds the invariant \<open>archive_ok\<close>. \<open>Archive_Properties\<close>: every sequence
    of operations (\<open>archive_step\<close>) keeps it, the searches compute what the parent links define, invalidating a block removes
    exactly its descendants.
  \<^item> \<open>Seed_Address\<close> (\<open>types/net.rs\<close>), \<open>Peer\<close> (\<open>net/peer\<close>) and \<open>Net\<close> (\<open>net/mod.rs\<close>): addresses, the
    messages and the connection task of a peer, and the table of active and known peers.
  \<^item> \<open>Node_Tip\<close> and \<open>Net_Task\<close> (\<open>node/net_task.rs\<close>), \<open>Mainchain_Task\<close> (\<open>node/mainchain_task.rs\<close>) and
    \<open>Node\<close> (\<open>node/mod.rs\<close>): the record \<open>Node\<close> of the databases, connecting and disconnecting the tip,
    re-orgs, one step per item of the tasks' mailboxes, and the operations of the node.
    \<open>Node_Properties\<close>: a re-org moves the tip only to one that \<open>better_tip\<close> prefers, and what it leaves
    behind on every branch. \<open>Block_Template\<close>: the
    transactions chosen for a block make a valid block. \<open>Net_Properties\<close>: the headers with which a
    peer answers a request are accepted and stored.
  \<^item> \<open>Text_Formats\<close> (\<open>types/address.rs\<close>, \<open>types/keys.rs\<close>), \<open>Proto\<close> and \<open>Proto_Client\<close> (\<open>types/proto.rs\<close>):
    addresses and keys as text; the messages of the mainchain node, from which its headers,
    deposits and bundle events are read, and the clients that ask for them. \<open>Proto_Properties\<close>: a
    deposit is credited to the address for which it was made, and the client takes over exactly
    the answers that are chains of blocks.
  \<^item> \<open>Wallet\<close> and \<open>Wallet_Tx\<close> (\<open>lib/wallet.rs\<close>): the record \<open>Wallet\<close> of the tables, seeds, keys and
    addresses; the selection of coins, the builders of transactions, signing, the coins as the
    node reports them, balances. \<open>Wallet_Properties\<close>: selections are exact, the node accepts every
    payment that the wallet builds and signs, a reserved name can be registered, and two
    selections that go wrong.
  \<^item> \<open>App\<close> (\<open>lib/miner.rs\<close>, \<open>app/app.rs\<close>): the record \<open>App\<close> of node, wallet and miner, updating the
    wallet, signing and sending, building a block template, mining. \<open>App_Mainchain\<close>: deposits and
    mainchain addresses. \<open>Rpc_Server\<close>
    (\<open>app/rpc_server.rs\<close>): the RPC methods that do more than pass a call on. \<open>App_Properties\<close>: a
    template is a valid block and on which block it builds when the mainchain has forked, a payment reported as sent waits in the
    mempool, and the swap that panics.

  \<^bold>\<open>Conventions.\<close> A database write transaction that fails is dropped by its caller, so an
  operation that returns \<open>Err\<close> or panics yields no state. Plain \<open>+\<close> and \<open>-\<close> that may overflow panic
  (overflow checks on). Hashing, sizes under Borsh, batch signature verification, the Merkle
  tree library, the integer square root and the Bitcoin library are fields of the record
  \<open>externs\<close>, a parameter of the definitions that use them; the properties that rely on their
  documented behaviour name it as a hypothesis, and \<open>demo_externs\<close> satisfies all of them.
  Loops over data are structural; the chunking of signatures, the mempool's worklist, the
  invalidation of blocks, the relay of a transaction and the dialing of a peer have termination
  proofs by a measure. Walks that follow parent hashes end only if the hashes have no cycle, and
  the mainchain node may answer for ever: these take fuel, and \<open>None\<close> says that it was too little.
  The iteration order of hash maps and sets is a parameter (\<open>hash_order\<close>, \<open>orders\<close>, \<open>bundle_order\<close>), as
  are the mainchain node (\<open>validator\<close>), name resolution and the QUIC endpoint. Key derivation,
  signing, encryption, randomness and the orders of coins and addresses in the wallet are fields of
  the record \<open>wallet_externs\<close>; the client of the mainchain that the application calls is an
  argument. An operation on the wallet or on the application is a function from its record to a
  result and the record after it, also after an error (\<open>stateful\<close>). Base58, Bech32, hexadecimal,
  SHA-256 and the consensus encoding are fields of \<open>format_externs\<close> and \<open>proto_externs\<close>, the services of
  the mainchain node of \<open>services\<close>; \<open>demo_proto\<close> satisfies the laws that are assumed. The asynchronous
  tasks are sequences of handler steps on a record; a channel is the list of what was sent.

  \<^bold>\<open>Not modelled.\<close> Storage-engine failures and version records; serialisation to JSON and
  Borsh, the protobuf encoding of messages; the key derivation and signature crates; QUIC streams with their timeouts and rate
  limits, the selection of the next mailbox item by the runtime, ZMQ notifications and watch
  streams; RPC methods that only pass a call on; the GUI, the command line and process start-up.
\<close>

end
